(* ===== verification/Roshi_Prelude.thy ===== *)
theory Roshi_Prelude
  imports Main "HOL-Library.Word"
begin

text \<open>
  The vocabulary every component shares: the machine integers of the Rust sources as words of
  their width, the checked, saturating and signed operations of the Rust standard library,
  slices and little-endian byte strings, and the two combinators that stand for the
  question-mark operator and for an early return.

  Facts that rewrite an operation on words into arithmetic on \<^typ>\<open>nat\<close> or \<^typ>\<open>int\<close> are
  collected in \<open>word_facts\<close>, facts that decompose a successful computation in
  \<open>result_facts\<close>, and round trips of byte encoders in \<open>codec_facts\<close>.
\<close>

named_theorems word_facts \<open>machine arithmetic read as unbounded arithmetic\<close>
named_theorems result_facts \<open>decomposition of computations that may fail\<close>
named_theorems codec_facts \<open>decoders undo encoders\<close>

type_synonym u8 = "8 word"
type_synonym u16 = "16 word"
type_synonym u32 = "32 word"
type_synonym u64 = "64 word"
type_synonym u128 = "128 word"
type_synonym i8 = "8 word"
type_synonym i32 = "32 word"
type_synonym i64 = "64 word"
type_synonym bytes = "8 word list"
type_synonym key = "256 word"

section \<open>Computations that may fail\<close>

text \<open>
  \<open>attempt m f\<close> is \<open>let x = m?; f(x)\<close>; \<open>check c e k\<close> is \<open>if !c { return Err(e) } k\<close>;
  \<open>ok_or\<close> is the method of the same name of \<open>Option\<close>.
\<close>

definition attempt :: "'e + 'a \<Rightarrow> ('a \<Rightarrow> 'e + 'b) \<Rightarrow> 'e + 'b" where
  "attempt m f = (case m of Inl e \<Rightarrow> Inl e | Inr x \<Rightarrow> f x)"

definition check :: "bool \<Rightarrow> 'e \<Rightarrow> 'e + 'b \<Rightarrow> 'e + 'b" where
  "check c e k = (if c then k else Inl e)"

definition ok_or :: "'a option \<Rightarrow> 'e \<Rightarrow> 'e + 'a" where
  "ok_or x e = (case x of None \<Rightarrow> Inl e | Some y \<Rightarrow> Inr y)"

definition map_err :: "('e \<Rightarrow> 'f) \<Rightarrow> 'e + 'a \<Rightarrow> 'f + 'a" where
  "map_err g m = (case m of Inl e \<Rightarrow> Inl (g e) | Inr x \<Rightarrow> Inr x)"

lemma attempt_simps [simp]:
  "attempt (Inl e) f = Inl e"
  "attempt (Inr x) f = f x"
  by (simp_all add: attempt_def)

lemma attempt_Inr_iff [result_facts]:
  "attempt m f = Inr y \<longleftrightarrow> (\<exists>x. m = Inr x \<and> f x = Inr y)"
  by (cases m) (auto simp: attempt_def)

lemma attempt_Inl_iff:
  "attempt m f = Inl e \<longleftrightarrow> m = Inl e \<or> (\<exists>x. m = Inr x \<and> f x = Inl e)"
  by (cases m) (auto simp: attempt_def)

lemma attempt_cong [fundef_cong]:
  "m = m' \<Longrightarrow> (\<And>x. m' = Inr x \<Longrightarrow> f x = f' x) \<Longrightarrow> attempt m f = attempt m' f'"
  by (auto simp: attempt_def split: sum.splits)

lemma check_simps [simp]:
  "check True e k = k"
  "check False e k = Inl e"
  by (simp_all add: check_def)

lemma check_Inr_iff [result_facts]: "check c e k = Inr y \<longleftrightarrow> c \<and> k = Inr y"
  by (simp add: check_def)

lemma check_cong [fundef_cong]:
  "c = c' \<Longrightarrow> e = e' \<Longrightarrow> (c' \<Longrightarrow> k = k') \<Longrightarrow> check c e k = check c' e' k'"
  by (simp add: check_def)

lemma ok_or_simps [simp]:
  "ok_or None e = Inl e"
  "ok_or (Some x) e = Inr x"
  by (simp_all add: ok_or_def)

lemma ok_or_Inr_iff [result_facts]: "ok_or x e = Inr y \<longleftrightarrow> x = Some y"
  by (cases x) auto

lemma ok_or_Inl_iff: "ok_or x e = Inl e' \<longleftrightarrow> x = None \<and> e' = e"
  by (cases x) auto

lemma map_err_simps [simp]:
  "map_err g (Inl e) = Inl (g e)"
  "map_err g (Inr x) = Inr x"
  by (simp_all add: map_err_def)

lemma map_err_Inr_iff [result_facts]: "map_err g m = Inr y \<longleftrightarrow> m = Inr y"
  by (cases m) (auto simp: map_err_def)

text \<open>\<open>map_M f xs\<close> is \<open>xs.iter().map(f).collect::<Result<Vec<_>, _>>()\<close>: the first error wins.\<close>

fun map_M :: "('a \<Rightarrow> 'e + 'b) \<Rightarrow> 'a list \<Rightarrow> 'e + 'b list" where
  "map_M f [] = Inr []"
| "map_M f (x # xs) = attempt (f x) (\<lambda>y. attempt (map_M f xs) (\<lambda>ys. Inr (y # ys)))"

lemma map_M_length: "map_M f xs = Inr ys \<Longrightarrow> length ys = length xs"
  by (induction xs arbitrary: ys) (auto simp: result_facts)

lemma map_M_nth: "map_M f xs = Inr ys \<Longrightarrow> i < length xs \<Longrightarrow> f (xs ! i) = Inr (ys ! i)"
proof (induction xs arbitrary: ys i)
  case Nil
  then show ?case by simp
next
  case (Cons x xs)
  then show ?case by (cases i) (auto simp: result_facts)
qed

section \<open>Unsigned machine integers\<close>

definition checked_add :: "'a::len word \<Rightarrow> 'a word \<Rightarrow> 'a word option" where
  "checked_add a b = (if unat a + unat b < 2 ^ LENGTH('a) then Some (a + b) else None)"

definition checked_sub :: "'a::len word \<Rightarrow> 'a word \<Rightarrow> 'a word option" where
  "checked_sub a b = (if b \<le> a then Some (a - b) else None)"

definition checked_mul :: "'a::len word \<Rightarrow> 'a word \<Rightarrow> 'a word option" where
  "checked_mul a b = (if unat a * unat b < 2 ^ LENGTH('a) then Some (a * b) else None)"

definition checked_pow :: "'a::len word \<Rightarrow> nat \<Rightarrow> 'a word option" where
  "checked_pow a n = (if unat a ^ n < 2 ^ LENGTH('a) then Some (a ^ n) else None)"

text \<open>\<open>u64::try_from\<close> and its siblings: the value if it fits the narrower type.\<close>

definition try_from :: "'a::len word \<Rightarrow> 'b::len word option" where
  "try_from w = (if unat w < 2 ^ LENGTH('b) then Some (ucast w) else None)"

definition saturating_sub :: "'a::len word \<Rightarrow> 'a word \<Rightarrow> 'a word" where
  "saturating_sub a b = (if b \<le> a then a - b else 0)"

lemma unat_lt_len [simp]: "unat (w :: 'a::len word) < 2 ^ LENGTH('a)"
  by (rule unsigned_less)

lemma unat_of_nat_small:
  "n < 2 ^ LENGTH('a) \<Longrightarrow> unat (word_of_nat n :: 'a::len word) = n"
  by (simp add: unat_of_nat)

lemma checked_add_Some_iff [word_facts]:
  "checked_add a b = Some c \<longleftrightarrow> unat c = unat a + unat (b :: 'a::len word)"
proof
  assume "checked_add a b = Some c"
  then show "unat c = unat a + unat b"
    by (auto simp: checked_add_def unat_word_ariths split: if_splits)
next
  assume c: "unat c = unat a + unat b"
  then have "unat a + unat b < 2 ^ LENGTH('a)" by (metis unat_lt_len)
  moreover from this c have "c = a + b"
    by (simp add: word_unat_eq_iff unat_word_ariths)
  ultimately show "checked_add a b = Some c" by (simp add: checked_add_def)
qed

lemma checked_add_None_iff:
  "checked_add a b = None \<longleftrightarrow> 2 ^ LENGTH('a) \<le> unat a + unat (b :: 'a::len word)"
  by (auto simp: checked_add_def)

lemma checked_sub_Some_iff [word_facts]:
  "checked_sub a b = Some c \<longleftrightarrow> unat a = unat b + unat (c :: 'a::len word)"
proof
  assume "checked_sub a b = Some c"
  then have "b \<le> a" and "c = a - b" by (auto simp: checked_sub_def split: if_splits)
  then show "unat a = unat b + unat c" by (simp add: unat_sub word_le_nat_alt)
next
  assume a: "unat a = unat b + unat c"
  then have "b \<le> a" by (simp add: word_le_nat_alt)
  moreover from this a have "c = a - b" by (simp add: word_unat_eq_iff unat_sub)
  ultimately show "checked_sub a b = Some c" by (simp add: checked_sub_def)
qed

lemma checked_sub_None_iff: "checked_sub a b = None \<longleftrightarrow> unat a < unat b"
  by (auto simp: checked_sub_def word_le_nat_alt)

lemma checked_mul_Some_iff [word_facts]:
  "checked_mul a b = Some c \<longleftrightarrow> unat c = unat a * unat (b :: 'a::len word)"
proof
  assume "checked_mul a b = Some c"
  then show "unat c = unat a * unat b"
    by (auto simp: checked_mul_def unat_word_ariths split: if_splits)
next
  assume c: "unat c = unat a * unat b"
  then have "unat a * unat b < 2 ^ LENGTH('a)" by (metis unat_lt_len)
  moreover from this c have "c = a * b"
    by (simp add: word_unat_eq_iff unat_word_ariths)
  ultimately show "checked_mul a b = Some c" by (simp add: checked_mul_def)
qed

lemma checked_mul_None_iff:
  "checked_mul a b = None \<longleftrightarrow> 2 ^ LENGTH('a) \<le> unat a * unat (b :: 'a::len word)"
  by (auto simp: checked_mul_def)

lemma unat_power_mod: "unat (a ^ n) = unat (a :: 'a::len word) ^ n mod 2 ^ LENGTH('a)"
proof (induction n)
  case 0
  then show ?case by (simp add: unat_word_ariths)
next
  case (Suc n)
  have "unat (a ^ Suc n) = unat a * (unat a ^ n mod 2 ^ LENGTH('a)) mod 2 ^ LENGTH('a)"
    by (simp add: unat_word_ariths Suc.IH)
  then show ?case by (simp add: mod_mult_right_eq)
qed

lemma checked_pow_Some_iff [word_facts]:
  "checked_pow a n = Some c \<longleftrightarrow> unat c = unat (a :: 'a::len word) ^ n"
proof
  assume "checked_pow a n = Some c"
  then show "unat c = unat a ^ n"
    by (auto simp: checked_pow_def unat_power_mod split: if_splits)
next
  assume c: "unat c = unat a ^ n"
  then have "unat a ^ n < 2 ^ LENGTH('a)" by (metis unat_lt_len)
  moreover from this c have "c = a ^ n"
    by (simp add: word_unat_eq_iff unat_power_mod)
  ultimately show "checked_pow a n = Some c" by (simp add: checked_pow_def)
qed

lemma checked_pow_None_iff:
  "checked_pow a n = None \<longleftrightarrow> 2 ^ LENGTH('a) \<le> unat (a :: 'a::len word) ^ n"
  by (auto simp: checked_pow_def)

lemma unat_ucast_up [simp]:
  "LENGTH('a) \<le> LENGTH('b) \<Longrightarrow> unat (ucast (w :: 'a::len word) :: 'b::len word) = unat w"
proof -
  assume le: "LENGTH('a) \<le> LENGTH('b)"
  have "unat w < 2 ^ LENGTH('a)" by simp
  also have "(2::nat) ^ LENGTH('a) \<le> 2 ^ LENGTH('b)" using le by (simp add: power_increasing)
  finally show ?thesis by (simp add: unsigned_ucast_eq take_bit_nat_eq_self)
qed

lemma try_from_Some_iff [word_facts]:
  "(try_from (w :: 'a::len word) :: 'b::len word option) = Some v \<longleftrightarrow> unat v = unat w"
proof
  assume "(try_from w :: 'b word option) = Some v"
  then show "unat v = unat w"
    by (auto simp: try_from_def unsigned_ucast_eq take_bit_nat_eq_self split: if_splits)
next
  assume v: "unat v = unat w"
  then have lt: "unat w < 2 ^ LENGTH('b)" by (metis unat_lt_len)
  have "unat (ucast w :: 'b word) = unat v"
    using lt v by (simp add: unsigned_ucast_eq take_bit_nat_eq_self)
  then show "(try_from w :: 'b word option) = Some v"
    using lt by (simp add: try_from_def word_unat_eq_iff)
qed

lemma try_from_None_iff:
  "(try_from (w :: 'a::len word) :: 'b::len word option) = None \<longleftrightarrow> 2 ^ LENGTH('b) \<le> unat w"
  by (auto simp: try_from_def)

lemma unat_add_small:
  "unat a + unat b < 2 ^ LENGTH('a) \<Longrightarrow> unat (a + b :: 'a::len word) = unat a + unat b"
  by (simp add: unat_word_ariths)

lemma unat_mult_small:
  "unat a * unat b < 2 ^ LENGTH('a) \<Longrightarrow> unat (a * b :: 'a::len word) = unat a * unat b"
  by (simp add: unat_word_ariths)

lemma unat_eq_0_iff: "unat (w :: 'a::len word) = 0 \<longleftrightarrow> w = 0"
  by (rule unat_eq_zero)

lemma unat_pos_iff: "0 < unat (w :: 'a::len word) \<longleftrightarrow> w \<noteq> 0"
  by (metis neq0_conv unat_eq_0_iff)

lemma unat_max [word_facts]: "unat (max a b :: 'a::len word) = max (unat a) (unat b)"
  by (simp add: max_def word_le_nat_alt)

lemma unat_u64_bound: "unat (w :: u64) \<le> 18446744073709551615"
  using unsigned_less [of w, where 'a = nat] by simp

lemma unat_u128_bound: "unat (w :: u128) \<le> 340282366920938463463374607431768211455"
  using unsigned_less [of w, where 'a = nat] by simp

lemma unat_u16_bound: "unat (w :: u16) \<le> 65535"
  using unsigned_less [of w, where 'a = nat] by simp

lemma unat_u8_bound: "unat (w :: u8) \<le> 255"
  using unsigned_less [of w, where 'a = nat] by simp

section \<open>Signed machine integers\<close>

text \<open>A signed integer is the word of its bits; \<^const>\<open>sint\<close> reads it in two's complement.\<close>

definition i64_checked_add :: "i64 \<Rightarrow> i64 \<Rightarrow> i64 option" where
  "i64_checked_add a b =
     (let r = sint a + sint b in if - (2 ^ 63) \<le> r \<and> r < 2 ^ 63 then Some (word_of_int r) else None)"

definition i64_checked_sub :: "i64 \<Rightarrow> i64 \<Rightarrow> i64 option" where
  "i64_checked_sub a b =
     (let r = sint a - sint b in if - (2 ^ 63) \<le> r \<and> r < 2 ^ 63 then Some (word_of_int r) else None)"

definition i64_saturating_sub :: "i64 \<Rightarrow> i64 \<Rightarrow> i64" where
  "i64_saturating_sub a b = word_of_int (max (- (2 ^ 63)) (min (2 ^ 63 - 1) (sint a - sint b)))"

definition i64_saturating_add :: "i64 \<Rightarrow> i64 \<Rightarrow> i64" where
  "i64_saturating_add a b = word_of_int (max (- (2 ^ 63)) (min (2 ^ 63 - 1) (sint a + sint b)))"

text \<open>\<open>u128::try_from\<close> on a signed value: negative values do not convert.\<close>

definition u128_try_from_i64 :: "i64 \<Rightarrow> u128 option" where
  "u128_try_from_i64 w = (if 0 \<le> sint w then Some (word_of_int (sint w)) else None)"

lemma sint_i64_range: "- (2 ^ 63) \<le> sint (w :: i64)" "sint (w :: i64) < 2 ^ 63"
  using sint_ge [of w] sint_lt [of w] by simp_all

lemma sint_of_int_i64 [simp]:
  "- (2 ^ 63) \<le> r \<Longrightarrow> r < 2 ^ 63 \<Longrightarrow> sint (word_of_int r :: i64) = r"
  by (simp add: sint_sbintrunc' signed_take_bit_int_eq_self)

lemma i64_eq_iff: "(a :: i64) = b \<longleftrightarrow> sint a = sint b"
  by (simp add: word_eq_iff_signed)

lemma i64_checked_add_Some_iff [word_facts]:
  "i64_checked_add a b = Some c \<longleftrightarrow> sint c = sint a + sint b"
proof -
  define r where "r = sint a + sint b"
  show ?thesis
    using sint_i64_range [of c]
    by (auto simp: i64_checked_add_def i64_eq_iff Let_def split: if_splits simp flip: r_def)
qed

lemma i64_checked_sub_Some_iff [word_facts]:
  "i64_checked_sub a b = Some c \<longleftrightarrow> sint c = sint a - sint b"
proof -
  define r where "r = sint a - sint b"
  show ?thesis
    using sint_i64_range [of c]
    by (auto simp: i64_checked_sub_def i64_eq_iff Let_def split: if_splits simp flip: r_def)
qed

lemma sint_i64_saturating_sub [word_facts]:
  "sint (i64_saturating_sub a b) = max (- (2 ^ 63)) (min (2 ^ 63 - 1) (sint a - sint b))"
  unfolding i64_saturating_sub_def by (rule sint_of_int_i64) auto

lemma sint_i64_saturating_add [word_facts]:
  "sint (i64_saturating_add a b) = max (- (2 ^ 63)) (min (2 ^ 63 - 1) (sint a + sint b))"
  unfolding i64_saturating_add_def by (rule sint_of_int_i64) auto

lemma u128_try_from_i64_Some_iff [word_facts]:
  "u128_try_from_i64 w = Some v \<longleftrightarrow> int (unat v) = sint w"
proof -
  have "uint (word_of_int r :: u128) = r" if "0 \<le> r" "r < 2 ^ 63" for r
    using that by (simp add: uint_word_of_int_eq take_bit_int_eq_self)
  then have small: "0 \<le> sint w \<Longrightarrow> uint (word_of_int (sint w) :: u128) = sint w"
    using sint_i64_range [of w] by blast
  show ?thesis
  proof
    assume "u128_try_from_i64 w = Some v"
    then show "int (unat v) = sint w"
      using small by (auto simp: u128_try_from_i64_def split: if_splits)
  next
    assume v: "int (unat v) = sint w"
    then have nn: "0 \<le> sint w" by (metis of_nat_0_le_iff)
    with small v have "uint v = uint (word_of_int (sint w) :: u128)" by simp
    with nn show "u128_try_from_i64 w = Some v"
      by (simp add: u128_try_from_i64_def word_eq_iff_unsigned [where 'a = int])
  qed
qed

section \<open>Slices and little-endian bytes\<close>

text \<open>\<open>data.get(a..b)\<close> of a Rust slice.\<close>

definition get_slice :: "'a list \<Rightarrow> nat \<Rightarrow> nat \<Rightarrow> 'a list option" where
  "get_slice xs a b = (if a \<le> b \<and> b \<le> length xs then Some (take (b - a) (drop a xs)) else None)"

definition get_nth :: "'a list \<Rightarrow> nat \<Rightarrow> 'a option" where
  "get_nth xs i = (if i < length xs then Some (xs ! i) else None)"

text \<open>\<open>dst[..src.len()].copy_from_slice(src)\<close>, for a source no longer than the destination.\<close>

definition overwrite_prefix :: "'a list \<Rightarrow> 'a list \<Rightarrow> 'a list" where
  "overwrite_prefix src dst = src @ drop (length src) dst"

lemma get_slice_length: "get_slice xs a b = Some ys \<Longrightarrow> length ys = b - a"
  by (auto simp: get_slice_def split: if_splits)

lemma get_slice_Some_iff:
  "get_slice xs a b = Some ys \<longleftrightarrow> a \<le> b \<and> b \<le> length xs \<and> ys = take (b - a) (drop a xs)"
  by (auto simp: get_slice_def)

lemma get_slice_append [simp]:
  "length pre = a \<Longrightarrow> length mid = b - a \<Longrightarrow> a \<le> b \<Longrightarrow> get_slice (pre @ mid @ post) a b = Some mid"
  by (auto simp: get_slice_def)

lemma get_nth_Some_iff: "get_nth xs i = Some x \<longleftrightarrow> i < length xs \<and> x = xs ! i"
  by (auto simp: get_nth_def)

text \<open>The \<open>n\<close> low bytes of a number, least significant first, and the number back.\<close>

fun le_bytes :: "nat \<Rightarrow> nat \<Rightarrow> bytes" where
  "le_bytes 0 x = []"
| "le_bytes (Suc n) x = word_of_nat (x mod 256) # le_bytes n (x div 256)"

fun le_value :: "bytes \<Rightarrow> nat" where
  "le_value [] = 0"
| "le_value (b # bs) = unat b + 256 * le_value bs"

lemma length_le_bytes [simp]: "length (le_bytes n x) = n"
  by (induction n arbitrary: x) auto

lemma unat_byte_of_mod [simp]: "unat (word_of_nat (x mod 256) :: u8) = x mod 256"
  by (simp add: unat_of_nat)

lemma le_value_le_bytes: "le_value (le_bytes n x) = x mod 256 ^ n"
proof (induction n arbitrary: x)
  case 0
  then show ?case by simp
next
  case (Suc n)
  have "le_value (le_bytes (Suc n) x) = x mod 256 + 256 * (x div 256 mod 256 ^ n)"
    by (simp add: Suc.IH)
  also have "\<dots> = x mod (256 * 256 ^ n)"
    by (simp only: mod_mult2_eq)
  finally show ?case by simp
qed

lemma le_value_bound: "le_value bs < 256 ^ length bs"
proof (induction bs)
  case Nil
  then show ?case by simp
next
  case (Cons b bs)
  have "unat b < 256" using unsigned_less [of b, where 'a = nat] by simp
  with Cons.IH show ?case by simp
qed

lemma le_bytes_le_value: "le_bytes (length bs) (le_value bs) = bs"
proof (induction bs)
  case Nil
  then show ?case by simp
next
  case (Cons b bs)
  have b: "unat b < 256" using unsigned_less [of b, where 'a = nat] by simp
  then have "(unat b + 256 * le_value bs) div 256 = le_value bs"
    and "(unat b + 256 * le_value bs) mod 256 = unat b" by simp_all
  with Cons.IH show ?case by simp
qed

definition to_le_bytes :: "'a::len word \<Rightarrow> bytes" where
  "to_le_bytes w = le_bytes (LENGTH('a) div 8) (unat w)"

definition from_le_bytes :: "bytes \<Rightarrow> 'a::len word" where
  "from_le_bytes bs = word_of_nat (le_value bs)"

lemma length_to_le_bytes [simp]: "length (to_le_bytes (w :: 'a::len word)) = LENGTH('a) div 8"
  by (simp add: to_le_bytes_def)

lemma from_to_le_bytes [simp, codec_facts]:
  assumes "8 dvd LENGTH('a)"
  shows "(from_le_bytes (to_le_bytes w) :: 'a::len word) = w"
proof -
  have "(256 :: nat) ^ (LENGTH('a) div 8) = 2 ^ (8 * (LENGTH('a) div 8))"
    by (simp add: power_mult)
  then have "(256 :: nat) ^ (LENGTH('a) div 8) = 2 ^ LENGTH('a)"
    using assms by simp
  then show ?thesis
    by (simp add: from_le_bytes_def to_le_bytes_def le_value_le_bytes)
qed

lemma to_from_le_bytes [simp, codec_facts]:
  assumes "8 * length bs = LENGTH('a)"
  shows "to_le_bytes (from_le_bytes bs :: 'a::len word) = bs"
proof -
  have "(256 :: nat) ^ length bs = 2 ^ (8 * length bs)"
    by (simp add: power_mult)
  with assms le_value_bound [of bs] have "le_value bs < 2 ^ LENGTH('a)" by simp
  then have "unat (word_of_nat (le_value bs) :: 'a word) = le_value bs"
    by (simp add: unat_of_nat)
  moreover have "LENGTH('a) div 8 = length bs" using assms by simp
  ultimately show ?thesis
    by (simp add: from_le_bytes_def to_le_bytes_def le_bytes_le_value)
qed

text \<open>
  A 32-byte array (an address, a hash, a feed id) is a 256-bit word read big-endian: the
  lexicographic order of the arrays is then the order of the words, and the all-zero array is 0.
\<close>

definition key_bytes :: "key \<Rightarrow> bytes" where
  "key_bytes k = rev (to_le_bytes k)"

definition key_of_bytes :: "bytes \<Rightarrow> key" where
  "key_of_bytes bs = from_le_bytes (rev bs)"

lemma length_key_bytes [simp]: "length (key_bytes k) = 32"
  by (simp add: key_bytes_def)

lemma key_of_key_bytes [simp, codec_facts]: "key_of_bytes (key_bytes k) = k"
  by (simp add: key_of_bytes_def key_bytes_def)

lemma key_bytes_of_bytes [simp, codec_facts]:
  "length bs = 32 \<Longrightarrow> key_bytes (key_of_bytes bs) = bs"
  by (simp add: key_of_bytes_def key_bytes_def)

lemma key_bytes_inject [simp]: "key_bytes a = key_bytes b \<longleftrightarrow> a = b"
  by (metis key_of_key_bytes)

lemma to_le_bytes_inject:
  "8 dvd LENGTH('a) \<Longrightarrow> to_le_bytes a = to_le_bytes b \<longleftrightarrow> a = (b :: 'a::len word)"
  by (metis from_to_le_bytes)

end
