(* ===== verification/Errors.thy ===== *)
theory Errors
  imports Roshi_Prelude
begin

text \<open>
  The two error types of the program: \<open>RoshiError\<close> of \<open>crates/interface/src/error.rs\<close> with its
  \<open>repr(u32)\<close> codes, and the variants of Solana's \<open>ProgramError\<close> the sources construct. A Roshi
  error leaves the program as \<open>ProgramError::Custom(error as u32)\<close>.
\<close>

datatype (plugins only: code) roshi_error =
    InvalidOp
  | InstructionSliceOutOfBounds
  | AccountIndexOutOfBounds
  | InvalidBps
  | VaultPaused
  | UnauthorizedAction
  | InvalidProgramConfigAccount
  | InvalidVaultAccount
  | InvalidActionAccount
  | InvalidWithdrawalTicketAccount
  | InvalidAssetAccount
  | InvalidAccessProof
  | InvalidVaultTag
  | DivisionByZero
  | InvalidDecimals
  | InvalidVaultState
  | Overflow
  | ResultDoesNotFit
  | ZeroOutput
  | SlippageExceeded
  | InvalidTokenAccount
  | InvalidMintAccount
  | ExternalDisabled
  | WithdrawalExceedsEntitlement
  | InsufficientShares
  | InvalidSubAccount
  | InvalidExternalDestinationAccount
  | InvalidWriteDownAmount
  | StaleNavReport
  | NavGainExceedsBound
  | ReportTooFrequent
  | DepositCapExceeded
  | ExternalDestinationNotRegistered
  | UnpriceableSwapLeg
  | MissingInstructionsSysvar
  | RequiredSiblingMissing
  | FlashDelegateUnbounded
  | FlashDelegateMismatch
  | FlashDestinationMismatch
  | SiblingsRequireTopLevel
  | DelegateNotCleared
  | FlashFeeRateNotLower
  | SwapCustodyMoved
  | EmptyAtomicRedeemOps
  | UnboundAtomicRedeemAccount
  | ZeroSharePrice
  | DepositsMustBePaused
  | EmptyDeployOps
  | UnboundDeployAccount
  | DeployAmountMismatch

primrec error_code :: "roshi_error \<Rightarrow> u32" where
    "error_code InvalidOp = 0"
  | "error_code InstructionSliceOutOfBounds = 1"
  | "error_code AccountIndexOutOfBounds = 2"
  | "error_code InvalidBps = 3"
  | "error_code VaultPaused = 4"
  | "error_code UnauthorizedAction = 5"
  | "error_code InvalidProgramConfigAccount = 6"
  | "error_code InvalidVaultAccount = 7"
  | "error_code InvalidActionAccount = 8"
  | "error_code InvalidWithdrawalTicketAccount = 9"
  | "error_code InvalidAssetAccount = 10"
  | "error_code InvalidAccessProof = 11"
  | "error_code InvalidVaultTag = 12"
  | "error_code DivisionByZero = 13"
  | "error_code InvalidDecimals = 14"
  | "error_code InvalidVaultState = 15"
  | "error_code Overflow = 16"
  | "error_code ResultDoesNotFit = 17"
  | "error_code ZeroOutput = 18"
  | "error_code SlippageExceeded = 19"
  | "error_code InvalidTokenAccount = 20"
  | "error_code InvalidMintAccount = 21"
  | "error_code ExternalDisabled = 22"
  | "error_code WithdrawalExceedsEntitlement = 23"
  | "error_code InsufficientShares = 24"
  | "error_code InvalidSubAccount = 25"
  | "error_code InvalidExternalDestinationAccount = 26"
  | "error_code InvalidWriteDownAmount = 27"
  | "error_code StaleNavReport = 28"
  | "error_code NavGainExceedsBound = 29"
  | "error_code ReportTooFrequent = 30"
  | "error_code DepositCapExceeded = 31"
  | "error_code ExternalDestinationNotRegistered = 32"
  | "error_code UnpriceableSwapLeg = 33"
  | "error_code MissingInstructionsSysvar = 34"
  | "error_code RequiredSiblingMissing = 35"
  | "error_code FlashDelegateUnbounded = 36"
  | "error_code FlashDelegateMismatch = 37"
  | "error_code FlashDestinationMismatch = 38"
  | "error_code SiblingsRequireTopLevel = 39"
  | "error_code DelegateNotCleared = 40"
  | "error_code FlashFeeRateNotLower = 41"
  | "error_code SwapCustodyMoved = 42"
  | "error_code EmptyAtomicRedeemOps = 43"
  | "error_code UnboundAtomicRedeemAccount = 44"
  | "error_code ZeroSharePrice = 45"
  | "error_code DepositsMustBePaused = 46"
  | "error_code EmptyDeployOps = 47"
  | "error_code UnboundDeployAccount = 48"
  | "error_code DeployAmountMismatch = 49"

text \<open>
  The runtime's errors that the program returns, the error of another program that a call passes
  through, and \<open>Panicked\<close> for a panic of the program itself, which the runtime turns into a
  failed instruction like any error.
\<close>

datatype program_error =
    Custom u32
  | InvalidArgument
  | InvalidInstructionData
  | InvalidAccountData
  | IncorrectProgramId
  | MissingRequiredSignature
  | AccountAlreadyInitialized
  | NotEnoughAccountKeys
  | AccountBorrowFailed
  | InvalidSeeds
  | IllegalOwner
  | ArithmeticOverflow
  | InvalidRealloc
  | InsufficientFunds
  | ExternalError u32
  | Panicked

text \<open>\<open>impl From<RoshiError> for ProgramError\<close>.\<close>

definition into_program_error :: "roshi_error \<Rightarrow> program_error" where
  "into_program_error error = Custom (error_code error)"

abbreviation lift_math :: "roshi_error + 'a \<Rightarrow> program_error + 'a" where
  "lift_math \<equiv> map_err into_program_error"

type_synonym 'a math_result = "roshi_error + 'a"
type_synonym 'a program_result = "program_error + 'a"

text \<open>The errors in the order of their declaration; \<open>error_code\<close> is the position in it.\<close>

definition all_roshi_errors :: "roshi_error list" where
  "all_roshi_errors =
    [InvalidOp, InstructionSliceOutOfBounds, AccountIndexOutOfBounds, InvalidBps,
     VaultPaused, UnauthorizedAction, InvalidProgramConfigAccount, InvalidVaultAccount,
     InvalidActionAccount, InvalidWithdrawalTicketAccount, InvalidAssetAccount, InvalidAccessProof,
     InvalidVaultTag, DivisionByZero, InvalidDecimals, InvalidVaultState,
     Overflow, ResultDoesNotFit, ZeroOutput, SlippageExceeded,
     InvalidTokenAccount, InvalidMintAccount, ExternalDisabled, WithdrawalExceedsEntitlement,
     InsufficientShares, InvalidSubAccount, InvalidExternalDestinationAccount, InvalidWriteDownAmount,
     StaleNavReport, NavGainExceedsBound, ReportTooFrequent, DepositCapExceeded,
     ExternalDestinationNotRegistered, UnpriceableSwapLeg, MissingInstructionsSysvar, RequiredSiblingMissing,
     FlashDelegateUnbounded, FlashDelegateMismatch, FlashDestinationMismatch, SiblingsRequireTopLevel,
     DelegateNotCleared, FlashFeeRateNotLower, SwapCustodyMoved, EmptyAtomicRedeemOps,
     UnboundAtomicRedeemAccount, ZeroSharePrice, DepositsMustBePaused, EmptyDeployOps,
     UnboundDeployAccount, DeployAmountMismatch]"

lemma error_code_position: "all_roshi_errors ! unat (error_code e) = e"
  by (cases e) (simp_all add: all_roshi_errors_def)

lemma error_code_inject [simp]: "error_code e = error_code e' \<longleftrightarrow> e = e'"
  by (metis error_code_position)

lemma into_program_error_inject [simp]: "into_program_error e = into_program_error e' \<longleftrightarrow> e = e'"
  by (simp add: into_program_error_def)

lemma into_program_error_distinct [simp]:
  "into_program_error e \<noteq> InvalidArgument" "into_program_error e \<noteq> InvalidInstructionData"
  "into_program_error e \<noteq> InvalidAccountData" "into_program_error e \<noteq> IncorrectProgramId"
  "into_program_error e \<noteq> MissingRequiredSignature" "into_program_error e \<noteq> InvalidSeeds"
  "into_program_error e \<noteq> IllegalOwner" "into_program_error e \<noteq> NotEnoughAccountKeys"
  by (simp_all add: into_program_error_def)

end
