(* ===== verification/Oracle_Config.thy ===== *)
theory Oracle_Config
  imports Math
begin

text \<open>
  \<open>crates/interface/src/oracle.rs\<close> and \<open>crates/interface/src/oracle/configs.rs\<close>: the three typed
  oracle configurations and the fixed 192-byte leg region, tagged by a kind byte, that vault and
  asset accounts store them in. The \<open>repr(C)\<close> layouts the sources document and transmute are the
  byte concatenations below; fixed-size byte arrays are words of their width, so that padding
  takes part in equality as it does in the derived \<open>PartialEq\<close>.

  The lemmas show that each constructor of \<open>OracleConfig\<close> is read back by \<open>active\<close> as exactly the
  configuration it was given, and what \<open>validate\<close> accepts.
\<close>

section \<open>Definitions\<close>

datatype oracle_kind = Switchboard | Pyth | Scope

primrec as_u8 :: "oracle_kind \<Rightarrow> u8" where
  "as_u8 Switchboard = 0"
| "as_u8 Pyth = 1"
| "as_u8 Scope = 2"

definition kind_from_u8 :: "u8 \<Rightarrow> oracle_kind option" where
  "kind_from_u8 k =
     (if k = 0 then Some Switchboard else if k = 1 then Some Pyth else if k = 2 then Some Scope else None)"

datatype invalid_oracle_config = InvalidOracleConfig

record switchboard_config =
  sb_quote_account :: key
  sb_queue_account :: key
  sb_feed_id :: key
  sb_max_age_slots :: u64
  sb_price_decimals :: u8
  sb_padding :: "56 word"

definition switchboard_config_new :: "key \<Rightarrow> key \<Rightarrow> key \<Rightarrow> u8 \<Rightarrow> u64 \<Rightarrow> switchboard_config" where
  "switchboard_config_new quote_account queue_account feed_id price_decimals max_age_slots =
     \<lparr>sb_quote_account = quote_account, sb_queue_account = queue_account, sb_feed_id = feed_id,
      sb_max_age_slots = max_age_slots, sb_price_decimals = price_decimals, sb_padding = 0\<rparr>"

record pyth_config =
  py_feed_id :: key
  py_price_update_account :: key
  py_max_age_seconds :: u64
  py_max_confidence_bps :: u16
  py_price_decimals :: u8
  py_padding :: "40 word"

definition pyth_config_new :: "key \<Rightarrow> u8 \<Rightarrow> u64 \<Rightarrow> u16 \<Rightarrow> pyth_config" where
  "pyth_config_new feed_id price_decimals max_age_seconds max_confidence_bps =
     \<lparr>py_feed_id = feed_id, py_price_update_account = 0, py_max_age_seconds = max_age_seconds,
      py_max_confidence_bps = max_confidence_bps, py_price_decimals = price_decimals, py_padding = 0\<rparr>"

definition pin_price_update_account :: "pyth_config \<Rightarrow> key \<Rightarrow> pyth_config" where
  "pin_price_update_account config account = config\<lparr>py_price_update_account := account\<rparr>"

definition pinned_price_update_account :: "pyth_config \<Rightarrow> key option" where
  "pinned_price_update_account config =
     (if py_price_update_account config = 0 then None else Some (py_price_update_account config))"

record scope_mapping =
  sm_price_info_account :: key
  sm_twap_source_or_ref_price_tolerance_bps :: u16
  sm_ref_price :: u16
  sm_generic :: "160 word"
  sm_price_type :: u8
  sm_twap_enabled_bitmask :: u8
  sm_padding :: "48 word"

definition scope_mapping_new :: "key \<Rightarrow> u8 \<Rightarrow> u16 \<Rightarrow> u8 \<Rightarrow> u16 \<Rightarrow> 160 word \<Rightarrow> scope_mapping" where
  "scope_mapping_new price_info_account price_type tolerance_bps bitmask ref_price generic =
     \<lparr>sm_price_info_account = price_info_account,
      sm_twap_source_or_ref_price_tolerance_bps = tolerance_bps, sm_ref_price = ref_price,
      sm_generic = generic, sm_price_type = price_type, sm_twap_enabled_bitmask = bitmask,
      sm_padding = 0\<rparr>"

record scope_config =
  sc_prices_account :: key
  sc_mapping :: scope_mapping
  sc_max_age_seconds :: u64
  sc_price_index :: u16
  sc_padding :: "48 word"

definition SCOPE_MAX_ENTRIES :: u16 where "SCOPE_MAX_ENTRIES = 512"
definition SCOPE_MAX_PRICE_TYPE :: u8 where "SCOPE_MAX_PRICE_TYPE = 0x7F"

definition scope_config_new :: "key \<Rightarrow> scope_mapping \<Rightarrow> u16 \<Rightarrow> u64 \<Rightarrow> scope_config" where
  "scope_config_new prices_account mapping price_index max_age_seconds =
     \<lparr>sc_prices_account = prices_account, sc_mapping = mapping,
      sc_max_age_seconds = max_age_seconds, sc_price_index = price_index, sc_padding = 0\<rparr>"

definition bytes_are_zero :: "bytes \<Rightarrow> bool" where
  "bytes_are_zero bs = list_all (\<lambda>b. b = 0) bs"

definition scope_has_canonical_padding :: "scope_config \<Rightarrow> bool" where
  "scope_has_canonical_padding config \<longleftrightarrow>
     bytes_are_zero (to_le_bytes (sc_padding config)) \<and>
     bytes_are_zero (to_le_bytes (sm_padding (sc_mapping config)))"

datatype active_oracle_config =
    ActiveSwitchboard switchboard_config
  | ActivePyth pyth_config
  | ActiveScope scope_config

definition LEGS_SIZE :: nat where "LEGS_SIZE = 192"
definition SWITCHBOARD_LEG_OFFSET :: nat where "SWITCHBOARD_LEG_OFFSET = 0"
definition PYTH_LEG_OFFSET :: nat where "PYTH_LEG_OFFSET = 112"
definition SCOPE_LEG_OFFSET :: nat where "SCOPE_LEG_OFFSET = 0"

text \<open>The copy loops of the leg region: one byte per round.\<close>

fun write_leg :: "bytes \<Rightarrow> nat \<Rightarrow> bytes \<Rightarrow> bytes" where
  "write_leg legs offset [] = legs"
| "write_leg legs offset (b # bs) = write_leg (legs[offset := b]) (Suc offset) bs"

fun read_leg :: "bytes \<Rightarrow> nat \<Rightarrow> nat \<Rightarrow> bytes" where
  "read_leg legs offset 0 = []"
| "read_leg legs offset (Suc n) = legs ! offset # read_leg legs (Suc offset) n"

definition switchboard_to_leg_bytes :: "switchboard_config \<Rightarrow> bytes" where
  "switchboard_to_leg_bytes c =
     key_bytes (sb_quote_account c) @ key_bytes (sb_queue_account c) @ key_bytes (sb_feed_id c) @
     to_le_bytes (sb_max_age_slots c) @ to_le_bytes (sb_price_decimals c) @ to_le_bytes (sb_padding c)"

definition switchboard_from_leg_bytes :: "bytes \<Rightarrow> switchboard_config" where
  "switchboard_from_leg_bytes bs =
     \<lparr>sb_quote_account = key_of_bytes (take 32 bs),
      sb_queue_account = key_of_bytes (take 32 (drop 32 bs)),
      sb_feed_id = key_of_bytes (take 32 (drop 64 bs)),
      sb_max_age_slots = from_le_bytes (take 8 (drop 96 bs)),
      sb_price_decimals = from_le_bytes (take 1 (drop 104 bs)),
      sb_padding = from_le_bytes (take 7 (drop 105 bs))\<rparr>"

definition pyth_to_leg_bytes :: "pyth_config \<Rightarrow> bytes" where
  "pyth_to_leg_bytes c =
     key_bytes (py_feed_id c) @ key_bytes (py_price_update_account c) @
     to_le_bytes (py_max_age_seconds c) @ to_le_bytes (py_max_confidence_bps c) @
     to_le_bytes (py_price_decimals c) @ to_le_bytes (py_padding c)"

definition pyth_from_leg_bytes :: "bytes \<Rightarrow> pyth_config" where
  "pyth_from_leg_bytes bs =
     \<lparr>py_feed_id = key_of_bytes (take 32 bs),
      py_price_update_account = key_of_bytes (take 32 (drop 32 bs)),
      py_max_age_seconds = from_le_bytes (take 8 (drop 64 bs)),
      py_max_confidence_bps = from_le_bytes (take 2 (drop 72 bs)),
      py_price_decimals = from_le_bytes (take 1 (drop 74 bs)),
      py_padding = from_le_bytes (take 5 (drop 75 bs))\<rparr>"

definition scope_mapping_bytes :: "scope_mapping \<Rightarrow> bytes" where
  "scope_mapping_bytes m =
     key_bytes (sm_price_info_account m) @
     to_le_bytes (sm_twap_source_or_ref_price_tolerance_bps m) @ to_le_bytes (sm_ref_price m) @
     to_le_bytes (sm_generic m) @ to_le_bytes (sm_price_type m) @
     to_le_bytes (sm_twap_enabled_bitmask m) @ to_le_bytes (sm_padding m)"

definition scope_mapping_of_bytes :: "bytes \<Rightarrow> scope_mapping" where
  "scope_mapping_of_bytes bs =
     \<lparr>sm_price_info_account = key_of_bytes (take 32 bs),
      sm_twap_source_or_ref_price_tolerance_bps = from_le_bytes (take 2 (drop 32 bs)),
      sm_ref_price = from_le_bytes (take 2 (drop 34 bs)),
      sm_generic = from_le_bytes (take 20 (drop 36 bs)),
      sm_price_type = from_le_bytes (take 1 (drop 56 bs)),
      sm_twap_enabled_bitmask = from_le_bytes (take 1 (drop 57 bs)),
      sm_padding = from_le_bytes (take 6 (drop 58 bs))\<rparr>"

definition scope_to_leg_bytes :: "scope_config \<Rightarrow> bytes" where
  "scope_to_leg_bytes c =
     key_bytes (sc_prices_account c) @ scope_mapping_bytes (sc_mapping c) @
     to_le_bytes (sc_max_age_seconds c) @ to_le_bytes (sc_price_index c) @ to_le_bytes (sc_padding c)"

definition scope_from_leg_bytes :: "bytes \<Rightarrow> scope_config" where
  "scope_from_leg_bytes bs =
     \<lparr>sc_prices_account = key_of_bytes (take 32 bs),
      sc_mapping = scope_mapping_of_bytes (take 64 (drop 32 bs)),
      sc_max_age_seconds = from_le_bytes (take 8 (drop 96 bs)),
      sc_price_index = from_le_bytes (take 2 (drop 104 bs)),
      sc_padding = from_le_bytes (take 6 (drop 106 bs))\<rparr>"

record oracle_config =
  oc_legs :: bytes
  oc_kind :: u8
  oc_padding :: "56 word"

text \<open>The array type \<open>[u8; 192]\<close> of the leg region, as a predicate.\<close>

definition wf_oracle_config :: "oracle_config \<Rightarrow> bool" where
  "wf_oracle_config oc \<longleftrightarrow> length (oc_legs oc) = LEGS_SIZE"

definition oracle_kind_of :: "oracle_config \<Rightarrow> invalid_oracle_config + oracle_kind" where
  "oracle_kind_of oc = (case kind_from_u8 (oc_kind oc) of Some k \<Rightarrow> Inr k | None \<Rightarrow> Inl InvalidOracleConfig)"

definition oc_switchboard_config :: "oracle_config \<Rightarrow> switchboard_config" where
  "oc_switchboard_config oc =
     switchboard_from_leg_bytes (read_leg (oc_legs oc) SWITCHBOARD_LEG_OFFSET 112)"

definition oc_pyth_config :: "oracle_config \<Rightarrow> pyth_config" where
  "oc_pyth_config oc = pyth_from_leg_bytes (read_leg (oc_legs oc) PYTH_LEG_OFFSET 80)"

definition oc_scope_config :: "oracle_config \<Rightarrow> scope_config" where
  "oc_scope_config oc = scope_from_leg_bytes (read_leg (oc_legs oc) SCOPE_LEG_OFFSET 112)"

definition scope_tail_is_zero :: "oracle_config \<Rightarrow> bool" where
  "scope_tail_is_zero oc = list_all (\<lambda>b. b = 0) (drop 112 (oc_legs oc))"

definition active :: "oracle_config \<Rightarrow> invalid_oracle_config + active_oracle_config" where
  "active oc = (case oracle_kind_of oc of
       Inr Switchboard \<Rightarrow> Inr (ActiveSwitchboard (oc_switchboard_config oc))
     | Inr Pyth \<Rightarrow> Inr (ActivePyth (oc_pyth_config oc))
     | Inr Scope \<Rightarrow> Inr (ActiveScope (oc_scope_config oc))
     | Inl error \<Rightarrow> Inl error)"

definition oracle_validate :: "oracle_config \<Rightarrow> invalid_oracle_config + unit" where
  "oracle_validate oc = (case active oc of
       Inr (ActivePyth config) \<Rightarrow>
         if py_max_confidence_bps config = 0 then Inl InvalidOracleConfig else Inr ()
     | Inr (ActiveSwitchboard _) \<Rightarrow> Inr ()
     | Inr (ActiveScope config) \<Rightarrow>
         if SCOPE_MAX_ENTRIES \<le> sc_price_index config
            \<or> SCOPE_MAX_PRICE_TYPE < sm_price_type (sc_mapping config)
            \<or> \<not> scope_has_canonical_padding config
            \<or> \<not> scope_tail_is_zero oc
         then Inl InvalidOracleConfig else Inr ()
     | Inl error \<Rightarrow> Inl error)"

definition oc_switchboard :: "switchboard_config \<Rightarrow> oracle_config" where
  "oc_switchboard config =
     \<lparr>oc_legs = write_leg (replicate LEGS_SIZE 0) SWITCHBOARD_LEG_OFFSET (switchboard_to_leg_bytes config),
      oc_kind = as_u8 Switchboard, oc_padding = 0\<rparr>"

definition oc_pyth :: "pyth_config \<Rightarrow> oracle_config" where
  "oc_pyth config =
     \<lparr>oc_legs = write_leg (replicate LEGS_SIZE 0) PYTH_LEG_OFFSET (pyth_to_leg_bytes config),
      oc_kind = as_u8 Pyth, oc_padding = 0\<rparr>"

definition oc_scope :: "scope_config \<Rightarrow> oracle_config" where
  "oc_scope config =
     \<lparr>oc_legs = write_leg (replicate LEGS_SIZE 0) SCOPE_LEG_OFFSET (scope_to_leg_bytes config),
      oc_kind = as_u8 Scope, oc_padding = 0\<rparr>"

definition oracle_config_default :: oracle_config where
  "oracle_config_default = oc_switchboard (switchboard_config_new 0 0 0 0 0)"

lemmas oracle_offset_defs = LEGS_SIZE_def SWITCHBOARD_LEG_OFFSET_def PYTH_LEG_OFFSET_def SCOPE_LEG_OFFSET_def

section \<open>The leg region\<close>

lemma kind_from_as_u8 [simp]: "kind_from_u8 (as_u8 k) = Some k"
  by (cases k) (simp_all add: kind_from_u8_def)

lemma length_write_leg [simp]: "length (write_leg legs off bs) = length legs"
  by (induction bs arbitrary: legs off) auto

lemma write_leg_eq:
  "off + length bs \<le> length legs \<Longrightarrow>
   write_leg legs off bs = take off legs @ bs @ drop (off + length bs) legs"
proof (induction bs arbitrary: legs off)
  case Nil
  then show ?case by simp
next
  case (Cons b bs)
  then have "write_leg legs off (b # bs) =
    take (Suc off) (legs[off := b]) @ bs @ drop (Suc off + length bs) (legs[off := b])" by simp
  also have "take (Suc off) (legs[off := b]) = take off legs @ [b]"
    using Cons.prems by (simp add: take_Suc_conv_app_nth)
  also have "drop (Suc off + length bs) (legs[off := b]) = drop (off + length (b # bs)) legs"
    by simp
  finally show ?case by simp
qed

lemma read_leg_eq:
  "off + n \<le> length legs \<Longrightarrow> read_leg legs off n = take n (drop off legs)"
proof (induction n arbitrary: off)
  case 0
  then show ?case by simp
next
  case (Suc n)
  then have "drop off legs = legs ! off # drop (Suc off) legs" by (simp add: Cons_nth_drop_Suc)
  with Suc show ?case by simp
qed

lemma read_write_leg:
  assumes "off + length bs \<le> length legs" and "n = length bs"
  shows "read_leg (write_leg legs off bs) off n = bs"
  using assms by (simp add: read_leg_eq write_leg_eq)

section \<open>Layout round trips\<close>

lemma length_leg_bytes [simp]:
  "length (switchboard_to_leg_bytes sb) = 112"
  "length (pyth_to_leg_bytes py) = 80"
  "length (scope_mapping_bytes m) = 64"
  "length (scope_to_leg_bytes sc) = 112"
  by (simp_all add: switchboard_to_leg_bytes_def pyth_to_leg_bytes_def scope_mapping_bytes_def
      scope_to_leg_bytes_def)

lemma switchboard_leg_round_trip [simp, codec_facts]:
  "switchboard_from_leg_bytes (switchboard_to_leg_bytes c) = c"
  by (cases c) (simp add: switchboard_from_leg_bytes_def switchboard_to_leg_bytes_def)

lemma pyth_leg_round_trip [simp, codec_facts]: "pyth_from_leg_bytes (pyth_to_leg_bytes c) = c"
  by (cases c) (simp add: pyth_from_leg_bytes_def pyth_to_leg_bytes_def)

lemma scope_mapping_round_trip [simp, codec_facts]: "scope_mapping_of_bytes (scope_mapping_bytes m) = m"
  by (cases m) (simp add: scope_mapping_of_bytes_def scope_mapping_bytes_def)

lemma scope_leg_round_trip [simp, codec_facts]: "scope_from_leg_bytes (scope_to_leg_bytes c) = c"
  by (cases c) (simp add: scope_from_leg_bytes_def scope_to_leg_bytes_def)

lemma active_oc_switchboard [simp]: "active (oc_switchboard c) = Inr (ActiveSwitchboard c)"
  by (simp add: active_def oracle_kind_of_def oc_switchboard_def oc_switchboard_config_def read_write_leg
      oracle_offset_defs kind_from_u8_def)

lemma active_oc_pyth [simp]: "active (oc_pyth c) = Inr (ActivePyth c)"
  by (simp add: active_def oracle_kind_of_def oc_pyth_def oc_pyth_config_def read_write_leg
      oracle_offset_defs kind_from_u8_def)

lemma active_oc_scope [simp]: "active (oc_scope c) = Inr (ActiveScope c)"
  by (simp add: active_def oracle_kind_of_def oc_scope_def oc_scope_config_def read_write_leg
      oracle_offset_defs kind_from_u8_def)

lemma wf_constructors [simp]:
  "wf_oracle_config (oc_switchboard sb)" "wf_oracle_config (oc_pyth py)" "wf_oracle_config (oc_scope sc)"
  by (simp_all add: wf_oracle_config_def oc_switchboard_def oc_pyth_def oc_scope_def LEGS_SIZE_def)

lemma scope_tail_of_constructor: "scope_tail_is_zero (oc_scope c)"
  by (simp add: scope_tail_is_zero_def oc_scope_def write_leg_eq oracle_offset_defs list_all_iff)

lemma bytes_are_zero_0 [simp]: "bytes_are_zero (to_le_bytes (0 :: 'a::len word))"
proof -
  have "list_all (\<lambda>b. b = 0) (le_bytes n 0)" for n by (induction n) auto
  then show ?thesis by (simp add: bytes_are_zero_def to_le_bytes_def)
qed

lemma validate_default: "oracle_validate oracle_config_default = Inr ()"
  by (simp add: oracle_validate_def oracle_config_default_def)

lemma validate_switchboard [simp]: "oracle_validate (oc_switchboard c) = Inr ()"
  by (simp add: oracle_validate_def)

end
