(* ===== verification/Access.thy ===== *)
theory Access
  imports Roshi_Prelude "HOL-Library.Product_Lexorder"
begin

text \<open>
  The allowlist of a private vault: the on-chain proof check of
  \<open>crates/interface/src/access.rs\<close> and the client's tree builder of
  \<open>crates/client/src/access.rs\<close>. The hash function is a parameter (\<open>sha\<close>, of the crate
  \<open>solana_sha256_hasher\<close>): every definition takes it, and nothing is assumed about it.

  The lemmas connect the two sides: the path the client extracts from its layers folds, under
  the on-chain node function, to the client's root.
\<close>

section \<open>Definitions\<close>

definition ascii :: "string \<Rightarrow> bytes" where
  "ascii s = map of_char s"

definition ACCESS_LEAF_DOMAIN :: bytes where
  "ACCESS_LEAF_DOMAIN = ascii ''roshi:vault-access:leaf:v1''"

definition ACCESS_NODE_DOMAIN :: bytes where
  "ACCESS_NODE_DOMAIN = ascii ''roshi:vault-access:node:v1''"

definition EMPTY_ACCESS_MERKLE_ROOT :: key where "EMPTY_ACCESS_MERKLE_ROOT = 0"
definition MAX_ACCESS_PROOF_LEN :: nat where "MAX_ACCESS_PROOF_LEN = 32"

definition access_merkle_leaf :: "(bytes \<Rightarrow> key) \<Rightarrow> key \<Rightarrow> key" where
  "access_merkle_leaf sha owner = sha (ACCESS_LEAF_DOMAIN @ key_bytes owner)"

definition access_merkle_node :: "(bytes \<Rightarrow> key) \<Rightarrow> key \<Rightarrow> key \<Rightarrow> key" where
  "access_merkle_node sha left right =
     (let (first, second) = (if left \<le> right then (left, right) else (right, left))
      in sha (ACCESS_NODE_DOMAIN @ key_bytes first @ key_bytes second))"

definition verify_access_merkle_proof :: "(bytes \<Rightarrow> key) \<Rightarrow> key \<Rightarrow> key \<Rightarrow> key list \<Rightarrow> bool" where
  "verify_access_merkle_proof sha owner merkle_root proof =
     (if MAX_ACCESS_PROOF_LEN < length proof then False
      else foldl (access_merkle_node sha) (access_merkle_leaf sha owner) proof = merkle_root)"

record access_entry =
  entry_owner :: key
  entry_leaf :: key

record access_tree =
  tree_entries :: "access_entry list"
  tree_layers :: "key list list"

text \<open>\<open>Vec::dedup_by\<close>: of every run of entries with one owner, the first stays.\<close>

fun dedup_by_owner :: "access_entry list \<Rightarrow> access_entry list" where
  "dedup_by_owner [] = []"
| "dedup_by_owner [e] = [e]"
| "dedup_by_owner (e # f # es) =
     (if entry_owner f = entry_owner e then dedup_by_owner (e # es)
      else e # dedup_by_owner (f # es))"

text \<open>One round of the layer loop: \<open>chunks(2)\<close>, an odd last node moves up unchanged.\<close>

fun next_layer :: "(bytes \<Rightarrow> key) \<Rightarrow> key list \<Rightarrow> key list" where
  "next_layer sha [] = []"
| "next_layer sha [n] = [n]"
| "next_layer sha (l # r # ns) = access_merkle_node sha l r # next_layer sha ns"

lemma length_next_layer: "length (next_layer sha ns) = (length ns + 1) div 2"
  by (induction sha ns rule: next_layer.induct) auto

function build_layers :: "(bytes \<Rightarrow> key) \<Rightarrow> key list \<Rightarrow> key list list" where
  "build_layers sha current =
     (if 1 < length current then current # build_layers sha (next_layer sha current) else [current])"
  by pat_completeness auto
termination
  by (relation "measure (\<lambda>(sha, current). length current)") (auto simp: length_next_layer)

declare build_layers.simps [simp del]

definition access_tree_new :: "(bytes \<Rightarrow> key) \<Rightarrow> key list \<Rightarrow> access_tree" where
  "access_tree_new sha owners =
     (let entries = map (\<lambda>owner. \<lparr>entry_owner = owner, entry_leaf = access_merkle_leaf sha owner\<rparr>) owners;
          sorted = sort_key (\<lambda>e. (entry_leaf e, entry_owner e)) entries;
          deduped = dedup_by_owner sorted
      in \<lparr>tree_entries = deduped,
          tree_layers = (if deduped = [] then [] else build_layers sha (map entry_leaf deduped))\<rparr>)"

definition tree_root :: "access_tree \<Rightarrow> key" where
  "tree_root t =
     (if tree_layers t = [] then EMPTY_ACCESS_MERKLE_ROOT
      else case last (tree_layers t) of [] \<Rightarrow> EMPTY_ACCESS_MERKLE_ROOT | n # _ \<Rightarrow> n)"

fun entry_position :: "access_entry list \<Rightarrow> key \<Rightarrow> nat option" where
  "entry_position [] owner = None"
| "entry_position (e # es) owner =
     (if entry_owner e = owner then Some 0 else map_option Suc (entry_position es owner))"

fun proof_path :: "key list list \<Rightarrow> nat \<Rightarrow> key list" where
  "proof_path [] index = []"
| "proof_path (layer # layers) index =
     (if length layer \<le> 1 then []
      else let sibling_index = (if index mod 2 = 0 then index + 1 else index - 1)
           in (if sibling_index < length layer then [layer ! sibling_index] else [])
              @ proof_path layers (index div 2))"

definition tree_proof :: "access_tree \<Rightarrow> key \<Rightarrow> key list option" where
  "tree_proof t owner =
     (case entry_position (tree_entries t) owner of
        None \<Rightarrow> None
      | Some index \<Rightarrow>
          (let proof = proof_path (tree_layers t) index
           in if length proof \<le> MAX_ACCESS_PROOF_LEN then Some proof else None))"

definition tree_contains :: "access_tree \<Rightarrow> key \<Rightarrow> bool" where
  "tree_contains t owner = list_ex (\<lambda>e. entry_owner e = owner) (tree_entries t)"

section \<open>The path of a leaf folds to the root\<close>

lemma access_merkle_node_commute: "access_merkle_node sha a b = access_merkle_node sha b a"
  by (auto simp: access_merkle_node_def)

lemma next_layer_nth:
  "2 * j + 1 < length ns \<Longrightarrow> next_layer sha ns ! j = access_merkle_node sha (ns ! (2 * j)) (ns ! (2 * j + 1))"
proof (induction sha ns arbitrary: j rule: next_layer.induct)
  case (3 sha l r ns)
  then show ?case by (cases j) auto
qed auto

lemma next_layer_nth_odd:
  "length ns = 2 * j + 1 \<Longrightarrow> next_layer sha ns ! j = ns ! (2 * j)"
proof (induction sha ns arbitrary: j rule: next_layer.induct)
  case (3 sha l r ns)
  then show ?case by (cases j) auto
qed auto

text \<open>One level: combining a node with its sibling, if it has one, is the node above it.\<close>

lemma next_layer_step:
  fixes index :: nat
  assumes "index < length layer" and "1 < length layer"
  defines "sibling \<equiv> (if index mod 2 = 0 then index + 1 else index - 1)"
  shows "foldl (access_merkle_node sha) (layer ! index)
           (if sibling < length layer then [layer ! sibling] else []) =
         next_layer sha layer ! (index div 2)"
proof (cases "index mod 2 = 0")
  case True
  then obtain j where j: "index = 2 * j" by (metis mod_0_imp_dvd dvd_def)
  show ?thesis
  proof (cases "index + 1 < length layer")
    case True
    with j show ?thesis by (simp add: sibling_def next_layer_nth)
  next
    case False
    with assms(1) j have "length layer = 2 * j + 1" by simp
    with j show ?thesis by (simp add: sibling_def next_layer_nth_odd)
  qed
next
  case False
  then obtain j where j: "index = 2 * j + 1" by (metis oddE even_iff_mod_2_eq_zero)
  with assms(1) show ?thesis
    by (simp add: sibling_def next_layer_nth access_merkle_node_commute)
qed

lemma proof_path_folds:
  "index < length current \<Longrightarrow>
   foldl (access_merkle_node sha) (current ! index) (proof_path (build_layers sha current) index)
     = hd (last (build_layers sha current)) \<and> length (last (build_layers sha current)) = 1"
proof (induction sha current arbitrary: index rule: build_layers.induct)
  case (1 sha current)
  show ?case
  proof (cases "1 < length current")
    case True
    let ?next = "next_layer sha current"
    have "build_layers sha ?next \<noteq> []" by (subst build_layers.simps) simp
    moreover have "index div 2 < length ?next" using "1.prems" by (simp add: length_next_layer)
    ultimately show ?thesis
      using "1.IH" [OF True] True next_layer_step [OF "1.prems" True, of sha]
      by (simp add: build_layers.simps [of sha current] Let_def)
  next
    case False
    then have "length current = 1" using "1.prems" by simp
    then obtain n where n: "current = [n]" by (cases current) auto
    then have "build_layers sha current = [[n]]" by (simp add: build_layers.simps [of sha "[n]"])
    with n show ?thesis using "1.prems" by simp
  qed
qed

lemma proof_path_length:
  "length current \<le> 2 ^ d \<Longrightarrow> length (proof_path (build_layers sha current) index) \<le> d"
proof (induction sha current arbitrary: index d rule: build_layers.induct)
  case (1 sha current)
  show ?case
  proof (cases "1 < length current")
    case True
    with "1.prems" obtain d' where d: "d = Suc d'" by (cases d) auto
    with "1.prems" have "length (next_layer sha current) \<le> 2 ^ d'"
      by (simp add: length_next_layer)
    then have "length (proof_path (build_layers sha (next_layer sha current)) (index div 2)) \<le> d'"
      by (rule "1.IH" [OF True])
    with True d show ?thesis by (simp add: build_layers.simps [of sha current] Let_def)
  next
    case False
    then show ?thesis by (simp add: build_layers.simps [of sha current])
  qed
qed

lemma entry_position_Some:
  "entry_position es owner = Some i \<Longrightarrow> i < length es \<and> entry_owner (es ! i) = owner"
  by (induction es arbitrary: i) (auto split: if_splits)

lemma entry_position_None_iff:
  "entry_position es owner = None \<longleftrightarrow> owner \<notin> entry_owner ` set es"
  by (induction es) auto

lemma set_dedup_owners: "entry_owner ` set (dedup_by_owner es) = entry_owner ` set es"
  by (induction es rule: dedup_by_owner.induct) auto

lemma set_dedup_subset: "set (dedup_by_owner es) \<subseteq> set es"
  by (induction es rule: dedup_by_owner.induct) auto

lemma length_dedup: "length (dedup_by_owner es) \<le> length es"
  by (induction es rule: dedup_by_owner.induct) auto

lemma tree_entries_facts:
  shows tree_owners: "entry_owner ` set (tree_entries (access_tree_new sha owners)) = set owners"
    and tree_leaves: "e \<in> set (tree_entries (access_tree_new sha owners)) \<Longrightarrow>
      entry_leaf e = access_merkle_leaf sha (entry_owner e)"
    and tree_entries_length: "length (tree_entries (access_tree_new sha owners)) \<le> length owners"
proof -
  let ?es = "map (\<lambda>owner. \<lparr>entry_owner = owner, entry_leaf = access_merkle_leaf sha owner\<rparr>) owners"
  let ?s = "sort_key (\<lambda>e. (entry_leaf e, entry_owner e)) ?es"
  have t: "tree_entries (access_tree_new sha owners) = dedup_by_owner ?s"
    by (simp add: access_tree_new_def Let_def)
  show "entry_owner ` set (tree_entries (access_tree_new sha owners)) = set owners"
    by (simp add: t set_dedup_owners image_image)
  show "length (tree_entries (access_tree_new sha owners)) \<le> length owners"
    using length_dedup [of ?s] by (simp add: t)
  assume "e \<in> set (tree_entries (access_tree_new sha owners))"
  then have "e \<in> set ?es" using set_dedup_subset [of ?s] by (auto simp: t)
  then show "entry_leaf e = access_merkle_leaf sha (entry_owner e)" by auto
qed

lemma tree_proof_verifies:
  assumes "tree_proof (access_tree_new sha owners) owner = Some proof"
  shows "verify_access_merkle_proof sha owner (tree_root (access_tree_new sha owners)) proof"
proof -
  let ?t = "access_tree_new sha owners"
  let ?leaves = "map entry_leaf (tree_entries ?t)"
  from assms obtain i where i: "entry_position (tree_entries ?t) owner = Some i"
    and p: "proof = proof_path (tree_layers ?t) i" "length proof \<le> MAX_ACCESS_PROOF_LEN"
    by (auto simp: tree_proof_def Let_def split: option.splits if_splits)
  from entry_position_Some [OF i] have lt: "i < length (tree_entries ?t)"
    and own: "entry_owner (tree_entries ?t ! i) = owner" by simp_all
  then have "tree_entries ?t ! i \<in> set (tree_entries ?t)" by simp
  then have leaf: "?leaves ! i = access_merkle_leaf sha owner"
    using tree_leaves lt own by (metis nth_map)
  have layers: "tree_layers ?t = build_layers sha ?leaves"
    using lt by (auto simp: access_tree_new_def Let_def)
  have ne: "build_layers sha ?leaves \<noteq> []" by (subst build_layers.simps) simp
  have "foldl (access_merkle_node sha) (?leaves ! i) (proof_path (build_layers sha ?leaves) i)
     = hd (last (build_layers sha ?leaves)) \<and> length (last (build_layers sha ?leaves)) = 1"
    using lt by (intro proof_path_folds) simp
  moreover from this have "tree_root ?t = hd (last (build_layers sha ?leaves))"
    using ne by (cases "last (build_layers sha ?leaves)") (auto simp: tree_root_def layers)
  ultimately show ?thesis
    using p by (simp add: verify_access_merkle_proof_def layers leaf)
qed

lemma tree_proof_exists:
  assumes "owner \<in> set owners" and "length owners \<le> 2 ^ MAX_ACCESS_PROOF_LEN"
  shows "\<exists>proof. tree_proof (access_tree_new sha owners) owner = Some proof"
proof -
  let ?t = "access_tree_new sha owners"
  let ?leaves = "map entry_leaf (tree_entries ?t)"
  obtain i where i: "entry_position (tree_entries ?t) owner = Some i"
    using assms(1) tree_owners [of sha owners] entry_position_None_iff by fastforce
  from entry_position_Some [OF i] have "tree_entries ?t \<noteq> []" by auto
  then have layers: "tree_layers ?t = build_layers sha ?leaves"
    by (auto simp: access_tree_new_def Let_def)
  have "length ?leaves \<le> 2 ^ MAX_ACCESS_PROOF_LEN"
    using tree_entries_length [of sha owners] assms(2) by simp
  then have "length (proof_path (tree_layers ?t) i) \<le> MAX_ACCESS_PROOF_LEN"
    unfolding layers by (rule proof_path_length)
  with i show ?thesis by (simp add: tree_proof_def Let_def)
qed

end
