(* ===== verification/Vault.thy ===== *)
theory Vault
  imports Oracle_Config Access
begin

text \<open>
  \<open>crates/interface/src/state/vault.rs\<close>: the vault account with its economic controls, its
  validation, role lookup, share-supply and capacity arithmetic, the linear unlock of reported
  profit, the recognition of NAV reports and the report gates. \<open>&mut self\<close> methods return the
  new vault; an error leaves no vault, as the runtime discards the account writes of a failed
  instruction. The address derivation of the runtime is the parameter \<open>find_program_address\<close>.
\<close>

section \<open>Definitions\<close>

definition ID :: key where
  "ID = 0x065af0b1da966ad9e989ea875df4eed664114e6e58bf6f87ee6dec92ae1a93d4"

type_synonym pda_function = "bytes list \<Rightarrow> key \<Rightarrow> key \<times> u8"

definition SHARE_MINT_SEED :: bytes where "SHARE_MINT_SEED = ascii ''share_mint''"

definition find_share_mint_address :: "pda_function \<Rightarrow> key \<Rightarrow> key \<times> u8" where
  "find_share_mint_address find_program_address vault =
     find_program_address [SHARE_MINT_SEED, key_bytes vault] ID"

definition flag :: "bool \<Rightarrow> u8" where
  "flag v = (if v then 1 else 0)"

definition bool_flag :: "u8 \<Rightarrow> bool program_result" where
  "bool_flag f = (if f = 0 then Inr False else if f = 1 then Inr True
     else Inl (into_program_error InvalidVaultState))"

datatype role = Admin | Strategist | SwapAuthority | NavAuthority | WithdrawalAuthority

record vault_controls =
  max_unlock_duration_secs :: u32
  max_report_age_secs :: u32
  min_report_interval_secs :: u32
  cancel_grace_slots :: u32
  max_nav_gain_bps :: u16
  atomic_redeem_fee_bps :: u16
  max_swap_slippage_bps :: u16
  controls_padding :: u16

definition vault_controls_new ::
  "u32 \<Rightarrow> u32 \<Rightarrow> u32 \<Rightarrow> u32 \<Rightarrow> u16 \<Rightarrow> u16 \<Rightarrow> u16 \<Rightarrow> vault_controls" where
  "vault_controls_new unlock age interval grace gain fee slippage =
     \<lparr>max_unlock_duration_secs = unlock, max_report_age_secs = age,
      min_report_interval_secs = interval, cancel_grace_slots = grace,
      max_nav_gain_bps = gain, atomic_redeem_fee_bps = fee,
      max_swap_slippage_bps = slippage, controls_padding = 0\<rparr>"

definition controls_validate :: "vault_controls \<Rightarrow> unit program_result" where
  "controls_validate c =
     attempt (lift_math (validate_percentage_bps (atomic_redeem_fee_bps c))) (\<lambda>_.
     attempt (lift_math (validate_percentage_bps (max_swap_slippage_bps c))) (\<lambda>_.
     Inr ()))"

record vault =
  v_base_oracle :: oracle_config
  v_total_assets :: u64
  v_deposit_cap :: u64
  v_external_assets :: u64
  v_pending_withdrawal_assets :: u64
  v_fees_payable :: u64
  v_high_watermark :: u64
  v_report_epoch :: u64
  v_requested_withdrawal_shares :: u64
  v_last_update_ts :: i64
  v_locked_profit :: u64
  v_profit_unlock_start_ts :: i64
  v_profit_unlock_end_ts :: i64
  v_tag :: key
  v_admin :: key
  v_strategist :: key
  v_swap_authority :: key
  v_nav_authority :: key
  v_withdrawal_authority :: key
  v_base_mint :: key
  v_share_mint :: key
  v_treasury :: key
  v_last_report_hash :: key
  v_access_merkle_root :: key
  v_controls :: vault_controls
  v_performance_fee_bps :: u16
  v_withdrawal_buffer_bps :: u16
  v_tag_len :: u8
  v_base_decimals :: u8
  v_deposit_sub_account :: u8
  v_withdraw_sub_account :: u8
  v_deposits_paused_flag :: u8
  v_withdrawals_paused_flag :: u8
  v_manage_paused_flag :: u8
  v_private_flag :: u8
  v_external_enabled_flag :: u8
  v_bump :: u8
  v_padding :: u16

definition VAULT_SEED :: bytes where "VAULT_SEED = ascii ''vault''"
definition MAX_TAG_LEN :: nat where "MAX_TAG_LEN = 32"

definition validate_config :: "key \<Rightarrow> key \<Rightarrow> u8 \<Rightarrow> u16 \<Rightarrow> u16 \<Rightarrow> unit program_result" where
  "validate_config base_mint share_mint base_decimals performance_fee_bps withdrawal_buffer_bps =
     attempt (lift_math (validate_percentage_bps performance_fee_bps)) (\<lambda>_.
     attempt (lift_math (validate_percentage_bps withdrawal_buffer_bps)) (\<lambda>_.
     if base_mint = share_mint then Inl InvalidArgument
     else if SHARE_DECIMALS < base_decimals then Inl (into_program_error InvalidDecimals)
     else Inr ()))"

definition validate_tag :: "bytes \<Rightarrow> unit program_result" where
  "validate_tag tag =
     (if tag = [] \<or> MAX_TAG_LEN < length tag then Inl (into_program_error InvalidVaultTag) else Inr ())"

definition pack_tag :: "bytes \<Rightarrow> (key \<times> u8) program_result" where
  "pack_tag tag =
     attempt (validate_tag tag) (\<lambda>_.
     Inr (key_of_bytes (overwrite_prefix tag (replicate MAX_TAG_LEN 0)), word_of_nat (length tag)))"

definition unpack_tag :: "key \<Rightarrow> u8 \<Rightarrow> bytes program_result" where
  "unpack_tag tag tag_len =
     attempt (ok_or (get_slice (key_bytes tag) 0 (unat tag_len)) (into_program_error InvalidVaultTag))
       (\<lambda>t. attempt (validate_tag t) (\<lambda>_. Inr t))"

definition vault_new ::
  "bytes \<Rightarrow> key \<Rightarrow> key \<Rightarrow> key \<Rightarrow> key \<Rightarrow> key \<Rightarrow> key \<Rightarrow> key \<Rightarrow> u8 \<Rightarrow> oracle_config \<Rightarrow> u8 \<Rightarrow> u8 \<Rightarrow> key \<Rightarrow>
   u16 \<Rightarrow> u16 \<Rightarrow> u64 \<Rightarrow> vault_controls \<Rightarrow> bool \<Rightarrow> key \<Rightarrow> u8 \<Rightarrow> vault program_result" where
  "vault_new tag admin strategist swap_authority nav_authority withdrawal_authority base_mint
     share_mint base_decimals base_oracle deposit_sub_account withdraw_sub_account treasury
     performance_fee_bps withdrawal_buffer_bps deposit_cap controls private access_merkle_root bump =
     attempt (validate_config base_mint share_mint base_decimals performance_fee_bps
                withdrawal_buffer_bps) (\<lambda>_.
     attempt (controls_validate controls) (\<lambda>_.
     attempt (map_err (\<lambda>_. into_program_error InvalidVaultState) (oracle_validate base_oracle)) (\<lambda>_.
     attempt (pack_tag tag) (\<lambda>(packed, tag_len).
     Inr \<lparr>v_base_oracle = base_oracle, v_total_assets = 0, v_deposit_cap = deposit_cap,
          v_external_assets = 0, v_pending_withdrawal_assets = 0, v_fees_payable = 0,
          v_high_watermark = 0, v_report_epoch = 0, v_requested_withdrawal_shares = 0,
          v_last_update_ts = 0, v_locked_profit = 0, v_profit_unlock_start_ts = 0,
          v_profit_unlock_end_ts = 0, v_tag = packed, v_admin = admin, v_strategist = strategist,
          v_swap_authority = swap_authority, v_nav_authority = nav_authority,
          v_withdrawal_authority = withdrawal_authority, v_base_mint = base_mint,
          v_share_mint = share_mint, v_treasury = treasury, v_last_report_hash = 0,
          v_access_merkle_root = access_merkle_root, v_controls = controls,
          v_performance_fee_bps = performance_fee_bps,
          v_withdrawal_buffer_bps = withdrawal_buffer_bps, v_tag_len = tag_len,
          v_base_decimals = base_decimals, v_deposit_sub_account = deposit_sub_account,
          v_withdraw_sub_account = withdraw_sub_account, v_deposits_paused_flag = flag False,
          v_withdrawals_paused_flag = flag False, v_manage_paused_flag = flag False,
          v_private_flag = flag private, v_external_enabled_flag = flag False, v_bump = bump,
          v_padding = 0\<rparr>))))"

definition tag_seed :: "vault \<Rightarrow> bytes program_result" where
  "tag_seed v = unpack_tag (v_tag v) (v_tag_len v)"

definition vault_find_address :: "pda_function \<Rightarrow> bytes \<Rightarrow> key \<Rightarrow> (key \<times> u8) program_result" where
  "vault_find_address find_program_address tag base_mint =
     attempt (validate_tag tag) (\<lambda>_. Inr (find_program_address [VAULT_SEED, tag, key_bytes base_mint] ID))"

primrec authority_for_role :: "vault \<Rightarrow> role \<Rightarrow> key" where
  "authority_for_role v Admin = v_admin v"
| "authority_for_role v Strategist = v_strategist v"
| "authority_for_role v SwapAuthority = v_swap_authority v"
| "authority_for_role v NavAuthority = v_nav_authority v"
| "authority_for_role v WithdrawalAuthority = v_withdrawal_authority v"

definition has_role :: "vault \<Rightarrow> role \<Rightarrow> key \<Rightarrow> bool" where
  "has_role v r signer \<longleftrightarrow> authority_for_role v r = signer"

definition vault_verify_address :: "pda_function \<Rightarrow> vault \<Rightarrow> key \<Rightarrow> unit program_result" where
  "vault_verify_address find_program_address v vault_key =
     attempt (tag_seed v) (\<lambda>seed.
     attempt (vault_find_address find_program_address seed (v_base_mint v)) (\<lambda>(expected_key, expected_bump).
     if vault_key \<noteq> expected_key \<or> v_bump v \<noteq> expected_bump then Inl InvalidSeeds else Inr ()))"

definition economic_share_supply :: "vault \<Rightarrow> u64 \<Rightarrow> u64 program_result" where
  "economic_share_supply v active_share_supply =
     ok_or (checked_add active_share_supply (v_requested_withdrawal_shares v)) (into_program_error Overflow)"

definition total_assets_after_deposit :: "vault \<Rightarrow> u64 \<Rightarrow> u64 program_result" where
  "total_assets_after_deposit v base_atoms =
     attempt (ok_or (checked_add (v_total_assets v) base_atoms) (into_program_error Overflow)) (\<lambda>projected.
     if v_deposit_cap v \<noteq> 0 \<and> v_deposit_cap v < projected
     then Inl (into_program_error DepositCapExceeded) else Inr projected)"

definition remaining_locked_profit :: "vault \<Rightarrow> i64 \<Rightarrow> u64 program_result" where
  "remaining_locked_profit v now =
     (if sint (v_profit_unlock_end_ts v) \<le> sint now then Inr 0
      else if sint now \<le> sint (v_profit_unlock_start_ts v) then Inr (v_locked_profit v)
      else
      attempt (ok_or (Option.bind (i64_checked_sub (v_profit_unlock_end_ts v) (v_profit_unlock_start_ts v))
                 u128_try_from_i64) (into_program_error Overflow)) (\<lambda>window.
      attempt (ok_or (Option.bind (i64_checked_sub (v_profit_unlock_end_ts v) now)
                 u128_try_from_i64) (into_program_error Overflow)) (\<lambda>left.
      attempt (lift_math (mul_div_floor (ucast (v_locked_profit v)) left window)) (\<lambda>remaining.
      lift_math (checked_u64 remaining)))))"

definition effective_total_assets :: "vault \<Rightarrow> i64 \<Rightarrow> u64 program_result" where
  "effective_total_assets v now =
     attempt (remaining_locked_profit v now) (\<lambda>remaining.
     ok_or (checked_sub (v_total_assets v) remaining) (into_program_error InvalidVaultState))"

definition debit_assets_at_effective :: "vault \<Rightarrow> u64 \<Rightarrow> i64 \<Rightarrow> vault program_result" where
  "debit_assets_at_effective v amount now =
     attempt (remaining_locked_profit v now) (\<lambda>remaining.
     attempt (ok_or (checked_sub (v_total_assets v) remaining) (into_program_error InvalidVaultState)) (\<lambda>effective.
     if effective < amount then Inl (into_program_error InvalidVaultState) else
     attempt (ok_or (checked_sub (v_total_assets v) amount) (into_program_error Overflow)) (\<lambda>total.
     let v1 = v\<lparr>v_total_assets := total, v_locked_profit := remaining\<rparr>
     in Inr (if 0 < remaining then v1\<lparr>v_profit_unlock_start_ts := now\<rparr> else v1))))"

definition unlock_window :: "vault \<Rightarrow> i64 \<Rightarrow> i64" where
  "unlock_window v now =
     (let saturated = i64_saturating_sub now (v_last_update_ts v);
          elapsed = (if sint saturated < 0 then 0 else saturated);
          limit = (ucast (max_unlock_duration_secs (v_controls v)) :: i64)
      in if sint limit < sint elapsed then limit else elapsed)"

definition apply_reported_nav :: "vault \<Rightarrow> u64 \<Rightarrow> i64 \<Rightarrow> vault program_result" where
  "apply_reported_nav v net_total_assets now =
     attempt (effective_total_assets v now) (\<lambda>prior_effective.
     attempt
       (if prior_effective < net_total_assets then
          attempt (ok_or (checked_sub net_total_assets prior_effective) (into_program_error Overflow)) (\<lambda>gain.
          let window = unlock_window v now;
              locked = (if window = 0 then 0 else gain)
          in attempt (ok_or (i64_checked_add now window) (into_program_error Overflow)) (\<lambda>end_ts.
             Inr (v\<lparr>v_locked_profit := locked, v_profit_unlock_start_ts := now,
                    v_profit_unlock_end_ts := end_ts\<rparr>)))
        else Inr (v\<lparr>v_locked_profit := 0, v_profit_unlock_start_ts := now,
                    v_profit_unlock_end_ts := now\<rparr>))
       (\<lambda>v1. Inr (v1\<lparr>v_total_assets := net_total_assets\<rparr>)))"

definition verify_report_fresh :: "vault \<Rightarrow> i64 \<Rightarrow> unit program_result" where
  "verify_report_fresh v now =
     (let max_age = (ucast (max_report_age_secs (v_controls v)) :: i64) in
      if v_report_epoch v = 0 \<or> max_age = 0 then Inr ()
      else if sint max_age < sint (i64_saturating_sub now (v_last_update_ts v))
      then Inl (into_program_error StaleNavReport) else Inr ())"

definition verify_report_interval :: "vault \<Rightarrow> i64 \<Rightarrow> unit program_result" where
  "verify_report_interval v now =
     (let interval = (ucast (min_report_interval_secs (v_controls v)) :: i64) in
      if v_report_epoch v = 0 \<or> interval = 0 then Inr ()
      else if sint (i64_saturating_sub now (v_last_update_ts v)) < sint interval
      then Inl (into_program_error ReportTooFrequent) else Inr ())"

definition verify_nav_gain_bound :: "vault \<Rightarrow> u64 \<Rightarrow> u64 \<Rightarrow> unit program_result" where
  "verify_nav_gain_bound v net_total_assets economic_supply =
     (if max_nav_gain_bps (v_controls v) = 0 \<or> economic_supply = 0 then Inr () else
      attempt (ok_or (checked_mul (ucast net_total_assets :: u128) (ucast BPS_DENOMINATOR))
                 (into_program_error Overflow)) (\<lambda>new_assets_scaled.
      attempt (ok_or (checked_mul (ucast (v_total_assets v) :: u128)
                        (ucast BPS_DENOMINATOR + ucast (max_nav_gain_bps (v_controls v))))
                 (into_program_error Overflow)) (\<lambda>max_assets_scaled.
      if max_assets_scaled < new_assets_scaled
      then Inl (into_program_error NavGainExceedsBound) else Inr ())))"

definition verify_idle_sub_account :: "vault \<Rightarrow> u8 \<Rightarrow> unit program_result" where
  "verify_idle_sub_account v sub_account =
     (if sub_account = v_deposit_sub_account v \<or> sub_account = v_withdraw_sub_account v then Inr ()
      else Inl (into_program_error InvalidSubAccount))"

definition deposits_paused :: "vault \<Rightarrow> bool program_result" where
  "deposits_paused v = bool_flag (v_deposits_paused_flag v)"

definition withdrawals_paused :: "vault \<Rightarrow> bool program_result" where
  "withdrawals_paused v = bool_flag (v_withdrawals_paused_flag v)"

definition manage_paused :: "vault \<Rightarrow> bool program_result" where
  "manage_paused v = bool_flag (v_manage_paused_flag v)"

definition vault_private :: "vault \<Rightarrow> bool program_result" where
  "vault_private v = bool_flag (v_private_flag v)"

definition external_enabled :: "vault \<Rightarrow> bool program_result" where
  "external_enabled v = bool_flag (v_external_enabled_flag v)"

definition verify_manage_enabled :: "vault \<Rightarrow> unit program_result" where
  "verify_manage_enabled v =
     attempt (manage_paused v) (\<lambda>paused. if paused then Inl (into_program_error VaultPaused) else Inr ())"

definition allows_depositor :: "(bytes \<Rightarrow> key) \<Rightarrow> vault \<Rightarrow> key \<Rightarrow> key list \<Rightarrow> bool" where
  "allows_depositor sha v depositor proof = (case vault_private v of
       Inr False \<Rightarrow> True
     | Inr True \<Rightarrow> verify_access_merkle_proof sha depositor (v_access_merkle_root v) proof
     | Inl _ \<Rightarrow> False)"

definition set_deposits_paused :: "bool \<Rightarrow> vault \<Rightarrow> vault" where
  "set_deposits_paused b v = v\<lparr>v_deposits_paused_flag := flag b\<rparr>"

definition set_withdrawals_paused :: "bool \<Rightarrow> vault \<Rightarrow> vault" where
  "set_withdrawals_paused b v = v\<lparr>v_withdrawals_paused_flag := flag b\<rparr>"

definition set_manage_paused :: "bool \<Rightarrow> vault \<Rightarrow> vault" where
  "set_manage_paused b v = v\<lparr>v_manage_paused_flag := flag b\<rparr>"

definition set_private :: "bool \<Rightarrow> vault \<Rightarrow> vault" where
  "set_private b v = v\<lparr>v_private_flag := flag b\<rparr>"

definition set_external_enabled :: "bool \<Rightarrow> vault \<Rightarrow> vault" where
  "set_external_enabled b v = v\<lparr>v_external_enabled_flag := flag b\<rparr>"

definition vault_validate_state :: "vault \<Rightarrow> unit program_result" where
  "vault_validate_state v =
     attempt (unpack_tag (v_tag v) (v_tag_len v)) (\<lambda>_.
     attempt (validate_config (v_base_mint v) (v_share_mint v) (v_base_decimals v)
                (v_performance_fee_bps v) (v_withdrawal_buffer_bps v)) (\<lambda>_.
     attempt (map_err (\<lambda>_. into_program_error InvalidVaultState) (oracle_validate (v_base_oracle v))) (\<lambda>_.
     attempt (controls_validate (v_controls v)) (\<lambda>_.
     if v_total_assets v < v_locked_profit v then Inl (into_program_error InvalidVaultState)
     else if sint (v_profit_unlock_end_ts v) < sint (v_profit_unlock_start_ts v)
     then Inl (into_program_error InvalidVaultState)
     else
     attempt (bool_flag (v_deposits_paused_flag v)) (\<lambda>_.
     attempt (bool_flag (v_withdrawals_paused_flag v)) (\<lambda>_.
     attempt (bool_flag (v_manage_paused_flag v)) (\<lambda>_.
     attempt (bool_flag (v_private_flag v)) (\<lambda>_.
     attempt (bool_flag (v_external_enabled_flag v)) (\<lambda>_.
     Inr ())))))))))"


section \<open>The unlock line\<close>

text \<open>
  The specification of the linear unlock over unbounded numbers: everything up to the start,
  nothing from the end on, and the floor of the straight line in between.
\<close>

definition unlock_line :: "nat \<Rightarrow> int \<Rightarrow> int \<Rightarrow> int \<Rightarrow> nat" where
  "unlock_line L s e t =
     (if e \<le> t then 0 else if t \<le> s then L else L * nat (e - t) div nat (e - s))"

lemma unlock_line_le: "unlock_line L s e t \<le> L"
proof -
  have "L * nat (e - t) div nat (e - s) \<le> L" if "\<not> t \<le> s" "\<not> e \<le> t"
  proof -
    have "L * nat (e - t) \<le> L * nat (e - s)" using that by (intro mult_le_mono2 nat_mono) simp
    then have "L * nat (e - t) div nat (e - s) \<le> L * nat (e - s) div nat (e - s)"
      by (rule div_le_mono)
    then show ?thesis using that by simp
  qed
  then show ?thesis by (simp add: unlock_line_def)
qed

lemma unlock_line_antimono:
  assumes "t \<le> t'"
  shows "unlock_line L s e t' \<le> unlock_line L s e t"
proof -
  have "L * nat (e - t') div nat (e - s) \<le> L * nat (e - t) div nat (e - s)"
    using assms by (intro div_le_mono mult_le_mono2) simp
  then show ?thesis using assms unlock_line_le [of L s e t'] by (auto simp: unlock_line_def)
qed

text \<open>
  Restarting the line at an instant, from what is still locked there, loses at most one atom at
  any later instant and never creates locked profit.
\<close>

lemma rebased_floor:
  fixes L d w x :: nat
  assumes "0 < d" and "x \<le> d" and "d \<le> w"
  shows "(L * d div w) * x div d \<le> L * x div w"
    and "L * x div w \<le> (L * d div w) * x div d + 1"
proof -
  let ?r = "L * d div w"
  have w: "0 < w" using assms by simp
  have "(?r * x div d) * w * d \<le> ?r * x * w" by (simp add: ac_simps)
  also have "?r * x * w \<le> L * d * x"
    using div_times_less_eq_dividend [of "L * d" w] by (simp add: mult.commute mult.left_commute)
  finally have "((?r * x div d) * w) * d \<le> (L * x) * d" by (simp add: ac_simps)
  then have "(?r * x div d) * w \<le> L * x" using assms(1) by simp
  then show "?r * x div d \<le> L * x div w" using w by (simp add: less_eq_div_iff_mult_less_eq)
  have step: "L * d < (?r + 1) * w" using dividend_less_div_times [OF w, of "L * d"] by simp
  have strict: "L * d * x < (?r * x div d + 2) * w * d"
  proof (cases "x = 0")
    case True
    then show ?thesis using w assms(1) by simp
  next
    case False
    have "L * d * x < (?r + 1) * w * x" using step False by simp
    also have "\<dots> = (?r * x) * w + x * w" by (simp add: algebra_simps)
    also have "\<dots> \<le> ((?r * x div d + 1) * d) * w + d * w"
    proof -
      have "?r * x < (?r * x div d + 1) * d"
        using dividend_less_div_times [OF assms(1), of "?r * x"] by simp
      then have "(?r * x) * w \<le> ((?r * x div d + 1) * d) * w" by (intro mult_le_mono1) simp
      moreover have "x * w \<le> d * w" using assms(2) by simp
      ultimately show ?thesis by linarith
    qed
    also have "\<dots> = (?r * x div d + 2) * w * d" by (simp add: algebra_simps)
    finally show ?thesis .
  qed
  then have "(L * x) * d < ((?r * x div d + 2) * w) * d" by (simp add: ac_simps)
  then have "L * x < (?r * x div d + 2) * w" using mult_less_cancel2 by blast
  then have "L * x div w < ?r * x div d + 2" using w by (simp add: less_mult_imp_div_less)
  then show "L * x div w \<le> ?r * x div d + 1" by simp
qed


lemma unlock_line_rebase:
  assumes "s \<le> now" and "now \<le> t"
  shows "unlock_line (unlock_line L s e now) now e t \<le> unlock_line L s e t"
    and "unlock_line L s e t \<le> unlock_line (unlock_line L s e now) now e t + 1"
proof -
  consider "e \<le> t" | "t < e" "now = s" | "t < e" "s < now" "t = now" | "t < e" "s < now" "now < t"
    using assms by linarith
  then have "unlock_line (unlock_line L s e now) now e t \<le> unlock_line L s e t \<and>
        unlock_line L s e t \<le> unlock_line (unlock_line L s e now) now e t + 1"
  proof cases
    case 4
    then have "0 < nat (e - now)" "nat (e - t) \<le> nat (e - now)" "nat (e - now) \<le> nat (e - s)"
      by auto
    from rebased_floor [OF this, of L] 4 show ?thesis by (simp add: unlock_line_def)
  qed (use assms in \<open>auto simp: unlock_line_def\<close>)
  then show "unlock_line (unlock_line L s e now) now e t \<le> unlock_line L s e t"
    and "unlock_line L s e t \<le> unlock_line (unlock_line L s e now) now e t + 1" by auto
qed

section \<open>Effective assets\<close>

abbreviation locked_at :: "vault \<Rightarrow> i64 \<Rightarrow> nat" where
  "locked_at v t \<equiv> unlock_line (unat (v_locked_profit v)) (sint (v_profit_unlock_start_ts v))
     (sint (v_profit_unlock_end_ts v)) (sint t)"

lemma bind_Some_iff [result_facts]: "Option.bind x f = Some y \<longleftrightarrow> (\<exists>z. x = Some z \<and> f z = Some y)"
  by (cases x) auto

lemma timestamp_difference:
  assumes "sint b \<le> sint a" and "sint a - sint b < 2 ^ 63"
  obtains w :: u128 where "Option.bind (i64_checked_sub a b) u128_try_from_i64 = Some w"
    and "unat w = nat (sint a - sint b)"
proof -
  define n where "n = nat (sint a - sint b)"
  define d :: i64 where "d = word_of_int (sint a - sint b)"
  have d: "sint d = sint a - sint b" unfolding d_def using assms by (intro sint_of_int_i64) auto
  have "n < 2 ^ 128" using assms by (simp add: n_def)
  then have w: "unat (word_of_nat n :: u128) = n" by (intro unat_of_nat_small) simp
  moreover have "int n = sint d" using d assms by (simp add: n_def)
  ultimately have "u128_try_from_i64 d = Some (word_of_nat n)"
    by (simp add: u128_try_from_i64_Some_iff)
  moreover have "i64_checked_sub a b = Some d" using d by (simp add: i64_checked_sub_Some_iff)
  ultimately show thesis using that w by (simp add: n_def)
qed

lemma timestamp_difference_overflow:
  "2 ^ 63 \<le> sint a - sint b \<Longrightarrow> i64_checked_sub a b = None"
  by (auto simp: i64_checked_sub_def Let_def)

lemma mul_div_u64_result:
  assumes "d \<noteq> 0" and "unat a * unat b < 2 ^ 128"
  shows "attempt (lift_math (mul_div_floor (ucast (a :: u64)) b d))
      (\<lambda>q. lift_math (checked_u64 q)) = Inr r \<longleftrightarrow> unat r = unat a * unat b div unat d"
proof
  assume "attempt (lift_math (mul_div_floor (ucast a) b d)) (\<lambda>q. lift_math (checked_u64 q)) = Inr r"
  then show "unat r = unat a * unat b div unat d" by (auto simp: result_facts word_facts)
next
  assume "unat r = unat a * unat b div unat d"
  then have "mul_div_floor (ucast a) b d = Inr (ucast r)" and "checked_u64 (ucast r) = Inr r"
    using assms by (simp_all add: word_facts)
  then show "attempt (lift_math (mul_div_floor (ucast a) b d)) (\<lambda>q. lift_math (checked_u64 q)) = Inr r"
    by simp
qed

lemma remaining_locked_profit_Inr_iff:
  "remaining_locked_profit v now = Inr r \<longleftrightarrow>
     (sint (v_profit_unlock_end_ts v) \<le> sint now \<or> sint now \<le> sint (v_profit_unlock_start_ts v) \<or>
      sint (v_profit_unlock_end_ts v) - sint (v_profit_unlock_start_ts v) < 2 ^ 63) \<and>
     unat r = locked_at v now"
proof -
  let ?s = "sint (v_profit_unlock_start_ts v)" and ?e = "sint (v_profit_unlock_end_ts v)"
    and ?t = "sint now" and ?L = "v_locked_profit v"
  consider "?e \<le> ?t" | "?t < ?e" "?t \<le> ?s" | "?t < ?e" "?s < ?t" "2 ^ 63 \<le> ?e - ?s"
    | "?t < ?e" "?s < ?t" "?e - ?s < 2 ^ 63" by linarith
  then show ?thesis
  proof cases
    case 1
    then show ?thesis by (auto simp: remaining_locked_profit_def unlock_line_def unat_eq_0_iff)
  next
    case 2
    then show ?thesis
      by (auto simp: remaining_locked_profit_def unlock_line_def word_unat_eq_iff)
  next
    case 3
    then show ?thesis by (simp add: remaining_locked_profit_def timestamp_difference_overflow)
  next
    case 4
    then have bounds: "?s \<le> ?e" "?t \<le> ?e" "?e - ?t < 2 ^ 63" by linarith+
    obtain w where w:
      "Option.bind (i64_checked_sub (v_profit_unlock_end_ts v) (v_profit_unlock_start_ts v))
         u128_try_from_i64 = Some w" "unat w = nat (?e - ?s)"
      by (rule timestamp_difference [OF bounds(1) 4(3)])
    obtain l where l:
      "Option.bind (i64_checked_sub (v_profit_unlock_end_ts v) now) u128_try_from_i64 = Some l"
      "unat l = nat (?e - ?t)"
      by (rule timestamp_difference [OF bounds(2,3)])
    have "unat ?L * nat (?e - ?t) \<le> 18446744073709551615 * 2 ^ 63"
      using unat_u64_bound [of ?L] 4 by (intro mult_le_mono) auto
    then have "unat ?L * nat (?e - ?t) < 2 ^ 128" by (rule le_less_trans) simp
    moreover have "w \<noteq> 0" using w 4 by auto
    moreover have "locked_at v now = unat ?L * nat (?e - ?t) div nat (?e - ?s)"
      using 4 by (simp add: unlock_line_def)
    moreover have "remaining_locked_profit v now = attempt (lift_math (mul_div_floor (ucast ?L) l w))
        (\<lambda>remaining. lift_math (checked_u64 remaining))"
      using 4 w(1) l(1) by (simp add: remaining_locked_profit_def)
    ultimately show ?thesis
      using 4 w(2) l(2) mul_div_u64_result [of w ?L l r] by simp
  qed
qed

lemma remaining_locked_profit_total:
  assumes "0 \<le> sint (v_profit_unlock_start_ts v)"
  shows "\<exists>r. remaining_locked_profit v now = Inr r \<and> unat r = locked_at v now"
proof -
  have "locked_at v now \<le> unat (v_locked_profit v)" by (rule unlock_line_le)
  then have "locked_at v now < 2 ^ 64" using unat_u64_bound [of "v_locked_profit v"] by simp
  then have "unat (word_of_nat (locked_at v now) :: u64) = locked_at v now"
    by (intro unat_of_nat_small) simp
  moreover have "sint (v_profit_unlock_end_ts v) - sint (v_profit_unlock_start_ts v) < 2 ^ 63"
    using assms sint_i64_range [of "v_profit_unlock_end_ts v"] by linarith
  ultimately show ?thesis by (auto simp: remaining_locked_profit_Inr_iff)
qed


lemma effective_total_assets_Inr_iff:
  "effective_total_assets v now = Inr a \<longleftrightarrow>
     (\<exists>r. remaining_locked_profit v now = Inr r \<and> unat (v_total_assets v) = unat r + unat a)"
  by (auto simp: effective_total_assets_def result_facts word_facts)

lemma effective_plus_locked:
  "effective_total_assets v now = Inr a \<Longrightarrow> unat a + locked_at v now = unat (v_total_assets v)"
  by (auto simp: effective_total_assets_Inr_iff remaining_locked_profit_Inr_iff)

lemma effective_total_assets_total:
  assumes "v_locked_profit v \<le> v_total_assets v" and "0 \<le> sint (v_profit_unlock_start_ts v)"
  shows "\<exists>a. effective_total_assets v now = Inr a"
proof -
  obtain r where r: "remaining_locked_profit v now = Inr r" "unat r = locked_at v now"
    using remaining_locked_profit_total [OF assms(2)] by blast
  have "locked_at v now \<le> unat (v_locked_profit v)" by (rule unlock_line_le)
  with r assms(1) have "r \<le> v_total_assets v" by (simp add: word_le_nat_alt)
  then show ?thesis using r by (simp add: effective_total_assets_def checked_sub_def)
qed

lemma effective_mono:
  assumes "effective_total_assets v t = Inr a" and "effective_total_assets v t' = Inr b"
    and "sint t \<le> sint t'"
  shows "a \<le> b"
  using effective_plus_locked [OF assms(1)] effective_plus_locked [OF assms(2)]
    unlock_line_antimono [OF assms(3), of "unat (v_locked_profit v)" "sint (v_profit_unlock_start_ts v)"
      "sint (v_profit_unlock_end_ts v)"]
  by (simp add: word_le_nat_alt)

lemma vault_validate_state_Inr_iff:
  "vault_validate_state v = Inr () \<longleftrightarrow>
     (\<exists>t. unpack_tag (v_tag v) (v_tag_len v) = Inr t) \<and>
     validate_config (v_base_mint v) (v_share_mint v) (v_base_decimals v) (v_performance_fee_bps v)
       (v_withdrawal_buffer_bps v) = Inr () \<and>
     oracle_validate (v_base_oracle v) = Inr () \<and> controls_validate (v_controls v) = Inr () \<and>
     v_locked_profit v \<le> v_total_assets v \<and>
     sint (v_profit_unlock_start_ts v) \<le> sint (v_profit_unlock_end_ts v) \<and>
     (\<forall>f \<in> {v_deposits_paused_flag v, v_withdrawals_paused_flag v, v_manage_paused_flag v,
        v_private_flag v, v_external_enabled_flag v}. f = 0 \<or> f = 1)"
  by (auto simp: vault_validate_state_def bool_flag_def result_facts split: if_splits)

lemma validate_config_Inr_iff:
  "validate_config bm sm bd fee buf = Inr () \<longleftrightarrow>
     unat fee \<le> 10000 \<and> unat buf \<le> 10000 \<and> bm \<noteq> sm \<and> unat bd \<le> 9"
  by (auto simp: validate_config_def result_facts word_facts SHARE_DECIMALS_def word_less_nat_alt
      split: if_splits)

section \<open>Debits keep the unlock line\<close>

lemma debit_Inr_iff:
  "debit_assets_at_effective v amount now = Inr v' \<longleftrightarrow>
     (\<exists>remaining total. remaining_locked_profit v now = Inr remaining \<and>
        unat remaining + unat amount \<le> unat (v_total_assets v) \<and>
        unat (v_total_assets v) = unat amount + unat total \<and>
        v' = (if 0 < remaining
              then v\<lparr>v_total_assets := total, v_locked_profit := remaining, v_profit_unlock_start_ts := now\<rparr>
              else v\<lparr>v_total_assets := total, v_locked_profit := remaining\<rparr>))"
proof (cases "remaining_locked_profit v now")
  case (Inl e)
  then show ?thesis by (simp add: debit_assets_at_effective_def)
next
  case (Inr rem)
  show ?thesis
  proof (cases "unat rem + unat amount \<le> unat (v_total_assets v)")
    case True
    then have le: "rem \<le> v_total_assets v" "amount \<le> v_total_assets v" "\<not> v_total_assets v - rem < amount"
      by (simp_all add: word_le_nat_alt word_less_nat_alt unat_sub)
    have total: "unat (v_total_assets v) = unat amount + unat total \<longleftrightarrow> total = v_total_assets v - amount"
      for total
      using le(2) checked_sub_Some_iff [of "v_total_assets v" amount total] by (auto simp: checked_sub_def)
    show ?thesis unfolding total using Inr True le
      by (auto simp: debit_assets_at_effective_def checked_sub_def Let_def)
  next
    case False
    then show ?thesis using Inr
      by (auto simp: debit_assets_at_effective_def result_facts word_facts word_less_nat_alt)
  qed
qed

lemma debit_fields:
  assumes "debit_assets_at_effective v amount now = Inr v'"
  shows "unat (v_total_assets v') + unat amount = unat (v_total_assets v)"
    and "unat (v_locked_profit v') = locked_at v now"
    and "v_profit_unlock_end_ts v' = v_profit_unlock_end_ts v"
    and "locked_at v now + unat amount \<le> unat (v_total_assets v)"
    and "v_profit_unlock_start_ts v' = (if locked_at v now = 0 then v_profit_unlock_start_ts v else now)"
    and "v' = v\<lparr>v_total_assets := v_total_assets v', v_locked_profit := v_locked_profit v',
                 v_profit_unlock_start_ts := v_profit_unlock_start_ts v'\<rparr>"
proof -
  from assms obtain remaining total where
    r: "unat remaining = locked_at v now" "unat remaining + unat amount \<le> unat (v_total_assets v)"
      "unat (v_total_assets v) = unat amount + unat total"
    and v': "v' = (if 0 < remaining
              then v\<lparr>v_total_assets := total, v_locked_profit := remaining, v_profit_unlock_start_ts := now\<rparr>
              else v\<lparr>v_total_assets := total, v_locked_profit := remaining\<rparr>)"
    by (auto simp: debit_Inr_iff remaining_locked_profit_Inr_iff)
  have "0 < remaining \<longleftrightarrow> locked_at v now \<noteq> 0"
    using r(1) by (simp add: word_less_nat_alt)
  with r v' show "unat (v_total_assets v') + unat amount = unat (v_total_assets v)"
    "unat (v_locked_profit v') = locked_at v now"
    "v_profit_unlock_end_ts v' = v_profit_unlock_end_ts v"
    "locked_at v now + unat amount \<le> unat (v_total_assets v)"
    "v_profit_unlock_start_ts v' = (if locked_at v now = 0 then v_profit_unlock_start_ts v else now)"
    "v' = v\<lparr>v_total_assets := v_total_assets v', v_locked_profit := v_locked_profit v',
             v_profit_unlock_start_ts := v_profit_unlock_start_ts v'\<rparr>"
    by simp_all
qed


lemma unlock_line_0 [simp]: "unlock_line 0 s e t = 0"
  by (simp add: unlock_line_def)

lemma debit_locked_now:
  assumes "debit_assets_at_effective v amount now = Inr v'"
  shows "locked_at v' now = locked_at v now"
proof (cases "locked_at v now = 0")
  case True
  then show ?thesis using debit_fields(2) [OF assms] by simp
next
  case False
  then have "sint now < sint (v_profit_unlock_end_ts v)"
    by (metis unlock_line_def not_le)
  with False show ?thesis
    using debit_fields [OF assms] by (simp add: unlock_line_def [of _ "sint now"])
qed

lemma debit_locked_later:
  assumes "debit_assets_at_effective v amount now = Inr v'"
    and "sint (v_profit_unlock_start_ts v) \<le> sint now" and "sint now \<le> sint t"
  shows "locked_at v' t \<le> locked_at v t" and "locked_at v t \<le> locked_at v' t + 1"
proof -
  have "locked_at v t \<le> locked_at v now" using assms(3) by (rule unlock_line_antimono)
  then show "locked_at v' t \<le> locked_at v t" and "locked_at v t \<le> locked_at v' t + 1"
    using debit_fields [OF assms(1)] unlock_line_rebase [OF assms(2,3)]
    by (cases "locked_at v now = 0"; simp)+
qed

lemma debit_effective:
  assumes "debit_assets_at_effective v amount now = Inr v'"
  shows "\<exists>a b. effective_total_assets v now = Inr a \<and> effective_total_assets v' now = Inr b \<and>
           unat a = unat b + unat amount"
proof -
  note f = debit_fields [OF assms]
  from assms obtain r where r: "remaining_locked_profit v now = Inr r"
    by (auto simp: debit_Inr_iff)
  then have "remaining_locked_profit v' now = Inr r"
    using f(3,5) debit_locked_now [OF assms]
    by (cases "locked_at v now = 0") (auto simp: remaining_locked_profit_Inr_iff)
  moreover have ur: "unat r = locked_at v now" using r by (simp add: remaining_locked_profit_Inr_iff)
  moreover have "r \<le> v_total_assets v" "r \<le> v_total_assets v'"
    using f(1,4) ur by (simp_all add: word_le_nat_alt)
  ultimately show ?thesis using r f(1)
    by (simp add: effective_total_assets_def checked_sub_def unat_sub word_le_nat_alt)
qed

lemma debit_valid:
  assumes "debit_assets_at_effective v amount now = Inr v'" and "vault_validate_state v = Inr ()"
  shows "vault_validate_state v' = Inr ()"
proof -
  note f = debit_fields [OF assms(1)]
  have le: "v_locked_profit v' \<le> v_total_assets v'"
    using f(1,2,4) by (simp add: word_le_nat_alt)
  have "locked_at v now \<noteq> 0 \<Longrightarrow> sint now < sint (v_profit_unlock_end_ts v)"
    by (metis unlock_line_def not_le)
  then have "sint (v_profit_unlock_start_ts v') \<le> sint (v_profit_unlock_end_ts v')"
    using f(3,5) assms(2) by (auto simp: vault_validate_state_Inr_iff)
  with le show ?thesis
    by (subst (asm) (1 2 3) f(6), subst f(6)) (use assms(2) in \<open>simp add: vault_validate_state_Inr_iff\<close>)
qed

section \<open>NAV reports are recognised without a price jump\<close>

definition report_window :: "vault \<Rightarrow> i64 \<Rightarrow> int" where
  "report_window v now = min (int (unat (max_unlock_duration_secs (v_controls v))))
     (max 0 (sint now - sint (v_last_update_ts v)))"

lemma uint_u32_bound: "uint (w :: u32) \<le> 4294967295"
  using unsigned_less [of w, where 'a = int] by simp

lemma uint_u32_lower: "- 9223372036854775808 \<le> uint (w :: u32)"
  by (rule order_trans [OF _ uint_ge_0]) simp

lemma sint_ucast_u32 [simp]: "sint (ucast (w :: u32) :: i64) = int (unat w)"
proof -
  have "sint (word_of_int (uint w) :: i64) = uint w"
    using uint_u32_bound [of w] uint_u32_lower [of w] by (intro sint_of_int_i64) auto
  then show ?thesis by simp
qed

lemma report_window_bounds: "0 \<le> report_window v now" "report_window v now \<le> 4294967295"
  using uint_u32_bound [of "max_unlock_duration_secs (v_controls v)"]
  by (auto simp: report_window_def min_def max_def)

lemma sint_unlock_window: "sint (unlock_window v now) = report_window v now"
  using uint_u32_bound [of "max_unlock_duration_secs (v_controls v)"]
  by (auto simp: unlock_window_def report_window_def sint_i64_saturating_sub Let_def min_def max_def)

lemma apply_reported_nav_gain:
  assumes "effective_total_assets v now = Inr prior" and "prior < net"
  shows "apply_reported_nav v net now = Inr v' \<longleftrightarrow>
     (\<exists>end_ts. sint end_ts = sint now + report_window v now \<and>
        v' = v\<lparr>v_total_assets := net, v_locked_profit := (if report_window v now = 0 then 0 else net - prior),
               v_profit_unlock_start_ts := now, v_profit_unlock_end_ts := end_ts\<rparr>)"
proof -
  have sub: "checked_sub net prior = Some (net - prior)"
    using assms(2) by (simp add: checked_sub_def word_less_nat_alt word_le_nat_alt)
  have "apply_reported_nav v net now =
      attempt (ok_or (i64_checked_add now (unlock_window v now)) (into_program_error Overflow)) (\<lambda>end_ts.
        Inr (v\<lparr>v_total_assets := net,
               v_locked_profit := (if unlock_window v now = 0 then 0 else net - prior),
               v_profit_unlock_start_ts := now, v_profit_unlock_end_ts := end_ts\<rparr>))"
    using assms sub
    by (cases "i64_checked_add now (unlock_window v now)") (simp_all add: apply_reported_nav_def Let_def)
  moreover have "unlock_window v now = 0 \<longleftrightarrow> report_window v now = 0"
    by (simp add: i64_eq_iff sint_unlock_window)
  ultimately show ?thesis by (auto simp: result_facts word_facts sint_unlock_window)
qed

lemma apply_reported_nav_loss:
  assumes "effective_total_assets v now = Inr prior" and "\<not> prior < net"
  shows "apply_reported_nav v net now = Inr (v\<lparr>v_total_assets := net, v_locked_profit := 0,
               v_profit_unlock_start_ts := now, v_profit_unlock_end_ts := now\<rparr>)"
  using assms by (simp add: apply_reported_nav_def)


text \<open>
  At the instant of a report the effective assets do not move when the gain is unlocked over a
  window, and equal the report otherwise; once the longest window is over they equal the report.
\<close>

lemma apply_reported_nav_effective:
  assumes "apply_reported_nav v net now = Inr v'" and "effective_total_assets v now = Inr prior"
  shows "effective_total_assets v' now =
     Inr (if prior < net \<and> report_window v now \<noteq> 0 then prior else net)"
proof (cases "prior < net")
  case True
  with assms obtain end_ts where e: "sint end_ts = sint now + report_window v now"
    and v': "v' = v\<lparr>v_total_assets := net,
       v_locked_profit := (if report_window v now = 0 then 0 else net - prior),
       v_profit_unlock_start_ts := now, v_profit_unlock_end_ts := end_ts\<rparr>"
    by (auto simp: apply_reported_nav_gain)
  have "net - (net - prior) = prior" by simp
  moreover have "net - prior \<le> net" using True
    by (simp add: word_le_nat_alt word_less_nat_alt unat_sub)
  ultimately show ?thesis
    using e v' True report_window_bounds(1) [of v now]
    by (auto simp: effective_total_assets_def remaining_locked_profit_def checked_sub_def)
next
  case False
  with assms have "v' = v\<lparr>v_total_assets := net, v_locked_profit := 0,
       v_profit_unlock_start_ts := now, v_profit_unlock_end_ts := now\<rparr>"
    by (simp add: apply_reported_nav_loss)
  with False show ?thesis
    by (simp add: effective_total_assets_def remaining_locked_profit_def checked_sub_def)
qed

lemma apply_reported_nav_frame:
  assumes "apply_reported_nav v net now = Inr v'"
  shows "v_total_assets v' = net" and "v_locked_profit v' \<le> net"
    and "v_profit_unlock_start_ts v' = now"
    and "sint now \<le> sint (v_profit_unlock_end_ts v')"
    and "sint (v_profit_unlock_end_ts v') \<le> sint now + report_window v now"
    and "v' = v\<lparr>v_total_assets := v_total_assets v', v_locked_profit := v_locked_profit v',
           v_profit_unlock_start_ts := v_profit_unlock_start_ts v',
           v_profit_unlock_end_ts := v_profit_unlock_end_ts v'\<rparr>"
proof -
  obtain prior where prior: "effective_total_assets v now = Inr prior"
    using assms by (auto simp: apply_reported_nav_def result_facts)
  have gain: "prior < net \<Longrightarrow> net - prior \<le> net"
    by (simp add: word_le_nat_alt word_less_nat_alt unat_sub)
  have *: "v_total_assets v' = net \<and> v_locked_profit v' \<le> net \<and> v_profit_unlock_start_ts v' = now \<and>
    sint now \<le> sint (v_profit_unlock_end_ts v') \<and>
    sint (v_profit_unlock_end_ts v') \<le> sint now + report_window v now \<and>
    v' = v\<lparr>v_total_assets := v_total_assets v', v_locked_profit := v_locked_profit v',
           v_profit_unlock_start_ts := v_profit_unlock_start_ts v',
           v_profit_unlock_end_ts := v_profit_unlock_end_ts v'\<rparr>"
  proof (cases "prior < net")
    case True
    with gain assms prior report_window_bounds(1) [of v now] show ?thesis
      by (auto simp: apply_reported_nav_gain)
  next
    case False
    with assms prior report_window_bounds(1) [of v now] show ?thesis
      by (auto simp: apply_reported_nav_loss)
  qed
  then show "v_total_assets v' = net" "v_locked_profit v' \<le> net" "v_profit_unlock_start_ts v' = now"
    "sint now \<le> sint (v_profit_unlock_end_ts v')"
    "sint (v_profit_unlock_end_ts v') \<le> sint now + report_window v now" by simp_all
  from * show "v' = v\<lparr>v_total_assets := v_total_assets v', v_locked_profit := v_locked_profit v',
           v_profit_unlock_start_ts := v_profit_unlock_start_ts v',
           v_profit_unlock_end_ts := v_profit_unlock_end_ts v'\<rparr>" by blast
qed

lemma apply_reported_nav_unlocked:
  assumes "apply_reported_nav v net now = Inr v'" and "sint now + report_window v now \<le> sint t"
  shows "effective_total_assets v' t = Inr net"
proof -
  have "sint (v_profit_unlock_end_ts v') \<le> sint t"
    using assms(2) apply_reported_nav_frame(5) [OF assms(1)] by simp
  then show ?thesis using apply_reported_nav_frame(1) [OF assms(1)]
    by (simp add: effective_total_assets_def remaining_locked_profit_def checked_sub_def)
qed

lemma apply_reported_nav_valid:
  assumes "apply_reported_nav v net now = Inr v'" and "vault_validate_state v = Inr ()"
  shows "vault_validate_state v' = Inr ()"
proof -
  note f = apply_reported_nav_frame [OF assms(1)]
  have "v_locked_profit v' \<le> v_total_assets v'"
    and "sint (v_profit_unlock_start_ts v') \<le> sint (v_profit_unlock_end_ts v')"
    using f(1-4) by simp_all
  then show ?thesis
    by (subst f(6)) (use assms(2) in \<open>simp add: vault_validate_state_Inr_iff\<close>)
qed

section \<open>Tags and construction\<close>

lemma unpack_pack_tag [codec_facts]:
  assumes "pack_tag tag = Inr (packed, n)"
  shows "unpack_tag packed n = Inr tag" and "unat n = length tag" and "tag \<noteq> []" and "length tag \<le> 32"
proof -
  from assms have tag: "tag \<noteq> []" "length tag \<le> 32"
    and p: "packed = key_of_bytes (tag @ replicate (32 - length tag) 0)" "n = word_of_nat (length tag)"
    by (auto simp: pack_tag_def validate_tag_def MAX_TAG_LEN_def overwrite_prefix_def result_facts
        split: if_splits)
  then show "tag \<noteq> []" "length tag \<le> 32" and n: "unat n = length tag"
    by (auto intro!: unat_of_nat_small)
  from tag p n show "unpack_tag packed n = Inr tag"
    by (simp add: unpack_tag_def get_slice_def validate_tag_def MAX_TAG_LEN_def)
qed

lemma vault_new_valid:
  assumes "vault_new tag adm str sw nav wd bm sm bd orc dsub wsub tr fee buf cap ctl priv root bump = Inr v"
  shows "vault_validate_state v = Inr ()"
  using assms unpack_pack_tag(1)
  by (auto simp: vault_new_def vault_validate_state_Inr_iff result_facts flag_def
      split: prod.splits if_splits)


section \<open>Gates and roles\<close>

lemma verify_nav_gain_bound_eq:
  "verify_nav_gain_bound v net supply =
     (if max_nav_gain_bps (v_controls v) = 0 \<or> supply = 0 \<or>
         unat net * 10000 \<le> unat (v_total_assets v) * (10000 + unat (max_nav_gain_bps (v_controls v)))
      then Inr () else Inl (into_program_error NavGainExceedsBound))"
proof -
  let ?b = "max_nav_gain_bps (v_controls v)"
  have bps: "unat (ucast BPS_DENOMINATOR + ucast ?b :: u128) = 10000 + unat ?b"
    using unat_u16_bound [of ?b] by (subst unat_add_small) simp_all
  have "unat net * 10000 \<le> 18446744073709551615 * 10000"
    using unat_u64_bound [of net] by simp
  then have n: "unat net * 10000 < 2 ^ 128" by simp
  have "unat (v_total_assets v) * (10000 + unat ?b) \<le> 18446744073709551615 * (10000 + 65535)"
    using unat_u64_bound [of "v_total_assets v"] unat_u16_bound [of ?b] by (intro mult_le_mono) auto
  then have m: "unat (v_total_assets v) * (10000 + unat ?b) < 2 ^ 128" by simp
  show ?thesis
    using n m bps
    by (simp add: verify_nav_gain_bound_def checked_mul_def unat_mult_small word_less_nat_alt not_less
        BPS_DENOMINATOR_def)
qed

lemma bool_flag_flag [simp]: "bool_flag (flag b) = Inr b"
  by (cases b) (simp_all add: bool_flag_def flag_def)

lemma allows_depositor_public: "v_private_flag v = flag False \<Longrightarrow> allows_depositor sha v d p"
  by (simp add: allows_depositor_def vault_private_def)

lemma verify_report_fresh_Inr_iff:
  "verify_report_fresh v now = Inr () \<longleftrightarrow>
     v_report_epoch v = 0 \<or> max_report_age_secs (v_controls v) = 0 \<or>
     sint now - sint (v_last_update_ts v) \<le> int (unat (max_report_age_secs (v_controls v)))"
proof -
  let ?a = "max_report_age_secs (v_controls v)"
  have "(ucast ?a :: i64) = 0 \<longleftrightarrow> ?a = 0"
    by (simp add: word_unat_eq_iff)
  then show ?thesis using uint_u32_bound [of ?a] uint_u32_lower [of ?a]
    by (auto simp: verify_report_fresh_def Let_def sint_i64_saturating_sub min_def max_def)
qed


section \<open>Properties of the vault\<close>

text \<open>
  A concrete vault for the witnesses: a gain of 600 atoms unlocks from second 1000 to second 4000.
\<close>

definition example_vault :: vault where
  "example_vault = \<lparr>v_base_oracle = oracle_config_default, v_total_assets = 10000, v_deposit_cap = 0,
     v_external_assets = 0, v_pending_withdrawal_assets = 0, v_fees_payable = 0,
     v_high_watermark = 1000000, v_report_epoch = 3, v_requested_withdrawal_shares = 0,
     v_last_update_ts = 1000, v_locked_profit = 600, v_profit_unlock_start_ts = 1000,
     v_profit_unlock_end_ts = 4000, v_tag = key_of_bytes (ascii ''test'' @ replicate 28 0),
     v_admin = 1, v_strategist = 2, v_swap_authority = 3, v_nav_authority = 4,
     v_withdrawal_authority = 5, v_base_mint = 6, v_share_mint = 7, v_treasury = 8,
     v_last_report_hash = 0, v_access_merkle_root = 0,
     v_controls = vault_controls_new 3000 0 0 0 0 0 0, v_performance_fee_bps = 1000,
     v_withdrawal_buffer_bps = 0, v_tag_len = 4, v_base_decimals = 6, v_deposit_sub_account = 0,
     v_withdraw_sub_account = 1, v_deposits_paused_flag = 0, v_withdrawals_paused_flag = 0,
     v_manage_paused_flag = 0, v_private_flag = 0, v_external_enabled_flag = 0, v_bump = 255,
     v_padding = 0\<rparr>"

lemma oracle_validate_default [simp]: "oracle_validate oracle_config_default = Inr ()"
  by (simp add: oracle_validate_def oracle_config_default_def)

lemma example_vault_valid: "vault_validate_state example_vault = Inr ()"
  by (simp add: vault_validate_state_Inr_iff validate_config_Inr_iff example_vault_def unpack_tag_def
      validate_tag_def MAX_TAG_LEN_def get_slice_def ascii_def controls_validate_def vault_controls_new_def
      validate_percentage_bps_def BPS_DENOMINATOR_def)

lemma example_vault_effective: "effective_total_assets example_vault 2500 = Inr 9700"
proof -
  have "remaining_locked_profit example_vault 2500 = Inr 300"
    by (simp add: remaining_locked_profit_Inr_iff unlock_line_def example_vault_def)
  then show ?thesis by (simp add: effective_total_assets_def checked_sub_def example_vault_def)
qed

text \<open>
  For every vault the validator accepts whose unlock window starts at a real timestamp, the
  effective assets are defined at every instant, are exactly the total assets less the floor of
  the linear unlock line, never exceed the total assets and never fall as time passes.
\<close>
theorem effective_assets_linear_unlock:
  assumes "vault_validate_state v = Inr ()" and "0 \<le> sint (v_profit_unlock_start_ts v)"
    and "sint t \<le> sint t'"
  shows "\<exists>a b. effective_total_assets v t = Inr a \<and> effective_total_assets v t' = Inr b \<and>
           unat a + unlock_line (unat (v_locked_profit v)) (sint (v_profit_unlock_start_ts v))
             (sint (v_profit_unlock_end_ts v)) (sint t) = unat (v_total_assets v) \<and>
           a \<le> b \<and> b \<le> v_total_assets v"
proof -
  have "v_locked_profit v \<le> v_total_assets v"
    using assms(1) by (simp add: vault_validate_state_Inr_iff)
  from effective_total_assets_total [OF this assms(2)]
  obtain a b where a: "effective_total_assets v t = Inr a" and b: "effective_total_assets v t' = Inr b"
    by blast
  then show ?thesis
    using effective_plus_locked [OF a] effective_plus_locked [OF b] effective_mono [OF a b assms(3)]
    by (auto simp: word_le_nat_alt)
qed

theorem effective_assets_linear_unlock_witness:
  "\<exists>a b. effective_total_assets example_vault 2500 = Inr a \<and> effective_total_assets example_vault 3000 = Inr b \<and>
     unat a + 300 = 10000 \<and> a \<le> b"
  using effective_assets_linear_unlock [OF example_vault_valid, of 2500 3000]
  by (auto simp: example_vault_def unlock_line_def)

text \<open>
  Debiting a payout at the effective value keeps the vault valid, lowers the effective assets
  by exactly the amount, and leaves the profit still to unlock what it was at every later instant,
  up to one atom in the holders' favour.
\<close>
theorem debit_keeps_unlock_line:
  assumes "debit_assets_at_effective v amount now = Inr v'" and "vault_validate_state v = Inr ()"
    and "sint (v_profit_unlock_start_ts v) \<le> sint now"
  shows "vault_validate_state v' = Inr () \<and>
     (\<exists>a b. effective_total_assets v now = Inr a \<and> effective_total_assets v' now = Inr b \<and>
        unat a = unat b + unat amount) \<and>
     (\<forall>t. sint now \<le> sint t \<longrightarrow> locked_at v' t \<le> locked_at v t \<and> locked_at v t \<le> locked_at v' t + 1)"
  using debit_valid [OF assms(1,2)] debit_effective [OF assms(1)] debit_locked_later [OF assms(1,3)]
  by simp

theorem debit_keeps_unlock_line_witness:
  "\<exists>v'. debit_assets_at_effective example_vault 1700 2500 = Inr v' \<and> vault_validate_state v' = Inr () \<and>
     (\<exists>b. effective_total_assets v' 2500 = Inr b \<and> 9700 = unat b + 1700)"
proof -
  have r: "remaining_locked_profit example_vault 2500 = Inr 300"
    by (simp add: remaining_locked_profit_Inr_iff unlock_line_def example_vault_def)
  define v' where "v' = example_vault\<lparr>v_total_assets := 8300, v_locked_profit := 300,
    v_profit_unlock_start_ts := 2500\<rparr>"
  have d: "debit_assets_at_effective example_vault 1700 2500 = Inr v'"
    unfolding debit_Inr_iff
    by (intro exI [of _ 300] exI [of _ 8300]) (simp add: r v'_def, simp add: example_vault_def)
  have "sint (v_profit_unlock_start_ts example_vault) \<le> sint (2500 :: i64)"
    by (simp add: example_vault_def)
  from debit_keeps_unlock_line [OF d example_vault_valid this] d
  show ?thesis by (auto simp: example_vault_effective)
qed


text \<open>
  Recognising a NAV report sets the total assets to the report and keeps the vault valid; at
  the instant of the report a gain with an unlock window leaves the effective assets exactly where
  they were, while a loss (and a gain without a window) is recognised at once; when the window is
  over the report is recognised in full.
\<close>
theorem reported_nav_recognition:
  assumes "apply_reported_nav v net now = Inr v'" and "vault_validate_state v = Inr ()"
    and "effective_total_assets v now = Inr prior"
  shows "v_total_assets v' = net \<and> vault_validate_state v' = Inr () \<and>
     effective_total_assets v' now = Inr (if prior < net \<and> report_window v now \<noteq> 0 then prior else net) \<and>
     (\<forall>t. sint now + report_window v now \<le> sint t \<longrightarrow> effective_total_assets v' t = Inr net)"
  using apply_reported_nav_frame(1) [OF assms(1)] apply_reported_nav_valid [OF assms(1,2)]
    apply_reported_nav_effective [OF assms(1,3)] apply_reported_nav_unlocked [OF assms(1)] by simp

theorem reported_nav_recognition_witness:
  "\<exists>v'. apply_reported_nav example_vault 12000 2500 = Inr v' \<and> v_total_assets v' = 12000 \<and>
     effective_total_assets v' 2500 = Inr 9700 \<and> effective_total_assets v' 4000 = Inr 12000"
proof -
  have w: "report_window example_vault 2500 = 1500"
    by (simp add: report_window_def example_vault_def vault_controls_new_def)
  define v' where "v' = example_vault\<lparr>v_total_assets := 12000, v_locked_profit := 2300,
    v_profit_unlock_start_ts := 2500, v_profit_unlock_end_ts := 4000\<rparr>"
  have "apply_reported_nav example_vault 12000 2500 = Inr v'"
    unfolding apply_reported_nav_gain [OF example_vault_effective, of 12000, simplified] w
    by (intro exI [of _ 4000]) (simp add: v'_def)
  from reported_nav_recognition [OF this example_vault_valid example_vault_effective] this
  show ?thesis by (auto simp: w)
qed

lemma apply_reported_nav_total:
  assumes "vault_validate_state v = Inr ()" and "0 \<le> sint (v_profit_unlock_start_ts v)"
    and "sint now + report_window v now < 2 ^ 63"
  shows "\<exists>v'. apply_reported_nav v net now = Inr v'"
proof -
  have "v_locked_profit v \<le> v_total_assets v"
    using assms(1) by (simp add: vault_validate_state_Inr_iff)
  from effective_total_assets_total [OF this assms(2)]
  obtain prior where prior: "effective_total_assets v now = Inr prior" by blast
  show ?thesis
  proof (cases "prior < net")
    case True
    have "- (2 ^ 63) \<le> sint now + report_window v now"
      using sint_i64_range(1) [of now] report_window_bounds(1) [of v now] by linarith
    then have "sint (word_of_int (sint now + report_window v now) :: i64) = sint now + report_window v now"
      using assms(3) by (rule sint_of_int_i64)
    then show ?thesis unfolding apply_reported_nav_gain [OF prior True] by blast
  next
    case False
    then show ?thesis using apply_reported_nav_loss [OF prior] by blast
  qed
qed



text \<open>
  A vault that construction accepts passes the validator every later load runs, its stored
  tag decodes to the tag it was created with, and it starts without assets, obligations, fees,
  watermark or locked profit.
\<close>
theorem new_vault_is_valid:
  assumes "vault_new tag adm str sw nav wd bm sm bd orc dsub wsub tr fee buf cap ctl priv root bump = Inr v"
  shows "vault_validate_state v = Inr () \<and> tag_seed v = Inr tag \<and>
     v_total_assets v = 0 \<and> v_pending_withdrawal_assets v = 0 \<and> v_fees_payable v = 0 \<and>
     v_high_watermark v = 0 \<and> v_locked_profit v = 0 \<and> v_requested_withdrawal_shares v = 0"
  using vault_new_valid [OF assms] assms
  by (auto simp: vault_new_def tag_seed_def result_facts codec_facts)

theorem new_vault_is_valid_witness:
  "\<exists>v. vault_new (ascii ''test'') 1 2 3 4 5 6 7 6 oracle_config_default 0 1 8 1000 0 0
        (vault_controls_new 3000 0 0 0 0 0 0) False 0 255 = Inr v \<and>
       vault_validate_state v = Inr () \<and> tag_seed v = Inr (ascii ''test'')"
proof -
  have "validate_config 6 7 6 1000 0 = Inr ()" by (simp add: validate_config_Inr_iff)
  moreover have "controls_validate (vault_controls_new 3000 0 0 0 0 0 0) = Inr ()"
    by (simp add: controls_validate_def vault_controls_new_def validate_percentage_bps_def BPS_DENOMINATOR_def)
  ultimately obtain v where "vault_new (ascii ''test'') 1 2 3 4 5 6 7 6 oracle_config_default 0 1 8 1000 0 0
        (vault_controls_new 3000 0 0 0 0 0 0) False 0 255 = Inr v"
    by (simp add: vault_new_def pack_tag_def validate_tag_def MAX_TAG_LEN_def ascii_def)
  from new_vault_is_valid [OF this] this show ?thesis by blast
qed

text \<open>
  The gain bound on a report, computed in 128-bit integers, is the exact comparison over the
  unbounded numbers, is never defeated by an overflow and is off only when it is configured off
  or no shares exist.
\<close>
theorem nav_gain_bound_exact:
  "verify_nav_gain_bound v net supply =
     (if max_nav_gain_bps (v_controls v) = 0 \<or> supply = 0 \<or>
         unat net * 10000 \<le> unat (v_total_assets v) * (10000 + unat (max_nav_gain_bps (v_controls v)))
      then Inr () else Inl (into_program_error NavGainExceedsBound))"
  by (rule verify_nav_gain_bound_eq)

end
