(* ===== verification/Action.thy ===== *)
theory Action
  imports Vault
begin

text \<open>
  \<open>crates/interface/src/action.rs\<close> and \<open>crates/roshi/src/state/action.rs\<close>: the predicates an
  admin commits to when authorising a relayed call (\<open>Op\<close>), their four-byte storage form, the
  hash preimage they select from a call and its siblings, and the \<open>Action\<close> account that stores
  an authorised hash. The hash function is the parameter \<open>sha\<close>. Sizes are unbounded: an offset
  of 16 bits plus a length of 8 bits never overflows \<open>usize\<close>.
\<close>

section \<open>Definitions\<close>

definition MAX_ACTION_OPS :: nat where "MAX_ACTION_OPS = 32"

datatype action_scope = Manager | SwapScope | AtomicRedeem | FlashApprove | Deploy

datatype op =
    Noop
  | IngestInstruction (ii_offset: u16) (ii_len: u8)
  | IngestAccount (ia_index: u8)
  | IngestInstructionDataSize
  | IngestSiblingInstruction (si_relative_index: i8) (si_offset: u8) (si_len: u8)
  | IngestSiblingAccount (sa_relative_index: i8) (sa_index: u8)

record stored_op =
  so_kind :: u8
  so_arg0 :: u8
  so_arg1 :: u8
  so_arg2 :: u8

datatype action_hash_error =
    AH_InvalidOp
  | AH_TooManyOps
  | AH_InstructionSliceOutOfBounds
  | AH_AccountIndexOutOfBounds
  | AH_InvalidInstructionData
  | AH_MissingSibling

definition noop :: stored_op where
  "noop = \<lparr>so_kind = 0, so_arg0 = 0, so_arg1 = 0, so_arg2 = 0\<rparr>"

definition try_to_op :: "stored_op \<Rightarrow> action_hash_error + op" where
  "try_to_op s =
     (if so_kind s = 0 \<and> so_arg0 s = 0 \<and> so_arg1 s = 0 \<and> so_arg2 s = 0 then Inr Noop
      else if so_kind s = 1 then Inr (IngestInstruction (from_le_bytes [so_arg1 s, so_arg2 s]) (so_arg0 s))
      else if so_kind s = 2 \<and> so_arg1 s = 0 \<and> so_arg2 s = 0 then Inr (IngestAccount (so_arg0 s))
      else if so_kind s = 3 \<and> so_arg0 s = 0 \<and> so_arg1 s = 0 \<and> so_arg2 s = 0
      then Inr IngestInstructionDataSize
      else if so_kind s = 4 then Inr (IngestSiblingInstruction (so_arg0 s) (so_arg1 s) (so_arg2 s))
      else if so_kind s = 5 \<and> so_arg2 s = 0 then Inr (IngestSiblingAccount (so_arg0 s) (so_arg1 s))
      else Inl AH_InvalidOp)"

primrec stored_op_from :: "op \<Rightarrow> stored_op" where
  "stored_op_from Noop = noop"
| "stored_op_from (IngestInstruction offset len) =
     (let bs = to_le_bytes offset
      in \<lparr>so_kind = 1, so_arg0 = len, so_arg1 = bs ! 0, so_arg2 = bs ! 1\<rparr>)"
| "stored_op_from (IngestAccount index) = \<lparr>so_kind = 2, so_arg0 = index, so_arg1 = 0, so_arg2 = 0\<rparr>"
| "stored_op_from IngestInstructionDataSize = \<lparr>so_kind = 3, so_arg0 = 0, so_arg1 = 0, so_arg2 = 0\<rparr>"
| "stored_op_from (IngestSiblingInstruction relative_index offset len) =
     \<lparr>so_kind = 4, so_arg0 = relative_index, so_arg1 = offset, so_arg2 = len\<rparr>"
| "stored_op_from (IngestSiblingAccount relative_index index) =
     \<lparr>so_kind = 5, so_arg0 = relative_index, so_arg1 = index, so_arg2 = 0\<rparr>"

text \<open>The array \<open>[StoredOp; 32]\<close> is a list that \<open>wf_ops\<close> fixes to 32 entries.\<close>

record ops =
  ops_array :: "stored_op list"
  ops_len :: u8

definition wf_ops :: "ops \<Rightarrow> bool" where
  "wf_ops o' \<longleftrightarrow> length (ops_array o') = MAX_ACTION_OPS"

definition ops_empty :: ops where
  "ops_empty = \<lparr>ops_array = replicate MAX_ACTION_OPS noop, ops_len = 0\<rparr>"

fun ops_new_from :: "nat \<Rightarrow> op list \<Rightarrow> ops \<Rightarrow> action_hash_error + ops" where
  "ops_new_from index [] acc = Inr acc"
| "ops_new_from index (x # xs) acc =
     (if MAX_ACTION_OPS \<le> index then Inl AH_TooManyOps
      else if 256 \<le> index + 1 then Inl AH_InvalidInstructionData
      else ops_new_from (index + 1) xs
             (acc\<lparr>ops_array := (ops_array acc)[index := stored_op_from x],
                  ops_len := word_of_nat (index + 1)\<rparr>))"

definition ops_new :: "op list \<Rightarrow> action_hash_error + ops" where
  "ops_new xs = ops_new_from 0 xs ops_empty"

definition ops_length :: "ops \<Rightarrow> action_hash_error + nat" where
  "ops_length o' = (if MAX_ACTION_OPS < unat (ops_len o') then Inl AH_TooManyOps else Inr (unat (ops_len o')))"

definition ops_is_empty :: "ops \<Rightarrow> action_hash_error + bool" where
  "ops_is_empty o' = attempt (ops_length o') (\<lambda>n. Inr (n = 0))"

definition ops_iter :: "ops \<Rightarrow> action_hash_error + (action_hash_error + op) list" where
  "ops_iter o' = attempt (ops_length o') (\<lambda>n. Inr (map try_to_op (take n (ops_array o'))))"

record account_meta =
  am_pubkey :: key
  am_is_signer :: bool
  am_is_writable :: bool

record resolved_sibling =
  rs_relative_index :: i8
  rs_program_id :: key
  rs_data :: bytes
  rs_accounts :: "key list"

definition u8_of_bool :: "bool \<Rightarrow> u8" where
  "u8_of_bool b = (if b then 1 else 0)"

definition instruction_slice :: "bytes \<Rightarrow> nat \<Rightarrow> u8 \<Rightarrow> action_hash_error + bytes" where
  "instruction_slice data offset len =
     ok_or (get_slice data offset (offset + unat len)) AH_InstructionSliceOutOfBounds"

definition resolve_sibling :: "resolved_sibling list \<Rightarrow> i8 \<Rightarrow> action_hash_error + resolved_sibling" where
  "resolve_sibling siblings relative_index =
     ok_or (find (\<lambda>s. rs_relative_index s = relative_index) siblings) AH_MissingSibling"

text \<open>One round of the preimage loop: the bytes an op appends.\<close>

fun op_bytes ::
  "account_meta list \<Rightarrow> bytes \<Rightarrow> resolved_sibling list \<Rightarrow> op \<Rightarrow> action_hash_error + bytes" where
  "op_bytes accounts ix_data siblings Noop = Inr [0]"
| "op_bytes accounts ix_data siblings (IngestInstruction offset len) =
     attempt (instruction_slice ix_data (unat offset) len) (\<lambda>slice.
     Inr ([1] @ to_le_bytes offset @ [len] @ slice))"
| "op_bytes accounts ix_data siblings (IngestAccount index) =
     attempt (ok_or (get_nth accounts (unat index)) AH_AccountIndexOutOfBounds) (\<lambda>account.
     Inr ([2, index] @ key_bytes (am_pubkey account) @
          [u8_of_bool (am_is_signer account), u8_of_bool (am_is_writable account)]))"
| "op_bytes accounts ix_data siblings IngestInstructionDataSize =
     (if length ix_data < 2 ^ 32
      then Inr ([3] @ to_le_bytes (word_of_nat (length ix_data) :: u32))
      else Inl AH_InvalidInstructionData)"
| "op_bytes accounts ix_data siblings (IngestSiblingInstruction relative_index offset len) =
     attempt (resolve_sibling siblings relative_index) (\<lambda>sibling.
     attempt (instruction_slice (rs_data sibling) (unat offset) len) (\<lambda>slice.
     Inr ([4, relative_index] @ key_bytes (rs_program_id sibling) @ [offset, len] @ slice)))"
| "op_bytes accounts ix_data siblings (IngestSiblingAccount relative_index index) =
     attempt (resolve_sibling siblings relative_index) (\<lambda>sibling.
     attempt (ok_or (get_nth (rs_accounts sibling) (unat index)) AH_AccountIndexOutOfBounds) (\<lambda>account.
     Inr ([5, relative_index, index] @ key_bytes account)))"

fun ingest_ops ::
  "account_meta list \<Rightarrow> bytes \<Rightarrow> resolved_sibling list \<Rightarrow> (action_hash_error + op) list \<Rightarrow> bytes \<Rightarrow>
   action_hash_error + bytes" where
  "ingest_ops accounts ix_data siblings [] preimage = Inr preimage"
| "ingest_ops accounts ix_data siblings (x # xs) preimage =
     attempt x (\<lambda>decoded.
     attempt (op_bytes accounts ix_data siblings decoded) (\<lambda>bs.
     ingest_ops accounts ix_data siblings xs (preimage @ bs)))"

primrec op_len :: "op \<Rightarrow> nat" where
  "op_len Noop = 1"
| "op_len (IngestInstruction offset len) = 4 + unat len"
| "op_len (IngestAccount index) = 36"
| "op_len IngestInstructionDataSize = 5"
| "op_len (IngestSiblingInstruction relative_index offset len) = 36 + unat len"
| "op_len (IngestSiblingAccount relative_index index) = 35"

fun sum_op_len :: "(action_hash_error + op) list \<Rightarrow> nat \<Rightarrow> action_hash_error + nat" where
  "sum_op_len [] n = Inr n"
| "sum_op_len (x # xs) n = attempt x (\<lambda>decoded. sum_op_len xs (n + op_len decoded))"

definition preimage_len :: "ops \<Rightarrow> action_hash_error + nat" where
  "preimage_len o' = attempt (ops_iter o') (\<lambda>xs. sum_op_len xs 32)"

definition action_preimage ::
  "key \<Rightarrow> ops \<Rightarrow> account_meta list \<Rightarrow> bytes \<Rightarrow> resolved_sibling list \<Rightarrow> action_hash_error + bytes" where
  "action_preimage program_id o' accounts ix_data siblings =
     attempt (preimage_len o') (\<lambda>_.
     attempt (ops_iter o') (\<lambda>xs.
     ingest_ops accounts ix_data siblings xs (key_bytes program_id)))"

definition compute_action_hash_from_metas ::
  "(bytes \<Rightarrow> key) \<Rightarrow> key \<Rightarrow> ops \<Rightarrow> account_meta list \<Rightarrow> bytes \<Rightarrow> resolved_sibling list \<Rightarrow>
   action_hash_error + key" where
  "compute_action_hash_from_metas sha program_id o' accounts ix_data siblings =
     attempt (action_preimage program_id o' accounts ix_data siblings) (\<lambda>preimage. Inr (sha preimage))"

primrec action_hash_error_to_program_error :: "action_hash_error \<Rightarrow> program_error" where
  "action_hash_error_to_program_error AH_InvalidOp = into_program_error InvalidOp"
| "action_hash_error_to_program_error AH_TooManyOps = into_program_error InvalidOp"
| "action_hash_error_to_program_error AH_InstructionSliceOutOfBounds =
     into_program_error InstructionSliceOutOfBounds"
| "action_hash_error_to_program_error AH_AccountIndexOutOfBounds = into_program_error AccountIndexOutOfBounds"
| "action_hash_error_to_program_error AH_InvalidInstructionData = InvalidInstructionData"
| "action_hash_error_to_program_error AH_MissingSibling = into_program_error RequiredSiblingMissing"

fun first_error :: "('e + 'a) list \<Rightarrow> 'e + unit" where
  "first_error [] = Inr ()"
| "first_error (x # xs) = attempt x (\<lambda>_. first_error xs)"

definition validate_ops :: "ops \<Rightarrow> unit program_result" where
  "validate_ops o' =
     attempt (map_err action_hash_error_to_program_error (ops_iter o')) (\<lambda>xs.
     first_error (map (map_err action_hash_error_to_program_error) xs))"

record action =
  ac_vault :: key
  ac_action_hash :: key
  ac_ops :: ops
  ac_fee_num :: u64
  ac_fee_den :: u64
  ac_scope :: action_scope
  ac_amount_offset :: u16
  ac_bump :: u8

definition ACTION_SEED :: bytes where "ACTION_SEED = ascii ''action''"

definition action_find_address :: "pda_function \<Rightarrow> key \<Rightarrow> key \<Rightarrow> key \<times> u8" where
  "action_find_address find_program_address vault action_hash =
     find_program_address [ACTION_SEED, key_bytes vault, key_bytes action_hash] ID"

definition action_verify_vault :: "action \<Rightarrow> key \<Rightarrow> unit program_result" where
  "action_verify_vault a vault =
     (if ac_vault a \<noteq> vault then Inl (into_program_error UnauthorizedAction) else Inr ())"

definition action_verify_address :: "pda_function \<Rightarrow> action \<Rightarrow> key \<Rightarrow> key \<Rightarrow> unit program_result" where
  "action_verify_address find_program_address a vault action_key =
     (let (expected_action_key, expected_bump) = action_find_address find_program_address vault (ac_action_hash a)
      in if action_key \<noteq> expected_action_key \<or> ac_bump a \<noteq> expected_bump then Inl InvalidSeeds else Inr ())"

definition action_verify_for_vault :: "pda_function \<Rightarrow> action \<Rightarrow> key \<Rightarrow> key \<Rightarrow> unit program_result" where
  "action_verify_for_vault find_program_address a vault action_key =
     attempt (action_verify_vault a vault) (\<lambda>_. action_verify_address find_program_address a vault action_key)"


section \<open>Storage of ops\<close>

lemma two_bytes: "length bs = 2 \<Longrightarrow> [bs ! 0, bs ! Suc 0] = bs"
  by (cases bs; cases "tl bs") auto

lemma try_to_op_stored [simp, codec_facts]: "try_to_op (stored_op_from x) = Inr x"
  by (cases x) (simp_all add: try_to_op_def noop_def Let_def two_bytes)

lemma stored_of_try_to_op: "try_to_op s = Inr x \<Longrightarrow> stored_op_from x = s"
  by (cases s) (auto simp: try_to_op_def noop_def Let_def split: if_splits)

lemma ops_new_from_Inr:
  assumes "index + length xs \<le> MAX_ACTION_OPS" and "length (ops_array acc) = MAX_ACTION_OPS"
    and "unat (ops_len acc) = index"
  shows "\<exists>r. ops_new_from index xs acc = Inr r \<and> length (ops_array r) = MAX_ACTION_OPS \<and>
     unat (ops_len r) = index + length xs \<and>
     take (index + length xs) (ops_array r) = take index (ops_array acc) @ map stored_op_from xs"
  using assms
proof (induction xs arbitrary: index acc)
  case Nil
  then show ?case by simp
next
  case (Cons x xs)
  let ?acc = "acc\<lparr>ops_array := (ops_array acc)[index := stored_op_from x], ops_len := word_of_nat (index + 1)\<rparr>"
  have bounds: "index < 32" "index < length (ops_array acc)" using Cons.prems by (auto simp: MAX_ACTION_OPS_def)
  then have len: "unat (ops_len ?acc) = index + 1"
    using unat_of_nat_small [of "index + 1", where 'a = 8] by simp
  have "(index + 1) + length xs \<le> MAX_ACTION_OPS" "length (ops_array ?acc) = MAX_ACTION_OPS"
    using Cons.prems by simp_all
  from Cons.IH [OF this len] show ?case
    using bounds by (auto simp: MAX_ACTION_OPS_def take_Suc_conv_app_nth)
qed

lemma ops_new_from_too_many:
  assumes "MAX_ACTION_OPS < index + length xs" and "index \<le> MAX_ACTION_OPS"
  shows "ops_new_from index xs acc = Inl AH_TooManyOps"
  using assms
proof (induction xs arbitrary: index acc)
  case Nil
  then show ?case by simp
next
  case (Cons x xs)
  then show ?case by (cases "MAX_ACTION_OPS \<le> index") (auto simp: MAX_ACTION_OPS_def)
qed

text \<open>
  Storing a list of ops and reading it back yields the same ops, exactly when the list has at
  most 32 of them; a longer list is refused as \<open>TooManyOps\<close>, and no other error is possible.
  Conversely every stored op that decodes is the canonical storage of what it decodes to.
\<close>
theorem ops_round_trip:
  "(case ops_new xs of
      Inl e \<Rightarrow> 32 < length xs \<and> e = AH_TooManyOps
    | Inr r \<Rightarrow> length xs \<le> 32 \<and> wf_ops r \<and> ops_iter r = Inr (map Inr xs)) \<and>
   (\<forall>s x. try_to_op s = Inr x \<longleftrightarrow> stored_op_from x = s)"
proof (intro conjI allI)
  show "case ops_new xs of Inl e \<Rightarrow> 32 < length xs \<and> e = AH_TooManyOps
    | Inr r \<Rightarrow> length xs \<le> 32 \<and> wf_ops r \<and> ops_iter r = Inr (map Inr xs)"
  proof (cases "length xs \<le> 32")
    case True
    then obtain r where "ops_new xs = Inr r" "length (ops_array r) = 32" "unat (ops_len r) = length xs"
      "take (length xs) (ops_array r) = map stored_op_from xs"
      using ops_new_from_Inr [of 0 xs ops_empty] by (auto simp: ops_new_def ops_empty_def MAX_ACTION_OPS_def)
    then show ?thesis using True
      by (simp add: wf_ops_def ops_iter_def ops_length_def MAX_ACTION_OPS_def comp_def)
  next
    case False
    then show ?thesis by (simp add: ops_new_def ops_new_from_too_many MAX_ACTION_OPS_def)
  qed
  show "try_to_op s = Inr x \<longleftrightarrow> stored_op_from x = s" for s x
    using stored_of_try_to_op by auto
qed

section \<open>The preimage\<close>

lemma op_bytes_length: "op_bytes accounts ix_data siblings x = Inr bs \<Longrightarrow> length bs = op_len x"
  by (cases x) (auto simp: instruction_slice_def result_facts dest!: get_slice_length split: if_splits)

lemma ingest_ops_Inr_iff:
  "ingest_ops accounts ix_data siblings xs pre = Inr p \<longleftrightarrow>
     (\<exists>ys bss. xs = map Inr ys \<and> map_M (op_bytes accounts ix_data siblings) ys = Inr bss \<and>
        p = pre @ concat bss)"
proof (induction xs arbitrary: pre)
  case Nil
  then show ?case by auto
next
  case (Cons x xs)
  show ?case
  proof (cases x)
    case (Inl e)
    then show ?thesis by (auto simp: Cons_eq_map_conv)
  next
    case (Inr y)
    then show ?thesis
      by (auto simp: Cons.IH Cons_eq_map_conv result_facts)
  qed
qed

lemma sum_op_len_map: "sum_op_len (map Inr ys) n = Inr (n + sum_list (map op_len ys))"
  by (induction ys arbitrary: n) auto

lemma map_M_op_bytes_length:
  "map_M (op_bytes accounts ix_data siblings) ys = Inr bss \<Longrightarrow>
   length (concat bss) = sum_list (map op_len ys)"
  by (induction ys arbitrary: bss) (auto simp: result_facts dest: op_bytes_length)

lemma action_preimage_Inr_iff:
  "action_preimage program_id o' accounts ix_data siblings = Inr p \<longleftrightarrow>
     (\<exists>ys bss. ops_iter o' = Inr (map Inr ys) \<and> map_M (op_bytes accounts ix_data siblings) ys = Inr bss \<and>
        p = key_bytes program_id @ concat bss)"
  by (auto simp: action_preimage_def preimage_len_def result_facts ingest_ops_Inr_iff sum_op_len_map)


text \<open>
  The buffer size computed before hashing is the exact length of the preimage, for every
  call: the buffer is never reallocated and never oversized.
\<close>
theorem preimage_len_exact:
  assumes "action_preimage program_id o' accounts ix_data siblings = Inr p"
  shows "preimage_len o' = Inr (length p)"
  using assms
  by (auto simp: action_preimage_Inr_iff preimage_len_def sum_op_len_map map_M_op_bytes_length)

text \<open>Each op's bytes delimit themselves: what follows them cannot be confused with them.\<close>

lemma op_bytes_prefix_free:
  assumes "op_bytes A I S x = Inr b" and "op_bytes A' I' S' x' = Inr b'" and "b @ r = b' @ r'"
  shows "x = x' \<and> b = b' \<and> r = r'"
  using assms
  by (cases x; cases x')
     (auto simp: instruction_slice_def result_facts to_le_bytes_inject append_eq_append_conv
       split: if_splits dest!: get_slice_length)


lemma op_bytes_nonempty: "op_bytes A I S x = Inr b \<Longrightarrow> b \<noteq> []"
  by (drule op_bytes_length) (cases x; auto)

lemma op_bytes_list_unique:
  assumes "map_M (op_bytes A I S) xs = Inr bss" and "map_M (op_bytes A' I' S') ys = Inr bss'"
    and "concat bss = concat bss'"
  shows "xs = ys \<and> bss = bss'"
  using assms
proof (induction xs arbitrary: bss ys bss')
  case Nil
  then show ?case by (cases ys) (auto simp: result_facts dest: op_bytes_nonempty)
next
  case (Cons x xs)
  from Cons.prems(1) obtain b bs where b: "op_bytes A I S x = Inr b"
    and bs: "map_M (op_bytes A I S) xs = Inr bs" "bss = b # bs" by (auto simp: result_facts)
  show ?case
  proof (cases ys)
    case Nil
    with Cons.prems b bs show ?thesis by (auto dest: op_bytes_nonempty)
  next
    case (Cons y ys')
    with Cons.prems(2) obtain b' bs' where b': "op_bytes A' I' S' y = Inr b'"
      and bs': "map_M (op_bytes A' I' S') ys' = Inr bs'" "bss' = b' # bs'" by (auto simp: result_facts)
    have "b @ concat bs = b' @ concat bs'" using Cons.prems(3) bs(2) bs'(2) by simp
    from op_bytes_prefix_free [OF b b' this] Cons.IH [OF bs(1) bs'(1)] bs bs' \<open>ys = y # ys'\<close>
    show ?thesis by simp
  qed
qed

lemma map_M_set: "map_M f xs = Inr ys \<Longrightarrow> map_M g xs = Inr ys \<Longrightarrow> x \<in> set xs \<Longrightarrow> f x = g x"
  by (induction xs arbitrary: ys) (auto simp: result_facts)

text \<open>
  The preimage binds the call: two calls, relayed against any two stored op lists, have the
  same preimage only if they go to the same program, under the same ops, and agree on everything
  an op ingests: instruction bytes, account keys with their signer and writable flags, data size,
  sibling programs, sibling bytes and sibling accounts. An authorised hash therefore admits a
  different call only through a collision of the hash function.
\<close>
theorem action_preimage_binds_call:
  assumes "action_preimage p o' A I S = Inr b" and "action_preimage p' o'' A' I' S' = Inr b"
  shows "p = p' \<and> (\<exists>xs. ops_iter o' = Inr (map Inr xs) \<and> ops_iter o'' = Inr (map Inr xs) \<and>
     (\<forall>x \<in> set xs. op_bytes A I S x = op_bytes A' I' S' x) \<and>
     (\<forall>i. IngestAccount i \<in> set xs \<longrightarrow> A ! unat i = A' ! unat i) \<and>
     (\<forall>off n. IngestInstruction off n \<in> set xs \<longrightarrow>
        get_slice I (unat off) (unat off + unat n) = get_slice I' (unat off) (unat off + unat n)))"
proof -
  from assms(1) obtain xs bss where xs: "ops_iter o' = Inr (map Inr xs)"
    "map_M (op_bytes A I S) xs = Inr bss" "b = key_bytes p @ concat bss"
    by (auto simp: action_preimage_Inr_iff)
  from assms(2) obtain ys bss' where ys: "ops_iter o'' = Inr (map Inr ys)"
    "map_M (op_bytes A' I' S') ys = Inr bss'" "b = key_bytes p' @ concat bss'"
    by (auto simp: action_preimage_Inr_iff)
  from xs(3) ys(3) have p: "p = p'" and c: "concat bss = concat bss'"
    by (simp_all add: append_eq_append_conv)
  note eq = op_bytes_list_unique [OF xs(2) ys(2) c]
  have same: "op_bytes A I S x = op_bytes A' I' S' x" if "x \<in> set xs" for x
    using map_M_set [OF xs(2) _ that] ys(2) eq by simp
  have ok: "\<exists>z. op_bytes A I S x = Inr z" if "x \<in> set xs" for x
    using map_M_nth [OF xs(2)] that by (metis in_set_conv_nth)
  have "A ! unat i = A' ! unat i" if "IngestAccount i \<in> set xs" for i
    using same [OF that] ok [OF that]
    by (cases "A ! unat i"; cases "A' ! unat i")
       (auto simp: result_facts get_nth_Some_iff attempt_def get_nth_def u8_of_bool_def split: if_splits)
  moreover have "get_slice I (unat off) (unat off + unat n) = get_slice I' (unat off) (unat off + unat n)"
    if "IngestInstruction off n \<in> set xs" for off n
    using same [OF that] ok [OF that]
    by (cases "get_slice I (unat off) (unat off + unat n)"; cases "get_slice I' (unat off) (unat off + unat n)")
       (auto simp: instruction_slice_def)
  ultimately show ?thesis using p xs(1) ys(1) eq same by auto
qed

definition example_ops :: ops where
  "example_ops = ops_empty\<lparr>ops_array := (ops_array ops_empty)[0 := stored_op_from (IngestAccount 0)], ops_len := 1\<rparr>"

lemma example_preimage:
  "action_preimage 9 example_ops [\<lparr>am_pubkey = 5, am_is_signer = True, am_is_writable = False\<rparr>] [] [] =
     Inr (key_bytes 9 @ [2, 0] @ key_bytes 5 @ [1, 0])"
proof -
  have "replicate 32 noop = noop # replicate 31 noop" by (simp flip: replicate_Suc)
  then have "ops_iter example_ops = Inr [Inr (IngestAccount 0)]"
    by (simp add: ops_iter_def ops_length_def example_ops_def ops_empty_def MAX_ACTION_OPS_def
        del: stored_op_from.simps)
  then show ?thesis
    by (simp add: action_preimage_def preimage_len_def get_nth_def u8_of_bool_def)
qed

theorem preimage_len_exact_witness: "preimage_len example_ops = Inr 68"
  using preimage_len_exact [OF example_preimage] by simp

theorem action_preimage_binds_call_witness:
  "\<exists>xs. ops_iter example_ops = Inr (map Inr xs) \<and> (9 :: key) = 9"
  using action_preimage_binds_call [OF example_preimage example_preimage] by blast

end
