(* ===== verification/Account_Flags.thy ===== *)
theory Account_Flags
  imports Action
begin

text \<open>
  \<open>crates/interface/src/instructions/account_flags.rs\<close>: the signer and writable flags of a relayed
  account slice, packed four accounts to a byte. The assertion on the number of accounts, a panic
  in the source, is the result \<open>None\<close>.
\<close>

unbundle bit_operations_syntax

section \<open>Definitions\<close>

record account_flags =
  af_is_signer :: bool
  af_is_writable :: bool

record packed_account_flags =
  accounts_len :: u8
  packed_bits :: bytes

definition div_ceil_4 :: "nat \<Rightarrow> nat" where
  "div_ceil_4 n = (n + 3) div 4"

definition flags_value :: "account_flags \<Rightarrow> u8" where
  "flags_value f = u8_of_bool (af_is_signer f) OR push_bit 1 (u8_of_bool (af_is_writable f))"

fun pack_loop :: "nat \<Rightarrow> account_flags list \<Rightarrow> bytes \<Rightarrow> bytes" where
  "pack_loop index [] bits = bits"
| "pack_loop index (f # fs) bits =
     pack_loop (index + 1) fs
       (bits[index div 4 := bits ! (index div 4) OR push_bit ((index mod 4) * 2) (flags_value f)])"

definition from_flags :: "account_flags list \<Rightarrow> packed_account_flags option" where
  "from_flags fs =
     (if 255 < length fs then None
      else Some \<lparr>accounts_len = word_of_nat (length fs),
                 packed_bits = pack_loop 0 fs (replicate (div_ceil_4 (length fs)) 0)\<rparr>)"

definition flags_at :: "bytes \<Rightarrow> nat \<Rightarrow> account_flags" where
  "flags_at bits index =
     (let v = drop_bit ((index mod 4) * 2) (bits ! (index div 4))
      in \<lparr>af_is_signer = (v AND 1 \<noteq> 0), af_is_writable = (v AND 2 \<noteq> 0)\<rparr>)"

definition flags_iter :: "packed_account_flags \<Rightarrow> account_flags list program_result" where
  "flags_iter p =
     (let expected_len = div_ceil_4 (unat (accounts_len p));
          used_bits = (unat (accounts_len p) mod 4) * 2
      in if length (packed_bits p) \<noteq> expected_len then Inl InvalidInstructionData
         else if used_bits \<noteq> 0 \<and> drop_bit used_bits (packed_bits p ! (expected_len - 1)) \<noteq> 0
         then Inl InvalidInstructionData
         else Inr (map (flags_at (packed_bits p)) [0 ..< unat (accounts_len p)]))"

section \<open>Reading the bits\<close>

definition flag_bit :: "account_flags \<Rightarrow> nat \<Rightarrow> bool" where
  "flag_bit f k \<longleftrightarrow> (if even k then af_is_signer f else af_is_writable f)"

lemma bit_flags_value: "bit (flags_value f) m \<longleftrightarrow> m < 2 \<and> flag_bit f m"
proof -
  have "bit (u8_of_bool b) m \<longleftrightarrow> m = 0 \<and> b" for b m
    by (simp add: u8_of_bool_def bit_1_iff)
  then show ?thesis
    unfolding flags_value_def bit_or_iff bit_push_bit_iff flag_bit_def
    by (cases m; cases "m - 1") auto
qed

definition packed_up_to :: "account_flags list \<Rightarrow> nat \<Rightarrow> bytes \<Rightarrow> bool" where
  "packed_up_to fs n bits \<longleftrightarrow>
     (\<forall>q < length bits. \<forall>k < 8. bit (bits ! q) k \<longleftrightarrow>
        4 * q + k div 2 < n \<and> flag_bit (fs ! (4 * q + k div 2)) k)"

lemma packed_step:
  assumes "packed_up_to fs n bits" and "n div 4 < length bits"
  shows "packed_up_to fs (n + 1)
     (bits[n div 4 := bits ! (n div 4) OR push_bit ((n mod 4) * 2) (flags_value (fs ! n))])"
  unfolding packed_up_to_def
proof (intro allI impI)
  fix q k :: nat
  assume q: "q < length (bits[n div 4 := bits ! (n div 4) OR push_bit ((n mod 4) * 2) (flags_value (fs ! n))])"
    and k: "k < 8"
  have old: "bit (bits ! q) k \<longleftrightarrow> 4 * q + k div 2 < n \<and> flag_bit (fs ! (4 * q + k div 2)) k"
    using assms(1) q k by (simp add: packed_up_to_def)
  show "bit (bits[n div 4 := bits ! (n div 4) OR push_bit ((n mod 4) * 2) (flags_value (fs ! n))] ! q) k \<longleftrightarrow>
    4 * q + k div 2 < n + 1 \<and> flag_bit (fs ! (4 * q + k div 2)) k"
  proof (cases "q = n div 4")
    case False
    have "4 * q + k div 2 \<noteq> n" using False k by auto
    then show ?thesis using old False by auto
  next
    case True
    have new: "bit (push_bit ((n mod 4) * 2) (flags_value (fs ! n))) k \<longleftrightarrow>
        k div 2 = n mod 4 \<and> flag_bit (fs ! n) k"
    proof -
      define m where "m = n mod 4"
      have a: "m * 2 \<le> k \<and> k - m * 2 < 2 \<longleftrightarrow> k div 2 = m" by presburger
      have e: "m * 2 \<le> k \<Longrightarrow> flag_bit f (k - m * 2) = flag_bit f k" for f
        by (simp add: flag_bit_def)
      have "bit (push_bit (m * 2) (flags_value (fs ! n))) k \<longleftrightarrow>
          m * 2 \<le> k \<and> bit (flags_value (fs ! n)) (k - m * 2)"
        using k by (simp add: bit_push_bit_iff)
      also have "\<dots> \<longleftrightarrow> (m * 2 \<le> k \<and> k - m * 2 < 2) \<and> flag_bit (fs ! n) k"
        using e [of "fs ! n"] unfolding bit_flags_value by blast
      finally show ?thesis using a unfolding m_def by blast
    qed
    have "4 * q + k div 2 = n \<longleftrightarrow> k div 2 = n mod 4" using True by presburger
    then show ?thesis using old new True assms(2) by (auto simp: bit_or_iff)
  qed
qed

lemma pack_loop_packed:
  assumes "packed_up_to fs n bits" and "n \<le> length fs" and "length bits = div_ceil_4 (length fs)"
  shows "packed_up_to fs (length fs) (pack_loop n (drop n fs) bits) \<and>
     length (pack_loop n (drop n fs) bits) = length bits"
  using assms
proof (induction "length fs - n" arbitrary: n bits)
  case 0
  then show ?case by simp
next
  case (Suc d)
  then have n: "n < length fs" by simp
  then have "n div 4 < length bits" using Suc.prems(3) by (simp add: div_ceil_4_def)
  note step = packed_step [OF Suc.prems(1) this]
  have "drop n fs = fs ! n # drop (n + 1) fs" using n by (simp add: Cons_nth_drop_Suc)
  moreover have "d = length fs - (n + 1)" using Suc.hyps(2) by simp
  note Suc.hyps(1) [OF this step]
  ultimately show ?case using n Suc.prems(3) by simp
qed

lemma from_flags_packed:
  assumes "from_flags fs = Some p"
  shows "packed_up_to fs (length fs) (packed_bits p)" and "unat (accounts_len p) = length fs"
    and "length (packed_bits p) = div_ceil_4 (length fs)"
proof -
  have "packed_up_to fs 0 (replicate (div_ceil_4 (length fs)) 0)" by (simp add: packed_up_to_def)
  from pack_loop_packed [OF this] assms
  show "packed_up_to fs (length fs) (packed_bits p)" "length (packed_bits p) = div_ceil_4 (length fs)"
    by (auto simp: from_flags_def split: if_splits)
  show "unat (accounts_len p) = length fs"
    using assms by (auto simp: from_flags_def intro!: unat_of_nat_small split: if_splits)
qed

lemma flags_at_packed:
  assumes "packed_up_to fs n bits" and "index < n" and "index div 4 < length bits"
  shows "flags_at bits index = fs ! index"
proof -
  have 4: "(index mod 4) * 2 + 1 < 8" by presburger
  have "4 * (index div 4) + ((index mod 4) * 2) div 2 = index"
    "4 * (index div 4) + ((index mod 4) * 2 + 1) div 2 = index" by simp_all
  then have b: "bit (bits ! (index div 4)) ((index mod 4) * 2) \<longleftrightarrow> af_is_signer (fs ! index)"
    "bit (bits ! (index div 4)) ((index mod 4) * 2 + 1) \<longleftrightarrow> af_is_writable (fs ! index)"
    using assms 4 unfolding packed_up_to_def flag_bit_def
    by (metis add_lessD1 even_mult_iff even_numeral, metis even_mult_iff even_numeral even_plus_one_iff)
  have 1: "v AND 1 \<noteq> 0 \<longleftrightarrow> bit v 0" and 2: "v AND 2 \<noteq> 0 \<longleftrightarrow> bit v 1" for v :: u8
    using and_exp_eq_0_iff_not_bit [of v 0] and_exp_eq_0_iff_not_bit [of v 1] by simp_all
  show ?thesis using b by (simp add: flags_at_def Let_def 1 2 bit_drop_bit_eq)
qed

lemma unused_bits_zero:
  assumes "packed_up_to fs n bits" and "n mod 4 \<noteq> 0" and "length bits = div_ceil_4 n"
  shows "drop_bit ((n mod 4) * 2) (bits ! (div_ceil_4 n - 1)) = 0"
proof (rule bit_word_eqI)
  fix k
  assume "k < LENGTH(8)"
  let ?k = "(n mod 4) * 2 + k"
  have "div_ceil_4 n - 1 = n div 4" "n div 4 < length bits"
    using assms(2,3) unfolding div_ceil_4_def by presburger+
  moreover have "n \<le> 4 * (n div 4) + ?k div 2" by presburger
  ultimately have "?k < 8 \<longrightarrow> \<not> bit (bits ! (div_ceil_4 n - 1)) ?k"
    using assms(1) unfolding packed_up_to_def by (metis not_less)
  moreover have "8 \<le> ?k \<Longrightarrow> \<not> bit (bits ! (div_ceil_4 n - 1)) ?k"
    using bit_imp_le_length [of "bits ! (div_ceil_4 n - 1)" ?k] by auto
  ultimately show "bit (drop_bit ((n mod 4) * 2) (bits ! (div_ceil_4 n - 1))) k = bit (0 :: u8) k"
    by (auto simp: bit_drop_bit_eq not_less)
qed

text \<open>
  Packing the flags of up to 255 relayed accounts always succeeds, is accepted as canonical
  by the reader and reads back as the very same flags; more accounts are refused.
\<close>
theorem flags_round_trip:
  "map_option flags_iter (from_flags fs) = (if length fs \<le> 255 then Some (Inr fs) else None)"
proof (cases "length fs \<le> 255")
  case True
  then obtain p where p: "from_flags fs = Some p" by (simp add: from_flags_def)
  note f = from_flags_packed [OF p]
  have "flags_at (packed_bits p) i = fs ! i" if "i < length fs" for i
    using that f(3) by (intro flags_at_packed [OF f(1) that]) (simp add: div_ceil_4_def)
  then have "map (flags_at (packed_bits p)) [0 ..< length fs] = fs"
    by (intro nth_equalityI) simp_all
  moreover have "length fs mod 4 \<noteq> 0 \<Longrightarrow>
      drop_bit (length fs mod 4 * 2) (packed_bits p ! (div_ceil_4 (length fs) - 1)) = 0"
    using unused_bits_zero [OF f(1) _ f(3)] .
  ultimately have "flags_iter p = Inr fs" using f(2,3) by (auto simp: flags_iter_def Let_def)
  then show ?thesis using p True by simp
next
  case False
  then show ?thesis by (simp add: from_flags_def)
qed

end
