(* ===== verification/Runtime.thy ===== *)
theory Runtime
  imports Account_Flags
begin

text \<open>
  What the program sees of the Solana runtime and of its other dependencies, and the state it
  keeps there.

  A \<open>ledger\<close> maps every address to its account cell; an \<open>account_info\<close> is the handle an
  instruction receives, so that two handles on one address alias the same cell. A handler is a
  function from ledger to ledger or error; the runtime discards the writes of a failed
  instruction, so an error carries no ledger. Borrow conflicts of one handler with itself do not
  arise, as no handler holds a borrow across a call that borrows the same cell.

  Everything the sources only call is a field of \<open>env\<close>: address derivation, hashing, the wincode
  codec, clock, rent and instructions sysvars, cross-program invocation, the instruction builders of
  the system and token programs, and the Switchboard quote verifier.
\<close>

section \<open>The ledger\<close>

record account_cell =
  c_owner :: key
  c_lamports :: u64
  c_data :: bytes
  c_executable :: bool

type_synonym ledger = "key \<Rightarrow> account_cell"

record account_info =
  ai_key :: key
  ai_is_signer :: bool
  ai_is_writable :: bool

record clock =
  clock_slot :: u64
  unix_timestamp :: i64

record instruction =
  ix_program_id :: key
  ix_accounts :: "account_meta list"
  ix_data :: bytes

abbreviation owner_of :: "ledger \<Rightarrow> account_info \<Rightarrow> key" where
  "owner_of L a \<equiv> c_owner (L (ai_key a))"

abbreviation data_of :: "ledger \<Rightarrow> account_info \<Rightarrow> bytes" where
  "data_of L a \<equiv> c_data (L (ai_key a))"

abbreviation lamports_of :: "ledger \<Rightarrow> account_info \<Rightarrow> u64" where
  "lamports_of L a \<equiv> c_lamports (L (ai_key a))"

definition set_data :: "key \<Rightarrow> bytes \<Rightarrow> ledger \<Rightarrow> ledger" where
  "set_data k d L = L(k := (L k)\<lparr>c_data := d\<rparr>)"

definition set_lamports :: "key \<Rightarrow> u64 \<Rightarrow> ledger \<Rightarrow> ledger" where
  "set_lamports k n L = L(k := (L k)\<lparr>c_lamports := n\<rparr>)"

definition set_owner :: "key \<Rightarrow> key \<Rightarrow> ledger \<Rightarrow> ledger" where
  "set_owner k p L = L(k := (L k)\<lparr>c_owner := p\<rparr>)"

definition SYSTEM_PROGRAM_ID :: key where "SYSTEM_PROGRAM_ID = 0"

section \<open>Program accounts\<close>

record asset =
  as_vault :: key
  as_asset_mint :: key
  as_oracle :: oracle_config
  as_deposit_cap_atoms :: u64
  as_asset_decimals :: u8
  as_enabled_flag :: u8
  as_routed_flag :: u8
  as_bump :: u8
  as_padding :: "32 word"

record withdrawal_ticket =
  wt_vault :: key
  wt_owner :: key
  wt_recipient_token_account :: key
  wt_shares_burned :: u64
  wt_assets_owed :: u64
  wt_request_epoch :: u64
  wt_request_slot :: u64
  wt_ticket_index :: u8
  wt_bump :: u8
  wt_padding :: "48 word"

record external_destination =
  ed_vault :: key
  ed_token_account :: key
  ed_bump :: u8

record program_config =
  pc_authority :: key

datatype account =
    VaultAccount vault
  | ActionAccount action
  | WithdrawalTicketAccount withdrawal_ticket
  | AssetAccount asset
  | ExternalDestinationAccount external_destination
  | ProgramConfigAccount program_config

text \<open>A Switchboard quote, as far as it is read: the signed 128-bit value of a feed.\<close>

type_synonym switchboard_quote = "key \<Rightarrow> 128 word option"

record env =
  find_program_address :: pda_function
  sha256 :: "bytes \<Rightarrow> key"
  serialize :: "account \<Rightarrow> bytes option"
  deserialize :: "bytes \<Rightarrow> account option"
  get_clock :: "clock program_result"
  rent_minimum_balance :: "nat \<Rightarrow> u64 program_result"
  invoke_signed :: "instruction \<Rightarrow> account_info list \<Rightarrow> bytes list list \<Rightarrow> ledger \<Rightarrow> ledger program_result"
  create_account_ix :: "key \<Rightarrow> key \<Rightarrow> u64 \<Rightarrow> u64 \<Rightarrow> key \<Rightarrow> instruction"
  system_transfer_ix :: "key \<Rightarrow> key \<Rightarrow> u64 \<Rightarrow> instruction"
  allocate_ix :: "key \<Rightarrow> u64 \<Rightarrow> instruction"
  assign_ix :: "key \<Rightarrow> key \<Rightarrow> instruction"
  initialize_mint2_ix :: "key \<Rightarrow> key \<Rightarrow> key \<Rightarrow> u8 \<Rightarrow> instruction program_result"
  verify_quote :: "ledger \<Rightarrow> key \<Rightarrow> key \<Rightarrow> key \<Rightarrow> u64 \<Rightarrow> u64 \<Rightarrow> key \<Rightarrow> switchboard_quote option"
  parse_quote :: "bytes \<Rightarrow> switchboard_quote option"
  load_current_index_checked :: "ledger \<Rightarrow> account_info \<Rightarrow> u16 program_result"
  load_instruction_at_checked :: "nat \<Rightarrow> ledger \<Rightarrow> account_info \<Rightarrow> instruction program_result"
  get_instruction_relative :: "int \<Rightarrow> ledger \<Rightarrow> account_info \<Rightarrow> instruction program_result"

definition invoke :: "env \<Rightarrow> instruction \<Rightarrow> account_info list \<Rightarrow> ledger \<Rightarrow> ledger program_result" where
  "invoke E ix infos L = invoke_signed E ix infos [] L"

section \<open>Asset, ticket, destination, configuration and sub-account records\<close>

definition asset_bool_flag :: "u8 \<Rightarrow> bool program_result" where
  "asset_bool_flag f = (if f = 0 then Inr False else if f = 1 then Inr True
     else Inl (into_program_error InvalidAssetAccount))"

definition ASSET_SEED :: bytes where "ASSET_SEED = ascii ''asset''"

definition asset_new ::
  "key \<Rightarrow> key \<Rightarrow> oracle_config \<Rightarrow> u8 \<Rightarrow> bool \<Rightarrow> bool \<Rightarrow> u64 \<Rightarrow> u8 \<Rightarrow> asset program_result" where
  "asset_new vault_key asset_mint oracle asset_decimals enabled routed deposit_cap_atoms bump =
     attempt (map_err (\<lambda>_. into_program_error InvalidAssetAccount) (oracle_validate oracle)) (\<lambda>_.
     Inr \<lparr>as_vault = vault_key, as_asset_mint = asset_mint, as_oracle = oracle,
          as_deposit_cap_atoms = deposit_cap_atoms, as_asset_decimals = asset_decimals,
          as_enabled_flag = flag enabled, as_routed_flag = flag routed, as_bump = bump,
          as_padding = 0\<rparr>)"

definition asset_find_address :: "pda_function \<Rightarrow> key \<Rightarrow> key \<Rightarrow> key \<times> u8" where
  "asset_find_address pda vault_key asset_mint = pda [ASSET_SEED, key_bytes vault_key, key_bytes asset_mint] ID"

definition asset_enabled :: "asset \<Rightarrow> bool program_result" where
  "asset_enabled a = asset_bool_flag (as_enabled_flag a)"

definition asset_set_enabled :: "bool \<Rightarrow> asset \<Rightarrow> asset" where
  "asset_set_enabled b a = a\<lparr>as_enabled_flag := flag b\<rparr>"

definition asset_routed :: "asset \<Rightarrow> bool program_result" where
  "asset_routed a = asset_bool_flag (as_routed_flag a)"

definition asset_set_routed :: "bool \<Rightarrow> asset \<Rightarrow> asset" where
  "asset_set_routed b a = a\<lparr>as_routed_flag := flag b\<rparr>"

definition asset_validate_state :: "asset \<Rightarrow> unit program_result" where
  "asset_validate_state a =
     attempt (map_err (\<lambda>_. into_program_error InvalidAssetAccount) (oracle_validate (as_oracle a))) (\<lambda>_.
     attempt (asset_bool_flag (as_enabled_flag a)) (\<lambda>_.
     attempt (asset_bool_flag (as_routed_flag a)) (\<lambda>_. Inr ())))"

definition TICKET_SEED :: bytes where "TICKET_SEED = ascii ''ticket''"
definition WITHDRAWAL_TICKET_COUNT :: u16 where "WITHDRAWAL_TICKET_COUNT = 256"
definition REDEEM_CANCEL_DELAY_SLOTS :: u64 where "REDEEM_CANCEL_DELAY_SLOTS = 150"
definition WITHDRAWAL_STRIKE_DELAY_EPOCHS :: u64 where "WITHDRAWAL_STRIKE_DELAY_EPOCHS = 1"

definition ticket_new ::
  "key \<Rightarrow> key \<Rightarrow> key \<Rightarrow> u8 \<Rightarrow> u64 \<Rightarrow> u64 \<Rightarrow> u64 \<Rightarrow> u64 \<Rightarrow> u8 \<Rightarrow> withdrawal_ticket" where
  "ticket_new vault_key owner recipient ticket_index shares_burned assets_owed request_epoch
     request_slot bump =
     \<lparr>wt_vault = vault_key, wt_owner = owner, wt_recipient_token_account = recipient,
      wt_shares_burned = shares_burned, wt_assets_owed = assets_owed,
      wt_request_epoch = request_epoch, wt_request_slot = request_slot,
      wt_ticket_index = ticket_index, wt_bump = bump, wt_padding = 0\<rparr>"

definition ticket_find_address :: "pda_function \<Rightarrow> key \<Rightarrow> key \<Rightarrow> u8 \<Rightarrow> key \<times> u8" where
  "ticket_find_address pda vault_key owner ticket_index =
     pda [TICKET_SEED, key_bytes vault_key, key_bytes owner, [ticket_index]] ID"

definition EXTERNAL_DESTINATION_SEED :: bytes where
  "EXTERNAL_DESTINATION_SEED = ascii ''external_destination''"

definition external_destination_new :: "key \<Rightarrow> key \<Rightarrow> u8 \<Rightarrow> external_destination" where
  "external_destination_new vault_key token_account bump =
     \<lparr>ed_vault = vault_key, ed_token_account = token_account, ed_bump = bump\<rparr>"

definition external_destination_find_address :: "pda_function \<Rightarrow> key \<Rightarrow> key \<Rightarrow> key \<times> u8" where
  "external_destination_find_address pda vault_key token_account =
     pda [EXTERNAL_DESTINATION_SEED, key_bytes vault_key, key_bytes token_account] ID"

definition PROGRAM_CONFIG_SEED :: bytes where "PROGRAM_CONFIG_SEED = ascii ''program_config''"

definition program_config_new :: "key \<Rightarrow> program_config" where
  "program_config_new authority = \<lparr>pc_authority = authority\<rparr>"

definition program_config_find_address :: "pda_function \<Rightarrow> key \<times> u8" where
  "program_config_find_address pda = pda [PROGRAM_CONFIG_SEED] ID"

definition program_config_verify_address :: "env \<Rightarrow> account_info \<Rightarrow> u8 program_result" where
  "program_config_verify_address E config_acc =
     (let (expected_config_key, config_bump) = program_config_find_address (find_program_address E)
      in if ai_key config_acc \<noteq> expected_config_key then Inl InvalidSeeds else Inr config_bump)"

definition SUB_ACCOUNT_SEED :: bytes where "SUB_ACCOUNT_SEED = ascii ''sub_account''"

definition sub_account_find_address :: "pda_function \<Rightarrow> key \<Rightarrow> u8 \<Rightarrow> key \<times> u8" where
  "sub_account_find_address pda vault_key index = pda [SUB_ACCOUNT_SEED, key_bytes vault_key, [index]] ID"

definition sub_account_verify_account :: "env \<Rightarrow> ledger \<Rightarrow> key \<Rightarrow> u8 \<Rightarrow> account_info \<Rightarrow> u8 program_result" where
  "sub_account_verify_account E L vault_key index sub_account =
     (let (expected_key, bump) = sub_account_find_address (find_program_address E) vault_key index
      in if ai_key sub_account \<noteq> expected_key then Inl InvalidSeeds
         else if owner_of L sub_account \<noteq> SYSTEM_PROGRAM_ID then Inl IllegalOwner
         else if data_of L sub_account \<noteq> [] \<or> c_executable (L (ai_key sub_account)) then Inl InvalidAccountData
         else Inr bump)"

section \<open>Loading typed accounts\<close>

definition account_load :: "env \<Rightarrow> ledger \<Rightarrow> account_info \<Rightarrow> account program_result" where
  "account_load E L a =
     (if owner_of L a \<noteq> ID then Inl IllegalOwner
      else ok_or (deserialize E (data_of L a)) InvalidAccountData)"

definition load_vault :: "env \<Rightarrow> ledger \<Rightarrow> account_info \<Rightarrow> vault program_result" where
  "load_vault E L a =
     attempt (account_load E L a) (\<lambda>account.
     attempt (case account of VaultAccount v \<Rightarrow> Inr v | _ \<Rightarrow> Inl (into_program_error InvalidVaultAccount)) (\<lambda>v.
     attempt (vault_validate_state v) (\<lambda>_. Inr v)))"

definition load_asset :: "env \<Rightarrow> ledger \<Rightarrow> account_info \<Rightarrow> asset program_result" where
  "load_asset E L a =
     attempt (account_load E L a) (\<lambda>account.
     attempt (case account of AssetAccount x \<Rightarrow> Inr x | _ \<Rightarrow> Inl (into_program_error InvalidAssetAccount)) (\<lambda>x.
     attempt (asset_validate_state x) (\<lambda>_. Inr x)))"

definition load_action :: "env \<Rightarrow> ledger \<Rightarrow> account_info \<Rightarrow> action program_result" where
  "load_action E L a =
     attempt (account_load E L a) (\<lambda>account.
     case account of ActionAccount x \<Rightarrow> Inr x | _ \<Rightarrow> Inl (into_program_error InvalidActionAccount))"

definition load_ticket :: "env \<Rightarrow> ledger \<Rightarrow> account_info \<Rightarrow> withdrawal_ticket program_result" where
  "load_ticket E L a =
     attempt (account_load E L a) (\<lambda>account. case account of WithdrawalTicketAccount x \<Rightarrow> Inr x
       | _ \<Rightarrow> Inl (into_program_error InvalidWithdrawalTicketAccount))"

definition load_external_destination :: "env \<Rightarrow> ledger \<Rightarrow> account_info \<Rightarrow> external_destination program_result" where
  "load_external_destination E L a =
     attempt (account_load E L a) (\<lambda>account. case account of ExternalDestinationAccount x \<Rightarrow> Inr x
       | _ \<Rightarrow> Inl (into_program_error InvalidExternalDestinationAccount))"

definition load_program_config :: "env \<Rightarrow> ledger \<Rightarrow> account_info \<Rightarrow> program_config program_result" where
  "load_program_config E L a =
     attempt (account_load E L a) (\<lambda>account. case account of ProgramConfigAccount x \<Rightarrow> Inr x
       | _ \<Rightarrow> Inl (into_program_error InvalidProgramConfigAccount))"

definition program_config_verify_authority ::
  "env \<Rightarrow> ledger \<Rightarrow> account_info \<Rightarrow> account_info \<Rightarrow> unit program_result" where
  "program_config_verify_authority E L config_acc signer =
     attempt (program_config_verify_address E config_acc) (\<lambda>_.
     attempt (load_program_config E L config_acc) (\<lambda>config.
     if ai_key signer \<noteq> pc_authority config then Inl IllegalOwner
     else if \<not> ai_is_signer signer then Inl MissingRequiredSignature
     else Inr ()))"

definition load_checked :: "env \<Rightarrow> ledger \<Rightarrow> account_info \<Rightarrow> vault program_result" where
  "load_checked E L a =
     attempt (load_vault E L a) (\<lambda>v.
     attempt (vault_verify_address (find_program_address E) v (ai_key a)) (\<lambda>_. Inr v))"

definition verify_share_mint :: "vault \<Rightarrow> account_info \<Rightarrow> unit program_result" where
  "verify_share_mint v a =
     (if ai_key a \<noteq> v_share_mint v then Inl (into_program_error InvalidMintAccount) else Inr ())"

definition verify_role :: "vault \<Rightarrow> role \<Rightarrow> account_info \<Rightarrow> unit program_result" where
  "verify_role v r signer =
     (if \<not> ai_is_signer signer then Inl MissingRequiredSignature
      else if \<not> has_role v r (ai_key signer) then Inl IllegalOwner else Inr ())"

definition verify_either_role :: "vault \<Rightarrow> role \<Rightarrow> role \<Rightarrow> account_info \<Rightarrow> unit program_result" where
  "verify_either_role v r s signer =
     (if \<not> ai_is_signer signer then Inl MissingRequiredSignature
      else if \<not> has_role v r (ai_key signer) \<and> \<not> has_role v s (ai_key signer) then Inl IllegalOwner
      else Inr ())"

end
