(* ===== verification/Shared_Accounts.thy ===== *)
theory Shared_Accounts
  imports Runtime
begin

text \<open>
  \<open>crates/roshi/src/instructions/accounts/shared.rs\<close> and the role contexts of
  \<open>accounts/vault.rs\<close>: account iteration, privilege checks, creation and closing of program
  accounts, and loading and storing the vault under a role. A read-only step is a function of the
  ledger into a result; a step that writes returns the new ledger.
\<close>

section \<open>Definitions\<close>

text \<open>The account iterator is the list of accounts not yet consumed.\<close>

definition next_account :: "account_info list \<Rightarrow> (account_info \<times> account_info list) program_result" where
  "next_account accounts = (case accounts of [] \<Rightarrow> Inl NotEnoughAccountKeys | a # rest \<Rightarrow> Inr (a, rest))"

definition require_writable :: "account_info \<Rightarrow> unit program_result" where
  "require_writable a = (if \<not> ai_is_writable a then Inl InvalidAccountData else Inr ())"

definition require_writable_signer :: "account_info \<Rightarrow> unit program_result" where
  "require_writable_signer a =
     (if \<not> ai_is_signer a then Inl MissingRequiredSignature else require_writable a)"

definition require_uninitialized_account :: "ledger \<Rightarrow> account_info \<Rightarrow> unit program_result" where
  "require_uninitialized_account L a =
     (if data_of L a \<noteq> [] \<or> owner_of L a \<noteq> SYSTEM_PROGRAM_ID then Inl AccountAlreadyInitialized else Inr ())"

definition create_pda_account ::
  "env \<Rightarrow> account_info \<Rightarrow> account_info \<Rightarrow> account_info \<Rightarrow> nat \<Rightarrow> key \<Rightarrow> bytes list \<Rightarrow> ledger \<Rightarrow>
   ledger program_result" where
  "create_pda_account E payer target system_program_acc space owner signer_seeds L =
     attempt (rent_minimum_balance E space) (\<lambda>rent_exemption_lamports.
      let account_infos = [payer, target, system_program_acc] in
      if lamports_of L target = 0 then
        invoke_signed E (create_account_ix E (ai_key payer) (ai_key target) rent_exemption_lamports
            (word_of_nat space) owner) account_infos [signer_seeds] L
      else
      let shortfall = saturating_sub rent_exemption_lamports (lamports_of L target) in
      attempt
        (if 0 < shortfall
         then invoke E (system_transfer_ix E (ai_key payer) (ai_key target) shortfall) account_infos L
         else Inr L) (\<lambda>L1.
      attempt (invoke_signed E (allocate_ix E (ai_key target) (word_of_nat space)) account_infos
                 [signer_seeds] L1) (\<lambda>L2.
      invoke_signed E (assign_ix E (ai_key target) owner) account_infos [signer_seeds] L2)))"

definition require_system_program :: "account_info \<Rightarrow> unit program_result" where
  "require_system_program a = (if ai_key a \<noteq> SYSTEM_PROGRAM_ID then Inl IncorrectProgramId else Inr ())"

definition close_account :: "account_info \<Rightarrow> account_info \<Rightarrow> ledger \<Rightarrow> ledger program_result" where
  "close_account a refund_to L =
     (let reclaimed = lamports_of L a; refund_balance = lamports_of L refund_to in
      attempt (ok_or (checked_add refund_balance reclaimed) ArithmeticOverflow) (\<lambda>credited.
      let L1 = set_lamports (ai_key refund_to) credited L;
          L2 = set_lamports (ai_key a) 0 L1;
          L3 = set_data (ai_key a) [] L2
      in Inr (set_owner (ai_key a) SYSTEM_PROGRAM_ID L3)))"

text \<open>
  \<open>data[..serialized.len()].copy_from_slice(&serialized)\<close> after the length check that every
  store performs.
\<close>

definition store_account :: "env \<Rightarrow> account \<Rightarrow> account_info \<Rightarrow> ledger \<Rightarrow> ledger program_result" where
  "store_account E account a L =
     attempt (ok_or (serialize E account) InvalidAccountData) (\<lambda>serialized.
     if length (data_of L a) < length serialized then Inl InvalidAccountData
     else Inr (set_data (ai_key a) (overwrite_prefix serialized (data_of L a)) L))"

definition vault_role_context_load ::
  "env \<Rightarrow> ledger \<Rightarrow> account_info \<Rightarrow> account_info \<Rightarrow> role \<Rightarrow> vault program_result" where
  "vault_role_context_load E L authority vault_account r =
     attempt (load_checked E L vault_account) (\<lambda>v.
     attempt (verify_role v r authority) (\<lambda>_. Inr v))"

definition writable_vault_role_context_load ::
  "env \<Rightarrow> ledger \<Rightarrow> account_info \<Rightarrow> account_info \<Rightarrow> role \<Rightarrow> vault program_result" where
  "writable_vault_role_context_load E L authority vault_account r =
     attempt (require_writable vault_account) (\<lambda>_.
     vault_role_context_load E L authority vault_account r)"

definition writable_vault_role_context_store ::
  "env \<Rightarrow> vault \<Rightarrow> account_info \<Rightarrow> ledger \<Rightarrow> ledger program_result" where
  "writable_vault_role_context_store E v vault_account L =
     attempt (vault_validate_state v) (\<lambda>_. store_account E (VaultAccount v) vault_account L)"

definition update_writable_vault_as_admin ::
  "env \<Rightarrow> account_info list \<Rightarrow> (vault \<Rightarrow> vault program_result) \<Rightarrow> ledger \<Rightarrow> ledger program_result" where
  "update_writable_vault_as_admin E accounts update L =
     attempt (next_account accounts) (\<lambda>(admin, accounts).
     attempt (next_account accounts) (\<lambda>(vault_account, accounts).
     attempt (writable_vault_role_context_load E L admin vault_account Admin) (\<lambda>v.
     attempt (update v) (\<lambda>v'.
     writable_vault_role_context_store E v' vault_account L))))"

end
