(* ===== verification/Token.thy ===== *)
theory Token
  imports Shared_Accounts
begin

text \<open>
  \<open>crates/roshi/src/instructions/token.rs\<close>: the byte-level reading of SPL mints and token accounts,
  the custody checks built on it, the allowlist of Token-2022 mint extensions, and the
  instructions the program sends to the token program. Reads of a slice happen only behind the
  length checks of the source, so indexing never leaves the data.
\<close>

section \<open>Definitions\<close>

definition TOKEN_PROGRAM_ID :: key where
  "TOKEN_PROGRAM_ID = 0x06ddf6e1d765a193d9cbe146ceeb79ac1cb485ed5f5b37913a8cf5857eff00a9"
definition TOKEN_2022_PROGRAM_ID :: key where
  "TOKEN_2022_PROGRAM_ID = 0x06ddf6e1ee758fde18425dbce46ccddab61afc4d83b90d27febdf928d8a18bfc"
definition ASSOCIATED_TOKEN_PROGRAM_ID :: key where
  "ASSOCIATED_TOKEN_PROGRAM_ID = 0x8c97258f4e2489f1bb3d1029148e0d830b5a1399daff1084048e7bd8dbe9f859"

definition MINT_AUTHORITY_TAG :: nat where "MINT_AUTHORITY_TAG = 0"
definition MINT_AUTHORITY_KEY :: nat where "MINT_AUTHORITY_KEY = 4"
definition MINT_SUPPLY :: nat where "MINT_SUPPLY = 36"
definition MINT_DECIMALS :: nat where "MINT_DECIMALS = 44"
definition MINT_IS_INITIALIZED :: nat where "MINT_IS_INITIALIZED = 45"
definition MINT_LEN :: nat where "MINT_LEN = 82"
definition TOKEN_ACCOUNT_MINT :: nat where "TOKEN_ACCOUNT_MINT = 0"
definition TOKEN_ACCOUNT_OWNER :: nat where "TOKEN_ACCOUNT_OWNER = 32"
definition TOKEN_ACCOUNT_AMOUNT :: nat where "TOKEN_ACCOUNT_AMOUNT = 64"
definition TOKEN_ACCOUNT_DELEGATE :: nat where "TOKEN_ACCOUNT_DELEGATE = 72"
definition TOKEN_ACCOUNT_STATE :: nat where "TOKEN_ACCOUNT_STATE = 108"
definition TOKEN_ACCOUNT_DELEGATED_AMOUNT :: nat where "TOKEN_ACCOUNT_DELEGATED_AMOUNT = 121"
definition TOKEN_ACCOUNT_CLOSE_AUTHORITY :: nat where "TOKEN_ACCOUNT_CLOSE_AUTHORITY = 129"
definition TOKEN_ACCOUNT_LEN :: nat where "TOKEN_ACCOUNT_LEN = 165"
definition TRANSFER_INSTRUCTION :: u8 where "TRANSFER_INSTRUCTION = 3"
definition MINT_TO_INSTRUCTION :: u8 where "MINT_TO_INSTRUCTION = 7"
definition BURN_INSTRUCTION :: u8 where "BURN_INSTRUCTION = 8"
definition MINT_ACCOUNT_TYPE_OFFSET :: nat where "MINT_ACCOUNT_TYPE_OFFSET = TOKEN_ACCOUNT_LEN"
definition ACCOUNT_TYPE_MINT :: u8 where "ACCOUNT_TYPE_MINT = 1"
definition EXTENSION_UNINITIALIZED :: u16 where "EXTENSION_UNINITIALIZED = 0"
definition EXTENSION_METADATA_POINTER :: u16 where "EXTENSION_METADATA_POINTER = 18"
definition EXTENSION_TOKEN_METADATA :: u16 where "EXTENSION_TOKEN_METADATA = 19"

lemmas token_layout_defs =
  MINT_AUTHORITY_TAG_def MINT_AUTHORITY_KEY_def MINT_SUPPLY_def MINT_DECIMALS_def
  MINT_IS_INITIALIZED_def MINT_LEN_def TOKEN_ACCOUNT_MINT_def TOKEN_ACCOUNT_OWNER_def
  TOKEN_ACCOUNT_AMOUNT_def TOKEN_ACCOUNT_DELEGATE_def TOKEN_ACCOUNT_STATE_def
  TOKEN_ACCOUNT_DELEGATED_AMOUNT_def TOKEN_ACCOUNT_CLOSE_AUTHORITY_def TOKEN_ACCOUNT_LEN_def
  MINT_ACCOUNT_TYPE_OFFSET_def ACCOUNT_TYPE_MINT_def EXTENSION_UNINITIALIZED_def
  EXTENSION_METADATA_POINTER_def EXTENSION_TOKEN_METADATA_def

definition is_token_program :: "key \<Rightarrow> bool" where
  "is_token_program k \<longleftrightarrow> k = TOKEN_PROGRAM_ID \<or> k = TOKEN_2022_PROGRAM_ID"

definition associated_token_address :: "pda_function \<Rightarrow> key \<Rightarrow> key \<Rightarrow> key \<Rightarrow> key" where
  "associated_token_address pda wallet mint token_program =
     fst (pda [key_bytes wallet, key_bytes token_program, key_bytes mint] ASSOCIATED_TOKEN_PROGRAM_ID)"

text \<open>\<open>data[a..a + n]\<close>, used behind a length check.\<close>

definition field :: "bytes \<Rightarrow> nat \<Rightarrow> nat \<Rightarrow> bytes" where
  "field data a n = take n (drop a data)"

abbreviation key_field :: "bytes \<Rightarrow> nat \<Rightarrow> key" where
  "key_field data a \<equiv> key_of_bytes (field data a 32)"

abbreviation u64_field :: "bytes \<Rightarrow> nat \<Rightarrow> u64" where
  "u64_field data a \<equiv> from_le_bytes (field data a 8)"

abbreviation u32_field :: "bytes \<Rightarrow> nat \<Rightarrow> u32" where
  "u32_field data a \<equiv> from_le_bytes (field data a 4)"

text \<open>The loop over the TLV entries; every round consumes at least the four header bytes.\<close>

function mint_extensions_loop :: "bytes \<Rightarrow> nat \<Rightarrow> unit program_result" where
  "mint_extensions_loop data offset =
     (if \<not> offset < length data then Inr ()
      else if length data < offset + 4 then Inl (into_program_error InvalidMintAccount)
      else
      let extension_type = (from_le_bytes (field data offset 2) :: u16) in
      if extension_type = EXTENSION_UNINITIALIZED then Inr ()
      else if extension_type \<noteq> EXTENSION_METADATA_POINTER \<and> extension_type \<noteq> EXTENSION_TOKEN_METADATA
      then Inl (into_program_error InvalidMintAccount)
      else
      let entry_length = unat (from_le_bytes (field data (offset + 2) 2) :: u16);
          next_offset = offset + 4 + entry_length
      in if length data < next_offset then Inl (into_program_error InvalidMintAccount)
         else mint_extensions_loop data next_offset)"
  by pat_completeness auto
termination
  by (relation "measure (\<lambda>(data, offset). length data - offset)") auto

declare mint_extensions_loop.simps [simp del]

definition verify_token_2022_mint_extensions :: "bytes \<Rightarrow> unit program_result" where
  "verify_token_2022_mint_extensions data =
     (if length data = MINT_LEN then Inr ()
      else if length data \<le> MINT_ACCOUNT_TYPE_OFFSET \<or> data ! MINT_ACCOUNT_TYPE_OFFSET \<noteq> ACCOUNT_TYPE_MINT
      then Inl (into_program_error InvalidMintAccount)
      else mint_extensions_loop data (MINT_ACCOUNT_TYPE_OFFSET + 1))"

definition verify_mint :: "ledger \<Rightarrow> account_info \<Rightarrow> key \<Rightarrow> u8 \<Rightarrow> key option \<Rightarrow> unit program_result" where
  "verify_mint L account expected_key decimals expected_authority =
     (if ai_key account \<noteq> expected_key \<or> \<not> is_token_program (owner_of L account)
      then Inl (into_program_error InvalidMintAccount) else
      let data = data_of L account in
      attempt (if owner_of L account = TOKEN_2022_PROGRAM_ID then verify_token_2022_mint_extensions data
               else if length data \<noteq> MINT_LEN then Inl (into_program_error InvalidMintAccount)
               else Inr ()) (\<lambda>_.
      if length data < MINT_LEN \<or> data ! MINT_IS_INITIALIZED \<noteq> 1 \<or> data ! MINT_DECIMALS \<noteq> decimals
      then Inl (into_program_error InvalidMintAccount)
      else case expected_authority of
        None \<Rightarrow> Inr ()
      | Some authority \<Rightarrow>
          if u32_field data MINT_AUTHORITY_TAG \<noteq> 1 \<or> key_field data MINT_AUTHORITY_KEY \<noteq> authority
          then Inl (into_program_error InvalidMintAccount) else Inr ()))"

definition token_account_mint :: "ledger \<Rightarrow> account_info \<Rightarrow> key program_result" where
  "token_account_mint L account =
     (let data = data_of L account in
      if length data < TOKEN_ACCOUNT_LEN then Inl (into_program_error InvalidTokenAccount)
      else Inr (key_field data TOKEN_ACCOUNT_MINT))"

definition verify_token_program :: "account_info \<Rightarrow> unit program_result" where
  "verify_token_program account =
     (if \<not> is_token_program (ai_key account) then Inl IncorrectProgramId else Inr ())"

definition verify_token_program_for :: "ledger \<Rightarrow> account_info \<Rightarrow> account_info \<Rightarrow> unit program_result" where
  "verify_token_program_for L token_program token_account =
     attempt (verify_token_program token_program) (\<lambda>_.
     if owner_of L token_account \<noteq> ai_key token_program then Inl IncorrectProgramId else Inr ())"

definition mint_supply :: "ledger \<Rightarrow> account_info \<Rightarrow> u64 program_result" where
  "mint_supply L account =
     (if \<not> is_token_program (owner_of L account) then Inl (into_program_error InvalidMintAccount) else
      let data = data_of L account in
      if length data < MINT_LEN \<or> data ! MINT_IS_INITIALIZED \<noteq> 1
      then Inl (into_program_error InvalidMintAccount)
      else Inr (u64_field data MINT_SUPPLY))"

definition initialize_mint ::
  "env \<Rightarrow> account_info \<Rightarrow> account_info \<Rightarrow> key \<Rightarrow> u8 \<Rightarrow> ledger \<Rightarrow> ledger program_result" where
  "initialize_mint E token_program mint mint_authority decimals L =
     (if ai_key token_program \<noteq> TOKEN_PROGRAM_ID then Inl IncorrectProgramId else
      attempt (initialize_mint2_ix E (ai_key token_program) (ai_key mint) mint_authority decimals) (\<lambda>ix.
      invoke E ix [mint, token_program] L))"

definition verify_token_account_mint :: "ledger \<Rightarrow> account_info \<Rightarrow> key \<Rightarrow> unit program_result" where
  "verify_token_account_mint L account expected_mint =
     (if \<not> is_token_program (owner_of L account) then Inl (into_program_error InvalidTokenAccount) else
      let data = data_of L account in
      if length data < TOKEN_ACCOUNT_LEN \<or> data ! TOKEN_ACCOUNT_STATE \<noteq> 1
      then Inl (into_program_error InvalidTokenAccount)
      else if key_field data TOKEN_ACCOUNT_MINT \<noteq> expected_mint
      then Inl (into_program_error InvalidTokenAccount) else Inr ())"

definition verify_token_account_mint_and_owner ::
  "ledger \<Rightarrow> account_info \<Rightarrow> key \<Rightarrow> key \<Rightarrow> unit program_result" where
  "verify_token_account_mint_and_owner L account expected_mint expected_owner =
     attempt (verify_token_account_mint L account expected_mint) (\<lambda>_.
     if key_field (data_of L account) TOKEN_ACCOUNT_OWNER \<noteq> expected_owner
     then Inl (into_program_error InvalidTokenAccount) else Inr ())"

definition has_transfer_authority :: "bytes \<Rightarrow> bool" where
  "has_transfer_authority data \<longleftrightarrow>
     u32_field data TOKEN_ACCOUNT_DELEGATE \<noteq> 0 \<or> u32_field data TOKEN_ACCOUNT_CLOSE_AUTHORITY \<noteq> 0"

definition has_close_authority :: "bytes \<Rightarrow> bool" where
  "has_close_authority data \<longleftrightarrow> u32_field data TOKEN_ACCOUNT_CLOSE_AUTHORITY \<noteq> 0"

definition verify_custody_account :: "ledger \<Rightarrow> account_info \<Rightarrow> key \<Rightarrow> unit program_result" where
  "verify_custody_account L account subaccount =
     (if \<not> is_token_program (owner_of L account) then Inl (into_program_error InvalidTokenAccount) else
      let data = data_of L account in
      if length data < TOKEN_ACCOUNT_LEN \<or> data ! TOKEN_ACCOUNT_STATE \<noteq> 1
      then Inl (into_program_error InvalidTokenAccount)
      else if key_field data TOKEN_ACCOUNT_OWNER \<noteq> subaccount then Inl (into_program_error InvalidTokenAccount)
      else if has_transfer_authority data then Inl (into_program_error InvalidTokenAccount)
      else Inr ())"

definition verify_swap_endpoint_custody :: "ledger \<Rightarrow> account_info \<Rightarrow> key \<Rightarrow> unit program_result" where
  "verify_swap_endpoint_custody L account subaccount =
     (if \<not> is_token_program (owner_of L account) then Inl (into_program_error InvalidTokenAccount) else
      let data = data_of L account in
      if length data < TOKEN_ACCOUNT_LEN \<or> data ! TOKEN_ACCOUNT_STATE \<noteq> 1
      then Inl (into_program_error InvalidTokenAccount)
      else if key_field data TOKEN_ACCOUNT_OWNER \<noteq> subaccount then Inl (into_program_error InvalidTokenAccount)
      else if has_close_authority data then Inl (into_program_error InvalidTokenAccount)
      else Inr ())"

text \<open>The slices panic when both snapshots are too short to hold the amount field.\<close>

definition verify_swap_endpoint_unchanged :: "bytes \<Rightarrow> ledger \<Rightarrow> account_info \<Rightarrow> unit program_result" where
  "verify_swap_endpoint_unchanged pre L account =
     (let post = data_of L account in
      if length pre \<noteq> length post then Inl (into_program_error InvalidTokenAccount)
      else if length pre < TOKEN_ACCOUNT_AMOUNT then Inl Panicked
      else if take TOKEN_ACCOUNT_AMOUNT pre \<noteq> take TOKEN_ACCOUNT_AMOUNT post
      then Inl (into_program_error InvalidTokenAccount)
      else if length pre < TOKEN_ACCOUNT_AMOUNT + 8 then Inl Panicked
      else if drop (TOKEN_ACCOUNT_AMOUNT + 8) pre \<noteq> drop (TOKEN_ACCOUNT_AMOUNT + 8) post
      then Inl (into_program_error InvalidTokenAccount)
      else Inr ())"

definition is_clean_custody :: "ledger \<Rightarrow> account_info \<Rightarrow> key \<Rightarrow> bool program_result" where
  "is_clean_custody L account subaccount =
     (if \<not> is_token_program (owner_of L account) then Inr False else
      let data = data_of L account in
      if length data < TOKEN_ACCOUNT_LEN \<or> data ! TOKEN_ACCOUNT_STATE \<noteq> 1 then Inr False
      else if key_field data TOKEN_ACCOUNT_OWNER \<noteq> subaccount then Inr False
      else if has_transfer_authority data then Inl (into_program_error InvalidTokenAccount)
      else Inr True)"

definition verify_flash_delegate :: "ledger \<Rightarrow> account_info \<Rightarrow> key \<Rightarrow> u64 \<Rightarrow> unit program_result" where
  "verify_flash_delegate L account subaccount expected_amount =
     (if \<not> is_token_program (owner_of L account) then Inl (into_program_error InvalidTokenAccount) else
      let data = data_of L account in
      if length data < TOKEN_ACCOUNT_LEN \<or> data ! TOKEN_ACCOUNT_STATE \<noteq> 1
      then Inl (into_program_error InvalidTokenAccount)
      else if key_field data TOKEN_ACCOUNT_OWNER \<noteq> subaccount then Inl (into_program_error InvalidTokenAccount)
      else if u32_field data TOKEN_ACCOUNT_CLOSE_AUTHORITY \<noteq> 0
      then Inl (into_program_error FlashDelegateMismatch)
      else if u64_field data TOKEN_ACCOUNT_DELEGATED_AMOUNT \<noteq> expected_amount
      then Inl (into_program_error FlashDelegateUnbounded)
      else Inr ())"

definition assert_delegate_cleared :: "ledger \<Rightarrow> account_info \<Rightarrow> unit program_result" where
  "assert_delegate_cleared L account =
     (if \<not> is_token_program (owner_of L account) then Inl (into_program_error InvalidTokenAccount) else
      let data = data_of L account in
      if length data < TOKEN_ACCOUNT_LEN \<or> data ! TOKEN_ACCOUNT_STATE \<noteq> 1
      then Inl (into_program_error InvalidTokenAccount)
      else if u32_field data TOKEN_ACCOUNT_DELEGATE \<noteq> 0 \<or> u64_field data TOKEN_ACCOUNT_DELEGATED_AMOUNT \<noteq> 0
      then Inl (into_program_error DelegateNotCleared)
      else Inr ())"

definition token_amount :: "ledger \<Rightarrow> account_info \<Rightarrow> u64 program_result" where
  "token_amount L account =
     (if \<not> is_token_program (owner_of L account) then Inl (into_program_error InvalidTokenAccount) else
      let data = data_of L account in
      if length data < TOKEN_ACCOUNT_LEN \<or> data ! TOKEN_ACCOUNT_STATE \<noteq> 1
      then Inl (into_program_error InvalidTokenAccount)
      else Inr (u64_field data TOKEN_ACCOUNT_AMOUNT))"

definition token_amount_instruction :: "key \<Rightarrow> u8 \<Rightarrow> key \<Rightarrow> key \<Rightarrow> key \<Rightarrow> u64 \<Rightarrow> instruction" where
  "token_amount_instruction token_program instruction_tag first second authority amount =
     \<lparr>ix_program_id = token_program,
      ix_accounts = [\<lparr>am_pubkey = first, am_is_signer = False, am_is_writable = True\<rparr>,
                     \<lparr>am_pubkey = second, am_is_signer = False, am_is_writable = True\<rparr>,
                     \<lparr>am_pubkey = authority, am_is_signer = True, am_is_writable = False\<rparr>],
      ix_data = instruction_tag # to_le_bytes amount\<rparr>"

definition token_transfer ::
  "env \<Rightarrow> account_info \<Rightarrow> account_info \<Rightarrow> account_info \<Rightarrow> account_info \<Rightarrow> u64 \<Rightarrow> ledger \<Rightarrow> ledger program_result" where
  "token_transfer E token_program source destination authority amount L =
     invoke E (token_amount_instruction (ai_key token_program) TRANSFER_INSTRUCTION (ai_key source)
         (ai_key destination) (ai_key authority) amount)
       [source, destination, authority, token_program] L"

definition token_transfer_signed ::
  "env \<Rightarrow> account_info \<Rightarrow> account_info \<Rightarrow> account_info \<Rightarrow> account_info \<Rightarrow> u64 \<Rightarrow> bytes list \<Rightarrow> ledger \<Rightarrow>
   ledger program_result" where
  "token_transfer_signed E token_program source destination authority amount signer_seeds L =
     invoke_signed E (token_amount_instruction (ai_key token_program) TRANSFER_INSTRUCTION (ai_key source)
         (ai_key destination) (ai_key authority) amount)
       [source, destination, authority, token_program] [signer_seeds] L"

definition token_burn ::
  "env \<Rightarrow> account_info \<Rightarrow> account_info \<Rightarrow> account_info \<Rightarrow> account_info \<Rightarrow> u64 \<Rightarrow> ledger \<Rightarrow> ledger program_result" where
  "token_burn E token_program account mint authority amount L =
     invoke E (token_amount_instruction (ai_key token_program) BURN_INSTRUCTION (ai_key account)
         (ai_key mint) (ai_key authority) amount)
       [account, mint, authority, token_program] L"

definition mint_to_signed ::
  "env \<Rightarrow> account_info \<Rightarrow> account_info \<Rightarrow> account_info \<Rightarrow> account_info \<Rightarrow> u64 \<Rightarrow> bytes list \<Rightarrow> ledger \<Rightarrow>
   ledger program_result" where
  "mint_to_signed E token_program mint destination mint_authority amount signer_seeds L =
     invoke_signed E (token_amount_instruction (ai_key token_program) MINT_TO_INSTRUCTION (ai_key mint)
         (ai_key destination) (ai_key mint_authority) amount)
       [mint, destination, mint_authority, token_program] [signer_seeds] L"


section \<open>Extension entries\<close>

text \<open>
  The entries of a TLV region from an offset on, up to the end of the data or an end marker, as a
  relation over the layout alone.
\<close>

inductive tlv_types :: "bytes \<Rightarrow> nat \<Rightarrow> u16 list \<Rightarrow> bool" where
  tlv_done: "length data \<le> offset \<Longrightarrow> tlv_types data offset []"
| tlv_marker: "offset + 4 \<le> length data \<Longrightarrow> from_le_bytes (field data offset 2) = (0 :: u16) \<Longrightarrow>
    tlv_types data offset []"
| tlv_entry: "offset + 4 \<le> length data \<Longrightarrow> from_le_bytes (field data offset 2) = t \<Longrightarrow> t \<noteq> 0 \<Longrightarrow>
    next = offset + 4 + unat (from_le_bytes (field data (offset + 2) 2) :: u16) \<Longrightarrow>
    next \<le> length data \<Longrightarrow> tlv_types data next ts \<Longrightarrow> tlv_types data offset (t # ts)"

lemma tlv_entry_iff:
  assumes "offset + 4 \<le> length data" and "(from_le_bytes (field data offset 2) :: u16) \<noteq> 0"
  shows "tlv_types data offset us \<longleftrightarrow>
     (\<exists>ts. us = from_le_bytes (field data offset 2) # ts \<and>
        offset + 4 + unat (from_le_bytes (field data (offset + 2) 2) :: u16) \<le> length data \<and>
        tlv_types data (offset + 4 + unat (from_le_bytes (field data (offset + 2) 2) :: u16)) ts)"
  using assms by (subst tlv_types.simps) auto

lemma tlv_short_iff: "offset < length data \<Longrightarrow> length data < offset + 4 \<Longrightarrow> \<not> tlv_types data offset ts"
  by (subst tlv_types.simps) auto

lemma tlv_stop_iff:
  assumes "length data \<le> offset \<or>
    (offset + 4 \<le> length data \<and> from_le_bytes (field data offset 2) = (0 :: u16))"
  shows "tlv_types data offset ts \<longleftrightarrow> ts = []"
proof
  assume "tlv_types data offset ts"
  then show "ts = []" using assms by (cases rule: tlv_types.cases) auto
next
  from assms have "tlv_types data offset []"
  proof
    assume "length data \<le> offset"
    then show ?thesis by (rule tlv_done)
  next
    assume "offset + 4 \<le> length data \<and> from_le_bytes (field data offset 2) = (0 :: u16)"
    then show ?thesis by (intro tlv_marker) (erule conjunct1, erule conjunct2)
  qed
  moreover assume "ts = []"
  ultimately show "tlv_types data offset ts" by (simp only:)
qed

lemma tlv_types_unique: "tlv_types data offset ts \<Longrightarrow> tlv_types data offset ts' \<Longrightarrow> ts = ts'"
proof (induction arbitrary: ts' rule: tlv_types.induct)
  case (tlv_entry offset data t "next" ts)
  have nz: "(from_le_bytes (field data offset 2) :: u16) \<noteq> 0" using tlv_entry(2,3) by simp
  from tlv_entry.prems obtain us where us: "ts' = from_le_bytes (field data offset 2) # us"
    "tlv_types data (offset + 4 + unat (from_le_bytes (field data (offset + 2) 2) :: u16)) us"
    unfolding tlv_entry_iff [OF tlv_entry(1) nz] by blast
  have "tlv_types data next us" unfolding tlv_entry(4) by (rule us(2))
  then have "ts = us" by (rule tlv_entry.IH)
  then show ?case unfolding us(1) tlv_entry(2) by (rule arg_cong)
qed (simp_all add: tlv_stop_iff)

lemma mint_extensions_loop_iff:
  "mint_extensions_loop data offset = Inr () \<longleftrightarrow>
     (\<exists>ts. tlv_types data offset ts \<and> set ts \<subseteq> {EXTENSION_METADATA_POINTER, EXTENSION_TOKEN_METADATA})"
proof (induction data offset rule: mint_extensions_loop.induct)
  case (1 data offset)
  let ?t = "from_le_bytes (field data offset 2) :: u16"
  let ?next = "offset + 4 + unat (from_le_bytes (field data (offset + 2) 2) :: u16)"
  consider "\<not> offset < length data" | "offset < length data" "length data < offset + 4"
    | "offset + 4 \<le> length data" "?t = 0"
    | "offset + 4 \<le> length data" "?t \<noteq> 0" "?t \<notin> {18, 19}"
    | "offset + 4 \<le> length data" "?t \<in> {18, 19}" "length data < ?next"
    | "offset + 4 \<le> length data" "?t \<in> {18, 19}" "?next \<le> length data" by force
  then show ?case
  proof cases
    case 1
    then show ?thesis by (subst mint_extensions_loop.simps) (simp add: tlv_stop_iff)
  next
    case 2
    then show ?thesis by (subst mint_extensions_loop.simps) (simp add: tlv_short_iff)
  next
    case 3
    then show ?thesis
      by (subst mint_extensions_loop.simps) (simp add: tlv_stop_iff EXTENSION_UNINITIALIZED_def)
  next
    case 4
    then show ?thesis
      by (subst mint_extensions_loop.simps) (auto simp: tlv_entry_iff Let_def token_layout_defs)
  next
    case 5
    then have "?t \<noteq> 0" by auto
    with 5 show ?thesis
      by (subst mint_extensions_loop.simps) (auto simp: tlv_entry_iff Let_def token_layout_defs)
  next
    case 6
    have step: "mint_extensions_loop data offset = mint_extensions_loop data ?next"
      using 6 by (subst mint_extensions_loop.simps) (auto simp: Let_def token_layout_defs)
    have ih: "mint_extensions_loop data ?next = Inr () \<longleftrightarrow>
        (\<exists>ts. tlv_types data ?next ts \<and> set ts \<subseteq> {EXTENSION_METADATA_POINTER, EXTENSION_TOKEN_METADATA})"
      using 6 by (intro "1.IH") (auto simp: token_layout_defs)
    let ?X = "{EXTENSION_METADATA_POINTER, EXTENSION_TOKEN_METADATA}"
    have inv: "tlv_types data offset us \<longleftrightarrow> (\<exists>ts. us = ?t # ts \<and> tlv_types data ?next ts)" for us
      using 6 by (subst tlv_entry_iff) auto
    have t: "?t \<in> ?X" using 6(2) by (simp add: token_layout_defs)
    have "(\<exists>us. tlv_types data offset us \<and> set us \<subseteq> ?X) \<longleftrightarrow> (\<exists>ts. tlv_types data ?next ts \<and> set ts \<subseteq> ?X)"
    proof
      assume "\<exists>us. tlv_types data offset us \<and> set us \<subseteq> ?X"
      then show "\<exists>ts. tlv_types data ?next ts \<and> set ts \<subseteq> ?X" unfolding inv by auto
    next
      assume "\<exists>ts. tlv_types data ?next ts \<and> set ts \<subseteq> ?X"
      then obtain ts where "tlv_types data ?next ts" "set ts \<subseteq> ?X" by blast
      with t have "tlv_types data offset (?t # ts)" "set (?t # ts) \<subseteq> ?X" by (simp_all add: inv)
      then show "\<exists>us. tlv_types data offset us \<and> set us \<subseteq> ?X" by blast
    qed
    then show ?thesis unfolding step ih by simp
  qed
qed

text \<open>
  C28. A Token-2022 mint passes the extension check exactly when it is a bare mint, or carries the
  mint account type and all entries of its TLV region, up to the end marker or the end of the
  data, are display metadata: no other extension, known or unknown, can hide in it.
\<close>
theorem token_2022_allowlist:
  "verify_token_2022_mint_extensions data = Inr () \<longleftrightarrow>
     length data = 82 \<or>
     165 < length data \<and> data ! 165 = 1 \<and>
     (\<exists>ts. tlv_types data 166 ts \<and> (\<forall>ts'. tlv_types data 166 ts' \<longleftrightarrow> ts' = ts) \<and> set ts \<subseteq> {18, 19})"
proof -
  have "tlv_types data 166 ts \<Longrightarrow> \<forall>ts'. tlv_types data 166 ts' \<longleftrightarrow> ts' = ts" for ts
    using tlv_types_unique [of data 166] by auto
  then have "(\<exists>ts. tlv_types data 166 ts \<and> (\<forall>ts'. tlv_types data 166 ts' \<longleftrightarrow> ts' = ts) \<and> set ts \<subseteq> {18, 19}) \<longleftrightarrow>
      mint_extensions_loop data 166 = Inr ()"
    unfolding mint_extensions_loop_iff EXTENSION_METADATA_POINTER_def EXTENSION_TOKEN_METADATA_def by auto
  then show ?thesis
    by (auto simp: verify_token_2022_mint_extensions_def token_layout_defs)
qed

section \<open>Custody\<close>

text \<open>
  The two custody classifiers agree: an account passes the custody check exactly when the
  control scan classifies it as clean custody, and such an account is an initialised token account
  of the sub-account with neither delegate nor close authority. The scan never passes over a
  sub-account's token account that carries such an authority: it fails.
\<close>
theorem custody_classifiers_agree:
  "(verify_custody_account L a sub = Inr () \<longleftrightarrow> is_clean_custody L a sub = Inr True) \<and>
   (is_clean_custody L a sub = Inr True \<longleftrightarrow>
      is_token_program (owner_of L a) \<and> 165 \<le> length (data_of L a) \<and> data_of L a ! 108 = 1 \<and>
      key_field (data_of L a) 32 = sub \<and> u32_field (data_of L a) 72 = 0 \<and> u32_field (data_of L a) 129 = 0) \<and>
   (is_clean_custody L a sub = Inr False \<longleftrightarrow>
      \<not> (is_token_program (owner_of L a) \<and> 165 \<le> length (data_of L a) \<and> data_of L a ! 108 = 1 \<and>
         key_field (data_of L a) 32 = sub))"
  by (auto simp: verify_custody_account_def is_clean_custody_def has_transfer_authority_def Let_def
      token_layout_defs)

lemma field_take: "a + n \<le> m \<Longrightarrow> field (take m d) a n = field d a n"
  by (simp add: field_def drop_take min_def)

lemma field_drop: "field (drop m d) a n = field d (m + a) n"
  by (simp add: field_def add.commute)

text \<open>
  A swap endpoint that passes the check after the route's call has the mint, owner, delegate,
  state, delegated amount and close authority it had before it: only the amount can differ.
\<close>
theorem swap_endpoint_keeps_authorities:
  assumes "verify_swap_endpoint_unchanged pre L a = Inr ()"
  shows "length (data_of L a) = length pre \<and>
     key_field (data_of L a) TOKEN_ACCOUNT_MINT = key_field pre TOKEN_ACCOUNT_MINT \<and>
     key_field (data_of L a) TOKEN_ACCOUNT_OWNER = key_field pre TOKEN_ACCOUNT_OWNER \<and>
     field (data_of L a) TOKEN_ACCOUNT_DELEGATE 36 = field pre TOKEN_ACCOUNT_DELEGATE 36 \<and>
     field (data_of L a) TOKEN_ACCOUNT_STATE 1 = field pre TOKEN_ACCOUNT_STATE 1 \<and>
     u64_field (data_of L a) TOKEN_ACCOUNT_DELEGATED_AMOUNT = u64_field pre TOKEN_ACCOUNT_DELEGATED_AMOUNT \<and>
     field (data_of L a) TOKEN_ACCOUNT_CLOSE_AUTHORITY 36 = field pre TOKEN_ACCOUNT_CLOSE_AUTHORITY 36"
proof -
  let ?d = "data_of L a"
  have eq: "length ?d = length pre" "take 64 ?d = take 64 pre" "drop 72 ?d = drop 72 pre"
    using assms by (auto simp: verify_swap_endpoint_unchanged_def Let_def token_layout_defs split: if_splits)
  have low: "k + n \<le> 64 \<Longrightarrow> field ?d k n = field pre k n" for k n
    by (metis eq(2) field_take)
  have high: "72 \<le> k \<Longrightarrow> field ?d k n = field pre k n" for k n
    by (metis eq(3) field_drop le_add_diff_inverse)
  show ?thesis using eq(1) by (simp add: token_layout_defs low high)
qed

theorem swap_endpoint_keeps_authorities_witness:
  "field (data_of (\<lambda>_. \<lparr>c_owner = 0, c_lamports = 0, c_data = replicate 64 0 @ replicate 8 1 @ replicate 93 0,
       c_executable = False\<rparr>) \<lparr>ai_key = 3, ai_is_signer = False, ai_is_writable = True\<rparr>) TOKEN_ACCOUNT_DELEGATE 36
     = field (replicate 165 0) TOKEN_ACCOUNT_DELEGATE 36"
proof -
  let ?L = "\<lambda>_ :: key. \<lparr>c_owner = 0, c_lamports = 0, c_data = replicate 64 0 @ replicate 8 1 @ replicate 93 0,
       c_executable = False\<rparr>"
  let ?a = "\<lparr>ai_key = 3, ai_is_signer = False, ai_is_writable = True\<rparr> :: account_info"
  have "verify_swap_endpoint_unchanged (replicate 165 0) ?L ?a = Inr ()"
    by (simp add: verify_swap_endpoint_unchanged_def token_layout_defs Let_def)
  from swap_endpoint_keeps_authorities [OF this] show ?thesis by blast
qed

end
