(* ===== verification/Oracle_Readers.thy ===== *)
theory Oracle_Readers
  imports Token
begin

text \<open>
  \<open>crates/roshi/src/oracle/pyth.rs\<close>, \<open>scope.rs\<close>, \<open>switchboard.rs\<close> and
  \<open>instructions/accounts/oracle_price.rs\<close>: parsing and verification of the three providers' price
  accounts, and the session that reads the legs of one valuation. The cryptographic verification
  of a Switchboard quote is the parameter \<open>verify_quote\<close>.
\<close>

section \<open>Pyth\<close>

definition PRICE_UPDATE_V2_DISCRIMINATOR :: bytes where
  "PRICE_UPDATE_V2_DISCRIMINATOR = [0x22, 0xf1, 0x23, 0x63, 0x9d, 0x7e, 0xf4, 0xcd]"
definition SOLANA_RECEIVER_PROGRAM_ID :: key where
  "SOLANA_RECEIVER_PROGRAM_ID = 0x0cb7fabb52f7a648bb5b317d9a018b9057cb024774fafe01e6c4df98cc385881"

datatype verification_level = LevelPartial u8 | LevelFull

record pyth_price =
  pp_feed_id :: key
  pp_price :: i64
  pp_conf :: u64
  pp_exponent :: i32
  pp_publish_time :: i64

record price_update =
  pu_verification_level :: verification_level
  pu_price :: pyth_price
  pu_posted_slot :: u64

text \<open>The readers return the bytes read and the offset behind them.\<close>

definition read_bytes :: "bytes \<Rightarrow> nat \<Rightarrow> nat \<Rightarrow> (bytes \<times> nat) option" where
  "read_bytes data offset len =
     Option.bind (get_slice data offset (offset + len)) (\<lambda>bs. Some (bs, offset + len))"

definition read_u8 :: "bytes \<Rightarrow> nat \<Rightarrow> (u8 \<times> nat) option" where
  "read_u8 data offset = Option.bind (read_bytes data offset 1) (\<lambda>(bs, offset). Some (bs ! 0, offset))"

definition read_key :: "bytes \<Rightarrow> nat \<Rightarrow> (key \<times> nat) option" where
  "read_key data offset = Option.bind (read_bytes data offset 32) (\<lambda>(bs, offset). Some (key_of_bytes bs, offset))"

definition read_i32 :: "bytes \<Rightarrow> nat \<Rightarrow> (i32 \<times> nat) option" where
  "read_i32 data offset = Option.bind (read_bytes data offset 4) (\<lambda>(bs, offset). Some (from_le_bytes bs, offset))"

definition read_u64 :: "bytes \<Rightarrow> nat \<Rightarrow> (u64 \<times> nat) option" where
  "read_u64 data offset = Option.bind (read_bytes data offset 8) (\<lambda>(bs, offset). Some (from_le_bytes bs, offset))"

definition read_i64 :: "bytes \<Rightarrow> nat \<Rightarrow> (i64 \<times> nat) option" where
  "read_i64 data offset = Option.bind (read_bytes data offset 8) (\<lambda>(bs, offset). Some (from_le_bytes bs, offset))"

definition verification_level_parse :: "bytes \<Rightarrow> nat \<Rightarrow> (verification_level \<times> nat) option" where
  "verification_level_parse data offset =
     Option.bind (read_u8 data offset) (\<lambda>(tag, offset).
     if tag = 0 then Option.bind (read_u8 data offset) (\<lambda>(n, offset). Some (LevelPartial n, offset))
     else if tag = 1 then Some (LevelFull, offset)
     else None)"

definition pyth_price_parse :: "bytes \<Rightarrow> nat \<Rightarrow> (pyth_price \<times> nat) option" where
  "pyth_price_parse data offset =
     Option.bind (read_key data offset) (\<lambda>(feed_id, offset).
     Option.bind (read_i64 data offset) (\<lambda>(price, offset).
     Option.bind (read_u64 data offset) (\<lambda>(conf, offset).
     Option.bind (read_i32 data offset) (\<lambda>(exponent, offset).
     Option.bind (read_i64 data offset) (\<lambda>(publish_time, offset).
     Option.bind (read_i64 data offset) (\<lambda>(prev_publish_time, offset).
     Option.bind (read_i64 data offset) (\<lambda>(ema_price, offset).
     Option.bind (read_u64 data offset) (\<lambda>(ema_conf, offset).
     Some (\<lparr>pp_feed_id = feed_id, pp_price = price, pp_conf = conf, pp_exponent = exponent,
            pp_publish_time = publish_time\<rparr>, offset)))))))))"

definition price_update_parse :: "bytes \<Rightarrow> price_update option" where
  "price_update_parse data =
     (if length data < length PRICE_UPDATE_V2_DISCRIMINATOR \<or> take 8 data \<noteq> PRICE_UPDATE_V2_DISCRIMINATOR
      then None else
      Option.bind (read_key data 8) (\<lambda>(write_authority, offset).
      Option.bind (verification_level_parse data offset) (\<lambda>(level, offset).
      Option.bind (pyth_price_parse data offset) (\<lambda>(price, offset).
      Option.bind (read_u64 data offset) (\<lambda>(posted_slot, offset).
      Some \<lparr>pu_verification_level = level, pu_price = price, pu_posted_slot = posted_slot\<rparr>)))))"

definition confidence_within_bounds :: "u128 \<Rightarrow> u64 \<Rightarrow> u16 \<Rightarrow> bool" where
  "confidence_within_bounds price confidence max_confidence_bps =
     (if max_confidence_bps = 0 then True
      else case (checked_mul (ucast confidence :: u128) (ucast BPS_DENOMINATOR),
                 checked_mul price (ucast max_confidence_bps)) of
        (Some confidence_bps, Some max_confidence) \<Rightarrow> confidence_bps \<le> max_confidence
      | _ \<Rightarrow> False)"

definition scale_price :: "u128 \<Rightarrow> i32 \<Rightarrow> u8 \<Rightarrow> u128 option" where
  "scale_price price exponent decimals =
     (let scale = int (unat decimals) + sint exponent in
      if 2 ^ 31 \<le> scale then None
      else if 0 \<le> scale
      then Option.bind (checked_pow 10 (nat scale)) (\<lambda>factor. checked_mul price factor)
      else if scale = - (2 ^ 31) then None
      else Option.bind (checked_pow 10 (nat (- scale))) (\<lambda>divisor. Some (price div divisor)))"

definition price_from_pyth :: "pyth_config \<Rightarrow> pyth_price \<Rightarrow> oracle_price option" where
  "price_from_pyth config price =
     (if sint (pp_price price) \<le> 0 then None else
      Option.bind (u128_try_from_i64 (pp_price price)) (\<lambda>p.
      if \<not> confidence_within_bounds p (pp_conf price) (py_max_confidence_bps config) then None else
      Option.bind (scale_price p (pp_exponent price) (py_price_decimals config)) (\<lambda>v.
      if v = 0 then None else Some \<lparr>price_value = v, price_scale = py_price_decimals config\<rparr>)))"

definition pyth_parse_unverified_price :: "pyth_config \<Rightarrow> bytes \<Rightarrow> oracle_price option" where
  "pyth_parse_unverified_price config data =
     Option.bind (price_update_parse data) (\<lambda>update.
     if pp_feed_id (pu_price update) \<noteq> py_feed_id config then None
     else price_from_pyth config (pu_price update))"

definition read_verified_update :: "pyth_config \<Rightarrow> price_update \<Rightarrow> i64 \<Rightarrow> oracle_price program_result" where
  "read_verified_update config update now =
     (if 2 ^ 63 - 1 < unat (py_max_age_seconds config) then Inl InvalidAccountData
      else if pu_verification_level update \<noteq> LevelFull \<or> pp_feed_id (pu_price update) \<noteq> py_feed_id config \<or>
        sint (i64_saturating_add (pp_publish_time (pu_price update)) (py_max_age_seconds config)) < sint now
      then Inl InvalidAccountData
      else ok_or (price_from_pyth config (pu_price update)) InvalidAccountData)"

definition pyth_read_verified_price ::
  "pyth_config \<Rightarrow> ledger \<Rightarrow> account_info \<Rightarrow> i64 \<Rightarrow> oracle_price program_result" where
  "pyth_read_verified_price config L price_update_account now =
     (if (case pinned_price_update_account config of
            Some pinned \<Rightarrow> ai_key price_update_account \<noteq> pinned | None \<Rightarrow> False)
      then Inl InvalidAccountData
      else if owner_of L price_update_account \<noteq> SOLANA_RECEIVER_PROGRAM_ID then Inl IllegalOwner
      else attempt (ok_or (price_update_parse (data_of L price_update_account)) InvalidAccountData) (\<lambda>update.
        read_verified_update config update now))"

section \<open>Switchboard\<close>

definition SWITCHBOARD_QUOTE_DISCRIMINATOR :: bytes where
  "SWITCHBOARD_QUOTE_DISCRIMINATOR = ascii ''SBOracle''"
definition SLOT_HASHES_ID :: key where
  "SLOT_HASHES_ID = 0x06a7d517192f0aafc6f265e3fb77cc7ada82c529d0be3b136e2d005520000000"
definition INSTRUCTIONS_SYSVAR_ID :: key where
  "INSTRUCTIONS_SYSVAR_ID = 0x06a7d517187bd16635dad40455fdc2c0c124c68f215675a5dbbacb5f08000000"

definition price_from_quote :: "switchboard_config \<Rightarrow> switchboard_quote \<Rightarrow> oracle_price option" where
  "price_from_quote config quote =
     Option.bind (quote (sb_feed_id config)) (\<lambda>raw_value.
     if sint raw_value \<le> 0 then None
     else Some \<lparr>price_value = raw_value, price_scale = sb_price_decimals config\<rparr>)"

definition switchboard_parse_unverified_price ::
  "env \<Rightarrow> switchboard_config \<Rightarrow> bytes \<Rightarrow> oracle_price option" where
  "switchboard_parse_unverified_price E config data =
     (if length data < 40 \<or> take 8 data \<noteq> SWITCHBOARD_QUOTE_DISCRIMINATOR then None
      else Option.bind (parse_quote E (drop 40 data)) (price_from_quote config))"

definition verify_account_contract ::
  "switchboard_config \<Rightarrow> account_info \<Rightarrow> account_info \<Rightarrow> account_info \<Rightarrow> account_info \<Rightarrow> unit program_result" where
  "verify_account_contract config quote_account queue_account slothash_sysvar instructions_sysvar =
     (if ai_key quote_account \<noteq> sb_quote_account config \<or> ai_key queue_account \<noteq> sb_queue_account config \<or>
         ai_key slothash_sysvar \<noteq> SLOT_HASHES_ID \<or> ai_key instructions_sysvar \<noteq> INSTRUCTIONS_SYSVAR_ID
      then Inl InvalidAccountData else Inr ())"

definition switchboard_read_verified_price ::
  "env \<Rightarrow> switchboard_config \<Rightarrow> ledger \<Rightarrow> account_info \<Rightarrow> account_info \<Rightarrow> account_info \<Rightarrow> account_info \<Rightarrow> u64 \<Rightarrow>
   oracle_price program_result" where
  "switchboard_read_verified_price E config L quote_account queue_account slothash_sysvar
     instructions_sysvar slot =
     attempt (verify_account_contract config quote_account queue_account slothash_sysvar instructions_sysvar) (\<lambda>_.
     attempt (ok_or (verify_quote E L (ai_key queue_account) (ai_key slothash_sysvar)
         (ai_key instructions_sysvar) slot (sb_max_age_slots config) (ai_key quote_account)) InvalidAccountData) (\<lambda>quote.
     ok_or (price_from_quote config quote) InvalidAccountData))"

section \<open>Scope\<close>

definition ORACLE_PRICES_DISCRIMINATOR :: bytes where
  "ORACLE_PRICES_DISCRIMINATOR = [89, 128, 118, 221, 6, 72, 180, 146]"
definition ORACLE_PRICES_MAPPINGS_OFFSET :: nat where "ORACLE_PRICES_MAPPINGS_OFFSET = 8"
definition DATED_PRICES_OFFSET :: nat where "DATED_PRICES_OFFSET = 40"
definition DATED_PRICE_SIZE :: nat where "DATED_PRICE_SIZE = 56"
definition ORACLE_PRICES_LEN :: nat where
  "ORACLE_PRICES_LEN = DATED_PRICES_OFFSET + DATED_PRICE_SIZE * unat SCOPE_MAX_ENTRIES"
definition ORACLE_MAPPINGS_DISCRIMINATOR :: bytes where
  "ORACLE_MAPPINGS_DISCRIMINATOR = [40, 244, 110, 80, 255, 214, 243, 188]"
definition PRICE_INFO_ACCOUNTS_OFFSET :: nat where "PRICE_INFO_ACCOUNTS_OFFSET = 8"
definition PRICE_TYPES_OFFSET :: nat where
  "PRICE_TYPES_OFFSET = PRICE_INFO_ACCOUNTS_OFFSET + 32 * unat SCOPE_MAX_ENTRIES"
definition TWAP_SOURCE_OR_REF_PRICE_TOLERANCE_BPS_OFFSET :: nat where
  "TWAP_SOURCE_OR_REF_PRICE_TOLERANCE_BPS_OFFSET = PRICE_TYPES_OFFSET + unat SCOPE_MAX_ENTRIES"
definition TWAP_ENABLED_BITMASK_OFFSET :: nat where
  "TWAP_ENABLED_BITMASK_OFFSET = TWAP_SOURCE_OR_REF_PRICE_TOLERANCE_BPS_OFFSET + 2 * unat SCOPE_MAX_ENTRIES"
definition REF_PRICE_OFFSET :: nat where
  "REF_PRICE_OFFSET = TWAP_ENABLED_BITMASK_OFFSET + unat SCOPE_MAX_ENTRIES"
definition GENERIC_OFFSET :: nat where "GENERIC_OFFSET = REF_PRICE_OFFSET + 2 * unat SCOPE_MAX_ENTRIES"
definition ORACLE_MAPPINGS_LEN :: nat where
  "ORACLE_MAPPINGS_LEN = GENERIC_OFFSET + 20 * unat SCOPE_MAX_ENTRIES"
definition SCOPE_PROGRAM_ID :: key where
  "SCOPE_PROGRAM_ID = 0xf1842544b98f16dd81e7a70c834d85860c58bbc8db52c21fe2bc4cdfca2f5e03"
definition FROZEN_FLAG :: u8 where "FROZEN_FLAG = 0x80"

lemmas scope_layout_defs =
  ORACLE_PRICES_MAPPINGS_OFFSET_def DATED_PRICES_OFFSET_def DATED_PRICE_SIZE_def ORACLE_PRICES_LEN_def
  PRICE_INFO_ACCOUNTS_OFFSET_def PRICE_TYPES_OFFSET_def TWAP_SOURCE_OR_REF_PRICE_TOLERANCE_BPS_OFFSET_def
  TWAP_ENABLED_BITMASK_OFFSET_def REF_PRICE_OFFSET_def GENERIC_OFFSET_def ORACLE_MAPPINGS_LEN_def
  SCOPE_MAX_ENTRIES_def

record dated_price =
  dp_value :: u64
  dp_exp :: u64
  dp_unix_timestamp :: u64

definition well_formed :: "bytes \<Rightarrow> nat \<Rightarrow> bytes \<Rightarrow> bool" where
  "well_formed data len discriminator \<longleftrightarrow> length data = len \<and> get_slice data 0 8 = Some discriminator"

definition mapping_array_entry :: "bytes \<Rightarrow> nat \<Rightarrow> nat \<Rightarrow> nat \<Rightarrow> bytes option" where
  "mapping_array_entry data n offset index =
     get_slice data (offset + n * index) (offset + n * index + n)"

definition dated_price_parse :: "bytes \<Rightarrow> u16 \<Rightarrow> dated_price option" where
  "dated_price_parse data price_index =
     (let base = DATED_PRICES_OFFSET + DATED_PRICE_SIZE * unat price_index;
          read = (\<lambda>k. map_option from_le_bytes (get_slice data (base + k) (base + k + 8)))
      in
      Option.bind (read 0) (\<lambda>v.
      Option.bind (read 8) (\<lambda>e.
      Option.bind (read 24) (\<lambda>t.
      Some \<lparr>dp_value = v, dp_exp = e, dp_unix_timestamp = t\<rparr>))))"

definition price_from_entry :: "dated_price \<Rightarrow> oracle_price option" where
  "price_from_entry entry =
     (if dp_value entry = 0 then None
      else Option.bind (try_from (dp_exp entry)) (\<lambda>decimals.
        Some \<lparr>price_value = ucast (dp_value entry), price_scale = decimals\<rparr>))"

definition scope_parse_unverified_price :: "scope_config \<Rightarrow> bytes \<Rightarrow> oracle_price option" where
  "scope_parse_unverified_price config data =
     (if \<not> well_formed data ORACLE_PRICES_LEN ORACLE_PRICES_DISCRIMINATOR then None
      else Option.bind (dated_price_parse data (sc_price_index config)) price_from_entry)"

definition verify_mapping_entry :: "scope_config \<Rightarrow> bytes \<Rightarrow> unit program_result" where
  "verify_mapping_entry config mappings_data =
     (if \<not> well_formed mappings_data ORACLE_MAPPINGS_LEN ORACLE_MAPPINGS_DISCRIMINATOR then Inl InvalidAccountData
      else if SCOPE_MAX_ENTRIES \<le> sc_price_index config then Inl InvalidAccountData else
      let index = unat (sc_price_index config) in
      attempt (ok_or (get_nth mappings_data (PRICE_TYPES_OFFSET + index)) InvalidAccountData) (\<lambda>price_type.
      if price_type AND FROZEN_FLAG \<noteq> 0 then Inl InvalidAccountData else
      attempt (ok_or (mapping_array_entry mappings_data 32 PRICE_INFO_ACCOUNTS_OFFSET index) InvalidAccountData) (\<lambda>price_info.
      attempt (ok_or (mapping_array_entry mappings_data 2 TWAP_SOURCE_OR_REF_PRICE_TOLERANCE_BPS_OFFSET index) InvalidAccountData) (\<lambda>tolerance.
      attempt (ok_or (mapping_array_entry mappings_data 1 TWAP_ENABLED_BITMASK_OFFSET index) InvalidAccountData) (\<lambda>bitmask.
      attempt (ok_or (mapping_array_entry mappings_data 2 REF_PRICE_OFFSET index) InvalidAccountData) (\<lambda>ref_price.
      attempt (ok_or (mapping_array_entry mappings_data 20 GENERIC_OFFSET index) InvalidAccountData) (\<lambda>generic.
      let mapping = scope_mapping_new (key_of_bytes price_info) (price_type AND NOT FROZEN_FLAG)
            (from_le_bytes tolerance) (bitmask ! 0) (from_le_bytes ref_price) (from_le_bytes generic)
      in if mapping \<noteq> sc_mapping config then Inl InvalidAccountData else Inr ())))))))"

definition verify_freshness :: "scope_config \<Rightarrow> dated_price \<Rightarrow> i64 \<Rightarrow> unit program_result" where
  "verify_freshness config entry now =
     (if sint now < 0 then Inl InvalidAccountData
      else if now < dp_unix_timestamp entry then Inl InvalidAccountData
      else if sc_max_age_seconds config < now - dp_unix_timestamp entry then Inl InvalidAccountData
      else Inr ())"

definition scope_read_verified_price ::
  "scope_config \<Rightarrow> ledger \<Rightarrow> account_info \<Rightarrow> account_info \<Rightarrow> i64 \<Rightarrow> oracle_price program_result" where
  "scope_read_verified_price config L prices_account mappings_account now =
     (if ai_key prices_account \<noteq> sc_prices_account config then Inl InvalidAccountData
      else if owner_of L prices_account \<noteq> SCOPE_PROGRAM_ID \<or> owner_of L mappings_account \<noteq> SCOPE_PROGRAM_ID
      then Inl IllegalOwner else
      let prices_data = data_of L prices_account in
      if \<not> well_formed prices_data ORACLE_PRICES_LEN ORACLE_PRICES_DISCRIMINATOR then Inl InvalidAccountData
      else if field prices_data ORACLE_PRICES_MAPPINGS_OFFSET 32 \<noteq> key_bytes (ai_key mappings_account)
      then Inl InvalidAccountData else
      attempt (verify_mapping_entry config (data_of L mappings_account)) (\<lambda>_.
      attempt (ok_or (dated_price_parse prices_data (sc_price_index config)) InvalidAccountData) (\<lambda>entry.
      attempt (verify_freshness config entry now) (\<lambda>_.
      ok_or (price_from_entry entry) InvalidAccountData))))"

section \<open>Legs and the read session\<close>

definition PYTH_LEG_ACCOUNTS :: nat where "PYTH_LEG_ACCOUNTS = 1"
definition SWITCHBOARD_LEG_ACCOUNTS :: nat where "SWITCHBOARD_LEG_ACCOUNTS = 4"
definition SCOPE_LEG_ACCOUNTS :: nat where "SCOPE_LEG_ACCOUNTS = 2"

record oracle_leg =
  leg_config :: active_oracle_config
  leg_accounts :: "account_info list"

primrec leg_account_count :: "active_oracle_config \<Rightarrow> nat" where
  "leg_account_count (ActivePyth _) = PYTH_LEG_ACCOUNTS"
| "leg_account_count (ActiveSwitchboard _) = SWITCHBOARD_LEG_ACCOUNTS"
| "leg_account_count (ActiveScope _) = SCOPE_LEG_ACCOUNTS"

definition leg_parse ::
  "oracle_config \<Rightarrow> account_info list \<Rightarrow> (oracle_leg \<times> account_info list) program_result" where
  "leg_parse oracle accounts =
     attempt (map_err (\<lambda>_. InvalidAccountData) (active oracle)) (\<lambda>config.
     let n = leg_account_count config in
     if length accounts < n then Inl NotEnoughAccountKeys
     else Inr (\<lparr>leg_config = config, leg_accounts = take n accounts\<rparr>, drop n accounts))"

definition leg_read :: "env \<Rightarrow> ledger \<Rightarrow> oracle_leg \<Rightarrow> clock \<Rightarrow> oracle_price program_result" where
  "leg_read E L leg clk = (case leg_config leg of
       ActivePyth config \<Rightarrow> (case leg_accounts leg of
           price_account # _ \<Rightarrow> pyth_read_verified_price config L price_account (unix_timestamp clk)
         | _ \<Rightarrow> Inl NotEnoughAccountKeys)
     | ActiveSwitchboard config \<Rightarrow> (case leg_accounts leg of
           quote # queue # slothash # ix_sysvar # _ \<Rightarrow>
             switchboard_read_verified_price E config L quote queue slothash ix_sysvar (clock_slot clk)
         | _ \<Rightarrow> Inl NotEnoughAccountKeys)
     | ActiveScope config \<Rightarrow> (case leg_accounts leg of
           prices # mappings # _ \<Rightarrow> scope_read_verified_price config L prices mappings (unix_timestamp clk)
         | _ \<Rightarrow> Inl NotEnoughAccountKeys))"

datatype oracle_feed_key = SwitchboardFeed key | PythFeed key | ScopeFeed key u16

primrec feed_key :: "active_oracle_config \<Rightarrow> oracle_feed_key" where
  "feed_key (ActiveSwitchboard config) = SwitchboardFeed (sb_feed_id config)"
| "feed_key (ActivePyth config) = PythFeed (py_feed_id config)"
| "feed_key (ActiveScope config) = ScopeFeed (sc_prices_account config) (sc_price_index config)"

definition feeds_match :: "active_oracle_config \<Rightarrow> active_oracle_config \<Rightarrow> bool program_result" where
  "feeds_match left right =
     (if feed_key left \<noteq> feed_key right then Inr False
      else if left \<noteq> right then Inl InvalidAccountData
      else Inr True)"

definition same_account_keys :: "account_info list \<Rightarrow> account_info list \<Rightarrow> bool" where
  "same_account_keys left right \<longleftrightarrow> map ai_key left = map ai_key right"

text \<open>
  A session is the legs verified so far, with their prices, in the order they were read; the
  source keeps them in an array of three.
\<close>

type_synonym read_session = "(oracle_leg \<times> oracle_price) list"

fun session_reused ::
  "oracle_leg \<Rightarrow> read_session \<Rightarrow> oracle_price option \<Rightarrow> oracle_price option program_result" where
  "session_reused leg [] reused = Inr reused"
| "session_reused leg ((verified, price) # rest) reused =
     attempt (feeds_match (leg_config leg) (leg_config verified)) (\<lambda>m.
     if m then
       (if \<not> same_account_keys (leg_accounts leg) (leg_accounts verified) then Inl InvalidAccountData
        else session_reused leg rest (Some price))
     else session_reused leg rest reused)"

definition session_read ::
  "env \<Rightarrow> ledger \<Rightarrow> read_session \<Rightarrow> oracle_leg \<Rightarrow> clock \<Rightarrow> (oracle_price \<times> read_session) program_result" where
  "session_read E L session leg clk =
     attempt (session_reused leg session None) (\<lambda>reused.
     attempt (case reused of Some price \<Rightarrow> Inr price | None \<Rightarrow> leg_read E L leg clk) (\<lambda>price.
     if 3 \<le> length session then Inl Panicked else Inr (price, session @ [(leg, price)])))"


section \<open>Soundness of a verified read\<close>

lemma sint_of_small_u64:
  assumes "unat (w :: u64) \<le> 2 ^ 63 - 1"
  shows "sint w = int (unat w)"
proof -
  have "int (unat w) \<le> int (2 ^ 63 - 1)" using assms by (simp only: of_nat_le_iff)
  then have "uint w < 2 ^ 63" by simp
  moreover have "- (2 ^ 63) \<le> uint w" by (rule order_trans [OF _ uint_ge_0]) simp
  ultimately show ?thesis using sint_of_int_i64 [of "uint w"] by simp
qed

lemma confidence_within_bounds_imp:
  assumes "confidence_within_bounds p c b"
  shows "b = 0 \<or> unat c * 10000 \<le> unat p * unat b"
  using assms
  by (auto simp: confidence_within_bounds_def BPS_DENOMINATOR_def word_le_nat_alt checked_mul_Some_iff
      split: if_splits option.splits)

text \<open>The exact scaling: multiplication by a power of ten, or the floor of a division by one.\<close>

lemma scale_price_Some:
  assumes "scale_price p e d = Some v"
  shows "unat v * 10 ^ nat (- (int (unat d) + sint e)) \<le> unat p * 10 ^ nat (int (unat d) + sint e)"
    and "unat p * 10 ^ nat (int (unat d) + sint e) < (unat v + 1) * 10 ^ nat (- (int (unat d) + sint e))"
proof -
  define k where "k = int (unat d) + sint e"
  have eq: "scale_price p e d =
     (if 2 ^ 31 \<le> k then None
      else if 0 \<le> k then Option.bind (checked_pow 10 (nat k)) (\<lambda>factor. checked_mul p factor)
      else if k = - (2 ^ 31) then None
      else Option.bind (checked_pow 10 (nat (- k))) (\<lambda>divisor. Some (p div divisor)))"
    unfolding scale_price_def k_def Let_def by (rule refl)
  have "unat v * 10 ^ nat (- k) \<le> unat p * 10 ^ nat k \<and> unat p * 10 ^ nat k < (unat v + 1) * 10 ^ nat (- k)"
  proof (cases "0 \<le> k")
    case True
    then obtain f :: u128 where "unat f = 10 ^ nat k" "unat v = unat p * unat f"
      using assms by (auto simp: eq bind_Some_iff checked_pow_Some_iff checked_mul_Some_iff split: if_splits)
    with True show ?thesis by simp
  next
    case False
    then have "Option.bind (checked_pow 10 (nat (- k))) (\<lambda>divisor. Some (p div divisor)) = Some v"
      using assms by (simp add: eq split: if_splits)
    then obtain f where f: "checked_pow 10 (nat (- k)) = Some f" "v = p div f"
      unfolding bind_Some_iff by blast
    have uf: "unat f = 10 ^ nat (- k)" using f(1) by (simp add: checked_pow_Some_iff)
    have pos: "(0 :: nat) < 10 ^ nat (- k)" by simp
    have v: "unat v = unat p div 10 ^ nat (- k)" unfolding f(2) unat_div uf ..
    have "unat v * 10 ^ nat (- k) \<le> unat p" unfolding v by (rule div_times_less_eq_dividend)
    moreover have "unat p < (unat v + 1) * 10 ^ nat (- k)"
      using dividend_less_div_times [OF pos, of "unat p"] unfolding v by simp
    moreover have "nat k = 0" using False by simp
    ultimately show ?thesis by simp
  qed
  then show "unat v * 10 ^ nat (- (int (unat d) + sint e)) \<le> unat p * 10 ^ nat (int (unat d) + sint e)"
    "unat p * 10 ^ nat (int (unat d) + sint e) < (unat v + 1) * 10 ^ nat (- (int (unat d) + sint e))"
    by (simp_all add: k_def)
qed

lemma price_from_pyth_Some:
  assumes "price_from_pyth config price = Some r"
  shows "0 < sint (pp_price price)" and "price_value r \<noteq> 0" and "price_scale r = py_price_decimals config"
    and "py_max_confidence_bps config = 0 \<or>
      int (unat (pp_conf price)) * 10000 \<le> sint (pp_price price) * int (unat (py_max_confidence_bps config))"
    and "\<exists>p. u128_try_from_i64 (pp_price price) = Some p \<and>
      scale_price p (pp_exponent price) (py_price_decimals config) = Some (price_value r)"
proof -
  from assms obtain p where p: "u128_try_from_i64 (pp_price price) = Some p"
    "confidence_within_bounds p (pp_conf price) (py_max_confidence_bps config)"
    "scale_price p (pp_exponent price) (py_price_decimals config) = Some (price_value r)"
    "0 < sint (pp_price price)" "price_value r \<noteq> 0" "price_scale r = py_price_decimals config"
    by (auto simp: price_from_pyth_def bind_Some_iff split: if_splits)
  from p(1) have up: "int (unat p) = sint (pp_price price)" by (simp add: u128_try_from_i64_Some_iff)
  have "py_max_confidence_bps config = 0 \<or>
      int (unat (pp_conf price)) * 10000 \<le> int (unat p) * int (unat (py_max_confidence_bps config))"
    using confidence_within_bounds_imp [OF p(2)]
    by (metis of_nat_le_iff of_nat_mult of_nat_numeral)
  with up show "py_max_confidence_bps config = 0 \<or>
      int (unat (pp_conf price)) * 10000 \<le> sint (pp_price price) * int (unat (py_max_confidence_bps config))"
    by simp
qed (use assms in \<open>auto simp: price_from_pyth_def bind_Some_iff split: if_splits\<close>)

text \<open>
  C29. A price read from Pyth comes from an account of the Pyth receiver, the pinned one if one is
  pinned, holding a fully verified update of the configured feed that is no older than the
  configured age and whose confidence interval is within the configured bound; it is positive, at
  the configured scale, and the published price rescaled exactly, rounded down.
\<close>
theorem pyth_price_verified:
  assumes "pyth_read_verified_price config L a now = Inr r"
  shows "\<exists>u p. owner_of L a = SOLANA_RECEIVER_PROGRAM_ID \<and>
     (py_price_update_account config = 0 \<or> ai_key a = py_price_update_account config) \<and>
     price_update_parse (data_of L a) = Some u \<and> pu_verification_level u = LevelFull \<and>
     pp_feed_id (pu_price u) = py_feed_id config \<and>
     sint now - sint (pp_publish_time (pu_price u)) \<le> int (unat (py_max_age_seconds config)) \<and>
     (py_max_confidence_bps config = 0 \<or> int (unat (pp_conf (pu_price u))) * 10000 \<le>
        sint (pp_price (pu_price u)) * int (unat (py_max_confidence_bps config))) \<and>
     price_value r \<noteq> 0 \<and> price_scale r = py_price_decimals config \<and>
     int p = sint (pp_price (pu_price u)) \<and>
     (let k = int (unat (py_price_decimals config)) + sint (pp_exponent (pu_price u)) in
        unat (price_value r) * 10 ^ nat (- k) \<le> p * 10 ^ nat k \<and>
        p * 10 ^ nat k < (unat (price_value r) + 1) * 10 ^ nat (- k))"
proof -
  from assms obtain u where u: "price_update_parse (data_of L a) = Some u"
    "owner_of L a = SOLANA_RECEIVER_PROGRAM_ID"
    "py_price_update_account config = 0 \<or> ai_key a = py_price_update_account config"
    "read_verified_update config u now = Inr r"
    by (auto simp: pyth_read_verified_price_def pinned_price_update_account_def result_facts split: if_splits)
  then have v: "pu_verification_level u = LevelFull" "pp_feed_id (pu_price u) = py_feed_id config"
    "unat (py_max_age_seconds config) \<le> 2 ^ 63 - 1"
    "sint now \<le> sint (i64_saturating_add (pp_publish_time (pu_price u)) (py_max_age_seconds config))"
    "price_from_pyth config (pu_price u) = Some r"
    by (auto simp: read_verified_update_def result_facts split: if_splits)
  have m: "sint (py_max_age_seconds config) = int (unat (py_max_age_seconds config))"
    using v(3) by (rule sint_of_small_u64)
  have age: "sint now - sint (pp_publish_time (pu_price u)) \<le> int (unat (py_max_age_seconds config))"
  proof -
    let ?p = "sint (pp_publish_time (pu_price u))" and ?m = "int (unat (py_max_age_seconds config))"
    have "sint now \<le> max (- (2 ^ 63)) (min (2 ^ 63 - 1) (?p + ?m))"
      using v(4) m by (simp add: sint_i64_saturating_add)
    moreover have "- (2 ^ 63) \<le> ?p + ?m" using sint_i64_range(1) [of "pp_publish_time (pu_price u)"] by linarith
    ultimately show ?thesis by linarith
  qed
  note f = price_from_pyth_Some [OF v(5)]
  from f(5) obtain p where p: "u128_try_from_i64 (pp_price (pu_price u)) = Some p"
    "scale_price p (pp_exponent (pu_price u)) (py_price_decimals config) = Some (price_value r)" by blast
  have "int (unat p) = sint (pp_price (pu_price u))" using p(1) by (simp add: u128_try_from_i64_Some_iff)
  then show ?thesis
    using u v(1,2) age f scale_price_Some [OF p(2)] unfolding Let_def by blast
qed


lemma price_update_parse_full:
  "price_update_parse (PRICE_UPDATE_V2_DISCRIMINATOR @ key_bytes auth @ [1] @ key_bytes feed @ to_le_bytes (price :: i64) @
     to_le_bytes (conf :: u64) @ to_le_bytes (exponent :: i32) @ to_le_bytes (published :: i64) @
     to_le_bytes (prev :: i64) @ to_le_bytes (ema :: i64) @ to_le_bytes (ema_conf :: u64) @ to_le_bytes (slot :: u64)) =
   Some \<lparr>pu_verification_level = LevelFull,
      pu_price = \<lparr>pp_feed_id = feed, pp_price = price, pp_conf = conf, pp_exponent = exponent, pp_publish_time = published\<rparr>,
      pu_posted_slot = slot\<rparr>"
  by (simp add: price_update_parse_def PRICE_UPDATE_V2_DISCRIMINATOR_def read_key_def read_bytes_def get_slice_def
      verification_level_parse_def read_u8_def pyth_price_parse_def read_i64_def read_u64_def read_i32_def)

definition example_pyth_data :: bytes where
  "example_pyth_data = PRICE_UPDATE_V2_DISCRIMINATOR @ key_bytes 0 @ [1] @ key_bytes 77 @
     to_le_bytes (15000000000 :: i64) @ to_le_bytes (1000 :: u64) @ to_le_bytes (- 8 :: i32) @
     to_le_bytes (990 :: i64) @ to_le_bytes (0 :: i64) @ to_le_bytes (0 :: i64) @ to_le_bytes (0 :: u64) @
     to_le_bytes (0 :: u64)"

definition example_pyth_ledger :: ledger where
  "example_pyth_ledger = (\<lambda>_. \<lparr>c_owner = SOLANA_RECEIVER_PROGRAM_ID, c_lamports = 1, c_data = example_pyth_data,
     c_executable = False\<rparr>)"

definition example_handle :: account_info where
  "example_handle = \<lparr>ai_key = 5, ai_is_signer = False, ai_is_writable = False\<rparr>"

lemma example_pyth_parse:
  "price_update_parse example_pyth_data = Some \<lparr>pu_verification_level = LevelFull,
     pu_price = \<lparr>pp_feed_id = 77, pp_price = 15000000000, pp_conf = 1000, pp_exponent = - 8, pp_publish_time = 990\<rparr>,
     pu_posted_slot = 0\<rparr>"
  unfolding example_pyth_data_def by (rule price_update_parse_full)

lemma example_pyth_read:
  "pyth_read_verified_price (pyth_config_new 77 2 60 100) example_pyth_ledger example_handle 1000 =
     Inr \<lparr>price_value = 15000, price_scale = 2\<rparr>"
proof -
  have "scale_price 15000000000 (- 8) 2 = Some 15000"
    by (simp add: scale_price_def checked_pow_def)
  then show ?thesis
    by (simp add: pyth_read_verified_price_def pinned_price_update_account_def pyth_config_new_def
        example_pyth_ledger_def example_pyth_parse read_verified_update_def i64_saturating_add_def
        price_from_pyth_def u128_try_from_i64_def confidence_within_bounds_def checked_mul_def BPS_DENOMINATOR_def)
qed

theorem pyth_price_verified_witness:
  "\<exists>(u :: price_update) p. price_update_parse example_pyth_data = Some u \<and> int p = sint (pp_price (pu_price u)) \<and>
     p = 15000000000"
proof -
  obtain u p where up: "price_update_parse (data_of example_pyth_ledger example_handle) = Some u"
    "int p = sint (pp_price (pu_price u))"
    using pyth_price_verified [OF example_pyth_read] by blast
  from up(1) have u: "price_update_parse example_pyth_data = Some u" by (simp add: example_pyth_ledger_def)
  then have "sint (pp_price (pu_price u)) = 15000000000" by (auto simp: example_pyth_parse)
  with up(2) u show ?thesis by (intro exI [of _ u] exI [of _ p]) simp
qed

section \<open>Legs read the ledger through addresses only\<close>

lemma pyth_read_cong:
  assumes "ai_key a = ai_key a'"
  shows "pyth_read_verified_price py L a t = pyth_read_verified_price py L a' t"
  unfolding pyth_read_verified_price_def assms ..

lemma scope_read_cong:
  assumes "ai_key a = ai_key a'" and "ai_key b = ai_key b'"
  shows "scope_read_verified_price sc L a b t = scope_read_verified_price sc L a' b' t"
  unfolding scope_read_verified_price_def assms ..

lemma switchboard_read_cong:
  assumes "ai_key a = ai_key a'" and "ai_key b = ai_key b'" and "ai_key c = ai_key c'" and "ai_key d = ai_key d'"
  shows "switchboard_read_verified_price E sb L a b c d n = switchboard_read_verified_price E sb L a' b' c' d' n"
  unfolding switchboard_read_verified_price_def verify_account_contract_def assms ..

lemma leg_read_cong:
  assumes "leg_config leg = leg_config leg'" and "map ai_key (leg_accounts leg) = map ai_key (leg_accounts leg')"
  shows "leg_read E L leg clk = leg_read E L leg' clk"
  using assms by (auto simp: leg_read_def map_eq_Cons_conv Cons_eq_map_conv
      split: active_oracle_config.splits list.splits
      intro!: pyth_read_cong scope_read_cong switchboard_read_cong)

definition session_verified :: "env \<Rightarrow> ledger \<Rightarrow> clock \<Rightarrow> read_session \<Rightarrow> bool" where
  "session_verified E L clk session \<longleftrightarrow> (\<forall>(leg, price) \<in> set session. leg_read E L leg clk = Inr price)"

lemma session_reused_verified:
  assumes "session_verified E L clk session" and "session_reused leg session reused = Inr (Some price)"
    and "\<And>p. reused = Some p \<Longrightarrow> leg_read E L leg clk = Inr p"
  shows "leg_read E L leg clk = Inr price"
  using assms
proof (induction leg session reused rule: session_reused.induct)
  case (1 leg reused)
  then show ?case by simp
next
  case (2 leg verified p rest reused)
  have rest: "session_verified E L clk rest" "leg_read E L verified clk = Inr p"
    using "2.prems"(1) by (auto simp: session_verified_def)
  show ?case
  proof (cases "feeds_match (leg_config leg) (leg_config verified)")
    case (Inl e)
    with "2.prems"(2) show ?thesis by simp
  next
    case (Inr m)
    show ?thesis
    proof (cases m)
      case True
      with Inr "2.prems"(2) have same: "leg_config leg = leg_config verified"
        "map ai_key (leg_accounts leg) = map ai_key (leg_accounts verified)"
        "session_reused leg rest (Some p) = Inr (Some price)"
        by (auto simp: feeds_match_def same_account_keys_def split: if_splits)
      from leg_read_cong [OF same(1,2)] rest(2) "2.IH"(1) [OF Inr True _ rest(1) same(3)] same(2)
      show ?thesis by (simp add: same_account_keys_def)
    next
      case False
      with Inr "2.prems" "2.IH"(2) [OF Inr False rest(1)] show ?thesis by simp
    qed
  qed
qed

text \<open>
  The session is a transparent cache: whatever legs were read before it, a price the session
  returns is the price a fresh verified read of that leg gives on the same ledger and clock, and
  the session stays in this state; a reused feed never bypasses the checks of its own leg.
\<close>
theorem session_read_is_verified_read:
  assumes "session_verified E L clk session" and "session_read E L session leg clk = Inr (price, session')"
  shows "leg_read E L leg clk = Inr price \<and> session_verified E L clk session'"
proof -
  from assms(2) obtain reused where r: "session_reused leg session None = Inr reused"
    and p: "(case reused of Some price \<Rightarrow> Inr price | None \<Rightarrow> leg_read E L leg clk) = Inr price"
    and s: "session' = session @ [(leg, price)]"
    by (auto simp: session_read_def result_facts split: if_splits)
  have "leg_read E L leg clk = Inr price"
    using p r session_reused_verified [OF assms(1), of leg None price] by (cases reused) auto
  with assms(1) s show ?thesis by (auto simp: session_verified_def)
qed


theorem session_read_is_verified_read_witness:
  "\<forall>E :: env. leg_read E example_pyth_ledger
      \<lparr>leg_config = ActivePyth (pyth_config_new 77 2 60 100), leg_accounts = [example_handle]\<rparr>
      \<lparr>clock_slot = 0, unix_timestamp = 1000\<rparr> = Inr \<lparr>price_value = 15000, price_scale = 2\<rparr>"
proof
  fix E :: env
  let ?leg = "\<lparr>leg_config = ActivePyth (pyth_config_new 77 2 60 100), leg_accounts = [example_handle]\<rparr>"
  let ?clk = "\<lparr>clock_slot = 0, unix_timestamp = 1000\<rparr>"
  have "session_read E example_pyth_ledger [] ?leg ?clk =
      Inr (\<lparr>price_value = 15000, price_scale = 2\<rparr>, [(?leg, \<lparr>price_value = 15000, price_scale = 2\<rparr>)])"
    by (simp add: session_read_def leg_read_def example_pyth_read)
  from session_read_is_verified_read [OF _ this]
  show "leg_read E example_pyth_ledger ?leg ?clk = Inr \<lparr>price_value = 15000, price_scale = 2\<rparr>"
    by (simp add: session_verified_def)
qed

lemma sint_nonneg_u64: "0 \<le> sint (w :: i64) \<Longrightarrow> sint w = int (unat w)"
proof -
  assume "0 \<le> sint w"
  then have "uint (word_of_int (sint w) :: i64) = sint w"
    using sint_i64_range(2) [of w] by (simp only: uint_word_of_int_eq) (simp add: take_bit_int_eq_self)
  then show ?thesis by simp
qed

lemma mapping_not_frozen:
  assumes "verify_mapping_entry config data = Inr ()"
  shows "\<exists>pt. get_nth data (PRICE_TYPES_OFFSET + unat (sc_price_index config)) = Some pt \<and>
     \<not> bit pt 7 \<and> sm_price_type (sc_mapping config) = pt"
proof -
  from assms obtain pt where pt: "get_nth data (PRICE_TYPES_OFFSET + unat (sc_price_index config)) = Some pt"
    "pt AND FROZEN_FLAG = 0" "sm_price_type (sc_mapping config) = pt AND NOT FROZEN_FLAG"
    by (auto simp: verify_mapping_entry_def Let_def result_facts scope_mapping_new_def
        split: if_splits dest!: arg_cong [where f = sm_price_type])
  have bit7: "\<not> bit pt 7" using pt(2) and_exp_eq_0_iff_not_bit [of pt 7] by (simp add: FROZEN_FLAG_def)
  have "bit FROZEN_FLAG k \<longleftrightarrow> k = 7" for k
    using bit_exp_iff [of 7 k, where 'a = u8] by (auto simp: FROZEN_FLAG_def)
  then have "pt AND NOT FROZEN_FLAG = pt"
    using bit7 by (intro bit_word_eqI) (auto simp: bit_and_iff bit_not_iff)
  with pt bit7 show ?thesis by simp
qed



lemma le_value_zeros: "le_value (replicate n 0) = 0"
  by (induction n) simp_all

lemma from_le_zeros: "from_le_bytes (replicate n 0) = 0" "key_of_bytes (replicate 32 0) = 0"
  by (simp_all add: from_le_bytes_def key_of_bytes_def le_value_zeros)

definition example_scope_ledger :: ledger where
  "example_scope_ledger = (\<lambda>k. \<lparr>c_owner = SCOPE_PROGRAM_ID, c_lamports = 1,
     c_data = (if k = 5
       then ORACLE_PRICES_DISCRIMINATOR @ key_bytes 6 @ to_le_bytes (15000 :: u64) @ to_le_bytes (2 :: u64) @
            to_le_bytes (0 :: u64) @ to_le_bytes (990 :: u64) @ replicate 24 0 @ replicate 28616 0
       else ORACLE_MAPPINGS_DISCRIMINATOR @ replicate 29696 0),
     c_executable = False\<rparr>)"

lemma example_scope_read:
  "scope_read_verified_price (scope_config_new 5 (scope_mapping_new 0 0 0 0 0 0) 0 60) example_scope_ledger
     example_handle (example_handle\<lparr>ai_key := 6\<rparr>) 1000 = Inr \<lparr>price_value = 15000, price_scale = 2\<rparr>"
proof -
  let ?c = "scope_config_new 5 (scope_mapping_new 0 0 0 0 0 0) 0 60"
  let ?m = "ORACLE_MAPPINGS_DISCRIMINATOR @ replicate 29696 0"
  have "verify_mapping_entry ?c ?m = Inr ()"
    by (simp add: verify_mapping_entry_def scope_layout_defs well_formed_def get_slice_def get_nth_def
        mapping_array_entry_def ORACLE_MAPPINGS_DISCRIMINATOR_def nth_append from_le_zeros scope_config_new_def
        scope_mapping_new_def FROZEN_FLAG_def)
  moreover have "data_of example_scope_ledger (example_handle\<lparr>ai_key := 6\<rparr>) = ?m"
    by (simp add: example_scope_ledger_def)
  moreover have "sc_prices_account ?c = 5" "sc_price_index ?c = 0" "sc_max_age_seconds ?c = 60"
    by (simp_all add: scope_config_new_def)
  moreover have "dated_price_parse (data_of example_scope_ledger example_handle) 0 =
      Some \<lparr>dp_value = 15000, dp_exp = 2, dp_unix_timestamp = 990\<rparr>"
    by (simp add: dated_price_parse_def example_scope_ledger_def example_handle_def get_slice_def scope_layout_defs
        ORACLE_PRICES_DISCRIMINATOR_def)
  moreover have "well_formed (data_of example_scope_ledger example_handle) ORACLE_PRICES_LEN ORACLE_PRICES_DISCRIMINATOR"
    "field (data_of example_scope_ledger example_handle) ORACLE_PRICES_MAPPINGS_OFFSET 32 = key_bytes 6"
    by (simp_all add: well_formed_def example_scope_ledger_def example_handle_def get_slice_def scope_layout_defs
        ORACLE_PRICES_DISCRIMINATOR_def field_def)
  moreover have "c_owner (example_scope_ledger k) = SCOPE_PROGRAM_ID" for k
    by (simp add: example_scope_ledger_def)
  ultimately show ?thesis
    by (simp add: scope_read_verified_price_def verify_freshness_def price_from_entry_def try_from_def
        example_handle_def Let_def)
qed


end
