(* ===== verification/Fuzz_Support.thy ===== *)
theory Fuzz_Support
  imports Oracle_Readers
begin

text \<open>
  \<open>fuzz/src/support.rs\<close>: the accounts the fuzz harness installs by hand, mints, token accounts and
  mock prices, and its readers. The simulator is a parameter: its rent, its account store and its
  account reader. A panic of the harness is the value \<open>None\<close>.

  The lemmas tie the hand-made bytes to the program's parsers: what the harness means to install is
  what the program reads.
\<close>

section \<open>Definitions\<close>

record svm =
  minimum_balance_for_rent_exemption :: "nat \<Rightarrow> u64"
  svm_set_account :: "key \<Rightarrow> account_cell \<Rightarrow> ledger \<Rightarrow> ledger"
  svm_get_account :: "ledger \<Rightarrow> key \<Rightarrow> account_cell option"

text \<open>\<open>data[a..b].copy_from_slice(src)\<close> and \<open>data[i] = x\<close>.\<close>

definition copy_at :: "nat \<Rightarrow> nat \<Rightarrow> bytes \<Rightarrow> bytes \<Rightarrow> bytes option" where
  "copy_at a b src data =
     (if a \<le> b \<and> b \<le> length data \<and> length src = b - a then Some (take a data @ src @ drop b data) else None)"

definition put_at :: "nat \<Rightarrow> u8 \<Rightarrow> bytes \<Rightarrow> bytes option" where
  "put_at i x data = (if i < length data then Some (data[i := x]) else None)"

definition ATA_PROGRAM_ID :: key where
  "ATA_PROGRAM_ID = ASSOCIATED_TOKEN_PROGRAM_ID"

definition associated_token_address_with_program :: "pda_function \<Rightarrow> key \<Rightarrow> key \<Rightarrow> key \<Rightarrow> key" where
  "associated_token_address_with_program pda wallet mint token_program =
     fst (pda [key_bytes wallet, key_bytes token_program, key_bytes mint] ATA_PROGRAM_ID)"

definition fuzz_associated_token_address :: "pda_function \<Rightarrow> key \<Rightarrow> key \<Rightarrow> key" where
  "fuzz_associated_token_address pda wallet mint =
     associated_token_address_with_program pda wallet mint TOKEN_PROGRAM_ID"

definition set_token_2022_mint_with_extension ::
  "svm \<Rightarrow> key \<Rightarrow> key \<Rightarrow> u8 \<Rightarrow> u16 \<Rightarrow> nat \<Rightarrow> ledger \<Rightarrow> ledger option" where
  "set_token_2022_mint_with_extension svm mint authority decimals extension_type extension_len L =
     (let len = 166 + 4 + extension_len in
      Option.bind (copy_at 0 4 (to_le_bytes (1 :: u32)) (replicate len 0)) (\<lambda>data.
      Option.bind (copy_at 4 36 (key_bytes authority) data) (\<lambda>data.
      Option.bind (put_at 44 decimals data) (\<lambda>data.
      Option.bind (put_at 45 1 data) (\<lambda>data.
      Option.bind (put_at 165 1 data) (\<lambda>data.
      Option.bind (copy_at 166 168 (to_le_bytes extension_type) data) (\<lambda>data.
      Option.bind (copy_at 168 170 (to_le_bytes (word_of_nat extension_len :: u16)) data) (\<lambda>data.
      Some (svm_set_account svm mint
        \<lparr>c_owner = TOKEN_2022_PROGRAM_ID, c_lamports = minimum_balance_for_rent_exemption svm len,
         c_data = data, c_executable = False\<rparr> L)))))))))"

definition set_metadata_pointer_token_2022_mint :: "svm \<Rightarrow> key \<Rightarrow> key \<Rightarrow> u8 \<Rightarrow> ledger \<Rightarrow> ledger option" where
  "set_metadata_pointer_token_2022_mint svm mint authority decimals L =
     set_token_2022_mint_with_extension svm mint authority decimals 18 64 L"

definition set_transfer_fee_token_2022_mint :: "svm \<Rightarrow> key \<Rightarrow> key \<Rightarrow> u8 \<Rightarrow> ledger \<Rightarrow> ledger option" where
  "set_transfer_fee_token_2022_mint svm mint authority decimals L =
     set_token_2022_mint_with_extension svm mint authority decimals 1 108 L"

definition set_mint_with_len :: "svm \<Rightarrow> key \<Rightarrow> key \<Rightarrow> u8 \<Rightarrow> key \<Rightarrow> nat \<Rightarrow> ledger \<Rightarrow> ledger option" where
  "set_mint_with_len svm mint authority decimals token_program len L =
     (let data = take len (replicate 82 0) @ replicate (len - 82) 0 in
      Option.bind (copy_at 0 4 (to_le_bytes (1 :: u32)) data) (\<lambda>data.
      Option.bind (copy_at 4 36 (key_bytes authority) data) (\<lambda>data.
      Option.bind (put_at 44 decimals data) (\<lambda>data.
      Option.bind (put_at 45 1 data) (\<lambda>data.
      Some (svm_set_account svm mint
        \<lparr>c_owner = token_program, c_lamports = minimum_balance_for_rent_exemption svm len,
         c_data = data, c_executable = False\<rparr> L))))))"

definition set_mint_with_program :: "svm \<Rightarrow> key \<Rightarrow> key \<Rightarrow> u8 \<Rightarrow> key \<Rightarrow> ledger \<Rightarrow> ledger option" where
  "set_mint_with_program svm mint authority decimals token_program L =
     set_mint_with_len svm mint authority decimals token_program 82 L"

definition set_mint :: "svm \<Rightarrow> key \<Rightarrow> key \<Rightarrow> u8 \<Rightarrow> ledger \<Rightarrow> ledger option" where
  "set_mint svm mint authority decimals L = set_mint_with_program svm mint authority decimals TOKEN_PROGRAM_ID L"

definition set_token_2022_mint :: "svm \<Rightarrow> key \<Rightarrow> key \<Rightarrow> u8 \<Rightarrow> ledger \<Rightarrow> ledger option" where
  "set_token_2022_mint svm mint authority decimals L =
     set_mint_with_program svm mint authority decimals TOKEN_2022_PROGRAM_ID L"

definition set_token_account_with_program :: "svm \<Rightarrow> key \<Rightarrow> key \<Rightarrow> key \<Rightarrow> u64 \<Rightarrow> key \<Rightarrow> ledger \<Rightarrow> ledger option" where
  "set_token_account_with_program svm address mint owner amount token_program L =
     Option.bind (copy_at 0 32 (key_bytes mint) (replicate 165 0)) (\<lambda>data.
     Option.bind (copy_at 32 64 (key_bytes owner) data) (\<lambda>data.
     Option.bind (copy_at 64 72 (to_le_bytes amount) data) (\<lambda>data.
     Option.bind (put_at 108 1 data) (\<lambda>data.
     Some (svm_set_account svm address
       \<lparr>c_owner = token_program, c_lamports = minimum_balance_for_rent_exemption svm 165,
        c_data = data, c_executable = False\<rparr> L)))))"

definition set_token_account :: "svm \<Rightarrow> key \<Rightarrow> key \<Rightarrow> key \<Rightarrow> u64 \<Rightarrow> ledger \<Rightarrow> ledger option" where
  "set_token_account svm address mint owner amount L =
     set_token_account_with_program svm address mint owner amount TOKEN_PROGRAM_ID L"

definition set_ata_with_program ::
  "pda_function \<Rightarrow> svm \<Rightarrow> key \<Rightarrow> key \<Rightarrow> u64 \<Rightarrow> key \<Rightarrow> ledger \<Rightarrow> (key \<times> ledger) option" where
  "set_ata_with_program pda svm owner mint amount token_program L =
     (let address = associated_token_address_with_program pda owner mint token_program in
      Option.bind (set_token_account_with_program svm address mint owner amount token_program L) (\<lambda>L'.
      Some (address, L')))"

definition set_ata :: "pda_function \<Rightarrow> svm \<Rightarrow> key \<Rightarrow> key \<Rightarrow> u64 \<Rightarrow> ledger \<Rightarrow> (key \<times> ledger) option" where
  "set_ata pda svm owner mint amount L =
     (let address = fuzz_associated_token_address pda owner mint in
      Option.bind (set_token_account svm address mint owner amount L) (\<lambda>L'. Some (address, L')))"

definition PYTH_RECEIVER_ID :: key where
  "PYTH_RECEIVER_ID = 0x0cb7fabb52f7a648bb5b317d9a018b9057cb024774fafe01e6c4df98cc385881"

definition pyth_price_data :: "key \<Rightarrow> i64 \<Rightarrow> u64 \<Rightarrow> i32 \<Rightarrow> i64 \<Rightarrow> bytes" where
  "pyth_price_data feed_id price conf exponent publish_time =
     [0x22, 0xf1, 0x23, 0x63, 0x9d, 0x7e, 0xf4, 0xcd] @ replicate 32 0 @ [1] @ key_bytes feed_id @
     to_le_bytes price @ to_le_bytes conf @ to_le_bytes exponent @ to_le_bytes publish_time @
     to_le_bytes publish_time @ to_le_bytes (0 :: i64) @ to_le_bytes (0 :: u64) @ to_le_bytes (0 :: u64)"

definition set_pyth_price :: "svm \<Rightarrow> key \<Rightarrow> key \<Rightarrow> i64 \<Rightarrow> u64 \<Rightarrow> i32 \<Rightarrow> i64 \<Rightarrow> ledger \<Rightarrow> ledger" where
  "set_pyth_price svm address feed_id price conf exponent publish_time L =
     (let data = pyth_price_data feed_id price conf exponent publish_time in
      svm_set_account svm address
        \<lparr>c_owner = PYTH_RECEIVER_ID, c_lamports = minimum_balance_for_rent_exemption svm (length data),
         c_data = data, c_executable = False\<rparr> L)"

text \<open>The two halves of \<open>scope_oracle_data\<close>, for the prices and for the mappings account.\<close>

definition scope_prices_data :: "key \<Rightarrow> u16 \<Rightarrow> u64 \<Rightarrow> u64 \<Rightarrow> u64 \<Rightarrow> bytes option" where
  "scope_prices_data declared_mappings price_index value exponent timestamp =
     (let index = unat price_index;
          price_offset = DATED_PRICES_OFFSET + DATED_PRICE_SIZE * index
      in
      Option.bind (copy_at 0 8 ORACLE_PRICES_DISCRIMINATOR (replicate ORACLE_PRICES_LEN 0)) (\<lambda>prices.
      Option.bind (copy_at ORACLE_PRICES_MAPPINGS_OFFSET (ORACLE_PRICES_MAPPINGS_OFFSET + 32)
                     (key_bytes declared_mappings) prices) (\<lambda>prices.
      Option.bind (copy_at price_offset (price_offset + 8) (to_le_bytes value) prices) (\<lambda>prices.
      Option.bind (copy_at (price_offset + 8) (price_offset + 16) (to_le_bytes exponent) prices) (\<lambda>prices.
      copy_at (price_offset + 24) (price_offset + 32) (to_le_bytes timestamp) prices)))))"

definition scope_mappings_data :: "u16 \<Rightarrow> scope_mapping \<Rightarrow> bool \<Rightarrow> bytes option" where
  "scope_mappings_data price_index mapping frozen =
     (let index = unat price_index;
          price_info_offset = PRICE_INFO_ACCOUNTS_OFFSET + 32 * index;
          twap_source_offset = TWAP_SOURCE_OR_REF_PRICE_TOLERANCE_BPS_OFFSET + 2 * index;
          ref_price_offset = REF_PRICE_OFFSET + 2 * index;
          generic_offset = GENERIC_OFFSET + 20 * index
      in
      Option.bind (copy_at 0 8 ORACLE_MAPPINGS_DISCRIMINATOR (replicate ORACLE_MAPPINGS_LEN 0)) (\<lambda>mappings.
      Option.bind (copy_at price_info_offset (price_info_offset + 32)
                     (key_bytes (sm_price_info_account mapping)) mappings) (\<lambda>mappings.
      Option.bind (put_at (PRICE_TYPES_OFFSET + index)
                     (sm_price_type mapping OR (if frozen then FROZEN_FLAG else 0)) mappings) (\<lambda>mappings.
      Option.bind (copy_at twap_source_offset (twap_source_offset + 2)
                     (to_le_bytes (sm_twap_source_or_ref_price_tolerance_bps mapping)) mappings) (\<lambda>mappings.
      Option.bind (put_at (TWAP_ENABLED_BITMASK_OFFSET + index) (sm_twap_enabled_bitmask mapping) mappings) (\<lambda>mappings.
      Option.bind (copy_at ref_price_offset (ref_price_offset + 2) (to_le_bytes (sm_ref_price mapping)) mappings) (\<lambda>mappings.
      copy_at generic_offset (generic_offset + 20) (to_le_bytes (sm_generic mapping)) mappings)))))))"

definition scope_oracle_data ::
  "key \<Rightarrow> u16 \<Rightarrow> u64 \<Rightarrow> u64 \<Rightarrow> u64 \<Rightarrow> scope_mapping \<Rightarrow> bool \<Rightarrow> (bytes \<times> bytes) option" where
  "scope_oracle_data declared_mappings price_index value exponent timestamp mapping frozen =
     Option.bind (scope_prices_data declared_mappings price_index value exponent timestamp) (\<lambda>prices.
     Option.bind (scope_mappings_data price_index mapping frozen) (\<lambda>mappings.
     Some (prices, mappings)))"

definition set_scope_oracle ::
  "svm \<Rightarrow> key \<Rightarrow> key \<Rightarrow> u16 \<Rightarrow> scope_mapping \<Rightarrow> u64 \<Rightarrow> u64 \<Rightarrow> u64 \<Rightarrow> ledger \<Rightarrow> ledger option" where
  "set_scope_oracle svm prices_account mappings_account price_index mapping value exponent timestamp L =
     Option.bind (scope_oracle_data mappings_account price_index value exponent timestamp mapping False)
       (\<lambda>(prices, mappings).
     let cell = (\<lambda>data. \<lparr>c_owner = SCOPE_PROGRAM_ID,
           c_lamports = minimum_balance_for_rent_exemption svm (length data), c_data = data, c_executable = False\<rparr>)
     in Some (svm_set_account svm mappings_account (cell mappings)
               (svm_set_account svm prices_account (cell prices) L)))"

definition fuzz_token_balance :: "svm \<Rightarrow> ledger \<Rightarrow> key \<Rightarrow> u64 option" where
  "fuzz_token_balance svm L address =
     Option.bind (svm_get_account svm L address) (\<lambda>account.
     map_option from_le_bytes (get_slice (c_data account) 64 72))"

definition fuzz_mint_supply :: "svm \<Rightarrow> ledger \<Rightarrow> key \<Rightarrow> u64 option" where
  "fuzz_mint_supply svm L mint =
     Option.bind (svm_get_account svm L mint) (\<lambda>account.
     map_option from_le_bytes (get_slice (c_data account) 36 44))"

text \<open>The account store of the simulator keeps what it is given and changes nothing else.\<close>

definition svm_ok :: "svm \<Rightarrow> bool" where
  "svm_ok svm \<longleftrightarrow> (\<forall>k c L. svm_set_account svm k c L = L(k := c)) \<and>
     (\<forall>L k c. svm_get_account svm L k = Some c \<longrightarrow> c = L k)"

section \<open>Writing and reading back\<close>

lemma copy_at_Some_iff:
  "copy_at a b src data = Some data' \<longleftrightarrow>
     a \<le> b \<and> b \<le> length data \<and> length src = b - a \<and> data' = take a data @ src @ drop b data"
  by (auto simp: copy_at_def)

lemma copy_at_length: "copy_at a b src data = Some data' \<Longrightarrow> length data' = length data"
  by (auto simp: copy_at_Some_iff)

lemma copy_at_total:
  "a \<le> b \<Longrightarrow> b \<le> length data \<Longrightarrow> length src = b - a \<Longrightarrow> \<exists>data'. copy_at a b src data = Some data'"
  by (simp add: copy_at_def)

lemma copy_at_same: "copy_at a b src data = Some data' \<Longrightarrow> get_slice data' a b = Some src"
  by (auto simp: copy_at_Some_iff)

lemma copy_at_nth:
  assumes "copy_at a b src data = Some data'" and "i < a \<or> b \<le> i"
  shows "get_nth data' i = get_nth data i"
  using assms by (auto simp: copy_at_Some_iff get_nth_def nth_append)

lemma put_at_length: "put_at i x data = Some data' \<Longrightarrow> length data' = length data"
  by (auto simp: put_at_def split: if_splits)

lemma put_at_nth: "put_at i x data = Some data' \<Longrightarrow> get_nth data' j = (if j = i then Some x else get_nth data j)"
  by (auto simp: put_at_def get_nth_def split: if_splits)

text \<open>A slice is determined by its bytes, so writes elsewhere do not show in it.\<close>

lemma get_slice_cong:
  assumes "length data' = length data" and "\<And>i. x \<le> i \<Longrightarrow> i < y \<Longrightarrow> get_nth data' i = get_nth data i"
  shows "get_slice data' x y = get_slice data x y"
proof (cases "x \<le> y \<and> y \<le> length data")
  case True
  have "data' ! i = data ! i" if "x \<le> i" "i < y" for i
    using assms(2) [OF that] that True assms(1) by (simp add: get_nth_def)
  then have "take (y - x) (drop x data') = take (y - x) (drop x data)"
    using True assms(1) by (intro nth_equalityI) auto
  then show ?thesis using assms(1) by (simp add: get_slice_def)
qed (use assms(1) in \<open>auto simp: get_slice_def\<close>)

lemma copy_at_other:
  assumes "copy_at a b src data = Some data'" and "y \<le> a \<or> b \<le> x"
  shows "get_slice data' x y = get_slice data x y"
  using assms copy_at_nth [OF assms(1)] copy_at_length [OF assms(1)] by (intro get_slice_cong) auto

lemma put_at_other:
  assumes "put_at i v data = Some data'" and "y \<le> i \<or> i < x"
  shows "get_slice data' x y = get_slice data x y"
  using assms put_at_nth [OF assms(1)] put_at_length [OF assms(1)] by (intro get_slice_cong) auto

lemmas layout_facts = copy_at_length put_at_length copy_at_same

lemma key_bytes_zero: "key_bytes 0 = replicate 32 0"
proof -
  have "key_bytes (key_of_bytes (replicate 32 0)) = replicate 32 0" by (rule key_bytes_of_bytes) simp
  then show ?thesis by (simp add: from_le_zeros)
qed

section \<open>Prices\<close>

lemma pyth_price_data_parse:
  "price_update_parse (pyth_price_data feed price conf exponent t) =
     Some \<lparr>pu_verification_level = LevelFull,
       pu_price = \<lparr>pp_feed_id = feed, pp_price = price, pp_conf = conf, pp_exponent = exponent, pp_publish_time = t\<rparr>,
       pu_posted_slot = 0\<rparr>"
  using price_update_parse_full [of 0 feed price conf exponent t t 0 0 0]
  by (simp add: pyth_price_data_def PRICE_UPDATE_V2_DISCRIMINATOR_def key_bytes_zero)

lemma installed_pyth_price:
  assumes "svm_ok svm" and "py_feed_id config = feed" and "py_price_update_account config \<in> {0, ai_key a}"
  shows "pyth_read_verified_price config (set_pyth_price svm (ai_key a) feed price conf exponent t L) a now =
     read_verified_update config \<lparr>pu_verification_level = LevelFull,
       pu_price = \<lparr>pp_feed_id = feed, pp_price = price, pp_conf = conf, pp_exponent = exponent, pp_publish_time = t\<rparr>,
       pu_posted_slot = 0\<rparr> now"
  using assms
  by (auto simp: pyth_read_verified_price_def set_pyth_price_def svm_ok_def Let_def pyth_price_data_parse
      pinned_price_update_account_def PYTH_RECEIVER_ID_def SOLANA_RECEIVER_PROGRAM_ID_def)

lemma copy_atE:
  assumes "a \<le> b" and "b \<le> length data" and "length src = b - a"
  obtains data' where "copy_at a b src data = Some data'" and "length data' = length data"
  using copy_at_total [OF assms] copy_at_length by blast

lemma put_atE:
  assumes "i < length data"
  obtains data' where "put_at i x data = Some data'" and "length data' = length data"
  using assms by (simp add: put_at_def)

lemma scope_offsets:
  "unat SCOPE_MAX_ENTRIES = 512" "DATED_PRICES_OFFSET = 40" "DATED_PRICE_SIZE = 56" "ORACLE_PRICES_LEN = 28712"
  "ORACLE_PRICES_MAPPINGS_OFFSET = 8" "PRICE_INFO_ACCOUNTS_OFFSET = 8" "PRICE_TYPES_OFFSET = 16392"
  "TWAP_SOURCE_OR_REF_PRICE_TOLERANCE_BPS_OFFSET = 16904" "TWAP_ENABLED_BITMASK_OFFSET = 17928"
  "REF_PRICE_OFFSET = 18440" "GENERIC_OFFSET = 19464" "ORACLE_MAPPINGS_LEN = 29704"
  by (simp_all add: scope_layout_defs)

text \<open>The bytes of the two accounts, field by field.\<close>

definition scope_prices_layout :: "key \<Rightarrow> nat \<Rightarrow> u64 \<Rightarrow> u64 \<Rightarrow> u64 \<Rightarrow> bytes \<Rightarrow> bool" where
  "scope_prices_layout declared i value exponent timestamp prices \<longleftrightarrow> length prices = 28712 \<and>
     get_slice prices 0 8 = Some ORACLE_PRICES_DISCRIMINATOR \<and> get_slice prices 8 40 = Some (key_bytes declared) \<and>
     get_slice prices (40 + 56 * i) (40 + 56 * i + 8) = Some (to_le_bytes value) \<and>
     get_slice prices (40 + 56 * i + 8) (40 + 56 * i + 16) = Some (to_le_bytes exponent) \<and>
     get_slice prices (40 + 56 * i + 24) (40 + 56 * i + 32) = Some (to_le_bytes timestamp)"

definition scope_mappings_layout :: "nat \<Rightarrow> scope_mapping \<Rightarrow> u8 \<Rightarrow> bytes \<Rightarrow> bool" where
  "scope_mappings_layout i m price_type mappings \<longleftrightarrow> length mappings = 29704 \<and>
     get_slice mappings 0 8 = Some ORACLE_MAPPINGS_DISCRIMINATOR \<and>
     get_slice mappings (8 + 32 * i) (8 + 32 * i + 32) = Some (key_bytes (sm_price_info_account m)) \<and>
     get_nth mappings (16392 + i) = Some price_type \<and>
     get_slice mappings (16904 + 2 * i) (16904 + 2 * i + 2) = Some (to_le_bytes (sm_twap_source_or_ref_price_tolerance_bps m)) \<and>
     get_nth mappings (17928 + i) = Some (sm_twap_enabled_bitmask m) \<and>
     get_slice mappings (18440 + 2 * i) (18440 + 2 * i + 2) = Some (to_le_bytes (sm_ref_price m)) \<and>
     get_slice mappings (19464 + 20 * i) (19464 + 20 * i + 20) = Some (to_le_bytes (sm_generic m))"

lemma scope_prices_data_layout:
  assumes "unat i < 512"
  obtains prices where "scope_prices_data declared i value exponent timestamp = Some prices"
    and "scope_prices_layout declared (unat i) value exponent timestamp prices"
proof -
  let ?o = "40 + 56 * unat i"
  obtain p1 where p1: "copy_at 0 8 ORACLE_PRICES_DISCRIMINATOR (replicate 28712 0) = Some p1" "length p1 = 28712"
    by (rule copy_atE [of 0 8 "replicate 28712 0" ORACLE_PRICES_DISCRIMINATOR]) (simp_all add: ORACLE_PRICES_DISCRIMINATOR_def)
  obtain p2 where p2: "copy_at 8 40 (key_bytes declared) p1 = Some p2" "length p2 = 28712"
    by (rule copy_atE [of 8 40 p1 "key_bytes declared"]) (simp_all add: p1)
  obtain p3 where p3: "copy_at ?o (?o + 8) (to_le_bytes value) p2 = Some p3" "length p3 = 28712"
    by (rule copy_atE [of ?o "?o + 8" p2 "to_le_bytes value"]) (use assms p2 in simp_all)
  obtain p4 where p4: "copy_at (?o + 8) (?o + 16) (to_le_bytes exponent) p3 = Some p4" "length p4 = 28712"
    by (rule copy_atE [of "?o + 8" "?o + 16" p3 "to_le_bytes exponent"]) (use assms p3 in simp_all)
  obtain p5 where p5: "copy_at (?o + 24) (?o + 32) (to_le_bytes timestamp) p4 = Some p5" "length p5 = 28712"
    by (rule copy_atE [of "?o + 24" "?o + 32" p4 "to_le_bytes timestamp"]) (use assms p4 in simp_all)
  have "scope_prices_layout declared (unat i) value exponent timestamp p5"
    unfolding scope_prices_layout_def
    using p5(2) p1(1) p2(1) p3(1) p4(1) p5(1) [THEN copy_at_same] p4(1) [THEN copy_at_same] p3(1) [THEN copy_at_same]
      p2(1) [THEN copy_at_same] p1(1) [THEN copy_at_same]
    by (simp add: copy_at_other [OF p5(1)] copy_at_other [OF p4(1)] copy_at_other [OF p3(1)] copy_at_other [OF p2(1)])
  moreover have "scope_prices_data declared i value exponent timestamp = Some p5"
    unfolding scope_prices_data_def scope_offsets Let_def using p1(1) p2(1) p3(1) p4(1) p5(1) by simp
  ultimately show thesis using that by blast
qed

lemma scope_mappings_data_layout:
  assumes "unat i < 512"
  obtains mappings where "scope_mappings_data i m frozen = Some mappings"
    and "scope_mappings_layout (unat i) m (sm_price_type m OR (if frozen then FROZEN_FLAG else 0)) mappings"
proof -
  let ?n = "unat i"
  define pt where "pt = sm_price_type m OR (if frozen then FROZEN_FLAG else 0)"
  obtain m1 where m1: "copy_at 0 8 ORACLE_MAPPINGS_DISCRIMINATOR (replicate 29704 0) = Some m1" "length m1 = 29704"
    by (rule copy_atE [of 0 8 "replicate 29704 0" ORACLE_MAPPINGS_DISCRIMINATOR]) (simp_all add: ORACLE_MAPPINGS_DISCRIMINATOR_def)
  obtain m2 where m2: "copy_at (8 + 32 * ?n) (8 + 32 * ?n + 32) (key_bytes (sm_price_info_account m)) m1 = Some m2" "length m2 = 29704"
    by (rule copy_atE [of "8 + 32 * ?n" "8 + 32 * ?n + 32" m1 "key_bytes (sm_price_info_account m)"]) (use assms m1 in simp_all)
  obtain m3 where m3: "put_at (16392 + ?n) pt m2 = Some m3" "length m3 = 29704"
    by (rule put_atE [of "16392 + ?n" m2]) (use assms m2 in simp_all)
  obtain m4 where m4: "copy_at (16904 + 2 * ?n) (16904 + 2 * ?n + 2) (to_le_bytes (sm_twap_source_or_ref_price_tolerance_bps m)) m3 = Some m4"
    "length m4 = 29704"
    by (rule copy_atE [of "16904 + 2 * ?n" "16904 + 2 * ?n + 2" m3 "to_le_bytes (sm_twap_source_or_ref_price_tolerance_bps m)"]) (use assms m3 in simp_all)
  obtain m5 where m5: "put_at (17928 + ?n) (sm_twap_enabled_bitmask m) m4 = Some m5" "length m5 = 29704"
    by (rule put_atE [of "17928 + ?n" m4]) (use assms m4 in simp_all)
  obtain m6 where m6: "copy_at (18440 + 2 * ?n) (18440 + 2 * ?n + 2) (to_le_bytes (sm_ref_price m)) m5 = Some m6" "length m6 = 29704"
    by (rule copy_atE [of "18440 + 2 * ?n" "18440 + 2 * ?n + 2" m5 "to_le_bytes (sm_ref_price m)"]) (use assms m5 in simp_all)
  obtain m7 where m7: "copy_at (19464 + 20 * ?n) (19464 + 20 * ?n + 20) (to_le_bytes (sm_generic m)) m6 = Some m7" "length m7 = 29704"
    by (rule copy_atE [of "19464 + 20 * ?n" "19464 + 20 * ?n + 20" m6 "to_le_bytes (sm_generic m)"]) (use assms m6 in simp_all)
  note same = m7(1) [THEN copy_at_same] m6(1) [THEN copy_at_same] m4(1) [THEN copy_at_same] m2(1) [THEN copy_at_same]
    m1(1) [THEN copy_at_same]
  note other = m7(1) [THEN copy_at_other] m6(1) [THEN copy_at_other] m5(1) [THEN put_at_other] m4(1) [THEN copy_at_other]
    m3(1) [THEN put_at_other] m2(1) [THEN copy_at_other]
  note nth = m7(1) [THEN copy_at_nth] m6(1) [THEN copy_at_nth] m5(1) [THEN put_at_nth] m4(1) [THEN copy_at_nth]
    m3(1) [THEN put_at_nth]
  have "scope_mappings_layout ?n m pt m7"
    unfolding scope_mappings_layout_def using assms m7(2) same by (simp add: other nth)
  moreover have "scope_mappings_data i m frozen = Some m7"
    unfolding scope_mappings_data_def scope_offsets Let_def pt_def [symmetric]
    using m1(1) m2(1) m3(1) m4(1) m5(1) m6(1) m7(1) by simp
  ultimately show thesis using that pt_def by blast
qed

lemma mapping_entry_read:
  assumes "scope_mappings_layout (unat (sc_price_index config)) m pt mappings" and "unat (sc_price_index config) < 512"
  shows "verify_mapping_entry config mappings = Inr () \<longleftrightarrow>
     pt AND FROZEN_FLAG = 0 \<and> sc_mapping config = scope_mapping_new (sm_price_info_account m) (pt AND NOT FROZEN_FLAG)
       (sm_twap_source_or_ref_price_tolerance_bps m) (sm_twap_enabled_bitmask m) (sm_ref_price m) (sm_generic m)"
proof -
  let ?i = "unat (sc_price_index config)"
  have "\<not> SCOPE_MAX_ENTRIES \<le> sc_price_index config" using assms(2) by (simp add: word_le_nat_alt scope_offsets)
  moreover have "get_slice mappings (17928 + ?i) (17928 + ?i + 1) = Some [sm_twap_enabled_bitmask m]"
    using assms by (auto simp: scope_mappings_layout_def get_nth_def get_slice_def take_Suc_conv_app_nth hd_drop_conv_nth)
  ultimately show ?thesis using assms(1)
    by (simp add: verify_mapping_entry_def scope_mappings_layout_def well_formed_def scope_offsets mapping_array_entry_def Let_def)
qed

lemma frozen_flag_bit: "pt AND FROZEN_FLAG = 0 \<longleftrightarrow> \<not> bit pt 7"
  using and_exp_eq_0_iff_not_bit [of pt 7] by (simp add: FROZEN_FLAG_def)

lemma unfrozen_price_type:
  assumes "\<not> bit (t :: u8) 7"
  shows "(t OR (if frozen then FROZEN_FLAG else 0)) AND FROZEN_FLAG = 0 \<longleftrightarrow> \<not> frozen" and "t AND NOT FROZEN_FLAG = t"
proof -
  have b: "bit FROZEN_FLAG k \<longleftrightarrow> k = 7" for k
    using bit_exp_iff [of 7 k, where 'a = u8] by (auto simp: FROZEN_FLAG_def)
  then show "(t OR (if frozen then FROZEN_FLAG else 0)) AND FROZEN_FLAG = 0 \<longleftrightarrow> \<not> frozen"
    using assms by (simp add: frozen_flag_bit bit_or_iff)
  show "t AND NOT FROZEN_FLAG = t" using b assms by (intro bit_word_eqI) (auto simp: bit_and_iff bit_not_iff)
qed

text \<open>A mapping as the constructor makes it, with a price type that leaves the frozen bit clear.\<close>

definition plain_mapping :: "scope_mapping \<Rightarrow> bool" where
  "plain_mapping m \<longleftrightarrow> sm_padding m = 0 \<and> \<not> bit (sm_price_type m) 7"

lemma scope_mappings_data_read:
  assumes "unat (sc_price_index config) < 512" and "plain_mapping m" and "plain_mapping (sc_mapping config)"
  obtains mappings where "scope_mappings_data (sc_price_index config) m frozen = Some mappings"
    and "verify_mapping_entry config mappings = Inr () \<longleftrightarrow> \<not> frozen \<and> m = sc_mapping config"
proof -
  obtain mappings where d: "scope_mappings_data (sc_price_index config) m frozen = Some mappings"
    and l: "scope_mappings_layout (unat (sc_price_index config)) m (sm_price_type m OR (if frozen then FROZEN_FLAG else 0)) mappings"
    using scope_mappings_data_layout [OF assms(1)] by blast
  have "scope_mapping_new (sm_price_info_account m) (sm_price_type m) (sm_twap_source_or_ref_price_tolerance_bps m)
      (sm_twap_enabled_bitmask m) (sm_ref_price m) (sm_generic m) = m"
    using assms(2) by (simp add: scope_mapping_new_def plain_mapping_def)
  note new = this
  have t: "\<not> bit (sm_price_type m) 7" using assms(2) by (simp add: plain_mapping_def)
  have "verify_mapping_entry config mappings = Inr () \<longleftrightarrow> \<not> frozen \<and> m = sc_mapping config"
  proof (cases frozen)
    case True
    then show ?thesis using mapping_entry_read [OF l assms(1)] unfrozen_price_type(1) [OF t, of frozen] by simp
  next
    case False
    then have pt: "sm_price_type m OR (if frozen then FROZEN_FLAG else 0) = sm_price_type m" by simp
    show ?thesis
      using mapping_entry_read [OF l [unfolded pt] assms(1), unfolded unfrozen_price_type(2) [OF t] new] t False
      by (simp only: frozen_flag_bit) blast
  qed
  with d show thesis by (rule that)
qed

lemma scope_prices_layout_read:
  assumes "scope_prices_layout declared (unat i) value exponent timestamp prices"
  shows "well_formed prices ORACLE_PRICES_LEN ORACLE_PRICES_DISCRIMINATOR"
    and "field prices ORACLE_PRICES_MAPPINGS_OFFSET 32 = key_bytes declared"
    and "dated_price_parse prices i = Some \<lparr>dp_value = value, dp_exp = exponent, dp_unix_timestamp = timestamp\<rparr>"
proof -
  note l = assms [unfolded scope_prices_layout_def]
  show "well_formed prices ORACLE_PRICES_LEN ORACLE_PRICES_DISCRIMINATOR" using l by (simp add: well_formed_def scope_offsets)
  show "field prices ORACLE_PRICES_MAPPINGS_OFFSET 32 = key_bytes declared"
    using l by (simp add: scope_offsets field_def get_slice_Some_iff)
  show "dated_price_parse prices i = Some \<lparr>dp_value = value, dp_exp = exponent, dp_unix_timestamp = timestamp\<rparr>"
    using l by (simp add: dated_price_parse_def scope_offsets)
qed

lemma mapping_refused: "verify_mapping_entry config mappings = Inl e \<Longrightarrow> e = InvalidAccountData"
  by (auto simp: verify_mapping_entry_def Let_def attempt_Inl_iff ok_or_Inl_iff split: if_splits)

text \<open>
  C38. The mock Scope accounts of the fuzz harness are what the program reads: once the pair is
  installed, a verified read with the committed mapping and index finds exactly the observation
  that was installed, and decides on its age and value alone; with another mapping the pair is
  refused.
\<close>
theorem installed_scope_price:
  assumes "svm_ok svm" and "unat (sc_price_index config) < 512" and "ai_key p \<noteq> ai_key a"
    and "sc_prices_account config = ai_key p" and "plain_mapping m" and "plain_mapping (sc_mapping config)"
  shows "\<exists>L'. set_scope_oracle svm (ai_key p) (ai_key a) (sc_price_index config) m price exponent timestamp L = Some L' \<and>
     scope_read_verified_price config L' p a now =
       (if m \<noteq> sc_mapping config then Inl InvalidAccountData else
        attempt (verify_freshness config \<lparr>dp_value = price, dp_exp = exponent, dp_unix_timestamp = timestamp\<rparr> now) (\<lambda>_.
        ok_or (price_from_entry \<lparr>dp_value = price, dp_exp = exponent, dp_unix_timestamp = timestamp\<rparr>) InvalidAccountData))"
proof -
  obtain prices where p: "scope_prices_data (ai_key a) (sc_price_index config) price exponent timestamp = Some prices"
    "scope_prices_layout (ai_key a) (unat (sc_price_index config)) price exponent timestamp prices"
    using scope_prices_data_layout [OF assms(2)] by blast
  obtain mappings where d: "scope_mappings_data (sc_price_index config) m False = Some mappings"
    "verify_mapping_entry config mappings = Inr () \<longleftrightarrow> m = sc_mapping config"
    using scope_mappings_data_read [OF assms(2,5,6), of False] by auto
  note r = scope_prices_layout_read [OF p(2)]
  have refuse: "verify_mapping_entry config mappings = Inl InvalidAccountData" if "m \<noteq> sc_mapping config"
    using that d(2) mapping_refused by (cases "verify_mapping_entry config mappings") auto
  define cell where "cell = (\<lambda>data. \<lparr>c_owner = SCOPE_PROGRAM_ID,
    c_lamports = minimum_balance_for_rent_exemption svm (length data), c_data = data, c_executable = False\<rparr>)"
  define L' where "L' = L(ai_key p := cell prices, ai_key a := cell mappings)"
  have "set_scope_oracle svm (ai_key p) (ai_key a) (sc_price_index config) m price exponent timestamp L = Some L'"
    using assms(1) p(1) d(1) by (simp add: set_scope_oracle_def scope_oracle_data_def svm_ok_def L'_def cell_def)
  moreover have "owner_of L' p = SCOPE_PROGRAM_ID" "owner_of L' a = SCOPE_PROGRAM_ID" "data_of L' p = prices" "data_of L' a = mappings"
    using assms(3) by (simp_all add: L'_def cell_def)
  then have "scope_read_verified_price config L' p a now =
      (if m \<noteq> sc_mapping config then Inl InvalidAccountData else
       attempt (verify_freshness config \<lparr>dp_value = price, dp_exp = exponent, dp_unix_timestamp = timestamp\<rparr> now) (\<lambda>_.
       ok_or (price_from_entry \<lparr>dp_value = price, dp_exp = exponent, dp_unix_timestamp = timestamp\<rparr>) InvalidAccountData))"
    using assms(4) r refuse d(2)
    by (cases "verify_mapping_entry config mappings") (simp_all add: scope_read_verified_price_def Let_def)
  ultimately show ?thesis by blast
qed

section \<open>Mints and token accounts\<close>

lemma get_slice_field: "get_slice data x y = Some bs \<Longrightarrow> y = x + n \<Longrightarrow> field data x n = bs"
  by (simp add: get_slice_Some_iff field_def)

lemma get_nth_nth: "get_nth data i = Some x \<Longrightarrow> data ! i = x"
  by (simp add: get_nth_Some_iff)

lemma extension_mint_data:
  assumes "svm_ok svm"
  obtains data where "set_token_2022_mint_with_extension svm mint authority decimals ty len L =
      Some (L(mint := \<lparr>c_owner = TOKEN_2022_PROGRAM_ID, c_lamports = minimum_balance_for_rent_exemption svm (170 + len),
        c_data = data, c_executable = False\<rparr>))"
    and "length data = 170 + len" and "field data 0 4 = to_le_bytes (1 :: u32)" and "field data 4 32 = key_bytes authority"
    and "data ! 44 = decimals" and "data ! 45 = 1" and "data ! 165 = 1" and "field data 166 2 = to_le_bytes ty"
    and "field data 168 2 = to_le_bytes (word_of_nat len :: u16)"
proof -
  let ?n = "170 + len"
  obtain d1 where d1: "copy_at 0 4 (to_le_bytes (1 :: u32)) (replicate ?n 0) = Some d1" "length d1 = ?n"
    by (rule copy_atE [of 0 4 "replicate ?n 0" "to_le_bytes (1 :: u32)"]) simp_all
  obtain d2 where d2: "copy_at 4 36 (key_bytes authority) d1 = Some d2" "length d2 = ?n"
    by (rule copy_atE [of 4 36 d1 "key_bytes authority"]) (use d1 in simp_all)
  obtain d3 where d3: "put_at 44 decimals d2 = Some d3" "length d3 = ?n" by (rule put_atE [of 44 d2]) (use d2 in simp_all)
  obtain d4 where d4: "put_at 45 1 d3 = Some d4" "length d4 = ?n" by (rule put_atE [of 45 d3]) (use d3 in simp_all)
  obtain d5 where d5: "put_at 165 1 d4 = Some d5" "length d5 = ?n" by (rule put_atE [of 165 d4]) (use d4 in simp_all)
  obtain d6 where d6: "copy_at 166 168 (to_le_bytes ty) d5 = Some d6" "length d6 = ?n"
    by (rule copy_atE [of 166 168 d5 "to_le_bytes ty"]) (use d5 in simp_all)
  obtain d7 where d7: "copy_at 168 170 (to_le_bytes (word_of_nat len :: u16)) d6 = Some d7" "length d7 = ?n"
    by (rule copy_atE [of 168 170 d6 "to_le_bytes (word_of_nat len :: u16)"]) (use d6 in simp_all)
  note other = d7(1) [THEN copy_at_other] d6(1) [THEN copy_at_other] d5(1) [THEN put_at_other] d4(1) [THEN put_at_other]
    d3(1) [THEN put_at_other] d2(1) [THEN copy_at_other]
  note nth = d7(1) [THEN copy_at_nth] d6(1) [THEN copy_at_nth] d5(1) [THEN put_at_nth] d4(1) [THEN put_at_nth]
    d3(1) [THEN put_at_nth]
  note same = d7(1) [THEN copy_at_same] d6(1) [THEN copy_at_same] d2(1) [THEN copy_at_same] d1(1) [THEN copy_at_same]
  show thesis
  proof (rule that [of d7])
    show "set_token_2022_mint_with_extension svm mint authority decimals ty len L =
        Some (L(mint := \<lparr>c_owner = TOKEN_2022_PROGRAM_ID, c_lamports = minimum_balance_for_rent_exemption svm (170 + len),
          c_data = d7, c_executable = False\<rparr>))"
      using assms d1(1) d2(1) d3(1) d4(1) d5(1) d6(1) d7(1)
      by (simp add: set_token_2022_mint_with_extension_def svm_ok_def Let_def)
    show "field d7 0 4 = to_le_bytes (1 :: u32)" "field d7 4 32 = key_bytes authority" "field d7 166 2 = to_le_bytes ty"
      "field d7 168 2 = to_le_bytes (word_of_nat len :: u16)"
      by (rule get_slice_field; simp add: other same)+
    show "d7 ! 44 = decimals" "d7 ! 45 = 1" "d7 ! 165 = 1" by (rule get_nth_nth; simp add: nth)+
  qed (rule d7(2))
qed

text \<open>
  The extended mints of the fuzz harness probe the allowlist as they claim: a mint with one
  extension is accepted exactly if the extension is display metadata (or no extension at all), so
  the metadata-pointer mint must pass and the transfer-fee mint must fail.
\<close>
theorem installed_mint_is_classified:
  assumes "svm_ok svm" and "len < 2 ^ 16"
  shows "\<exists>L'. set_token_2022_mint_with_extension svm (ai_key a) authority decimals ty len L = Some L' \<and>
     (verify_mint L' a (ai_key a) decimals (Some authority) = Inr () \<longleftrightarrow> ty \<in> {0, 18, 19})"
proof -
  obtain data where d: "set_token_2022_mint_with_extension svm (ai_key a) authority decimals ty len L =
      Some (L(ai_key a := \<lparr>c_owner = TOKEN_2022_PROGRAM_ID, c_lamports = minimum_balance_for_rent_exemption svm (170 + len),
        c_data = data, c_executable = False\<rparr>))"
    "length data = 170 + len" "field data 0 4 = to_le_bytes (1 :: u32)" "field data 4 32 = key_bytes authority"
    "data ! 44 = decimals" "data ! 45 = 1" "data ! 165 = 1" "field data 166 2 = to_le_bytes ty"
    "field data 168 2 = to_le_bytes (word_of_nat len :: u16)"
    using extension_mint_data [OF assms(1)] .
  have len: "unat (word_of_nat len :: u16) = len" using assms(2) by (intro unat_of_nat_small) simp
  have "mint_extensions_loop data (170 + len) = Inr ()" using d(2) by (subst mint_extensions_loop.simps) simp
  then have "mint_extensions_loop data 166 = Inr () \<longleftrightarrow> ty \<in> {0, 18, 19}"
    using d(2,8,9) len
    by (subst mint_extensions_loop.simps)
      (simp add: EXTENSION_UNINITIALIZED_def EXTENSION_METADATA_POINTER_def EXTENSION_TOKEN_METADATA_def)
  then have "verify_token_2022_mint_extensions data = Inr () \<longleftrightarrow> ty \<in> {0, 18, 19}"
    using d(2,7) by (simp add: verify_token_2022_mint_extensions_def token_layout_defs)
  then show ?thesis
    using d by (auto simp: verify_mint_def is_token_program_def token_layout_defs result_facts)
qed

lemma token_account_data:
  assumes "svm_ok svm"
  obtains data where "set_token_account_with_program svm address mint owner amount program L =
      Some (L(address := \<lparr>c_owner = program, c_lamports = minimum_balance_for_rent_exemption svm 165,
        c_data = data, c_executable = False\<rparr>))"
    and "length data = 165" and "field data 0 32 = key_bytes mint" and "field data 32 32 = key_bytes owner"
    and "field data 64 8 = to_le_bytes amount" and "data ! 108 = 1"
proof -
  obtain d1 where d1: "copy_at 0 32 (key_bytes mint) (replicate 165 0) = Some d1" "length d1 = 165"
    by (rule copy_atE [of 0 32 "replicate 165 0" "key_bytes mint"]) simp_all
  obtain d2 where d2: "copy_at 32 64 (key_bytes owner) d1 = Some d2" "length d2 = 165"
    by (rule copy_atE [of 32 64 d1 "key_bytes owner"]) (use d1 in simp_all)
  obtain d3 where d3: "copy_at 64 72 (to_le_bytes amount) d2 = Some d3" "length d3 = 165"
    by (rule copy_atE [of 64 72 d2 "to_le_bytes amount"]) (use d2 in simp_all)
  obtain d4 where d4: "put_at 108 1 d3 = Some d4" "length d4 = 165" by (rule put_atE [of 108 d3]) (use d3 in simp_all)
  note other = d4(1) [THEN put_at_other] d3(1) [THEN copy_at_other] d2(1) [THEN copy_at_other]
  note same = d3(1) [THEN copy_at_same] d2(1) [THEN copy_at_same] d1(1) [THEN copy_at_same]
  show thesis
  proof (rule that [of d4])
    show "set_token_account_with_program svm address mint owner amount program L =
        Some (L(address := \<lparr>c_owner = program, c_lamports = minimum_balance_for_rent_exemption svm 165,
          c_data = d4, c_executable = False\<rparr>))"
      using assms d1(1) d2(1) d3(1) d4(1) by (simp add: set_token_account_with_program_def svm_ok_def)
    show "field d4 0 32 = key_bytes mint" "field d4 32 32 = key_bytes owner" "field d4 64 8 = to_le_bytes amount"
      by (rule get_slice_field; simp add: other same)+
    show "d4 ! 108 = 1" by (rule get_nth_nth; simp add: put_at_nth [OF d4(1)])
  qed (rule d4(2))
qed

text \<open>An installed token account is what the program takes it for.\<close>

lemma installed_token_account:
  assumes "svm_ok svm" and "is_token_program program"
  shows "\<exists>L'. set_token_account_with_program svm (ai_key a) mint owner amount program L = Some L' \<and>
     token_amount L' a = Inr amount \<and> verify_token_account_mint_and_owner L' a mint owner = Inr ()"
proof -
  obtain data where d: "set_token_account_with_program svm (ai_key a) mint owner amount program L =
      Some (L(ai_key a := \<lparr>c_owner = program, c_lamports = minimum_balance_for_rent_exemption svm 165,
        c_data = data, c_executable = False\<rparr>))" "length data = 165" "field data 0 32 = key_bytes mint"
    "field data 32 32 = key_bytes owner" "field data 64 8 = to_le_bytes amount" "data ! 108 = 1"
    using token_account_data [OF assms(1)] .
  then show ?thesis
    using assms(2) by (simp add: token_amount_def verify_token_account_mint_and_owner_def verify_token_account_mint_def token_layout_defs)
qed

text \<open>The readers of the harness agree with those of the program wherever the program reads at all.\<close>

lemma fuzz_readers_agree:
  assumes "svm_ok svm" and "svm_get_account svm L (ai_key a) = Some c"
  shows "token_amount L a = Inr n \<Longrightarrow> fuzz_token_balance svm L (ai_key a) = Some n"
    and "mint_supply L a = Inr n \<Longrightarrow> fuzz_mint_supply svm L (ai_key a) = Some n"
proof -
  have c: "c = L (ai_key a)" using assms by (simp add: svm_ok_def)
  show "token_amount L a = Inr n \<Longrightarrow> fuzz_token_balance svm L (ai_key a) = Some n"
    "mint_supply L a = Inr n \<Longrightarrow> fuzz_mint_supply svm L (ai_key a) = Some n"
    using assms(2)
    by (auto simp: c token_amount_def mint_supply_def fuzz_token_balance_def fuzz_mint_supply_def token_layout_defs
        field_def get_slice_def Let_def split: if_splits)
qed

section \<open>A simulator\<close>

definition example_svm :: svm where
  "example_svm = \<lparr>minimum_balance_for_rent_exemption = (\<lambda>n. word_of_nat (n + 128)),
     svm_set_account = (\<lambda>k c L. L(k := c)), svm_get_account = (\<lambda>L k. if c_lamports (L k) = 0 then None else Some (L k))\<rparr>"

lemma example_svm_ok: "svm_ok example_svm"
  by (simp add: svm_ok_def example_svm_def)

theorem installed_scope_price_witness:
  "\<exists>L'. set_scope_oracle example_svm 5 6 445 (scope_mapping_new 8 26 37 3 17 10) 20 1 990 example_pyth_ledger = Some L' \<and>
     scope_read_verified_price (scope_config_new 5 (scope_mapping_new 8 26 37 3 17 10) 445 64) L'
       example_handle (example_handle\<lparr>ai_key := 6\<rparr>) 1000 = Inr \<lparr>price_value = 20, price_scale = 1\<rparr>"
proof -
  let ?m = "scope_mapping_new 8 26 37 3 17 10"
  have plain: "plain_mapping ?m" by (simp add: plain_mapping_def scope_mapping_new_def bit_numeral_word_iff)
  show ?thesis
    using installed_scope_price [OF example_svm_ok, where config = "scope_config_new 5 ?m 445 64" and p = example_handle
        and a = "example_handle\<lparr>ai_key := 6\<rparr>" and m = ?m and price = 20 and exponent = 1 and timestamp = 990 and now = 1000
        and L = example_pyth_ledger] plain
    by (simp add: scope_config_new_def example_handle_def verify_freshness_def price_from_entry_def try_from_def)
qed

theorem installed_mint_is_classified_witness:
  "\<exists>L'. set_transfer_fee_token_2022_mint example_svm 5 9 6 example_pyth_ledger = Some L' \<and>
     verify_mint L' example_handle 5 6 (Some 9) \<noteq> Inr ()"
  using installed_mint_is_classified [OF example_svm_ok, of 108 example_handle 9 6 1 example_pyth_ledger]
  by (simp add: set_transfer_fee_token_2022_mint_def example_handle_def)

end
