(* ===== verification/Pricing.thy ===== *)
theory Pricing
  imports Vault
begin

text \<open>
  What depositors and redeemers may rely on. The locale \<open>share_pricing\<close> states the two rounding
  laws a share-pricing scheme with virtual offset owes its holders; everything else follows from
  them inside the locale: no operation lowers the price of a share, no sequence of deposits and
  redemptions takes assets out of the pool, a deposit redeemed at once gains nothing and loses
  less than the price of one share plus one atom. \<open>crates/interface/src/math.rs\<close> is shown to be
  such a scheme at every base decimals.
\<close>

section \<open>The contract\<close>

text \<open>\<open>price_le v A S A' S'\<close>: the virtual share price does not fall from \<open>(A, S)\<close> to \<open>(A', S')\<close>.\<close>

definition price_le :: "nat \<Rightarrow> nat \<Rightarrow> nat \<Rightarrow> nat \<Rightarrow> nat \<Rightarrow> bool" where
  "price_le v A S A' S' \<longleftrightarrow> (A + 1) * (S' + v) \<le> (A' + 1) * (S + v)"

text \<open>A pool: assets backing the shares and the share supply, with its two movements.\<close>

datatype pool_op = Mint_For u64 | Pay_Out u64

definition pool_step ::
  "(u64 \<Rightarrow> u64 \<Rightarrow> u64 \<Rightarrow> 'e + u64) \<Rightarrow> (u64 \<Rightarrow> u64 \<Rightarrow> u64 \<Rightarrow> 'e + u64) \<Rightarrow>
   pool_op \<Rightarrow> u64 \<times> u64 \<Rightarrow> (u64 \<times> u64) option" where
  "pool_step mint pay p = (\<lambda>(A, S). case p of
       Mint_For d \<Rightarrow> (case mint d A S of Inl _ \<Rightarrow> None | Inr s \<Rightarrow>
         Option.bind (checked_add A d) (\<lambda>A'. Option.bind (checked_add S s) (\<lambda>S'. Some (A', S'))))
     | Pay_Out s \<Rightarrow> (case pay s A S of Inl _ \<Rightarrow> None | Inr a \<Rightarrow>
         Option.bind (checked_sub A a) (\<lambda>A'. Option.bind (checked_sub S s) (\<lambda>S'. Some (A', S')))))"

fun pool_run ::
  "(u64 \<Rightarrow> u64 \<Rightarrow> u64 \<Rightarrow> 'e + u64) \<Rightarrow> (u64 \<Rightarrow> u64 \<Rightarrow> u64 \<Rightarrow> 'e + u64) \<Rightarrow>
   pool_op list \<Rightarrow> u64 \<times> u64 \<Rightarrow> (u64 \<times> u64) option" where
  "pool_run mint pay [] st = Some st"
| "pool_run mint pay (p # ps) st = Option.bind (pool_step mint pay p st) (pool_run mint pay ps)"

lemma price_le_refl [simp]: "price_le v A S A S"
  by (simp add: price_le_def)

lemma price_le_trans:
  assumes "0 < v" and "price_le v A S A' S'" and "price_le v A' S' A'' S''"
  shows "price_le v A S A'' S''"
proof -
  have "((A + 1) * (S'' + v)) * (S' + v) = ((A + 1) * (S' + v)) * (S'' + v)" by (simp only: ac_simps)
  also have "\<dots> \<le> ((A' + 1) * (S + v)) * (S'' + v)"
    using assms(2) unfolding price_le_def by (rule mult_le_mono1)
  also have "\<dots> = ((A' + 1) * (S'' + v)) * (S + v)" by (simp only: ac_simps)
  also have "\<dots> \<le> ((A'' + 1) * (S' + v)) * (S + v)"
    using assms(3) unfolding price_le_def by (rule mult_le_mono1)
  also have "\<dots> = ((A'' + 1) * (S + v)) * (S' + v)" by (simp only: ac_simps)
  finally show ?thesis using assms(1) unfolding price_le_def by (metis mult_le_cancel2 add_gr_0)
qed

lemma price_le_same_supply: "0 < v \<Longrightarrow> price_le v A S A' S \<Longrightarrow> A \<le> A'"
  unfolding price_le_def by simp

locale share_pricing =
  fixes mint :: "u64 \<Rightarrow> u64 \<Rightarrow> u64 \<Rightarrow> 'e + u64"
    and pay :: "u64 \<Rightarrow> u64 \<Rightarrow> u64 \<Rightarrow> 'e + u64"
    and offset :: nat
  assumes offset_pos: "0 < offset"
    and mint_floor: "mint d A S = Inr s \<Longrightarrow> unat s = unat d * (unat S + offset) div (unat A + 1)"
    and pay_floor: "pay s A S = Inr a \<Longrightarrow>
          s \<le> S \<and> unat a = unat s * (unat A + 1) div (unat S + offset)"
begin

lemma mint_keeps_price:
  assumes "mint d A S = Inr s"
  shows "price_le offset (unat A) (unat S) (unat A + unat d) (unat S + unat s)"
proof -
  have "unat s * (unat A + 1) \<le> unat d * (unat S + offset)"
    using mint_floor [OF assms] by (simp only: div_times_less_eq_dividend)
  then show ?thesis unfolding price_le_def by (simp add: algebra_simps)
qed

lemma pay_keeps_price:
  assumes "pay s A S = Inr a"
  shows "unat a \<le> unat A"
    and "price_le offset (unat A) (unat S) (unat A - unat a) (unat S - unat s)"
proof -
  have s: "unat s \<le> unat S" and a: "unat a = unat s * (unat A + 1) div (unat S + offset)"
    using pay_floor [OF assms] by (simp_all add: word_le_nat_alt)
  have le: "unat a * (unat S + offset) \<le> unat s * (unat A + 1)"
    using a by (simp only: div_times_less_eq_dividend)
  show A: "unat a \<le> unat A" unfolding a using s offset_pos by (rule assets_for_shares_bound)
  have "(unat A + 1) * (unat S - unat s + offset) + (unat A + 1) * unat s
      = (unat A + 1) * (unat S + offset)"
    using s by (simp flip: add_mult_distrib2)
  also have "\<dots> = (unat A - unat a + 1) * (unat S + offset) + unat a * (unat S + offset)"
    using A by (simp flip: add_mult_distrib)
  finally show "price_le offset (unat A) (unat S) (unat A - unat a) (unat S - unat s)"
    unfolding price_le_def using le by (simp add: mult.commute)
qed

lemma step_keeps_price:
  assumes "pool_step mint pay p (A, S) = Some (A', S')"
  shows "price_le offset (unat A) (unat S) (unat A') (unat S')"
proof (cases p)
  case (Mint_For d)
  with assms obtain s where s: "mint d A S = Inr s"
    and "unat A' = unat A + unat d" "unat S' = unat S + unat s"
    by (auto simp: pool_step_def word_facts bind_Some_iff split: sum.splits)
  then show ?thesis using mint_keeps_price [OF s] by simp
next
  case (Pay_Out s)
  with assms obtain a where a: "pay s A S = Inr a"
    and "unat A = unat a + unat A'" "unat S = unat s + unat S'"
    by (auto simp: pool_step_def word_facts bind_Some_iff split: sum.splits)
  then show ?thesis using pay_keeps_price(2) [OF a] by simp
qed

lemma run_keeps_price:
  "pool_run mint pay ps (A, S) = Some (A', S') \<Longrightarrow> price_le offset (unat A) (unat S) (unat A') (unat S')"
proof (induction ps arbitrary: A S)
  case Nil
  then show ?case by simp
next
  case (Cons p ps)
  then obtain A1 S1 where "pool_step mint pay p (A, S) = Some (A1, S1)"
    and "pool_run mint pay ps (A1, S1) = Some (A', S')"
    by (auto simp: bind_Some_iff)
  with Cons.IH step_keeps_price show ?case by (blast intro: price_le_trans [OF offset_pos])
qed

lemma run_same_supply:
  "pool_run mint pay ps (A, S) = Some (A', S) \<Longrightarrow> A \<le> A'"
  unfolding word_le_nat_alt by (rule price_le_same_supply [OF offset_pos run_keeps_price])

lemma round_trip:
  assumes "mint d A S = Inr s" and "unat A' = unat A + unat d" and "unat S' = unat S + unat s"
    and "pay s A' S' = Inr a"
  shows "unat a \<le> unat d"
    and "unat d \<le> unat a + 1 + (unat A + 1) div (unat S + unat s + offset)"
proof -
  let ?P = "unat S + offset" and ?Q = "unat A + 1"
  have s: "unat s = unat d * ?P div ?Q" using mint_floor [OF assms(1)] .
  have a: "unat a = unat s * (?Q + unat d) div (?P + unat s)"
    using pay_floor [OF assms(4)] assms(2,3) by (simp add: ac_simps)
  have pos: "0 < ?P + unat s" "0 < ?Q" using offset_pos by simp_all
  have low: "unat s * ?Q \<le> unat d * ?P" using s by (simp only: div_times_less_eq_dividend)
  then have "unat s * (?Q + unat d) \<le> unat d * (?P + unat s)" by (simp add: algebra_simps)
  then have "unat a \<le> unat d * (?P + unat s) div (?P + unat s)" unfolding a by (rule div_le_mono)
  then show "unat a \<le> unat d" using pos by (auto split: if_splits)
  have "unat d * ?P < ?Q + unat s * ?Q"
    using dividend_less_div_times [OF pos(2), of "unat d * ?P"] s by simp
  moreover have "unat s * (?Q + unat d) < (unat a + 1) * (?P + unat s)"
    using dividend_less_div_times [OF pos(1), of "unat s * (?Q + unat d)"] a by simp
  ultimately have "unat d * (?P + unat s) < (unat a + 1) * (?P + unat s) + ?Q"
    by (simp add: algebra_simps)
  then have "unat d * (?P + unat s) \<le> ?Q + (unat a + 1) * (?P + unat s)" by simp
  then have "unat d * (?P + unat s) div (?P + unat s) \<le> (?Q + (unat a + 1) * (?P + unat s)) div (?P + unat s)"
    by (rule div_le_mono)
  moreover have "unat d * (?P + unat s) div (?P + unat s) = unat d"
    using pos(1) by (intro nonzero_mult_div_cancel_right) linarith
  moreover have "(?Q + (unat a + 1) * (?P + unat s)) div (?P + unat s) = unat a + 1 + ?Q div (?P + unat s)"
    using pos(1) by (intro div_mult_self1) linarith
  ultimately show "unat d \<le> unat a + 1 + ?Q div (unat S + unat s + offset)"
    by (metis add.commute add.left_commute)
qed

end

section \<open>The program's pricing meets the contract\<close>

interpretation sp: share_pricing "\<lambda>d A S. shares_for_deposit d A S bd"
  "\<lambda>s A S. assets_for_shares s A S bd" "voffset bd" for bd
  by unfold_locales (simp_all add: shares_for_deposit_Inr_iff assets_for_shares_Inr_iff)


text \<open>
  C22. Whatever sequence of deposits and redemptions is played against a vault, each priced by
  \<open>shares_for_deposit\<close> and \<open>assets_for_shares\<close> at the state it meets, the virtual share price
  never falls; in particular a sequence that restores the share supply leaves at least the
  assets it found.
\<close>
theorem no_sequence_extracts_value:
  assumes "pool_run (\<lambda>d A S. shares_for_deposit d A S bd) (\<lambda>s A S. assets_for_shares s A S bd) ps (A, S)
             = Some (A', S')"
  shows "price_le (voffset bd) (unat A) (unat S) (unat A') (unat S') \<and> (S' = S \<longrightarrow> A \<le> A')"
  using sp.run_keeps_price [OF assms] sp.run_same_supply [of bd ps A S A'] assms by auto

theorem no_sequence_extracts_value_witness:
  "price_le (voffset 6) 1999 0 2000 0 \<and> (1999 :: u64) \<le> 2000"
proof -
  have mint: "shares_for_deposit 3 1999 0 6 = Inr 1" and pay: "assets_for_shares 1 2002 1 6 = Inr 2"
    by (simp_all add: shares_for_deposit_Inr_iff assets_for_shares_Inr_iff)
  have "pool_run (\<lambda>d A S. shares_for_deposit d A S 6) (\<lambda>s A S. assets_for_shares s A S 6)
      [Mint_For 3, Pay_Out 1] (1999, 0) = Some (2000, 0)"
    using mint pay by (simp add: pool_step_def checked_add_def checked_sub_def)
  from no_sequence_extracts_value [OF this] show ?thesis by simp
qed


text \<open>
  C23. A deposit redeemed at once at the state it left never returns more than it brought, and
  loses at most one atom and the price of one share: with the virtual offset, inflating the
  assets by a donation costs a later depositor no more than the donation divided by
  \<open>10 ^ (9 - base_decimals)\<close>.
\<close>
theorem deposit_round_trip:
  assumes "shares_for_deposit d A S bd = Inr s"
    and "unat A' = unat A + unat d" and "unat S' = unat S + unat s"
    and "assets_for_redeem s A' S' bd = Inr a"
  shows "unat a \<le> unat d \<and> unat d \<le> unat a + 1 + (unat A + 1) div (unat S + unat s + voffset bd)"
  using sp.round_trip [OF assms(1-3), of a] assms(4) by (simp add: assets_for_redeem_Inr_iff)

theorem deposit_round_trip_witness:
  "unat (2 :: u64) \<le> unat (3 :: u64) \<and>
   unat (3 :: u64) \<le> unat (2 :: u64) + 1 + (unat (1999 :: u64) + 1) div (unat (0 :: u64) + unat (1 :: u64) + voffset 6)"
  by (rule deposit_round_trip [where A' = 2002 and S' = 1])
     (simp_all add: shares_for_deposit_Inr_iff assets_for_redeem_Inr_iff assets_for_shares_Inr_iff)

text \<open>
  Valuing shares never fails for a vault the validator accepts and shares that exist, and
  never values them above the assets behind all shares, so a payout cannot overdraw the vault.
\<close>
theorem redemption_value_total:
  assumes "sh \<le> S" and "validate_config bm sm bd fee buf = Inr ()"
  shows "\<exists>a. assets_for_shares sh A S bd = Inr a \<and> a \<le> A"
proof -
  have "unat bd \<le> 9" using assms(2) by (simp add: validate_config_Inr_iff)
  then obtain a where "assets_for_shares sh A S bd = Inr a"
    using assets_for_shares_total [OF assms(1)] by blast
  then show ?thesis using assets_for_shares_le_total by (auto simp: word_le_nat_alt)
qed

theorem redemption_value_total_witness:
  "\<exists>a. assets_for_shares 5 1000 5 6 = Inr a \<and> a \<le> 1000"
  by (rule redemption_value_total [where bm = 1 and sm = 2 and fee = 100 and buf = 0])
     (simp_all add: validate_config_Inr_iff)

text \<open>
  C24. A performance fee is a split of the reported assets: fee and net add up to gross; a fee is
  charged only with shares outstanding and a watermark set, is at most its percentage of the
  assets above the watermark, and never takes the net assets below the watermark. The watermark
  never falls and covers the net share price.
\<close>
theorem performance_fee_is_fair:
  assumes "performance_fee_for_nav G S hwm bps = Inr (fee, net, hwm')"
  shows "unat fee + unat net = unat G \<and> hwm \<le> hwm' \<and>
         (fee \<noteq> 0 \<longrightarrow> S \<noteq> 0 \<and> hwm \<noteq> 0 \<and>
            unat fee = (unat G - ceil_div (unat hwm * unat S) (10 ^ 9)) * unat bps div 10000 \<and>
            ceil_div (unat hwm * unat S) (10 ^ 9) \<le> unat net) \<and>
         (S \<noteq> 0 \<longrightarrow> (\<exists>p. share_price_from_assets net S = Inr p \<and> hwm' = max hwm p))"
proof -
  note c = performance_fee_conserves [OF assms]
  let ?w = "ceil_div (unat hwm * unat S) (10 ^ 9)"
  have "?w \<le> unat net" if "fee \<noteq> 0"
  proof -
    note f = performance_fee_charged [OF assms that]
    have "(unat G - ?w) * unat bps div 10000 \<le> (unat G - ?w) * 10000 div 10000"
      using c(3) by (intro div_le_mono mult_le_mono2)
    then have "unat fee \<le> unat G - ?w" using f(4) by simp
    then show ?thesis using c(1) f(3) by linarith
  qed
  then show ?thesis
    using c performance_fee_charged [OF assms] performance_fee_price [OF assms] by auto
qed

lemma performance_fee_example:
  "performance_fee_for_nav 2000000 1000000000 1000000 1000 = Inr (100000, 1900000, 1900000)"
  by (simp add: performance_fee_for_nav_def share_price_from_assets_def bps_floor_def
      mul_div_floor_u64_def mul_div_floor_def mul_div_ceil_def validate_percentage_bps_def
      BPS_DENOMINATOR_def pow10_share_scale checked_mul_def checked_sub_def checked_u64_def try_from_def)

theorem performance_fee_is_fair_witness:
  "ceil_div (unat (1000000 :: u64) * unat (1000000000 :: u64)) (10 ^ 9) \<le> unat (1900000 :: u64)"
  using performance_fee_is_fair [OF performance_fee_example] by simp

text \<open>
  A gain is charged once: reporting the net assets of a report again, against the watermark
  that report left, at any fee rate, charges nothing and leaves assets and watermark as they are.
\<close>
theorem performance_fee_not_charged_twice:
  assumes "performance_fee_for_nav G S hwm bps = Inr (fee, net, hwm')" and "unat bps' \<le> 10000"
  shows "performance_fee_for_nav net S hwm' bps' = Inr (0, net, hwm')"
proof (cases "S = 0")
  case True
  then show ?thesis using assms
    by (simp add: performance_fee_for_nav_def validate_percentage_bps_def BPS_DENOMINATOR_def
        word_less_nat_alt)
next
  case False
  obtain p where "share_price_from_assets net S = Inr p" "hwm' = max hwm p"
    using performance_fee_price [OF assms(1) False] by blast
  moreover have "validate_percentage_bps bps' = Inr ()"
    using assms(2) by (simp add: validate_percentage_bps_Inr_iff)
  ultimately show ?thesis using False by (simp add: performance_fee_for_nav_def)
qed

theorem performance_fee_not_charged_twice_witness:
  "performance_fee_for_nav 1900000 1000000000 1900000 2000 = Inr (0, 1900000, 1900000)"
  by (rule performance_fee_not_charged_twice [OF performance_fee_example]) simp

text \<open>
  The cross-decimals conversion of a deposit into base atoms, with its two branches of
  scaling, is one floor of the exact rational value: no intermediate rounding.
\<close>
theorem base_atoms_single_floor:
  assumes "base_atoms_from_asset_atoms x pa pb da db = Inr r"
  shows "price_value pb \<noteq> 0 \<and>
         unat r = unat x * unat (price_value pa) * 10 ^ (unat db + unat (price_scale pb))
           div (unat (price_value pb) * 10 ^ (unat da + unat (price_scale pa)))"
  using base_atoms_from_asset_atoms_Inr [OF assms] by simp

theorem base_atoms_single_floor_witness:
  "(3500000 :: nat) = 2000000000 * 175 * 10 ^ (6 + 0) div (1 * 10 ^ (9 + 2)) * 1"
proof -
  have "base_atoms_from_asset_atoms 2000000000 \<lparr>price_value = 175, price_scale = 2\<rparr> UNIT 9 6 = Inr 3500000"
    by (simp add: base_atoms_from_asset_atoms_def UNIT_def net_decimals_def pow10_def checked_mul_def
        checked_pow_def try_from_def checked_u64_def)
  from base_atoms_single_floor [OF this] show ?thesis by (simp add: UNIT_def)
qed

end
