(* ===== verification/User_Instructions.thy ===== *)
theory User_Instructions
  imports Oracle_Readers Pricing
begin

text \<open>
  \<open>crates/roshi/src/instructions/user\<close> with its account contexts: \<open>Deposit\<close>, \<open>Redeem\<close> and
  \<open>CancelRedeem\<close>, each as the function from the accounts and arguments of the instruction and the
  ledger it runs on to the ledger it leaves.
\<close>

section \<open>Deposit\<close>

record deposit_args =
  da_asset_mint :: key
  da_amount :: u64
  da_min_shares_out :: u64
  da_access_proof :: "key list"

record deposit_context =
  dc_depositor :: account_info
  dc_vault_account :: account_info
  dc_source :: account_info
  dc_custody :: account_info
  dc_share_dest :: account_info
  dc_share_mint :: account_info
  dc_share_token_program :: account_info
  dc_asset_token_program :: account_info
  dc_extra :: "account_info list"
  dc_vault :: vault

definition deposit_context_load ::
  "env \<Rightarrow> ledger \<Rightarrow> account_info list \<Rightarrow> deposit_context program_result" where
  "deposit_context_load E L accounts =
     attempt (next_account accounts) (\<lambda>(depositor, it).
     if \<not> ai_is_signer depositor then Inl MissingRequiredSignature else
     attempt (next_account it) (\<lambda>(vault_account, it).
     attempt (require_writable vault_account) (\<lambda>_.
     attempt (next_account it) (\<lambda>(source, it).
     attempt (require_writable source) (\<lambda>_.
     attempt (next_account it) (\<lambda>(custody, it).
     attempt (require_writable custody) (\<lambda>_.
     attempt (next_account it) (\<lambda>(share_dest, it).
     attempt (require_writable share_dest) (\<lambda>_.
     attempt (next_account it) (\<lambda>(share_mint, it).
     attempt (require_writable share_mint) (\<lambda>_.
     attempt (next_account it) (\<lambda>(share_token_program, it).
     if ai_key share_token_program \<noteq> TOKEN_PROGRAM_ID then Inl IncorrectProgramId else
     attempt (next_account it) (\<lambda>(asset_token_program, it).
     attempt (verify_token_program_for L asset_token_program source) (\<lambda>_.
     attempt (verify_token_program_for L asset_token_program custody) (\<lambda>_.
     attempt (load_checked E L vault_account) (\<lambda>v.
     attempt (verify_share_mint v share_mint) (\<lambda>_.
     Inr \<lparr>dc_depositor = depositor, dc_vault_account = vault_account, dc_source = source,
          dc_custody = custody, dc_share_dest = share_dest, dc_share_mint = share_mint,
          dc_share_token_program = share_token_program, dc_asset_token_program = asset_token_program,
          dc_extra = it, dc_vault = v\<rparr>)))))))))))))))))"

definition resolve_base_atoms ::
  "env \<Rightarrow> ledger \<Rightarrow> deposit_context \<Rightarrow> deposit_args \<Rightarrow> u64 program_result" where
  "resolve_base_atoms E L ctx args =
     (let vault_key = ai_key (dc_vault_account ctx);
          base_mint = v_base_mint (dc_vault ctx);
          asset_mint = da_asset_mint args;
          sub_account = fst (sub_account_find_address (find_program_address E) vault_key
                               (v_deposit_sub_account (dc_vault ctx)))
      in
      if ai_key (dc_custody ctx) \<noteq>
           associated_token_address (find_program_address E) sub_account asset_mint (ai_key (dc_asset_token_program ctx))
      then Inl (into_program_error InvalidTokenAccount)
      else if asset_mint = base_mint then Inr (da_amount args)
      else
      attempt (case dc_extra ctx of [] \<Rightarrow> Inl NotEnoughAccountKeys | a # _ \<Rightarrow> Inr a) (\<lambda>asset_account.
      attempt (load_asset E L asset_account) (\<lambda>a.
      attempt (if ai_key asset_account \<noteq> fst (asset_find_address (find_program_address E) vault_key asset_mint) \<or>
                  as_vault a \<noteq> vault_key
               then Inr True else attempt (asset_enabled a) (\<lambda>enabled. Inr (\<not> enabled))) (\<lambda>rejected.
      if rejected then Inl (into_program_error InvalidAssetAccount) else
      attempt (token_amount L (dc_custody ctx)) (\<lambda>custody_balance.
      attempt (ok_or (checked_add custody_balance (da_amount args)) (into_program_error Overflow)) (\<lambda>projected.
      if as_deposit_cap_atoms a < projected then Inl (into_program_error DepositCapExceeded) else
      attempt (get_clock E) (\<lambda>clk.
      attempt (leg_parse (as_oracle a) (drop 1 (dc_extra ctx))) (\<lambda>(asset_leg, remaining).
      attempt (asset_routed a) (\<lambda>routed.
      attempt (if routed
               then attempt (leg_parse (v_base_oracle (dc_vault ctx)) remaining) (\<lambda>(leg, _). Inr (Some leg))
               else Inr None) (\<lambda>base_leg.
      attempt (session_read E L [] asset_leg clk) (\<lambda>(asset_price, prices).
      attempt (case base_leg of
                 Some leg \<Rightarrow> attempt (session_read E L prices leg clk) (\<lambda>(price, _). Inr price)
               | None \<Rightarrow> Inr UNIT) (\<lambda>base_price.
      lift_math (base_atoms_from_asset_atoms (da_amount args) asset_price base_price
        (as_asset_decimals a) (v_base_decimals (dc_vault ctx)))))))))))))))"

definition execute_deposit ::
  "env \<Rightarrow> deposit_context \<Rightarrow> deposit_args \<Rightarrow> ledger \<Rightarrow> ledger program_result" where
  "execute_deposit E ctx args L =
     (let v = dc_vault ctx in
      attempt (deposits_paused v) (\<lambda>paused.
      if paused then Inl (into_program_error VaultPaused) else
      if \<not> allows_depositor (sha256 E) v (ai_key (dc_depositor ctx)) (da_access_proof args)
      then Inl (into_program_error InvalidAccessProof) else
      attempt (resolve_base_atoms E L ctx args) (\<lambda>base_atoms.
      attempt (total_assets_after_deposit v base_atoms) (\<lambda>total_after.
      attempt (mint_supply L (dc_share_mint ctx)) (\<lambda>share_supply.
      attempt (economic_share_supply v share_supply) (\<lambda>economic_supply.
      attempt (get_clock E) (\<lambda>clk.
      attempt (effective_total_assets v (unix_timestamp clk)) (\<lambda>effective.
      attempt (if economic_supply \<noteq> 0
               then attempt (lift_math (share_price_from_assets effective economic_supply)) (\<lambda>price. Inr (price = 0))
               else Inr False) (\<lambda>zero_price.
      if zero_price then Inl (into_program_error ZeroSharePrice) else
      attempt (lift_math (shares_for_deposit base_atoms effective economic_supply (v_base_decimals v))) (\<lambda>shares.
      if shares < da_min_shares_out args then Inl (into_program_error SlippageExceeded) else
      attempt (token_transfer E (dc_asset_token_program ctx) (dc_source ctx) (dc_custody ctx)
                 (dc_depositor ctx) (da_amount args) L) (\<lambda>L1.
      attempt (tag_seed v) (\<lambda>tag.
      attempt (mint_to_signed E (dc_share_token_program ctx) (dc_share_mint ctx) (dc_share_dest ctx)
                 (dc_vault_account ctx) shares
                 [VAULT_SEED, tag, key_bytes (v_base_mint v), [v_bump v]] L1) (\<lambda>L2.
      store_account E (VaultAccount (v\<lparr>v_total_assets := total_after\<rparr>)) (dc_vault_account ctx) L2)))))))))))))"

definition try_deposit :: "env \<Rightarrow> account_info list \<Rightarrow> deposit_args \<Rightarrow> ledger \<Rightarrow> ledger program_result" where
  "try_deposit E accounts args L =
     (if MAX_ACCESS_PROOF_LEN < length (da_access_proof args) then Inl (into_program_error InvalidAccessProof) else
      attempt (deposit_context_load E L accounts) (\<lambda>ctx. execute_deposit E ctx args L))"

section \<open>Redeem\<close>

record redeem_args =
  ra_recipient_token_account :: key
  ra_ticket_index :: u8
  ra_shares :: u64

record redeem_context =
  rc_owner :: account_info
  rc_vault_account :: account_info
  rc_share_source :: account_info
  rc_share_mint :: account_info
  rc_recipient_token_account :: account_info
  rc_ticket :: account_info
  rc_system_program_acc :: account_info
  rc_token_program :: account_info
  rc_vault :: vault
  rc_ticket_index :: u8
  rc_ticket_bump :: u8

definition redeem_context_load ::
  "env \<Rightarrow> ledger \<Rightarrow> account_info list \<Rightarrow> redeem_args \<Rightarrow> redeem_context program_result" where
  "redeem_context_load E L accounts args =
     attempt (next_account accounts) (\<lambda>(owner, it).
     attempt (require_writable_signer owner) (\<lambda>_.
     attempt (next_account it) (\<lambda>(vault_account, it).
     attempt (require_writable vault_account) (\<lambda>_.
     attempt (next_account it) (\<lambda>(share_source, it).
     attempt (require_writable share_source) (\<lambda>_.
     attempt (next_account it) (\<lambda>(share_mint, it).
     attempt (require_writable share_mint) (\<lambda>_.
     attempt (next_account it) (\<lambda>(recipient, it).
     attempt (next_account it) (\<lambda>(ticket, it).
     attempt (require_uninitialized_account L ticket) (\<lambda>_.
     attempt (next_account it) (\<lambda>(system_program_acc, it).
     attempt (require_system_program system_program_acc) (\<lambda>_.
     attempt (next_account it) (\<lambda>(token_program, it).
     if ai_key token_program \<noteq> TOKEN_PROGRAM_ID then Inl IncorrectProgramId else
     attempt (load_checked E L vault_account) (\<lambda>v.
     attempt (verify_share_mint v share_mint) (\<lambda>_.
     if ai_key recipient \<noteq> ra_recipient_token_account args then Inl (into_program_error InvalidTokenAccount) else
     attempt (verify_token_account_mint L recipient (v_base_mint v)) (\<lambda>_.
     let (expected_ticket, ticket_bump) = ticket_find_address (find_program_address E) (ai_key vault_account)
           (ai_key owner) (ra_ticket_index args)
     in if ai_key ticket \<noteq> expected_ticket then Inl InvalidSeeds else
     Inr \<lparr>rc_owner = owner, rc_vault_account = vault_account, rc_share_source = share_source,
          rc_share_mint = share_mint, rc_recipient_token_account = recipient, rc_ticket = ticket,
          rc_system_program_acc = system_program_acc, rc_token_program = token_program, rc_vault = v,
          rc_ticket_index = ra_ticket_index args, rc_ticket_bump = ticket_bump\<rparr>)))))))))))))))))"

definition TICKET_SPACE :: nat where "TICKET_SPACE = 137"

text \<open>The final copy panics when the created account is shorter than the record.\<close>

definition create_ticket ::
  "env \<Rightarrow> redeem_context \<Rightarrow> withdrawal_ticket \<Rightarrow> ledger \<Rightarrow> ledger program_result" where
  "create_ticket E ctx ticket L =
     attempt (create_pda_account E (rc_owner ctx) (rc_ticket ctx) (rc_system_program_acc ctx) TICKET_SPACE ID
        [TICKET_SEED, key_bytes (ai_key (rc_vault_account ctx)), key_bytes (ai_key (rc_owner ctx)),
         [rc_ticket_index ctx], [rc_ticket_bump ctx]] L) (\<lambda>L1.
     attempt (ok_or (serialize E (WithdrawalTicketAccount ticket)) InvalidAccountData) (\<lambda>serialized.
     if TICKET_SPACE < length serialized then Inl InvalidAccountData
     else if length (data_of L1 (rc_ticket ctx)) < length serialized then Inl Panicked
     else Inr (set_data (ai_key (rc_ticket ctx)) (overwrite_prefix serialized (data_of L1 (rc_ticket ctx))) L1)))"

definition try_redeem :: "env \<Rightarrow> account_info list \<Rightarrow> redeem_args \<Rightarrow> ledger \<Rightarrow> ledger program_result" where
  "try_redeem E accounts args L =
     attempt (redeem_context_load E L accounts args) (\<lambda>ctx.
     let v = rc_vault ctx in
     attempt (withdrawals_paused v) (\<lambda>paused.
     if paused then Inl (into_program_error VaultPaused)
     else if ra_shares args = 0 then Inl (into_program_error ZeroOutput) else
     attempt (mint_supply L (rc_share_mint ctx)) (\<lambda>share_supply.
     if share_supply < ra_shares args then Inl (into_program_error InvalidVaultState) else
     attempt (get_clock E) (\<lambda>clk.
     attempt (economic_share_supply v share_supply) (\<lambda>economic_supply.
     attempt (effective_total_assets v (unix_timestamp clk)) (\<lambda>effective.
     attempt (lift_math (assets_for_redeem (ra_shares args) effective economic_supply (v_base_decimals v))) (\<lambda>_.
     attempt (token_burn E (rc_token_program ctx) (rc_share_source ctx) (rc_share_mint ctx) (rc_owner ctx)
                (ra_shares args) L) (\<lambda>L1.
     attempt (create_ticket E ctx (ticket_new (ai_key (rc_vault_account ctx)) (ai_key (rc_owner ctx))
                (ai_key (rc_recipient_token_account ctx)) (ra_ticket_index args) (ra_shares args) 0
                (v_report_epoch v) (clock_slot clk) (rc_ticket_bump ctx)) L1) (\<lambda>L2.
     attempt (ok_or (checked_add (v_requested_withdrawal_shares v) (ra_shares args)) (into_program_error Overflow)) (\<lambda>requested.
     store_account E (VaultAccount (v\<lparr>v_requested_withdrawal_shares := requested\<rparr>)) (rc_vault_account ctx) L2))))))))))"

section \<open>Cancel\<close>

record cancel_redeem_args =
  cr_min_shares_out :: u64

record cancel_redeem_context =
  cc_owner :: account_info
  cc_vault_account :: account_info
  cc_ticket_account :: account_info
  cc_share_mint :: account_info
  cc_share_dest :: account_info
  cc_token_program :: account_info
  cc_vault :: vault
  cc_ticket :: withdrawal_ticket

definition cancel_redeem_context_load ::
  "env \<Rightarrow> ledger \<Rightarrow> account_info list \<Rightarrow> cancel_redeem_context program_result" where
  "cancel_redeem_context_load E L accounts =
     attempt (next_account accounts) (\<lambda>(owner, it).
     attempt (require_writable_signer owner) (\<lambda>_.
     attempt (next_account it) (\<lambda>(vault_account, it).
     attempt (require_writable vault_account) (\<lambda>_.
     attempt (next_account it) (\<lambda>(ticket_account, it).
     attempt (require_writable ticket_account) (\<lambda>_.
     attempt (next_account it) (\<lambda>(share_mint, it).
     attempt (require_writable share_mint) (\<lambda>_.
     attempt (next_account it) (\<lambda>(share_dest, it).
     attempt (require_writable share_dest) (\<lambda>_.
     attempt (next_account it) (\<lambda>(token_program, it).
     if ai_key token_program \<noteq> TOKEN_PROGRAM_ID then Inl IncorrectProgramId else
     attempt (load_checked E L vault_account) (\<lambda>v.
     attempt (verify_share_mint v share_mint) (\<lambda>_.
     attempt (load_ticket E L ticket_account) (\<lambda>ticket.
     if wt_vault ticket \<noteq> ai_key vault_account \<or> wt_owner ticket \<noteq> ai_key owner
     then Inl (into_program_error InvalidWithdrawalTicketAccount) else
     let (expected_ticket, expected_bump) = ticket_find_address (find_program_address E) (ai_key vault_account)
           (ai_key owner) (wt_ticket_index ticket)
     in if ai_key ticket_account \<noteq> expected_ticket \<or> wt_bump ticket \<noteq> expected_bump then Inl InvalidSeeds else
     attempt (verify_token_account_mint_and_owner L share_dest (ai_key share_mint) (ai_key owner)) (\<lambda>_.
     Inr \<lparr>cc_owner = owner, cc_vault_account = vault_account, cc_ticket_account = ticket_account,
          cc_share_mint = share_mint, cc_share_dest = share_dest, cc_token_program = token_program,
          cc_vault = v, cc_ticket = ticket\<rparr>)))))))))))))))"

text \<open>The slot and epoch conditions of the handler, from the earliest epoch a strike is possible.\<close>

definition cancel_allowed :: "vault \<Rightarrow> withdrawal_ticket \<Rightarrow> u64 \<Rightarrow> u64 \<Rightarrow> unit program_result" where
  "cancel_allowed v ticket earliest_strike_epoch slot =
     attempt (ok_or (checked_add (wt_request_slot ticket) REDEEM_CANCEL_DELAY_SLOTS)
                (into_program_error Overflow)) (\<lambda>cancel_slot.
     let strike_eligible = (earliest_strike_epoch \<le> v_report_epoch v);
         grace = (ucast (cancel_grace_slots (v_controls v)) :: u64)
     in
     attempt (if 0 < grace
              then attempt (ok_or (checked_add (wt_request_slot ticket) grace) (into_program_error Overflow))
                     (\<lambda>grace_slot. Inr (grace_slot \<le> slot))
              else Inr False) (\<lambda>grace_elapsed.
     if (strike_eligible \<and> \<not> grace_elapsed) \<or> slot < cancel_slot
     then Inl (into_program_error InvalidWithdrawalTicketAccount)
     else Inr ()))"

definition try_cancel_redeem ::
  "env \<Rightarrow> account_info list \<Rightarrow> cancel_redeem_args \<Rightarrow> ledger \<Rightarrow> ledger program_result" where
  "try_cancel_redeem E accounts args L =
     attempt (cancel_redeem_context_load E L accounts) (\<lambda>ctx.
     let v = cc_vault ctx; ticket = cc_ticket ctx in
     if wt_assets_owed ticket \<noteq> 0 then Inl (into_program_error InvalidWithdrawalTicketAccount) else
     attempt (ok_or (checked_add (wt_request_epoch ticket) WITHDRAWAL_STRIKE_DELAY_EPOCHS)
                (into_program_error Overflow)) (\<lambda>earliest_strike_epoch.
     attempt (get_clock E) (\<lambda>clk.
     attempt (cancel_allowed v ticket earliest_strike_epoch (clock_slot clk)) (\<lambda>_.
     if wt_shares_burned ticket < cr_min_shares_out args then Inl (into_program_error SlippageExceeded) else
     attempt (tag_seed v) (\<lambda>tag.
     attempt (mint_to_signed E (cc_token_program ctx) (cc_share_mint ctx) (cc_share_dest ctx)
                (cc_vault_account ctx) (wt_shares_burned ticket)
                [VAULT_SEED, tag, key_bytes (v_base_mint v), [v_bump v]] L) (\<lambda>L1.
     attempt (close_account (cc_ticket_account ctx) (cc_owner ctx) L1) (\<lambda>L2.
     attempt (ok_or (checked_sub (v_requested_withdrawal_shares v) (wt_shares_burned ticket))
                (into_program_error Overflow)) (\<lambda>requested.
     store_account E (VaultAccount (v\<lparr>v_requested_withdrawal_shares := requested\<rparr>)) (cc_vault_account ctx) L2))))))))"

end
