(* ===== verification/Withdrawals.thy ===== *)
theory Withdrawals
  imports User_Instructions
begin

text \<open>
  \<open>crates/roshi/src/instructions/admin/process_withdrawals.rs\<close> with its account context: striking
  and settling a batch of withdrawal tickets.
\<close>

section \<open>Definitions\<close>

record ticket_settlement =
  ts_ticket_account :: account_info
  ts_owner :: account_info
  ts_destination :: account_info
  ts_ticket :: withdrawal_ticket

record process_withdrawals_context =
  pw_vault_account :: account_info
  pw_sub_account :: account_info
  pw_custody :: account_info
  pw_share_mint :: account_info
  pw_token_program :: account_info
  pw_vault :: vault
  pw_sub_account_bump :: u8
  pw_tickets :: "ticket_settlement list"

text \<open>
  The loop over the ticket groups, with the settlements collected so far. The number of accounts
  was checked to be a multiple of three, so the iterator cannot run dry inside a group.
\<close>

fun load_settlements ::
  "env \<Rightarrow> ledger \<Rightarrow> account_info \<Rightarrow> key \<Rightarrow> account_info list \<Rightarrow> ticket_settlement list \<Rightarrow>
   ticket_settlement list program_result" where
  "load_settlements E L vault_account base_mint [] tickets = Inr tickets"
| "load_settlements E L vault_account base_mint [x] tickets =
     attempt (require_writable x) (\<lambda>_. Inl NotEnoughAccountKeys)"
| "load_settlements E L vault_account base_mint [x, y] tickets =
     attempt (require_writable x) (\<lambda>_. attempt (require_writable y) (\<lambda>_. Inl NotEnoughAccountKeys))"
| "load_settlements E L vault_account base_mint (ticket_account # owner # destination # it) tickets =
     attempt (require_writable ticket_account) (\<lambda>_.
     attempt (require_writable owner) (\<lambda>_.
     attempt (require_writable destination) (\<lambda>_.
     attempt (load_ticket E L ticket_account) (\<lambda>ticket.
     if wt_vault ticket \<noteq> ai_key vault_account \<or> wt_owner ticket \<noteq> ai_key owner \<or>
        wt_recipient_token_account ticket \<noteq> ai_key destination \<or> wt_shares_burned ticket = 0
     then Inl (into_program_error InvalidWithdrawalTicketAccount) else
     let (expected_ticket, expected_bump) = ticket_find_address (find_program_address E) (ai_key vault_account)
           (ai_key owner) (wt_ticket_index ticket)
     in if ai_key ticket_account \<noteq> expected_ticket \<or> wt_bump ticket \<noteq> expected_bump then Inl InvalidSeeds else
     attempt (verify_token_account_mint L destination base_mint) (\<lambda>_.
     if list_ex (\<lambda>s. ai_key (ts_ticket_account s) = ai_key ticket_account) tickets
     then Inl (into_program_error InvalidWithdrawalTicketAccount) else
     load_settlements E L vault_account base_mint it
       (tickets @ [\<lparr>ts_ticket_account = ticket_account, ts_owner = owner, ts_destination = destination,
                    ts_ticket = ticket\<rparr>]))))))"

definition process_withdrawals_context_load ::
  "env \<Rightarrow> ledger \<Rightarrow> account_info list \<Rightarrow> process_withdrawals_context program_result" where
  "process_withdrawals_context_load E L accounts =
     attempt (next_account accounts) (\<lambda>(withdrawal_authority, it).
     attempt (next_account it) (\<lambda>(vault_account, it).
     attempt (require_writable vault_account) (\<lambda>_.
     attempt (load_checked E L vault_account) (\<lambda>v.
     attempt (verify_role v WithdrawalAuthority withdrawal_authority) (\<lambda>_.
     attempt (next_account it) (\<lambda>(sub_account, it).
     attempt (sub_account_verify_account E L (ai_key vault_account) (v_withdraw_sub_account v) sub_account) (\<lambda>bump.
     attempt (next_account it) (\<lambda>(custody, it).
     attempt (require_writable custody) (\<lambda>_.
     attempt (verify_token_account_mint_and_owner L custody (v_base_mint v) (ai_key sub_account)) (\<lambda>_.
     attempt (next_account it) (\<lambda>(share_mint, it).
     attempt (verify_share_mint v share_mint) (\<lambda>_.
     attempt (next_account it) (\<lambda>(token_program, it).
     attempt (verify_token_program_for L token_program custody) (\<lambda>_.
     if it = [] \<or> length it mod 3 \<noteq> 0 then Inl NotEnoughAccountKeys else
     attempt (load_settlements E L vault_account (v_base_mint v) it []) (\<lambda>tickets.
     Inr \<lparr>pw_vault_account = vault_account, pw_sub_account = sub_account, pw_custody = custody,
          pw_share_mint = share_mint, pw_token_program = token_program, pw_vault = v,
          pw_sub_account_bump = bump, pw_tickets = tickets\<rparr>)))))))))))))))"

definition strike_ticket ::
  "vault \<Rightarrow> u64 \<Rightarrow> withdrawal_ticket \<Rightarrow> i64 \<Rightarrow> (vault \<times> withdrawal_ticket) program_result" where
  "strike_ticket v active_share_supply ticket now =
     attempt (ok_or (checked_add (wt_request_epoch ticket) WITHDRAWAL_STRIKE_DELAY_EPOCHS)
                (into_program_error Overflow)) (\<lambda>earliest_epoch.
     if v_report_epoch v < earliest_epoch \<or> v_report_epoch v < wt_request_epoch ticket
     then Inl (into_program_error InvalidWithdrawalTicketAccount) else
     attempt (economic_share_supply v active_share_supply) (\<lambda>economic_supply.
     attempt (effective_total_assets v now) (\<lambda>effective.
     attempt (lift_math (assets_for_shares (wt_shares_burned ticket) effective economic_supply
                (v_base_decimals v))) (\<lambda>assets_owed.
     attempt (ok_or (checked_sub (v_requested_withdrawal_shares v) (wt_shares_burned ticket))
                (into_program_error Overflow)) (\<lambda>requested.
     attempt (debit_assets_at_effective (v\<lparr>v_requested_withdrawal_shares := requested\<rparr>) assets_owed now) (\<lambda>v1.
     attempt (ok_or (checked_add (v_pending_withdrawal_assets v1) assets_owed) (into_program_error Overflow)) (\<lambda>pending.
     Inr (v1\<lparr>v_pending_withdrawal_assets := pending\<rparr>, ticket\<lparr>wt_assets_owed := assets_owed\<rparr>))))))))"

fun strike_settlements ::
  "u64 \<Rightarrow> i64 \<Rightarrow> ticket_settlement list \<Rightarrow> vault \<Rightarrow> u64 \<Rightarrow>
   (vault \<times> ticket_settlement list \<times> u64) program_result" where
  "strike_settlements share_supply now [] v settled = Inr (v, [], settled)"
| "strike_settlements share_supply now (s # ss) v settled =
     attempt (if wt_assets_owed (ts_ticket s) = 0 then strike_ticket v share_supply (ts_ticket s) now
              else Inr (v, ts_ticket s)) (\<lambda>(v1, ticket).
     attempt (ok_or (checked_add settled (wt_assets_owed ticket)) (into_program_error Overflow)) (\<lambda>settled1.
     attempt (strike_settlements share_supply now ss v1 settled1) (\<lambda>(v2, ss2, settled2).
     Inr (v2, s\<lparr>ts_ticket := ticket\<rparr> # ss2, settled2))))"

fun pay_settlements ::
  "env \<Rightarrow> process_withdrawals_context \<Rightarrow> bytes list \<Rightarrow> ticket_settlement list \<Rightarrow> ledger \<Rightarrow> ledger program_result" where
  "pay_settlements E ctx signer_seeds [] L = Inr L"
| "pay_settlements E ctx signer_seeds (s # ss) L =
     attempt (token_transfer_signed E (pw_token_program ctx) (pw_custody ctx) (ts_destination s)
                (pw_sub_account ctx) (wt_assets_owed (ts_ticket s)) signer_seeds L) (\<lambda>L1.
     attempt (close_account (ts_ticket_account s) (ts_owner s) L1) (\<lambda>L2.
     pay_settlements E ctx signer_seeds ss L2))"

definition process_settle :: "env \<Rightarrow> process_withdrawals_context \<Rightarrow> ledger \<Rightarrow> ledger program_result" where
  "process_settle E ctx L =
     attempt (mint_supply L (pw_share_mint ctx)) (\<lambda>share_supply.
     attempt (get_clock E) (\<lambda>clk.
     attempt (strike_settlements share_supply (unix_timestamp clk) (pw_tickets ctx) (pw_vault ctx) 0)
       (\<lambda>(v, tickets, settled_assets).
     if v_pending_withdrawal_assets v < settled_assets then Inl (into_program_error InvalidVaultState) else
     attempt (pay_settlements E ctx
        [SUB_ACCOUNT_SEED, key_bytes (ai_key (pw_vault_account ctx)), [v_withdraw_sub_account v],
         [pw_sub_account_bump ctx]] tickets L) (\<lambda>L1.
     attempt (ok_or (checked_sub (v_pending_withdrawal_assets v) settled_assets) (into_program_error Overflow)) (\<lambda>pending.
     writable_vault_role_context_store E (v\<lparr>v_pending_withdrawal_assets := pending\<rparr>) (pw_vault_account ctx) L1)))))"

definition try_process_withdrawals :: "env \<Rightarrow> account_info list \<Rightarrow> ledger \<Rightarrow> ledger program_result" where
  "try_process_withdrawals E accounts L =
     attempt (process_withdrawals_context_load E L accounts) (\<lambda>ctx. process_settle E ctx L)"


section \<open>A strike is a priced payout\<close>

text \<open>
  What the pricing layer sees of a vault: its effective assets and its economic share supply, the
  minted shares together with the burned shares of tickets not yet struck.
\<close>

definition pool_state :: "vault \<Rightarrow> u64 \<Rightarrow> i64 \<Rightarrow> (u64 \<times> u64) option" where
  "pool_state v share_supply now =
     (case (effective_total_assets v now, economic_share_supply v share_supply) of
        (Inr A, Inr S) \<Rightarrow> Some (A, S) | _ \<Rightarrow> None)"

lemma pool_state_Some_iff:
  "pool_state v n now = Some (A, S) \<longleftrightarrow>
     effective_total_assets v now = Inr A \<and> unat S = unat n + unat (v_requested_withdrawal_shares v)"
proof -
  have "economic_share_supply v n = Inr S \<longleftrightarrow> unat S = unat n + unat (v_requested_withdrawal_shares v)"
    by (simp add: economic_share_supply_def result_facts word_facts)
  then show ?thesis by (auto simp: pool_state_def split: sum.splits)
qed

lemma effective_requested [simp]:
  "effective_total_assets (v\<lparr>v_requested_withdrawal_shares := r\<rparr>) now = effective_total_assets v now"
  "effective_total_assets (v\<lparr>v_pending_withdrawal_assets := p\<rparr>) now = effective_total_assets v now"
  by (simp_all add: effective_total_assets_def remaining_locked_profit_def)

lemma valid_requested [simp]:
  "vault_validate_state (v\<lparr>v_requested_withdrawal_shares := r\<rparr>) = vault_validate_state v"
  "vault_validate_state (v\<lparr>v_pending_withdrawal_assets := p\<rparr>) = vault_validate_state v"
  by (simp_all add: vault_validate_state_def)

lemma strike_ticket_Inr:
  assumes "strike_ticket v n t now = Inr (v', t')"
  obtains A S A' where "pool_state v n now = Some (A, S)"
    and "assets_for_shares (wt_shares_burned t) A S (v_base_decimals v) = Inr (wt_assets_owed t')"
    and "t' = t\<lparr>wt_assets_owed := wt_assets_owed t'\<rparr>"
    and "unat (wt_request_epoch t) < unat (v_report_epoch v)"
    and "effective_total_assets v' now = Inr A'" and "unat A = unat (wt_assets_owed t') + unat A'"
    and "unat (v_requested_withdrawal_shares v) = unat (wt_shares_burned t) + unat (v_requested_withdrawal_shares v')"
    and "unat (v_pending_withdrawal_assets v') = unat (v_pending_withdrawal_assets v) + unat (wt_assets_owed t')"
    and "unat (v_total_assets v) = unat (wt_assets_owed t') + unat (v_total_assets v')"
    and "v_base_decimals v' = v_base_decimals v" and "v_report_epoch v' = v_report_epoch v"
    and "vault_validate_state v = Inr () \<Longrightarrow> vault_validate_state v' = Inr ()"
proof -
  obtain A S owed r v1 p where A: "effective_total_assets v now = Inr A"
    and S: "economic_share_supply v n = Inr S"
    and o: "assets_for_shares (wt_shares_burned t) A S (v_base_decimals v) = Inr owed"
    and r: "unat (v_requested_withdrawal_shares v) = unat (wt_shares_burned t) + unat r"
    and d: "debit_assets_at_effective (v\<lparr>v_requested_withdrawal_shares := r\<rparr>) owed now = Inr v1"
    and p: "unat p = unat (v_pending_withdrawal_assets v1) + unat owed"
    and v': "v' = v1\<lparr>v_pending_withdrawal_assets := p\<rparr>" and t': "t' = t\<lparr>wt_assets_owed := owed\<rparr>"
    and e: "unat (wt_request_epoch t) < unat (v_report_epoch v)"
    using assms
    by (auto simp: strike_ticket_def WITHDRAWAL_STRIKE_DELAY_EPOCHS_def result_facts word_facts
        word_less_nat_alt split: if_splits)
  note f = debit_fields [OF d]
  obtain b where b: "effective_total_assets v1 now = Inr b" "unat A = unat b + unat owed"
    using debit_effective [OF d] A by auto
  have fr: "v_requested_withdrawal_shares v1 = r"
    "v_pending_withdrawal_assets v1 = v_pending_withdrawal_assets v"
    "v_base_decimals v1 = v_base_decimals v" "v_report_epoch v1 = v_report_epoch v"
    by (subst f(6); simp)+
  have ps: "pool_state v n now = Some (A, S)" using A S by (simp add: pool_state_def)
  show thesis
  proof (rule that [OF ps, of b])
    show "vault_validate_state v' = Inr ()" if "vault_validate_state v = Inr ()"
      using debit_valid [OF d] that v' by simp
  qed (use A S o r p v' t' e b f(1) fr in simp_all)
qed

text \<open>Striking one ticket is the payout step of the pricing layer.\<close>

lemma strike_ticket_pool_step:
  assumes "strike_ticket v n t now = Inr (v', t')"
  shows "\<exists>A S A' S'. pool_state v n now = Some (A, S) \<and> pool_state v' n now = Some (A', S') \<and>
     pool_step (\<lambda>d A S. shares_for_deposit d A S (v_base_decimals v))
       (\<lambda>s A S. assets_for_shares s A S (v_base_decimals v)) (Pay_Out (wt_shares_burned t)) (A, S) = Some (A', S')"
proof -
  from assms obtain A S A' where st: "pool_state v n now = Some (A, S)"
    and pay: "assets_for_shares (wt_shares_burned t) A S (v_base_decimals v) = Inr (wt_assets_owed t')"
    and A': "effective_total_assets v' now = Inr A'" "unat A = unat (wt_assets_owed t') + unat A'"
    and r: "unat (v_requested_withdrawal_shares v) = unat (wt_shares_burned t) + unat (v_requested_withdrawal_shares v')"
    by (rule strike_ticket_Inr)
  have "unat S = unat n + unat (v_requested_withdrawal_shares v)" using st by (simp add: pool_state_Some_iff)
  moreover have le: "wt_shares_burned t \<le> S" using pay by (simp add: assets_for_shares_Inr_iff)
  ultimately have S': "unat (S - wt_shares_burned t) = unat n + unat (v_requested_withdrawal_shares v')"
    using r by (simp add: unat_sub word_le_nat_alt)
  have "checked_sub A (wt_assets_owed t') = Some A'"
    and "checked_sub S (wt_shares_burned t) = Some (S - wt_shares_burned t)"
    using A'(2) le by (simp_all add: checked_sub_Some_iff unat_sub word_le_nat_alt)
  then have "pool_step (\<lambda>d A S. shares_for_deposit d A S (v_base_decimals v))
       (\<lambda>s A S. assets_for_shares s A S (v_base_decimals v)) (Pay_Out (wt_shares_burned t)) (A, S)
     = Some (A', S - wt_shares_burned t)"
    using pay by (simp add: pool_step_def)
  moreover have "pool_state v' n now = Some (A', S - wt_shares_burned t)"
    using A'(1) S' by (simp add: pool_state_Some_iff)
  ultimately show ?thesis using st by blast
qed


section \<open>A batch is a sequence of priced payouts\<close>

abbreviation unstruck :: "ticket_settlement \<Rightarrow> bool" where
  "unstruck s \<equiv> wt_assets_owed (ts_ticket s) = 0"

abbreviation owed_total :: "ticket_settlement list \<Rightarrow> nat" where
  "owed_total ss \<equiv> sum_list (map (\<lambda>s. unat (wt_assets_owed (ts_ticket s))) ss)"

abbreviation burned_total :: "ticket_settlement list \<Rightarrow> nat" where
  "burned_total ss \<equiv> sum_list (map (\<lambda>s. unat (wt_shares_burned (ts_ticket s))) ss)"

definition batch_payouts :: "ticket_settlement list \<Rightarrow> pool_op list" where
  "batch_payouts ss = map (\<lambda>s. Pay_Out (wt_shares_burned (ts_ticket s))) (filter unstruck ss)"

lemma batch_payouts_simps [simp]:
  "batch_payouts [] = []"
  "batch_payouts (s # ss) =
     (if unstruck s then Pay_Out (wt_shares_burned (ts_ticket s)) # batch_payouts ss else batch_payouts ss)"
  by (simp_all add: batch_payouts_def)

lemma strike_settlements_Cons:
  assumes "strike_settlements n now (s # ss) v c = Inr (v', ss', c')"
  obtains v1 t c1 ss2 where
    "if unstruck s then strike_ticket v n (ts_ticket s) now = Inr (v1, t) else v1 = v \<and> t = ts_ticket s"
    and "unat c1 = unat c + unat (wt_assets_owed t)"
    and "strike_settlements n now ss v1 c1 = Inr (v', ss2, c')" and "ss' = s\<lparr>ts_ticket := t\<rparr> # ss2"
  using assms by (auto simp: result_facts word_facts split: if_splits)

lemma strike_settlements_pool_run:
  assumes "strike_settlements n now ss v c = Inr (v', ss', c')" and "pool_state v n now = Some st"
  shows "v_base_decimals v' = v_base_decimals v \<and>
     (\<exists>st'. pool_state v' n now = Some st' \<and>
        pool_run (\<lambda>d A S. shares_for_deposit d A S (v_base_decimals v))
          (\<lambda>s A S. assets_for_shares s A S (v_base_decimals v)) (batch_payouts ss) st = Some st')"
  using assms
proof (induction ss arbitrary: v c ss' st)
  case Nil
  then show ?case by simp
next
  case (Cons s ss)
  from Cons.prems(1) obtain v1 t c1 ss2 where
    t: "if unstruck s then strike_ticket v n (ts_ticket s) now = Inr (v1, t) else v1 = v \<and> t = ts_ticket s"
    and rest: "strike_settlements n now ss v1 c1 = Inr (v', ss2, c')"
    by (rule strike_settlements_Cons)
  show ?case
  proof (cases "unstruck s")
    case True
    with t have k: "strike_ticket v n (ts_ticket s) now = Inr (v1, t)" by simp
    have bd: "v_base_decimals v1 = v_base_decimals v" using k by (elim strike_ticket_Inr)
    from strike_ticket_pool_step [OF k] Cons.prems(2) obtain st1 where
      "pool_state v1 n now = Some st1"
      "pool_step (\<lambda>d A S. shares_for_deposit d A S (v_base_decimals v))
         (\<lambda>s A S. assets_for_shares s A S (v_base_decimals v)) (Pay_Out (wt_shares_burned (ts_ticket s))) st = Some st1"
      by auto
    with Cons.IH [OF rest] bd True show ?thesis by auto
  next
    case False
    with t Cons.IH [OF rest] Cons.prems(2) show ?thesis by simp
  qed
qed

lemma strike_settlements_conserve:
  assumes "strike_settlements n now ss v c = Inr (v', ss', c')"
  shows "unat c' = unat c + owed_total ss'"
    and "unat (v_total_assets v') + unat (v_pending_withdrawal_assets v')
       = unat (v_total_assets v) + unat (v_pending_withdrawal_assets v)"
    and "unat (v_pending_withdrawal_assets v') + owed_total ss = unat (v_pending_withdrawal_assets v) + owed_total ss'"
    and "unat (v_requested_withdrawal_shares v)
       = unat (v_requested_withdrawal_shares v') + burned_total (filter unstruck ss)"
    and "vault_validate_state v = Inr () \<Longrightarrow> vault_validate_state v' = Inr ()"
proof -
  have "unat c' = unat c + owed_total ss' \<and>
     unat (v_total_assets v') + unat (v_pending_withdrawal_assets v')
       = unat (v_total_assets v) + unat (v_pending_withdrawal_assets v) \<and>
     unat (v_pending_withdrawal_assets v') + owed_total ss = unat (v_pending_withdrawal_assets v) + owed_total ss' \<and>
     unat (v_requested_withdrawal_shares v)
       = unat (v_requested_withdrawal_shares v') + burned_total (filter unstruck ss) \<and>
     (vault_validate_state v = Inr () \<longrightarrow> vault_validate_state v' = Inr ())"
    using assms
  proof (induction ss arbitrary: v c ss')
    case Nil
    then show ?case by simp
  next
    case (Cons s ss)
    from Cons.prems obtain v1 t c1 ss2 where
      t: "if unstruck s then strike_ticket v n (ts_ticket s) now = Inr (v1, t) else v1 = v \<and> t = ts_ticket s"
      and c1: "unat c1 = unat c + unat (wt_assets_owed t)"
      and rest: "strike_settlements n now ss v1 c1 = Inr (v', ss2, c')" and ss': "ss' = s\<lparr>ts_ticket := t\<rparr> # ss2"
      by (rule strike_settlements_Cons)
    show ?case
    proof (cases "unstruck s")
      case True
      with t have "strike_ticket v n (ts_ticket s) now = Inr (v1, t)" by simp
      then show ?thesis by (rule strike_ticket_Inr) (use Cons.IH [OF rest] c1 ss' True in simp)
    next
      case False
      with t Cons.IH [OF rest] c1 ss' show ?thesis by simp
    qed
  qed
  then show "unat c' = unat c + owed_total ss'"
    and "unat (v_total_assets v') + unat (v_pending_withdrawal_assets v')
       = unat (v_total_assets v) + unat (v_pending_withdrawal_assets v)"
    and "unat (v_pending_withdrawal_assets v') + owed_total ss = unat (v_pending_withdrawal_assets v) + owed_total ss'"
    and "unat (v_requested_withdrawal_shares v)
       = unat (v_requested_withdrawal_shares v') + burned_total (filter unstruck ss)"
    and "vault_validate_state v = Inr () \<Longrightarrow> vault_validate_state v' = Inr ()" by simp_all
qed

text \<open>Only the amount owed of a ticket changes, only when it was not struck, and only after a report.\<close>

definition struck_from :: "vault \<Rightarrow> ticket_settlement \<Rightarrow> ticket_settlement \<Rightarrow> bool" where
  "struck_from v s s' \<longleftrightarrow>
     s' = s\<lparr>ts_ticket := (ts_ticket s)\<lparr>wt_assets_owed := wt_assets_owed (ts_ticket s')\<rparr>\<rparr> \<and>
     (if unstruck s then wt_request_epoch (ts_ticket s) < v_report_epoch v else s' = s)"

lemma strike_settlements_tickets:
  assumes "strike_settlements n now ss v c = Inr (v', ss', c')"
  shows "v_report_epoch v' = v_report_epoch v \<and> list_all2 (struck_from v) ss ss'"
  using assms
proof (induction ss arbitrary: v c ss')
  case Nil
  then show ?case by simp
next
  case (Cons s ss)
  from Cons.prems obtain v1 t c1 ss2 where
    t: "if unstruck s then strike_ticket v n (ts_ticket s) now = Inr (v1, t) else v1 = v \<and> t = ts_ticket s"
    and rest: "strike_settlements n now ss v1 c1 = Inr (v', ss2, c')" and ss': "ss' = s\<lparr>ts_ticket := t\<rparr> # ss2"
    by (rule strike_settlements_Cons)
  have head: "v_report_epoch v1 = v_report_epoch v \<and> struck_from v s (s\<lparr>ts_ticket := t\<rparr>)"
  proof (cases "unstruck s")
    case True
    with t have "strike_ticket v n (ts_ticket s) now = Inr (v1, t)" by simp
    then show ?thesis
      by (rule strike_ticket_Inr) (use True in \<open>simp add: struck_from_def word_less_nat_alt\<close>)
  next
    case False
    with t show ?thesis by (simp add: struck_from_def)
  qed
  then have "struck_from v1 = struck_from v" by (intro ext) (simp add: struck_from_def)
  with Cons.IH [OF rest] ss' head show ?case by simp
qed


section \<open>Properties of the batch\<close>

text \<open>Two tickets against the example vault: one not struck yet, one struck before at 40 atoms.\<close>

definition example_ticket :: "u64 \<Rightarrow> u64 \<Rightarrow> withdrawal_ticket" where
  "example_ticket shares owed = ticket_new 100 101 102 0 shares owed 2 77 254"

definition example_settlement :: "u64 \<Rightarrow> u64 \<Rightarrow> ticket_settlement" where
  "example_settlement shares owed =
     (let h = (\<lambda>k. \<lparr>ai_key = k, ai_is_signer = False, ai_is_writable = True\<rparr>)
      in \<lparr>ts_ticket_account = h 103, ts_owner = h 101, ts_destination = h 102,
          ts_ticket = example_ticket shares owed\<rparr>)"

definition example_requests :: vault where
  "example_requests = example_vault\<lparr>v_requested_withdrawal_shares := 700000, v_pending_withdrawal_assets := 40\<rparr>"

definition example_struck :: vault where
  "example_struck = example_vault\<lparr>v_total_assets := 9500, v_locked_profit := 300, v_profit_unlock_start_ts := 2500,
     v_requested_withdrawal_shares := 200000, v_pending_withdrawal_assets := 540\<rparr>"

lemma example_requests_state: "pool_state example_requests 9000000 2500 = Some (9700, 9700000)"
  using example_vault_effective by (simp add: pool_state_Some_iff example_requests_def)

lemma example_strike:
  "strike_ticket example_requests 9000000 (example_ticket 500000 0) 2500
     = Inr (example_struck, example_ticket 500000 500)"
proof -
  have "economic_share_supply example_requests 9000000 = Inr 9700000"
    by (simp add: economic_share_supply_def example_requests_def checked_add_def)
  moreover have "effective_total_assets example_requests 2500 = Inr 9700"
    using example_vault_effective by (simp add: example_requests_def)
  moreover have "assets_for_shares 500000 9700 9700000 6 = Inr 500"
    by (simp add: assets_for_shares_Inr_iff)
  moreover have "debit_assets_at_effective (example_requests\<lparr>v_requested_withdrawal_shares := 200000\<rparr>) 500 2500
      = Inr (example_struck\<lparr>v_pending_withdrawal_assets := 40\<rparr>)"
  proof -
    have "remaining_locked_profit (example_requests\<lparr>v_requested_withdrawal_shares := 200000\<rparr>) 2500 = Inr 300"
      by (simp add: remaining_locked_profit_Inr_iff unlock_line_def example_requests_def example_vault_def)
    then show ?thesis
      by (simp add: debit_assets_at_effective_def checked_sub_def example_requests_def example_vault_def
          example_struck_def)
  qed
  ultimately show ?thesis
    by (simp add: strike_ticket_def example_ticket_def ticket_new_def checked_add_def checked_sub_def
        WITHDRAWAL_STRIKE_DELAY_EPOCHS_def example_requests_def example_vault_def example_struck_def)
qed


lemma example_batch:
  "strike_settlements 9000000 2500 [example_settlement 500000 0, example_settlement 300000 40] example_requests 0
     = Inr (example_struck, [example_settlement 500000 500, example_settlement 300000 40], 540)"
proof -
  have "wt_assets_owed (example_ticket a b) = b" for a b by (simp add: example_ticket_def ticket_new_def)
  then show ?thesis
    using example_strike by (simp add: example_settlement_def checked_add_def)
qed

text \<open>
  C26. Settling a batch of tickets refines the pricing layer: the vault before and after, seen as
  effective assets and economic share supply, are related by exactly the payouts of the tickets
  that were not struck before, in the order of the batch, each priced at the state its
  predecessors left. Hence no batch lowers the share price of those who stay.
\<close>
theorem withdrawal_batch_refines_pool:
  assumes "strike_settlements n now ss v 0 = Inr (v', ss', settled)"
    and "pool_state v n now = Some (A, S)"
  shows "\<exists>A' S'. pool_state v' n now = Some (A', S') \<and>
     pool_run (\<lambda>d A S. shares_for_deposit d A S (v_base_decimals v))
       (\<lambda>s A S. assets_for_shares s A S (v_base_decimals v)) (batch_payouts ss) (A, S) = Some (A', S') \<and>
     price_le (voffset (v_base_decimals v)) (unat A) (unat S) (unat A') (unat S')"
  using strike_settlements_pool_run [OF assms] sp.run_keeps_price by fastforce

theorem withdrawal_batch_refines_pool_witness:
  "\<exists>A' S'. pool_state example_struck 9000000 2500 = Some (A', S') \<and>
     pool_run (\<lambda>d A S. shares_for_deposit d A S (v_base_decimals example_requests))
       (\<lambda>s A S. assets_for_shares s A S (v_base_decimals example_requests))
       (batch_payouts [example_settlement 500000 0, example_settlement 300000 40]) (9700, 9700000) = Some (A', S') \<and>
     price_le (voffset (v_base_decimals example_requests)) 9700 9700000 (unat A') (unat S')"
  using withdrawal_batch_refines_pool [OF example_batch example_requests_state] by simp

text \<open>
  A batch moves assets, it never creates or loses them: what leaves the total assets enters
  the pending withdrawals atom for atom, the amount to pay out is the sum over the tickets, the
  requested shares fall by exactly the shares of the tickets struck here, the vault stays valid.
  A ticket struck before keeps its amount; a ticket struck here was requested before the latest
  report and changes in its amount only.
\<close>
theorem withdrawal_batch_conserves:
  assumes "strike_settlements n now ss v 0 = Inr (v', ss', settled)" and "vault_validate_state v = Inr ()"
  shows "unat settled = owed_total ss' \<and>
     unat (v_total_assets v') + unat (v_pending_withdrawal_assets v')
       = unat (v_total_assets v) + unat (v_pending_withdrawal_assets v) \<and>
     unat (v_pending_withdrawal_assets v') + owed_total ss = unat (v_pending_withdrawal_assets v) + owed_total ss' \<and>
     unat (v_requested_withdrawal_shares v)
       = unat (v_requested_withdrawal_shares v') + burned_total (filter unstruck ss) \<and>
     vault_validate_state v' = Inr () \<and> list_all2 (struck_from v) ss ss'"
  using strike_settlements_conserve [OF assms(1)] strike_settlements_tickets [OF assms(1)] assms(2) by simp

theorem withdrawal_batch_conserves_witness:
  "unat (540 :: u64) = owed_total [example_settlement 500000 500, example_settlement 300000 40] \<and>
   vault_validate_state example_struck = Inr ()"
proof -
  have "vault_validate_state example_requests = Inr ()"
    using example_vault_valid by (simp add: example_requests_def)
  from withdrawal_batch_conserves [OF example_batch this] show ?thesis by blast
qed

end
