(* ===== verification/Nav_And_Fees.thy ===== *)
theory Nav_And_Fees
  imports Withdrawals
begin

text \<open>
  \<open>crates/roshi/src/instructions/admin/report_nav.rs\<close>, \<open>collect_fees.rs\<close> and \<open>write_down_fees.rs\<close>:
  acceptance of NAV reports, ordinary and recovering, and settlement or forgiveness of accrued fees.
\<close>

section \<open>Definitions\<close>

datatype report_kind = Ordinary | Recovery

record nav_report =
  nr_external_value :: u64
  nr_report_hash :: key

definition EMPTY_REPORT_HASH :: key where "EMPTY_REPORT_HASH = 0"

definition expect_base_custody ::
  "env \<Rightarrow> key \<Rightarrow> u8 \<Rightarrow> key \<Rightarrow> key \<Rightarrow> account_info \<Rightarrow> key program_result" where
  "expect_base_custody E vault_key sub_account_index base_mint base_token_program custody =
     (let sub_account = fst (sub_account_find_address (find_program_address E) vault_key sub_account_index);
          expected = associated_token_address (find_program_address E) sub_account base_mint base_token_program
      in if ai_key custody \<noteq> expected then Inl InvalidSeeds else Inr expected)"

definition custody_amount :: "ledger \<Rightarrow> account_info \<Rightarrow> u64 program_result" where
  "custody_amount L custody = (if data_of L custody = [] then Inr 0 else token_amount L custody)"

text \<open>The accounting of a report, once gross assets and economic supply are known.\<close>

definition account_nav_report ::
  "report_kind \<Rightarrow> vault \<Rightarrow> u64 \<Rightarrow> u64 \<Rightarrow> key \<Rightarrow> i64 \<Rightarrow> vault program_result" where
  "account_nav_report kind v gross_total_assets economic_supply report_hash now =
     attempt (ok_or (Option.bind (checked_sub gross_total_assets (v_fees_payable v))
                       (\<lambda>assets. checked_sub assets (v_pending_withdrawal_assets v)))
                (into_program_error InvalidVaultState)) (\<lambda>fee_base_assets.
     attempt (lift_math (performance_fee_for_nav fee_base_assets economic_supply (v_high_watermark v)
                (v_performance_fee_bps v))) (\<lambda>(fee_assets, net_total_assets, high_watermark).
     attempt (if kind = Ordinary then verify_nav_gain_bound v net_total_assets economic_supply else Inr ()) (\<lambda>_.
     attempt (ok_or (checked_add (v_fees_payable v) fee_assets) (into_program_error Overflow)) (\<lambda>fees_payable.
     attempt (ok_or (checked_add (v_report_epoch v) 1) (into_program_error Overflow)) (\<lambda>report_epoch.
     attempt (apply_reported_nav
        (v\<lparr>v_fees_payable := fees_payable, v_high_watermark := high_watermark, v_report_epoch := report_epoch,
           v_last_report_hash := report_hash\<rparr>) net_total_assets now) (\<lambda>v1.
     Inr (v1\<lparr>v_last_update_ts := now\<rparr>)))))))"

definition apply_nav_report ::
  "env \<Rightarrow> account_info list \<Rightarrow> nav_report \<Rightarrow> report_kind \<Rightarrow> ledger \<Rightarrow> ledger program_result" where
  "apply_nav_report E accounts args kind L =
     attempt (next_account accounts) (\<lambda>(nav_authority, it).
     attempt (if kind = Recovery then attempt (next_account it) (\<lambda>(admin, it). Inr (Some admin, it))
              else Inr (None, it)) (\<lambda>(admin, it).
     attempt (next_account it) (\<lambda>(vault_account, it).
     if \<not> ai_is_writable vault_account then Inl InvalidAccountData else
     attempt (load_checked E L vault_account) (\<lambda>v.
     attempt (verify_role v NavAuthority nav_authority) (\<lambda>_.
     attempt (case admin of Some admin \<Rightarrow> verify_role v Admin admin | None \<Rightarrow> Inr ()) (\<lambda>_.
     attempt (get_clock E) (\<lambda>clk.
     attempt (verify_report_interval v (unix_timestamp clk)) (\<lambda>_.
     attempt (next_account it) (\<lambda>(share_mint, it).
     attempt (verify_share_mint v share_mint) (\<lambda>_.
     attempt (mint_supply L share_mint) (\<lambda>share_supply.
     attempt (economic_share_supply v share_supply) (\<lambda>economic_supply.
     attempt
       (if kind = Recovery then
          attempt (deposits_paused v) (\<lambda>paused.
          if \<not> paused then Inl (into_program_error DepositsMustBePaused) else
          attempt (if economic_supply = 0 then Inr True
                   else attempt (lift_math (share_price_from_assets (v_total_assets v) economic_supply))
                          (\<lambda>price. Inr (price \<noteq> 0))) (\<lambda>refused.
          if refused then Inl (into_program_error InvalidVaultState) else Inr ()))
        else Inr ()) (\<lambda>_.
     if nr_report_hash args = EMPTY_REPORT_HASH then Inl (into_program_error InvalidVaultState) else
     attempt (next_account it) (\<lambda>(base_mint_account, it).
     attempt (next_account it) (\<lambda>(deposit_custody, it).
     attempt (next_account it) (\<lambda>(withdraw_custody, it).
     attempt (verify_mint L base_mint_account (v_base_mint v) (v_base_decimals v) None) (\<lambda>_.
     let base_token_program = owner_of L base_mint_account in
     attempt (expect_base_custody E (ai_key vault_account) (v_deposit_sub_account v) (v_base_mint v)
                base_token_program deposit_custody) (\<lambda>deposit_ata.
     attempt (expect_base_custody E (ai_key vault_account) (v_withdraw_sub_account v) (v_base_mint v)
                base_token_program withdraw_custody) (\<lambda>withdraw_ata.
     attempt (custody_amount L deposit_custody) (\<lambda>deposit_idle.
     attempt (if withdraw_ata \<noteq> deposit_ata
              then attempt (custody_amount L withdraw_custody) (\<lambda>withdraw_idle.
                   ok_or (checked_add deposit_idle withdraw_idle) (into_program_error Overflow))
              else Inr deposit_idle) (\<lambda>idle.
     attempt (ok_or (checked_add idle (nr_external_value args)) (into_program_error Overflow)) (\<lambda>gross.
     attempt (account_nav_report kind v gross economic_supply (nr_report_hash args) (unix_timestamp clk)) (\<lambda>v'.
     writable_vault_role_context_store E v' vault_account L)))))))))))))))))))))))"

definition try_report_nav :: "env \<Rightarrow> account_info list \<Rightarrow> nav_report \<Rightarrow> ledger \<Rightarrow> ledger program_result" where
  "try_report_nav E accounts args L = apply_nav_report E accounts args Ordinary L"

definition try_recover_nav :: "env \<Rightarrow> account_info list \<Rightarrow> nav_report \<Rightarrow> ledger \<Rightarrow> ledger program_result" where
  "try_recover_nav E accounts args L = apply_nav_report E accounts args Recovery L"

record collect_fees_args =
  cf_sub_account :: u8
  cf_amount :: u64

definition try_collect_fees ::
  "env \<Rightarrow> account_info list \<Rightarrow> collect_fees_args \<Rightarrow> ledger \<Rightarrow> ledger program_result" where
  "try_collect_fees E accounts args L =
     (if cf_amount args = 0 then Inl (into_program_error ZeroOutput) else
      attempt (next_account accounts) (\<lambda>(admin, it).
      attempt (next_account it) (\<lambda>(vault_account, it).
      attempt (require_writable vault_account) (\<lambda>_.
      attempt (load_checked E L vault_account) (\<lambda>v.
      attempt (verify_role v Admin admin) (\<lambda>_.
      if v_fees_payable v < cf_amount args then Inl (into_program_error InvalidVaultState) else
      attempt (verify_idle_sub_account v (cf_sub_account args)) (\<lambda>_.
      attempt (next_account it) (\<lambda>(fee_sub_account, it).
      attempt (sub_account_verify_account E L (ai_key vault_account) (cf_sub_account args) fee_sub_account) (\<lambda>bump.
      attempt (next_account it) (\<lambda>(custody, it).
      attempt (require_writable custody) (\<lambda>_.
      attempt (verify_token_account_mint_and_owner L custody (v_base_mint v) (ai_key fee_sub_account)) (\<lambda>_.
      attempt (next_account it) (\<lambda>(treasury, it).
      attempt (require_writable treasury) (\<lambda>_.
      if ai_key treasury \<noteq> v_treasury v then Inl (into_program_error InvalidTokenAccount) else
      attempt (verify_token_account_mint L treasury (v_base_mint v)) (\<lambda>_.
      attempt (next_account it) (\<lambda>(token_program, it).
      attempt (verify_token_program_for L token_program custody) (\<lambda>_.
      attempt (verify_token_program_for L token_program treasury) (\<lambda>_.
      attempt (token_transfer_signed E token_program custody treasury fee_sub_account (cf_amount args)
         [SUB_ACCOUNT_SEED, key_bytes (ai_key vault_account), [cf_sub_account args], [bump]] L) (\<lambda>L1.
      attempt (ok_or (checked_sub (v_fees_payable v) (cf_amount args)) (into_program_error Overflow)) (\<lambda>fees_payable.
      writable_vault_role_context_store E (v\<lparr>v_fees_payable := fees_payable\<rparr>) vault_account L1))))))))))))))))))))"

definition try_write_down_fees ::
  "env \<Rightarrow> account_info list \<Rightarrow> u64 \<Rightarrow> ledger \<Rightarrow> ledger program_result" where
  "try_write_down_fees E accounts amount L =
     (if amount = 0 then Inl (into_program_error InvalidWriteDownAmount) else
      update_writable_vault_as_admin E accounts (\<lambda>v.
        attempt (ok_or (checked_sub (v_fees_payable v) amount) (into_program_error InvalidWriteDownAmount)) (\<lambda>fees_payable.
        Inr (v\<lparr>v_fees_payable := fees_payable\<rparr>))) L)"


section \<open>Accounting of a report\<close>

lemma account_nav_report_Inr:
  assumes "account_nav_report kind v gross supply hash now = Inr v'"
  obtains base fee net hwm fees epoch v1 where
    "unat gross = unat (v_fees_payable v) + unat (v_pending_withdrawal_assets v) + unat base"
    and "performance_fee_for_nav base supply (v_high_watermark v) (v_performance_fee_bps v) = Inr (fee, net, hwm)"
    and "kind = Ordinary \<longrightarrow> verify_nav_gain_bound v net supply = Inr ()"
    and "unat fees = unat (v_fees_payable v) + unat fee"
    and "unat epoch = unat (v_report_epoch v) + 1"
    and "apply_reported_nav (v\<lparr>v_fees_payable := fees, v_high_watermark := hwm, v_report_epoch := epoch,
           v_last_report_hash := hash\<rparr>) net now = Inr v1"
    and "v' = v1\<lparr>v_last_update_ts := now\<rparr>"
  using assms
  by (fastforce simp: account_nav_report_def result_facts word_facts split: prod.splits if_splits)


lemma effective_cong:
  "v_total_assets v = v_total_assets w \<Longrightarrow> v_locked_profit v = v_locked_profit w \<Longrightarrow>
   v_profit_unlock_start_ts v = v_profit_unlock_start_ts w \<Longrightarrow>
   v_profit_unlock_end_ts v = v_profit_unlock_end_ts w \<Longrightarrow>
   effective_total_assets v now = effective_total_assets w now"
  by (simp add: effective_total_assets_def remaining_locked_profit_def)

lemma effective_report_fields [simp]:
  "effective_total_assets (v\<lparr>v_fees_payable := a, v_high_watermark := b, v_report_epoch := c,
     v_last_report_hash := d\<rparr>) now = effective_total_assets v now"
  "effective_total_assets (v\<lparr>v_fees_payable := a\<rparr>) now = effective_total_assets v now"
  "effective_total_assets (v\<lparr>v_last_update_ts := t\<rparr>) now = effective_total_assets v now"
  by (rule effective_cong; simp)+

lemma valid_report_fields [simp]:
  "vault_validate_state (v\<lparr>v_fees_payable := a, v_high_watermark := b, v_report_epoch := c,
     v_last_report_hash := d\<rparr>) = vault_validate_state v"
  "vault_validate_state (v\<lparr>v_fees_payable := a\<rparr>) = vault_validate_state v"
  "vault_validate_state (v\<lparr>v_last_update_ts := t\<rparr>) = vault_validate_state v"
  by (simp_all add: vault_validate_state_def)

lemma report_window_fields [simp]:
  "report_window (v\<lparr>v_fees_payable := a, v_high_watermark := b, v_report_epoch := c,
     v_last_report_hash := d\<rparr>) now = report_window v now"
  by (simp add: report_window_def)

lemma account_nav_report_fields:
  assumes "account_nav_report kind v gross supply hash now = Inr v'"
  shows "unat (v_total_assets v') + unat (v_fees_payable v') + unat (v_pending_withdrawal_assets v') = unat gross"
    and "v_fees_payable v \<le> v_fees_payable v'" and "v_high_watermark v \<le> v_high_watermark v'"
    and "unat (v_report_epoch v') = unat (v_report_epoch v) + 1"
    and "v_last_update_ts v' = now" and "v_last_report_hash v' = hash"
    and "v_pending_withdrawal_assets v' = v_pending_withdrawal_assets v"
    and "v_requested_withdrawal_shares v' = v_requested_withdrawal_shares v"
    and "vault_validate_state v = Inr () \<Longrightarrow> vault_validate_state v' = Inr ()"
    and "kind = Ordinary \<Longrightarrow> verify_nav_gain_bound v (v_total_assets v') supply = Inr ()"
proof -
  from assms obtain base fee net hwm fees epoch v1 where
    g: "unat gross = unat (v_fees_payable v) + unat (v_pending_withdrawal_assets v) + unat base"
    and pf: "performance_fee_for_nav base supply (v_high_watermark v) (v_performance_fee_bps v) = Inr (fee, net, hwm)"
    and gain: "kind = Ordinary \<longrightarrow> verify_nav_gain_bound v net supply = Inr ()"
    and fees: "unat fees = unat (v_fees_payable v) + unat fee"
    and ep: "unat epoch = unat (v_report_epoch v) + 1"
    and ap: "apply_reported_nav (v\<lparr>v_fees_payable := fees, v_high_watermark := hwm, v_report_epoch := epoch,
           v_last_report_hash := hash\<rparr>) net now = Inr v1"
    and v': "v' = v1\<lparr>v_last_update_ts := now\<rparr>"
    by (rule account_nav_report_Inr)
  note f = apply_reported_nav_frame [OF ap]
  have fr: "v_fees_payable v1 = fees" "v_high_watermark v1 = hwm" "v_report_epoch v1 = epoch"
    "v_last_report_hash v1 = hash" "v_pending_withdrawal_assets v1 = v_pending_withdrawal_assets v"
    "v_requested_withdrawal_shares v1 = v_requested_withdrawal_shares v"
    by (subst f(6); simp)+
  note c = performance_fee_conserves [OF pf]
  show "unat (v_total_assets v') + unat (v_fees_payable v') + unat (v_pending_withdrawal_assets v') = unat gross"
    using g fees c(1) f(1) fr v' by simp
  show "v_fees_payable v \<le> v_fees_payable v'" "v_high_watermark v \<le> v_high_watermark v'"
    using fees c(2) fr v' by (simp_all add: word_le_nat_alt)
  show "vault_validate_state v' = Inr ()" if "vault_validate_state v = Inr ()"
    using apply_reported_nav_valid [OF ap] that v' by simp
  show "verify_nav_gain_bound v (v_total_assets v') supply = Inr ()" if "kind = Ordinary"
    using gain that f(1) v' by simp
  show "unat (v_report_epoch v') = unat (v_report_epoch v) + 1" "v_last_update_ts v' = now"
    "v_last_report_hash v' = hash" "v_pending_withdrawal_assets v' = v_pending_withdrawal_assets v"
    "v_requested_withdrawal_shares v' = v_requested_withdrawal_shares v"
    using fr v' ep by simp_all
qed


lemma account_nav_report_effective:
  assumes "account_nav_report kind v gross supply hash now = Inr v'"
    and "effective_total_assets v now = Inr prior"
  shows "effective_total_assets v' now =
     Inr (if prior < v_total_assets v' \<and> report_window v now \<noteq> 0 then prior else v_total_assets v')"
  using assms(1)
  by (rule account_nav_report_Inr)
     (use assms(2) in \<open>auto simp: apply_reported_nav_frame(1) dest!: apply_reported_nav_effective\<close>)

section \<open>Properties of reports and fees\<close>

lemma example_report:
  "account_nav_report Ordinary (example_vault\<lparr>v_fees_payable := 50, v_pending_withdrawal_assets := 40\<rparr>)
     12090 10000000 7 2500
   = Inr (example_vault\<lparr>v_fees_payable := 250, v_pending_withdrawal_assets := 40,
        v_total_assets := 11800, v_locked_profit := 2100,
        v_profit_unlock_start_ts := 2500, v_profit_unlock_end_ts := 4000, v_high_watermark := 1180000,
        v_report_epoch := 4, v_last_report_hash := 7, v_last_update_ts := 2500\<rparr>)"
proof -
  let ?v = "example_vault\<lparr>v_fees_payable := 250, v_pending_withdrawal_assets := 40,
     v_high_watermark := 1180000, v_report_epoch := 4, v_last_report_hash := 7\<rparr>"
  have pf: "performance_fee_for_nav 12000 10000000 1000000 1000 = Inr (200, 11800, 1180000)"
    by (simp add: performance_fee_for_nav_def share_price_from_assets_def bps_floor_def
      mul_div_floor_u64_def mul_div_floor_def mul_div_ceil_def validate_percentage_bps_def
      BPS_DENOMINATOR_def pow10_share_scale checked_mul_def checked_sub_def checked_u64_def try_from_def)
  have w: "report_window ?v 2500 = 1500"
    by (simp add: report_window_def example_vault_def vault_controls_new_def)
  have e: "effective_total_assets ?v 2500 = Inr 9700"
    using example_vault_effective by (subst effective_cong [of _ example_vault]) simp_all
  have nav: "apply_reported_nav ?v 11800 2500 = Inr (?v\<lparr>v_total_assets := 11800, v_locked_profit := 2100,
        v_profit_unlock_start_ts := 2500, v_profit_unlock_end_ts := 4000\<rparr>)"
    unfolding apply_reported_nav_gain [OF e, of 11800, simplified] w
    by (intro exI [of _ 4000]) simp
  show ?thesis
    using pf nav by (simp add: account_nav_report_def verify_nav_gain_bound_def example_vault_def
        vault_controls_new_def checked_sub_def checked_add_def)
qed



end
