(* ===== verification/Codec.thy ===== *)
theory Codec
  imports Runtime
begin

text \<open>
  The wire layout of the program's accounts: one tag byte, then the fields of the \<open>repr(C)\<close>
  structure in order, little-endian, with the padding the structures declare. The structures'
  sizes and tags are the ones the repository's layout tests pin. The handlers do not depend on
  this layout: they take the codec as a parameter of \<open>env\<close> and rely on \<open>codec_ok\<close> only, which
  this layout is shown to satisfy.
\<close>

section \<open>What the program relies on\<close>

text \<open>
  A stored account decodes to what was stored, whatever bytes follow it: accounts are overwritten
  in place and may be longer than their record.
\<close>

definition codec_ok :: "env \<Rightarrow> bool" where
  "codec_ok E \<longleftrightarrow> (\<forall>a bs rest. serialize E a = Some bs \<longrightarrow> deserialize E (bs @ rest) = Some a)"

section \<open>Fields\<close>

definition get_w :: "bytes \<Rightarrow> ('a::len word \<times> bytes) option" where
  "get_w bs = (let n = LENGTH('a) div 8 in
     if n \<le> length bs then Some (from_le_bytes (take n bs), drop n bs) else None)"

definition get_key :: "bytes \<Rightarrow> (key \<times> bytes) option" where
  "get_key bs = (if 32 \<le> length bs then Some (key_of_bytes (take 32 bs), drop 32 bs) else None)"

definition get_bytes :: "nat \<Rightarrow> bytes \<Rightarrow> (bytes \<times> bytes) option" where
  "get_bytes n bs = (if n \<le> length bs then Some (take n bs, drop n bs) else None)"

lemma get_w_append [simp]:
  "8 dvd LENGTH('a) \<Longrightarrow> get_w (to_le_bytes (w :: 'a::len word) @ rest) = Some (w, rest)"
  by (simp add: get_w_def)

lemma get_key_append [simp]: "get_key (key_bytes k @ rest) = Some (k, rest)"
  by (simp add: get_key_def)

lemma get_bytes_append [simp]: "length bs = n \<Longrightarrow> get_bytes n (bs @ rest) = Some (bs, rest)"
  by (simp add: get_bytes_def)

section \<open>Records\<close>

definition put_oracle :: "oracle_config \<Rightarrow> bytes" where
  "put_oracle o' = oc_legs o' @ to_le_bytes (oc_kind o') @ to_le_bytes (oc_padding o')"

definition get_oracle :: "bytes \<Rightarrow> (oracle_config \<times> bytes) option" where
  "get_oracle bs =
     Option.bind (get_bytes LEGS_SIZE bs) (\<lambda>(legs, bs).
     Option.bind (get_w bs) (\<lambda>(kind, bs).
     Option.bind (get_w bs) (\<lambda>(padding, bs).
     Some (\<lparr>oc_legs = legs, oc_kind = kind, oc_padding = padding\<rparr>, bs))))"

lemma get_put_oracle [simp]: "wf_oracle_config o' \<Longrightarrow> get_oracle (put_oracle o' @ rest) = Some (o', rest)"
  by (cases o') (simp add: get_oracle_def put_oracle_def wf_oracle_config_def)

definition put_controls :: "vault_controls \<Rightarrow> bytes" where
  "put_controls c =
     to_le_bytes (max_unlock_duration_secs c) @ to_le_bytes (max_report_age_secs c) @
     to_le_bytes (min_report_interval_secs c) @ to_le_bytes (cancel_grace_slots c) @
     to_le_bytes (max_nav_gain_bps c) @ to_le_bytes (atomic_redeem_fee_bps c) @
     to_le_bytes (max_swap_slippage_bps c) @ to_le_bytes (controls_padding c)"

definition get_controls :: "bytes \<Rightarrow> (vault_controls \<times> bytes) option" where
  "get_controls bs =
     Option.bind (get_w bs) (\<lambda>(a, bs). Option.bind (get_w bs) (\<lambda>(b, bs).
     Option.bind (get_w bs) (\<lambda>(c, bs). Option.bind (get_w bs) (\<lambda>(d, bs).
     Option.bind (get_w bs) (\<lambda>(e, bs). Option.bind (get_w bs) (\<lambda>(f, bs).
     Option.bind (get_w bs) (\<lambda>(g, bs). Option.bind (get_w bs) (\<lambda>(h, bs).
     Some (\<lparr>max_unlock_duration_secs = a, max_report_age_secs = b, min_report_interval_secs = c,
            cancel_grace_slots = d, max_nav_gain_bps = e, atomic_redeem_fee_bps = f,
            max_swap_slippage_bps = g, controls_padding = h\<rparr>, bs)))))))))"

lemma get_put_controls [simp]: "get_controls (put_controls c @ rest) = Some (c, rest)"
  by (cases c) (simp add: get_controls_def put_controls_def)

definition put_vault :: "vault \<Rightarrow> bytes" where
  "put_vault v =
     put_oracle (v_base_oracle v) @ to_le_bytes (v_total_assets v) @ to_le_bytes (v_deposit_cap v) @
     to_le_bytes (v_external_assets v) @ to_le_bytes (v_pending_withdrawal_assets v) @
     to_le_bytes (v_fees_payable v) @ to_le_bytes (v_high_watermark v) @ to_le_bytes (v_report_epoch v) @
     to_le_bytes (v_requested_withdrawal_shares v) @ to_le_bytes (v_last_update_ts v) @
     to_le_bytes (v_locked_profit v) @ to_le_bytes (v_profit_unlock_start_ts v) @
     to_le_bytes (v_profit_unlock_end_ts v) @ key_bytes (v_tag v) @ key_bytes (v_admin v) @
     key_bytes (v_strategist v) @ key_bytes (v_swap_authority v) @ key_bytes (v_nav_authority v) @
     key_bytes (v_withdrawal_authority v) @ key_bytes (v_base_mint v) @ key_bytes (v_share_mint v) @
     key_bytes (v_treasury v) @ key_bytes (v_last_report_hash v) @ key_bytes (v_access_merkle_root v) @
     put_controls (v_controls v) @ to_le_bytes (v_performance_fee_bps v) @
     to_le_bytes (v_withdrawal_buffer_bps v) @ to_le_bytes (v_tag_len v) @ to_le_bytes (v_base_decimals v) @
     to_le_bytes (v_deposit_sub_account v) @ to_le_bytes (v_withdraw_sub_account v) @
     to_le_bytes (v_deposits_paused_flag v) @ to_le_bytes (v_withdrawals_paused_flag v) @
     to_le_bytes (v_manage_paused_flag v) @ to_le_bytes (v_private_flag v) @
     to_le_bytes (v_external_enabled_flag v) @ to_le_bytes (v_bump v) @ to_le_bytes (v_padding v)"

definition get_vault :: "bytes \<Rightarrow> (vault \<times> bytes) option" where
  "get_vault bs =
     Option.bind (get_oracle bs) (\<lambda>(oracle, bs). Option.bind (get_w bs) (\<lambda>(total, bs).
     Option.bind (get_w bs) (\<lambda>(cap, bs). Option.bind (get_w bs) (\<lambda>(ext, bs).
     Option.bind (get_w bs) (\<lambda>(pending, bs). Option.bind (get_w bs) (\<lambda>(fees, bs).
     Option.bind (get_w bs) (\<lambda>(hwm, bs). Option.bind (get_w bs) (\<lambda>(epoch, bs).
     Option.bind (get_w bs) (\<lambda>(requested, bs). Option.bind (get_w bs) (\<lambda>(updated, bs).
     Option.bind (get_w bs) (\<lambda>(locked, bs). Option.bind (get_w bs) (\<lambda>(start, bs).
     Option.bind (get_w bs) (\<lambda>(stop, bs). Option.bind (get_key bs) (\<lambda>(tag, bs).
     Option.bind (get_key bs) (\<lambda>(admin, bs). Option.bind (get_key bs) (\<lambda>(strategist, bs).
     Option.bind (get_key bs) (\<lambda>(swap, bs). Option.bind (get_key bs) (\<lambda>(nav, bs).
     Option.bind (get_key bs) (\<lambda>(withdrawal, bs). Option.bind (get_key bs) (\<lambda>(base, bs).
     Option.bind (get_key bs) (\<lambda>(share, bs). Option.bind (get_key bs) (\<lambda>(treasury, bs).
     Option.bind (get_key bs) (\<lambda>(hash, bs). Option.bind (get_key bs) (\<lambda>(root, bs).
     Option.bind (get_controls bs) (\<lambda>(controls, bs). Option.bind (get_w bs) (\<lambda>(fee, bs).
     Option.bind (get_w bs) (\<lambda>(buffer, bs). Option.bind (get_w bs) (\<lambda>(tag_len, bs).
     Option.bind (get_w bs) (\<lambda>(decimals, bs). Option.bind (get_w bs) (\<lambda>(dsub, bs).
     Option.bind (get_w bs) (\<lambda>(wsub, bs). Option.bind (get_w bs) (\<lambda>(f1, bs).
     Option.bind (get_w bs) (\<lambda>(f2, bs). Option.bind (get_w bs) (\<lambda>(f3, bs).
     Option.bind (get_w bs) (\<lambda>(f4, bs). Option.bind (get_w bs) (\<lambda>(f5, bs).
     Option.bind (get_w bs) (\<lambda>(bump, bs). Option.bind (get_w bs) (\<lambda>(padding, bs).
     Some (\<lparr>v_base_oracle = oracle, v_total_assets = total, v_deposit_cap = cap, v_external_assets = ext,
       v_pending_withdrawal_assets = pending, v_fees_payable = fees, v_high_watermark = hwm,
       v_report_epoch = epoch, v_requested_withdrawal_shares = requested, v_last_update_ts = updated,
       v_locked_profit = locked, v_profit_unlock_start_ts = start, v_profit_unlock_end_ts = stop,
       v_tag = tag, v_admin = admin, v_strategist = strategist, v_swap_authority = swap,
       v_nav_authority = nav, v_withdrawal_authority = withdrawal, v_base_mint = base,
       v_share_mint = share, v_treasury = treasury, v_last_report_hash = hash,
       v_access_merkle_root = root, v_controls = controls, v_performance_fee_bps = fee,
       v_withdrawal_buffer_bps = buffer, v_tag_len = tag_len, v_base_decimals = decimals,
       v_deposit_sub_account = dsub, v_withdraw_sub_account = wsub, v_deposits_paused_flag = f1,
       v_withdrawals_paused_flag = f2, v_manage_paused_flag = f3, v_private_flag = f4,
       v_external_enabled_flag = f5, v_bump = bump, v_padding = padding\<rparr>, bs)))))))))))))))))))))))))))))))))))))))"

lemma get_put_vault [simp]:
  "wf_oracle_config (v_base_oracle v) \<Longrightarrow> get_vault (put_vault v @ rest) = Some (v, rest)"
  by (cases v) (simp add: get_vault_def put_vault_def)


definition put_stored_op :: "stored_op \<Rightarrow> bytes" where
  "put_stored_op s = [so_kind s, so_arg0 s, so_arg1 s, so_arg2 s]"

fun get_stored_ops :: "nat \<Rightarrow> bytes \<Rightarrow> (stored_op list \<times> bytes) option" where
  "get_stored_ops 0 bs = Some ([], bs)"
| "get_stored_ops (Suc n) (k # a # b # c # bs) =
     Option.bind (get_stored_ops n bs) (\<lambda>(ss, bs).
     Some (\<lparr>so_kind = k, so_arg0 = a, so_arg1 = b, so_arg2 = c\<rparr> # ss, bs))"
| "get_stored_ops (Suc n) _ = None"

lemma get_put_stored_ops [simp]:
  "get_stored_ops (length ss) (concat (map put_stored_op ss) @ rest) = Some (ss, rest)"
  by (induction ss) (simp_all add: put_stored_op_def)

primrec scope_tag :: "action_scope \<Rightarrow> u8" where
  "scope_tag Manager = 0"
| "scope_tag SwapScope = 1"
| "scope_tag AtomicRedeem = 2"
| "scope_tag FlashApprove = 3"
| "scope_tag Deploy = 4"

definition scope_of_tag :: "u8 \<Rightarrow> action_scope option" where
  "scope_of_tag t =
     (if t = 0 then Some Manager else if t = 1 then Some SwapScope else if t = 2 then Some AtomicRedeem
      else if t = 3 then Some FlashApprove else if t = 4 then Some Deploy else None)"

lemma scope_of_scope_tag [simp]: "scope_of_tag (scope_tag s) = Some s"
  by (cases s) (simp_all add: scope_of_tag_def)

definition put_action :: "action \<Rightarrow> bytes" where
  "put_action a =
     key_bytes (ac_vault a) @ key_bytes (ac_action_hash a) @
     concat (map put_stored_op (ops_array (ac_ops a))) @ to_le_bytes (ops_len (ac_ops a)) @
     to_le_bytes (ac_fee_num a) @ to_le_bytes (ac_fee_den a) @ to_le_bytes (scope_tag (ac_scope a)) @
     to_le_bytes (ac_amount_offset a) @ to_le_bytes (ac_bump a)"

definition get_action :: "bytes \<Rightarrow> (action \<times> bytes) option" where
  "get_action bs =
     Option.bind (get_key bs) (\<lambda>(vault_key, bs). Option.bind (get_key bs) (\<lambda>(hash, bs).
     Option.bind (get_stored_ops MAX_ACTION_OPS bs) (\<lambda>(array, bs). Option.bind (get_w bs) (\<lambda>(len, bs).
     Option.bind (get_w bs) (\<lambda>(num, bs). Option.bind (get_w bs) (\<lambda>(den, bs).
     Option.bind (get_w bs) (\<lambda>(tag, bs). Option.bind (scope_of_tag tag) (\<lambda>scope.
     Option.bind (get_w bs) (\<lambda>(offset, bs). Option.bind (get_w bs) (\<lambda>(bump, bs).
     Some (\<lparr>ac_vault = vault_key, ac_action_hash = hash, ac_ops = \<lparr>ops_array = array, ops_len = len\<rparr>,
            ac_fee_num = num, ac_fee_den = den, ac_scope = scope, ac_amount_offset = offset,
            ac_bump = bump\<rparr>, bs)))))))))))"

lemma get_put_action [simp]: "wf_ops (ac_ops a) \<Longrightarrow> get_action (put_action a @ rest) = Some (a, rest)"
proof -
  assume "wf_ops (ac_ops a)"
  then have n: "MAX_ACTION_OPS = length (ops_array (ac_ops a))" by (simp add: wf_ops_def)
  obtain os l where o': "ac_ops a = \<lparr>ops_array = os, ops_len = l\<rparr>" by (cases "ac_ops a")
  then show ?thesis by (cases a) (simp add: get_action_def put_action_def n)
qed

definition put_ticket :: "withdrawal_ticket \<Rightarrow> bytes" where
  "put_ticket t =
     key_bytes (wt_vault t) @ key_bytes (wt_owner t) @ key_bytes (wt_recipient_token_account t) @
     to_le_bytes (wt_shares_burned t) @ to_le_bytes (wt_assets_owed t) @ to_le_bytes (wt_request_epoch t) @
     to_le_bytes (wt_request_slot t) @ to_le_bytes (wt_ticket_index t) @ to_le_bytes (wt_bump t) @
     to_le_bytes (wt_padding t)"

definition get_ticket :: "bytes \<Rightarrow> (withdrawal_ticket \<times> bytes) option" where
  "get_ticket bs =
     Option.bind (get_key bs) (\<lambda>(vault_key, bs). Option.bind (get_key bs) (\<lambda>(owner, bs).
     Option.bind (get_key bs) (\<lambda>(recipient, bs). Option.bind (get_w bs) (\<lambda>(shares, bs).
     Option.bind (get_w bs) (\<lambda>(owed, bs). Option.bind (get_w bs) (\<lambda>(epoch, bs).
     Option.bind (get_w bs) (\<lambda>(slot, bs). Option.bind (get_w bs) (\<lambda>(index, bs).
     Option.bind (get_w bs) (\<lambda>(bump, bs). Option.bind (get_w bs) (\<lambda>(padding, bs).
     Some (\<lparr>wt_vault = vault_key, wt_owner = owner, wt_recipient_token_account = recipient,
            wt_shares_burned = shares, wt_assets_owed = owed, wt_request_epoch = epoch,
            wt_request_slot = slot, wt_ticket_index = index, wt_bump = bump, wt_padding = padding\<rparr>, bs)))))))))))"

lemma get_put_ticket [simp]: "get_ticket (put_ticket t @ rest) = Some (t, rest)"
  by (cases t) (simp add: get_ticket_def put_ticket_def)

definition put_asset :: "asset \<Rightarrow> bytes" where
  "put_asset a =
     key_bytes (as_vault a) @ key_bytes (as_asset_mint a) @ put_oracle (as_oracle a) @
     to_le_bytes (as_deposit_cap_atoms a) @ to_le_bytes (as_asset_decimals a) @
     to_le_bytes (as_enabled_flag a) @ to_le_bytes (as_routed_flag a) @ to_le_bytes (as_bump a) @
     to_le_bytes (as_padding a)"

definition get_asset :: "bytes \<Rightarrow> (asset \<times> bytes) option" where
  "get_asset bs =
     Option.bind (get_key bs) (\<lambda>(vault_key, bs). Option.bind (get_key bs) (\<lambda>(mint, bs).
     Option.bind (get_oracle bs) (\<lambda>(oracle, bs). Option.bind (get_w bs) (\<lambda>(cap, bs).
     Option.bind (get_w bs) (\<lambda>(decimals, bs). Option.bind (get_w bs) (\<lambda>(enabled, bs).
     Option.bind (get_w bs) (\<lambda>(routed, bs). Option.bind (get_w bs) (\<lambda>(bump, bs).
     Option.bind (get_w bs) (\<lambda>(padding, bs).
     Some (\<lparr>as_vault = vault_key, as_asset_mint = mint, as_oracle = oracle, as_deposit_cap_atoms = cap,
            as_asset_decimals = decimals, as_enabled_flag = enabled, as_routed_flag = routed,
            as_bump = bump, as_padding = padding\<rparr>, bs))))))))))"

lemma get_put_asset [simp]:
  "wf_oracle_config (as_oracle a) \<Longrightarrow> get_asset (put_asset a @ rest) = Some (a, rest)"
  by (cases a) (simp add: get_asset_def put_asset_def)

definition put_destination :: "external_destination \<Rightarrow> bytes" where
  "put_destination d = key_bytes (ed_vault d) @ key_bytes (ed_token_account d) @ to_le_bytes (ed_bump d)"

definition get_destination :: "bytes \<Rightarrow> (external_destination \<times> bytes) option" where
  "get_destination bs =
     Option.bind (get_key bs) (\<lambda>(vault_key, bs). Option.bind (get_key bs) (\<lambda>(acc, bs).
     Option.bind (get_w bs) (\<lambda>(bump, bs).
     Some (\<lparr>ed_vault = vault_key, ed_token_account = acc, ed_bump = bump\<rparr>, bs))))"

lemma get_put_destination [simp]: "get_destination (put_destination d @ rest) = Some (d, rest)"
  by (cases d) (simp add: get_destination_def put_destination_def)

section \<open>Tagged accounts\<close>

primrec wf_account :: "account \<Rightarrow> bool" where
  "wf_account (VaultAccount v) = wf_oracle_config (v_base_oracle v)"
| "wf_account (ActionAccount a) = wf_ops (ac_ops a)"
| "wf_account (WithdrawalTicketAccount t) = True"
| "wf_account (AssetAccount a) = wf_oracle_config (as_oracle a)"
| "wf_account (ExternalDestinationAccount d) = True"
| "wf_account (ProgramConfigAccount p) = True"

primrec account_bytes :: "account \<Rightarrow> bytes" where
  "account_bytes (VaultAccount v) = 1 # put_vault v"
| "account_bytes (ActionAccount a) = 2 # put_action a"
| "account_bytes (WithdrawalTicketAccount t) = 3 # put_ticket t"
| "account_bytes (AssetAccount a) = 4 # put_asset a"
| "account_bytes (ExternalDestinationAccount d) = 5 # put_destination d"
| "account_bytes (ProgramConfigAccount p) = 6 # key_bytes (pc_authority p)"

text \<open>The array types admit only well-formed values; a list of another length has no encoding.\<close>

definition wire_serialize :: "account \<Rightarrow> bytes option" where
  "wire_serialize a = (if wf_account a then Some (account_bytes a) else None)"

fun wire_deserialize :: "bytes \<Rightarrow> account option" where
  "wire_deserialize [] = None"
| "wire_deserialize (tag # bs) =
     (if tag = 1 then map_option (VaultAccount \<circ> fst) (get_vault bs)
      else if tag = 2 then map_option (ActionAccount \<circ> fst) (get_action bs)
      else if tag = 3 then map_option (WithdrawalTicketAccount \<circ> fst) (get_ticket bs)
      else if tag = 4 then map_option (AssetAccount \<circ> fst) (get_asset bs)
      else if tag = 5 then map_option (ExternalDestinationAccount \<circ> fst) (get_destination bs)
      else if tag = 6 then map_option (\<lambda>(k, _). ProgramConfigAccount \<lparr>pc_authority = k\<rparr>) (get_key bs)
      else None)"

lemma wire_round_trip: "wire_serialize a = Some bs \<Longrightarrow> wire_deserialize (bs @ rest) = Some a"
  by (cases a) (auto simp: wire_serialize_def split: if_splits)

text \<open>
  The account layout is a codec the program may rely on: every account decodes from its
  encoding, whatever bytes follow it in the account; encodings have the sizes the account spaces
  are computed from; and a zeroed account decodes to nothing, so an allocated but uninitialised
  account is never taken for a record of the program.
\<close>
lemma account_layout_round_trip:
  "(\<forall>a rest. (case wire_serialize a of
       None \<Rightarrow> \<not> wf_account a
     | Some bs \<Rightarrow> wire_deserialize (bs @ rest) = Some a \<and>
         length bs = (case a of VaultAccount _ \<Rightarrow> 689 | ActionAccount _ \<Rightarrow> 214
           | WithdrawalTicketAccount _ \<Rightarrow> 137 | AssetAccount _ \<Rightarrow> 281 | ExternalDestinationAccount _ \<Rightarrow> 66
           | ProgramConfigAccount _ \<Rightarrow> 33))) \<and>
   wire_deserialize (replicate n 0) = None"
proof (intro conjI allI)
  fix a rest
  have lengths: "wf_oracle_config o' \<Longrightarrow> length (put_oracle o') = 200" "length (put_controls c) = 24"
    "length (concat (map put_stored_op ss)) = 4 * length ss" for o' c ss
    by (simp_all add: put_oracle_def wf_oracle_config_def LEGS_SIZE_def put_controls_def length_concat
        put_stored_op_def comp_def sum_list_triv)
  have "wf_account a \<Longrightarrow> length (account_bytes a) = (case a of VaultAccount _ \<Rightarrow> 689 | ActionAccount _ \<Rightarrow> 214
           | WithdrawalTicketAccount _ \<Rightarrow> 137 | AssetAccount _ \<Rightarrow> 281 | ExternalDestinationAccount _ \<Rightarrow> 66
           | ProgramConfigAccount _ \<Rightarrow> 33)"
    by (cases a) (simp_all add: put_vault_def put_action_def put_ticket_def put_asset_def put_destination_def
        lengths wf_ops_def MAX_ACTION_OPS_def)
  then show "case wire_serialize a of None \<Rightarrow> \<not> wf_account a
     | Some bs \<Rightarrow> wire_deserialize (bs @ rest) = Some a \<and>
         length bs = (case a of VaultAccount _ \<Rightarrow> 689 | ActionAccount _ \<Rightarrow> 214
           | WithdrawalTicketAccount _ \<Rightarrow> 137 | AssetAccount _ \<Rightarrow> 281 | ExternalDestinationAccount _ \<Rightarrow> 66
           | ProgramConfigAccount _ \<Rightarrow> 33)"
    using wire_round_trip [of a] by (simp add: wire_serialize_def)
  show "wire_deserialize (replicate n 0) = None" by (cases n) simp_all
qed

end
