(* ===== verification/Ledger_Facts.thy ===== *)
theory Ledger_Facts
  imports Nav_And_Fees Codec
begin

text \<open>
  What the handlers rely on of the runtime and of the token program, stated over the parameters of
  \<open>env\<close>, and the facts that follow for loading and storing accounts across their calls.
\<close>

section \<open>Assumptions on the runtime\<close>

text \<open>
  Accounts of this program keep owner and data across a call into another program, since only
  the owner may write and the runtime refuses re-entrance; the system program and the classic
  token program write accounts they own only. The instruction builders address their program.
\<close>

definition runtime_ok :: "env \<Rightarrow> bool" where
  "runtime_ok E \<longleftrightarrow>
     (\<forall>ix infos seeds L L' k. invoke_signed E ix infos seeds L = Inr L' \<longrightarrow>
        (ix_program_id ix \<noteq> ID \<and> c_owner (L k) = ID \<or>
         ix_program_id ix \<in> {SYSTEM_PROGRAM_ID, TOKEN_PROGRAM_ID} \<and> c_owner (L k) \<noteq> ix_program_id ix) \<longrightarrow>
        c_owner (L' k) = c_owner (L k) \<and> c_data (L' k) = c_data (L k)) \<and>
     (\<forall>a b n m p. ix_program_id (create_account_ix E a b n m p) = SYSTEM_PROGRAM_ID) \<and>
     (\<forall>a b n. ix_program_id (system_transfer_ix E a b n) = SYSTEM_PROGRAM_ID) \<and>
     (\<forall>a n. ix_program_id (allocate_ix E a n) = SYSTEM_PROGRAM_ID) \<and>
     (\<forall>a p. ix_program_id (assign_ix E a p) = SYSTEM_PROGRAM_ID)"

text \<open>The effect of the token instructions on the supply of a mint.\<close>

definition token_ok :: "env \<Rightarrow> bool" where
  "token_ok E \<longleftrightarrow>
     (\<forall>mint dest auth amount infos seeds L L'.
        invoke_signed E (token_amount_instruction TOKEN_PROGRAM_ID MINT_TO_INSTRUCTION (ai_key mint) dest auth amount)
          infos seeds L = Inr L' \<longrightarrow>
        (\<exists>n n'. mint_supply L mint = Inr n \<and> mint_supply L' mint = Inr n' \<and> unat n' = unat n + unat amount)) \<and>
     (\<forall>mint source auth amount infos seeds L L'.
        invoke_signed E (token_amount_instruction TOKEN_PROGRAM_ID BURN_INSTRUCTION source (ai_key mint) auth amount)
          infos seeds L = Inr L' \<longrightarrow>
        (\<exists>n n'. mint_supply L mint = Inr n \<and> mint_supply L' mint = Inr n' \<and> unat n = unat n' + unat amount)) \<and>
     (\<forall>program mint source dest auth amount infos seeds L L'. is_token_program program \<longrightarrow>
        invoke_signed E (token_amount_instruction program TRANSFER_INSTRUCTION source dest auth amount)
          infos seeds L = Inr L' \<longrightarrow> mint_supply L' mint = mint_supply L mint)"

lemma program_ids_differ [simp]:
  "TOKEN_PROGRAM_ID \<noteq> ID" "TOKEN_2022_PROGRAM_ID \<noteq> ID" "SYSTEM_PROGRAM_ID \<noteq> ID" "ID \<noteq> TOKEN_PROGRAM_ID"
  "SYSTEM_PROGRAM_ID \<noteq> TOKEN_PROGRAM_ID" "TOKEN_PROGRAM_ID \<noteq> SYSTEM_PROGRAM_ID" "ID \<noteq> SYSTEM_PROGRAM_ID"
  by (simp_all add: TOKEN_PROGRAM_ID_def TOKEN_2022_PROGRAM_ID_def SYSTEM_PROGRAM_ID_def ID_def)

lemma token_program_not_ID: "is_token_program k \<Longrightarrow> k \<noteq> ID"
  by (auto simp: is_token_program_def TOKEN_PROGRAM_ID_def TOKEN_2022_PROGRAM_ID_def ID_def)

lemma token_program_not_system: "is_token_program k \<Longrightarrow> k \<noteq> SYSTEM_PROGRAM_ID"
  by (auto simp: is_token_program_def TOKEN_PROGRAM_ID_def TOKEN_2022_PROGRAM_ID_def SYSTEM_PROGRAM_ID_def)

text \<open>The part of a cell that a program's own code depends on.\<close>

definition same_cell :: "ledger \<Rightarrow> ledger \<Rightarrow> key \<Rightarrow> bool" where
  "same_cell L L' k \<longleftrightarrow> c_owner (L' k) = c_owner (L k) \<and> c_data (L' k) = c_data (L k)"

lemma same_cell_refl [simp]: "same_cell L L k"
  by (simp add: same_cell_def)

lemma same_cell_trans: "same_cell L L1 k \<Longrightarrow> same_cell L1 L2 k \<Longrightarrow> same_cell L L2 k"
  by (simp add: same_cell_def)

lemma cpi_keeps_own:
  assumes "runtime_ok E" and "invoke_signed E ix infos seeds L = Inr L'"
    and "ix_program_id ix \<noteq> ID" and "c_owner (L k) = ID"
  shows "same_cell L L' k"
  using assms unfolding runtime_ok_def same_cell_def by blast

lemma cpi_keeps_foreign:
  assumes "runtime_ok E" and "invoke_signed E ix infos seeds L = Inr L'"
    and "ix_program_id ix \<in> {SYSTEM_PROGRAM_ID, TOKEN_PROGRAM_ID}" and "c_owner (L k) \<noteq> ix_program_id ix"
  shows "same_cell L L' k"
  using assms unfolding runtime_ok_def same_cell_def by blast

lemma token_instruction_program [simp]:
  "ix_program_id (token_amount_instruction p t a b c n) = p"
  by (simp add: token_amount_instruction_def)

lemma same_cell_load:
  assumes "same_cell L L' (ai_key a)"
  shows "load_checked E L' a = load_checked E L a" and "account_load E L' a = account_load E L a"
    and "load_vault E L' a = load_vault E L a"
  using assms by (simp_all add: load_checked_def load_vault_def account_load_def same_cell_def)

lemma same_cell_mint: "same_cell L L' (ai_key m) \<Longrightarrow> mint_supply L' m = mint_supply L m"
  by (simp add: mint_supply_def same_cell_def)

lemma mint_to_supply:
  assumes "token_ok E" and "mint_to_signed E p m d a x seeds L = Inr L'" and "ai_key p = TOKEN_PROGRAM_ID"
  obtains n n' where "mint_supply L m = Inr n" and "mint_supply L' m = Inr n'" and "unat n' = unat n + unat x"
  using assms unfolding token_ok_def mint_to_signed_def by metis

lemma burn_supply:
  assumes "token_ok E" and "token_burn E p s m a x L = Inr L'" and "ai_key p = TOKEN_PROGRAM_ID"
  obtains n n' where "mint_supply L m = Inr n" and "mint_supply L' m = Inr n'" and "unat n = unat n' + unat x"
  using assms unfolding token_ok_def token_burn_def invoke_def by metis

lemma transfer_supply:
  assumes "token_ok E"
  shows "token_transfer E p s d a x L = Inr L' \<Longrightarrow> is_token_program (ai_key p) \<Longrightarrow> mint_supply L' m = mint_supply L m"
    and "token_transfer_signed E p s d a x seeds L = Inr L' \<Longrightarrow> is_token_program (ai_key p) \<Longrightarrow>
      mint_supply L' m = mint_supply L m"
  using assms unfolding token_ok_def token_transfer_def token_transfer_signed_def invoke_def by metis+

section \<open>Loading and storing\<close>

lemma load_checked_Inr_iff:
  "load_checked E L a = Inr v \<longleftrightarrow>
     owner_of L a = ID \<and> deserialize E (data_of L a) = Some (VaultAccount v) \<and>
     vault_validate_state v = Inr () \<and> vault_verify_address (find_program_address E) v (ai_key a) = Inr ()"
proof -
  have "(case acc of VaultAccount v \<Rightarrow> Inr v | _ \<Rightarrow> Inl e) = Inr v \<longleftrightarrow> acc = VaultAccount v" for acc and e :: program_error
    by (cases acc) auto
  then show ?thesis by (auto simp: load_checked_def load_vault_def account_load_def result_facts split: if_splits)
qed

lemma set_data_simps [simp]:
  "c_owner (set_data k d L j) = c_owner (L j)" "c_lamports (set_data k d L j) = c_lamports (L j)"
  "c_data (set_data k d L j) = (if j = k then d else c_data (L j))"
  by (simp_all add: set_data_def)

lemma store_account_other:
  "store_account E acc a L = Inr L' \<Longrightarrow> k \<noteq> ai_key a \<Longrightarrow> same_cell L L' k"
  by (auto simp: store_account_def result_facts same_cell_def split: if_splits)

lemma store_account_owner:
  "store_account E acc a L = Inr L' \<Longrightarrow> c_owner (L' k) = c_owner (L k)"
  by (auto simp: store_account_def result_facts split: if_splits)

lemma store_load_vault:
  assumes "codec_ok E" and "store_account E (VaultAccount v') a L = Inr L'" and "owner_of L a = ID"
    and "vault_validate_state v' = Inr ()" and "vault_verify_address (find_program_address E) v' (ai_key a) = Inr ()"
  shows "load_checked E L' a = Inr v'"
proof -
  from assms(2) obtain bs where "serialize E (VaultAccount v') = Some bs"
    and "L' = set_data (ai_key a) (bs @ drop (length bs) (data_of L a)) L"
    by (auto simp: store_account_def overwrite_prefix_def result_facts split: if_splits)
  with assms show ?thesis by (simp add: load_checked_Inr_iff codec_ok_def)
qed

text \<open>The address of a vault depends on its tag, base mint and bump only.\<close>

lemma vault_verify_address_cong:
  "v_tag v = v_tag w \<Longrightarrow> v_tag_len v = v_tag_len w \<Longrightarrow> v_base_mint v = v_base_mint w \<Longrightarrow> v_bump v = v_bump w \<Longrightarrow>
   vault_verify_address pda v k = vault_verify_address pda w k"
  by (simp add: vault_verify_address_def tag_seed_def)

lemma mint_not_vault:
  assumes "mint_supply L m = Inr n" and "owner_of L a = ID"
  shows "ai_key m \<noteq> ai_key a"
proof
  assume "ai_key m = ai_key a"
  then have "is_token_program ID" using assms by (auto simp: mint_supply_def split: if_splits)
  then show False using token_program_not_ID by blast
qed

lemma store_keeps_mint:
  assumes "store_account E acc a L = Inr L'" and "owner_of L a = ID" and "mint_supply L m = Inr n"
  shows "mint_supply L' m = Inr n"
  using assms store_account_other mint_not_vault same_cell_mint by metis


section \<open>Contexts\<close>

lemma require_writable_Inr_iff [result_facts]: "require_writable a = Inr u \<longleftrightarrow> ai_is_writable a"
  by (simp add: require_writable_def)

lemma verify_share_mint_Inr_iff [result_facts]: "verify_share_mint v a = Inr u \<longleftrightarrow> ai_key a = v_share_mint v"
  by (simp add: verify_share_mint_def)

lemma verify_role_Inr_iff [result_facts]:
  "verify_role v r a = Inr u \<longleftrightarrow> ai_is_signer a \<and> authority_for_role v r = ai_key a"
  by (simp add: verify_role_def has_role_def)

lemma next_account_Inr_iff [result_facts]: "next_account xs = Inr (a, rest) \<longleftrightarrow> xs = a # rest"
  by (cases xs) (auto simp: next_account_def)

lemma verify_token_program_for_Inr_iff [result_facts]:
  "verify_token_program_for L p a = Inr u \<longleftrightarrow> is_token_program (ai_key p) \<and> owner_of L a = ai_key p"
  by (auto simp: verify_token_program_for_def verify_token_program_def result_facts)

lemma deposit_context_load_Inr:
  assumes "deposit_context_load E L accounts = Inr ctx"
  shows "load_checked E L (dc_vault_account ctx) = Inr (dc_vault ctx)"
    and "ai_is_signer (dc_depositor ctx)" and "ai_key (dc_share_mint ctx) = v_share_mint (dc_vault ctx)"
    and "ai_key (dc_share_token_program ctx) = TOKEN_PROGRAM_ID"
    and "is_token_program (ai_key (dc_asset_token_program ctx))"
    and "accounts = [dc_depositor ctx, dc_vault_account ctx, dc_source ctx, dc_custody ctx, dc_share_dest ctx,
           dc_share_mint ctx, dc_share_token_program ctx, dc_asset_token_program ctx] @ dc_extra ctx"
  using assms
  by (auto simp: deposit_context_load_def result_facts split: if_splits)

lemma cancel_redeem_context_load_Inr:
  assumes "cancel_redeem_context_load E L accounts = Inr ctx"
  shows "load_checked E L (cc_vault_account ctx) = Inr (cc_vault ctx)"
    and "ai_is_signer (cc_owner ctx)" and "ai_key (cc_share_mint ctx) = v_share_mint (cc_vault ctx)"
    and "ai_key (cc_token_program ctx) = TOKEN_PROGRAM_ID"
    and "load_ticket E L (cc_ticket_account ctx) = Inr (cc_ticket ctx)"
    and "wt_owner (cc_ticket ctx) = ai_key (cc_owner ctx)" and "wt_vault (cc_ticket ctx) = ai_key (cc_vault_account ctx)"
  using assms
  by (auto simp: cancel_redeem_context_load_def require_writable_signer_def result_facts split: if_splits prod.splits)

lemma redeem_context_load_Inr:
  assumes "redeem_context_load E L accounts args = Inr ctx"
  shows "load_checked E L (rc_vault_account ctx) = Inr (rc_vault ctx)"
    and "ai_is_signer (rc_owner ctx)" and "ai_key (rc_share_mint ctx) = v_share_mint (rc_vault ctx)"
    and "ai_key (rc_token_program ctx) = TOKEN_PROGRAM_ID"
    and "data_of L (rc_ticket ctx) = []" and "owner_of L (rc_ticket ctx) = SYSTEM_PROGRAM_ID"
    and "ticket_find_address (find_program_address E) (ai_key (rc_vault_account ctx)) (ai_key (rc_owner ctx))
           (ra_ticket_index args) = (ai_key (rc_ticket ctx), rc_ticket_bump ctx)"
  using assms
  by (auto simp: redeem_context_load_def require_writable_signer_def require_uninitialized_account_def
      result_facts split: if_splits prod.splits)

end
