(* ===== verification/Instruction_Refinement.thy ===== *)
theory Instruction_Refinement
  imports Ledger_Facts
begin

text \<open>
  The instructions of users and of the withdrawal authority, run on a ledger, refine the pricing
  layer: what they do to the stored vault and to the supply of the share mint is a minting step, a
  sequence of payouts, or nothing at all.
\<close>

section \<open>Deposit\<close>

lemma try_deposit_Inr:
  assumes "try_deposit E accounts args L = Inr L'"
  obtains ctx base total n S A clk shares L1 L2 tag where
    "deposit_context_load E L accounts = Inr ctx"
    and "deposits_paused (dc_vault ctx) = Inr False"
    and "allows_depositor (sha256 E) (dc_vault ctx) (ai_key (dc_depositor ctx)) (da_access_proof args)"
    and "resolve_base_atoms E L ctx args = Inr base"
    and "total_assets_after_deposit (dc_vault ctx) base = Inr total"
    and "mint_supply L (dc_share_mint ctx) = Inr n"
    and "economic_share_supply (dc_vault ctx) n = Inr S"
    and "get_clock E = Inr clk"
    and "effective_total_assets (dc_vault ctx) (unix_timestamp clk) = Inr A"
    and "shares_for_deposit base A S (v_base_decimals (dc_vault ctx)) = Inr shares"
    and "da_min_shares_out args \<le> shares"
    and "token_transfer E (dc_asset_token_program ctx) (dc_source ctx) (dc_custody ctx)
           (dc_depositor ctx) (da_amount args) L = Inr L1"
    and "mint_to_signed E (dc_share_token_program ctx) (dc_share_mint ctx) (dc_share_dest ctx)
           (dc_vault_account ctx) shares
           [VAULT_SEED, tag, key_bytes (v_base_mint (dc_vault ctx)), [v_bump (dc_vault ctx)]] L1 = Inr L2"
    and "store_account E (VaultAccount ((dc_vault ctx)\<lparr>v_total_assets := total\<rparr>)) (dc_vault_account ctx) L2 = Inr L'"
  using assms
  by (auto simp: try_deposit_def execute_deposit_def Let_def result_facts not_less split: if_splits)

lemma total_assets_after_deposit_Inr_iff:
  "total_assets_after_deposit v b = Inr t \<longleftrightarrow>
     unat t = unat (v_total_assets v) + unat b \<and> (v_deposit_cap v = 0 \<or> t \<le> v_deposit_cap v)"
  by (auto simp: total_assets_after_deposit_def result_facts word_facts not_less split: if_splits)

lemma effective_after_credit:
  assumes "effective_total_assets v now = Inr A" and "unat t = unat (v_total_assets v) + unat b"
  shows "\<exists>A'. effective_total_assets (v\<lparr>v_total_assets := t\<rparr>) now = Inr A' \<and> unat A' = unat A + unat b"
proof -
  from assms(1) obtain r where r: "remaining_locked_profit v now = Inr r" "unat (v_total_assets v) = unat r + unat A"
    by (auto simp: effective_total_assets_Inr_iff)
  then have "r \<le> t" using assms(2) by (simp add: word_le_nat_alt)
  moreover from this r assms(2) have "unat (t - r) = unat A + unat b" by (simp add: unat_sub word_le_nat_alt)
  moreover have "remaining_locked_profit (v\<lparr>v_total_assets := t\<rparr>) now = Inr r"
    using r(1) by (simp add: remaining_locked_profit_Inr_iff)
  ultimately show ?thesis by (simp add: effective_total_assets_def checked_sub_def)
qed


lemma deposit_refines:
  assumes "codec_ok E" and "runtime_ok E" and "token_ok E"
    and "try_deposit E accounts args L = Inr L'"
  obtains ctx v' n n' base shares clk A S A' where
    "deposit_context_load E L accounts = Inr ctx" and "get_clock E = Inr clk"
    and "deposits_paused (dc_vault ctx) = Inr False"
    and "allows_depositor (sha256 E) (dc_vault ctx) (ai_key (dc_depositor ctx)) (da_access_proof args)"
    and "resolve_base_atoms E L ctx args = Inr base"
    and "load_checked E L' (dc_vault_account ctx) = Inr v'"
    and "mint_supply L (dc_share_mint ctx) = Inr n" and "mint_supply L' (dc_share_mint ctx) = Inr n'"
    and "v' = (dc_vault ctx)\<lparr>v_total_assets := v_total_assets v'\<rparr>"
    and "unat (v_total_assets v') = unat (v_total_assets (dc_vault ctx)) + unat base"
    and "v_deposit_cap v' = 0 \<or> v_total_assets v' \<le> v_deposit_cap v'"
    and "pool_state (dc_vault ctx) n (unix_timestamp clk) = Some (A, S)"
    and "shares_for_deposit base A S (v_base_decimals v') = Inr shares"
    and "da_min_shares_out args \<le> shares" and "unat n' = unat n + unat shares"
    and "effective_total_assets v' (unix_timestamp clk) = Inr A'" and "unat A' = unat A + unat base"
proof -
  from assms(4) obtain ctx base total n S A clk shares L1 L2 tag where
    ctx: "deposit_context_load E L accounts = Inr ctx"
    and guards: "deposits_paused (dc_vault ctx) = Inr False"
      "allows_depositor (sha256 E) (dc_vault ctx) (ai_key (dc_depositor ctx)) (da_access_proof args)"
      "resolve_base_atoms E L ctx args = Inr base"
    and total: "total_assets_after_deposit (dc_vault ctx) base = Inr total"
    and n: "mint_supply L (dc_share_mint ctx) = Inr n"
    and S: "economic_share_supply (dc_vault ctx) n = Inr S"
    and clk: "get_clock E = Inr clk"
    and A: "effective_total_assets (dc_vault ctx) (unix_timestamp clk) = Inr A"
    and sh: "shares_for_deposit base A S (v_base_decimals (dc_vault ctx)) = Inr shares"
    and min: "da_min_shares_out args \<le> shares"
    and t: "token_transfer E (dc_asset_token_program ctx) (dc_source ctx) (dc_custody ctx)
           (dc_depositor ctx) (da_amount args) L = Inr L1"
    and m: "mint_to_signed E (dc_share_token_program ctx) (dc_share_mint ctx) (dc_share_dest ctx)
           (dc_vault_account ctx) shares
           [VAULT_SEED, tag, key_bytes (v_base_mint (dc_vault ctx)), [v_bump (dc_vault ctx)]] L1 = Inr L2"
    and st: "store_account E (VaultAccount ((dc_vault ctx)\<lparr>v_total_assets := total\<rparr>)) (dc_vault_account ctx) L2 = Inr L'"
    by (rule try_deposit_Inr)
  note c = deposit_context_load_Inr [OF ctx]
  let ?v = "dc_vault ctx" and ?va = "dc_vault_account ctx" and ?sm = "dc_share_mint ctx" and ?now = "unix_timestamp clk"
  let ?v' = "?v\<lparr>v_total_assets := total\<rparr>"
  have own: "owner_of L ?va = ID" and valid: "vault_validate_state ?v = Inr ()"
    and addr: "vault_verify_address (find_program_address E) ?v (ai_key ?va) = Inr ()"
    using c(1) by (simp_all add: load_checked_Inr_iff)
  have s1: "same_cell L L1 (ai_key ?va)"
    using cpi_keeps_own [OF assms(2) t [unfolded token_transfer_def invoke_def]] own c(5)
    by (simp add: token_program_not_ID)
  then have own1: "owner_of L1 ?va = ID" using own by (simp add: same_cell_def)
  have s2: "same_cell L1 L2 (ai_key ?va)"
    using cpi_keeps_own [OF assms(2) m [unfolded mint_to_signed_def]] own1 c(4) by simp
  then have own2: "owner_of L2 ?va = ID" using own1 by (simp add: same_cell_def)
  have n1: "mint_supply L1 ?sm = Inr n"
    using transfer_supply(1) [OF assms(3) t c(5)] n by simp
  then obtain n' where n2: "mint_supply L2 ?sm = Inr n'" "unat n' = unat n + unat shares"
    using mint_to_supply [OF assms(3) m c(4)] by (metis Inr_inject)
  have tot: "unat total = unat (v_total_assets ?v) + unat base"
    "v_deposit_cap ?v = 0 \<or> total \<le> v_deposit_cap ?v"
    using total by (simp_all add: total_assets_after_deposit_Inr_iff)
  obtain A' where A': "effective_total_assets ?v' ?now = Inr A'" "unat A' = unat A + unat base"
    using effective_after_credit [OF A tot(1)] by blast
  have "vault_validate_state ?v' = Inr ()"
    using valid tot(1) by (auto simp: vault_validate_state_Inr_iff word_le_nat_alt)
  then have load: "load_checked E L' ?va = Inr ?v'"
    using store_load_vault [OF assms(1) st own2] addr vault_verify_address_cong [of ?v' ?v] by simp
  have ps: "pool_state ?v n ?now = Some (A, S)" using A S by (simp add: pool_state_def)
  show thesis
    by (rule that [OF ctx clk guards load n _ _ _ _ ps _ min n2(2) A'])
       (use tot sh st n2(1) own2 in \<open>simp_all add: store_keeps_mint\<close>)
qed


section \<open>Cancel\<close>

lemma close_account_other:
  assumes "close_account a r L = Inr L'" and "k \<noteq> ai_key a"
  shows "same_cell L L' k"
  using assms
  by (auto simp: close_account_def result_facts same_cell_def set_owner_def set_lamports_def set_data_def Let_def)

lemma close_account_closed:
  assumes "close_account a r L = Inr L'"
  shows "c_owner (L' (ai_key a)) = SYSTEM_PROGRAM_ID" and "c_data (L' (ai_key a)) = []"
    and "c_lamports (L' (ai_key a)) = 0"
  using assms
  by (auto simp: close_account_def result_facts set_owner_def set_lamports_def set_data_def Let_def)

lemma load_ticket_Inr_iff:
  "load_ticket E L a = Inr t \<longleftrightarrow>
     owner_of L a = ID \<and> deserialize E (data_of L a) = Some (WithdrawalTicketAccount t)"
proof -
  have "(case acc of WithdrawalTicketAccount x \<Rightarrow> Inr x | _ \<Rightarrow> Inl e) = Inr t \<longleftrightarrow> acc = WithdrawalTicketAccount t"
    for acc and e :: program_error by (cases acc) auto
  then show ?thesis by (auto simp: load_ticket_def account_load_def result_facts split: if_splits)
qed

lemma ticket_not_vault:
  "load_ticket E L a = Inr t \<Longrightarrow> load_checked E L b = Inr v \<Longrightarrow> ai_key a \<noteq> ai_key b"
  by (auto simp: load_ticket_Inr_iff load_checked_Inr_iff)

lemma mint_to_keeps_vault:
  assumes "runtime_ok E" and "mint_to_signed E p m d a n seeds L = Inr L'" and "ai_key p = TOKEN_PROGRAM_ID"
    and "c_owner (L k) = ID"
  shows "same_cell L L' k"
  using cpi_keeps_own [OF assms(1) assms(2) [unfolded mint_to_signed_def], of k] assms(3,4) by simp

lemma store_requested:
  assumes "codec_ok E" and "load_checked E L va = Inr v" and "same_cell L L2 (ai_key va)"
    and "store_account E (VaultAccount (v\<lparr>v_requested_withdrawal_shares := r\<rparr>)) va L2 = Inr L'"
  shows "load_checked E L' va = Inr (v\<lparr>v_requested_withdrawal_shares := r\<rparr>)"
  using assms store_load_vault [OF assms(1,4)] vault_verify_address_cong [of "v\<lparr>v_requested_withdrawal_shares := r\<rparr>" v]
  by (simp add: load_checked_Inr_iff same_cell_def)

lemma pool_state_transfer:
  assumes "unat n + unat (v_requested_withdrawal_shares v) = unat n' + unat r"
  shows "pool_state (v\<lparr>v_requested_withdrawal_shares := r\<rparr>) n' now = pool_state v n now"
proof -
  have "economic_share_supply (v\<lparr>v_requested_withdrawal_shares := r\<rparr>) n' = economic_share_supply v n"
  proof (cases "economic_share_supply v n")
    case (Inl e)
    then show ?thesis using assms
      by (auto simp: economic_share_supply_def ok_or_Inl_iff checked_add_None_iff ok_or_def split: option.splits)
  next
    case (Inr S)
    then have "unat S = unat n' + unat r" using assms
      by (simp add: economic_share_supply_def result_facts word_facts)
    then have "checked_add n' r = Some S" by (simp add: checked_add_Some_iff)
    then show ?thesis using Inr by (simp add: economic_share_supply_def)
  qed
  then show ?thesis by (simp add: pool_state_def)
qed

lemma cancel_refines:
  assumes "codec_ok E" and "runtime_ok E" and "token_ok E"
    and "try_cancel_redeem E accounts args L = Inr L'"
  obtains ctx r n n' clk where
    "cancel_redeem_context_load E L accounts = Inr ctx" and "get_clock E = Inr clk"
    and "wt_assets_owed (cc_ticket ctx) = 0" and "cr_min_shares_out args \<le> wt_shares_burned (cc_ticket ctx)"
    and "unat (wt_request_slot (cc_ticket ctx)) + 150 \<le> unat (clock_slot clk)"
    and "load_checked E L' (cc_vault_account ctx) = Inr ((cc_vault ctx)\<lparr>v_requested_withdrawal_shares := r\<rparr>)"
    and "unat (v_requested_withdrawal_shares (cc_vault ctx)) = unat (wt_shares_burned (cc_ticket ctx)) + unat r"
    and "mint_supply L (cc_share_mint ctx) = Inr n" and "mint_supply L' (cc_share_mint ctx) = Inr n'"
    and "unat n' = unat n + unat (wt_shares_burned (cc_ticket ctx))"
    and "c_owner (L' (ai_key (cc_ticket_account ctx))) = SYSTEM_PROGRAM_ID"
proof -
  from assms(4) obtain ctx early clk tag L1 L2 r where
    ctx: "cancel_redeem_context_load E L accounts = Inr ctx"
    and owed: "wt_assets_owed (cc_ticket ctx) = 0"
    and clk: "get_clock E = Inr clk"
    and allowed: "cancel_allowed (cc_vault ctx) (cc_ticket ctx) early (clock_slot clk) = Inr ()"
    and min: "cr_min_shares_out args \<le> wt_shares_burned (cc_ticket ctx)"
    and m: "mint_to_signed E (cc_token_program ctx) (cc_share_mint ctx) (cc_share_dest ctx)
         (cc_vault_account ctx) (wt_shares_burned (cc_ticket ctx))
         [VAULT_SEED, tag, key_bytes (v_base_mint (cc_vault ctx)), [v_bump (cc_vault ctx)]] L = Inr L1"
    and close: "close_account (cc_ticket_account ctx) (cc_owner ctx) L1 = Inr L2"
    and r: "unat (v_requested_withdrawal_shares (cc_vault ctx)) = unat (wt_shares_burned (cc_ticket ctx)) + unat r"
    and st: "store_account E (VaultAccount ((cc_vault ctx)\<lparr>v_requested_withdrawal_shares := r\<rparr>))
         (cc_vault_account ctx) L2 = Inr L'"
    by (auto simp: try_cancel_redeem_def Let_def result_facts word_facts not_less split: if_splits)
  note c = cancel_redeem_context_load_Inr [OF ctx]
  let ?va = "cc_vault_account ctx" and ?t = "cc_ticket_account ctx" and ?sm = "cc_share_mint ctx"
  have neq: "ai_key ?t \<noteq> ai_key ?va" using ticket_not_vault [OF c(5,1)] .
  have own: "owner_of L ?va = ID" "owner_of L ?t = ID"
    using c(1,5) by (simp_all add: load_checked_Inr_iff load_ticket_Inr_iff)
  have s1: "same_cell L L1 (ai_key ?va)" "same_cell L L1 (ai_key ?t)"
    using mint_to_keeps_vault [OF assms(2) m c(4)] own by simp_all
  have s2: "same_cell L1 L2 (ai_key ?va)" using close_account_other [OF close] neq by simp
  have s: "same_cell L L2 (ai_key ?va)" using same_cell_trans [OF s1(1) s2] .
  obtain n n' where n: "mint_supply L ?sm = Inr n" "mint_supply L1 ?sm = Inr n'"
    "unat n' = unat n + unat (wt_shares_burned (cc_ticket ctx))"
    by (rule mint_to_supply [OF assms(3) m c(4)])
  have "owner_of L1 ?t = ID" using own(2) s1(2) by (simp add: same_cell_def)
  then have "ai_key ?sm \<noteq> ai_key ?t" using mint_not_vault [OF n(2), of ?t] by simp
  then have n2: "mint_supply L2 ?sm = Inr n'" using same_cell_mint [OF close_account_other [OF close]] n(2) by simp
  have own2: "owner_of L2 ?va = ID" using s own(1) by (simp add: same_cell_def)
  have "unat (wt_request_slot (cc_ticket ctx)) + 150 \<le> unat (clock_slot clk)"
    using allowed
    by (auto simp: cancel_allowed_def REDEEM_CANCEL_DELAY_SLOTS_def Let_def result_facts word_facts
        word_less_nat_alt not_less split: if_splits)
  moreover have "c_owner (L' (ai_key ?t)) = SYSTEM_PROGRAM_ID"
    using close_account_closed(1) [OF close] store_account_owner [OF st] by simp
  ultimately show thesis
    using that [OF ctx clk owed min _ store_requested [OF assms(1) c(1) s st] r n(1) store_keeps_mint [OF st own2 n2] n(3)]
    by blast
qed


section \<open>Redeem\<close>

lemma create_pda_account_keeps:
  assumes "runtime_ok E" and "create_pda_account E payer target sys space owner seeds L = Inr L'"
    and "c_owner (L k) \<noteq> SYSTEM_PROGRAM_ID"
  shows "same_cell L L' k"
proof -
  have ids: "ix_program_id (create_account_ix E a b n m p) = SYSTEM_PROGRAM_ID"
    "ix_program_id (system_transfer_ix E a b n) = SYSTEM_PROGRAM_ID"
    "ix_program_id (allocate_ix E a n) = SYSTEM_PROGRAM_ID" "ix_program_id (assign_ix E a p) = SYSTEM_PROGRAM_ID"
    for a b n m p using assms(1) by (simp_all add: runtime_ok_def)
  have keep: "same_cell M M' k" if "invoke_signed E ix infos sd M = Inr M'" "ix_program_id ix = SYSTEM_PROGRAM_ID"
    "c_owner (M k) \<noteq> SYSTEM_PROGRAM_ID" for ix infos sd M M'
    using cpi_keeps_foreign [OF assms(1) that(1)] that(2,3) by simp
  show ?thesis
  proof (cases "lamports_of L target = 0")
    case True
    then show ?thesis using assms(2,3) keep ids(1)
      by (auto simp: create_pda_account_def result_facts Let_def split: if_splits)
  next
    case False
    with assms(2) obtain m L1 L2 where
      1: "(if 0 < m then invoke E (system_transfer_ix E (ai_key payer) (ai_key target) m)
            [payer, target, sys] L else Inr L) = Inr L1"
      and 2: "invoke_signed E (allocate_ix E (ai_key target) (word_of_nat space)) [payer, target, sys] [seeds] L1 = Inr L2"
      and 3: "invoke_signed E (assign_ix E (ai_key target) owner) [payer, target, sys] [seeds] L2 = Inr L'"
      by (simp add: create_pda_account_def result_facts Let_def) blast
    have s1: "same_cell L L1 k" using 1 keep [OF _ ids(2)] assms(3) by (auto simp: invoke_def split: if_splits)
    then have o1: "c_owner (L1 k) \<noteq> SYSTEM_PROGRAM_ID" using assms(3) by (simp add: same_cell_def)
    have s2: "same_cell L1 L2 k" using keep [OF 2 ids(3) o1] .
    then have "c_owner (L2 k) \<noteq> SYSTEM_PROGRAM_ID" using o1 by (simp add: same_cell_def)
    then have "same_cell L2 L' k" using keep [OF 3 ids(4)] by blast
    then show ?thesis using s1 s2 same_cell_trans by blast
  qed
qed

lemma create_ticket_Inr:
  assumes "create_ticket E ctx t L = Inr L'"
  obtains L1 bs where
    "create_pda_account E (rc_owner ctx) (rc_ticket ctx) (rc_system_program_acc ctx) TICKET_SPACE ID
        [TICKET_SEED, key_bytes (ai_key (rc_vault_account ctx)), key_bytes (ai_key (rc_owner ctx)),
         [rc_ticket_index ctx], [rc_ticket_bump ctx]] L = Inr L1"
    and "serialize E (WithdrawalTicketAccount t) = Some bs"
    and "L' = set_data (ai_key (rc_ticket ctx)) (bs @ drop (length bs) (data_of L1 (rc_ticket ctx))) L1"
  using assms by (auto simp: create_ticket_def overwrite_prefix_def result_facts split: if_splits)

lemma redeem_refines:
  assumes "codec_ok E" and "runtime_ok E" and "token_ok E"
    and "try_redeem E accounts args L = Inr L'"
  obtains ctx r n n' clk A S a where
    "redeem_context_load E L accounts args = Inr ctx" and "get_clock E = Inr clk"
    and "withdrawals_paused (rc_vault ctx) = Inr False" and "ra_shares args \<noteq> 0"
    and "pool_state (rc_vault ctx) n (unix_timestamp clk) = Some (A, S)"
    and "assets_for_redeem (ra_shares args) A S (v_base_decimals (rc_vault ctx)) = Inr a"
    and "load_checked E L' (rc_vault_account ctx) = Inr ((rc_vault ctx)\<lparr>v_requested_withdrawal_shares := r\<rparr>)"
    and "unat r = unat (v_requested_withdrawal_shares (rc_vault ctx)) + unat (ra_shares args)"
    and "mint_supply L (rc_share_mint ctx) = Inr n" and "mint_supply L' (rc_share_mint ctx) = Inr n'"
    and "unat n = unat n' + unat (ra_shares args)"
    and "deserialize E (data_of L' (rc_ticket ctx)) = Some (WithdrawalTicketAccount
           (ticket_new (ai_key (rc_vault_account ctx)) (ai_key (rc_owner ctx)) (ai_key (rc_recipient_token_account ctx))
              (ra_ticket_index args) (ra_shares args) 0 (v_report_epoch (rc_vault ctx)) (clock_slot clk) (rc_ticket_bump ctx)))"
proof -
  from assms(4) obtain ctx n clk S A a L1 L2 r where
    ctx: "redeem_context_load E L accounts args = Inr ctx"
    and pause: "withdrawals_paused (rc_vault ctx) = Inr False" and nz: "ra_shares args \<noteq> 0"
    and n: "mint_supply L (rc_share_mint ctx) = Inr n" and clk: "get_clock E = Inr clk"
    and S: "economic_share_supply (rc_vault ctx) n = Inr S"
    and A: "effective_total_assets (rc_vault ctx) (unix_timestamp clk) = Inr A"
    and a: "assets_for_redeem (ra_shares args) A S (v_base_decimals (rc_vault ctx)) = Inr a"
    and burn: "token_burn E (rc_token_program ctx) (rc_share_source ctx) (rc_share_mint ctx) (rc_owner ctx)
         (ra_shares args) L = Inr L1"
    and tick: "create_ticket E ctx (ticket_new (ai_key (rc_vault_account ctx)) (ai_key (rc_owner ctx))
           (ai_key (rc_recipient_token_account ctx)) (ra_ticket_index args) (ra_shares args) 0
           (v_report_epoch (rc_vault ctx)) (clock_slot clk) (rc_ticket_bump ctx)) L1 = Inr L2"
    and r: "unat r = unat (v_requested_withdrawal_shares (rc_vault ctx)) + unat (ra_shares args)"
    and st: "store_account E (VaultAccount ((rc_vault ctx)\<lparr>v_requested_withdrawal_shares := r\<rparr>))
         (rc_vault_account ctx) L2 = Inr L'"
    by (auto simp: try_redeem_def Let_def result_facts word_facts not_less split: if_splits)
  note c = redeem_context_load_Inr [OF ctx]
  let ?va = "rc_vault_account ctx" and ?t = "rc_ticket ctx" and ?sm = "rc_share_mint ctx"
  have own: "owner_of L ?va = ID" using c(1) by (simp add: load_checked_Inr_iff)
  have neq: "ai_key ?t \<noteq> ai_key ?va" using own c(6) by auto
  have s1: "same_cell L L1 (ai_key ?va)"
    using cpi_keeps_own [OF assms(2) burn [unfolded token_burn_def invoke_def]] own c(4) by simp
  obtain n' where n1: "mint_supply L1 ?sm = Inr n'" "unat n = unat n' + unat (ra_shares args)"
    using burn_supply [OF assms(3) burn c(4)] n by (metis Inr_inject)
  from tick obtain M bs where pda: "create_pda_account E (rc_owner ctx) ?t (rc_system_program_acc ctx) TICKET_SPACE ID
        [TICKET_SEED, key_bytes (ai_key ?va), key_bytes (ai_key (rc_owner ctx)),
         [rc_ticket_index ctx], [rc_ticket_bump ctx]] L1 = Inr M"
    and bs: "serialize E (WithdrawalTicketAccount (ticket_new (ai_key ?va) (ai_key (rc_owner ctx))
           (ai_key (rc_recipient_token_account ctx)) (ra_ticket_index args) (ra_shares args) 0
           (v_report_epoch (rc_vault ctx)) (clock_slot clk) (rc_ticket_bump ctx))) = Some bs"
    and L2: "L2 = set_data (ai_key ?t) (bs @ drop (length bs) (data_of M ?t)) M"
    by (rule create_ticket_Inr)
  have own1: "owner_of L1 ?va = ID" using s1 own by (simp add: same_cell_def)
  have "same_cell L1 M (ai_key ?va)" using create_pda_account_keeps [OF assms(2) pda] own1 by simp
  moreover have set: "same_cell M L2 k" if "k \<noteq> ai_key ?t" for k using L2 that by (simp add: same_cell_def)
  ultimately have s: "same_cell L L2 (ai_key ?va)" using s1 neq same_cell_trans by metis
  have own2: "owner_of L2 ?va = ID" using s own by (simp add: same_cell_def)
  have tp: "is_token_program (owner_of L1 ?sm)" using n1(1) by (auto simp: mint_supply_def split: if_splits)
  have "same_cell L1 M (ai_key ?sm)"
    using create_pda_account_keeps [OF assms(2) pda] token_program_not_system [OF tp] by simp
  moreover have "ai_key ?sm \<noteq> ai_key ?t"
  proof
    assume "ai_key ?sm = ai_key ?t"
    then have "is_token_program SYSTEM_PROGRAM_ID" using n c(6) by (auto simp: mint_supply_def split: if_splits)
    then show False using token_program_not_system by blast
  qed
  ultimately have "mint_supply L2 ?sm = Inr n'" using n1(1) same_cell_mint set same_cell_trans by metis
  then have n2: "mint_supply L' ?sm = Inr n'" using store_keeps_mint [OF st own2] by blast
  have "c_data (L' (ai_key ?t)) = c_data (L2 (ai_key ?t))"
    using store_account_other [OF st] neq by (simp add: same_cell_def)
  then have "deserialize E (data_of L' ?t) = Some (WithdrawalTicketAccount (ticket_new (ai_key ?va) (ai_key (rc_owner ctx))
           (ai_key (rc_recipient_token_account ctx)) (ra_ticket_index args) (ra_shares args) 0
           (v_report_epoch (rc_vault ctx)) (clock_slot clk) (rc_ticket_bump ctx)))"
    using L2 bs assms(1) by (simp add: codec_ok_def)
  moreover have "pool_state (rc_vault ctx) n (unix_timestamp clk) = Some (A, S)" using A S by (simp add: pool_state_def)
  ultimately show thesis
    using that [OF ctx clk pause nz _ a store_requested [OF assms(1) c(1) s st] r n n2 n1(2)] by blast
qed


section \<open>Settlement\<close>

definition settlement_loaded :: "env \<Rightarrow> ledger \<Rightarrow> key \<Rightarrow> ticket_settlement \<Rightarrow> bool" where
  "settlement_loaded E L vault_key s \<longleftrightarrow>
     load_ticket E L (ts_ticket_account s) = Inr (ts_ticket s) \<and> wt_vault (ts_ticket s) = vault_key \<and>
     wt_owner (ts_ticket s) = ai_key (ts_owner s) \<and>
     wt_recipient_token_account (ts_ticket s) = ai_key (ts_destination s) \<and> wt_shares_burned (ts_ticket s) \<noteq> 0 \<and>
     ticket_find_address (find_program_address E) vault_key (ai_key (ts_owner s)) (wt_ticket_index (ts_ticket s))
       = (ai_key (ts_ticket_account s), wt_bump (ts_ticket s))"

abbreviation ticket_key :: "ticket_settlement \<Rightarrow> key" where
  "ticket_key s \<equiv> ai_key (ts_ticket_account s)"

lemma load_settlements_Inr:
  assumes "load_settlements E L va bm it acc = Inr out"
    and "distinct (map ticket_key acc)" and "list_all (settlement_loaded E L (ai_key va)) acc"
  shows "distinct (map ticket_key out) \<and> list_all (settlement_loaded E L (ai_key va)) out"
  using assms
proof (induction it arbitrary: acc rule: length_induct)
  case (1 it)
  show ?case
  proof (cases "(E, L, va, bm, it, acc)" rule: load_settlements.cases)
    case (4 _ _ _ _ ticket_account owner destination rest)
    with "1.prems"(1) obtain t where
      r: "load_settlements E L va bm rest (acc @ [\<lparr>ts_ticket_account = ticket_account, ts_owner = owner,
         ts_destination = destination, ts_ticket = t\<rparr>]) = Inr out"
      and ok: "settlement_loaded E L (ai_key va) \<lparr>ts_ticket_account = ticket_account, ts_owner = owner,
         ts_destination = destination, ts_ticket = t\<rparr>"
      and fresh: "\<forall>s \<in> set acc. ticket_key s \<noteq> ai_key ticket_account"
      by (auto simp: result_facts settlement_loaded_def list_ex_iff split: if_splits prod.splits)
    let ?acc = "acc @ [\<lparr>ts_ticket_account = ticket_account, ts_owner = owner,
         ts_destination = destination, ts_ticket = t\<rparr>]"
    have "length rest < length it" using 4 by simp
    moreover have "distinct (map ticket_key ?acc)" "list_all (settlement_loaded E L (ai_key va)) ?acc"
      using ok fresh "1.prems"(2,3) by (auto simp: image_iff)
    ultimately show ?thesis using "1.IH" r by blast
  qed (use "1.prems" in \<open>auto simp: result_facts\<close>)
qed

lemma pay_settlements_keeps:
  assumes "runtime_ok E" and "is_token_program (ai_key (pw_token_program ctx))"
    and "pay_settlements E ctx seeds ss M = Inr M'" and "c_owner (M k) = ID" and "k \<notin> ticket_key ` set ss"
  shows "same_cell M M' k"
  using assms(3-5)
proof (induction ss arbitrary: M)
  case Nil
  then show ?case by simp
next
  case (Cons s ss)
  from Cons.prems(1) obtain M1 M2 where
    t: "token_transfer_signed E (pw_token_program ctx) (pw_custody ctx) (ts_destination s) (pw_sub_account ctx)
          (wt_assets_owed (ts_ticket s)) seeds M = Inr M1"
    and c: "close_account (ts_ticket_account s) (ts_owner s) M1 = Inr M2"
    and rest: "pay_settlements E ctx seeds ss M2 = Inr M'" by (auto simp: result_facts)
  have 1: "same_cell M M1 k"
    using cpi_keeps_own [OF assms(1) t [unfolded token_transfer_signed_def]] assms(2) Cons.prems(2)
    by (simp add: token_program_not_ID)
  have 2: "same_cell M1 M2 k" using close_account_other [OF c] Cons.prems(3) by simp
  have "c_owner (M2 k) = ID" using 1 2 Cons.prems(2) by (simp add: same_cell_def)
  then show ?case using Cons.IH [OF rest] 1 2 Cons.prems(3) same_cell_trans by (metis image_insert insertCI list.simps(15))
qed

lemma pay_settlements_mint:
  assumes "runtime_ok E" and "token_ok E" and "is_token_program (ai_key (pw_token_program ctx))"
    and "pay_settlements E ctx seeds ss M = Inr M'" and "mint_supply M m = Inr n"
    and "\<forall>s \<in> set ss. c_owner (M (ticket_key s)) = ID" and "distinct (map ticket_key ss)"
  shows "mint_supply M' m = Inr n"
  using assms(4-7)
proof (induction ss arbitrary: M)
  case Nil
  then show ?case by simp
next
  case (Cons s ss)
  from Cons.prems(1) obtain M1 M2 where
    t: "token_transfer_signed E (pw_token_program ctx) (pw_custody ctx) (ts_destination s) (pw_sub_account ctx)
          (wt_assets_owed (ts_ticket s)) seeds M = Inr M1"
    and c: "close_account (ts_ticket_account s) (ts_owner s) M1 = Inr M2"
    and rest: "pay_settlements E ctx seeds ss M2 = Inr M'" by (auto simp: result_facts)
  have n1: "mint_supply M1 m = Inr n"
    using transfer_supply(2) [OF assms(2) t assms(3)] Cons.prems(2) by simp
  have own: "c_owner (M1 (ticket_key u)) = ID" if "u \<in> set (s # ss)" for u
    using cpi_keeps_own [OF assms(1) t [unfolded token_transfer_signed_def], of "ticket_key u"]
      assms(3) Cons.prems(3) that
    by (auto simp: token_program_not_ID same_cell_def)
  then have "ai_key m \<noteq> ticket_key s" using mint_not_vault [OF n1] by simp
  then have n2: "mint_supply M2 m = Inr n" using n1 same_cell_mint [OF close_account_other [OF c]] by simp
  have "c_owner (M2 (ticket_key u)) = ID" if "u \<in> set ss" for u
  proof -
    have "ticket_key u \<in> set (map ticket_key ss)" using that by simp
    then have "ticket_key u \<noteq> ticket_key s" using Cons.prems(4) by (metis distinct.simps(2) list.simps(9))
    then show ?thesis using close_account_other [OF c] own that by (simp add: same_cell_def)
  qed
  then show ?case using Cons.IH [OF rest n2] Cons.prems(4) by simp
qed


lemma process_withdrawals_context_load_Inr:
  assumes "process_withdrawals_context_load E L accounts = Inr ctx"
  shows "load_checked E L (pw_vault_account ctx) = Inr (pw_vault ctx)"
    and "is_token_program (ai_key (pw_token_program ctx))"
    and "ai_key (pw_share_mint ctx) = v_share_mint (pw_vault ctx)"
    and "\<exists>a rest. accounts = a # rest \<and> ai_is_signer a \<and> ai_key a = v_withdrawal_authority (pw_vault ctx)"
    and "distinct (map ticket_key (pw_tickets ctx))"
    and "list_all (settlement_loaded E L (ai_key (pw_vault_account ctx))) (pw_tickets ctx)"
proof -
  obtain bm it where ld: "load_settlements E L (pw_vault_account ctx) bm it [] = Inr (pw_tickets ctx)"
    and *: "load_checked E L (pw_vault_account ctx) = Inr (pw_vault ctx)"
      "is_token_program (ai_key (pw_token_program ctx))" "ai_key (pw_share_mint ctx) = v_share_mint (pw_vault ctx)"
      "\<exists>a rest. accounts = a # rest \<and> ai_is_signer a \<and> ai_key a = v_withdrawal_authority (pw_vault ctx)"
    using assms by (auto simp: process_withdrawals_context_load_def result_facts split: if_splits prod.splits)
  from * show "load_checked E L (pw_vault_account ctx) = Inr (pw_vault ctx)"
    "is_token_program (ai_key (pw_token_program ctx))" "ai_key (pw_share_mint ctx) = v_share_mint (pw_vault ctx)"
    "\<exists>a rest. accounts = a # rest \<and> ai_is_signer a \<and> ai_key a = v_withdrawal_authority (pw_vault ctx)" by blast+
  from load_settlements_Inr [OF ld] show "distinct (map ticket_key (pw_tickets ctx))"
    and "list_all (settlement_loaded E L (ai_key (pw_vault_account ctx))) (pw_tickets ctx)" by simp_all
qed


text \<open>A strike writes accounting fields only.\<close>

definition accounting_update :: "vault \<Rightarrow> vault \<Rightarrow> bool" where
  "accounting_update v v' \<longleftrightarrow> v' = v\<lparr>v_total_assets := v_total_assets v', v_locked_profit := v_locked_profit v',
     v_profit_unlock_start_ts := v_profit_unlock_start_ts v',
     v_requested_withdrawal_shares := v_requested_withdrawal_shares v',
     v_pending_withdrawal_assets := v_pending_withdrawal_assets v'\<rparr>"

lemma accounting_update_refl: "accounting_update v v"
  by (simp add: accounting_update_def)

lemma accounting_update_trans: "accounting_update v w \<Longrightarrow> accounting_update w x \<Longrightarrow> accounting_update v x"
  by (cases v; cases w; cases x) (simp add: accounting_update_def)

lemma strike_ticket_frame:
  assumes "strike_ticket v n t now = Inr (v', t')"
  shows "accounting_update v v'"
proof -
  obtain owed r v1 p where d: "debit_assets_at_effective (v\<lparr>v_requested_withdrawal_shares := r\<rparr>) owed now = Inr v1"
    and v': "v' = v1\<lparr>v_pending_withdrawal_assets := p\<rparr>"
    using assms by (auto simp: strike_ticket_def result_facts split: if_splits)
  show ?thesis using debit_fields(6) [OF d] unfolding v' accounting_update_def
    by (cases v; cases v1) simp
qed

lemma strike_settlements_frame:
  assumes "strike_settlements n now ss v c = Inr (v', ss', c')"
  shows "accounting_update v v'"
  using assms
proof (induction ss arbitrary: v c ss')
  case Nil
  then show ?case by (simp add: accounting_update_refl)
next
  case (Cons s ss)
  from Cons.prems obtain v1 t c1 ss2 where
    t: "if unstruck s then strike_ticket v n (ts_ticket s) now = Inr (v1, t) else v1 = v \<and> t = ts_ticket s"
    and rest: "strike_settlements n now ss v1 c1 = Inr (v', ss2, c')"
    by (rule strike_settlements_Cons)
  have "accounting_update v v1"
    using t strike_ticket_frame accounting_update_refl by (cases "unstruck s") auto
  then show ?case using Cons.IH [OF rest] accounting_update_trans by blast
qed

lemma struck_from_keys:
  "list_all2 (struck_from v) ss ss' \<Longrightarrow> map ticket_key ss' = map ticket_key ss"
proof (induction rule: list_all2_induct)
  case (Cons s ss s' ss')
  then have "ts_ticket_account s' = ts_ticket_account s"
    by (metis struck_from_def ticket_settlement.select_convs(1) ticket_settlement.surjective
        ticket_settlement.update_convs(4))
  with Cons show ?case by simp
qed simp

lemma process_refines:
  assumes "codec_ok E" and "runtime_ok E" and "token_ok E"
    and "try_process_withdrawals E accounts L = Inr L'"
  obtains ctx n clk v1 ss settled p where
    "process_withdrawals_context_load E L accounts = Inr ctx" and "get_clock E = Inr clk"
    and "mint_supply L (pw_share_mint ctx) = Inr n" and "mint_supply L' (pw_share_mint ctx) = Inr n"
    and "strike_settlements n (unix_timestamp clk) (pw_tickets ctx) (pw_vault ctx) 0 = Inr (v1, ss, settled)"
    and "load_checked E L' (pw_vault_account ctx) = Inr (v1\<lparr>v_pending_withdrawal_assets := p\<rparr>)"
    and "unat (v_pending_withdrawal_assets v1) = unat settled + unat p"
proof -
  from assms(4) obtain ctx n clk v1 ss settled L1 p where
    ctx: "process_withdrawals_context_load E L accounts = Inr ctx"
    and n: "mint_supply L (pw_share_mint ctx) = Inr n" and clk: "get_clock E = Inr clk"
    and k: "strike_settlements n (unix_timestamp clk) (pw_tickets ctx) (pw_vault ctx) 0 = Inr (v1, ss, settled)"
    and pay: "pay_settlements E ctx
        [SUB_ACCOUNT_SEED, key_bytes (ai_key (pw_vault_account ctx)), [v_withdraw_sub_account v1],
         [pw_sub_account_bump ctx]] ss L = Inr L1"
    and p: "unat (v_pending_withdrawal_assets v1) = unat settled + unat p"
    and val: "vault_validate_state (v1\<lparr>v_pending_withdrawal_assets := p\<rparr>) = Inr ()"
    and st: "store_account E (VaultAccount (v1\<lparr>v_pending_withdrawal_assets := p\<rparr>)) (pw_vault_account ctx) L1 = Inr L'"
    by (auto simp: try_process_withdrawals_def process_settle_def writable_vault_role_context_store_def
        result_facts word_facts split: if_splits prod.splits)
  note c = process_withdrawals_context_load_Inr [OF ctx]
  let ?va = "pw_vault_account ctx" and ?v1 = "v1\<lparr>v_pending_withdrawal_assets := p\<rparr>"
  have keys: "map ticket_key ss = map ticket_key (pw_tickets ctx)"
    using strike_settlements_tickets [OF k] by (auto elim: struck_from_keys)
  have frame: "v_tag v1 = v_tag (pw_vault ctx)" "v_tag_len v1 = v_tag_len (pw_vault ctx)"
    "v_base_mint v1 = v_base_mint (pw_vault ctx)" "v_bump v1 = v_bump (pw_vault ctx)"
    using strike_settlements_frame [OF k] by (subst accounting_update_def [THEN iffD1], assumption, simp)+
  have own: "owner_of L ?va = ID" using c(1) by (simp add: load_checked_Inr_iff)
  have "ai_key ?va \<notin> ticket_key ` set (pw_tickets ctx)"
  proof
    assume "ai_key ?va \<in> ticket_key ` set (pw_tickets ctx)"
    then obtain s where "s \<in> set (pw_tickets ctx)" "ai_key ?va = ticket_key s" by blast
    then show False using c(6) ticket_not_vault [OF _ c(1)] by (metis list_all_iff settlement_loaded_def)
  qed
  then have "ai_key ?va \<notin> ticket_key ` set ss" using keys by (metis set_map)
  from pay_settlements_keeps [OF assms(2) c(2) pay own this] own have own1: "owner_of L1 ?va = ID"
    by (simp add: same_cell_def)
  have "\<forall>s \<in> set (pw_tickets ctx). c_owner (L (ticket_key s)) = ID"
    using c(6) by (auto simp: list_all_iff settlement_loaded_def load_ticket_Inr_iff)
  then have "\<forall>k \<in> set (map ticket_key ss). c_owner (L k) = ID" unfolding keys by simp
  then have "\<forall>s \<in> set ss. c_owner (L (ticket_key s)) = ID" by simp
  then have "mint_supply L1 (pw_share_mint ctx) = Inr n"
    using pay_settlements_mint [OF assms(2,3) c(2) pay n] c(5) keys by simp
  then have n': "mint_supply L' (pw_share_mint ctx) = Inr n" using store_keeps_mint [OF st own1] by blast
  have "load_checked E L' ?va = Inr ?v1"
    using store_load_vault [OF assms(1) st own1 val] c(1) frame
      vault_verify_address_cong [of ?v1 "pw_vault ctx"] by (simp add: load_checked_Inr_iff)
  with that ctx clk n n' k p show thesis by blast
qed

end
