(* ===== verification/Execution.thy ===== *)
theory Execution
  imports User_Instructions
begin

text \<open>
  \<open>crates/roshi/src/instructions/execution\<close> with its account contexts: relaying a downstream call
  that an action authorizes. A call is rebuilt from the caller's accounts and flags, hashed and
  compared with the action (\<open>validate_authorized_cpi\<close>); then each route adds the custody checks of
  its own: \<open>Manage\<close> and \<open>ManageBatch\<close>, \<open>Swap\<close>, \<open>AtomicRedeem\<close>, \<open>DepositAndDeploy\<close> and the
  \<open>AssertDelegateCleared\<close> backstop.
\<close>

section \<open>An authorized call\<close>

record validated_manage_accounts =
  va_action :: action
  va_vault_key :: key
  va_sub_account_key :: key
  va_sub_account_index :: u8
  va_sub_account_bump :: u8

record authorized_cpi =
  cpi_instruction :: instruction
  cpi_account_infos :: "account_info list"
  cpi_vault_key :: key
  cpi_sub_account_key :: key
  cpi_sub_account_index :: u8
  cpi_sub_account_bump :: u8

definition SPL_APPROVE_TAG :: u8 where "SPL_APPROVE_TAG = 4"

definition has_account_meta :: "authorized_cpi \<Rightarrow> key \<Rightarrow> bool" where
  "has_account_meta cpi k \<longleftrightarrow> list_ex (\<lambda>meta. am_pubkey meta = k) (ix_accounts (cpi_instruction cpi))"

fun scan_custody_loop ::
  "ledger \<Rightarrow> key \<Rightarrow> (account_meta \<times> account_info) list \<Rightarrow> key list program_result" where
  "scan_custody_loop L sub [] = Inr []"
| "scan_custody_loop L sub ((meta, info) # rest) =
     attempt (if am_is_writable meta then is_clean_custody L info sub else Inr False) (\<lambda>clean.
     attempt (scan_custody_loop L sub rest) (\<lambda>keys.
     Inr (if clean then ai_key info # keys else keys)))"

definition scan_subaccount_custody :: "ledger \<Rightarrow> authorized_cpi \<Rightarrow> key list program_result" where
  "scan_subaccount_custody L cpi =
     scan_custody_loop L (cpi_sub_account_key cpi) (zip (ix_accounts (cpi_instruction cpi)) (cpi_account_infos cpi))"

fun reverify_subaccount_custody_except ::
  "ledger \<Rightarrow> authorized_cpi \<Rightarrow> key list \<Rightarrow> key option \<Rightarrow> unit program_result" where
  "reverify_subaccount_custody_except L cpi [] exempt = Inr ()"
| "reverify_subaccount_custody_except L cpi (k # ks) exempt =
     (if exempt = Some k then reverify_subaccount_custody_except L cpi ks exempt else
      attempt (ok_or (find (\<lambda>info. ai_key info = k) (cpi_account_infos cpi))
                 (into_program_error InvalidTokenAccount)) (\<lambda>info.
      attempt (is_clean_custody L info (cpi_sub_account_key cpi)) (\<lambda>clean.
      if \<not> clean then Inl (into_program_error InvalidTokenAccount)
      else reverify_subaccount_custody_except L cpi ks exempt)))"

definition reverify_subaccount_custody :: "ledger \<Rightarrow> authorized_cpi \<Rightarrow> key list \<Rightarrow> unit program_result" where
  "reverify_subaccount_custody L cpi ks = reverify_subaccount_custody_except L cpi ks None"

fun snapshot_custody_loop ::
  "ledger \<Rightarrow> key \<Rightarrow> key list \<Rightarrow> (account_meta \<times> account_info) list \<Rightarrow> (key \<times> u64) list \<Rightarrow>
   (key \<times> u64) list program_result" where
  "snapshot_custody_loop L sub exempt [] snapshot = Inr snapshot"
| "snapshot_custody_loop L sub exempt ((meta, info) # rest) snapshot =
     (if \<not> am_is_writable meta \<or> ai_key info \<in> set exempt \<or> ai_key info \<in> set (map fst snapshot)
      then snapshot_custody_loop L sub exempt rest snapshot else
      attempt (is_clean_custody L info sub) (\<lambda>clean.
      if clean then
        attempt (token_amount L info) (\<lambda>amount.
        snapshot_custody_loop L sub exempt rest (snapshot @ [(ai_key info, amount)]))
      else snapshot_custody_loop L sub exempt rest snapshot))"

definition snapshot_writable_custody ::
  "ledger \<Rightarrow> authorized_cpi \<Rightarrow> key list \<Rightarrow> (key \<times> u64) list program_result" where
  "snapshot_writable_custody L cpi exempt =
     snapshot_custody_loop L (cpi_sub_account_key cpi) exempt
       (zip (ix_accounts (cpi_instruction cpi)) (cpi_account_infos cpi)) []"

fun verify_custody_unchanged :: "ledger \<Rightarrow> authorized_cpi \<Rightarrow> (key \<times> u64) list \<Rightarrow> unit program_result" where
  "verify_custody_unchanged L cpi [] = Inr ()"
| "verify_custody_unchanged L cpi ((k, amount) # rest) =
     attempt (ok_or (find (\<lambda>info. ai_key info = k) (cpi_account_infos cpi))
                (into_program_error InvalidTokenAccount)) (\<lambda>info.
     attempt (is_clean_custody L info (cpi_sub_account_key cpi)) (\<lambda>clean.
     if \<not> clean then Inl (into_program_error InvalidTokenAccount) else
     attempt (token_amount L info) (\<lambda>now_amount.
     if now_amount \<noteq> amount then Inl (into_program_error SwapCustodyMoved)
     else verify_custody_unchanged L cpi rest)))"

fun ingests_loop :: "nat \<Rightarrow> (action_hash_error + op) list \<Rightarrow> bool program_result" where
  "ingests_loop index [] = Inr False"
| "ingests_loop index (x # xs) =
     attempt (map_err (\<lambda>_. into_program_error InvalidOp) x) (\<lambda>decoded.
     case decoded of
       IngestAccount ingested \<Rightarrow> if unat ingested = index then Inr True else ingests_loop index xs
     | _ \<Rightarrow> ingests_loop index xs)"

definition ingests_account :: "ops \<Rightarrow> nat \<Rightarrow> bool program_result" where
  "ingests_account os index =
     attempt (map_err (\<lambda>_. into_program_error InvalidOp) (ops_iter os)) (\<lambda>xs. ingests_loop index xs)"

fun require_writable_metas_loop :: "ops \<Rightarrow> nat \<Rightarrow> account_meta list \<Rightarrow> unit program_result" where
  "require_writable_metas_loop os index [] = Inr ()"
| "require_writable_metas_loop os index (meta # metas) =
     attempt (if am_is_writable meta then attempt (ingests_account os index) (\<lambda>bound. Inr (\<not> bound))
              else Inr False) (\<lambda>unbound.
     if unbound then Inl (into_program_error UnboundAtomicRedeemAccount)
     else require_writable_metas_loop os (index + 1) metas)"

definition require_writable_metas_bound :: "authorized_cpi \<Rightarrow> ops \<Rightarrow> unit program_result" where
  "require_writable_metas_bound cpi os = require_writable_metas_loop os 0 (ix_accounts (cpi_instruction cpi))"

fun require_all_metas_loop :: "ops \<Rightarrow> nat list \<Rightarrow> unit program_result" where
  "require_all_metas_loop os [] = Inr ()"
| "require_all_metas_loop os (index # rest) =
     attempt (ingests_account os index) (\<lambda>bound.
     if \<not> bound then Inl (into_program_error UnboundDeployAccount) else require_all_metas_loop os rest)"

definition require_all_metas_bound :: "authorized_cpi \<Rightarrow> ops \<Rightarrow> unit program_result" where
  "require_all_metas_bound cpi os =
     require_all_metas_loop os [0 ..< length (ix_accounts (cpi_instruction cpi))]"

definition verify_is_approve :: "authorized_cpi \<Rightarrow> unit program_result" where
  "verify_is_approve cpi =
     (if \<not> is_token_program (ix_program_id (cpi_instruction cpi)) then Inl (into_program_error InvalidTokenAccount)
      else if get_nth (ix_data (cpi_instruction cpi)) 0 \<noteq> Some SPL_APPROVE_TAG then Inl InvalidInstructionData
      else Inr ())"

definition approve_source :: "authorized_cpi \<Rightarrow> account_info program_result" where
  "approve_source cpi = ok_or (get_nth (cpi_account_infos cpi) 0) NotEnoughAccountKeys"

definition cpi_verify_flash_delegate :: "ledger \<Rightarrow> authorized_cpi \<Rightarrow> u64 \<Rightarrow> unit program_result" where
  "cpi_verify_flash_delegate L cpi expected_amount =
     attempt (approve_source cpi) (\<lambda>source.
     verify_flash_delegate L source (cpi_sub_account_key cpi) expected_amount)"

section \<open>Sibling instructions\<close>

text \<open>A \<open>LoadedSibling\<close> owns what a \<open>ResolvedSibling\<close> borrows; both are one record here.\<close>

definition instructions_sysvar :: "env \<Rightarrow> ledger \<Rightarrow> account_info list \<Rightarrow> account_info program_result" where
  "instructions_sysvar E L cpi_accounts =
     attempt (ok_or (find (\<lambda>a. ai_key a = INSTRUCTIONS_SYSVAR_ID) cpi_accounts)
                (into_program_error MissingInstructionsSysvar)) (\<lambda>sysvar.
     attempt (load_current_index_checked E L sysvar) (\<lambda>current.
     attempt (load_instruction_at_checked E (unat current) L sysvar) (\<lambda>executing.
     if ix_program_id executing \<noteq> ID then Inl (into_program_error SiblingsRequireTopLevel) else Inr sysvar)))"

fun sibling_indices :: "(action_hash_error + op) list \<Rightarrow> i8 list \<Rightarrow> i8 list program_result" where
  "sibling_indices [] indices = Inr indices"
| "sibling_indices (x # xs) indices =
     attempt (map_err (\<lambda>_. into_program_error InvalidOp) x) (\<lambda>decoded.
     case decoded of
       IngestSiblingInstruction r _ _ \<Rightarrow> sibling_indices xs (if r \<in> set indices then indices else indices @ [r])
     | IngestSiblingAccount r _ \<Rightarrow> sibling_indices xs (if r \<in> set indices then indices else indices @ [r])
     | _ \<Rightarrow> sibling_indices xs indices)"

definition load_sibling :: "env \<Rightarrow> ledger \<Rightarrow> account_info \<Rightarrow> i8 \<Rightarrow> resolved_sibling program_result" where
  "load_sibling E L sysvar relative_index =
     attempt (map_err (\<lambda>_. into_program_error RequiredSiblingMissing)
                (get_instruction_relative E (sint relative_index) L sysvar)) (\<lambda>ix.
     Inr \<lparr>rs_relative_index = relative_index, rs_program_id = ix_program_id ix, rs_data = ix_data ix,
          rs_accounts = map am_pubkey (ix_accounts ix)\<rparr>)"

definition load_required_siblings ::
  "env \<Rightarrow> ledger \<Rightarrow> ops \<Rightarrow> account_info list \<Rightarrow> resolved_sibling list program_result" where
  "load_required_siblings E L os cpi_accounts =
     attempt (map_err (\<lambda>_. into_program_error InvalidOp) (ops_iter os)) (\<lambda>xs.
     attempt (sibling_indices xs []) (\<lambda>indices.
     if indices = [] then Inr [] else
     attempt (instructions_sysvar E L cpi_accounts) (\<lambda>sysvar.
     map_M (load_sibling E L sysvar) indices)))"

section \<open>Validation of a call against its action\<close>

text \<open>
  One rebuilt meta: requested privileges may not exceed those of the supplied account, except
  that the sub-account signs whenever it occurs.
\<close>

definition cpi_meta :: "key \<Rightarrow> account_info \<times> account_flags \<Rightarrow> account_meta program_result" where
  "cpi_meta sub = (\<lambda>(acc, flags).
     if af_is_writable flags \<and> \<not> ai_is_writable acc then Inl InvalidAccountData else
     let is_sub_account = (ai_key acc = sub) in
     if af_is_signer flags \<and> \<not> ai_is_signer acc \<and> \<not> is_sub_account then Inl MissingRequiredSignature else
     let is_signer = (af_is_signer flags \<or> is_sub_account) in
     if af_is_writable flags
     then Inr \<lparr>am_pubkey = ai_key acc, am_is_signer = is_signer, am_is_writable = True\<rparr>
     else Inr \<lparr>am_pubkey = ai_key acc, am_is_signer = is_signer, am_is_writable = False\<rparr>)"

text \<open>The sums of two bytes cannot overflow a \<open>usize\<close>.\<close>

definition validate_authorized_cpi ::
  "env \<Rightarrow> ledger \<Rightarrow> account_info list \<Rightarrow> validated_manage_accounts \<Rightarrow> u8 \<Rightarrow> packed_account_flags \<Rightarrow> bytes \<Rightarrow>
   authorized_cpi program_result" where
  "validate_authorized_cpi E L cpi_accounts va accounts_start account_flags ix_dat =
     (let start = unat accounts_start;
          end' = start + unat (accounts_len account_flags) in
      attempt (ok_or (get_slice cpi_accounts start end') NotEnoughAccountKeys) (\<lambda>meta_accounts.
      attempt (ok_or (get_nth cpi_accounts end') NotEnoughAccountKeys) (\<lambda>cpi_program_acc.
      if \<not> c_executable (L (ai_key cpi_program_acc)) then Inl InvalidAccountData else
      attempt (flags_iter account_flags) (\<lambda>flags.
      attempt (map_M (cpi_meta (va_sub_account_key va)) (zip meta_accounts flags)) (\<lambda>metas.
      attempt (load_required_siblings E L (ac_ops (va_action va)) cpi_accounts) (\<lambda>siblings.
      attempt (map_err action_hash_error_to_program_error
                 (compute_action_hash_from_metas (sha256 E) (ai_key cpi_program_acc) (ac_ops (va_action va))
                    metas ix_dat siblings)) (\<lambda>action_hash.
      if ac_action_hash (va_action va) \<noteq> action_hash then Inl (into_program_error UnauthorizedAction) else
      attempt (ok_or (get_slice cpi_accounts start (end' + 1)) NotEnoughAccountKeys) (\<lambda>infos.
      Inr \<lparr>cpi_instruction = \<lparr>ix_program_id = ai_key cpi_program_acc, ix_accounts = metas, ix_data = ix_dat\<rparr>,
           cpi_account_infos = infos, cpi_vault_key = va_vault_key va,
           cpi_sub_account_key = va_sub_account_key va, cpi_sub_account_index = va_sub_account_index va,
           cpi_sub_account_bump = va_sub_account_bump va\<rparr>))))))))"

definition invoke_authorized_cpi :: "env \<Rightarrow> authorized_cpi \<Rightarrow> ledger \<Rightarrow> ledger program_result" where
  "invoke_authorized_cpi E cpi L =
     invoke_signed E (cpi_instruction cpi) (cpi_account_infos cpi)
       [[SUB_ACCOUNT_SEED, key_bytes (cpi_vault_key cpi), [cpi_sub_account_index cpi], [cpi_sub_account_bump cpi]]] L"

section \<open>Flash approvals\<close>

text \<open>The instruction ops with the offset after their selector, and the account ops with their index.\<close>

fun flash_ops ::
  "(action_hash_error + op) list \<Rightarrow> ((i8 \<times> nat) list \<times> (i8 \<times> nat) list) program_result" where
  "flash_ops [] = Inr ([], [])"
| "flash_ops (x # xs) =
     attempt (map_err (\<lambda>_. into_program_error InvalidOp) x) (\<lambda>decoded.
     attempt (flash_ops xs) (\<lambda>(instruction_ops, account_ops).
     Inr (case decoded of
       IngestSiblingInstruction r offset len \<Rightarrow> ((r, unat offset + unat len) # instruction_ops, account_ops)
     | IngestSiblingAccount r index \<Rightarrow> (instruction_ops, (r, unat index) # account_ops)
     | _ \<Rightarrow> (instruction_ops, account_ops))))"

text \<open>The loop over the committed siblings, with the amount read and the check seen so far.\<close>

fun bind_loop ::
  "env \<Rightarrow> ledger \<Rightarrow> account_info \<Rightarrow> (i8 \<times> nat) list \<Rightarrow> key \<Rightarrow> (i8 \<times> nat) list \<Rightarrow> u64 option \<Rightarrow> bool \<Rightarrow>
   (u64 option \<times> bool) program_result" where
  "bind_loop E L sysvar account_ops source [] flash_amount seen = Inr (flash_amount, seen)"
| "bind_loop E L sysvar account_ops source ((r, amount_offset) # rest) flash_amount seen =
     attempt (ok_or (find (\<lambda>p. fst p = r) account_ops) (into_program_error InvalidOp)) (\<lambda>(_, account_index).
     attempt (map_err (\<lambda>_. into_program_error RequiredSiblingMissing)
                (get_instruction_relative E (sint r) L sysvar)) (\<lambda>ix.
     attempt (ok_or (get_nth (ix_accounts ix) account_index) (into_program_error AccountIndexOutOfBounds)) (\<lambda>tied.
     if am_pubkey tied \<noteq> source then Inl (into_program_error FlashDestinationMismatch)
     else if ix_program_id ix = ID then
       (if seen then Inl (into_program_error InvalidOp)
        else bind_loop E L sysvar account_ops source rest flash_amount True)
     else if flash_amount \<noteq> None then Inl (into_program_error InvalidOp)
     else
       attempt (ok_or (get_slice (ix_data ix) amount_offset (amount_offset + 8))
                  (into_program_error InstructionSliceOutOfBounds)) (\<lambda>bs.
       bind_loop E L sysvar account_ops source rest (Some (from_le_bytes bs)) seen))))"

definition bind_flash_siblings :: "env \<Rightarrow> ledger \<Rightarrow> ops \<Rightarrow> account_info list \<Rightarrow> key \<Rightarrow> u64 program_result" where
  "bind_flash_siblings E L os cpi_accounts source =
     attempt (map_err (\<lambda>_. into_program_error InvalidOp) (ops_iter os)) (\<lambda>xs.
     attempt (flash_ops xs) (\<lambda>(instruction_ops, account_ops).
     if length instruction_ops \<noteq> 2 \<or> length account_ops \<noteq> 2 then Inl (into_program_error InvalidOp) else
     attempt (instructions_sysvar E L cpi_accounts) (\<lambda>sysvar.
     attempt (bind_loop E L sysvar account_ops source instruction_ops None False) (\<lambda>outcome.
     case outcome of (Some amount, True) \<Rightarrow> Inr amount
     | _ \<Rightarrow> Inl (into_program_error RequiredSiblingMissing)))))"

definition settle_authorized_cpi ::
  "env \<Rightarrow> authorized_cpi \<Rightarrow> action \<Rightarrow> account_info list \<Rightarrow> ledger \<Rightarrow> ledger program_result" where
  "settle_authorized_cpi E cpi a cpi_accounts L =
     (case ac_scope a of
        Manager \<Rightarrow>
          attempt (scan_subaccount_custody L cpi) (\<lambda>custody.
          attempt (invoke_authorized_cpi E cpi L) (\<lambda>L1.
          attempt (reverify_subaccount_custody L1 cpi custody) (\<lambda>_. Inr L1)))
      | FlashApprove \<Rightarrow>
          attempt (verify_is_approve cpi) (\<lambda>_.
          attempt (approve_source cpi) (\<lambda>source.
          attempt (bind_flash_siblings E L (ac_ops a) cpi_accounts (ai_key source)) (\<lambda>flash_amount.
          attempt (lift_math (round_with_min1 flash_amount (ac_fee_num a) (ac_fee_den a))) (\<lambda>fee.
          attempt (ok_or (checked_add flash_amount fee) (into_program_error Overflow)) (\<lambda>expected.
          attempt (scan_subaccount_custody L cpi) (\<lambda>custody.
          attempt (invoke_authorized_cpi E cpi L) (\<lambda>L1.
          attempt (reverify_subaccount_custody_except L1 cpi custody (Some (ai_key source))) (\<lambda>_.
          attempt (cpi_verify_flash_delegate L1 cpi expected) (\<lambda>_. Inr L1)))))))))
      | _ \<Rightarrow> Inl (into_program_error UnauthorizedAction))"

section \<open>Manage\<close>

record manage_args =
  ma_sub_account :: u8
  ma_accounts_start :: u8
  ma_account_flags :: packed_account_flags
  ma_ix_data :: bytes

definition verify_action_executor :: "vault \<Rightarrow> account_info \<Rightarrow> action_scope \<Rightarrow> unit program_result" where
  "verify_action_executor v executor scope =
     (case scope of
        Manager \<Rightarrow> verify_role v Strategist executor
      | FlashApprove \<Rightarrow> verify_role v Strategist executor
      | _ \<Rightarrow> Inl (into_program_error UnauthorizedAction))"

definition validate_manage_accounts ::
  "env \<Rightarrow> ledger \<Rightarrow> account_info \<Rightarrow> account_info \<Rightarrow> account_info \<Rightarrow> account_info \<Rightarrow> u8 \<Rightarrow>
   validated_manage_accounts program_result" where
  "validate_manage_accounts E L executor vault_acc sub_account_acc action_acc sub_account_index =
     attempt (load_checked E L vault_acc) (\<lambda>v.
     attempt (sub_account_verify_account E L (ai_key vault_acc) sub_account_index sub_account_acc) (\<lambda>bump.
     attempt (load_action E L action_acc) (\<lambda>a.
     attempt (action_verify_for_vault (find_program_address E) a (ai_key vault_acc) (ai_key action_acc)) (\<lambda>_.
     attempt (verify_action_executor v executor (ac_scope a)) (\<lambda>_.
     attempt (verify_manage_enabled v) (\<lambda>_.
     Inr \<lparr>va_action = a, va_vault_key = ai_key vault_acc, va_sub_account_key = ai_key sub_account_acc,
          va_sub_account_index = sub_account_index, va_sub_account_bump = bump\<rparr>))))))"

record manage_context =
  mc_executor :: account_info
  mc_vault :: account_info
  mc_sub_account :: account_info
  mc_action :: account_info
  mc_cpi_accounts :: "account_info list"

definition manage_context_load :: "account_info list \<Rightarrow> manage_context program_result" where
  "manage_context_load accounts =
     attempt (next_account accounts) (\<lambda>(executor, it).
     attempt (next_account it) (\<lambda>(vault_acc, it).
     attempt (next_account it) (\<lambda>(sub_account, it).
     attempt (next_account it) (\<lambda>(action_acc, it).
     Inr \<lparr>mc_executor = executor, mc_vault = vault_acc, mc_sub_account = sub_account, mc_action = action_acc,
          mc_cpi_accounts = it\<rparr>))))"

text \<open>What \<open>try_manage\<close> and every round of \<open>try_manage_batch\<close> do once the accounts are named.\<close>

definition manage_step ::
  "env \<Rightarrow> account_info \<Rightarrow> account_info \<Rightarrow> account_info \<times> account_info \<Rightarrow> account_info list \<Rightarrow> manage_args \<Rightarrow>
   ledger \<Rightarrow> ledger program_result" where
  "manage_step E executor vault_acc = (\<lambda>(sub_account, action_acc) cpi_accounts args L.
     attempt (validate_manage_accounts E L executor vault_acc sub_account action_acc (ma_sub_account args)) (\<lambda>va.
     attempt (validate_authorized_cpi E L cpi_accounts va (ma_accounts_start args) (ma_account_flags args)
                (ma_ix_data args)) (\<lambda>cpi.
     settle_authorized_cpi E cpi (va_action va) cpi_accounts L)))"

definition try_manage :: "env \<Rightarrow> account_info list \<Rightarrow> manage_args \<Rightarrow> ledger \<Rightarrow> ledger program_result" where
  "try_manage E accounts args L =
     attempt (manage_context_load accounts) (\<lambda>ctx.
     manage_step E (mc_executor ctx) (mc_vault ctx) (mc_sub_account ctx, mc_action ctx) (mc_cpi_accounts ctx) args L)"

fun take_action_accounts ::
  "nat \<Rightarrow> account_info list \<Rightarrow> ((account_info \<times> account_info) list \<times> account_info list) program_result" where
  "take_action_accounts 0 it = Inr ([], it)"
| "take_action_accounts (Suc n) it =
     attempt (next_account it) (\<lambda>(sub_account, it).
     attempt (next_account it) (\<lambda>(action_acc, it).
     attempt (take_action_accounts n it) (\<lambda>(pairs, it). Inr ((sub_account, action_acc) # pairs, it))))"

fun manage_batch_loop ::
  "env \<Rightarrow> account_info \<Rightarrow> account_info \<Rightarrow> account_info list \<Rightarrow> (manage_args \<times> account_info \<times> account_info) list \<Rightarrow>
   ledger \<Rightarrow> ledger program_result" where
  "manage_batch_loop E executor vault_acc cpi_accounts [] L = Inr L"
| "manage_batch_loop E executor vault_acc cpi_accounts ((args, pair) # rest) L =
     attempt (manage_step E executor vault_acc pair cpi_accounts args L) (\<lambda>L1.
     manage_batch_loop E executor vault_acc cpi_accounts rest L1)"

definition try_manage_batch :: "env \<Rightarrow> account_info list \<Rightarrow> manage_args list \<Rightarrow> ledger \<Rightarrow> ledger program_result" where
  "try_manage_batch E accounts actions L =
     attempt (next_account accounts) (\<lambda>(executor, it).
     attempt (next_account it) (\<lambda>(vault_acc, it).
     attempt (take_action_accounts (length actions) it) (\<lambda>(pairs, cpi_accounts).
     manage_batch_loop E executor vault_acc cpi_accounts (zip actions pairs) L)))"

definition try_assert_delegate_cleared :: "account_info list \<Rightarrow> ledger \<Rightarrow> ledger program_result" where
  "try_assert_delegate_cleared accounts L =
     attempt (ok_or (get_nth accounts 0) NotEnoughAccountKeys) (\<lambda>account.
     attempt (assert_delegate_cleared L account) (\<lambda>_. Inr L))"

section \<open>Deposit and deploy\<close>

definition decode_withdrawal_amount :: "bytes \<Rightarrow> action \<Rightarrow> u64 program_result" where
  "decode_withdrawal_amount ix_dat a =
     attempt (ok_or (get_slice ix_dat (unat (ac_amount_offset a)) (unat (ac_amount_offset a) + 8))
                (into_program_error InstructionSliceOutOfBounds)) (\<lambda>bs. Inr (from_le_bytes bs))"

record deposit_and_deploy_args =
  dda_amount :: u64
  dda_min_shares_out :: u64
  dda_access_proof :: "key list"
  dda_accounts_start :: u8
  dda_account_flags :: packed_account_flags
  dda_ix_data :: bytes

definition deposit_and_deploy_context_load ::
  "env \<Rightarrow> ledger \<Rightarrow> account_info list \<Rightarrow>
   (deposit_context \<times> validated_manage_accounts \<times> account_info list) program_result" where
  "deposit_and_deploy_context_load E L accounts =
     attempt (ok_or (get_slice accounts 0 8) NotEnoughAccountKeys) (\<lambda>deposit_accounts.
     attempt (deposit_context_load E L deposit_accounts) (\<lambda>dep.
     attempt (next_account (drop 8 accounts)) (\<lambda>(sub_account, it).
     attempt (next_account it) (\<lambda>(action_account, it).
     let vault_key = ai_key (dc_vault_account dep);
         sub_account_index = v_deposit_sub_account (dc_vault dep) in
     attempt (sub_account_verify_account E L vault_key sub_account_index sub_account) (\<lambda>bump.
     attempt (verify_token_account_mint_and_owner L (dc_custody dep) (v_base_mint (dc_vault dep)) (ai_key sub_account)) (\<lambda>_.
     attempt (verify_custody_account L (dc_custody dep) (ai_key sub_account)) (\<lambda>_.
     attempt (load_action E L action_account) (\<lambda>a.
     attempt (action_verify_for_vault (find_program_address E) a vault_key (ai_key action_account)) (\<lambda>_.
     Inr (dep, \<lparr>va_action = a, va_vault_key = vault_key, va_sub_account_key = ai_key sub_account,
               va_sub_account_index = sub_account_index, va_sub_account_bump = bump\<rparr>, it))))))))))"

definition try_deposit_and_deploy ::
  "env \<Rightarrow> account_info list \<Rightarrow> deposit_and_deploy_args \<Rightarrow> ledger \<Rightarrow> ledger program_result" where
  "try_deposit_and_deploy E accounts args L =
     (if MAX_ACCESS_PROOF_LEN < length (dda_access_proof args) then Inl (into_program_error InvalidAccessProof) else
      attempt (deposit_and_deploy_context_load E L accounts) (\<lambda>(dep, va, cpi_accounts).
      let a = va_action va in
      if ac_scope a \<noteq> Deploy then Inl (into_program_error UnauthorizedAction) else
      attempt (decode_withdrawal_amount (dda_ix_data args) a) (\<lambda>amount.
      if amount \<noteq> dda_amount args then Inl (into_program_error DeployAmountMismatch) else
      attempt (validate_authorized_cpi E L cpi_accounts va (dda_accounts_start args) (dda_account_flags args)
                 (dda_ix_data args)) (\<lambda>cpi.
      attempt (require_all_metas_bound cpi (ac_ops a)) (\<lambda>_.
      attempt (execute_deposit E dep
                 \<lparr>da_asset_mint = v_base_mint (dc_vault dep), da_amount = dda_amount args,
                  da_min_shares_out = dda_min_shares_out args, da_access_proof = dda_access_proof args\<rparr> L) (\<lambda>L1.
      attempt (scan_subaccount_custody L1 cpi) (\<lambda>custody.
      attempt (invoke_authorized_cpi E cpi L1) (\<lambda>L2.
      attempt (reverify_subaccount_custody L2 cpi custody) (\<lambda>_. Inr L2)))))))))"

end
