(* ===== verification/Routes.thy ===== *)
theory Routes
  imports Execution Withdrawals
begin

text \<open>
  \<open>execution/atomic_redeem.rs\<close> and \<open>execution/swap.rs\<close> with their account contexts: the routes that
  measure what the relayed call did to custody and settle on the measured amounts.
\<close>

section \<open>Atomic redemption\<close>

record atomic_redeem_args =
  ara_shares :: u64
  ara_min_output :: u64
  ara_sub_account :: u8
  ara_accounts_start :: u8
  ara_account_flags :: packed_account_flags
  ara_ix_data :: bytes

record atomic_redeem_context =
  ar_owner :: account_info
  ar_vault_account :: account_info
  ar_user_share_account :: account_info
  ar_share_mint :: account_info
  ar_recipient_token_account :: account_info
  ar_custody :: account_info
  ar_base_token_program :: account_info
  ar_sub_account :: account_info
  ar_token_program :: account_info
  ar_cpi_accounts :: "account_info list"
  ar_vault :: vault
  ar_action :: action
  ar_sub_account_bump :: u8

definition atomic_redeem_context_load ::
  "env \<Rightarrow> ledger \<Rightarrow> account_info list \<Rightarrow> atomic_redeem_args \<Rightarrow> atomic_redeem_context program_result" where
  "atomic_redeem_context_load E L accounts args =
     attempt (next_account accounts) (\<lambda>(owner, it).
     attempt (require_writable_signer owner) (\<lambda>_.
     attempt (next_account it) (\<lambda>(vault_account, it).
     attempt (require_writable vault_account) (\<lambda>_.
     attempt (next_account it) (\<lambda>(user_share_account, it).
     attempt (require_writable user_share_account) (\<lambda>_.
     attempt (next_account it) (\<lambda>(share_mint, it).
     attempt (require_writable share_mint) (\<lambda>_.
     attempt (next_account it) (\<lambda>(recipient, it).
     attempt (require_writable recipient) (\<lambda>_.
     attempt (next_account it) (\<lambda>(custody, it).
     attempt (require_writable custody) (\<lambda>_.
     attempt (next_account it) (\<lambda>(base_token_program, it).
     attempt (next_account it) (\<lambda>(sub_account, it).
     attempt (next_account it) (\<lambda>(action_account, it).
     attempt (next_account it) (\<lambda>(token_program, it).
     if ai_key token_program \<noteq> TOKEN_PROGRAM_ID then Inl IncorrectProgramId else
     attempt (load_checked E L vault_account) (\<lambda>v.
     attempt (verify_share_mint v share_mint) (\<lambda>_.
     attempt (verify_token_account_mint_and_owner L user_share_account (v_share_mint v) (ai_key owner)) (\<lambda>_.
     attempt (verify_token_account_mint L recipient (v_base_mint v)) (\<lambda>_.
     attempt (verify_token_program_for L base_token_program recipient) (\<lambda>_.
     attempt (sub_account_verify_account E L (ai_key vault_account) (ara_sub_account args) sub_account) (\<lambda>bump.
     attempt (verify_token_account_mint_and_owner L custody (v_base_mint v) (ai_key sub_account)) (\<lambda>_.
     attempt (verify_token_program_for L base_token_program custody) (\<lambda>_.
     attempt (verify_custody_account L custody (ai_key sub_account)) (\<lambda>_.
     attempt (load_action E L action_account) (\<lambda>a.
     attempt (action_verify_for_vault (find_program_address E) a (ai_key vault_account) (ai_key action_account)) (\<lambda>_.
     Inr \<lparr>ar_owner = owner, ar_vault_account = vault_account, ar_user_share_account = user_share_account,
          ar_share_mint = share_mint, ar_recipient_token_account = recipient, ar_custody = custody,
          ar_base_token_program = base_token_program, ar_sub_account = sub_account,
          ar_token_program = token_program, ar_cpi_accounts = it, ar_vault = v, ar_action = a,
          ar_sub_account_bump = bump\<rparr>)))))))))))))))))))))))))))"

definition validate_redeem_entitlement ::
  "ledger \<Rightarrow> atomic_redeem_context \<Rightarrow> u64 \<Rightarrow> bytes \<Rightarrow> i64 \<Rightarrow> u64 program_result" where
  "validate_redeem_entitlement L ctx shares ix_dat now =
     attempt (token_amount L (ar_user_share_account ctx)) (\<lambda>share_balance.
     if share_balance < shares then Inl (into_program_error InsufficientShares) else
     attempt (mint_supply L (ar_share_mint ctx)) (\<lambda>share_supply.
     attempt (economic_share_supply (ar_vault ctx) share_supply) (\<lambda>economic_supply.
     attempt (effective_total_assets (ar_vault ctx) now) (\<lambda>effective.
     attempt (lift_math (assets_for_redeem shares effective economic_supply (v_base_decimals (ar_vault ctx)))) (\<lambda>max_assets_owed.
     attempt (decode_withdrawal_amount ix_dat (ar_action ctx)) (\<lambda>withdrawal_amount.
     if max_assets_owed < withdrawal_amount then Inl (into_program_error WithdrawalExceedsEntitlement)
     else Inr max_assets_owed))))))"

definition execute_unwind_cpi ::
  "env \<Rightarrow> atomic_redeem_context \<Rightarrow> atomic_redeem_args \<Rightarrow> ledger \<Rightarrow> (u64 \<times> ledger) program_result" where
  "execute_unwind_cpi E ctx args L =
     (let sub_account_key = ai_key (ar_sub_account ctx);
          va = \<lparr>va_action = ar_action ctx, va_vault_key = ai_key (ar_vault_account ctx),
                va_sub_account_key = sub_account_key, va_sub_account_index = ara_sub_account args,
                va_sub_account_bump = ar_sub_account_bump ctx\<rparr> in
      attempt (validate_authorized_cpi E L (ar_cpi_accounts ctx) va (ara_accounts_start args)
                 (ara_account_flags args) (ara_ix_data args)) (\<lambda>cpi.
      if has_account_meta cpi (ai_key (ar_user_share_account ctx)) then Inl (into_program_error UnauthorizedAction) else
      attempt (require_writable_metas_bound cpi (ac_ops (ar_action ctx))) (\<lambda>_.
      attempt (token_amount L (ar_custody ctx)) (\<lambda>pre.
      attempt (invoke_authorized_cpi E cpi L) (\<lambda>L1.
      attempt (verify_custody_account L1 (ar_custody ctx) sub_account_key) (\<lambda>_.
      attempt (token_amount L1 (ar_custody ctx)) (\<lambda>post.
      attempt (ok_or (checked_sub post pre) (into_program_error Overflow)) (\<lambda>received.
      Inr (received, L1)))))))))"

definition settle_atomic_redeem ::
  "env \<Rightarrow> atomic_redeem_context \<Rightarrow> u8 \<Rightarrow> u64 \<Rightarrow> u64 \<Rightarrow> i64 \<Rightarrow> ledger \<Rightarrow> ledger program_result" where
  "settle_atomic_redeem E ctx sub_account_index shares payout now L =
     attempt (token_transfer_signed E (ar_base_token_program ctx) (ar_custody ctx) (ar_recipient_token_account ctx)
                (ar_sub_account ctx) payout
                [SUB_ACCOUNT_SEED, key_bytes (ai_key (ar_vault_account ctx)), [sub_account_index], [ar_sub_account_bump ctx]] L) (\<lambda>L1.
     attempt (token_burn E (ar_token_program ctx) (ar_user_share_account ctx) (ar_share_mint ctx) (ar_owner ctx) shares L1) (\<lambda>L2.
     attempt (debit_assets_at_effective (ar_vault ctx) payout now) (\<lambda>v'.
     attempt (vault_validate_state v') (\<lambda>_.
     store_account E (VaultAccount v') (ar_vault_account ctx) L2))))"

definition try_atomic_redeem ::
  "env \<Rightarrow> account_info list \<Rightarrow> atomic_redeem_args \<Rightarrow> ledger \<Rightarrow> ledger program_result" where
  "try_atomic_redeem E accounts args L =
     attempt (atomic_redeem_context_load E L accounts args) (\<lambda>ctx.
     attempt (withdrawals_paused (ar_vault ctx)) (\<lambda>paused.
     if paused then Inl (into_program_error VaultPaused)
     else if ara_shares args = 0 then Inl (into_program_error ZeroOutput)
     else if ac_scope (ar_action ctx) \<noteq> AtomicRedeem then Inl (into_program_error UnauthorizedAction) else
     attempt (get_clock E) (\<lambda>clk.
     let now = unix_timestamp clk in
     attempt (verify_report_fresh (ar_vault ctx) now) (\<lambda>_.
     attempt (validate_redeem_entitlement L ctx (ara_shares args) (ara_ix_data args) now) (\<lambda>max_assets_owed.
     attempt (execute_unwind_cpi E ctx args L) (\<lambda>(received, L1).
     if max_assets_owed < received then Inl (into_program_error WithdrawalExceedsEntitlement) else
     attempt (lift_math (bps_ceil received (atomic_redeem_fee_bps (v_controls (ar_vault ctx))))) (\<lambda>fee.
     attempt (ok_or (checked_sub received fee) (into_program_error Overflow)) (\<lambda>payout.
     if payout < ara_min_output args then Inl (into_program_error SlippageExceeded) else
     settle_atomic_redeem E ctx (ara_sub_account args) (ara_shares args) payout now L1))))))))"

section \<open>Swap\<close>

record swap_args =
  swa_min_out :: u64
  swa_max_in :: u64
  swa_sub_account :: u8
  swa_accounts_start :: u8
  swa_account_flags :: packed_account_flags
  swa_ix_data :: bytes

datatype leg_pricing = BasePricing | AssetPricing (asset_decimals: u8) (asset_is_routed: bool) (asset_leg: oracle_leg)

definition leg_pricing_parse ::
  "env \<Rightarrow> ledger \<Rightarrow> vault \<Rightarrow> key \<Rightarrow> key \<Rightarrow> account_info list \<Rightarrow> (leg_pricing \<times> account_info list) program_result" where
  "leg_pricing_parse E L v vault_key mint accounts =
     (if mint = v_base_mint v then Inr (BasePricing, accounts) else
      attempt (ok_or (get_nth accounts 0) NotEnoughAccountKeys) (\<lambda>asset_account.
      if ai_key asset_account \<noteq> fst (asset_find_address (find_program_address E) vault_key mint)
      then Inl (into_program_error UnpriceableSwapLeg) else
      attempt (map_err (\<lambda>_. into_program_error UnpriceableSwapLeg) (load_asset E L asset_account)) (\<lambda>a.
      attempt (asset_routed a) (\<lambda>routed.
      attempt (leg_parse (as_oracle a) (drop 1 accounts)) (\<lambda>(oracle, remaining).
      Inr (AssetPricing (as_asset_decimals a) routed oracle, remaining))))))"

primrec leg_routed :: "leg_pricing \<Rightarrow> bool" where
  "leg_routed BasePricing = False"
| "leg_routed (AssetPricing decimals routed leg) = routed"

fun read_asset_price ::
  "env \<Rightarrow> ledger \<Rightarrow> leg_pricing \<Rightarrow> read_session \<Rightarrow> clock \<Rightarrow> (oracle_price option \<times> read_session) program_result" where
  "read_asset_price E L BasePricing prices clk = Inr (None, prices)"
| "read_asset_price E L (AssetPricing decimals routed leg) prices clk =
     attempt (session_read E L prices leg clk) (\<lambda>(price, prices). Inr (Some price, prices))"

fun value_in_base_atoms ::
  "leg_pricing \<Rightarrow> vault \<Rightarrow> u64 \<Rightarrow> oracle_price option \<Rightarrow> oracle_price option \<Rightarrow> u64 program_result" where
  "value_in_base_atoms BasePricing v amount asset_price base_price = Inr amount"
| "value_in_base_atoms (AssetPricing decimals routed leg) v amount asset_price base_price =
     attempt (ok_or asset_price InvalidAccountData) (\<lambda>asset_price.
     attempt (if routed then ok_or base_price InvalidAccountData else Inr UNIT) (\<lambda>base_price.
     lift_math (base_atoms_from_asset_atoms amount asset_price base_price decimals (v_base_decimals v))))"

record swap_valuation =
  sv_input :: leg_pricing
  sv_output :: leg_pricing
  sv_base_leg :: "oracle_leg option"

definition swap_valuation_parse ::
  "env \<Rightarrow> ledger \<Rightarrow> vault \<Rightarrow> key \<Rightarrow> key \<Rightarrow> key \<Rightarrow> account_info list \<Rightarrow>
   (swap_valuation \<times> account_info list) program_result" where
  "swap_valuation_parse E L v vault_key input_mint output_mint accounts =
     attempt (leg_pricing_parse E L v vault_key input_mint accounts) (\<lambda>(input, remaining).
     attempt (leg_pricing_parse E L v vault_key output_mint remaining) (\<lambda>(output, remaining).
     attempt (if leg_routed input \<or> leg_routed output
              then attempt (leg_parse (v_base_oracle v) remaining) (\<lambda>(leg, after). Inr (Some leg, after))
              else Inr (None, remaining)) (\<lambda>(base_leg, remaining).
     Inr (\<lparr>sv_input = input, sv_output = output, sv_base_leg = base_leg\<rparr>, remaining))))"

definition swap_values ::
  "env \<Rightarrow> ledger \<Rightarrow> swap_valuation \<Rightarrow> vault \<Rightarrow> u64 \<Rightarrow> u64 \<Rightarrow> clock \<Rightarrow> (u64 \<times> u64) program_result" where
  "swap_values E L val v spent received clk =
     attempt (case sv_base_leg val of
                Some leg \<Rightarrow> attempt (session_read E L [] leg clk) (\<lambda>(price, prices). Inr (Some price, prices))
              | None \<Rightarrow> Inr (None, [])) (\<lambda>(base_price, prices).
     attempt (read_asset_price E L (sv_input val) prices clk) (\<lambda>(input_price, prices).
     attempt (read_asset_price E L (sv_output val) prices clk) (\<lambda>(output_price, prices).
     attempt (value_in_base_atoms (sv_input val) v spent input_price base_price) (\<lambda>spent_value.
     attempt (value_in_base_atoms (sv_output val) v received output_price base_price) (\<lambda>received_value.
     Inr (spent_value, received_value))))))"

record swap_context =
  sx_sub_account :: account_info
  sx_input_custody :: account_info
  sx_output_custody :: account_info
  sx_cpi_accounts :: "account_info list"
  sx_action :: action
  sx_vault :: vault
  sx_vault_key :: key
  sx_sub_account_index :: u8
  sx_sub_account_bump :: u8
  sx_valuation :: "swap_valuation option"

definition swap_context_load ::
  "env \<Rightarrow> ledger \<Rightarrow> account_info list \<Rightarrow> swap_args \<Rightarrow> swap_context program_result" where
  "swap_context_load E L accounts args =
     attempt (next_account accounts) (\<lambda>(swap_executor, it).
     attempt (next_account it) (\<lambda>(vault_account, it).
     attempt (load_checked E L vault_account) (\<lambda>v.
     attempt (verify_either_role v SwapAuthority Strategist swap_executor) (\<lambda>_.
     attempt (verify_manage_enabled v) (\<lambda>_.
     attempt (next_account it) (\<lambda>(sub_account, it).
     attempt (sub_account_verify_account E L (ai_key vault_account) (swa_sub_account args) sub_account) (\<lambda>bump.
     attempt (next_account it) (\<lambda>(input_custody, it).
     attempt (require_writable input_custody) (\<lambda>_.
     attempt (verify_swap_endpoint_custody L input_custody (ai_key sub_account)) (\<lambda>_.
     attempt (next_account it) (\<lambda>(output_custody, it).
     attempt (require_writable output_custody) (\<lambda>_.
     attempt (verify_swap_endpoint_custody L output_custody (ai_key sub_account)) (\<lambda>_.
     if ai_key input_custody = ai_key output_custody then Inl (into_program_error InvalidTokenAccount) else
     attempt (next_account it) (\<lambda>(action_account, it).
     attempt (load_action E L action_account) (\<lambda>a.
     attempt (action_verify_for_vault (find_program_address E) a (ai_key vault_account) (ai_key action_account)) (\<lambda>_.
     if ac_scope a \<noteq> SwapScope then Inl (into_program_error UnauthorizedAction) else
     attempt (if 0 < max_swap_slippage_bps (v_controls v) then
                attempt (token_account_mint L input_custody) (\<lambda>input_mint.
                attempt (token_account_mint L output_custody) (\<lambda>output_mint.
                attempt (swap_valuation_parse E L v (ai_key vault_account) input_mint output_mint it) (\<lambda>(val, after).
                Inr (Some val, after))))
              else Inr (None, it)) (\<lambda>(valuation, remaining).
     Inr \<lparr>sx_sub_account = sub_account, sx_input_custody = input_custody, sx_output_custody = output_custody,
          sx_cpi_accounts = remaining, sx_action = a, sx_vault = v, sx_vault_key = ai_key vault_account,
          sx_sub_account_index = swa_sub_account args, sx_sub_account_bump = bump,
          sx_valuation = valuation\<rparr>)))))))))))))))))"

definition execute_swap_cpi ::
  "env \<Rightarrow> swap_context \<Rightarrow> swap_args \<Rightarrow> ledger \<Rightarrow> (u64 \<times> u64 \<times> ledger) program_result" where
  "execute_swap_cpi E ctx args L =
     (let input = sx_input_custody ctx; output = sx_output_custody ctx in
      attempt (token_amount L input) (\<lambda>in_pre.
      attempt (token_amount L output) (\<lambda>out_pre.
      let in_pre_data = data_of L input; out_pre_data = data_of L output;
          va = \<lparr>va_action = sx_action ctx, va_vault_key = sx_vault_key ctx,
                va_sub_account_key = ai_key (sx_sub_account ctx),
                va_sub_account_index = sx_sub_account_index ctx, va_sub_account_bump = sx_sub_account_bump ctx\<rparr> in
      attempt (validate_authorized_cpi E L (sx_cpi_accounts ctx) va (swa_accounts_start args)
                 (swa_account_flags args) (swa_ix_data args)) (\<lambda>cpi.
      attempt (snapshot_writable_custody L cpi [ai_key input, ai_key output]) (\<lambda>custody.
      attempt (invoke_authorized_cpi E cpi L) (\<lambda>L1.
      attempt (verify_custody_unchanged L1 cpi custody) (\<lambda>_.
      attempt (verify_swap_endpoint_unchanged in_pre_data L1 input) (\<lambda>_.
      attempt (verify_swap_endpoint_unchanged out_pre_data L1 output) (\<lambda>_.
      attempt (token_amount L1 input) (\<lambda>in_post.
      attempt (token_amount L1 output) (\<lambda>out_post.
      attempt (ok_or (checked_sub in_pre in_post) (into_program_error Overflow)) (\<lambda>spent.
      attempt (ok_or (checked_sub out_post out_pre) (into_program_error Overflow)) (\<lambda>received.
      if swa_max_in args < spent then Inl (into_program_error SlippageExceeded)
      else if received < swa_min_out args then Inl (into_program_error SlippageExceeded)
      else Inr (spent, received, L1))))))))))))))"

definition verify_swap_value :: "env \<Rightarrow> swap_context \<Rightarrow> u64 \<Rightarrow> u64 \<Rightarrow> ledger \<Rightarrow> unit program_result" where
  "verify_swap_value E ctx spent received L =
     (case sx_valuation ctx of
        None \<Rightarrow> Inr ()
      | Some valuation \<Rightarrow>
          attempt (get_clock E) (\<lambda>clk.
          attempt (swap_values E L valuation (sx_vault ctx) spent received clk) (\<lambda>(spent_value, received_value).
          attempt (ok_or (checked_sub BPS_DENOMINATOR (max_swap_slippage_bps (v_controls (sx_vault ctx))))
                     (into_program_error Overflow)) (\<lambda>tolerated_bps.
          attempt (lift_math (mul_div_ceil_u64 spent_value (ucast tolerated_bps) (ucast BPS_DENOMINATOR))) (\<lambda>min_value.
          if received_value < min_value then Inl (into_program_error SlippageExceeded) else Inr ())))))"

definition try_swap :: "env \<Rightarrow> account_info list \<Rightarrow> swap_args \<Rightarrow> ledger \<Rightarrow> ledger program_result" where
  "try_swap E accounts args L =
     attempt (swap_context_load E L accounts args) (\<lambda>ctx.
     attempt (execute_swap_cpi E ctx args L) (\<lambda>(spent, received, L1).
     attempt (verify_swap_value E ctx spent received L1) (\<lambda>_. Inr L1)))"

end
