(* ===== verification/Administration.thy ===== *)
theory Administration
  imports Token
begin

text \<open>
  \<open>crates/roshi/src/instructions/admin\<close> with its account contexts: program and vault initialization,
  role and configuration setters, assets, action authorizations and their fee rates, external
  destinations and the movement of cash to and from them, and the share metadata. Reports, fees and
  withdrawal settlement have theories of their own.
\<close>

section \<open>Writing a fresh account\<close>

text \<open>
  \<open>data[..serialized.len()].copy_from_slice(&serialized)\<close> without a length check on the account: the
  slice panics when the account is shorter.
\<close>

definition copy_serialized :: "bytes \<Rightarrow> account_info \<Rightarrow> ledger \<Rightarrow> ledger program_result" where
  "copy_serialized serialized a L =
     (if length (data_of L a) < length serialized then Inl Panicked
      else Inr (set_data (ai_key a) (overwrite_prefix serialized (data_of L a)) L))"

definition store_new_account :: "env \<Rightarrow> account \<Rightarrow> nat \<Rightarrow> account_info \<Rightarrow> ledger \<Rightarrow> ledger program_result" where
  "store_new_account E account space a L =
     attempt (ok_or (serialize E account) InvalidAccountData) (\<lambda>serialized.
     if space < length serialized then Inl InvalidAccountData else copy_serialized serialized a L)"

definition VAULT_SPACE :: nat where "VAULT_SPACE = 689"
definition ACTION_SPACE :: nat where "ACTION_SPACE = 225"
definition ASSET_SPACE :: nat where "ASSET_SPACE = 281"
definition EXTERNAL_DESTINATION_SPACE :: nat where "EXTERNAL_DESTINATION_SPACE = 66"
definition PROGRAM_CONFIG_SPACE :: nat where "PROGRAM_CONFIG_SPACE = 33"

section \<open>The program configuration\<close>

record initialize_program_args =
  ipa_authority :: key

record initialize_program_context =
  ip_payer :: account_info
  ip_program_config :: account_info
  ip_system_program_acc :: account_info
  ip_program_config_bump :: u8

definition initialize_program_context_load ::
  "env \<Rightarrow> ledger \<Rightarrow> account_info list \<Rightarrow> initialize_program_context program_result" where
  "initialize_program_context_load E L accounts =
     attempt (next_account accounts) (\<lambda>(payer, it).
     attempt (require_writable_signer payer) (\<lambda>_.
     attempt (next_account it) (\<lambda>(program, it).
     if ai_key program \<noteq> ID then Inl IncorrectProgramId
     else if \<not> ai_is_signer program then Inl MissingRequiredSignature else
     attempt (next_account it) (\<lambda>(config_acc, it).
     attempt (require_uninitialized_account L config_acc) (\<lambda>_.
     attempt (next_account it) (\<lambda>(system_program_acc, it).
     attempt (require_system_program system_program_acc) (\<lambda>_.
     attempt (program_config_verify_address E config_acc) (\<lambda>bump.
     Inr \<lparr>ip_payer = payer, ip_program_config = config_acc, ip_system_program_acc = system_program_acc,
          ip_program_config_bump = bump\<rparr>))))))))"

definition create_config_account :: "env \<Rightarrow> initialize_program_context \<Rightarrow> ledger \<Rightarrow> ledger program_result" where
  "create_config_account E ctx L =
     create_pda_account E (ip_payer ctx) (ip_program_config ctx) (ip_system_program_acc ctx) PROGRAM_CONFIG_SPACE ID
       [PROGRAM_CONFIG_SEED, [ip_program_config_bump ctx]] L"

definition store_config :: "env \<Rightarrow> initialize_program_context \<Rightarrow> key \<Rightarrow> ledger \<Rightarrow> ledger program_result" where
  "store_config E ctx authority L =
     attempt (ok_or (serialize E (ProgramConfigAccount (program_config_new authority))) InvalidAccountData)
       (\<lambda>serialized. copy_serialized serialized (ip_program_config ctx) L)"

definition try_initialize_program ::
  "env \<Rightarrow> account_info list \<Rightarrow> initialize_program_args \<Rightarrow> ledger \<Rightarrow> ledger program_result" where
  "try_initialize_program E accounts args L =
     attempt (initialize_program_context_load E L accounts) (\<lambda>ctx.
     attempt (create_config_account E ctx L) (\<lambda>L1.
     store_config E ctx (ipa_authority args) L1))"

definition program_config_authority_context_load ::
  "env \<Rightarrow> ledger \<Rightarrow> account_info \<Rightarrow> account_info \<Rightarrow> program_config program_result" where
  "program_config_authority_context_load E L authority config_acc =
     attempt (program_config_verify_address E config_acc) (\<lambda>_.
     attempt (load_program_config E L config_acc) (\<lambda>config.
     if ai_key authority \<noteq> pc_authority config then Inl IllegalOwner
     else if \<not> ai_is_signer authority then Inl MissingRequiredSignature
     else Inr config))"

definition writable_program_config_authority_context_load ::
  "env \<Rightarrow> ledger \<Rightarrow> account_info \<Rightarrow> account_info \<Rightarrow> program_config program_result" where
  "writable_program_config_authority_context_load E L authority config_acc =
     attempt (require_writable config_acc) (\<lambda>_. program_config_authority_context_load E L authority config_acc)"

definition program_config_set_authority :: "key \<Rightarrow> program_config \<Rightarrow> program_config" where
  "program_config_set_authority authority config = config\<lparr>pc_authority := authority\<rparr>"

definition try_transfer_program_authority ::
  "env \<Rightarrow> account_info list \<Rightarrow> key \<Rightarrow> ledger \<Rightarrow> ledger program_result" where
  "try_transfer_program_authority E accounts new_authority L =
     attempt (next_account accounts) (\<lambda>(authority, it).
     attempt (next_account it) (\<lambda>(config_acc, it).
     attempt (writable_program_config_authority_context_load E L authority config_acc) (\<lambda>config.
     store_account E (ProgramConfigAccount (program_config_set_authority new_authority config)) config_acc L)))"

section \<open>Initialization of a vault\<close>

record initialize_vault_args =
  iva_tag :: key
  iva_tag_len :: u8
  iva_admin :: key
  iva_strategist :: key
  iva_swap_authority :: key
  iva_nav_authority :: key
  iva_withdrawal_authority :: key
  iva_base_mint :: key
  iva_base_decimals :: u8
  iva_base_oracle :: oracle_config
  iva_deposit_sub_account :: u8
  iva_withdraw_sub_account :: u8
  iva_treasury :: key
  iva_performance_fee_bps :: u16
  iva_withdrawal_buffer_bps :: u16
  iva_deposit_cap :: u64
  iva_controls :: vault_controls
  iva_private :: bool
  iva_access_merkle_root :: key

record initialize_vault_context =
  iv_payer :: account_info
  iv_vault :: account_info
  iv_base_mint_account :: account_info
  iv_share_mint_account :: account_info
  iv_treasury :: account_info
  iv_system_program_acc :: account_info
  iv_token_program_acc :: account_info
  iv_tag :: bytes
  iv_base_mint :: key
  iv_share_mint_bump :: u8
  iv_vault_bump :: u8

text \<open>The context keeps \<open>tag[..tag_len]\<close>, the only part of the packed tag it uses.\<close>

definition initialize_vault_context_load ::
  "env \<Rightarrow> ledger \<Rightarrow> account_info list \<Rightarrow> initialize_vault_args \<Rightarrow> initialize_vault_context program_result" where
  "initialize_vault_context_load E L accounts args =
     attempt (next_account accounts) (\<lambda>(program_authority, it).
     attempt (next_account it) (\<lambda>(config_acc, it).
     attempt (next_account it) (\<lambda>(payer, it).
     attempt (require_writable_signer payer) (\<lambda>_.
     attempt (next_account it) (\<lambda>(vault_acc, it).
     attempt (require_uninitialized_account L vault_acc) (\<lambda>_.
     attempt (next_account it) (\<lambda>(base_mint_account, it).
     attempt (next_account it) (\<lambda>(share_mint_account, it).
     attempt (require_writable share_mint_account) (\<lambda>_.
     attempt (require_uninitialized_account L share_mint_account) (\<lambda>_.
     attempt (next_account it) (\<lambda>(treasury, it).
     attempt (next_account it) (\<lambda>(system_program_acc, it).
     attempt (require_system_program system_program_acc) (\<lambda>_.
     attempt (next_account it) (\<lambda>(token_program_acc, it).
     if ai_key token_program_acc \<noteq> TOKEN_PROGRAM_ID then Inl IncorrectProgramId else
     attempt (program_config_authority_context_load E L program_authority config_acc) (\<lambda>_.
     attempt (unpack_tag (iva_tag args) (iva_tag_len args)) (\<lambda>unpacked.
     attempt (pack_tag unpacked) (\<lambda>(tag, tag_len).
     let tag_bytes = take (unat tag_len) (key_bytes tag) in
     attempt (vault_find_address (find_program_address E) tag_bytes (iva_base_mint args)) (\<lambda>(expected_vault_key, vault_bump).
     if ai_key vault_acc \<noteq> expected_vault_key then Inl InvalidSeeds else
     let (expected_share_mint_key, share_mint_bump) = find_share_mint_address (find_program_address E) (ai_key vault_acc) in
     if ai_key share_mint_account \<noteq> expected_share_mint_key then Inl InvalidSeeds else
     Inr \<lparr>iv_payer = payer, iv_vault = vault_acc, iv_base_mint_account = base_mint_account,
          iv_share_mint_account = share_mint_account, iv_treasury = treasury,
          iv_system_program_acc = system_program_acc, iv_token_program_acc = token_program_acc,
          iv_tag = tag_bytes, iv_base_mint = iva_base_mint args, iv_share_mint_bump = share_mint_bump,
          iv_vault_bump = vault_bump\<rparr>))))))))))))))))))"

definition verify_external_token_accounts ::
  "ledger \<Rightarrow> initialize_vault_context \<Rightarrow> initialize_vault_args \<Rightarrow> unit program_result" where
  "verify_external_token_accounts L ctx args =
     attempt (verify_mint L (iv_base_mint_account ctx) (iv_base_mint ctx) (iva_base_decimals args) None) (\<lambda>_.
     attempt (verify_token_account_mint L (iv_treasury ctx) (iv_base_mint ctx)) (\<lambda>_.
     if ai_key (iv_treasury ctx) \<noteq> iva_treasury args then Inl (into_program_error InvalidTokenAccount) else Inr ()))"

definition create_share_mint :: "env \<Rightarrow> initialize_vault_context \<Rightarrow> ledger \<Rightarrow> ledger program_result" where
  "create_share_mint E ctx L =
     attempt (create_pda_account E (iv_payer ctx) (iv_share_mint_account ctx) (iv_system_program_acc ctx) MINT_LEN
        TOKEN_PROGRAM_ID [SHARE_MINT_SEED, key_bytes (ai_key (iv_vault ctx)), [iv_share_mint_bump ctx]] L) (\<lambda>L1.
     initialize_mint E (iv_token_program_acc ctx) (iv_share_mint_account ctx) (ai_key (iv_vault ctx)) SHARE_DECIMALS L1)"

definition create_vault_account :: "env \<Rightarrow> initialize_vault_context \<Rightarrow> ledger \<Rightarrow> ledger program_result" where
  "create_vault_account E ctx L =
     create_pda_account E (iv_payer ctx) (iv_vault ctx) (iv_system_program_acc ctx) VAULT_SPACE ID
       [VAULT_SEED, iv_tag ctx, key_bytes (iv_base_mint ctx), [iv_vault_bump ctx]] L"

definition try_initialize_vault ::
  "env \<Rightarrow> account_info list \<Rightarrow> initialize_vault_args \<Rightarrow> ledger \<Rightarrow> ledger program_result" where
  "try_initialize_vault E accounts args L =
     attempt (initialize_vault_context_load E L accounts args) (\<lambda>ctx.
     attempt (unpack_tag (iva_tag args) (iva_tag_len args)) (\<lambda>tag.
     attempt (vault_new tag (iva_admin args) (iva_strategist args) (iva_swap_authority args)
        (iva_nav_authority args) (iva_withdrawal_authority args) (iva_base_mint args)
        (ai_key (iv_share_mint_account ctx)) (iva_base_decimals args) (iva_base_oracle args)
        (iva_deposit_sub_account args) (iva_withdraw_sub_account args) (iva_treasury args)
        (iva_performance_fee_bps args) (iva_withdrawal_buffer_bps args) (iva_deposit_cap args)
        (iva_controls args) (iva_private args) (iva_access_merkle_root args) (iv_vault_bump ctx)) (\<lambda>v.
     attempt (verify_external_token_accounts L ctx args) (\<lambda>_.
     attempt (ok_or (serialize E (VaultAccount v)) InvalidAccountData) (\<lambda>serialized.
     if VAULT_SPACE < length serialized then Inl InvalidAccountData else
     attempt (create_vault_account E ctx L) (\<lambda>L1.
     attempt (create_share_mint E ctx L1) (\<lambda>L2.
     copy_serialized serialized (iv_vault ctx) L2)))))))"


section \<open>Roles, flags and configuration of a vault\<close>

record set_pause_flags_args =
  spf_deposits_paused :: bool
  spf_withdrawals_paused :: bool
  spf_manage_paused :: bool

definition try_set_pause_flags ::
  "env \<Rightarrow> account_info list \<Rightarrow> set_pause_flags_args \<Rightarrow> ledger \<Rightarrow> ledger program_result" where
  "try_set_pause_flags E accounts args L =
     update_writable_vault_as_admin E accounts (\<lambda>v.
       Inr (set_manage_paused (spf_manage_paused args)
             (set_withdrawals_paused (spf_withdrawals_paused args)
               (set_deposits_paused (spf_deposits_paused args) v)))) L"

record set_vault_access_args =
  sva_private :: bool
  sva_access_merkle_root :: key

definition try_set_vault_access ::
  "env \<Rightarrow> account_info list \<Rightarrow> set_vault_access_args \<Rightarrow> ledger \<Rightarrow> ledger program_result" where
  "try_set_vault_access E accounts args L =
     update_writable_vault_as_admin E accounts (\<lambda>v.
       Inr ((set_private (sva_private args) v)\<lparr>v_access_merkle_root := sva_access_merkle_root args\<rparr>)) L"

definition try_transfer_vault_authority :: "env \<Rightarrow> account_info list \<Rightarrow> key \<Rightarrow> ledger \<Rightarrow> ledger program_result" where
  "try_transfer_vault_authority E accounts new_authority L =
     update_writable_vault_as_admin E accounts (\<lambda>v. Inr (v\<lparr>v_admin := new_authority\<rparr>)) L"

definition try_set_strategist :: "env \<Rightarrow> account_info list \<Rightarrow> key \<Rightarrow> ledger \<Rightarrow> ledger program_result" where
  "try_set_strategist E accounts strategist L =
     update_writable_vault_as_admin E accounts (\<lambda>v. Inr (v\<lparr>v_strategist := strategist\<rparr>)) L"

definition try_set_swap_authority :: "env \<Rightarrow> account_info list \<Rightarrow> key \<Rightarrow> ledger \<Rightarrow> ledger program_result" where
  "try_set_swap_authority E accounts swap_authority L =
     update_writable_vault_as_admin E accounts (\<lambda>v. Inr (v\<lparr>v_swap_authority := swap_authority\<rparr>)) L"

definition try_set_nav_authority :: "env \<Rightarrow> account_info list \<Rightarrow> key \<Rightarrow> ledger \<Rightarrow> ledger program_result" where
  "try_set_nav_authority E accounts nav_authority L =
     update_writable_vault_as_admin E accounts (\<lambda>v. Inr (v\<lparr>v_nav_authority := nav_authority\<rparr>)) L"

definition try_set_withdrawal_authority :: "env \<Rightarrow> account_info list \<Rightarrow> key \<Rightarrow> ledger \<Rightarrow> ledger program_result" where
  "try_set_withdrawal_authority E accounts withdrawal_authority L =
     update_writable_vault_as_admin E accounts (\<lambda>v. Inr (v\<lparr>v_withdrawal_authority := withdrawal_authority\<rparr>)) L"

record update_vault_config_args =
  uvc_treasury :: key
  uvc_deposit_sub_account :: u8
  uvc_withdraw_sub_account :: u8
  uvc_base_oracle :: oracle_config
  uvc_performance_fee_bps :: u16
  uvc_withdrawal_buffer_bps :: u16
  uvc_deposit_cap :: u64
  uvc_controls :: vault_controls
  uvc_external_enabled :: bool

definition updated_vault_config :: "update_vault_config_args \<Rightarrow> vault \<Rightarrow> vault" where
  "updated_vault_config args v = set_external_enabled (uvc_external_enabled args)
     (v\<lparr>v_treasury := uvc_treasury args, v_deposit_sub_account := uvc_deposit_sub_account args,
        v_withdraw_sub_account := uvc_withdraw_sub_account args, v_base_oracle := uvc_base_oracle args,
        v_performance_fee_bps := uvc_performance_fee_bps args,
        v_withdrawal_buffer_bps := uvc_withdrawal_buffer_bps args, v_deposit_cap := uvc_deposit_cap args,
        v_controls := uvc_controls args\<rparr>)"

definition try_update_vault_config ::
  "env \<Rightarrow> account_info list \<Rightarrow> update_vault_config_args \<Rightarrow> ledger \<Rightarrow> ledger program_result" where
  "try_update_vault_config E accounts args L =
     attempt (next_account accounts) (\<lambda>(admin, it).
     attempt (next_account it) (\<lambda>(vault_account, it).
     attempt (writable_vault_role_context_load E L admin vault_account Admin) (\<lambda>v.
     attempt (next_account it) (\<lambda>(treasury, it).
     if ai_key treasury \<noteq> uvc_treasury args then Inl (into_program_error InvalidTokenAccount) else
     attempt (verify_token_account_mint L treasury (v_base_mint v)) (\<lambda>_.
     writable_vault_role_context_store E (updated_vault_config args v) vault_account L)))))"

section \<open>Assets\<close>

record initialize_asset_args =
  iaa_asset_mint :: key
  iaa_oracle :: oracle_config
  iaa_asset_decimals :: u8
  iaa_enabled :: bool
  iaa_routed :: bool
  iaa_deposit_cap_atoms :: u64

record initialize_asset_context =
  ia_admin :: account_info
  ia_asset :: account_info
  ia_system_program_acc :: account_info
  ia_vault_key :: key
  ia_asset_mint :: key
  ia_asset_bump :: u8

definition initialize_asset_context_load ::
  "env \<Rightarrow> ledger \<Rightarrow> account_info list \<Rightarrow> initialize_asset_args \<Rightarrow> initialize_asset_context program_result" where
  "initialize_asset_context_load E L accounts args =
     attempt (next_account accounts) (\<lambda>(admin, it).
     attempt (require_writable_signer admin) (\<lambda>_.
     attempt (next_account it) (\<lambda>(vault_account, it).
     attempt (next_account it) (\<lambda>(asset_mint_account, it).
     attempt (next_account it) (\<lambda>(asset_acc, it).
     attempt (require_uninitialized_account L asset_acc) (\<lambda>_.
     attempt (next_account it) (\<lambda>(system_program_acc, it).
     attempt (require_system_program system_program_acc) (\<lambda>_.
     attempt (vault_role_context_load E L admin vault_account Admin) (\<lambda>v.
     if iaa_asset_mint args = v_base_mint v then Inl InvalidArgument
     else if ai_key asset_mint_account \<noteq> iaa_asset_mint args then Inl (into_program_error InvalidMintAccount) else
     attempt (verify_mint L asset_mint_account (iaa_asset_mint args) (iaa_asset_decimals args) None) (\<lambda>_.
     let (expected_asset_key, asset_bump) = asset_find_address (find_program_address E) (ai_key vault_account)
           (iaa_asset_mint args) in
     if ai_key asset_acc \<noteq> expected_asset_key then Inl InvalidSeeds else
     Inr \<lparr>ia_admin = admin, ia_asset = asset_acc, ia_system_program_acc = system_program_acc,
          ia_vault_key = ai_key vault_account, ia_asset_mint = iaa_asset_mint args, ia_asset_bump = asset_bump\<rparr>))))))))))"

definition try_initialize_asset ::
  "env \<Rightarrow> account_info list \<Rightarrow> initialize_asset_args \<Rightarrow> ledger \<Rightarrow> ledger program_result" where
  "try_initialize_asset E accounts args L =
     attempt (initialize_asset_context_load E L accounts args) (\<lambda>ctx.
     attempt (asset_new (ia_vault_key ctx) (iaa_asset_mint args) (iaa_oracle args) (iaa_asset_decimals args)
        (iaa_enabled args) (iaa_routed args) (iaa_deposit_cap_atoms args) (ia_asset_bump ctx)) (\<lambda>a.
     attempt (create_pda_account E (ia_admin ctx) (ia_asset ctx) (ia_system_program_acc ctx) ASSET_SPACE ID
        [ASSET_SEED, key_bytes (ia_vault_key ctx), key_bytes (ia_asset_mint ctx), [ia_asset_bump ctx]] L) (\<lambda>L1.
     store_new_account E (AssetAccount a) ASSET_SPACE (ia_asset ctx) L1)))"

definition update_writable_asset_as_admin ::
  "env \<Rightarrow> account_info list \<Rightarrow> (asset \<Rightarrow> asset program_result) \<Rightarrow> ledger \<Rightarrow> ledger program_result" where
  "update_writable_asset_as_admin E accounts update L =
     attempt (next_account accounts) (\<lambda>(admin, it).
     attempt (next_account it) (\<lambda>(vault_account, it).
     attempt (next_account it) (\<lambda>(asset_account, it).
     attempt (require_writable asset_account) (\<lambda>_.
     attempt (vault_role_context_load E L admin vault_account Admin) (\<lambda>_.
     attempt (load_asset E L asset_account) (\<lambda>a.
     let (expected_asset_key, expected_bump) = asset_find_address (find_program_address E) (ai_key vault_account)
           (as_asset_mint a) in
     if ai_key asset_account \<noteq> expected_asset_key \<or> as_bump a \<noteq> expected_bump then Inl InvalidSeeds else
     attempt (update a) (\<lambda>a'.
     attempt (asset_validate_state a') (\<lambda>_.
     store_account E (AssetAccount a') asset_account L))))))))"

record update_asset_args =
  uaa_oracle :: oracle_config
  uaa_enabled :: bool
  uaa_routed :: bool
  uaa_deposit_cap_atoms :: u64

definition try_update_asset ::
  "env \<Rightarrow> account_info list \<Rightarrow> update_asset_args \<Rightarrow> ledger \<Rightarrow> ledger program_result" where
  "try_update_asset E accounts args L =
     update_writable_asset_as_admin E accounts (\<lambda>a.
       Inr ((asset_set_routed (uaa_routed args) (asset_set_enabled (uaa_enabled args)
              (a\<lparr>as_oracle := uaa_oracle args\<rparr>)))\<lparr>as_deposit_cap_atoms := uaa_deposit_cap_atoms args\<rparr>)) L"


section \<open>Action authorizations\<close>

record authorize_action_args =
  aaa_action_hash :: key
  aaa_scope :: action_scope
  aaa_ops :: ops
  aaa_amount_offset :: u16
  aaa_fee_num :: u64
  aaa_fee_den :: u64

record authorize_action_context =
  aa_admin :: account_info
  aa_action :: account_info
  aa_system_program_acc :: account_info
  aa_vault_key :: key
  aa_action_bump :: u8

definition authorize_action_context_load ::
  "env \<Rightarrow> ledger \<Rightarrow> account_info list \<Rightarrow> key \<Rightarrow> authorize_action_context program_result" where
  "authorize_action_context_load E L accounts action_hash =
     attempt (next_account accounts) (\<lambda>(admin, it).
     attempt (require_writable_signer admin) (\<lambda>_.
     attempt (next_account it) (\<lambda>(vault_account, it).
     attempt (next_account it) (\<lambda>(action_acc, it).
     attempt (require_uninitialized_account L action_acc) (\<lambda>_.
     attempt (next_account it) (\<lambda>(system_program_acc, it).
     attempt (require_system_program system_program_acc) (\<lambda>_.
     attempt (vault_role_context_load E L admin vault_account Admin) (\<lambda>_.
     let (expected_action_key, action_bump) = action_find_address (find_program_address E) (ai_key vault_account)
           action_hash in
     if ai_key action_acc \<noteq> expected_action_key then Inl InvalidSeeds else
     Inr \<lparr>aa_admin = admin, aa_action = action_acc, aa_system_program_acc = system_program_acc,
          aa_vault_key = ai_key vault_account, aa_action_bump = action_bump\<rparr>))))))))"

definition action_create_and_store ::
  "env \<Rightarrow> authorize_action_context \<Rightarrow> authorize_action_args \<Rightarrow> ledger \<Rightarrow> ledger program_result" where
  "action_create_and_store E ctx args L =
     attempt (validate_ops (aaa_ops args)) (\<lambda>_.
     attempt (if aaa_scope args = AtomicRedeem \<or> aaa_scope args = Deploy
              then map_err (\<lambda>_. into_program_error InvalidOp) (ops_is_empty (aaa_ops args))
              else Inr False) (\<lambda>unbound.
     if unbound then Inl (into_program_error
         (if aaa_scope args = Deploy then EmptyDeployOps else EmptyAtomicRedeemOps)) else
     attempt (create_pda_account E (aa_admin ctx) (aa_action ctx) (aa_system_program_acc ctx) ACTION_SPACE ID
        [ACTION_SEED, key_bytes (aa_vault_key ctx), key_bytes (aaa_action_hash args), [aa_action_bump ctx]] L) (\<lambda>L1.
     store_new_account E (ActionAccount
        \<lparr>ac_vault = aa_vault_key ctx, ac_action_hash = aaa_action_hash args, ac_ops = aaa_ops args,
         ac_fee_num = aaa_fee_num args, ac_fee_den = aaa_fee_den args, ac_scope = aaa_scope args,
         ac_amount_offset = aaa_amount_offset args, ac_bump = aa_action_bump ctx\<rparr>)
        ACTION_SPACE (aa_action ctx) L1)))"

definition try_authorize_action ::
  "env \<Rightarrow> account_info list \<Rightarrow> authorize_action_args \<Rightarrow> ledger \<Rightarrow> ledger program_result" where
  "try_authorize_action E accounts args L =
     attempt (authorize_action_context_load E L accounts (aaa_action_hash args)) (\<lambda>ctx.
     action_create_and_store E ctx args L)"

definition revoke_action_context_load ::
  "env \<Rightarrow> ledger \<Rightarrow> account_info list \<Rightarrow> key \<Rightarrow> (account_info \<times> account_info) program_result" where
  "revoke_action_context_load E L accounts action_hash =
     attempt (next_account accounts) (\<lambda>(admin, it).
     attempt (require_writable_signer admin) (\<lambda>_.
     attempt (next_account it) (\<lambda>(vault_account, it).
     attempt (next_account it) (\<lambda>(action_acc, it).
     attempt (require_writable action_acc) (\<lambda>_.
     attempt (vault_role_context_load E L admin vault_account Admin) (\<lambda>_.
     if ai_key action_acc \<noteq> fst (action_find_address (find_program_address E) (ai_key vault_account) action_hash)
     then Inl InvalidSeeds else
     attempt (load_action E L action_acc) (\<lambda>stored.
     attempt (action_verify_vault stored (ai_key vault_account)) (\<lambda>_.
     Inr (admin, action_acc)))))))))"

definition try_revoke_action :: "env \<Rightarrow> account_info list \<Rightarrow> key \<Rightarrow> ledger \<Rightarrow> ledger program_result" where
  "try_revoke_action E accounts action_hash L =
     attempt (revoke_action_context_load E L accounts action_hash) (\<lambda>(admin, action_acc).
     close_account action_acc admin L)"

definition rate_strictly_lower :: "u64 \<Rightarrow> u64 \<Rightarrow> u64 \<Rightarrow> u64 \<Rightarrow> bool" where
  "rate_strictly_lower new_num new_den cur_num cur_den =
     (if new_num = 0 then cur_num \<noteq> 0
      else if cur_num = 0 then False
      else (ucast new_num :: u128) * ucast cur_den < ucast cur_num * ucast new_den)"

definition update_action_flash_fee ::
  "env \<Rightarrow> account_info list \<Rightarrow> role \<Rightarrow> (action \<Rightarrow> (u64 \<times> u64) program_result) \<Rightarrow> ledger \<Rightarrow> ledger program_result" where
  "update_action_flash_fee E accounts r update L =
     attempt (next_account accounts) (\<lambda>(authority, it).
     attempt (next_account it) (\<lambda>(vault_account, it).
     attempt (next_account it) (\<lambda>(action_account, it).
     attempt (require_writable action_account) (\<lambda>_.
     attempt (vault_role_context_load E L authority vault_account r) (\<lambda>_.
     attempt (load_action E L action_account) (\<lambda>a.
     attempt (action_verify_for_vault (find_program_address E) a (ai_key vault_account) (ai_key action_account)) (\<lambda>_.
     attempt (update a) (\<lambda>(fee_num, fee_den).
     store_account E (ActionAccount (a\<lparr>ac_fee_num := fee_num, ac_fee_den := fee_den\<rparr>)) action_account L))))))))"

definition try_admin_set_flash_fee_rate ::
  "env \<Rightarrow> account_info list \<Rightarrow> u64 \<Rightarrow> u64 \<Rightarrow> ledger \<Rightarrow> ledger program_result" where
  "try_admin_set_flash_fee_rate E accounts fee_num fee_den L =
     update_action_flash_fee E accounts Admin (\<lambda>_. Inr (fee_num, fee_den)) L"

definition try_strategist_lower_flash_fee_rate ::
  "env \<Rightarrow> account_info list \<Rightarrow> u64 \<Rightarrow> u64 \<Rightarrow> ledger \<Rightarrow> ledger program_result" where
  "try_strategist_lower_flash_fee_rate E accounts fee_num fee_den L =
     update_action_flash_fee E accounts Strategist (\<lambda>a.
       if \<not> rate_strictly_lower fee_num fee_den (ac_fee_num a) (ac_fee_den a)
       then Inl (into_program_error FlashFeeRateNotLower) else Inr (fee_num, fee_den)) L"

section \<open>External destinations\<close>

record register_external_destination_context =
  re_admin :: account_info
  re_external_destination :: account_info
  re_system_program_acc :: account_info
  re_vault_key :: key
  re_token_account :: key
  re_bump :: u8

definition register_external_destination_context_load ::
  "env \<Rightarrow> ledger \<Rightarrow> account_info list \<Rightarrow> register_external_destination_context program_result" where
  "register_external_destination_context_load E L accounts =
     attempt (next_account accounts) (\<lambda>(admin, it).
     attempt (require_writable_signer admin) (\<lambda>_.
     attempt (next_account it) (\<lambda>(vault_account, it).
     attempt (next_account it) (\<lambda>(destination, it).
     attempt (next_account it) (\<lambda>(external_destination_acc, it).
     attempt (require_uninitialized_account L external_destination_acc) (\<lambda>_.
     attempt (next_account it) (\<lambda>(system_program_acc, it).
     attempt (require_system_program system_program_acc) (\<lambda>_.
     attempt (vault_role_context_load E L admin vault_account Admin) (\<lambda>v.
     attempt (verify_token_account_mint L destination (v_base_mint v)) (\<lambda>_.
     let (expected_key, bump) = external_destination_find_address (find_program_address E) (ai_key vault_account)
           (ai_key destination) in
     if ai_key external_destination_acc \<noteq> expected_key then Inl InvalidSeeds else
     Inr \<lparr>re_admin = admin, re_external_destination = external_destination_acc,
          re_system_program_acc = system_program_acc, re_vault_key = ai_key vault_account,
          re_token_account = ai_key destination, re_bump = bump\<rparr>))))))))))"

definition try_register_external_destination ::
  "env \<Rightarrow> account_info list \<Rightarrow> ledger \<Rightarrow> ledger program_result" where
  "try_register_external_destination E accounts L =
     attempt (register_external_destination_context_load E L accounts) (\<lambda>ctx.
     let d = external_destination_new (re_vault_key ctx) (re_token_account ctx) (re_bump ctx) in
     attempt (create_pda_account E (re_admin ctx) (re_external_destination ctx) (re_system_program_acc ctx)
        EXTERNAL_DESTINATION_SPACE ID
        [EXTERNAL_DESTINATION_SEED, key_bytes (re_vault_key ctx), key_bytes (re_token_account ctx), [re_bump ctx]] L) (\<lambda>L1.
     store_new_account E (ExternalDestinationAccount d) EXTERNAL_DESTINATION_SPACE (re_external_destination ctx) L1))"

definition close_external_destination_as_admin ::
  "env \<Rightarrow> account_info list \<Rightarrow> ledger \<Rightarrow> ledger program_result" where
  "close_external_destination_as_admin E accounts L =
     attempt (next_account accounts) (\<lambda>(admin, it).
     attempt (require_writable_signer admin) (\<lambda>_.
     attempt (next_account it) (\<lambda>(vault_account, it).
     attempt (next_account it) (\<lambda>(destination_account, it).
     attempt (require_writable destination_account) (\<lambda>_.
     attempt (vault_role_context_load E L admin vault_account Admin) (\<lambda>_.
     attempt (load_external_destination E L destination_account) (\<lambda>d.
     let (expected_key, expected_bump) = external_destination_find_address (find_program_address E)
           (ai_key vault_account) (ed_token_account d) in
     if ai_key destination_account \<noteq> expected_key \<or> ed_bump d \<noteq> expected_bump then Inl InvalidSeeds else
     close_account destination_account admin L)))))))"

definition try_revoke_external_destination :: "env \<Rightarrow> account_info list \<Rightarrow> ledger \<Rightarrow> ledger program_result" where
  "try_revoke_external_destination E accounts L = close_external_destination_as_admin E accounts L"

record invest_external_args =
  iea_sub_account :: u8
  iea_amount :: u64

definition try_invest_external ::
  "env \<Rightarrow> account_info list \<Rightarrow> invest_external_args \<Rightarrow> ledger \<Rightarrow> ledger program_result" where
  "try_invest_external E accounts args L =
     (if iea_amount args = 0 then Inl (into_program_error ZeroOutput) else
      attempt (next_account accounts) (\<lambda>(strategist, it).
      attempt (next_account it) (\<lambda>(vault_account, it).
      attempt (require_writable vault_account) (\<lambda>_.
      attempt (load_checked E L vault_account) (\<lambda>v.
      attempt (verify_role v Strategist strategist) (\<lambda>_.
      attempt (verify_manage_enabled v) (\<lambda>_.
      attempt (external_enabled v) (\<lambda>enabled.
      if \<not> enabled then Inl (into_program_error ExternalDisabled) else
      attempt (verify_idle_sub_account v (iea_sub_account args)) (\<lambda>_.
      attempt (next_account it) (\<lambda>(sub_account, it).
      attempt (sub_account_verify_account E L (ai_key vault_account) (iea_sub_account args) sub_account) (\<lambda>bump.
      attempt (next_account it) (\<lambda>(custody, it).
      attempt (require_writable custody) (\<lambda>_.
      attempt (verify_token_account_mint_and_owner L custody (v_base_mint v) (ai_key sub_account)) (\<lambda>_.
      attempt (next_account it) (\<lambda>(external_account, it).
      attempt (require_writable external_account) (\<lambda>_.
      attempt (verify_token_account_mint L external_account (v_base_mint v)) (\<lambda>_.
      attempt (next_account it) (\<lambda>(registration, it).
      if ai_key registration \<noteq> fst (external_destination_find_address (find_program_address E)
           (ai_key vault_account) (ai_key external_account)) then Inl InvalidSeeds
      else if data_of L registration = [] then Inl (into_program_error ExternalDestinationNotRegistered) else
      attempt (load_external_destination E L registration) (\<lambda>_.
      attempt (next_account it) (\<lambda>(token_program, it).
      attempt (verify_token_program_for L token_program custody) (\<lambda>_.
      attempt (verify_token_program_for L token_program external_account) (\<lambda>_.
      attempt (token_transfer_signed E token_program custody external_account sub_account (iea_amount args)
         [SUB_ACCOUNT_SEED, key_bytes (ai_key vault_account), [iea_sub_account args], [bump]] L) (\<lambda>L1.
      attempt (ok_or (checked_add (v_external_assets v) (iea_amount args)) (into_program_error Overflow)) (\<lambda>external_assets.
      let v' = v\<lparr>v_external_assets := external_assets\<rparr> in
      attempt (vault_validate_state v') (\<lambda>_.
      store_account E (VaultAccount v') vault_account L1)))))))))))))))))))))))))"

record return_external_args =
  rea_sub_account :: u8
  rea_amount :: u64

definition try_return_external ::
  "env \<Rightarrow> account_info list \<Rightarrow> return_external_args \<Rightarrow> ledger \<Rightarrow> ledger program_result" where
  "try_return_external E accounts args L =
     (if rea_amount args = 0 then Inl (into_program_error ZeroOutput) else
      attempt (next_account accounts) (\<lambda>(strategist, it).
      attempt (next_account it) (\<lambda>(external_authority, it).
      if \<not> ai_is_signer external_authority then Inl MissingRequiredSignature else
      attempt (next_account it) (\<lambda>(vault_account, it).
      attempt (require_writable vault_account) (\<lambda>_.
      attempt (load_checked E L vault_account) (\<lambda>v.
      attempt (verify_role v Strategist strategist) (\<lambda>_.
      attempt (verify_manage_enabled v) (\<lambda>_.
      attempt (external_enabled v) (\<lambda>enabled.
      if \<not> enabled then Inl (into_program_error ExternalDisabled)
      else if v_external_assets v < rea_amount args then Inl (into_program_error InvalidVaultState) else
      attempt (verify_idle_sub_account v (rea_sub_account args)) (\<lambda>_.
      attempt (next_account it) (\<lambda>(sub_account, it).
      attempt (sub_account_verify_account E L (ai_key vault_account) (rea_sub_account args) sub_account) (\<lambda>_.
      attempt (next_account it) (\<lambda>(external_account, it).
      attempt (require_writable external_account) (\<lambda>_.
      attempt (verify_token_account_mint_and_owner L external_account (v_base_mint v) (ai_key external_authority)) (\<lambda>_.
      attempt (next_account it) (\<lambda>(custody, it).
      attempt (require_writable custody) (\<lambda>_.
      attempt (verify_token_account_mint_and_owner L custody (v_base_mint v) (ai_key sub_account)) (\<lambda>_.
      attempt (next_account it) (\<lambda>(token_program, it).
      attempt (verify_token_program_for L token_program custody) (\<lambda>_.
      attempt (verify_token_program_for L token_program external_account) (\<lambda>_.
      attempt (token_transfer E token_program external_account custody external_authority (rea_amount args) L) (\<lambda>L1.
      attempt (ok_or (checked_sub (v_external_assets v) (rea_amount args)) (into_program_error Overflow)) (\<lambda>external_assets.
      let v' = v\<lparr>v_external_assets := external_assets\<rparr> in
      attempt (vault_validate_state v') (\<lambda>_.
      store_account E (VaultAccount v') vault_account L1))))))))))))))))))))))))"

section \<open>Share metadata\<close>

definition TOKEN_METADATA_PROGRAM_ID :: key where
  "TOKEN_METADATA_PROGRAM_ID = 0x0b7065b1e3d17c45389d527f6b04c3cd58b86c731aa0fdb549b6d1bc03f82946"

definition METADATA_SEED :: bytes where "METADATA_SEED = ascii ''metadata''"
definition CREATE_METADATA_ACCOUNT_V3 :: u8 where "CREATE_METADATA_ACCOUNT_V3 = 33"
definition UPDATE_METADATA_ACCOUNT_V2 :: u8 where "UPDATE_METADATA_ACCOUNT_V2 = 15"

definition find_metadata_address :: "pda_function \<Rightarrow> key \<Rightarrow> key \<times> u8" where
  "find_metadata_address pda mint =
     pda [METADATA_SEED, key_bytes TOKEN_METADATA_PROGRAM_ID, key_bytes mint] TOKEN_METADATA_PROGRAM_ID"

text \<open>A string is its UTF-8 bytes; \<open>len() as u32\<close> keeps the low 32 bits of the length.\<close>

definition write_data_v2 :: "bytes \<Rightarrow> bytes \<Rightarrow> bytes \<Rightarrow> bytes" where
  "write_data_v2 name symbol uri =
     concat (map (\<lambda>field. to_le_bytes (word_of_nat (length field) :: u32) @ field) [name, symbol, uri])
     @ to_le_bytes (0 :: u16) @ [0] @ [0] @ [0]"

definition create_metadata_v3_data :: "bytes \<Rightarrow> bytes \<Rightarrow> bytes \<Rightarrow> bytes" where
  "create_metadata_v3_data name symbol uri = [CREATE_METADATA_ACCOUNT_V3] @ write_data_v2 name symbol uri @ [1] @ [0]"

definition update_metadata_v2_data :: "bytes \<Rightarrow> bytes \<Rightarrow> bytes \<Rightarrow> bytes" where
  "update_metadata_v2_data name symbol uri =
     [UPDATE_METADATA_ACCOUNT_V2] @ [1] @ write_data_v2 name symbol uri @ [0] @ [0] @ [0]"

record set_share_metadata_args =
  ssm_name :: bytes
  ssm_symbol :: bytes
  ssm_uri :: bytes

definition try_set_share_metadata ::
  "env \<Rightarrow> account_info list \<Rightarrow> set_share_metadata_args \<Rightarrow> ledger \<Rightarrow> ledger program_result" where
  "try_set_share_metadata E accounts args L =
     attempt (next_account accounts) (\<lambda>(admin, it).
     if \<not> ai_is_signer admin then Inl MissingRequiredSignature else
     attempt (next_account it) (\<lambda>(vault_account, it).
     attempt (load_checked E L vault_account) (\<lambda>v.
     attempt (verify_role v Admin admin) (\<lambda>_.
     attempt (next_account it) (\<lambda>(share_mint, it).
     attempt (verify_share_mint v share_mint) (\<lambda>_.
     attempt (next_account it) (\<lambda>(metadata, it).
     attempt (require_writable metadata) (\<lambda>_.
     if ai_key metadata \<noteq> fst (find_metadata_address (find_program_address E) (ai_key share_mint))
     then Inl InvalidSeeds else
     attempt (next_account it) (\<lambda>(token_metadata_program, it).
     if ai_key token_metadata_program \<noteq> TOKEN_METADATA_PROGRAM_ID then Inl IncorrectProgramId else
     attempt (next_account it) (\<lambda>(system_program_acc, it).
     if ai_key system_program_acc \<noteq> SYSTEM_PROGRAM_ID then Inl IncorrectProgramId else
     let (ix, infos) =
       (if data_of L metadata = [] then
          (\<lparr>ix_program_id = TOKEN_METADATA_PROGRAM_ID,
            ix_accounts =
              [\<lparr>am_pubkey = ai_key metadata, am_is_signer = False, am_is_writable = True\<rparr>,
               \<lparr>am_pubkey = ai_key share_mint, am_is_signer = False, am_is_writable = False\<rparr>,
               \<lparr>am_pubkey = ai_key vault_account, am_is_signer = True, am_is_writable = False\<rparr>,
               \<lparr>am_pubkey = ai_key admin, am_is_signer = True, am_is_writable = True\<rparr>,
               \<lparr>am_pubkey = ai_key vault_account, am_is_signer = True, am_is_writable = False\<rparr>,
               \<lparr>am_pubkey = SYSTEM_PROGRAM_ID, am_is_signer = False, am_is_writable = False\<rparr>],
            ix_data = create_metadata_v3_data (ssm_name args) (ssm_symbol args) (ssm_uri args)\<rparr>,
           [metadata, share_mint, vault_account, admin, system_program_acc, token_metadata_program])
        else
          (\<lparr>ix_program_id = TOKEN_METADATA_PROGRAM_ID,
            ix_accounts =
              [\<lparr>am_pubkey = ai_key metadata, am_is_signer = False, am_is_writable = True\<rparr>,
               \<lparr>am_pubkey = ai_key vault_account, am_is_signer = True, am_is_writable = False\<rparr>],
            ix_data = update_metadata_v2_data (ssm_name args) (ssm_symbol args) (ssm_uri args)\<rparr>,
           [metadata, vault_account, token_metadata_program]))
     in
     attempt (tag_seed v) (\<lambda>tag.
     invoke_signed E ix infos [[VAULT_SEED, tag, key_bytes (v_base_mint v), [v_bump v]]] L)))))))))))"

end
