(* ===== verification/Processor.thy ===== *)
theory Processor
  imports Routes Administration Nav_And_Fees
begin

text \<open>
  \<open>crates/interface/src/instructions/mod.rs\<close> and \<open>crates/roshi/src/processor.rs\<close>: the instruction
  enum with its tags, its wire form (a tag byte followed by the wincode payload of the arguments),
  and the dispatcher. The wincode codec of every argument structure is a parameter; a structure
  with one field is that field, and a unit structure has \<open>unit\<close>.
\<close>

section \<open>Instructions and tags\<close>

definition INITIALIZE_PROGRAM :: u8 where "INITIALIZE_PROGRAM = 0"
definition INITIALIZE_VAULT :: u8 where "INITIALIZE_VAULT = 1"
definition AUTHORIZE_ACTION :: u8 where "AUTHORIZE_ACTION = 2"
definition REVOKE_ACTION :: u8 where "REVOKE_ACTION = 3"
definition MANAGE :: u8 where "MANAGE = 4"
definition MANAGE_BATCH :: u8 where "MANAGE_BATCH = 5"
definition REPORT_NAV :: u8 where "REPORT_NAV = 6"
definition DEPOSIT :: u8 where "DEPOSIT = 7"
definition REDEEM :: u8 where "REDEEM = 8"
definition CANCEL_REDEEM :: u8 where "CANCEL_REDEEM = 9"
definition PROCESS_WITHDRAWALS :: u8 where "PROCESS_WITHDRAWALS = 10"
definition UPDATE_VAULT_CONFIG :: u8 where "UPDATE_VAULT_CONFIG = 11"
definition INITIALIZE_ASSET :: u8 where "INITIALIZE_ASSET = 12"
definition UPDATE_ASSET :: u8 where "UPDATE_ASSET = 13"
definition SET_PAUSE_FLAGS :: u8 where "SET_PAUSE_FLAGS = 14"
definition SET_VAULT_ACCESS :: u8 where "SET_VAULT_ACCESS = 15"
definition TRANSFER_PROGRAM_AUTHORITY :: u8 where "TRANSFER_PROGRAM_AUTHORITY = 16"
definition TRANSFER_VAULT_AUTHORITY :: u8 where "TRANSFER_VAULT_AUTHORITY = 17"
definition SET_STRATEGIST :: u8 where "SET_STRATEGIST = 18"
definition SET_NAV_AUTHORITY :: u8 where "SET_NAV_AUTHORITY = 19"
definition SET_WITHDRAWAL_AUTHORITY :: u8 where "SET_WITHDRAWAL_AUTHORITY = 20"
definition COLLECT_FEES :: u8 where "COLLECT_FEES = 21"
definition INVEST_EXTERNAL :: u8 where "INVEST_EXTERNAL = 22"
definition RETURN_EXTERNAL :: u8 where "RETURN_EXTERNAL = 23"
definition SET_SWAP_AUTHORITY :: u8 where "SET_SWAP_AUTHORITY = 24"
definition ATOMIC_REDEEM :: u8 where "ATOMIC_REDEEM = 25"
definition SWAP :: u8 where "SWAP = 26"
definition WRITE_DOWN_FEES :: u8 where "WRITE_DOWN_FEES = 27"
definition REGISTER_EXTERNAL_DESTINATION :: u8 where "REGISTER_EXTERNAL_DESTINATION = 28"
definition REVOKE_EXTERNAL_DESTINATION :: u8 where "REVOKE_EXTERNAL_DESTINATION = 29"
definition SET_SHARE_METADATA :: u8 where "SET_SHARE_METADATA = 30"
definition ASSERT_DELEGATE_CLEARED :: u8 where "ASSERT_DELEGATE_CLEARED = 31"
definition ADMIN_SET_FLASH_FEE_RATE :: u8 where "ADMIN_SET_FLASH_FEE_RATE = 32"
definition STRATEGIST_LOWER_FLASH_FEE_RATE :: u8 where "STRATEGIST_LOWER_FLASH_FEE_RATE = 33"
definition RECOVER_NAV :: u8 where "RECOVER_NAV = 34"
definition DEPOSIT_AND_DEPLOY :: u8 where "DEPOSIT_AND_DEPLOY = 35"

lemmas tag_defs =
  INITIALIZE_PROGRAM_def INITIALIZE_VAULT_def AUTHORIZE_ACTION_def REVOKE_ACTION_def MANAGE_def MANAGE_BATCH_def REPORT_NAV_def DEPOSIT_def REDEEM_def CANCEL_REDEEM_def PROCESS_WITHDRAWALS_def UPDATE_VAULT_CONFIG_def INITIALIZE_ASSET_def UPDATE_ASSET_def SET_PAUSE_FLAGS_def SET_VAULT_ACCESS_def TRANSFER_PROGRAM_AUTHORITY_def TRANSFER_VAULT_AUTHORITY_def SET_STRATEGIST_def SET_NAV_AUTHORITY_def SET_WITHDRAWAL_AUTHORITY_def COLLECT_FEES_def INVEST_EXTERNAL_def RETURN_EXTERNAL_def SET_SWAP_AUTHORITY_def ATOMIC_REDEEM_def SWAP_def WRITE_DOWN_FEES_def REGISTER_EXTERNAL_DESTINATION_def REVOKE_EXTERNAL_DESTINATION_def SET_SHARE_METADATA_def ASSERT_DELEGATE_CLEARED_def ADMIN_SET_FLASH_FEE_RATE_def STRATEGIST_LOWER_FLASH_FEE_RATE_def RECOVER_NAV_def DEPOSIT_AND_DEPLOY_def

datatype (plugins only: code) roshi_instruction =
    InitializeProgram initialize_program_args
  | InitializeVault initialize_vault_args
  | AuthorizeAction authorize_action_args
  | RevokeAction key
  | Manage manage_args
  | ManageBatch "manage_args list"
  | ReportNav nav_report
  | Deposit deposit_args
  | Redeem redeem_args
  | CancelRedeem cancel_redeem_args
  | ProcessWithdrawals
  | UpdateVaultConfig update_vault_config_args
  | InitializeAsset initialize_asset_args
  | UpdateAsset update_asset_args
  | SetPauseFlags set_pause_flags_args
  | SetVaultAccess set_vault_access_args
  | TransferProgramAuthority key
  | TransferVaultAuthority key
  | SetStrategist key
  | SetNavAuthority key
  | SetWithdrawalAuthority key
  | CollectFees collect_fees_args
  | InvestExternal invest_external_args
  | ReturnExternal return_external_args
  | SetSwapAuthority key
  | AtomicRedeemInstruction atomic_redeem_args
  | Swap swap_args
  | WriteDownFees u64
  | RegisterExternalDestination
  | RevokeExternalDestination
  | SetShareMetadata set_share_metadata_args
  | AssertDelegateCleared
  | AdminSetFlashFeeRate "u64 \<times> u64"
  | StrategistLowerFlashFeeRate "u64 \<times> u64"
  | RecoverNav nav_report
  | DepositAndDeploy deposit_and_deploy_args

primrec tag :: "roshi_instruction \<Rightarrow> u8" where
  "tag (InitializeProgram args) = INITIALIZE_PROGRAM"
| "tag (InitializeVault args) = INITIALIZE_VAULT"
| "tag (AuthorizeAction args) = AUTHORIZE_ACTION"
| "tag (RevokeAction args) = REVOKE_ACTION"
| "tag (Manage args) = MANAGE"
| "tag (ManageBatch args) = MANAGE_BATCH"
| "tag (ReportNav args) = REPORT_NAV"
| "tag (Deposit args) = DEPOSIT"
| "tag (Redeem args) = REDEEM"
| "tag (CancelRedeem args) = CANCEL_REDEEM"
| "tag ProcessWithdrawals = PROCESS_WITHDRAWALS"
| "tag (UpdateVaultConfig args) = UPDATE_VAULT_CONFIG"
| "tag (InitializeAsset args) = INITIALIZE_ASSET"
| "tag (UpdateAsset args) = UPDATE_ASSET"
| "tag (SetPauseFlags args) = SET_PAUSE_FLAGS"
| "tag (SetVaultAccess args) = SET_VAULT_ACCESS"
| "tag (TransferProgramAuthority args) = TRANSFER_PROGRAM_AUTHORITY"
| "tag (TransferVaultAuthority args) = TRANSFER_VAULT_AUTHORITY"
| "tag (SetStrategist args) = SET_STRATEGIST"
| "tag (SetNavAuthority args) = SET_NAV_AUTHORITY"
| "tag (SetWithdrawalAuthority args) = SET_WITHDRAWAL_AUTHORITY"
| "tag (CollectFees args) = COLLECT_FEES"
| "tag (InvestExternal args) = INVEST_EXTERNAL"
| "tag (ReturnExternal args) = RETURN_EXTERNAL"
| "tag (SetSwapAuthority args) = SET_SWAP_AUTHORITY"
| "tag (AtomicRedeemInstruction args) = ATOMIC_REDEEM"
| "tag (Swap args) = SWAP"
| "tag (WriteDownFees args) = WRITE_DOWN_FEES"
| "tag RegisterExternalDestination = REGISTER_EXTERNAL_DESTINATION"
| "tag RevokeExternalDestination = REVOKE_EXTERNAL_DESTINATION"
| "tag (SetShareMetadata args) = SET_SHARE_METADATA"
| "tag AssertDelegateCleared = ASSERT_DELEGATE_CLEARED"
| "tag (AdminSetFlashFeeRate args) = ADMIN_SET_FLASH_FEE_RATE"
| "tag (StrategistLowerFlashFeeRate args) = STRATEGIST_LOWER_FLASH_FEE_RATE"
| "tag (RecoverNav args) = RECOVER_NAV"
| "tag (DepositAndDeploy args) = DEPOSIT_AND_DEPLOY"

text \<open>\<open>wincode::serialize_into\<close> and \<open>wincode::deserialize_exact\<close> at one type.\<close>

type_synonym 'a wincode = "('a \<Rightarrow> bytes option) \<times> (bytes \<Rightarrow> 'a option)"

record payload_codec =
  pc_initialize_program :: "initialize_program_args wincode"
  pc_initialize_vault :: "initialize_vault_args wincode"
  pc_authorize_action :: "authorize_action_args wincode"
  pc_revoke_action :: "key wincode"
  pc_manage :: "manage_args wincode"
  pc_manage_batch :: "(manage_args list) wincode"
  pc_report_nav :: "nav_report wincode"
  pc_deposit :: "deposit_args wincode"
  pc_redeem :: "redeem_args wincode"
  pc_cancel_redeem :: "cancel_redeem_args wincode"
  pc_process_withdrawals :: "unit wincode"
  pc_update_vault_config :: "update_vault_config_args wincode"
  pc_initialize_asset :: "initialize_asset_args wincode"
  pc_update_asset :: "update_asset_args wincode"
  pc_set_pause_flags :: "set_pause_flags_args wincode"
  pc_set_vault_access :: "set_vault_access_args wincode"
  pc_transfer_program_authority :: "key wincode"
  pc_transfer_vault_authority :: "key wincode"
  pc_set_strategist :: "key wincode"
  pc_set_nav_authority :: "key wincode"
  pc_set_withdrawal_authority :: "key wincode"
  pc_collect_fees :: "collect_fees_args wincode"
  pc_invest_external :: "invest_external_args wincode"
  pc_return_external :: "return_external_args wincode"
  pc_set_swap_authority :: "key wincode"
  pc_atomic_redeem :: "atomic_redeem_args wincode"
  pc_swap :: "swap_args wincode"
  pc_write_down_fees :: "u64 wincode"
  pc_register_external_destination :: "unit wincode"
  pc_revoke_external_destination :: "unit wincode"
  pc_set_share_metadata :: "set_share_metadata_args wincode"
  pc_assert_delegate_cleared :: "unit wincode"
  pc_admin_set_flash_fee_rate :: "(u64 \<times> u64) wincode"
  pc_strategist_lower_flash_fee_rate :: "(u64 \<times> u64) wincode"
  pc_recover_nav :: "nav_report wincode"
  pc_deposit_and_deploy :: "deposit_and_deploy_args wincode"

definition decode_payload :: "'a wincode \<Rightarrow> bytes \<Rightarrow> 'a option" where
  "decode_payload c payload = snd c payload"

definition decode_tagged :: "payload_codec \<Rightarrow> u8 \<Rightarrow> bytes \<Rightarrow> roshi_instruction option" where
  "decode_tagged W t payload =
     (
      if t = INITIALIZE_PROGRAM then map_option InitializeProgram (decode_payload (pc_initialize_program W) payload)
      else if t = INITIALIZE_VAULT then map_option InitializeVault (decode_payload (pc_initialize_vault W) payload)
      else if t = AUTHORIZE_ACTION then map_option AuthorizeAction (decode_payload (pc_authorize_action W) payload)
      else if t = REVOKE_ACTION then map_option RevokeAction (decode_payload (pc_revoke_action W) payload)
      else if t = MANAGE then map_option Manage (decode_payload (pc_manage W) payload)
      else if t = MANAGE_BATCH then map_option ManageBatch (decode_payload (pc_manage_batch W) payload)
      else if t = REPORT_NAV then map_option ReportNav (decode_payload (pc_report_nav W) payload)
      else if t = DEPOSIT then map_option Deposit (decode_payload (pc_deposit W) payload)
      else if t = REDEEM then map_option Redeem (decode_payload (pc_redeem W) payload)
      else if t = CANCEL_REDEEM then map_option CancelRedeem (decode_payload (pc_cancel_redeem W) payload)
      else if t = PROCESS_WITHDRAWALS then map_option (\<lambda>_. ProcessWithdrawals) (decode_payload (pc_process_withdrawals W) payload)
      else if t = UPDATE_VAULT_CONFIG then map_option UpdateVaultConfig (decode_payload (pc_update_vault_config W) payload)
      else if t = INITIALIZE_ASSET then map_option InitializeAsset (decode_payload (pc_initialize_asset W) payload)
      else if t = UPDATE_ASSET then map_option UpdateAsset (decode_payload (pc_update_asset W) payload)
      else if t = SET_PAUSE_FLAGS then map_option SetPauseFlags (decode_payload (pc_set_pause_flags W) payload)
      else if t = SET_VAULT_ACCESS then map_option SetVaultAccess (decode_payload (pc_set_vault_access W) payload)
      else if t = TRANSFER_PROGRAM_AUTHORITY then map_option TransferProgramAuthority (decode_payload (pc_transfer_program_authority W) payload)
      else if t = TRANSFER_VAULT_AUTHORITY then map_option TransferVaultAuthority (decode_payload (pc_transfer_vault_authority W) payload)
      else if t = SET_STRATEGIST then map_option SetStrategist (decode_payload (pc_set_strategist W) payload)
      else if t = SET_NAV_AUTHORITY then map_option SetNavAuthority (decode_payload (pc_set_nav_authority W) payload)
      else if t = SET_WITHDRAWAL_AUTHORITY then map_option SetWithdrawalAuthority (decode_payload (pc_set_withdrawal_authority W) payload)
      else if t = COLLECT_FEES then map_option CollectFees (decode_payload (pc_collect_fees W) payload)
      else if t = INVEST_EXTERNAL then map_option InvestExternal (decode_payload (pc_invest_external W) payload)
      else if t = RETURN_EXTERNAL then map_option ReturnExternal (decode_payload (pc_return_external W) payload)
      else if t = SET_SWAP_AUTHORITY then map_option SetSwapAuthority (decode_payload (pc_set_swap_authority W) payload)
      else if t = ATOMIC_REDEEM then map_option AtomicRedeemInstruction (decode_payload (pc_atomic_redeem W) payload)
      else if t = SWAP then map_option Swap (decode_payload (pc_swap W) payload)
      else if t = WRITE_DOWN_FEES then map_option WriteDownFees (decode_payload (pc_write_down_fees W) payload)
      else if t = REGISTER_EXTERNAL_DESTINATION then map_option (\<lambda>_. RegisterExternalDestination) (decode_payload (pc_register_external_destination W) payload)
      else if t = REVOKE_EXTERNAL_DESTINATION then map_option (\<lambda>_. RevokeExternalDestination) (decode_payload (pc_revoke_external_destination W) payload)
      else if t = SET_SHARE_METADATA then map_option SetShareMetadata (decode_payload (pc_set_share_metadata W) payload)
      else if t = ASSERT_DELEGATE_CLEARED then map_option (\<lambda>_. AssertDelegateCleared) (decode_payload (pc_assert_delegate_cleared W) payload)
      else if t = ADMIN_SET_FLASH_FEE_RATE then map_option AdminSetFlashFeeRate (decode_payload (pc_admin_set_flash_fee_rate W) payload)
      else if t = STRATEGIST_LOWER_FLASH_FEE_RATE then map_option StrategistLowerFlashFeeRate (decode_payload (pc_strategist_lower_flash_fee_rate W) payload)
      else if t = RECOVER_NAV then map_option RecoverNav (decode_payload (pc_recover_nav W) payload)
      else if t = DEPOSIT_AND_DEPLOY then map_option DepositAndDeploy (decode_payload (pc_deposit_and_deploy W) payload)
      else None)"

definition decode :: "payload_codec \<Rightarrow> bytes \<Rightarrow> roshi_instruction option" where
  "decode W data = (case data of [] \<Rightarrow> None | t # payload \<Rightarrow> decode_tagged W t payload)"

primrec serialize_payload :: "payload_codec \<Rightarrow> roshi_instruction \<Rightarrow> bytes option" where
  "serialize_payload W (InitializeProgram args) = fst (pc_initialize_program W) args"
| "serialize_payload W (InitializeVault args) = fst (pc_initialize_vault W) args"
| "serialize_payload W (AuthorizeAction args) = fst (pc_authorize_action W) args"
| "serialize_payload W (RevokeAction args) = fst (pc_revoke_action W) args"
| "serialize_payload W (Manage args) = fst (pc_manage W) args"
| "serialize_payload W (ManageBatch args) = fst (pc_manage_batch W) args"
| "serialize_payload W (ReportNav args) = fst (pc_report_nav W) args"
| "serialize_payload W (Deposit args) = fst (pc_deposit W) args"
| "serialize_payload W (Redeem args) = fst (pc_redeem W) args"
| "serialize_payload W (CancelRedeem args) = fst (pc_cancel_redeem W) args"
| "serialize_payload W ProcessWithdrawals = fst (pc_process_withdrawals W) ()"
| "serialize_payload W (UpdateVaultConfig args) = fst (pc_update_vault_config W) args"
| "serialize_payload W (InitializeAsset args) = fst (pc_initialize_asset W) args"
| "serialize_payload W (UpdateAsset args) = fst (pc_update_asset W) args"
| "serialize_payload W (SetPauseFlags args) = fst (pc_set_pause_flags W) args"
| "serialize_payload W (SetVaultAccess args) = fst (pc_set_vault_access W) args"
| "serialize_payload W (TransferProgramAuthority args) = fst (pc_transfer_program_authority W) args"
| "serialize_payload W (TransferVaultAuthority args) = fst (pc_transfer_vault_authority W) args"
| "serialize_payload W (SetStrategist args) = fst (pc_set_strategist W) args"
| "serialize_payload W (SetNavAuthority args) = fst (pc_set_nav_authority W) args"
| "serialize_payload W (SetWithdrawalAuthority args) = fst (pc_set_withdrawal_authority W) args"
| "serialize_payload W (CollectFees args) = fst (pc_collect_fees W) args"
| "serialize_payload W (InvestExternal args) = fst (pc_invest_external W) args"
| "serialize_payload W (ReturnExternal args) = fst (pc_return_external W) args"
| "serialize_payload W (SetSwapAuthority args) = fst (pc_set_swap_authority W) args"
| "serialize_payload W (AtomicRedeemInstruction args) = fst (pc_atomic_redeem W) args"
| "serialize_payload W (Swap args) = fst (pc_swap W) args"
| "serialize_payload W (WriteDownFees args) = fst (pc_write_down_fees W) args"
| "serialize_payload W RegisterExternalDestination = fst (pc_register_external_destination W) ()"
| "serialize_payload W RevokeExternalDestination = fst (pc_revoke_external_destination W) ()"
| "serialize_payload W (SetShareMetadata args) = fst (pc_set_share_metadata W) args"
| "serialize_payload W AssertDelegateCleared = fst (pc_assert_delegate_cleared W) ()"
| "serialize_payload W (AdminSetFlashFeeRate args) = fst (pc_admin_set_flash_fee_rate W) args"
| "serialize_payload W (StrategistLowerFlashFeeRate args) = fst (pc_strategist_lower_flash_fee_rate W) args"
| "serialize_payload W (RecoverNav args) = fst (pc_recover_nav W) args"
| "serialize_payload W (DepositAndDeploy args) = fst (pc_deposit_and_deploy W) args"

definition serialize_roshi :: "payload_codec \<Rightarrow> roshi_instruction \<Rightarrow> bytes option" where
  "serialize_roshi W i = map_option (\<lambda>payload. tag i # payload) (serialize_payload W i)"

section \<open>Dispatch\<close>

primrec run_instruction ::
  "env \<Rightarrow> account_info list \<Rightarrow> ledger \<Rightarrow> roshi_instruction \<Rightarrow> ledger program_result" where
  "run_instruction E accounts L (InitializeProgram args) = try_initialize_program E accounts args L"
| "run_instruction E accounts L (InitializeVault args) = try_initialize_vault E accounts args L"
| "run_instruction E accounts L (AuthorizeAction args) = try_authorize_action E accounts args L"
| "run_instruction E accounts L (RevokeAction args) = try_revoke_action E accounts args L"
| "run_instruction E accounts L (Manage args) = try_manage E accounts args L"
| "run_instruction E accounts L (ManageBatch args) = try_manage_batch E accounts args L"
| "run_instruction E accounts L (ReportNav args) = try_report_nav E accounts args L"
| "run_instruction E accounts L (Deposit args) = try_deposit E accounts args L"
| "run_instruction E accounts L (Redeem args) = try_redeem E accounts args L"
| "run_instruction E accounts L (CancelRedeem args) = try_cancel_redeem E accounts args L"
| "run_instruction E accounts L ProcessWithdrawals = try_process_withdrawals E accounts L"
| "run_instruction E accounts L (UpdateVaultConfig args) = try_update_vault_config E accounts args L"
| "run_instruction E accounts L (InitializeAsset args) = try_initialize_asset E accounts args L"
| "run_instruction E accounts L (UpdateAsset args) = try_update_asset E accounts args L"
| "run_instruction E accounts L (SetPauseFlags args) = try_set_pause_flags E accounts args L"
| "run_instruction E accounts L (SetVaultAccess args) = try_set_vault_access E accounts args L"
| "run_instruction E accounts L (TransferProgramAuthority args) = try_transfer_program_authority E accounts args L"
| "run_instruction E accounts L (TransferVaultAuthority args) = try_transfer_vault_authority E accounts args L"
| "run_instruction E accounts L (SetStrategist args) = try_set_strategist E accounts args L"
| "run_instruction E accounts L (SetNavAuthority args) = try_set_nav_authority E accounts args L"
| "run_instruction E accounts L (SetWithdrawalAuthority args) = try_set_withdrawal_authority E accounts args L"
| "run_instruction E accounts L (CollectFees args) = try_collect_fees E accounts args L"
| "run_instruction E accounts L (InvestExternal args) = try_invest_external E accounts args L"
| "run_instruction E accounts L (ReturnExternal args) = try_return_external E accounts args L"
| "run_instruction E accounts L (SetSwapAuthority args) = try_set_swap_authority E accounts args L"
| "run_instruction E accounts L (AtomicRedeemInstruction args) = try_atomic_redeem E accounts args L"
| "run_instruction E accounts L (Swap args) = try_swap E accounts args L"
| "run_instruction E accounts L (WriteDownFees args) = try_write_down_fees E accounts args L"
| "run_instruction E accounts L RegisterExternalDestination = try_register_external_destination E accounts L"
| "run_instruction E accounts L RevokeExternalDestination = try_revoke_external_destination E accounts L"
| "run_instruction E accounts L (SetShareMetadata args) = try_set_share_metadata E accounts args L"
| "run_instruction E accounts L AssertDelegateCleared = try_assert_delegate_cleared accounts L"
| "run_instruction E accounts L (AdminSetFlashFeeRate args) = try_admin_set_flash_fee_rate E accounts (fst args) (snd args) L"
| "run_instruction E accounts L (StrategistLowerFlashFeeRate args) = try_strategist_lower_flash_fee_rate E accounts (fst args) (snd args) L"
| "run_instruction E accounts L (RecoverNav args) = try_recover_nav E accounts args L"
| "run_instruction E accounts L (DepositAndDeploy args) = try_deposit_and_deploy E accounts args L"

definition try_process_instruction ::
  "env \<Rightarrow> payload_codec \<Rightarrow> key \<Rightarrow> account_info list \<Rightarrow> bytes \<Rightarrow> ledger \<Rightarrow> ledger program_result" where
  "try_process_instruction E W program_id accounts data L =
     (if program_id \<noteq> ID then Inl IncorrectProgramId else
      attempt (ok_or (decode W data) InvalidInstructionData) (\<lambda>i. run_instruction E accounts L i))"

end
