(* ===== verification/Example_Env.thy ===== *)
theory Example_Env
  imports Instruction_Refinement Processor
begin

text \<open>
  A concrete environment and ledger on which the assumptions about the runtime, the codec and the
  token program hold, for the witnesses of the instruction-level theorems: the wire layout of
  \<open>Codec\<close>, a token program that keeps the supply of mints and accepts every transfer, and a
  vault with ten thousand atoms, six hundred of them unlocking, and its share mint.
\<close>

section \<open>A token program\<close>

definition put_supply :: "u64 \<Rightarrow> bytes \<Rightarrow> bytes" where
  "put_supply n d = take 36 d @ to_le_bytes n @ drop 44 d"

definition move_supply :: "(u64 \<Rightarrow> u64 \<Rightarrow> u64 option) \<Rightarrow> key \<Rightarrow> u64 \<Rightarrow> ledger \<Rightarrow> ledger program_result" where
  "move_supply f m amount L =
     (if c_owner (L m) \<noteq> TOKEN_PROGRAM_ID then Inl IncorrectProgramId else
      attempt (mint_supply L \<lparr>ai_key = m, ai_is_signer = False, ai_is_writable = True\<rparr>) (\<lambda>n.
      attempt (ok_or (f n amount) ArithmeticOverflow) (\<lambda>n'.
      Inr (set_data m (put_supply n' (c_data (L m))) L))))"

definition example_invoke ::
  "instruction \<Rightarrow> account_info list \<Rightarrow> bytes list list \<Rightarrow> ledger \<Rightarrow> ledger program_result" where
  "example_invoke ix infos seeds L =
     (if ix_program_id ix \<noteq> TOKEN_PROGRAM_ID then Inl IncorrectProgramId else
      case (ix_data ix, ix_accounts ix) of
        (t # payload, a # b # _) \<Rightarrow>
          if t = MINT_TO_INSTRUCTION then move_supply checked_add (am_pubkey a) (from_le_bytes payload) L
          else if t = BURN_INSTRUCTION then move_supply checked_sub (am_pubkey b) (from_le_bytes payload) L
          else if t = TRANSFER_INSTRUCTION then Inr L
          else Inl InvalidInstructionData
      | _ \<Rightarrow> Inl InvalidInstructionData)"

definition system_ix :: instruction where
  "system_ix = \<lparr>ix_program_id = SYSTEM_PROGRAM_ID, ix_accounts = [], ix_data = []\<rparr>"

definition example_address :: pda_function where
  "example_address seeds program =
     (if program = ASSOCIATED_TOKEN_PROGRAM_ID then (21, 255)
      else if hd seeds = VAULT_SEED then (20, 255)
      else if hd seeds = TICKET_SEED then (22, 254)
      else if hd seeds = SUB_ACCOUNT_SEED then (23, 253)
      else (24, 252))"

definition example_env :: env where
  "example_env = \<lparr>find_program_address = example_address, sha256 = (\<lambda>bs. word_of_nat (le_value bs)),
     serialize = wire_serialize, deserialize = wire_deserialize,
     get_clock = Inr \<lparr>clock_slot = 700, unix_timestamp = 2500\<rparr>, rent_minimum_balance = (\<lambda>n. Inr 0),
     invoke_signed = example_invoke, create_account_ix = (\<lambda>_ _ _ _ _. system_ix),
     system_transfer_ix = (\<lambda>_ _ _. system_ix), allocate_ix = (\<lambda>_ _. system_ix), assign_ix = (\<lambda>_ _. system_ix),
     initialize_mint2_ix = (\<lambda>_ _ _ _. Inl InvalidArgument), verify_quote = (\<lambda>_ _ _ _ _ _ _. None),
     parse_quote = (\<lambda>_. None), load_current_index_checked = (\<lambda>_ _. Inr 0),
     load_instruction_at_checked = (\<lambda>_ _ _. Inl InvalidArgument),
     get_instruction_relative = (\<lambda>_ _ _. Inl InvalidArgument)\<rparr>"

lemma move_supply_Inr:
  assumes "move_supply f m amount L = Inr L'"
  obtains n n' where "c_owner (L m) = TOKEN_PROGRAM_ID"
    and "mint_supply L \<lparr>ai_key = m, ai_is_signer = False, ai_is_writable = True\<rparr> = Inr n" and "f n amount = Some n'"
    and "L' = set_data m (put_supply n' (c_data (L m))) L"
  using assms by (auto simp: move_supply_def result_facts split: if_splits)

lemma mint_supply_key: "mint_supply L a = mint_supply L \<lparr>ai_key = ai_key a, ai_is_signer = s, ai_is_writable = w\<rparr>"
  by (simp add: mint_supply_def)

lemma mint_supply_put:
  assumes "mint_supply L a = Inr n"
  shows "mint_supply (set_data (ai_key a) (put_supply n' (data_of L a)) L) a = Inr n'"
  using assms
  by (auto simp: mint_supply_def put_supply_def Let_def token_layout_defs nth_append field_def split: if_splits)

lemma example_codec_ok: "codec_ok example_env"
  by (simp add: codec_ok_def example_env_def wire_round_trip)

lemma example_invoke_frame:
  assumes "example_invoke ix infos seeds L = Inr L'" and "c_owner (L k) \<noteq> TOKEN_PROGRAM_ID"
  shows "c_owner (L' k) = c_owner (L k) \<and> c_data (L' k) = c_data (L k)"
  using assms
  by (auto simp: example_invoke_def elim!: move_supply_Inr split: if_splits list.splits)

lemma example_runtime_ok: "runtime_ok example_env"
proof -
  have "ix_program_id ix = TOKEN_PROGRAM_ID" if "example_invoke ix infos seeds L = Inr L'" for ix infos seeds L L'
    using that by (auto simp: example_invoke_def split: if_splits)
  with example_invoke_frame show ?thesis
    unfolding runtime_ok_def by (simp add: example_env_def system_ix_def)
qed

lemma example_token_ok: "token_ok example_env"
proof -
  have mint: "\<exists>n n'. mint_supply L m = Inr n \<and> mint_supply L' m = Inr n' \<and> f n amount = Some n'"
    if "move_supply f (ai_key m) amount L = Inr L'" for f m amount L L'
    using that mint_supply_put
    by (elim move_supply_Inr) (metis mint_supply_key)
  have "example_invoke (token_amount_instruction TOKEN_PROGRAM_ID MINT_TO_INSTRUCTION a b c amount) infos seeds L
      = move_supply checked_add a amount L"
    and "example_invoke (token_amount_instruction TOKEN_PROGRAM_ID BURN_INSTRUCTION a b c amount) infos seeds L
      = move_supply checked_sub b amount L" for a b c amount infos seeds L
    by (simp_all add: example_invoke_def token_amount_instruction_def MINT_TO_INSTRUCTION_def BURN_INSTRUCTION_def)
  moreover have same: "L' = L" if "example_invoke (token_amount_instruction p TRANSFER_INSTRUCTION a b c amount) infos seeds L = Inr L'"
    for p a b c amount infos seeds L L'
    using that by (auto simp: example_invoke_def token_amount_instruction_def TRANSFER_INSTRUCTION_def
        MINT_TO_INSTRUCTION_def BURN_INSTRUCTION_def split: if_splits)
  ultimately show ?thesis unfolding token_ok_def
    by (auto simp: example_env_def checked_add_Some_iff checked_sub_Some_iff dest!: mint dest: same)
qed

section \<open>A ledger\<close>

definition mint_bytes :: "u64 \<Rightarrow> bytes" where
  "mint_bytes supply = replicate 36 0 @ to_le_bytes supply @ [9, 1] @ replicate 36 0"

definition token_account_bytes :: "key \<Rightarrow> key \<Rightarrow> u64 \<Rightarrow> bytes" where
  "token_account_bytes mint holder amount =
     key_bytes mint @ key_bytes holder @ to_le_bytes amount @ replicate 36 0 @ [1] @ replicate 56 0"

text \<open>
  The vault at address 20 with its share mint 7 (ten billion shares, one for every atom at nine
  against six decimals), custody 21, the source 30 and share account 31 of depositor 40.
\<close>

definition example_ledger :: ledger where
  "example_ledger = (\<lambda>k.
     \<lparr>c_owner = (if k = 20 then ID else if k \<in> {7, 21, 30, 31} then TOKEN_PROGRAM_ID else SYSTEM_PROGRAM_ID),
      c_lamports = 0,
      c_data = (if k = 20 then account_bytes (VaultAccount example_vault)
                else if k = 7 then mint_bytes 9700000
                else if k = 21 then token_account_bytes 6 23 10000
                else if k = 30 then token_account_bytes 6 40 5000
                else if k = 31 then token_account_bytes 7 40 0 else []),
      c_executable = False\<rparr>)"

abbreviation handle :: "key \<Rightarrow> bool \<Rightarrow> bool \<Rightarrow> account_info" where
  "handle k s w \<equiv> \<lparr>ai_key = k, ai_is_signer = s, ai_is_writable = w\<rparr>"

lemma example_wf: "wf_account (VaultAccount example_vault)"
  by (simp add: example_vault_def oracle_config_default_def wf_oracle_config_def LEGS_SIZE_def oc_switchboard_def
      switchboard_config_new_def)

lemma vault_bytes_length: "wf_account (VaultAccount v) \<Longrightarrow> length (account_bytes (VaultAccount v)) = 689"
  using account_layout_round_trip [of 0] by (auto simp: wire_serialize_def dest!: spec [of _ "VaultAccount v"])

lemma example_address_ok: "vault_verify_address example_address example_vault 20 = Inr ()"
  by (simp add: vault_verify_address_def tag_seed_def vault_find_address_def example_address_def example_vault_def
      unpack_tag_def validate_tag_def MAX_TAG_LEN_def get_slice_def ascii_def ID_def ASSOCIATED_TOKEN_PROGRAM_ID_def)

lemma example_load: "load_checked example_env example_ledger (handle 20 s w) = Inr example_vault"
  using wire_round_trip [of "VaultAccount example_vault" _ "[]"] example_wf example_address_ok
  by (simp add: load_checked_Inr_iff example_ledger_def example_env_def example_vault_valid wire_serialize_def)

lemma example_supply: "mint_supply example_ledger (handle 7 s w) = Inr 9700000"
  by (simp add: mint_supply_def example_ledger_def mint_bytes_def is_token_program_def token_layout_defs
      nth_append field_def)

section \<open>A deposit\<close>

definition example_accounts :: "account_info list" where
  "example_accounts = [handle 40 True False, handle 20 False True, handle 30 False True, handle 21 False True,
     handle 31 False True, handle 7 False True, handle TOKEN_PROGRAM_ID False False, handle TOKEN_PROGRAM_ID False False]"

definition example_deposit :: deposit_args where
  "example_deposit = \<lparr>da_asset_mint = 6, da_amount = 97, da_min_shares_out = 90000, da_access_proof = []\<rparr>"

lemma example_context:
  "deposit_context_load example_env example_ledger example_accounts = Inr
     \<lparr>dc_depositor = handle 40 True False, dc_vault_account = handle 20 False True, dc_source = handle 30 False True,
      dc_custody = handle 21 False True, dc_share_dest = handle 31 False True, dc_share_mint = handle 7 False True,
      dc_share_token_program = handle TOKEN_PROGRAM_ID False False,
      dc_asset_token_program = handle TOKEN_PROGRAM_ID False False, dc_extra = [], dc_vault = example_vault\<rparr>"
  using example_load
  by (simp add: deposit_context_load_def example_accounts_def next_account_def require_writable_def
      verify_token_program_for_def verify_token_program_def is_token_program_def verify_share_mint_def)
     (simp add: example_ledger_def example_vault_def)

lemma example_prices:
  "shares_for_deposit 97 9700 9700000 6 = Inr 97000" "share_price_from_assets 9700 9700000 = Inr 1000000"
  by (simp_all add: shares_for_deposit_Inr_iff share_price_Inr_iff)

definition deposited_vault :: vault where
  "deposited_vault = example_vault\<lparr>v_total_assets := 10097\<rparr>"

lemma example_store:
  assumes "wf_account (VaultAccount v)" and "c_data (L 20) = account_bytes (VaultAccount example_vault)"
  shows "\<exists>L'. store_account example_env (VaultAccount v) (handle 20 False True) L = Inr L'"
  using assms vault_bytes_length [OF example_wf] vault_bytes_length [OF assms(1)]
  by (simp add: store_account_def example_env_def wire_serialize_def)

definition minted_ledger :: ledger where
  "minted_ledger = set_data 7 (put_supply 9797000 (mint_bytes 9700000)) example_ledger"

lemma example_token_calls:
  "token_transfer example_env (handle TOKEN_PROGRAM_ID False False) (handle 30 False True) (handle 21 False True)
     (handle 40 True False) 97 example_ledger = Inr example_ledger"
  "mint_to_signed example_env (handle TOKEN_PROGRAM_ID False False) (handle 7 False True) (handle 31 False True)
     (handle 20 False True) 97000 seeds example_ledger = Inr minted_ledger"
  using example_supply
  by (simp_all add: token_transfer_def mint_to_signed_def invoke_def token_amount_instruction_def example_env_def
      example_invoke_def TRANSFER_INSTRUCTION_def MINT_TO_INSTRUCTION_def BURN_INSTRUCTION_def move_supply_def
      checked_add_def minted_ledger_def)
     (simp add: example_ledger_def)

lemma example_vault_pricing:
  "deposits_paused example_vault = Inr False" "allows_depositor sha example_vault k []"
  "total_assets_after_deposit example_vault 97 = Inr 10097" "economic_share_supply example_vault 9700000 = Inr 9700000"
  "\<exists>t. tag_seed example_vault = Inr t"
  by (simp_all add: example_vault_def deposits_paused_def bool_flag_def allows_depositor_def vault_private_def
      total_assets_after_deposit_def economic_share_supply_def checked_add_def tag_seed_def unpack_tag_def
      validate_tag_def MAX_TAG_LEN_def get_slice_def ascii_def)

lemma example_deposit_run:
  "\<exists>L'. try_deposit example_env example_accounts example_deposit example_ledger = Inr L'"
proof -
  have "wf_account (VaultAccount deposited_vault)" using example_wf by (simp add: deposited_vault_def)
  moreover have "c_data (minted_ledger 20) = account_bytes (VaultAccount example_vault)"
    by (simp add: minted_ledger_def example_ledger_def)
  ultimately obtain L' where
    "store_account example_env (VaultAccount deposited_vault) (handle 20 False True) minted_ledger = Inr L'"
    using example_store by blast
  moreover obtain t where "tag_seed example_vault = Inr t" using example_vault_pricing(5) by blast
  moreover have "v_base_decimals example_vault = 6" "v_base_mint example_vault = 6"
    "get_clock example_env = Inr \<lparr>clock_slot = 700, unix_timestamp = 2500\<rparr>"
    "find_program_address example_env = example_address"
    by (simp_all add: example_vault_def example_env_def)
  ultimately have "try_deposit example_env example_accounts example_deposit example_ledger = Inr L'"
    using example_context example_prices example_token_calls example_vault_pricing example_vault_effective example_supply
    by (simp add: try_deposit_def execute_deposit_def resolve_base_atoms_def associated_token_address_def
        example_address_def example_deposit_def MAX_ACCESS_PROOF_LEN_def deposited_vault_def Let_def)
  then show ?thesis by blast
qed

section \<open>A payload codec\<close>

definition no_codec :: "'a wincode" where
  "no_codec = (\<lambda>_. None, \<lambda>_. None)"

definition unit_codec :: "unit wincode" where
  "unit_codec = (\<lambda>_. Some [], \<lambda>bs. if bs = [] then Some () else None)"

definition u64_codec :: "u64 wincode" where
  "u64_codec = (\<lambda>w. Some (to_le_bytes w), \<lambda>bs. if length bs = 8 then Some (from_le_bytes bs) else None)"

definition pause_codec :: "set_pause_flags_args wincode" where
  "pause_codec =
     (\<lambda>a. Some [u8_of_bool (spf_deposits_paused a), u8_of_bool (spf_withdrawals_paused a), u8_of_bool (spf_manage_paused a)],
      \<lambda>bs. case bs of [a, b, c] \<Rightarrow>
          if a \<le> 1 \<and> b \<le> 1 \<and> c \<le> 1
          then Some \<lparr>spf_deposits_paused = (a = 1), spf_withdrawals_paused = (b = 1), spf_manage_paused = (c = 1)\<rparr>
          else None
        | _ \<Rightarrow> None)"

text \<open>The wire forms of the argument structures used in the witnesses; the others have none here.\<close>

definition example_codec :: payload_codec where
  "example_codec =
     \<lparr>pc_initialize_program = no_codec, pc_initialize_vault = no_codec,
      pc_authorize_action = no_codec, pc_revoke_action = no_codec, pc_manage = no_codec,
      pc_manage_batch = no_codec, pc_report_nav = no_codec, pc_deposit = no_codec, pc_redeem = no_codec,
      pc_cancel_redeem = no_codec, pc_process_withdrawals = unit_codec, pc_update_vault_config = no_codec,
      pc_initialize_asset = no_codec, pc_update_asset = no_codec, pc_set_pause_flags = pause_codec,
      pc_set_vault_access = no_codec, pc_transfer_program_authority = no_codec,
      pc_transfer_vault_authority = no_codec, pc_set_strategist = no_codec,
      pc_set_nav_authority = no_codec, pc_set_withdrawal_authority = no_codec, pc_collect_fees = no_codec,
      pc_invest_external = no_codec, pc_return_external = no_codec, pc_set_swap_authority = no_codec,
      pc_atomic_redeem = no_codec, pc_swap = no_codec, pc_write_down_fees = u64_codec,
      pc_register_external_destination = unit_codec, pc_revoke_external_destination = unit_codec,
      pc_set_share_metadata = no_codec, pc_assert_delegate_cleared = unit_codec,
      pc_admin_set_flash_fee_rate = no_codec, pc_strategist_lower_flash_fee_rate = no_codec,
      pc_recover_nav = no_codec, pc_deposit_and_deploy = no_codec\<rparr>"

end
