(* ===== verification/Offchain_Readers.thy ===== *)
theory Offchain_Readers
  imports Example_Env
begin

text \<open>
  The readers of account data that run off the chain: \<open>Vault::from_account_data\<close> and
  \<open>Asset::from_account_data\<close> of \<open>crates/interface/src/state\<close>. The decoder of a bare vault or asset
  is a parameter, like that of the tagged account.
\<close>

section \<open>Definitions\<close>

definition VAULT_ACCOUNT_TAG :: u8 where "VAULT_ACCOUNT_TAG = 1"
definition ASSET_ACCOUNT_TAG :: u8 where "ASSET_ACCOUNT_TAG = 4"

definition vault_from_account_data :: "(bytes \<Rightarrow> vault option) \<Rightarrow> bytes \<Rightarrow> vault program_result" where
  "vault_from_account_data deserialize_vault data =
     attempt (ok_or (case data of [] \<Rightarrow> None | t # rest \<Rightarrow> Some (t, rest)) (into_program_error InvalidVaultAccount)) (\<lambda>(t, rest).
     if t \<noteq> VAULT_ACCOUNT_TAG then Inl (into_program_error InvalidVaultAccount) else
     attempt (ok_or (deserialize_vault rest) (into_program_error InvalidVaultAccount)) (\<lambda>v.
     attempt (vault_validate_state v) (\<lambda>_. Inr v)))"

definition asset_from_account_data :: "(bytes \<Rightarrow> asset option) \<Rightarrow> bytes \<Rightarrow> asset program_result" where
  "asset_from_account_data deserialize_asset data =
     attempt (ok_or (case data of [] \<Rightarrow> None | t # rest \<Rightarrow> Some (t, rest)) (into_program_error InvalidAssetAccount)) (\<lambda>(t, rest).
     if t \<noteq> ASSET_ACCOUNT_TAG then Inl (into_program_error InvalidAssetAccount) else
     attempt (ok_or (deserialize_asset rest) (into_program_error InvalidAssetAccount)) (\<lambda>a.
     attempt (asset_validate_state a) (\<lambda>_. Inr a)))"

text \<open>
  What the derive attributes of \<open>Account\<close> say of the serializer: a tagged account is one tag byte, as
  the variant declares it, and the bare value.
\<close>

definition tagged_ok :: "env \<Rightarrow> (bytes \<Rightarrow> vault option) \<Rightarrow> (bytes \<Rightarrow> asset option) \<Rightarrow> bool" where
  "tagged_ok E dv da \<longleftrightarrow>
     (\<forall>data v. deserialize E data = Some (VaultAccount v) \<longleftrightarrow> (\<exists>rest. data = 1 # rest \<and> dv rest = Some v)) \<and>
     (\<forall>data a. deserialize E data = Some (AssetAccount a) \<longleftrightarrow> (\<exists>rest. data = 4 # rest \<and> da rest = Some a))"

section \<open>Agreement with the program\<close>

lemma vault_from_account_data_Inr_iff:
  assumes "tagged_ok E dv da"
  shows "vault_from_account_data dv data = Inr v \<longleftrightarrow>
     deserialize E data = Some (VaultAccount v) \<and> vault_validate_state v = Inr ()"
proof -
  have "deserialize E data = Some (VaultAccount v) \<longleftrightarrow> (\<exists>rest. data = 1 # rest \<and> dv rest = Some v)"
    using assms by (simp add: tagged_ok_def)
  then show ?thesis
    by (cases data) (auto simp: vault_from_account_data_def VAULT_ACCOUNT_TAG_def result_facts)
qed

lemma asset_from_account_data_Inr_iff:
  assumes "tagged_ok E dv da"
  shows "asset_from_account_data da data = Inr a \<longleftrightarrow>
     deserialize E data = Some (AssetAccount a) \<and> asset_validate_state a = Inr ()"
proof -
  have "deserialize E data = Some (AssetAccount a) \<longleftrightarrow> (\<exists>rest. data = 4 # rest \<and> da rest = Some a)"
    using assms by (simp add: tagged_ok_def)
  then show ?thesis
    by (cases data) (auto simp: asset_from_account_data_def ASSET_ACCOUNT_TAG_def result_facts)
qed

text \<open>
  C37. The off-chain readers agree with the program: of the data of an account of the program they
  return a vault, or an asset, exactly when the program loads that vault or asset from it.
\<close>
theorem offchain_readers_agree:
  assumes "tagged_ok E dv da" and "owner_of L a = ID"
  shows "(vault_from_account_data dv (data_of L a) = Inr v \<longleftrightarrow> load_vault E L a = Inr v) \<and>
     (asset_from_account_data da (data_of L a) = Inr s \<longleftrightarrow> load_asset E L a = Inr s)"
proof -
  have kind: "(case acc of VaultAccount v \<Rightarrow> Inr v | _ \<Rightarrow> Inl e) = Inr v \<longleftrightarrow> acc = VaultAccount v"
    "(case acc of AssetAccount s \<Rightarrow> Inr s | _ \<Rightarrow> Inl e) = Inr s \<longleftrightarrow> acc = AssetAccount s" for acc and e :: program_error
    by (cases acc; auto)+
  have "load_vault E L a = Inr v \<longleftrightarrow> deserialize E (data_of L a) = Some (VaultAccount v) \<and> vault_validate_state v = Inr ()"
    and "load_asset E L a = Inr s \<longleftrightarrow> deserialize E (data_of L a) = Some (AssetAccount s) \<and> asset_validate_state s = Inr ()"
    using assms(2) kind by (auto simp: load_vault_def load_asset_def account_load_def result_facts)
  then show ?thesis
    using vault_from_account_data_Inr_iff [OF assms(1)] asset_from_account_data_Inr_iff [OF assms(1)] by simp
qed

lemma wire_tagged_ok: "tagged_ok example_env (map_option fst \<circ> get_vault) (map_option fst \<circ> get_asset)"
proof -
  have v: "wire_deserialize data = Some (VaultAccount v) \<longleftrightarrow> (\<exists>rest. data = 1 # rest \<and> map_option fst (get_vault rest) = Some v)" for data v
    by (cases data) (auto split: if_splits)
  have a: "wire_deserialize data = Some (AssetAccount a) \<longleftrightarrow> (\<exists>rest. data = 4 # rest \<and> map_option fst (get_asset rest) = Some a)" for data a
    by (cases data) (auto split: if_splits)
  show ?thesis by (simp add: tagged_ok_def example_env_def v a)
qed

theorem offchain_readers_agree_witness:
  "vault_from_account_data (map_option fst \<circ> get_vault) (c_data (example_ledger 20)) = Inr example_vault"
proof -
  have "owner_of example_ledger (handle 20 False False) = ID" by (simp add: example_ledger_def)
  moreover have "load_vault example_env example_ledger (handle 20 False False) = Inr example_vault"
    using example_load by (auto simp: load_checked_def result_facts)
  ultimately show ?thesis using offchain_readers_agree [OF wire_tagged_ok, of example_ledger "handle 20 False False"] by simp
qed

end
