(* ===== verification/Handler_Invariants.thy ===== *)
theory Handler_Invariants
  imports Instruction_Refinement Processor
begin

text \<open>
  A small calculus for handlers: what they keep of an invariant (\<open>keeps\<close>) and what a successful read
  satisfies (\<open>yields\<close>); and an interface \<open>ledger_invariant\<close>: what an invariant of one program account
  must satisfy for every handler to keep it. Each of the 36 handlers is verified once against it.
\<close>

section \<open>A calculus of invariants\<close>

definition keeps :: "('s \<Rightarrow> bool) \<Rightarrow> 's \<Rightarrow> 'e + 's \<Rightarrow> bool" where
  "keeps P s r \<longleftrightarrow> P s \<longrightarrow> (\<forall>s'. r = Inr s' \<longrightarrow> P s')"

named_theorems keeps_rules \<open>structural rules for the preservation of invariants\<close>

lemma keepsD: "keeps P s r \<Longrightarrow> P s \<Longrightarrow> r = Inr s' \<Longrightarrow> P s'"
  by (simp add: keeps_def)

lemma keeps_assume: "(P s \<Longrightarrow> keeps P s r) \<Longrightarrow> keeps P s r"
  by (auto simp: keeps_def)

lemma keeps_results [keeps_rules]: "keeps P s (Inl e)" "keeps P s (Inr s)"
  by (simp_all add: keeps_def)

lemma keeps_if [keeps_rules]:
  "(c \<Longrightarrow> keeps P s r) \<Longrightarrow> (\<not> c \<Longrightarrow> keeps P s r') \<Longrightarrow> keeps P s (if c then r else r')"
  by simp

lemma keeps_prod [keeps_rules]:
  "(\<And>a b. x = (a, b) \<Longrightarrow> keeps P s (f a b)) \<Longrightarrow> keeps P s (case x of (a, b) \<Rightarrow> f a b)"
  by (cases x) simp

lemma keeps_step [keeps_rules]:
  assumes "keeps P s m" and "\<And>s'. m = Inr s' \<Longrightarrow> keeps P s' (f s')"
  shows "keeps P s (attempt m f)"
  using assms by (auto simp: keeps_def result_facts)

lemma keeps_read [keeps_rules]:
  assumes "\<And>x. m = Inr x \<Longrightarrow> keeps P s (f x)"
  shows "keeps P s (attempt m f)"
  using assms by (auto simp: keeps_def result_facts)

text \<open>A step that returns a value beside the new state.\<close>

lemma keeps_step_value:
  assumes "\<And>x s'. m = Inr (x, s') \<Longrightarrow> P s \<Longrightarrow> P s'" and "\<And>x s'. m = Inr (x, s') \<Longrightarrow> keeps P s' (f x s')"
  shows "keeps P s (attempt m (\<lambda>(x, s'). f x s'))"
  using assms by (auto simp: keeps_def result_facts)

text \<open>The same shape for a read: what a successful result satisfies.\<close>

definition yields :: "('a \<Rightarrow> bool) \<Rightarrow> 'e + 'a \<Rightarrow> bool" where
  "yields Q r \<longleftrightarrow> (\<forall>x. r = Inr x \<longrightarrow> Q x)"

lemma yieldsD: "yields Q r \<Longrightarrow> r = Inr x \<Longrightarrow> Q x"
  by (simp add: yields_def)

lemma yields_attempt: "(\<And>x. m = Inr x \<Longrightarrow> yields Q (f x)) \<Longrightarrow> yields Q (attempt m f)"
  by (auto simp: yields_def result_facts)

lemma yields_if: "(c \<Longrightarrow> yields Q r) \<Longrightarrow> (\<not> c \<Longrightarrow> yields Q r') \<Longrightarrow> yields Q (if c then r else r')"
  by simp

lemma yields_prod: "(\<And>a b. x = (a, b) \<Longrightarrow> yields Q (f a b)) \<Longrightarrow> yields Q (case x of (a, b) \<Rightarrow> f a b)"
  by (cases x) simp

lemma yields_Inl: "yields Q (Inl e)"
  by (simp add: yields_def)

lemma yields_Inr: "Q x \<Longrightarrow> yields Q (Inr x)"
  by (simp add: yields_def)

lemmas yields_rules = yields_if yields_prod yields_attempt yields_Inl

section \<open>Typed loads\<close>

lemma account_cases_Inr_iff:
  "(case acc of ActionAccount x \<Rightarrow> Inr x | _ \<Rightarrow> Inl e) = Inr x' \<longleftrightarrow> acc = ActionAccount x'"
  "(case acc of WithdrawalTicketAccount t \<Rightarrow> Inr t | _ \<Rightarrow> Inl e) = Inr t' \<longleftrightarrow> acc = WithdrawalTicketAccount t'"
  "(case acc of AssetAccount s \<Rightarrow> Inr s | _ \<Rightarrow> Inl e) = Inr s' \<longleftrightarrow> acc = AssetAccount s'"
  "(case acc of ExternalDestinationAccount d \<Rightarrow> Inr d | _ \<Rightarrow> Inl e) = Inr d' \<longleftrightarrow> acc = ExternalDestinationAccount d'"
  "(case acc of ProgramConfigAccount c \<Rightarrow> Inr c | _ \<Rightarrow> Inl e) = Inr c' \<longleftrightarrow> acc = ProgramConfigAccount c'"
  by (cases acc; auto)+

lemma typed_loads:
  "load_action E L a = Inr x \<Longrightarrow> account_load E L a = Inr (ActionAccount x)"
  "load_ticket E L a = Inr t \<Longrightarrow> account_load E L a = Inr (WithdrawalTicketAccount t)"
  "load_asset E L a = Inr s \<Longrightarrow> account_load E L a = Inr (AssetAccount s)"
  "load_external_destination E L a = Inr d \<Longrightarrow> account_load E L a = Inr (ExternalDestinationAccount d)"
  "load_program_config E L a = Inr c \<Longrightarrow> account_load E L a = Inr (ProgramConfigAccount c)"
  by (auto simp: load_action_def load_ticket_def load_asset_def load_external_destination_def
      load_program_config_def result_facts account_cases_Inr_iff)

section \<open>The interface\<close>

text \<open>What identifies a vault: its address seeds, its mints and its decimals.\<close>

definition vault_identity :: "vault \<Rightarrow> key \<times> u8 \<times> u8 \<times> key \<times> key \<times> u8" where
  "vault_identity v = (v_tag v, v_tag_len v, v_bump v, v_base_mint v, v_share_mint v, v_base_decimals v)"

text \<open>How every handler moves a vault: the identity stays, the watermark and the report epoch never fall.\<close>

definition evolves :: "vault \<Rightarrow> vault \<Rightarrow> bool" where
  "evolves v w \<longleftrightarrow> vault_identity w = vault_identity v \<and> v_high_watermark v \<le> v_high_watermark w \<and>
     v_report_epoch v \<le> v_report_epoch w"

lemma evolves_refl [simp]: "evolves v v"
  by (simp add: evolves_def)

lemma evolves_trans: "evolves u v \<Longrightarrow> evolves v w \<Longrightarrow> evolves u w"
  by (auto simp: evolves_def)

text \<open>The counters of the withdrawal queue, which only three handlers touch.\<close>

definition queue_counters :: "vault \<Rightarrow> u64 \<times> u64" where
  "queue_counters v = (v_requested_withdrawal_shares v, v_pending_withdrawal_assets v)"

text \<open>The kinds of accounts of the program, and the kind besides vaults that an instruction may create, change or close.\<close>

datatype account_kind = VaultKind | ActionKind | TicketKind | AssetKind | DestinationKind | ConfigKind

primrec kind_of :: "account \<Rightarrow> account_kind" where
  "kind_of (VaultAccount v) = VaultKind"
| "kind_of (ActionAccount x) = ActionKind"
| "kind_of (WithdrawalTicketAccount t) = TicketKind"
| "kind_of (AssetAccount s) = AssetKind"
| "kind_of (ExternalDestinationAccount d) = DestinationKind"
| "kind_of (ProgramConfigAccount c) = ConfigKind"

primrec writes :: "roshi_instruction \<Rightarrow> account_kind set" where
  "writes (InitializeProgram args) = {ConfigKind}"
| "writes (InitializeVault args) = {}"
| "writes (AuthorizeAction args) = {ActionKind}"
| "writes (RevokeAction args) = {ActionKind}"
| "writes (Manage args) = {}"
| "writes (ManageBatch args) = {}"
| "writes (ReportNav args) = {}"
| "writes (Deposit args) = {}"
| "writes (Redeem args) = {TicketKind}"
| "writes (CancelRedeem args) = {TicketKind}"
| "writes ProcessWithdrawals = {TicketKind}"
| "writes (UpdateVaultConfig args) = {}"
| "writes (InitializeAsset args) = {AssetKind}"
| "writes (UpdateAsset args) = {AssetKind}"
| "writes (SetPauseFlags args) = {}"
| "writes (SetVaultAccess args) = {}"
| "writes (TransferProgramAuthority args) = {ConfigKind}"
| "writes (TransferVaultAuthority args) = {}"
| "writes (SetStrategist args) = {}"
| "writes (SetNavAuthority args) = {}"
| "writes (SetWithdrawalAuthority args) = {}"
| "writes (CollectFees args) = {}"
| "writes (InvestExternal args) = {}"
| "writes (ReturnExternal args) = {}"
| "writes (SetSwapAuthority args) = {}"
| "writes (AtomicRedeemInstruction args) = {}"
| "writes (Swap args) = {}"
| "writes (WriteDownFees args) = {}"
| "writes RegisterExternalDestination = {DestinationKind}"
| "writes RevokeExternalDestination = {DestinationKind}"
| "writes (SetShareMetadata args) = {}"
| "writes AssertDelegateCleared = {}"
| "writes (AdminSetFlashFeeRate args) = {ActionKind}"
| "writes (StrategistLowerFlashFeeRate args) = {ActionKind}"
| "writes (RecoverNav args) = {}"
| "writes (DepositAndDeploy args) = {}"

text \<open>No account of a watched kind is stored under a key.\<close>

definition unwatched :: "env \<Rightarrow> account_kind set \<Rightarrow> ledger \<Rightarrow> key \<Rightarrow> bool" where
  "unwatched E watched L j \<longleftrightarrow>
     \<not> (c_owner (L j) = ID \<and> (\<exists>acc. deserialize E (c_data (L j)) = Some acc \<and> kind_of acc \<in> watched))"

text \<open>What the calls of a handler into other programs keep.\<close>

locale call_invariant =
  fixes E :: env and inv :: "ledger \<Rightarrow> bool"
  assumes call: "inv L \<Longrightarrow> invoke_signed E ix infos seeds L = Inr L' \<Longrightarrow> inv L'"
begin

lemma keeps_invoke_signed: "keeps inv L (invoke_signed E ix infos seeds L)"
  using call by (auto simp: keeps_def)

lemma keeps_calls:
  "keeps inv L (invoke E ix infos L)"
  "keeps inv L (token_transfer E p s d a n L)"
  "keeps inv L (token_transfer_signed E p s d a n seeds L)"
  "keeps inv L (token_burn E p s d a n L)"
  "keeps inv L (mint_to_signed E p s d a n seeds L)"
  "keeps inv L (invoke_authorized_cpi E cpi L)"
  by (simp_all add: invoke_def token_transfer_def token_transfer_signed_def token_burn_def mint_to_signed_def
      invoke_authorized_cpi_def keeps_invoke_signed)

lemma keeps_initialize_mint: "keeps inv L (initialize_mint E p m a d L)"
  unfolding initialize_mint_def by (intro keeps_if keeps_read keeps_results keeps_calls)

lemma keeps_create_pda_account: "keeps inv L (create_pda_account E payer target sys space owner seeds L)"
  unfolding create_pda_account_def Let_def
  by (intro keeps_read keeps_if keeps_step [where f = "\<lambda>L1. attempt (f L1) (g L1)" for f g] keeps_step
      keeps_invoke_signed keeps_calls keeps_results)

end

text \<open>
  An invariant of the accounts in \<open>held\<close>, which are vaults or of a \<open>watched\<close> kind. It may depend on which
  other accounts of these kinds exist, but on nothing else stored outside \<open>held\<close>, and it tolerates the
  vault updates in \<open>rel\<close>, which include all that leave the queue alone.
\<close>

locale ledger_invariant = call_invariant +
  fixes held :: "key set" and watched :: "account_kind set" and rel :: "vault \<Rightarrow> vault \<Rightarrow> bool"
  assumes codec: "inv L \<Longrightarrow> codec_ok E"
    and frame: "inv L \<Longrightarrow> (\<And>j. same_cell L L' j \<or> j \<notin> held \<and> unwatched E watched L' j) \<Longrightarrow> inv L'"
    and owned: "inv L \<Longrightarrow> j \<in> held \<Longrightarrow> c_owner (L j) = ID"
    and kinds: "inv L \<Longrightarrow> j \<in> held \<Longrightarrow>
      \<exists>acc. deserialize E (c_data (L j)) = Some acc \<and> (kind_of acc = VaultKind \<or> kind_of acc \<in> watched)"
    and vaults: "VaultKind \<notin> watched"
    and quiet_rel: "evolves v w \<Longrightarrow> queue_counters w = queue_counters v \<Longrightarrow> rel v w"
    and update: "inv L0 \<Longrightarrow> load_checked E L0 a = Inr v \<Longrightarrow> rel v w \<Longrightarrow>
      vault_validate_state w = Inr () \<Longrightarrow> inv L \<Longrightarrow> store_account E (VaultAccount w) a L = Inr L' \<Longrightarrow> inv L'"
begin

lemma other_kind_not_held:
  assumes "inv L" and "account_load E L a = Inr acc" and "kind_of acc \<noteq> VaultKind" and "kind_of acc \<notin> watched"
  shows "ai_key a \<notin> held"
  using assms kinds [OF assms(1), of "ai_key a"] by (auto simp: account_load_def result_facts split: if_splits)

lemma loads_not_held:
  assumes "inv L"
  shows "load_action E L a = Inr x \<Longrightarrow> ActionKind \<notin> watched \<Longrightarrow> ai_key a \<notin> held"
    and "load_asset E L a = Inr s \<Longrightarrow> AssetKind \<notin> watched \<Longrightarrow> ai_key a \<notin> held"
    and "load_external_destination E L a = Inr d \<Longrightarrow> DestinationKind \<notin> watched \<Longrightarrow> ai_key a \<notin> held"
    and "load_program_config E L a = Inr c \<Longrightarrow> ConfigKind \<notin> watched \<Longrightarrow> ai_key a \<notin> held"
    and "load_ticket E L a = Inr t \<Longrightarrow> TicketKind \<notin> watched \<Longrightarrow> ai_key a \<notin> held"
  using other_kind_not_held [OF assms, of a] by (auto dest: typed_loads)

lemma uninitialized_not_held:
  assumes "inv L" and "require_uninitialized_account L a = Inr u"
  shows "ai_key a \<notin> held"
  using assms owned [OF assms(1)] by (auto simp: require_uninitialized_account_def split: if_splits)

text \<open>Writing one account outside \<open>held\<close>, with an account of no watched kind.\<close>

lemma write_elsewhere:
  assumes "inv L" and "a \<notin> held" and "unwatched E watched L' a" and "\<And>j. j \<noteq> a \<Longrightarrow> same_cell L L' j"
  shows "inv L'"
  using frame [OF assms(1), of L'] assms(2-4) by metis

lemma keeps_store_other:
  assumes "ai_key a \<notin> held" and "kind_of acc \<notin> watched"
  shows "keeps inv L (store_account E acc a L)"
proof -
  have "inv L'" if st: "store_account E acc a L = Inr L'" and "inv L" for L'
  proof (rule write_elsewhere [OF \<open>inv L\<close> assms(1)])
    show "unwatched E watched L' (ai_key a)"
      using st assms(2) codec [OF \<open>inv L\<close>]
      by (auto simp: store_account_def unwatched_def codec_ok_def overwrite_prefix_def result_facts split: if_splits)
  qed (rule store_account_other [OF st])
  then show ?thesis by (simp add: keeps_def)
qed

lemma keeps_close_account:
  assumes "ai_key a \<notin> held"
  shows "keeps inv L (close_account a r L)"
proof -
  have "inv L'" if cl: "close_account a r L = Inr L'" and "inv L" for L'
  proof (rule write_elsewhere [OF \<open>inv L\<close> assms])
    show "unwatched E watched L' (ai_key a)"
      using cl by (auto simp: close_account_def unwatched_def result_facts set_owner_def Let_def)
  qed (rule close_account_other [OF cl])
  then show ?thesis by (simp add: keeps_def)
qed

lemma keeps_copy_serialized:
  assumes "ok_or (serialize E acc) e = Inr bs" and "ai_key a \<notin> held" and "kind_of acc \<notin> watched"
  shows "keeps inv L (copy_serialized bs a L)"
proof -
  have "inv L'" if cp: "copy_serialized bs a L = Inr L'" and "inv L" for L'
  proof (rule write_elsewhere [OF \<open>inv L\<close> assms(2)])
    show "unwatched E watched L' (ai_key a)"
      using cp assms codec [OF \<open>inv L\<close>]
      by (auto simp: copy_serialized_def unwatched_def codec_ok_def overwrite_prefix_def result_facts split: if_splits)
    show "same_cell L L' j" if "j \<noteq> ai_key a" for j
      using cp that by (auto simp: copy_serialized_def same_cell_def split: if_splits)
  qed
  then show ?thesis by (simp add: keeps_def)
qed

lemma keeps_store_new:
  assumes "ai_key a \<notin> held" and "kind_of acc \<notin> watched"
  shows "keeps inv L (store_new_account E acc space a L)"
  unfolding store_new_account_def
  by (intro keeps_read keeps_if keeps_results) (rule keeps_copy_serialized [OF _ assms], assumption)

lemma keeps_rel_update:
  assumes "inv L0" and "load_checked E L0 a = Inr v" and "rel v w" and "vault_validate_state w = Inr ()"
  shows "keeps inv L (store_account E (VaultAccount w) a L)"
  using update [OF assms] by (auto simp: keeps_def)

lemma keeps_update:
  assumes "inv L0" and "load_checked E L0 a = Inr v" and "evolves v w" and "queue_counters w = queue_counters v"
    and "vault_validate_state w = Inr ()"
  shows "keeps inv L (store_account E (VaultAccount w) a L)"
  using keeps_rel_update [OF assms(1,2) quiet_rel [OF assms(3,4)] assms(5)] .

lemma keeps_role_store:
  assumes "inv L0" and "load_checked E L0 a = Inr v" and "evolves v w" and "queue_counters w = queue_counters v"
  shows "keeps inv L (writable_vault_role_context_store E w a L)"
  unfolding writable_vault_role_context_store_def
  by (rule keeps_read) (rule keeps_update [OF assms], simp)

end

section \<open>Every handler keeps the invariant\<close>

lemma role_context_load_Inr:
  "vault_role_context_load E L au a r = Inr v \<Longrightarrow>
     load_checked E L a = Inr v \<and> ai_is_signer au \<and> authority_for_role v r = ai_key au"
  "writable_vault_role_context_load E L au a r = Inr v \<Longrightarrow>
     load_checked E L a = Inr v \<and> ai_is_signer au \<and> authority_for_role v r = ai_key au"
  by (auto simp: vault_role_context_load_def writable_vault_role_context_load_def result_facts)

lemma load_checked_valid: "load_checked E L a = Inr v \<Longrightarrow> vault_validate_state v = Inr ()"
  by (simp add: load_checked_Inr_iff)

text \<open>The accounting operations as steps of a vault.\<close>

lemmas evolution_facts = evolves_def queue_counters_def vault_identity_def

lemma debit_evolves:
  assumes "debit_assets_at_effective v n now = Inr v'"
  shows "evolves v v'" and "queue_counters v' = queue_counters v"
  by (subst debit_fields(6) [OF assms], simp add: evolution_facts)+

lemma nav_report_evolves:
  assumes "account_nav_report kind v g s h now = Inr v'"
  shows "evolves v v'" and "queue_counters v' = queue_counters v"
proof -
  obtain f w e n v1 where "apply_reported_nav (v\<lparr>v_fees_payable := f, v_high_watermark := w, v_report_epoch := e,
      v_last_report_hash := h\<rparr>) n now = Inr v1" and v': "v' = v1\<lparr>v_last_update_ts := now\<rparr>"
    using assms unfolding account_nav_report_def by (auto simp only: result_facts split_paired_all prod.case sum.inject)
  note frame = apply_reported_nav_frame(6) [OF this(1)]
  have "vault_identity v' = vault_identity v" unfolding v' by (subst frame) (simp add: vault_identity_def)
  moreover have "v_high_watermark v \<le> v_high_watermark v'" "v_report_epoch v \<le> v_report_epoch v'"
    using account_nav_report_fields [OF assms] by (auto simp: word_le_nat_alt)
  ultimately show "evolves v v'" by (simp add: evolves_def)
  show "queue_counters v' = queue_counters v" unfolding v' by (subst frame) (simp add: queue_counters_def)
qed

lemma strike_settlements_evolves:
  "strike_settlements n now ss v m = Inr (v', ss', m') \<Longrightarrow> evolves v v'"
  by (subst strike_settlements_frame [unfolded accounting_update_def], assumption) (simp add: evolution_facts)

lemma deposited_valid:
  "vault_validate_state v = Inr () \<Longrightarrow> total_assets_after_deposit v n = Inr t \<Longrightarrow>
     vault_validate_state (v\<lparr>v_total_assets := t\<rparr>) = Inr ()"
  by (auto simp: total_assets_after_deposit_Inr_iff vault_validate_state_Inr_iff word_le_nat_alt)

lemma strike_settlements_accounts:
  "strike_settlements n now ss v m = Inr (v', ss', m') \<Longrightarrow> map ts_ticket_account ss' = map ts_ticket_account ss"
  by (induction ss arbitrary: v m ss' v' m') (auto simp: result_facts split: prod.splits)

text \<open>The accounts a handler creates are not yet initialized.\<close>

lemma fresh_accounts:
  "yields (\<lambda>c. require_uninitialized_account L (ip_program_config c) = Inr ()) (initialize_program_context_load E L accounts)"
  "yields (\<lambda>c. require_uninitialized_account L (iv_vault c) = Inr ()) (initialize_vault_context_load E L accounts iv)"
  "yields (\<lambda>c. require_uninitialized_account L (ia_asset c) = Inr ()) (initialize_asset_context_load E L accounts ia)"
  "yields (\<lambda>c. require_uninitialized_account L (aa_action c) = Inr ()) (authorize_action_context_load E L accounts h)"
  "yields (\<lambda>c. require_uninitialized_account L (re_external_destination c) = Inr ())
     (register_external_destination_context_load E L accounts)"
  "yields (\<lambda>c. require_uninitialized_account L (rc_ticket c) = Inr ()) (redeem_context_load E L accounts ra)"
  unfolding initialize_program_context_load_def initialize_vault_context_load_def initialize_asset_context_load_def
    authorize_action_context_load_def register_external_destination_context_load_def redeem_context_load_def Let_def
  by ((rule yields_rules)+, rule yields_Inr, simp)+

text \<open>A context that carries a vault loaded it from the account it names.\<close>

lemma context_vaults:
  "yields (\<lambda>c. load_checked E L (dc_vault_account c) = Inr (dc_vault c)) (deposit_context_load E L accounts)"
  "yields (\<lambda>c. load_checked E L (rc_vault_account c) = Inr (rc_vault c)) (redeem_context_load E L accounts ra)"
  "yields (\<lambda>c. load_checked E L (cc_vault_account c) = Inr (cc_vault c)) (cancel_redeem_context_load E L accounts)"
  "yields (\<lambda>c. load_checked E L (ar_vault_account c) = Inr (ar_vault c)) (atomic_redeem_context_load E L accounts ara)"
  unfolding deposit_context_load_def redeem_context_load_def cancel_redeem_context_load_def
    atomic_redeem_context_load_def Let_def
  by ((rule yields_rules)+, rule yields_Inr, simp)+

lemma cancelled_ticket:
  "yields (\<lambda>c. load_ticket E L (cc_ticket_account c) = Inr (cc_ticket c)) (cancel_redeem_context_load E L accounts)"
  unfolding cancel_redeem_context_load_def Let_def by ((rule yields_rules)+, rule yields_Inr, simp)

context ledger_invariant
begin

lemma fresh_not_held:
  assumes "inv L"
  shows "initialize_program_context_load E L accounts = Inr ip \<Longrightarrow> ai_key (ip_program_config ip) \<notin> held"
    and "initialize_vault_context_load E L accounts a = Inr iv \<Longrightarrow> ai_key (iv_vault iv) \<notin> held"
    and "initialize_asset_context_load E L accounts b = Inr ia \<Longrightarrow> ai_key (ia_asset ia) \<notin> held"
    and "authorize_action_context_load E L accounts h = Inr aa \<Longrightarrow> ai_key (aa_action aa) \<notin> held"
    and "register_external_destination_context_load E L accounts = Inr re \<Longrightarrow> ai_key (re_external_destination re) \<notin> held"
    and "redeem_context_load E L accounts c = Inr rc \<Longrightarrow> ai_key (rc_ticket rc) \<notin> held"
  by (rule uninitialized_not_held [OF assms], erule fresh_accounts [THEN yieldsD])+

lemmas handler_rules = keeps_results keeps_if keeps_prod keeps_calls keeps_create_pda_account keeps_step keeps_read

lemma keeps_collect_fees: "keeps inv L (try_collect_fees E accounts args L)"
  unfolding try_collect_fees_def
  by (rule keeps_assume, (rule handler_rules)+,
      rule keeps_role_store, assumption, assumption, (simp add: evolution_facts)+)

lemma keeps_invest_external: "keeps inv L (try_invest_external E accounts args L)"
  unfolding try_invest_external_def Let_def
  by (rule keeps_assume, (rule handler_rules)+,
      rule keeps_update, assumption, assumption, (simp add: evolution_facts)+)

lemma keeps_return_external: "keeps inv L (try_return_external E accounts args L)"
  unfolding try_return_external_def Let_def
  by (rule keeps_assume, (rule handler_rules)+,
      rule keeps_update, assumption, assumption, (simp add: evolution_facts)+)

lemma keeps_apply_nav_report: "keeps inv L (apply_nav_report E accounts args kind L)"
  unfolding apply_nav_report_def Let_def
  by (rule keeps_assume, (rule handler_rules)+,
      rule keeps_role_store, assumption, assumption, erule nav_report_evolves, erule nav_report_evolves)

text \<open>The updates made under the admin role, through one function.\<close>

lemma keeps_admin_update:
  assumes "\<And>v v'. upd v = Inr v' \<Longrightarrow> evolves v v' \<and> queue_counters v' = queue_counters v"
  shows "keeps inv L (update_writable_vault_as_admin E accounts upd L)"
  unfolding update_writable_vault_as_admin_def
  by (rule keeps_assume, (rule handler_rules)+, rule keeps_role_store, assumption,
      drule role_context_load_Inr, erule conjunct1, (drule assms, simp)+)

lemma keeps_setters:
  "keeps inv L (try_write_down_fees E accounts n L)"
  "keeps inv L (try_set_pause_flags E accounts pf L)"
  "keeps inv L (try_set_vault_access E accounts va L)"
  "keeps inv L (try_transfer_vault_authority E accounts x L)"
  "keeps inv L (try_set_strategist E accounts x L)"
  "keeps inv L (try_set_swap_authority E accounts x L)"
  "keeps inv L (try_set_nav_authority E accounts x L)"
  "keeps inv L (try_set_withdrawal_authority E accounts x L)"
  unfolding try_write_down_fees_def try_set_pause_flags_def try_set_vault_access_def try_transfer_vault_authority_def
    try_set_strategist_def try_set_swap_authority_def try_set_nav_authority_def try_set_withdrawal_authority_def
  by (intro keeps_if keeps_results keeps_admin_update;
      auto simp: evolution_facts set_manage_paused_def set_withdrawals_paused_def set_deposits_paused_def
        set_private_def result_facts)+

lemma keeps_update_vault_config: "keeps inv L (try_update_vault_config E accounts args L)"
  unfolding try_update_vault_config_def
  by (rule keeps_assume, (rule handler_rules)+, rule keeps_role_store, assumption,
      drule role_context_load_Inr, erule conjunct1,
      (simp add: evolution_facts updated_vault_config_def set_external_enabled_def)+)

lemma keeps_share_metadata: "keeps inv L (try_set_share_metadata E accounts args L)"
  unfolding try_set_share_metadata_def Let_def
  by ((rule handler_rules keeps_invoke_signed)+)

lemma keeps_assert_delegate_cleared: "keeps inv L (try_assert_delegate_cleared accounts L)"
  unfolding try_assert_delegate_cleared_def by ((rule handler_rules)+)

lemma keeps_creation:
  "ConfigKind \<notin> watched \<Longrightarrow> keeps inv L (try_initialize_program E accounts ip L)"
  "keeps inv L (try_initialize_vault E accounts iv L)"
  "AssetKind \<notin> watched \<Longrightarrow> keeps inv L (try_initialize_asset E accounts ia L)"
  "ActionKind \<notin> watched \<Longrightarrow> keeps inv L (try_authorize_action E accounts aa L)"
  "DestinationKind \<notin> watched \<Longrightarrow> keeps inv L (try_register_external_destination E accounts L)"
  unfolding try_initialize_program_def create_config_account_def store_config_def
    try_initialize_vault_def create_vault_account_def create_share_mint_def try_initialize_asset_def
    try_authorize_action_def action_create_and_store_def try_register_external_destination_def Let_def
  by (rule keeps_assume, (rule handler_rules keeps_initialize_mint keeps_store_new |
        (rule keeps_copy_serialized, assumption))+,
      erule fresh_not_held, assumption, simp add: vaults)+

lemma keeps_config: "ConfigKind \<notin> watched \<Longrightarrow> keeps inv L (try_transfer_program_authority E accounts x L)"
  unfolding try_transfer_program_authority_def writable_program_config_authority_context_load_def
    program_config_authority_context_load_def
  by (rule keeps_assume, (rule handler_rules)+, rule keeps_store_other)
     (auto simp: result_facts dest: loads_not_held split: if_splits)

lemma keeps_actions:
  "ActionKind \<notin> watched \<Longrightarrow> keeps inv L (try_revoke_action E accounts h L)"
  "ActionKind \<notin> watched \<Longrightarrow> keeps inv L (update_action_flash_fee E accounts r upd L)"
  unfolding try_revoke_action_def revoke_action_context_load_def update_action_flash_fee_def
  by (rule keeps_assume, (rule handler_rules)+, (rule keeps_close_account | rule keeps_store_other);
      auto simp: result_facts dest: loads_not_held split: if_splits)+

lemma keeps_registrations:
  "AssetKind \<notin> watched \<Longrightarrow> keeps inv L (try_update_asset E accounts args L)"
  "DestinationKind \<notin> watched \<Longrightarrow> keeps inv L (try_revoke_external_destination E accounts L)"
  unfolding try_update_asset_def update_writable_asset_as_admin_def try_revoke_external_destination_def
    close_external_destination_as_admin_def Let_def
  by (rule keeps_assume, (rule handler_rules)+, (rule keeps_close_account | rule keeps_store_other);
      auto dest: loads_not_held)+

lemma keeps_execute_deposit:
  assumes "inv L0" and "load_checked E L0 (dc_vault_account ctx) = Inr (dc_vault ctx)"
  shows "keeps inv L (execute_deposit E ctx args L)"
  unfolding execute_deposit_def Let_def
  by ((rule handler_rules)+, rule keeps_update [OF assms],
      simp add: evolution_facts, simp add: evolution_facts, rule deposited_valid [OF load_checked_valid [OF assms(2)]])

lemma keeps_deposit: "keeps inv L (try_deposit E accounts args L)"
  unfolding try_deposit_def
  by (rule keeps_assume, (rule handler_rules)+, rule keeps_execute_deposit, assumption,
      erule context_vaults [THEN yieldsD])

lemma keeps_deposit_and_deploy: "keeps inv L (try_deposit_and_deploy E accounts args L)"
proof -
  have "yields (\<lambda>(dep, va, rest). load_checked E L (dc_vault_account dep) = Inr (dc_vault dep))
          (deposit_and_deploy_context_load E L accounts)"
    unfolding deposit_and_deploy_context_load_def Let_def
    by ((rule yields_rules)+, rule yields_Inr, simp, erule context_vaults [THEN yieldsD])
  note load = yieldsD [OF this, of "(dep, va, rest)" for dep va rest, simplified]
  show ?thesis unfolding try_deposit_and_deploy_def Let_def
    by (rule keeps_assume, (rule handler_rules | (rule keeps_execute_deposit, assumption, force dest: load))+)
qed

lemma keeps_atomic_redeem: "keeps inv L (try_atomic_redeem E accounts args L)"
proof -
  have unwind: "inv L1" if "execute_unwind_cpi E ctx args L = Inr (n, L1)" and "inv L" for ctx n L1
    using that call by (auto simp: execute_unwind_cpi_def invoke_authorized_cpi_def Let_def result_facts split: if_splits)
  show ?thesis unfolding try_atomic_redeem_def settle_atomic_redeem_def Let_def
    by (rule keeps_assume,
      (rule keeps_step_value | rule handler_rules | (erule unwind, assumption)
       | (rule keeps_update, assumption, erule context_vaults [THEN yieldsD], erule debit_evolves, erule debit_evolves, simp))+)
qed

lemma keeps_swap: "keeps inv L (try_swap E accounts args L)"
proof -
  have swapped: "inv L1" if "execute_swap_cpi E ctx args L = Inr (n, m, L1)" and "inv L" for ctx n m L1
    using that call by (auto simp: execute_swap_cpi_def invoke_authorized_cpi_def Let_def result_facts split: if_splits)
  then show ?thesis by (auto simp: try_swap_def keeps_def result_facts)
qed

lemma keeps_settle_authorized: "keeps inv L (settle_authorized_cpi E cpi a accs L)"
  unfolding settle_authorized_cpi_def by (cases "ac_scope a"; simp; (rule handler_rules)+)

lemma keeps_manage_step: "keeps inv L (manage_step E ex va p accs args L)"
  unfolding manage_step_def by (cases p; simp; (rule handler_rules keeps_settle_authorized)+)

lemma keeps_manage: "keeps inv L (try_manage E accounts args L)"
  unfolding try_manage_def by ((rule handler_rules keeps_manage_step)+)

lemma keeps_manage_batch: "keeps inv L (try_manage_batch E accounts args L)"
proof -
  have "keeps inv L (manage_batch_loop E ex va accs xs L)" for ex va accs xs L
    by (induction xs arbitrary: L) (auto intro!: keeps_results keeps_step keeps_manage_step)
  then show ?thesis unfolding try_manage_batch_def by (intro keeps_read keeps_prod)
qed

text \<open>The handlers of the queue, when tickets are not watched and every evolution of a vault is tolerated.\<close>

lemma keeps_create_ticket:
  assumes "TicketKind \<notin> watched" and "ai_key (rc_ticket ctx) \<notin> held"
  shows "keeps inv L (create_ticket E ctx t L)"
proof -
  have "inv L'" if "create_ticket E ctx t L = Inr L'" and "inv L" for L'
    using that(1)
  proof (rule create_ticket_Inr)
    fix L1 bs
    assume pda: "create_pda_account E (rc_owner ctx) (rc_ticket ctx) (rc_system_program_acc ctx) TICKET_SPACE ID
        [TICKET_SEED, key_bytes (ai_key (rc_vault_account ctx)), key_bytes (ai_key (rc_owner ctx)),
         [rc_ticket_index ctx], [rc_ticket_bump ctx]] L = Inr L1"
      and bs: "serialize E (WithdrawalTicketAccount t) = Some bs"
      and L': "L' = set_data (ai_key (rc_ticket ctx)) (bs @ drop (length bs) (data_of L1 (rc_ticket ctx))) L1"
    have "inv L1" using keepsD [where P = inv, OF keeps_create_pda_account \<open>inv L\<close> pda] .
    then show ?thesis
    proof (rule write_elsewhere [OF _ assms(2)])
      show "unwatched E watched L' (ai_key (rc_ticket ctx))"
        using bs L' assms(1) codec [OF \<open>inv L\<close>] by (auto simp: unwatched_def codec_ok_def)
    qed (simp add: L' same_cell_def)
  qed
  then show ?thesis by (simp add: keeps_def)
qed

lemma keeps_redeem:
  assumes "TicketKind \<notin> watched" and "\<And>v w. evolves v w \<Longrightarrow> rel v w"
  shows "keeps inv L (try_redeem E accounts args L)"
  unfolding try_redeem_def Let_def
  by (rule keeps_assume,
      (rule handler_rules | (rule keeps_create_ticket [OF assms(1)], erule fresh_not_held, assumption)
       | (rule keeps_rel_update, assumption, erule context_vaults [THEN yieldsD], rule assms(2), simp add: evolution_facts,
          simp, erule context_vaults [THEN yieldsD, THEN load_checked_valid]))+)

lemma keeps_cancel_redeem:
  assumes "TicketKind \<notin> watched" and "\<And>v w. evolves v w \<Longrightarrow> rel v w"
  shows "keeps inv L (try_cancel_redeem E accounts args L)"
  unfolding try_cancel_redeem_def Let_def
  by (rule keeps_assume,
      (rule handler_rules
       | (rule keeps_close_account, rule loads_not_held, assumption, erule cancelled_ticket [THEN yieldsD], rule assms(1))
       | (rule keeps_rel_update, assumption, erule context_vaults [THEN yieldsD], rule assms(2), simp add: evolution_facts,
          simp, erule context_vaults [THEN yieldsD, THEN load_checked_valid]))+)

lemma keeps_pay_settlements:
  assumes "ticket_key ` set ss \<inter> held = {}"
  shows "keeps inv L (pay_settlements E ctx seeds ss L)"
  using assms
proof (induction ss arbitrary: L)
  case (Cons s ss)
  then show ?case by (auto intro!: keeps_step keeps_calls keeps_close_account)
qed (simp add: keeps_results)

lemma keeps_process_withdrawals:
  assumes "TicketKind \<notin> watched" and "\<And>v w. evolves v w \<Longrightarrow> rel v w"
  shows "keeps inv L (try_process_withdrawals E accounts L)"
proof -
  have "keeps inv L (process_settle E ctx L)" if ctx: "process_withdrawals_context_load E L accounts = Inr ctx" and "inv L" for ctx
  proof -
    note load = process_withdrawals_context_load_Inr [OF ctx]
    have other: "ticket_key ` set (pw_tickets ctx) \<inter> held = {}"
      using load loads_not_held(5) [OF \<open>inv L\<close> _ assms(1)] by (auto simp: settlement_loaded_def list_all_iff)
    have tickets: "ticket_key ` set ss \<inter> held = {}"
      if "strike_settlements n now (pw_tickets ctx) v m = Inr (v', ss, m')" for n now v m v' ss m'
    proof -
      have "ticket_key ` set ss = ticket_key ` set (pw_tickets ctx)"
        using arg_cong [OF strike_settlements_accounts [OF that], of "\<lambda>xs. ai_key ` set xs"] by (simp add: image_image)
      with other show ?thesis by simp
    qed
    show ?thesis unfolding process_settle_def
      by ((rule handler_rules | (rule keeps_pay_settlements, rule tickets, simp)
        | (unfold writable_vault_role_context_store_def, rule keeps_read, rule keeps_rel_update [OF \<open>inv L\<close> load(1)],
            hypsubst, rule assms(2), drule strike_settlements_evolves, simp add: evolution_facts, simp))+)
  qed
  then show ?thesis unfolding try_process_withdrawals_def by - (rule keeps_assume, rule keeps_read)
qed

text \<open>An instruction that writes no watched kind keeps the invariant, if the latter tolerates what happens to the queue.\<close>

lemma keeps_run_instruction:
  assumes "writes i \<inter> watched = {}" and "TicketKind \<in> writes i \<Longrightarrow> (\<And>v w. evolves v w \<Longrightarrow> rel v w)"
  shows "keeps inv L (run_instruction E accounts L i)"
  using assms by (cases i) (simp_all add: keeps_creation keeps_setters keeps_actions keeps_manage keeps_manage_batch
      keeps_deposit keeps_update_vault_config keeps_redeem keeps_cancel_redeem keeps_process_withdrawals
      keeps_registrations keeps_config keeps_collect_fees keeps_invest_external
      keeps_return_external keeps_atomic_redeem keeps_swap keeps_share_metadata
      keeps_assert_delegate_cleared keeps_deposit_and_deploy keeps_apply_nav_report
      try_report_nav_def try_recover_nav_def try_admin_set_flash_fee_rate_def
      try_strategist_lower_flash_fee_rate_def)

end

section \<open>Invariants of the vault account alone\<close>

text \<open>
  An invariant that looks at one vault account only, and does not mind how its queue moves, is kept
  by the whole program.
\<close>

locale vault_invariant =
  fixes E :: env and k :: key and inv :: "ledger \<Rightarrow> bool"
  assumes vault_codec: "inv L \<Longrightarrow> codec_ok E"
    and cell: "inv L \<Longrightarrow> same_cell L L' k \<Longrightarrow> inv L'"
    and vault_call: "inv L \<Longrightarrow> invoke_signed E ix infos seeds L = Inr L' \<Longrightarrow> inv L'"
    and vault_owned: "inv L \<Longrightarrow> c_owner (L k) = ID"
    and vault_kind: "inv L \<Longrightarrow> \<exists>v. deserialize E (c_data (L k)) = Some (VaultAccount v)"
    and evolution: "inv L0 \<Longrightarrow> load_checked E L0 a = Inr v \<Longrightarrow> evolves v w \<Longrightarrow>
      vault_validate_state w = Inr () \<Longrightarrow> inv L \<Longrightarrow> store_account E (VaultAccount w) a L = Inr L' \<Longrightarrow> inv L'"

sublocale vault_invariant \<subseteq> ledger_invariant E inv "{k}" "{}" evolves
  by unfold_locales
    (use vault_codec cell vault_call vault_owned evolution in blast | use vault_kind in fastforce)+

context vault_invariant
begin

lemma keeps_process_instruction: "keeps inv L (try_process_instruction E W program_id accounts data L)"
  unfolding try_process_instruction_def by ((rule handler_rules keeps_run_instruction)+) simp_all

end

end
