(* ===== verification/Vault_Lifecycle.thy ===== *)
theory Vault_Lifecycle
  imports Handler_Invariants Example_Env
begin

text \<open>
  What no execution can do to a vault. The invariant that a key holds a valid vault of a given
  identity is an interpretation of \<open>vault_invariant\<close>, and so is kept by every instruction, by calls
  of the program into itself, and by every sequence of these and of steps of other programs.
\<close>

section \<open>The vault\<close>

text \<open>A valid vault with its own address is stored under a key, evolved from a given one.\<close>

definition vault_at :: "env \<Rightarrow> key \<Rightarrow> vault \<Rightarrow> ledger \<Rightarrow> bool" where
  "vault_at E k i L \<longleftrightarrow> (\<exists>v. load_checked E L \<lparr>ai_key = k, ai_is_signer = False, ai_is_writable = False\<rparr> = Inr v \<and>
     evolves i v)"

lemma load_checked_key: "ai_key a = ai_key b \<Longrightarrow> load_checked E L a = load_checked E L b"
  by (simp add: load_checked_def load_vault_def account_load_def)

lemma vault_at_iff: "vault_at E (ai_key a) i L \<longleftrightarrow> (\<exists>v. load_checked E L a = Inr v \<and> evolves i v)"
  unfolding vault_at_def by (subst load_checked_key [of _ a]) simp_all

lemma vault_at_cell: "same_cell L L' k \<Longrightarrow> vault_at E k i L \<Longrightarrow> vault_at E k i L'"
  by (auto simp: vault_at_def load_checked_Inr_iff same_cell_def)

text \<open>What is asked of a call of the program into itself.\<close>

definition self_calls_keep :: "env \<Rightarrow> key \<Rightarrow> vault \<Rightarrow> bool" where
  "self_calls_keep E k i \<longleftrightarrow> (\<forall>ix infos seeds L L'. ix_program_id ix = ID \<longrightarrow>
     invoke_signed E ix infos seeds L = Inr L' \<longrightarrow> vault_at E k i L \<longrightarrow> vault_at E k i L')"

lemma vault_at_update:
  assumes "codec_ok E" and "vault_at E k i L0" and "load_checked E L0 a = Inr v" and "evolves v w"
    and "vault_validate_state w = Inr ()" and "vault_at E k i L" and "store_account E (VaultAccount w) a L = Inr L'"
  shows "vault_at E k i L'"
proof (cases "ai_key a = k")
  case True
  have i: "evolves i w" using assms(2-4) True vault_at_iff [of E a i L0] by (auto intro: evolves_trans)
  have addr: "vault_verify_address (find_program_address E) w (ai_key a) = Inr ()"
    using assms(3,4) vault_verify_address_cong [of w v] by (auto simp: load_checked_Inr_iff evolves_def vault_identity_def)
  have "owner_of L a = ID" using assms(6) True by (auto simp: vault_at_def load_checked_Inr_iff)
  from store_load_vault [OF assms(1,7) this assms(5) addr] i True show ?thesis
    using vault_at_iff [of E a i L'] by auto
next
  case False
  then have "same_cell L L' k" using store_account_other [OF assms(7)] by simp
  then show ?thesis using assms(6) by (rule vault_at_cell)
qed

interpretation live: vault_invariant E k
  "\<lambda>L. codec_ok E \<and> runtime_ok E \<and> self_calls_keep E k i \<and> vault_at E k i L" for E k i
proof
  show "codec_ok E \<and> runtime_ok E \<and> self_calls_keep E k i \<and> vault_at E k i L'"
    if "codec_ok E \<and> runtime_ok E \<and> self_calls_keep E k i \<and> vault_at E k i L"
      and "invoke_signed E ix infos seeds L = Inr L'" for L L' ix infos seeds
  proof (cases "ix_program_id ix = ID")
    case True
    with that show ?thesis unfolding self_calls_keep_def by blast
  next
    case False
    have "c_owner (L k) = ID" using that(1) by (auto simp: vault_at_def load_checked_Inr_iff)
    with that False have "same_cell L L' k" by (blast intro: cpi_keeps_own)
    with that(1) show ?thesis using vault_at_cell by blast
  qed
next
  show "codec_ok E \<and> runtime_ok E \<and> self_calls_keep E k i \<and> vault_at E k i L'"
    if "codec_ok E \<and> runtime_ok E \<and> self_calls_keep E k i \<and> vault_at E k i L0"
      and "load_checked E L0 a = Inr v" and "evolves v w" and "vault_validate_state w = Inr ()"
      and "codec_ok E \<and> runtime_ok E \<and> self_calls_keep E k i \<and> vault_at E k i L"
      and "store_account E (VaultAccount w) a L = Inr L'" for L0 a v w L L'
    using that vault_at_update [of E k i L0 a v w L L'] by simp
qed (blast, use vault_at_cell in blast, auto simp: vault_at_def load_checked_Inr_iff)

section \<open>Whole executions\<close>

text \<open>
  Environments differ from call to call in clock, sysvars and oracles, never in the codec or the
  derivation of addresses. A call of the program into itself runs the program in a sound
  environment again; the nesting of calls is finite, which is what the induction is over.
\<close>

definition agrees :: "env \<Rightarrow> env \<Rightarrow> bool" where
  "agrees E F \<longleftrightarrow> find_program_address F = find_program_address E \<and> serialize F = serialize E \<and>
     deserialize F = deserialize E"

inductive sound_env :: "env \<Rightarrow> payload_codec \<Rightarrow> env \<Rightarrow> bool" for E W where
  nested_calls: "agrees E F \<Longrightarrow> runtime_ok F \<Longrightarrow>
     (\<And>ix infos seeds L L'. ix_program_id ix = ID \<Longrightarrow> invoke_signed F ix infos seeds L = Inr L' \<Longrightarrow>
        \<exists>F' accounts. sound_env E W F' \<and> try_process_instruction F' W ID accounts (ix_data ix) L = Inr L') \<Longrightarrow>
     sound_env E W F"

text \<open>A step of the ledger: an instruction of the program that succeeds, or another program at work.\<close>

inductive ledger_step :: "env \<Rightarrow> payload_codec \<Rightarrow> ledger \<Rightarrow> ledger \<Rightarrow> bool" for E W where
  own_instruction: "sound_env E W F \<Longrightarrow> try_process_instruction F W program_id accounts data L = Inr L' \<Longrightarrow>
     ledger_step E W L L'"
| other_program: "(\<And>k. c_owner (L k) = ID \<Longrightarrow> same_cell L L' k) \<Longrightarrow> ledger_step E W L L'"

lemma agrees_codec_ok: "agrees E F \<Longrightarrow> codec_ok E \<Longrightarrow> codec_ok F"
  by (simp add: agrees_def codec_ok_def)

lemma agrees_vault_at: "agrees E F \<Longrightarrow> vault_at F k i L \<longleftrightarrow> vault_at E k i L"
  by (simp add: agrees_def vault_at_def load_checked_Inr_iff)

lemma sound_env_agrees: "sound_env E W F \<Longrightarrow> agrees E F \<and> runtime_ok F"
  by (auto elim: sound_env.cases)

lemma instruction_keeps_vault:
  assumes "codec_ok E" and "agrees E F" and "runtime_ok F" and "self_calls_keep F k i"
    and "try_process_instruction F W program_id accounts data L = Inr L'" and "vault_at E k i L"
  shows "vault_at E k i L'"
  using keepsD [OF live.keeps_process_instruction _ assms(5), of k i] assms agrees_codec_ok [OF assms(2,1)]
    agrees_vault_at [OF assms(2)] by blast

lemma sound_env_self_calls:
  assumes "sound_env E W F" and "codec_ok E"
  shows "self_calls_keep F k i"
  using assms(1)
proof induction
  case (nested_calls F)
  show ?case unfolding self_calls_keep_def
  proof (intro allI impI)
    fix ix infos seeds L L'
    assume "ix_program_id ix = ID" and "invoke_signed F ix infos seeds L = Inr L'" and v: "vault_at F k i L"
    with nested_calls.IH obtain F' accounts where "sound_env E W F'" and "self_calls_keep F' k i"
      and "try_process_instruction F' W ID accounts (ix_data ix) L = Inr L'" by blast
    then show "vault_at F k i L'"
      using instruction_keeps_vault assms(2) v sound_env_agrees agrees_vault_at [OF nested_calls(1)] by blast
  qed
qed

lemma ledger_step_keeps_vault:
  assumes "codec_ok E" and "ledger_step E W L L'" and "vault_at E k i L"
  shows "vault_at E k i L'"
  using assms(2)
proof cases
  case (own_instruction F program_id accounts data)
  then show ?thesis using assms instruction_keeps_vault sound_env_agrees sound_env_self_calls by blast
next
  case other_program
  have "c_owner (L k) = ID" using assms(3) by (auto simp: vault_at_def load_checked_Inr_iff)
  then show ?thesis using other_program assms(3) vault_at_cell by blast
qed

lemma execution_keeps_vault:
  assumes "codec_ok E" and "(ledger_step E W)\<^sup>*\<^sup>* L L'" and "load_checked E L a = Inr v"
  obtains v' where "load_checked E L' a = Inr v'" and "evolves v v'"
proof -
  have "vault_at E (ai_key a) v L" using assms(3) by (simp add: vault_at_iff)
  with assms(2) have "vault_at E (ai_key a) v L'"
    by (induction rule: rtranclp_induct) (auto intro: ledger_step_keeps_vault [OF assms(1)])
  then show thesis using that by (auto simp: vault_at_iff)
qed

text \<open>
  C3. No execution destroys a vault. Whatever instructions anyone sends, with whatever accounts,
  arguments and nested calls, and whatever other programs do in between: a vault that loads keeps
  loading, satisfies the state validator, and keeps its tag, address bump, mints and decimals.
\<close>
theorem vault_is_permanent:
  assumes "codec_ok E" and "(ledger_step E W)\<^sup>*\<^sup>* L L'" and "load_checked E L a = Inr v"
  shows "\<exists>v'. load_checked E L' a = Inr v' \<and> vault_validate_state v' = Inr () \<and> vault_identity v' = vault_identity v"
  using execution_keeps_vault [OF assms] by (metis evolves_def load_checked_valid)

text \<open>
  C21. The high watermark is a ratchet: along every execution, nested calls and other programs
  included, neither the watermark of a vault, above which alone performance fees accrue, nor its
  report epoch, which orders the strikes of withdrawals, ever falls.
\<close>
theorem watermark_is_a_ratchet:
  assumes "codec_ok E" and "(ledger_step E W)\<^sup>*\<^sup>* L L'" and "load_checked E L a = Inr v"
    and "load_checked E L' a = Inr v'"
  shows "v_high_watermark v \<le> v_high_watermark v' \<and> v_report_epoch v \<le> v_report_epoch v'"
  using execution_keeps_vault [OF assms(1-3)] assms(4) by (metis evolves_def sum.inject(2))

definition paused_vault :: vault where
  "paused_vault = example_vault\<lparr>v_deposits_paused_flag := 1\<rparr>"

lemma example_pause_decode:
  "decode example_codec [14, 1, 0, 0] = Some (SetPauseFlags
     \<lparr>spf_deposits_paused = True, spf_withdrawals_paused = False, spf_manage_paused = False\<rparr>)"
  by (simp add: decode_def decode_tagged_def tag_defs decode_payload_def example_codec_def pause_codec_def)

lemma example_pause_run:
  "\<exists>L'. try_process_instruction example_env example_codec ID [handle 1 True False, handle 20 False True] [14, 1, 0, 0]
     example_ledger = Inr L'"
proof -
  have valid: "vault_validate_state paused_vault = Inr ()"
    using example_vault_valid by (simp add: paused_vault_def vault_validate_state_Inr_iff tag_seed_def)
  have wf: "wf_account (VaultAccount paused_vault)" using example_wf by (simp add: paused_vault_def)
  then have ser: "serialize example_env (VaultAccount paused_vault) = Some (account_bytes (VaultAccount paused_vault))"
    by (simp add: example_env_def wire_serialize_def)
  have "store_account example_env (VaultAccount paused_vault) (handle 20 False True) example_ledger \<noteq> Inl e" for e
    using vault_bytes_length [OF wf] vault_bytes_length [OF example_wf] ser
    by (simp add: store_account_def example_ledger_def)
  then obtain L' where st: "store_account example_env (VaultAccount paused_vault) (handle 20 False True) example_ledger = Inr L'"
    by (cases "store_account example_env (VaultAccount paused_vault) (handle 20 False True) example_ledger") auto
  have "set_manage_paused False (set_withdrawals_paused False (set_deposits_paused True example_vault)) = paused_vault"
    by (simp add: set_manage_paused_def set_withdrawals_paused_def set_deposits_paused_def flag_def paused_vault_def
        example_vault_def)
  then have "try_process_instruction example_env example_codec ID
      [handle 1 True False, handle 20 False True] [14, 1, 0, 0] example_ledger = Inr L'"
    using st valid example_load example_pause_decode
    by (simp add: try_process_instruction_def try_set_pause_flags_def update_writable_vault_as_admin_def
        next_account_def writable_vault_role_context_load_def vault_role_context_load_def require_writable_def
        verify_role_def has_role_def writable_vault_role_context_store_def)
       (simp add: example_vault_def)
  then show ?thesis by blast
qed

lemma example_sound: "sound_env example_env example_codec example_env"
proof (rule nested_calls)
  show "\<exists>F' accounts. sound_env example_env example_codec F' \<and>
      try_process_instruction F' example_codec ID accounts (ix_data ix) L = Inr L'"
    if "ix_program_id ix = ID" and "invoke_signed example_env ix infos seeds L = Inr L'" for ix infos seeds L L'
    using that by (simp add: example_env_def example_invoke_def)
qed (simp_all add: agrees_def example_runtime_ok)

theorem vault_is_permanent_witness:
  "\<exists>L' v'. try_process_instruction example_env example_codec ID [handle 1 True False, handle 20 False True]
       [14, 1, 0, 0] example_ledger = Inr L' \<and>
     load_checked example_env L' (handle 20 False True) = Inr v' \<and> vault_validate_state v' = Inr () \<and>
     vault_identity v' = vault_identity example_vault"
proof -
  obtain L' where run: "try_process_instruction example_env example_codec ID
      [handle 1 True False, handle 20 False True] [14, 1, 0, 0] example_ledger = Inr L'"
    using example_pause_run by blast
  have "(ledger_step example_env example_codec)\<^sup>*\<^sup>* example_ledger L'"
    by (rule r_into_rtranclp, rule own_instruction [OF example_sound run])
  from vault_is_permanent [OF example_codec_ok this example_load] run show ?thesis by blast
qed

theorem watermark_is_a_ratchet_witness:
  "\<exists>L' v'. try_process_instruction example_env example_codec ID [handle 1 True False, handle 20 False True]
       [14, 1, 0, 0] example_ledger = Inr L' \<and>
     load_checked example_env L' (handle 20 False True) = Inr v' \<and>
     v_high_watermark example_vault \<le> v_high_watermark v' \<and> v_report_epoch example_vault \<le> v_report_epoch v'"
proof -
  obtain L' where run: "try_process_instruction example_env example_codec ID
      [handle 1 True False, handle 20 False True] [14, 1, 0, 0] example_ledger = Inr L'"
    using example_pause_run by blast
  have steps: "(ledger_step example_env example_codec)\<^sup>*\<^sup>* example_ledger L'"
    by (rule r_into_rtranclp, rule own_instruction [OF example_sound run])
  obtain v' where v': "load_checked example_env L' (handle 20 False True) = Inr v'"
    using execution_keeps_vault [OF example_codec_ok steps example_load] by blast
  from watermark_is_a_ratchet [OF example_codec_ok steps example_load v'] v' run show ?thesis by blast
qed

end
