(* ===== verification/Queue_Accounting.thy ===== *)
theory Queue_Accounting
  imports Vault_Lifecycle
begin

text \<open>
  The withdrawal queue against its tickets: the shares a vault counts as requested and the assets
  it counts as pending are, at rest, exactly what its live tickets record. Thirty-three handlers
  keep the tickets and the counters (an interpretation of \<open>ledger_invariant\<close>); the three handlers of
  the queue move both together.
\<close>

section \<open>Tickets of a ledger\<close>

definition ticket_at :: "env \<Rightarrow> ledger \<Rightarrow> key \<Rightarrow> withdrawal_ticket option" where
  "ticket_at E L j =
     (if c_owner (L j) \<noteq> ID then None
      else case deserialize E (c_data (L j)) of Some (WithdrawalTicketAccount t) \<Rightarrow> Some t | _ \<Rightarrow> None)"

lemma ticket_at_Some_iff:
  "ticket_at E L j = Some t \<longleftrightarrow> c_owner (L j) = ID \<and> deserialize E (c_data (L j)) = Some (WithdrawalTicketAccount t)"
  by (auto simp: ticket_at_def split: option.splits account.splits)

lemma ticket_at_None_iff: "ticket_at E L j = None \<longleftrightarrow> unwatched E {TicketKind} L j"
  by (auto simp: unwatched_def ticket_at_def split: option.splits account.splits)

lemma ticket_at_load: "load_ticket E L a = Inr t \<longleftrightarrow> ticket_at E L (ai_key a) = Some t"
  by (simp add: load_ticket_Inr_iff ticket_at_Some_iff)

lemma ticket_at_cell: "same_cell L L' j \<Longrightarrow> ticket_at E L' j = ticket_at E L j"
  by (simp add: ticket_at_def same_cell_def)

lemma ticket_at_vault: "load_checked E L a = Inr v \<Longrightarrow> ticket_at E L (ai_key a) = None"
  by (auto simp: ticket_at_def load_checked_Inr_iff)

text \<open>What one ticket contributes to the counters of a vault, and the totals over all tickets.\<close>

definition open_shares :: "key \<Rightarrow> withdrawal_ticket \<Rightarrow> nat" where
  "open_shares V t = (if wt_vault t = V \<and> wt_assets_owed t = 0 then unat (wt_shares_burned t) else 0)"

definition owed_assets :: "key \<Rightarrow> withdrawal_ticket \<Rightarrow> nat" where
  "owed_assets V t = (if wt_vault t = V then unat (wt_assets_owed t) else 0)"

definition ticket_total :: "(withdrawal_ticket \<Rightarrow> nat) \<Rightarrow> (key \<rightharpoonup> withdrawal_ticket) \<Rightarrow> nat" where
  "ticket_total f T = (\<Sum>j \<in> dom T. f (the (T j)))"

lemma ticket_total_open:
  assumes "finite (dom T)" and "T j = None"
  shows "ticket_total f (T(j \<mapsto> t)) = ticket_total f T + f t"
proof -
  have "(\<Sum>i \<in> dom T. f (the ((T(j \<mapsto> t)) i))) = (\<Sum>i \<in> dom T. f (the (T i)))"
    using assms(2) by (intro sum.cong) auto
  then show ?thesis using assms by (simp add: ticket_total_def domIff)
qed

lemma ticket_total_close:
  assumes "finite (dom T)" and "T j = Some t"
  shows "ticket_total f T = ticket_total f (T(j := None)) + f t"
proof -
  have "(T(j := None))(j \<mapsto> t) = T" using assms(2) by auto
  with ticket_total_open [of "T(j := None)" j f t] assms(1) show ?thesis by simp
qed

definition queue_backed :: "env \<Rightarrow> key \<Rightarrow> ledger \<Rightarrow> bool" where
  "queue_backed E V L \<longleftrightarrow> finite (dom (ticket_at E L)) \<and>
     (\<exists>v. load_checked E L \<lparr>ai_key = V, ai_is_signer = False, ai_is_writable = False\<rparr> = Inr v \<and>
        unat (v_requested_withdrawal_shares v) = ticket_total (open_shares V) (ticket_at E L) \<and>
        unat (v_pending_withdrawal_assets v) = ticket_total (owed_assets V) (ticket_at E L))"

lemma queue_backed_iff:
  "queue_backed E (ai_key a) L \<longleftrightarrow> finite (dom (ticket_at E L)) \<and>
     (\<exists>v. load_checked E L a = Inr v \<and>
        unat (v_requested_withdrawal_shares v) = ticket_total (open_shares (ai_key a)) (ticket_at E L) \<and>
        unat (v_pending_withdrawal_assets v) = ticket_total (owed_assets (ai_key a)) (ticket_at E L))"
  unfolding queue_backed_def by (subst load_checked_key [of _ a]) simp_all

section \<open>Calls out of the program\<close>

text \<open>
  What is asked of the runtime, beyond \<open>runtime_ok\<close>: only zeroed accounts are handed to the program,
  a zeroed account is no record of the program, the system program assigns the owner it was told,
  and no call leads back into the program.
\<close>

definition hands_blank :: "ledger \<Rightarrow> ledger \<Rightarrow> bool" where
  "hands_blank L L' \<longleftrightarrow> (\<forall>k. c_owner (L k) \<noteq> ID \<longrightarrow> c_owner (L' k) = ID \<longrightarrow> (\<exists>n. c_data (L' k) = replicate n 0))"

definition quiet_env :: "env \<Rightarrow> bool" where
  "quiet_env E \<longleftrightarrow> codec_ok E \<and> runtime_ok E \<and> (\<forall>n. deserialize E (replicate n 0) = None) \<and>
     (\<forall>ix infos seeds L L'. invoke_signed E ix infos seeds L = Inr L' \<longrightarrow> ix_program_id ix \<noteq> ID \<and> hands_blank L L')"

definition system_ok :: "env \<Rightarrow> bool" where
  "system_ok E \<longleftrightarrow>
     (\<forall>payer target n m p infos seeds L L'.
        invoke_signed E (create_account_ix E payer target n m p) infos seeds L = Inr L' \<longrightarrow> c_owner (L' target) = p) \<and>
     (\<forall>target p infos seeds L L'.
        invoke_signed E (assign_ix E target p) infos seeds L = Inr L' \<longrightarrow> c_owner (L' target) = p)"

lemma quiet_tickets:
  assumes "\<forall>n. deserialize E (replicate n 0) = None" and "\<And>k. c_owner (L k) = ID \<Longrightarrow> same_cell L L' k"
    and "hands_blank L L'"
  shows "ticket_at E L' = ticket_at E L"
proof
  fix j
  show "ticket_at E L' j = ticket_at E L j"
  proof (cases "c_owner (L j) = ID")
    case True
    then show ?thesis using assms(2) ticket_at_cell by blast
  next
    case False
    then show ?thesis using assms(1,3) by (auto simp: ticket_at_def hands_blank_def)
  qed
qed

lemma quiet_call:
  assumes "quiet_env E" and "invoke_signed E ix infos seeds L = Inr L'"
  shows "ticket_at E L' = ticket_at E L" and "c_owner (L k) = ID \<Longrightarrow> same_cell L L' k"
proof -
  have q: "runtime_ok E" "ix_program_id ix \<noteq> ID" "hands_blank L L'" "\<forall>n. deserialize E (replicate n 0) = None"
    using assms by (auto simp: quiet_env_def)
  show own: "c_owner (L k) = ID \<Longrightarrow> same_cell L L' k" for k using cpi_keeps_own [OF q(1) assms(2) q(2)] .
  show "ticket_at E L' = ticket_at E L" using quiet_tickets [OF q(4) own q(3)] .
qed

interpretation quiet: call_invariant E
  "\<lambda>M. quiet_env E \<and> ticket_at E M = T \<and> (\<forall>k. c_owner (L k) = ID \<longrightarrow> same_cell L M k)" for E T L
  by unfold_locales (metis quiet_call same_cell_def)

lemma store_vault_tickets:
  assumes "codec_ok E" and "store_account E (VaultAccount w) a L = Inr L'" and "ticket_at E L (ai_key a) = None"
  shows "ticket_at E L' = ticket_at E L"
proof
  fix j
  show "ticket_at E L' j = ticket_at E L j"
  proof (cases "j = ai_key a")
    case True
    have "ticket_at E L' (ai_key a) = None" using assms(1,2)
      by (auto simp: ticket_at_def store_account_def codec_ok_def overwrite_prefix_def result_facts split: if_splits)
    with True assms(3) show ?thesis by simp
  qed (use store_account_other [OF assms(2)] ticket_at_cell in blast)
qed

lemma close_account_tickets:
  assumes "close_account a r L = Inr L'"
  shows "ticket_at E L' = (ticket_at E L)(ai_key a := None)"
proof
  fix j
  have "SYSTEM_PROGRAM_ID \<noteq> ID" by simp
  then show "ticket_at E L' j = ((ticket_at E L)(ai_key a := None)) j"
    using close_account_closed(1) [OF assms] close_account_other [OF assms] ticket_at_cell [of L L' j E]
    by (cases "j = ai_key a") (auto simp: ticket_at_def)
qed

section \<open>The quiet handlers\<close>

interpretation queue: ledger_invariant E
  "\<lambda>L. quiet_env E \<and> ticket_at E L = T \<and>
     (\<exists>v. load_checked E L \<lparr>ai_key = V, ai_is_signer = False, ai_is_writable = False\<rparr> = Inr v \<and> queue_counters v = c)"
  "insert V (dom T)" "{TicketKind}" "\<lambda>v w. evolves v w \<and> queue_counters w = queue_counters v"
  for E V T c
proof
  let ?V = "\<lparr>ai_key = V, ai_is_signer = False, ai_is_writable = False\<rparr>"
  let ?inv = "\<lambda>L. quiet_env E \<and> ticket_at E L = T \<and> (\<exists>v. load_checked E L ?V = Inr v \<and> queue_counters v = c)"
  show "codec_ok E" if "?inv L" for L using that by (simp add: quiet_env_def)
  show "?inv L'" if "?inv L" and "\<And>j. same_cell L L' j \<or> j \<notin> insert V (dom T) \<and> unwatched E {TicketKind} L' j" for L L'
  proof -
    have "ticket_at E L' j = T j" for j
      using that(1) that(2) [of j] ticket_at_cell [of L L' j E] by (auto simp: ticket_at_None_iff [symmetric] domIff)
    moreover have "same_cell L L' V" using that(2) [of V] by simp
    ultimately show ?thesis using that(1) same_cell_load [of L L' ?V E] by auto
  qed
  show "?inv L'" if "?inv L" and "invoke_signed E ix infos seeds L = Inr L'" for L L' ix infos seeds
  proof -
    have "same_cell L L' V" using that quiet_call(2) by (auto simp: load_checked_Inr_iff)
    then show ?thesis using that quiet_call(1) same_cell_load [of L L' ?V E] by auto
  qed
  show "c_owner (L j) = ID" if "?inv L" and "j \<in> insert V (dom T)" for L j
    using that by (auto simp: load_checked_Inr_iff ticket_at_Some_iff)
  show "\<exists>acc. deserialize E (c_data (L j)) = Some acc \<and> (kind_of acc = VaultKind \<or> kind_of acc \<in> {TicketKind})"
    if "?inv L" and "j \<in> insert V (dom T)" for L j
    using that by (auto simp: load_checked_Inr_iff ticket_at_Some_iff)
  show "?inv L'" if "?inv L0" and "load_checked E L0 a = Inr v" and rel: "evolves v w \<and> queue_counters w = queue_counters v"
    and "vault_validate_state w = Inr ()" and "?inv L" and "store_account E (VaultAccount w) a L = Inr L'" for L0 a v w L L'
  proof -
    have "ticket_at E L (ai_key a) = None" using that(1,2,5) ticket_at_vault [of E L0 a v] by simp
    then have T: "ticket_at E L' = T" using store_vault_tickets that(5,6) by (simp add: quiet_env_def)
    show ?thesis
    proof (cases "ai_key a = V")
      case True
      have addr: "vault_verify_address (find_program_address E) w (ai_key a) = Inr ()"
        using that(2) rel vault_verify_address_cong [of w v] by (auto simp: load_checked_Inr_iff evolves_def vault_identity_def)
      have "owner_of L a = ID" using that(5) True by (auto simp: load_checked_Inr_iff)
      from store_load_vault [OF _ that(6) this that(4) addr] that(1)
      have "load_checked E L' a = Inr w" by (simp add: quiet_env_def)
      moreover have "queue_counters w = c"
        using that(1,2) rel True load_checked_key [of a ?V E L0] by auto
      ultimately show ?thesis using T that(1) True load_checked_key [of a ?V E L'] by auto
    next
      case False
      then have "same_cell L L' V" using store_account_other [OF that(6)] by simp
      then show ?thesis using T that(5) same_cell_load [of L L' ?V E] by auto
    qed
  qed
qed simp_all

lemma quiet_instruction_backed:
  assumes "quiet_env E" and "run_instruction E accounts L i = Inr L'" and "TicketKind \<notin> writes i"
    and "queue_backed E V L"
  shows "queue_backed E V L'"
proof -
  let ?V = "\<lparr>ai_key = V, ai_is_signer = False, ai_is_writable = False\<rparr>"
  obtain v where v: "load_checked E L ?V = Inr v" using assms(4) by (auto simp: queue_backed_def)
  have "keeps (\<lambda>M. quiet_env E \<and> ticket_at E M = ticket_at E L \<and>
      (\<exists>w. load_checked E M ?V = Inr w \<and> queue_counters w = queue_counters v)) L (run_instruction E accounts L i)"
    by (rule queue.keeps_run_instruction) (use assms(3) in auto)
  from keepsD [OF this _ assms(2)] assms(1) v obtain w where
    "ticket_at E L' = ticket_at E L" "load_checked E L' ?V = Inr w" "queue_counters w = queue_counters v" by blast
  then show ?thesis using assms(4) v by (simp add: queue_backed_def queue_counters_def)
qed

section \<open>The handlers of the queue\<close>

text \<open>
  A move of the queue: one vault is replaced by another whose counters differ by exactly what the
  tickets differ by, a new ticket lies at the address derived from its contents, and no other
  account of the program changes but tickets.
\<close>

definition balanced :: "key \<Rightarrow> nat \<Rightarrow> nat \<Rightarrow> (key \<Rightarrow> withdrawal_ticket \<Rightarrow> nat) \<Rightarrow>
    (key \<rightharpoonup> withdrawal_ticket) \<Rightarrow> (key \<rightharpoonup> withdrawal_ticket) \<Rightarrow> bool" where
  "balanced a n n' f T T' \<longleftrightarrow> (\<forall>V. ticket_total (f V) T + (if V = a then n' else 0) =
     ticket_total (f V) T' + (if V = a then n else 0))"

lemma balancedD:
  assumes "balanced a n n' f T T'"
  shows "ticket_total (f a) T + n' = ticket_total (f a) T' + n"
    and "V \<noteq> a \<Longrightarrow> ticket_total (f V) T' = ticket_total (f V) T"
  using assms [unfolded balanced_def, THEN spec [of _ a]] assms [unfolded balanced_def, THEN spec [of _ V]] by simp_all

definition queue_move :: "env \<Rightarrow> account_info \<Rightarrow> ledger \<Rightarrow> ledger \<Rightarrow> vault \<Rightarrow> vault \<Rightarrow> bool" where
  "queue_move E a L L' v w \<longleftrightarrow> load_checked E L a = Inr v \<and> load_checked E L' a = Inr w \<and>
     finite (dom (ticket_at E L')) \<and>
     balanced (ai_key a) (unat (v_requested_withdrawal_shares v)) (unat (v_requested_withdrawal_shares w)) open_shares
       (ticket_at E L) (ticket_at E L') \<and>
     balanced (ai_key a) (unat (v_pending_withdrawal_assets v)) (unat (v_pending_withdrawal_assets w)) owed_assets
       (ticket_at E L) (ticket_at E L') \<and>
     (\<forall>j t. ticket_at E L' j = Some t \<longrightarrow> ticket_at E L j = Some t \<or>
        ticket_find_address (find_program_address E) (wt_vault t) (wt_owner t) (wt_ticket_index t) = (j, wt_bump t)) \<and>
     (\<forall>k. c_owner (L k) = ID \<and> ticket_at E L k = None \<and> k \<noteq> ai_key a \<longrightarrow> same_cell L L' k)"

lemma queue_move_backed:
  assumes "queue_move E a L L' v w" and b: "queue_backed E V L"
  shows "queue_backed E V L'"
proof (cases "V = ai_key a")
  case True
  show ?thesis using assms unfolding True queue_move_def queue_backed_iff by (auto dest: balancedD(1))
next
  case False
  let ?V = "\<lparr>ai_key = V, ai_is_signer = False, ai_is_writable = False\<rparr>"
  have "same_cell L L' V" using assms False ticket_at_vault [of E L ?V]
    by (auto simp: queue_move_def queue_backed_def load_checked_Inr_iff)
  then have "load_checked E L' ?V = load_checked E L ?V" by (simp add: same_cell_load(1))
  then show ?thesis using assms balancedD(2) [OF _ False] unfolding queue_move_def queue_backed_def by metis
qed

lemma quiet_create_pda:
  assumes "quiet_env E" and "create_pda_account E payer target sys space p seeds L = Inr L'"
  shows "ticket_at E L' = ticket_at E L" and "c_owner (L k) = ID \<Longrightarrow> same_cell L L' k"
    and "system_ok E \<Longrightarrow> c_owner (L' (ai_key target)) = p"
proof -
  have "quiet_env E \<and> ticket_at E L' = ticket_at E L \<and> (\<forall>k. c_owner (L k) = ID \<longrightarrow> same_cell L L' k)"
    by (rule keepsD [OF quiet.keeps_create_pda_account _ assms(2)]) (simp add: assms(1))
  then show "ticket_at E L' = ticket_at E L" "c_owner (L k) = ID \<Longrightarrow> same_cell L L' k" by blast+
  show "system_ok E \<Longrightarrow> c_owner (L' (ai_key target)) = p"
    using assms(2) by (auto simp: create_pda_account_def system_ok_def Let_def result_facts split: if_splits)
qed

lemma stored_vault:
  assumes "quiet_env E" and "load_checked E L a = Inr v" and "same_cell L M (ai_key a)" and "ticket_at E M (ai_key a) = None"
    and "store_account E (VaultAccount w) a M = Inr L'" and "evolves v w" and "vault_validate_state w = Inr ()"
  shows "load_checked E L' a = Inr w" and "ticket_at E L' = ticket_at E M"
    and "k \<noteq> ai_key a \<Longrightarrow> same_cell M L' k"
proof -
  have "vault_verify_address (find_program_address E) w (ai_key a) = Inr ()"
    using assms(2,6) vault_verify_address_cong [of w v] by (auto simp: load_checked_Inr_iff evolves_def vault_identity_def)
  moreover have "owner_of M a = ID" using assms(2,3) by (simp add: load_checked_Inr_iff same_cell_def)
  ultimately show "load_checked E L' a = Inr w"
    using store_load_vault [OF _ assms(5) _ assms(7)] assms(1) by (simp add: quiet_env_def)
  show "ticket_at E L' = ticket_at E M" using store_vault_tickets [OF _ assms(5,4)] assms(1) by (simp add: quiet_env_def)
  show "k \<noteq> ai_key a \<Longrightarrow> same_cell M L' k" using store_account_other [OF assms(5)] .
qed

lemma redeem_moves:
  assumes "quiet_env E" and "system_ok E" and "try_redeem E accounts args L = Inr L'"
    and fin: "finite (dom (ticket_at E L))"
  shows "\<exists>a v w. queue_move E a L L' v w"
proof -
  from assms(3) obtain ctx t L1 L2 r where
    ctx: "redeem_context_load E L accounts args = Inr ctx"
    and burn: "token_burn E (rc_token_program ctx) (rc_share_source ctx) (rc_share_mint ctx) (rc_owner ctx)
         (ra_shares args) L = Inr L1"
    and tick: "create_ticket E ctx t L1 = Inr L2"
    and t: "wt_vault t = ai_key (rc_vault_account ctx)" "wt_assets_owed t = 0" "wt_shares_burned t = ra_shares args"
      "wt_owner t = ai_key (rc_owner ctx)" "wt_ticket_index t = ra_ticket_index args" "wt_bump t = rc_ticket_bump ctx"
    and r: "unat r = unat (v_requested_withdrawal_shares (rc_vault ctx)) + unat (ra_shares args)"
    and st: "store_account E (VaultAccount ((rc_vault ctx)\<lparr>v_requested_withdrawal_shares := r\<rparr>))
         (rc_vault_account ctx) L2 = Inr L'"
    by (auto simp: try_redeem_def Let_def ticket_new_def result_facts word_facts not_less split: if_splits)
  note c = redeem_context_load_Inr [OF ctx]
  let ?va = "rc_vault_account ctx" and ?t = "ai_key (rc_ticket ctx)"
    and ?w = "(rc_vault ctx)\<lparr>v_requested_withdrawal_shares := r\<rparr>"
  have fresh: "c_owner (L ?t) \<noteq> ID" using c(6) by simp
  have own: "owner_of L ?va = ID" using c(1) by (simp add: load_checked_Inr_iff)
  note q1 = quiet_call [OF assms(1) burn [unfolded token_burn_def invoke_def]]
  from tick obtain M bs where
    pda: "create_pda_account E (rc_owner ctx) (rc_ticket ctx) (rc_system_program_acc ctx) TICKET_SPACE ID
        [TICKET_SEED, key_bytes (ai_key ?va), key_bytes (ai_key (rc_owner ctx)),
         [rc_ticket_index ctx], [rc_ticket_bump ctx]] L1 = Inr M"
    and bs: "serialize E (WithdrawalTicketAccount t) = Some bs"
    and L2: "L2 = set_data ?t (bs @ drop (length bs) (data_of M (rc_ticket ctx))) M"
    by (rule create_ticket_Inr)
  note q2 = quiet_create_pda [OF assms(1) pda]
  have "ticket_at E L2 ?t = Some t"
    using L2 bs q2(3) [OF assms(2)] assms(1) by (simp add: ticket_at_Some_iff quiet_env_def codec_ok_def)
  moreover have "ticket_at E L2 j = ticket_at E L j" if "j \<noteq> ?t" for j
    using ticket_at_cell [of M L2 j E] q1(1) q2(1) L2 that by (simp add: same_cell_def)
  ultimately have T2: "ticket_at E L2 = (ticket_at E L)(?t \<mapsto> t)" by auto
  have L2k: "same_cell L L2 k" if "c_owner (L k) = ID" for k
    using q1(2) [of k] q2(2) [of k] that fresh L2 by (auto simp: same_cell_def)
  have neq: "ai_key ?va \<noteq> ?t" using own fresh by auto
  have "ticket_at E L2 (ai_key ?va) = None" using T2 neq ticket_at_vault [OF c(1)] by simp
  moreover have "evolves (rc_vault ctx) ?w" "vault_validate_state ?w = Inr ()"
    using load_checked_valid [OF c(1)] by (simp_all add: evolution_facts)
  ultimately have sv: "load_checked E L' ?va = Inr ?w" "ticket_at E L' = (ticket_at E L)(?t \<mapsto> t)"
    "k \<noteq> ai_key ?va \<Longrightarrow> same_cell L2 L' k" for k
    using stored_vault [OF assms(1) c(1) L2k [OF own] _ st] T2 by auto
  have "ticket_at E L ?t = None" using fresh by (simp add: ticket_at_def)
  note tot = ticket_total_open [OF fin this]
  have frame: "same_cell L L' k" if "c_owner (L k) = ID" and "k \<noteq> ai_key ?va" for k
    using same_cell_trans [OF L2k sv(3)] that by blast
  have "queue_move E ?va L L' (rc_vault ctx) ?w"
    unfolding queue_move_def balanced_def
    using c(1,7) sv(1,2) r t fin frame by (auto simp: tot open_shares_def owed_assets_def)
  then show ?thesis by blast
qed

lemma cancel_moves:
  assumes "quiet_env E" and "try_cancel_redeem E accounts args L = Inr L'" and fin: "finite (dom (ticket_at E L))"
  shows "\<exists>a v w. queue_move E a L L' v w"
proof -
  from assms(2) obtain ctx tag L1 L2 r where
    ctx: "cancel_redeem_context_load E L accounts = Inr ctx"
    and owed: "wt_assets_owed (cc_ticket ctx) = 0"
    and m: "mint_to_signed E (cc_token_program ctx) (cc_share_mint ctx) (cc_share_dest ctx)
         (cc_vault_account ctx) (wt_shares_burned (cc_ticket ctx))
         [VAULT_SEED, tag, key_bytes (v_base_mint (cc_vault ctx)), [v_bump (cc_vault ctx)]] L = Inr L1"
    and close: "close_account (cc_ticket_account ctx) (cc_owner ctx) L1 = Inr L2"
    and r: "unat (v_requested_withdrawal_shares (cc_vault ctx)) = unat (wt_shares_burned (cc_ticket ctx)) + unat r"
    and st: "store_account E (VaultAccount ((cc_vault ctx)\<lparr>v_requested_withdrawal_shares := r\<rparr>))
         (cc_vault_account ctx) L2 = Inr L'"
    by (auto simp: try_cancel_redeem_def Let_def result_facts word_facts not_less split: if_splits)
  note c = cancel_redeem_context_load_Inr [OF ctx]
  let ?va = "cc_vault_account ctx" and ?t = "ai_key (cc_ticket_account ctx)"
    and ?w = "(cc_vault ctx)\<lparr>v_requested_withdrawal_shares := r\<rparr>"
  note q1 = quiet_call [OF assms(1) m [unfolded mint_to_signed_def]]
  have T: "ticket_at E L ?t = Some (cc_ticket ctx)" using c(5) by (simp add: ticket_at_load)
  have T2: "ticket_at E L2 = (ticket_at E L)(?t := None)" using close_account_tickets [OF close, of E] q1(1) by simp
  have L2k: "same_cell L L2 k" if "c_owner (L k) = ID" "k \<noteq> ?t" for k
    using same_cell_trans [OF q1(2) [OF that(1)] close_account_other [OF close that(2)]] .
  have "ai_key ?va \<noteq> ?t" using ticket_not_vault [OF c(5,1)] by simp
  moreover have "owner_of L ?va = ID" using c(1) by (simp add: load_checked_Inr_iff)
  ultimately have va: "same_cell L L2 (ai_key ?va)" using L2k by blast
  have "ticket_at E L2 (ai_key ?va) = None" using T2 ticket_at_vault [OF c(1)] by simp
  moreover have "evolves (cc_vault ctx) ?w" "vault_validate_state ?w = Inr ()"
    using load_checked_valid [OF c(1)] by (simp_all add: evolution_facts)
  ultimately have sv: "load_checked E L' ?va = Inr ?w" "ticket_at E L' = (ticket_at E L)(?t := None)"
    "k \<noteq> ai_key ?va \<Longrightarrow> same_cell L2 L' k" for k
    using stored_vault [OF assms(1) c(1) va _ st] T2 by auto
  note tot = ticket_total_close [OF fin T]
  have frame: "same_cell L L' k" if "c_owner (L k) = ID" and "ticket_at E L k = None" and "k \<noteq> ai_key ?va" for k
    using same_cell_trans [OF L2k sv(3)] that T by fastforce
  have "queue_move E ?va L L' (cc_vault ctx) ?w"
    unfolding queue_move_def balanced_def
    using c(1,7) sv(1,2) r owed fin frame by (auto simp: tot open_shares_def owed_assets_def)
  then show ?thesis by blast
qed

lemma settled_total:
  assumes "finite (dom T)" and "distinct (map ticket_key ss)"
    and "\<forall>s \<in> set ss. T (ticket_key s) = Some (ts_ticket s)"
  shows "ticket_total f T = ticket_total f (T |` (- ticket_key ` set ss)) + sum_list (map (\<lambda>s. f (ts_ticket s)) ss)"
  using assms
proof (induction ss arbitrary: T)
  case Nil
  then show ?case by (simp add: restrict_map_def)
next
  case (Cons s ss)
  let ?T = "T(ticket_key s := None)"
  have "ticket_key u \<noteq> ticket_key s" if "u \<in> set ss" for u using Cons.prems(2) that by (auto simp: image_iff)
  then have "\<forall>u \<in> set ss. ?T (ticket_key u) = Some (ts_ticket u)" using Cons.prems(3) by simp
  moreover have "finite (dom ?T)" "distinct (map ticket_key ss)" using Cons.prems(1,2) by simp_all
  ultimately have IH: "ticket_total f ?T =
      ticket_total f (?T |` (- ticket_key ` set ss)) + sum_list (map (\<lambda>s. f (ts_ticket s)) ss)"
    using Cons.IH [of ?T] by blast
  have "?T |` (- ticket_key ` set ss) = T |` (- ticket_key ` set (s # ss))"
    by (auto simp: restrict_map_def fun_eq_iff)
  then show ?case using ticket_total_close [OF Cons.prems(1), of "ticket_key s" "ts_ticket s" f] Cons.prems(3) IH by simp
qed

lemma pay_settlements_tickets:
  assumes "quiet_env E" and "pay_settlements E ctx seeds ss L = Inr L'"
  shows "ticket_at E L' = ticket_at E L |` (- ticket_key ` set ss)"
  using assms(2)
proof (induction ss arbitrary: L)
  case Nil
  then show ?case by (simp add: restrict_map_def)
next
  case (Cons s ss)
  from Cons.prems obtain M1 M2 where
    t: "token_transfer_signed E (pw_token_program ctx) (pw_custody ctx) (ts_destination s) (pw_sub_account ctx)
          (wt_assets_owed (ts_ticket s)) seeds L = Inr M1"
    and c: "close_account (ts_ticket_account s) (ts_owner s) M1 = Inr M2"
    and rest: "pay_settlements E ctx seeds ss M2 = Inr L'" by (auto simp: result_facts)
  have "ticket_at E M2 = (ticket_at E L)(ticket_key s := None)"
    using close_account_tickets [OF c, of E] quiet_call(1) [OF assms(1) t [unfolded token_transfer_signed_def]] by simp
  with Cons.IH [OF rest] show ?case by (auto simp: restrict_map_def fun_eq_iff)
qed

lemma settlement_sums:
  assumes "\<forall>s \<in> set ss. wt_vault (ts_ticket s) = K"
  shows "sum_list (map (\<lambda>s. open_shares V (ts_ticket s)) ss) = (if V = K then burned_total (filter unstruck ss) else 0)"
    and "sum_list (map (\<lambda>s. owed_assets V (ts_ticket s)) ss) = (if V = K then owed_total ss else 0)"
  using assms by (induction ss) (auto simp: open_shares_def owed_assets_def)

lemma process_moves:
  assumes "quiet_env E" and "try_process_withdrawals E accounts L = Inr L'" and fin: "finite (dom (ticket_at E L))"
  shows "\<exists>a v w. queue_move E a L L' v w"
proof -
  from assms(2) obtain ctx n clk v1 ss settled seeds L1 p where
    ctx: "process_withdrawals_context_load E L accounts = Inr ctx"
    and k: "strike_settlements n clk (pw_tickets ctx) (pw_vault ctx) 0 = Inr (v1, ss, settled)"
    and pay: "pay_settlements E ctx seeds ss L = Inr L1"
    and p: "unat (v_pending_withdrawal_assets v1) = unat settled + unat p"
    and val: "vault_validate_state (v1\<lparr>v_pending_withdrawal_assets := p\<rparr>) = Inr ()"
    and st: "store_account E (VaultAccount (v1\<lparr>v_pending_withdrawal_assets := p\<rparr>)) (pw_vault_account ctx) L1 = Inr L'"
    by (auto simp: try_process_withdrawals_def process_settle_def writable_vault_role_context_store_def
        result_facts word_facts split: if_splits prod.splits)
  note c = process_withdrawals_context_load_Inr [OF ctx]
  let ?va = "pw_vault_account ctx" and ?w = "v1\<lparr>v_pending_withdrawal_assets := p\<rparr>"
    and ?K = "ticket_key ` set (pw_tickets ctx)"
  have "map ticket_key ss = map ticket_key (pw_tickets ctx)"
    using strike_settlements_tickets [OF k] by (auto elim: struck_from_keys)
  then have K: "ticket_key ` set ss = ?K" by (metis set_map)
  have T: "\<forall>s \<in> set (pw_tickets ctx). ticket_at E L (ticket_key s) = Some (ts_ticket s) \<and> wt_vault (ts_ticket s) = ai_key ?va"
    using c(6) by (auto simp: list_all_iff settlement_loaded_def ticket_at_load)
  then have apart: "k \<notin> ?K" if "ticket_at E L k = None" for k using that by auto
  have T1: "ticket_at E L1 = ticket_at E L |` (- ?K)" using pay_settlements_tickets [OF assms(1) pay] K by simp
  have L1k: "same_cell L L1 k" if "c_owner (L k) = ID" "ticket_at E L k = None" for k
    using pay_settlements_keeps [OF _ c(2) pay that(1)] apart [OF that(2)] K assms(1) by (simp add: quiet_env_def)
  have va: "same_cell L L1 (ai_key ?va)"
    using L1k c(1) ticket_at_vault [OF c(1)] by (simp add: load_checked_Inr_iff)
  have "ticket_at E L1 (ai_key ?va) = None" using T1 ticket_at_vault [OF c(1)] by (simp add: restrict_map_def)
  moreover have "evolves (pw_vault ctx) ?w" using strike_settlements_evolves [OF k] by (simp add: evolution_facts)
  ultimately have sv: "load_checked E L' ?va = Inr ?w" "ticket_at E L' = ticket_at E L |` (- ?K)"
    "k \<noteq> ai_key ?va \<Longrightarrow> same_cell L1 L' k" for k
    using stored_vault [OF assms(1) c(1) va _ st] T1 val by auto
  have frame: "same_cell L L' k" if "c_owner (L k) = ID" and "ticket_at E L k = None" and "k \<noteq> ai_key ?va" for k
    using same_cell_trans [OF L1k sv(3)] that by blast
  have tot: "ticket_total f (ticket_at E L) = ticket_total f (ticket_at E L') + sum_list (map (\<lambda>s. f (ts_ticket s)) (pw_tickets ctx))" for f
    using settled_total [OF fin c(5), of f] T sv(2) by simp
  have vaults: "\<forall>s \<in> set (pw_tickets ctx). wt_vault (ts_ticket s) = ai_key ?va" using T by blast
  note books = strike_settlements_conserve [OF k]
  have "balanced (ai_key ?va) (unat (v_requested_withdrawal_shares (pw_vault ctx))) (unat (v_requested_withdrawal_shares ?w))
      open_shares (ticket_at E L) (ticket_at E L')"
    unfolding balanced_def using tot settlement_sums(1) [OF vaults] books(4) by simp
  moreover have "balanced (ai_key ?va) (unat (v_pending_withdrawal_assets (pw_vault ctx))) (unat (v_pending_withdrawal_assets ?w))
      owed_assets (ticket_at E L) (ticket_at E L')"
    unfolding balanced_def using tot settlement_sums(2) [OF vaults] books(1,3) p by simp
  moreover have "finite (dom (ticket_at E L'))" using sv(2) fin by (simp add: dom_restrict)
  moreover have "ticket_at E L j = Some t" if "ticket_at E L' j = Some t" for j t
    using that sv(2) by (auto simp: restrict_map_def split: if_splits)
  ultimately have "queue_move E ?va L L' (pw_vault ctx) ?w"
    unfolding queue_move_def using c(1) sv(1) frame by blast
  then show ?thesis by blast
qed

section \<open>Whole executions\<close>

text \<open>A step of the ledger in which the program does not call itself.\<close>

inductive quiet_step :: "env \<Rightarrow> payload_codec \<Rightarrow> ledger \<Rightarrow> ledger \<Rightarrow> bool" for E W where
  own_step: "agrees E F \<Longrightarrow> quiet_env F \<Longrightarrow> system_ok F \<Longrightarrow>
     try_process_instruction F W program_id accounts data L = Inr L' \<Longrightarrow> quiet_step E W L L'"
| foreign_step: "(\<And>k. c_owner (L k) = ID \<Longrightarrow> same_cell L L' k) \<Longrightarrow> hands_blank L L' \<Longrightarrow> quiet_step E W L L'"

lemma instruction_backed:
  assumes "quiet_env E" and "system_ok E" and "run_instruction E accounts L i = Inr L'" and b: "queue_backed E V L"
  shows "queue_backed E V L'"
proof (cases "TicketKind \<in> writes i")
  case True
  have fin: "finite (dom (ticket_at E L))" using b by (simp add: queue_backed_def)
  have "\<exists>a v w. queue_move E a L L' v w"
    using True assms(3) redeem_moves [OF assms(1,2) _ fin] cancel_moves [OF assms(1) _ fin] process_moves [OF assms(1) _ fin]
    by (cases i) auto
  then show ?thesis using queue_move_backed b by blast
next
  case False
  then show ?thesis using quiet_instruction_backed assms by blast
qed

lemma agrees_queue_backed: "agrees E F \<Longrightarrow> queue_backed F V L \<longleftrightarrow> queue_backed E V L"
proof -
  assume a: "agrees E F"
  then have "ticket_at F L = ticket_at E L" by (simp add: ticket_at_def agrees_def fun_eq_iff)
  with a show ?thesis by (simp add: queue_backed_def load_checked_Inr_iff agrees_def)
qed

lemma quiet_step_backed:
  assumes "quiet_env E" and "quiet_step E W L L'" and b: "queue_backed E V L"
  shows "queue_backed E V L'"
  using assms(2)
proof cases
  case (own_step F program_id accounts data)
  then obtain i where "run_instruction F accounts L i = Inr L'"
    by (auto simp: try_process_instruction_def result_facts split: if_splits)
  then show ?thesis using instruction_backed own_step b agrees_queue_backed [OF own_step(1)] by blast
next
  case foreign_step
  have "ticket_at E L' = ticket_at E L" using quiet_tickets foreign_step assms(1) by (simp add: quiet_env_def)
  moreover have "same_cell L L' V" using foreign_step(1) b by (auto simp: queue_backed_def load_checked_Inr_iff)
  ultimately show ?thesis
    using b same_cell_load [of L L' "\<lparr>ai_key = V, ai_is_signer = False, ai_is_writable = False\<rparr>" E]
    by (simp add: queue_backed_def)
qed

lemma quiet_steps_backed:
  assumes "quiet_env E" and "(quiet_step E W)\<^sup>*\<^sup>* L L'" and "queue_backed E V L"
  shows "queue_backed E V L'"
  using assms(2,3) by (induction rule: rtranclp_induct) (auto intro: quiet_step_backed [OF assms(1)])

text \<open>
  C4. The withdrawal queue is backed by its tickets, along every execution in which the program
  does not call itself: whatever instructions anyone sends and whatever other programs do, the
  requested shares of a vault are the sum of the burned shares of its live tickets not yet struck,
  and its pending assets the sum of what its live tickets are owed.
\<close>
theorem withdrawal_queue_is_backed:
  assumes "quiet_env E" and "(quiet_step E W)\<^sup>*\<^sup>* L L'" and "queue_backed E V L"
  shows "queue_backed E V L'"
  using quiet_steps_backed [OF assms] .

text \<open>A vault with one ticket, of 300000 shares; its owner cancels.\<close>

definition queued_vault :: vault where
  "queued_vault = example_vault\<lparr>v_requested_withdrawal_shares := 300000\<rparr>"

definition queued_ticket :: withdrawal_ticket where
  "queued_ticket = ticket_new 20 40 32 0 300000 0 3 77 254"

definition ticket_ledger :: "withdrawal_ticket \<Rightarrow> ledger" where
  "ticket_ledger t = example_ledger(
     20 := (example_ledger 20)\<lparr>c_data := account_bytes (VaultAccount queued_vault)\<rparr>,
     22 := (example_ledger 22)\<lparr>c_owner := ID, c_data := account_bytes (WithdrawalTicketAccount t)\<rparr>)"

abbreviation queued_ledger :: ledger where
  "queued_ledger \<equiv> ticket_ledger queued_ticket"

definition cancel_accounts :: "account_info list" where
  "cancel_accounts = [handle 40 True True, handle 20 False True, handle 22 False True, handle 7 False True,
     handle 31 False True, handle TOKEN_PROGRAM_ID False False]"

definition cancel_codec :: "cancel_redeem_args wincode" where
  "cancel_codec = (\<lambda>a. Some (to_le_bytes (cr_min_shares_out a)),
     \<lambda>bs. if length bs = 8 then Some \<lparr>cr_min_shares_out = from_le_bytes bs\<rparr> else None)"

definition queue_codec :: payload_codec where
  "queue_codec = example_codec\<lparr>pc_cancel_redeem := cancel_codec\<rparr>"

lemma example_quiet: "quiet_env example_env" "system_ok example_env"
proof -
  have "ix_program_id ix = TOKEN_PROGRAM_ID" "hands_blank L L'"
    if "example_invoke ix infos seeds L = Inr L'" for ix infos seeds L L'
    using that by (auto simp: example_invoke_def hands_blank_def elim!: move_supply_Inr split: if_splits list.splits)
  moreover have "deserialize example_env (replicate n 0) = None" for n
    using account_layout_round_trip [of n] by (simp add: example_env_def)
  ultimately show "quiet_env example_env"
    using example_codec_ok example_runtime_ok by (auto simp: quiet_env_def example_env_def)
  show "system_ok example_env" by (simp add: system_ok_def example_env_def example_invoke_def system_ix_def)
qed

lemma queued_load:
  "load_checked example_env (ticket_ledger t) (handle 20 s w) = Inr queued_vault"
  "load_ticket example_env (ticket_ledger t) (handle 22 s w) = Inr t"
proof -
  have ok: "vault_validate_state queued_vault = Inr ()" "vault_verify_address example_address queued_vault 20 = Inr ()"
    "wf_account (VaultAccount queued_vault)"
    using example_vault_valid example_address_ok vault_verify_address_cong [of queued_vault example_vault] example_wf
    by (simp_all add: queued_vault_def)
  from wire_round_trip [of "VaultAccount queued_vault" _ "[]"] ok
  show "load_checked example_env (ticket_ledger t) (handle 20 s w) = Inr queued_vault"
    by (simp add: load_checked_Inr_iff ticket_ledger_def example_ledger_def example_env_def wire_serialize_def)
  from wire_round_trip [of "WithdrawalTicketAccount t" _ "[]"]
  show "load_ticket example_env (ticket_ledger t) (handle 22 s w) = Inr t"
    by (simp add: load_ticket_Inr_iff ticket_ledger_def example_ledger_def example_env_def wire_serialize_def)
qed

lemma queued_tickets: "ticket_at example_env (ticket_ledger t) = [22 \<mapsto> t]"
proof -
  have "ticket_at example_env (ticket_ledger t) j = None" if "j \<noteq> 22" for j
    using that ticket_at_vault [OF queued_load(1)] by (auto simp: ticket_at_def ticket_ledger_def example_ledger_def split: if_splits)
  moreover have "ticket_at example_env (ticket_ledger t) 22 = Some t"
    using queued_load(2) [of t False False] by (simp add: ticket_at_load)
  ultimately show ?thesis by (auto simp: fun_eq_iff)
qed

lemma queued_backed:
  assumes "wt_vault t = 20" and "wt_assets_owed t = 0" and "wt_shares_burned t = 300000"
  shows "queue_backed example_env 20 (ticket_ledger t)"
  unfolding queue_backed_def queued_tickets using queued_load(1) assms
  by (simp add: ticket_total_def open_shares_def owed_assets_def queued_vault_def example_vault_def)

lemma queued_ticket_simps [simp]:
  "wt_vault queued_ticket = 20" "wt_owner queued_ticket = 40" "wt_ticket_index queued_ticket = 0"
  "wt_bump queued_ticket = 254" "wt_assets_owed queued_ticket = 0" "wt_shares_burned queued_ticket = 300000"
  "wt_request_epoch queued_ticket = 3" "wt_request_slot queued_ticket = 77"
  by (simp_all add: queued_ticket_def ticket_new_def)

lemma ticket_home: "ticket_find_address (find_program_address example_env) vk holder i = (22, 254)"
  by (simp add: ticket_find_address_def example_env_def example_address_def TICKET_SEED_def VAULT_SEED_def ascii_def
      ID_def ASSOCIATED_TOKEN_PROGRAM_ID_def)

lemma queued_share_account:
  "verify_token_account_mint_and_owner (ticket_ledger t) (handle 31 s w) 7 40 = Inr ()"
  by (simp add: verify_token_account_mint_and_owner_def verify_token_account_mint_def ticket_ledger_def
      example_ledger_def token_account_bytes_def is_token_program_def token_layout_defs nth_append field_def)

lemma queued_context:
  "cancel_redeem_context_load example_env queued_ledger cancel_accounts = Inr
     \<lparr>cc_owner = handle 40 True True, cc_vault_account = handle 20 False True, cc_ticket_account = handle 22 False True,
      cc_share_mint = handle 7 False True, cc_share_dest = handle 31 False True,
      cc_token_program = handle TOKEN_PROGRAM_ID False False, cc_vault = queued_vault, cc_ticket = queued_ticket\<rparr>"
proof -
  have "v_share_mint queued_vault = 7" by (simp add: queued_vault_def example_vault_def)
  then show ?thesis
    using queued_load queued_share_account ticket_home
    by (simp add: cancel_redeem_context_load_def cancel_accounts_def next_account_def require_writable_def
        require_writable_signer_def verify_share_mint_def)
qed

lemma queued_supply: "mint_supply (ticket_ledger t) (handle 7 s w) = Inr 9700000"
  by (simp add: mint_supply_def ticket_ledger_def example_ledger_def mint_bytes_def is_token_program_def
      token_layout_defs nth_append field_def)

lemma queued_mint:
  "mint_to_signed example_env (handle TOKEN_PROGRAM_ID False False) (handle 7 False True)
     (handle 31 False True) (handle 20 False True) 300000 seeds (ticket_ledger t)
   = Inr (set_data 7 (put_supply 10000000 (mint_bytes 9700000)) (ticket_ledger t))"
  using queued_supply
  by (simp add: mint_to_signed_def token_amount_instruction_def example_env_def example_invoke_def
      MINT_TO_INSTRUCTION_def move_supply_def checked_add_def)
    (simp add: ticket_ledger_def example_ledger_def)

lemma queued_size:
  "\<exists>bs. serialize example_env (VaultAccount (queued_vault\<lparr>v_requested_withdrawal_shares := q\<rparr>)) = Some bs \<and>
     length bs = length (c_data (ticket_ledger t 20))"
proof -
  have wf: "wf_account (VaultAccount v)" if "v_base_oracle v = v_base_oracle example_vault" for v
    using example_wf that by simp
  have "c_data (ticket_ledger t 20) = account_bytes (VaultAccount queued_vault)"
    by (simp add: ticket_ledger_def)
  then show ?thesis
    using vault_bytes_length [OF wf] wf by (simp add: example_env_def wire_serialize_def queued_vault_def)
qed

lemma queued_seed: "\<exists>seed. tag_seed queued_vault = Inr seed"
  using example_vault_pricing(5) by (simp add: tag_seed_def queued_vault_def)

lemma queued_cancel_run:
  "\<exists>L'. try_cancel_redeem example_env cancel_accounts \<lparr>cr_min_shares_out = 300000\<rparr> queued_ledger = Inr L'"
proof -
  let ?L1 = "set_data 7 (put_supply 10000000 (mint_bytes 9700000)) queued_ledger"
  let ?w = "queued_vault\<lparr>v_requested_withdrawal_shares := 0\<rparr>"
  define L2 where "L2 = set_owner 22 SYSTEM_PROGRAM_ID (set_data 22 [] (set_lamports 22 0 (set_lamports 40 0 ?L1)))"
  have close: "close_account (handle 22 False True) (handle 40 True True) ?L1 = Inr L2"
    by (simp add: close_account_def L2_def checked_add_def) (simp add: ticket_ledger_def example_ledger_def)
  have "c_data (L2 20) = c_data (queued_ledger 20)" by (simp add: L2_def set_owner_def set_lamports_def)
  with queued_size [of 0 queued_ticket] obtain L' where
    st: "store_account example_env (VaultAccount ?w) (handle 20 False True) L2 = Inr L'"
    by (auto simp: store_account_def)
  have "cancel_allowed queued_vault queued_ticket 4 700 = Inr ()"
    by (simp add: cancel_allowed_def queued_vault_def example_vault_def
        vault_controls_new_def REDEEM_CANCEL_DELAY_SLOTS_def checked_add_def)
  then have "try_cancel_redeem example_env cancel_accounts \<lparr>cr_min_shares_out = 300000\<rparr> queued_ledger = Inr L'"
    using queued_context queued_mint close st queued_seed
    by (auto simp: try_cancel_redeem_def example_env_def WITHDRAWAL_STRIKE_DELAY_EPOCHS_def checked_add_def checked_sub_def queued_vault_def)
  then show ?thesis by blast
qed

lemma queued_execution:
  "\<exists>L'. try_process_instruction example_env queue_codec ID cancel_accounts (9 # to_le_bytes (300000 :: u64)) queued_ledger = Inr L' \<and>
     (quiet_step example_env queue_codec)\<^sup>*\<^sup>* queued_ledger L'"
proof -
  have "decode queue_codec (9 # to_le_bytes (300000 :: u64)) = Some (CancelRedeem \<lparr>cr_min_shares_out = 300000\<rparr>)"
    by (simp add: decode_def decode_tagged_def tag_defs decode_payload_def queue_codec_def cancel_codec_def)
  then obtain L' where run: "try_process_instruction example_env queue_codec ID cancel_accounts
      (9 # to_le_bytes (300000 :: u64)) queued_ledger = Inr L'"
    using queued_cancel_run by (auto simp: try_process_instruction_def)
  have "agrees example_env example_env" by (simp add: agrees_def)
  then show ?thesis using own_step [OF _ example_quiet run] run by blast
qed

theorem withdrawal_queue_is_backed_witness:
  "\<exists>L'. try_process_instruction example_env queue_codec ID cancel_accounts (9 # to_le_bytes (300000 :: u64)) queued_ledger = Inr L' \<and>
     queue_backed example_env 20 L'"
  using queued_execution withdrawal_queue_is_backed [OF example_quiet(1) _ queued_backed] by auto

end
