(* ===== verification/Access_Control.thy ===== *)
theory Access_Control
  imports Vault_Lifecycle
begin

text \<open>
  Who may run an instruction and when: the authority each instruction demands of its signers, and
  the pause flags it honours, as tables over the instruction enum, against the handlers.
\<close>

section \<open>Tables\<close>

text \<open>
  The roles of which one must sign, the position of the signer and the position of the vault
  whose roles count.
\<close>

primrec authorities :: "roshi_instruction \<Rightarrow> (role list \<times> nat \<times> nat) list" where
  "authorities (InitializeProgram args) = []"
| "authorities (InitializeVault args) = []"
| "authorities (AuthorizeAction args) = [([Admin], 0, 1)]"
| "authorities (RevokeAction args) = [([Admin], 0, 1)]"
| "authorities (Manage args) = [([Strategist], 0, 1)]"
| "authorities (ManageBatch args) = (if args = [] then [] else [([Strategist], 0, 1)])"
| "authorities (ReportNav args) = [([NavAuthority], 0, 1)]"
| "authorities (Deposit args) = []"
| "authorities (Redeem args) = []"
| "authorities (CancelRedeem args) = []"
| "authorities ProcessWithdrawals = [([WithdrawalAuthority], 0, 1)]"
| "authorities (UpdateVaultConfig args) = [([Admin], 0, 1)]"
| "authorities (InitializeAsset args) = [([Admin], 0, 1)]"
| "authorities (UpdateAsset args) = [([Admin], 0, 1)]"
| "authorities (SetPauseFlags args) = [([Admin], 0, 1)]"
| "authorities (SetVaultAccess args) = [([Admin], 0, 1)]"
| "authorities (TransferProgramAuthority args) = []"
| "authorities (TransferVaultAuthority args) = [([Admin], 0, 1)]"
| "authorities (SetStrategist args) = [([Admin], 0, 1)]"
| "authorities (SetNavAuthority args) = [([Admin], 0, 1)]"
| "authorities (SetWithdrawalAuthority args) = [([Admin], 0, 1)]"
| "authorities (CollectFees args) = [([Admin], 0, 1)]"
| "authorities (InvestExternal args) = [([Strategist], 0, 1)]"
| "authorities (ReturnExternal args) = [([Strategist], 0, 2)]"
| "authorities (SetSwapAuthority args) = [([Admin], 0, 1)]"
| "authorities (AtomicRedeemInstruction args) = []"
| "authorities (Swap args) = [([SwapAuthority, Strategist], 0, 1)]"
| "authorities (WriteDownFees args) = [([Admin], 0, 1)]"
| "authorities RegisterExternalDestination = [([Admin], 0, 1)]"
| "authorities RevokeExternalDestination = [([Admin], 0, 1)]"
| "authorities (SetShareMetadata args) = [([Admin], 0, 1)]"
| "authorities AssertDelegateCleared = []"
| "authorities (AdminSetFlashFeeRate args) = [([Admin], 0, 1)]"
| "authorities (StrategistLowerFlashFeeRate args) = [([Strategist], 0, 1)]"
| "authorities (RecoverNav args) = [([NavAuthority], 0, 2), ([Admin], 1, 2)]"
| "authorities (DepositAndDeploy args) = []"

definition signed_by :: "env \<Rightarrow> ledger \<Rightarrow> account_info list \<Rightarrow> role list \<times> nat \<times> nat \<Rightarrow> bool" where
  "signed_by E L accounts = (\<lambda>(roles, s, w). s < length accounts \<and> w < length accounts \<and> ai_is_signer (accounts ! s) \<and>
     (\<exists>v. load_checked E L (accounts ! w) = Inr v \<and> ai_key (accounts ! s) \<in> authority_for_role v ` set roles))"

lemma yields_const: "Q \<Longrightarrow> yields (\<lambda>_. Q) r"
  by (simp add: yields_def)

lemma verify_either_role_Inr_iff [result_facts]:
  "verify_either_role v r s a = Inr u \<longleftrightarrow>
     ai_is_signer a \<and> (authority_for_role v r = ai_key a \<or> authority_for_role v s = ai_key a)"
  by (auto simp: verify_either_role_def has_role_def)

lemmas signature_facts = signed_by_def result_facts vault_role_context_load_def writable_vault_role_context_load_def

section \<open>Handlers\<close>

lemma admin_update_signed:
  "yields (\<lambda>_. signed_by E L accounts ([Admin], 0, 1)) (update_writable_vault_as_admin E accounts upd L)"
  unfolding update_writable_vault_as_admin_def
  by ((rule yields_rules)+, rule yields_const, auto simp: signature_facts)

lemma admin_signatures:
  "yields (\<lambda>_. signed_by E L accounts ([Admin], 0, 1)) (try_authorize_action E accounts aa L)"
  "yields (\<lambda>_. signed_by E L accounts ([Admin], 0, 1)) (try_revoke_action E accounts h L)"
  "yields (\<lambda>_. signed_by E L accounts ([Admin], 0, 1)) (try_update_vault_config E accounts uv L)"
  "yields (\<lambda>_. signed_by E L accounts ([Admin], 0, 1)) (try_initialize_asset E accounts ia L)"
  "yields (\<lambda>_. signed_by E L accounts ([Admin], 0, 1)) (try_update_asset E accounts ua L)"
  "yields (\<lambda>_. signed_by E L accounts ([Admin], 0, 1)) (try_collect_fees E accounts cf L)"
  "yields (\<lambda>_. signed_by E L accounts ([Admin], 0, 1)) (try_register_external_destination E accounts L)"
  "yields (\<lambda>_. signed_by E L accounts ([Admin], 0, 1)) (try_revoke_external_destination E accounts L)"
  "yields (\<lambda>_. signed_by E L accounts ([Admin], 0, 1)) (try_set_share_metadata E accounts sm L)"
  unfolding try_authorize_action_def authorize_action_context_load_def try_revoke_action_def
    revoke_action_context_load_def try_update_vault_config_def try_initialize_asset_def
    initialize_asset_context_load_def try_update_asset_def update_writable_asset_as_admin_def try_collect_fees_def
    try_register_external_destination_def register_external_destination_context_load_def
    try_revoke_external_destination_def close_external_destination_as_admin_def try_set_share_metadata_def Let_def
  by ((rule yields_rules)+, rule yields_const, auto simp: signature_facts)+

lemma flash_fee_signatures:
  "yields (\<lambda>_. signed_by E L accounts ([r], 0, 1)) (update_action_flash_fee E accounts r upd L)"
  unfolding update_action_flash_fee_def
  by ((rule yields_rules)+, rule yields_const, auto simp: signature_facts)

lemma strategist_signatures:
  "yields (\<lambda>_. signed_by E L accounts ([Strategist], 0, 1)) (try_invest_external E accounts ie L)"
  "yields (\<lambda>_. signed_by E L accounts ([Strategist], 0, 2)) (try_return_external E accounts re L)"
  "yields (\<lambda>_. signed_by E L accounts ([SwapAuthority, Strategist], 0, 1)) (try_swap E accounts sw L)"
  unfolding try_invest_external_def try_return_external_def try_swap_def swap_context_load_def Let_def
  by ((rule yields_rules)+, rule yields_const, auto simp: signature_facts)+

lemma verify_action_executor_Inr:
  "verify_action_executor v a sc = Inr u \<Longrightarrow> ai_is_signer a \<and> v_strategist v = ai_key a"
  by (cases sc) (auto simp: verify_action_executor_def result_facts)

lemma manage_step_Inr:
  assumes "manage_step E ex va (sub, act) accs args L = Inr L'"
  shows "ai_is_signer ex \<and> (\<exists>v. load_checked E L va = Inr v \<and> v_strategist v = ai_key ex \<and> verify_manage_enabled v = Inr ())"
  using assms by (auto simp: manage_step_def validate_manage_accounts_def result_facts dest: verify_action_executor_Inr)

lemma manage_batch_first:
  assumes "try_manage_batch E accounts ms L = Inr L'" and "ms \<noteq> []"
  obtains m ex va rest sub act accs L1 where "accounts = ex # va # rest"
    and "manage_step E ex va (sub, act) accs m L = Inr L1"
  using assms by (cases ms) (auto simp: try_manage_batch_def result_facts)

lemma manage_signatures:
  "yields (\<lambda>_. signed_by E L accounts ([Strategist], 0, 1)) (try_manage E accounts ma L)"
  "ms \<noteq> [] \<Longrightarrow> yields (\<lambda>_. signed_by E L accounts ([Strategist], 0, 1)) (try_manage_batch E accounts ms L)"
  by (auto simp: try_manage_def manage_context_load_def yields_def signed_by_def result_facts
      dest!: manage_step_Inr elim!: manage_batch_first)

lemma nav_signatures:
  "yields (\<lambda>_. signed_by E L accounts ([NavAuthority], 0, 1)) (try_report_nav E accounts nr L)"
  "yields (\<lambda>_. signed_by E L accounts ([NavAuthority], 0, 2) \<and> signed_by E L accounts ([Admin], 1, 2))
     (try_recover_nav E accounts nr L)"
  unfolding try_report_nav_def try_recover_nav_def apply_nav_report_def Let_def
  by ((rule yields_rules)+, rule yields_const, auto simp: signature_facts)+

lemma settlement_signatures:
  "yields (\<lambda>_. signed_by E L accounts ([WithdrawalAuthority], 0, 1)) (try_process_withdrawals E accounts L)"
  unfolding try_process_withdrawals_def process_withdrawals_context_load_def
  by ((rule yields_rules)+, rule yields_const, auto simp: signature_facts)

lemma run_needs_authority:
  assumes "run_instruction E accounts L i = Inr L'" and "entry \<in> set (authorities i)"
  shows "signed_by E L accounts entry"
proof -
  have "yields (\<lambda>_. \<forall>entry \<in> set (authorities i). signed_by E L accounts entry) (run_instruction E accounts L i)"
    by (cases i)
      (simp_all add: yields_const admin_signatures strategist_signatures manage_signatures nav_signatures
        settlement_signatures flash_fee_signatures admin_update_signed try_admin_set_flash_fee_rate_def
        try_strategist_lower_flash_fee_rate_def try_set_pause_flags_def try_set_vault_access_def
        try_transfer_vault_authority_def try_set_strategist_def try_set_swap_authority_def try_set_nav_authority_def
        try_set_withdrawal_authority_def try_write_down_fees_def yields_if yields_Inl del: One_nat_def)
  from yieldsD [OF this assms(1)] assms(2) show ?thesis by blast
qed

text \<open>
  C5. Access control, over the whole program: an instruction that succeeds was signed, at every
  position the authority table names for it, by a holder of one of the named roles of the vault
  the instruction works on.
\<close>
theorem instructions_need_their_authority:
  assumes "try_process_instruction E W program_id accounts data L = Inr L'"
  shows "\<exists>i. decode W data = Some i \<and> (\<forall>entry \<in> set (authorities i). signed_by E L accounts entry)"
proof -
  from assms obtain i where "decode W data = Some i" and "run_instruction E accounts L i = Inr L'"
    by (auto simp: try_process_instruction_def result_facts split: if_splits)
  then show ?thesis using run_needs_authority by blast
qed

theorem instructions_need_their_authority_witness:
  "signed_by example_env example_ledger [handle 1 True False, handle 20 False True] ([Admin], 0, 1)"
proof -
  obtain L' where run: "try_process_instruction example_env example_codec ID
      [handle 1 True False, handle 20 False True] [14, 1, 0, 0] example_ledger = Inr L'"
    using example_pause_run by blast
  from instructions_need_their_authority [OF this] obtain i where "decode example_codec [14, 1, 0, 0] = Some i"
    and s: "\<forall>entry \<in> set (authorities i). signed_by example_env example_ledger
        [handle 1 True False, handle 20 False True] entry" by blast
  then have "i = SetPauseFlags \<lparr>spf_deposits_paused = True, spf_withdrawals_paused = False, spf_manage_paused = False\<rparr>"
    by (simp add: example_pause_decode)
  with s show ?thesis by simp
qed

section \<open>Pause flags\<close>

text \<open>The flag an instruction must find down, with the position of the vault.\<close>

primrec pause_gate :: "roshi_instruction \<Rightarrow> ((vault \<Rightarrow> bool program_result) \<times> nat) option" where
  "pause_gate (InitializeProgram args) = None"
| "pause_gate (InitializeVault args) = None"
| "pause_gate (AuthorizeAction args) = None"
| "pause_gate (RevokeAction args) = None"
| "pause_gate (Manage args) = Some (manage_paused, 1)"
| "pause_gate (ManageBatch args) = (if args = [] then None else Some (manage_paused, 1))"
| "pause_gate (ReportNav args) = None"
| "pause_gate (Deposit args) = Some (deposits_paused, 1)"
| "pause_gate (Redeem args) = Some (withdrawals_paused, 1)"
| "pause_gate (CancelRedeem args) = None"
| "pause_gate ProcessWithdrawals = None"
| "pause_gate (UpdateVaultConfig args) = None"
| "pause_gate (InitializeAsset args) = None"
| "pause_gate (UpdateAsset args) = None"
| "pause_gate (SetPauseFlags args) = None"
| "pause_gate (SetVaultAccess args) = None"
| "pause_gate (TransferProgramAuthority args) = None"
| "pause_gate (TransferVaultAuthority args) = None"
| "pause_gate (SetStrategist args) = None"
| "pause_gate (SetNavAuthority args) = None"
| "pause_gate (SetWithdrawalAuthority args) = None"
| "pause_gate (CollectFees args) = None"
| "pause_gate (InvestExternal args) = Some (manage_paused, 1)"
| "pause_gate (ReturnExternal args) = Some (manage_paused, 2)"
| "pause_gate (SetSwapAuthority args) = None"
| "pause_gate (AtomicRedeemInstruction args) = Some (withdrawals_paused, 1)"
| "pause_gate (Swap args) = Some (manage_paused, 1)"
| "pause_gate (WriteDownFees args) = None"
| "pause_gate RegisterExternalDestination = None"
| "pause_gate RevokeExternalDestination = None"
| "pause_gate (SetShareMetadata args) = None"
| "pause_gate AssertDelegateCleared = None"
| "pause_gate (AdminSetFlashFeeRate args) = None"
| "pause_gate (StrategistLowerFlashFeeRate args) = None"
| "pause_gate (RecoverNav args) = None"
| "pause_gate (DepositAndDeploy args) = Some (deposits_paused, 1)"

definition gate_open :: "env \<Rightarrow> ledger \<Rightarrow> account_info list \<Rightarrow> (vault \<Rightarrow> bool program_result) \<times> nat \<Rightarrow> bool" where
  "gate_open E L accounts = (\<lambda>(gate, w). w < length accounts \<and>
     (\<exists>v. load_checked E L (accounts ! w) = Inr v \<and> gate v = Inr False))"

lemma verify_manage_enabled_Inr_iff: "verify_manage_enabled v = Inr u \<longleftrightarrow> manage_paused v = Inr False"
  by (auto simp: verify_manage_enabled_def result_facts split: if_splits)

lemma manage_gates:
  "yields (\<lambda>_. gate_open E L accounts (manage_paused, 1)) (try_manage E accounts ma L)"
  "ms \<noteq> [] \<Longrightarrow> yields (\<lambda>_. gate_open E L accounts (manage_paused, 1)) (try_manage_batch E accounts ms L)"
  "yields (\<lambda>_. gate_open E L accounts (manage_paused, 1)) (try_invest_external E accounts ie L)"
  "yields (\<lambda>_. gate_open E L accounts (manage_paused, 2)) (try_return_external E accounts re L)"
  "yields (\<lambda>_. gate_open E L accounts (manage_paused, 1)) (try_swap E accounts sw L)"
proof -
  show "yields (\<lambda>_. gate_open E L accounts (manage_paused, 1)) (try_manage E accounts ma L)"
    and "ms \<noteq> [] \<Longrightarrow> yields (\<lambda>_. gate_open E L accounts (manage_paused, 1)) (try_manage_batch E accounts ms L)"
    by (auto simp: try_manage_def manage_context_load_def yields_def gate_open_def verify_manage_enabled_Inr_iff
        result_facts dest!: manage_step_Inr elim!: manage_batch_first)
qed (unfold try_invest_external_def try_return_external_def try_swap_def swap_context_load_def Let_def,
    ((rule yields_rules)+, rule yields_const,
     auto simp: gate_open_def verify_manage_enabled_Inr_iff result_facts)+)

lemma context_positions:
  "yields (\<lambda>c. \<exists>x rest. accounts = x # dc_vault_account c # rest) (deposit_context_load E L accounts)"
  "yields (\<lambda>c. \<exists>x rest. accounts = x # rc_vault_account c # rest) (redeem_context_load E L accounts ra)"
  "yields (\<lambda>c. \<exists>x rest. accounts = x # ar_vault_account c # rest) (atomic_redeem_context_load E L accounts ara)"
  unfolding deposit_context_load_def redeem_context_load_def atomic_redeem_context_load_def Let_def
  by ((rule yields_rules)+, rule yields_Inr, simp add: result_facts)+

lemma gate_openI:
  "\<exists>x rest. accounts = x # va # rest \<Longrightarrow> load_checked E L va = Inr v \<Longrightarrow> gate v = Inr False \<Longrightarrow>
     gate_open E L accounts (gate, 1)"
  by (auto simp: gate_open_def)

lemma execute_deposit_open:
  "yields (\<lambda>_. deposits_paused (dc_vault ctx) = Inr False) (execute_deposit E ctx args L)"
  unfolding execute_deposit_def Let_def by ((rule yields_rules)+, rule yields_const, simp)

lemma deposit_open:
  assumes "deposit_context_load E L accounts = Inr ctx" and "execute_deposit E ctx args L = Inr L'"
  shows "gate_open E L accounts (deposits_paused, 1)"
  by (rule gate_openI [OF yieldsD [OF context_positions(1) assms(1)] yieldsD [OF context_vaults(1) assms(1)]])
    (rule yieldsD [OF execute_deposit_open assms(2)])

lemma user_gates:
  "yields (\<lambda>_. gate_open E L accounts (deposits_paused, 1)) (try_deposit E accounts d L)"
  "yields (\<lambda>_. gate_open E L accounts (withdrawals_paused, 1)) (try_redeem E accounts r L)"
  "yields (\<lambda>_. gate_open E L accounts (withdrawals_paused, 1)) (try_atomic_redeem E accounts ar L)"
proof -
  show "yields (\<lambda>_. gate_open E L accounts (deposits_paused, 1)) (try_deposit E accounts d L)"
    by (auto simp: yields_def try_deposit_def result_facts deposit_open simp del: One_nat_def split: if_splits)
  show "yields (\<lambda>_. gate_open E L accounts (withdrawals_paused, 1)) (try_redeem E accounts r L)"
    unfolding try_redeem_def Let_def
    by ((rule yields_rules)+, rule yields_const, rule gate_openI, erule context_positions [THEN yieldsD],
        erule context_vaults [THEN yieldsD], simp)
  show "yields (\<lambda>_. gate_open E L accounts (withdrawals_paused, 1)) (try_atomic_redeem E accounts ar L)"
    unfolding try_atomic_redeem_def Let_def
    by ((rule yields_rules)+, rule yields_const, rule gate_openI, erule context_positions [THEN yieldsD],
        erule context_vaults [THEN yieldsD], simp)
qed

lemma deposit_and_deploy_gate:
  "yields (\<lambda>_. gate_open E L accounts (deposits_paused, 1)) (try_deposit_and_deploy E accounts d L)"
proof -
  have "gate_open E L accounts (deposits_paused, 1)" if "try_deposit_and_deploy E accounts d L = Inr L'" for L'
  proof -
    from that obtain dep args L1 where ex: "execute_deposit E dep args L = Inr L1"
      and ctx: "\<exists>va rest. deposit_and_deploy_context_load E L accounts = Inr (dep, va, rest)"
      unfolding try_deposit_and_deploy_def Let_def by (auto simp: result_facts split: if_splits)
    then have "deposit_context_load E L (take 8 accounts) = Inr dep"
      by (auto simp: deposit_and_deploy_context_load_def Let_def result_facts get_slice_Some_iff)
    from deposit_open [OF this ex] show ?thesis by (auto simp: gate_open_def)
  qed
  then show ?thesis by (simp add: yields_def)
qed

text \<open>
  C6. Pausing works, over the whole program: an instruction that the pause table subjects to a flag
  succeeds only on a vault whose flag is down.
\<close>
theorem pause_flags_are_honoured:
  assumes "run_instruction E accounts L i = Inr L'" and "pause_gate i = Some (flag_down, position)"
  shows "position < length accounts \<and> (\<exists>v. load_checked E L (accounts ! position) = Inr v \<and> flag_down v = Inr False)"
proof -
  have "yields (\<lambda>_. pred_option (gate_open E L accounts) (pause_gate i)) (run_instruction E accounts L i)"
    by (cases i) (simp_all add: yields_const manage_gates user_gates deposit_and_deploy_gate del: One_nat_def)
  from yieldsD [OF this assms(1)] assms(2) show ?thesis by (simp add: gate_open_def)
qed

theorem pause_flags_are_honoured_witness:
  "\<exists>v. load_checked example_env example_ledger (handle 20 False True) = Inr v \<and> deposits_paused v = Inr False"
proof -
  obtain L' where "run_instruction example_env example_accounts example_ledger (Deposit example_deposit) = Inr L'"
    using example_deposit_run by auto
  from pause_flags_are_honoured [OF this] show ?thesis by (simp add: example_accounts_def)
qed

end
