(* ===== verification/Account_Effects.thy ===== *)
theory Account_Effects
  imports Queue_Accounting Access_Control
begin

text \<open>
  What an instruction can do to the accounts of the program: besides vaults it writes only the kind
  of its table entry, and an action, which licenses relayed calls, moves through a small state
  machine whose every transition is signed for.
\<close>

section \<open>Stored accounts\<close>

definition stored :: "env \<Rightarrow> ledger \<Rightarrow> key \<Rightarrow> account \<Rightarrow> bool" where
  "stored E L j acc \<longleftrightarrow> c_owner (L j) = ID \<and> deserialize E (c_data (L j)) = Some acc"

definition watched_at :: "env \<Rightarrow> account_kind set \<Rightarrow> ledger \<Rightarrow> key \<rightharpoonup> account" where
  "watched_at E K L j =
     (if c_owner (L j) \<noteq> ID then None
      else case deserialize E (c_data (L j)) of Some acc \<Rightarrow> if kind_of acc \<in> K then Some acc else None | None \<Rightarrow> None)"

lemma watched_at_Some_iff: "watched_at E K L j = Some acc \<longleftrightarrow> stored E L j acc \<and> kind_of acc \<in> K"
  by (auto simp: watched_at_def stored_def split: option.splits)

lemma watched_at_None_iff: "watched_at E K L j = None \<longleftrightarrow> unwatched E K L j"
  by (auto simp: watched_at_def unwatched_def split: option.splits)

lemma watched_at_cell: "same_cell L L' j \<Longrightarrow> watched_at E K L' j = watched_at E K L j"
  by (simp add: watched_at_def same_cell_def)

lemma blank_watched:
  assumes "\<forall>n. deserialize E (replicate n 0) = None" and "\<And>k. c_owner (L k) = ID \<Longrightarrow> same_cell L L' k"
    and "hands_blank L L'"
  shows "watched_at E K L' = watched_at E K L"
proof
  fix j
  show "watched_at E K L' j = watched_at E K L j"
  proof (cases "c_owner (L j) = ID")
    case True
    then show ?thesis using assms(2) watched_at_cell by blast
  next
    case False
    then show ?thesis using assms(1,3) by (auto simp: watched_at_def hands_blank_def)
  qed
qed

lemma quiet_watched:
  assumes "quiet_env E" and "invoke_signed E ix infos seeds L = Inr L'"
  shows "watched_at E K L' = watched_at E K L"
  by (rule blank_watched) (use assms quiet_call(2) [OF assms] in \<open>auto simp: quiet_env_def\<close>)

interpretation effects: ledger_invariant E "\<lambda>L. quiet_env E \<and> watched_at E (K - {VaultKind}) L = T"
  "dom T" "K - {VaultKind}" "\<lambda>v w. True" for E K T
proof
  let ?K = "K - {VaultKind}"
  let ?inv = "\<lambda>L. quiet_env E \<and> watched_at E ?K L = T"
  show "codec_ok E" if "?inv L" for L using that by (simp add: quiet_env_def)
  show "?inv L'" if "?inv L" and "invoke_signed E ix infos seeds L = Inr L'" for L L' ix infos seeds
    using that quiet_watched by blast
  show "?inv L'" if "?inv L" and "\<And>j. same_cell L L' j \<or> j \<notin> dom T \<and> unwatched E ?K L' j" for L L'
  proof -
    have "watched_at E ?K L' j = T j" for j
      using that(1) that(2) [of j] watched_at_cell [of L L' j E ?K]
      by (auto simp: watched_at_None_iff [symmetric] domIff)
    with that(1) show ?thesis by auto
  qed
  show "c_owner (L j) = ID" if "?inv L" and "j \<in> dom T" for L j
    using that by (auto simp: watched_at_Some_iff stored_def)
  show "\<exists>acc. deserialize E (c_data (L j)) = Some acc \<and> (kind_of acc = VaultKind \<or> kind_of acc \<in> ?K)"
    if "?inv L" and "j \<in> dom T" for L j
    using that by (auto simp: watched_at_Some_iff stored_def)
  show "?inv L'" if "?inv L0" and "load_checked E L0 a = Inr v" and "True" and "vault_validate_state w = Inr ()"
    and "?inv L" and st: "store_account E (VaultAccount w) a L = Inr L'" for L0 a v w L L'
  proof -
    have "watched_at E ?K L0 (ai_key a) = None" using that(2) by (auto simp: watched_at_def load_checked_Inr_iff)
    with that(1) have "T (ai_key a) = None" by auto
    moreover have "watched_at E ?K L' (ai_key a) = None" using st that(1)
      by (auto simp: watched_at_def store_account_def quiet_env_def codec_ok_def overwrite_prefix_def result_facts
          split: if_splits)
    moreover have "watched_at E ?K L' j = T j" if "j \<noteq> ai_key a" for j
      using store_account_other [OF st that] watched_at_cell [of L L' j E ?K] \<open>?inv L\<close> by auto
    ultimately have "watched_at E ?K L' = T" by (metis ext)
    with that(1) show ?thesis by blast
  qed
qed simp_all

lemma untouched_kinds:
  assumes "quiet_env E" and "run_instruction E accounts L i = Inr L'" and "K \<inter> writes i = {}" and "VaultKind \<notin> K"
  shows "watched_at E K L' = watched_at E K L"
proof -
  have K: "K - {VaultKind} = K" using assms(4) by simp
  have "keeps (\<lambda>M. quiet_env E \<and> watched_at E (K - {VaultKind}) M = watched_at E K L) L (run_instruction E accounts L i)"
    by (rule effects.keeps_run_instruction) (use assms(3) in auto)
  from keepsD [OF this _ assms(2)] assms(1) show ?thesis unfolding K by blast
qed

text \<open>
  C20. Every instruction keeps to its kind of account: in a runtime that does not lead back into the
  program, an instruction that succeeds neither creates, changes nor closes any program account
  but vaults and accounts of the kind its table entry names.
\<close>
theorem instructions_write_their_kinds:
  assumes "quiet_env E" and "run_instruction E accounts L i = Inr L'"
    and "kind_of acc \<noteq> VaultKind" and "kind_of acc \<notin> writes i"
  shows "stored E L' j acc \<longleftrightarrow> stored E L j acc"
proof -
  let ?K = "- writes i - {VaultKind}"
  have "watched_at E ?K L' = watched_at E ?K L" by (rule untouched_kinds [OF assms(1,2)]) auto
  then have "watched_at E ?K L' j = Some acc \<longleftrightarrow> watched_at E ?K L j = Some acc" by simp
  with assms(3,4) show ?thesis by (simp add: watched_at_Some_iff)
qed

theorem instructions_write_their_kinds_witness:
  "\<exists>L'. run_instruction example_env cancel_accounts queued_ledger (CancelRedeem \<lparr>cr_min_shares_out = 300000\<rparr>) = Inr L' \<and>
     (\<forall>j a. \<not> stored example_env L' j (ActionAccount a))"
proof -
  obtain L' where run: "run_instruction example_env cancel_accounts queued_ledger
      (CancelRedeem \<lparr>cr_min_shares_out = 300000\<rparr>) = Inr L'"
    using queued_cancel_run by auto
  have "\<not> stored example_env queued_ledger j (ActionAccount a)" for j a
    using queued_load [of queued_ticket False False]
    by (auto simp: stored_def load_checked_Inr_iff load_ticket_Inr_iff ticket_ledger_def example_ledger_def split: if_splits)
  then show ?thesis
    using instructions_write_their_kinds [OF example_quiet(1) run, of "ActionAccount a" for a] run by auto
qed

section \<open>Actions\<close>

definition action_at :: "env \<Rightarrow> ledger \<Rightarrow> key \<Rightarrow> action option" where
  "action_at E L j =
     (case watched_at E {ActionKind} L j of Some (ActionAccount a) \<Rightarrow> Some a | _ \<Rightarrow> None)"

lemma action_at_Some_iff: "action_at E L j = Some a \<longleftrightarrow> stored E L j (ActionAccount a)"
  by (auto simp: action_at_def watched_at_def stored_def split: option.splits account.splits)

lemma action_at_load: "load_action E L h = Inr a \<longleftrightarrow> action_at E L (ai_key h) = Some a"
  by (auto simp: action_at_Some_iff stored_def load_action_def account_load_def result_facts account_cases_Inr_iff
      split: if_splits)

lemma action_at_cell: "same_cell L L' j \<Longrightarrow> action_at E L' j = action_at E L j"
  by (simp add: action_at_def watched_at_cell)

text \<open>The life of the action account under a key \<open>j\<close>, against the signers of the instruction at hand.\<close>

inductive action_step :: "env \<Rightarrow> ledger \<Rightarrow> account_info list \<Rightarrow> key \<Rightarrow> action option \<Rightarrow> action option \<Rightarrow> bool"
  for E L accounts j where
  stay: "action_step E L accounts j x x"
| authorized: "signed_by E L accounts ([Admin], 0, 1) \<Longrightarrow> ac_vault a = ai_key (accounts ! 1) \<Longrightarrow>
     j = fst (action_find_address (find_program_address E) (ac_vault a) (ac_action_hash a)) \<Longrightarrow>
     action_step E L accounts j None (Some a)"
| revoked: "signed_by E L accounts ([Admin], 0, 1) \<Longrightarrow> ac_vault a = ai_key (accounts ! 1) \<Longrightarrow>
     action_step E L accounts j (Some a) None"
| fee_set: "signed_by E L accounts ([Admin], 0, 1) \<Longrightarrow> ac_vault a = ai_key (accounts ! 1) \<Longrightarrow>
     action_step E L accounts j (Some a) (Some (a\<lparr>ac_fee_num := n, ac_fee_den := d\<rparr>))"
| fee_lowered: "signed_by E L accounts ([Strategist], 0, 1) \<Longrightarrow> ac_vault a = ai_key (accounts ! 1) \<Longrightarrow>
     rate_strictly_lower n d (ac_fee_num a) (ac_fee_den a) \<Longrightarrow>
     action_step E L accounts j (Some a) (Some (a\<lparr>ac_fee_num := n, ac_fee_den := d\<rparr>))"

lemma authorize_context:
  "yields (\<lambda>c. ai_key (aa_action c) = fst (action_find_address (find_program_address E) (aa_vault_key c) h) \<and>
      aa_vault_key c = ai_key (accounts ! 1) \<and> owner_of L (aa_action c) \<noteq> ID)
     (authorize_action_context_load E L accounts h)"
  unfolding authorize_action_context_load_def Let_def
  by ((rule yields_rules)+, rule yields_Inr, auto simp: require_uninitialized_account_def result_facts split: if_splits)

lemma authorize_step:
  assumes "quiet_env E" and "try_authorize_action E accounts args L = Inr L'"
  shows "action_step E L accounts j (action_at E L j) (action_at E L' j)"
proof -
  have signed: "signed_by E L accounts ([Admin], 0, 1)" using yieldsD [OF admin_signatures(1) assms(2)] .
  from assms(2) obtain ctx where
    ctx: "authorize_action_context_load E L accounts (aaa_action_hash args) = Inr ctx"
    and create: "action_create_and_store E ctx args L = Inr L'"
    by (auto simp: try_authorize_action_def result_facts)
  define a where "a = \<lparr>ac_vault = aa_vault_key ctx, ac_action_hash = aaa_action_hash args, ac_ops = aaa_ops args,
         ac_fee_num = aaa_fee_num args, ac_fee_den = aaa_fee_den args, ac_scope = aaa_scope args,
         ac_amount_offset = aaa_amount_offset args, ac_bump = aa_action_bump ctx\<rparr>"
  from create obtain L1 bs where
    pda: "create_pda_account E (aa_admin ctx) (aa_action ctx) (aa_system_program_acc ctx) ACTION_SPACE ID
        [ACTION_SEED, key_bytes (aa_vault_key ctx), key_bytes (aaa_action_hash args), [aa_action_bump ctx]] L = Inr L1"
    and bs: "serialize E (ActionAccount a) = Some bs" and cp: "copy_serialized bs (aa_action ctx) L1 = Inr L'"
    unfolding action_create_and_store_def a_def [symmetric] store_new_account_def
    by (auto simp: result_facts split: if_splits)
  have a: "ac_vault a = aa_vault_key ctx" "ac_action_hash a = aaa_action_hash args" by (simp_all add: a_def)
  note c = yieldsD [OF authorize_context ctx]
  have old: "watched_at E {ActionKind} L1 = watched_at E {ActionKind} L"
    using keepsD [OF effects.keeps_create_pda_account _ pda, of "{ActionKind}"] assms(1) by simp
  have L': "c_owner (L' k) = c_owner (L1 k)" "k \<noteq> ai_key (aa_action ctx) \<Longrightarrow> same_cell L1 L' k" for k
    using cp by (auto simp: copy_serialized_def same_cell_def split: if_splits)
  have new: "deserialize E (data_of L' (aa_action ctx)) = Some (ActionAccount a)"
    using cp bs assms(1) by (auto simp: copy_serialized_def overwrite_prefix_def quiet_env_def codec_ok_def split: if_splits)
  show ?thesis
  proof (cases "j = ai_key (aa_action ctx)")
    case True
    have "action_at E L j = None" using conjunct2 [OF conjunct2 [OF c]] unfolding True by (simp add: action_at_def watched_at_def)
    moreover have "action_at E L' j = None \<or> action_at E L' j = Some a"
      using new True by (auto simp: action_at_def watched_at_def)
    moreover have "action_step E L accounts j None (Some a)" by (rule authorized [OF signed]) (use a c True in simp_all)
    ultimately show ?thesis using stay by metis
  next
    case False
    then have "action_at E L' j = action_at E L j"
      using action_at_cell [OF L'(2) [OF False], of E] old by (simp add: action_at_def)
    then show ?thesis by (simp add: stay)
  qed
qed

lemma revoke_effect:
  assumes "try_revoke_action E accounts h L = Inr L'"
  shows "action_at E L' j = action_at E L j \<or>
    action_at E L' j = None \<and> (\<exists>a. action_at E L j = Some a \<and> ac_vault a = ai_key (accounts ! 1))"
proof -
  from assms obtain admin acc a where load: "load_action E L acc = Inr a" and v: "ac_vault a = ai_key (accounts ! 1)"
    and close: "close_account acc admin L = Inr L'"
    by (auto simp: try_revoke_action_def revoke_action_context_load_def action_verify_vault_def result_facts split: if_splits)
  show ?thesis
  proof (cases "j = ai_key acc")
    case True
    have "action_at E L' j = None"
      using close_account_closed(1) [OF close] True by (simp add: action_at_def watched_at_def)
    with load v True show ?thesis by (simp add: action_at_load)
  qed (use close_account_other [OF close, of j] action_at_cell [of L L' j E] in simp)
qed

lemma revoke_step:
  assumes "try_revoke_action E accounts h L = Inr L'"
  shows "action_step E L accounts j (action_at E L j) (action_at E L' j)"
  using revoke_effect [OF assms, of j] yieldsD [OF admin_signatures(2) assms]
  by (auto intro: action_step.intros simp del: One_nat_def)

lemma flash_fee_update:
  assumes "quiet_env E" and "update_action_flash_fee E accounts r upd L = Inr L'"
  shows "action_at E L' j = action_at E L j \<or>
    (\<exists>a n d. action_at E L j = Some a \<and> ac_vault a = ai_key (accounts ! 1) \<and> upd a = Inr (n, d) \<and>
       action_at E L' j = Some (a\<lparr>ac_fee_num := n, ac_fee_den := d\<rparr>))"
proof -
  from assms(2) obtain acc a n d where load: "load_action E L acc = Inr a" and v: "ac_vault a = ai_key (accounts ! 1)"
    and upd: "upd a = Inr (n, d)"
    and st: "store_account E (ActionAccount (a\<lparr>ac_fee_num := n, ac_fee_den := d\<rparr>)) acc L = Inr L'"
    by (auto simp: update_action_flash_fee_def action_verify_for_vault_def action_verify_vault_def result_facts
        split: if_splits prod.splits)
  show ?thesis
  proof (cases "j = ai_key acc")
    case True
    from st obtain bs where "serialize E (ActionAccount (a\<lparr>ac_fee_num := n, ac_fee_den := d\<rparr>)) = Some bs"
      and "L' = set_data (ai_key acc) (bs @ drop (length bs) (data_of L acc)) L"
      by (auto simp: store_account_def overwrite_prefix_def result_facts split: if_splits)
    then have "action_at E L' j = Some (a\<lparr>ac_fee_num := n, ac_fee_den := d\<rparr>)"
      using load True assms(1) by (auto simp: action_at_load action_at_Some_iff stored_def quiet_env_def codec_ok_def)
    then show ?thesis using load v upd True by (auto simp: action_at_load)
  qed (use store_account_other [OF st, of j] action_at_cell [of L L' j E] in simp)
qed

lemma flash_fee_steps:
  assumes "quiet_env E"
  shows "try_admin_set_flash_fee_rate E accounts n d L = Inr L' \<Longrightarrow>
      action_step E L accounts j (action_at E L j) (action_at E L' j)"
    and "try_strategist_lower_flash_fee_rate E accounts n d L = Inr L' \<Longrightarrow>
      action_step E L accounts j (action_at E L j) (action_at E L' j)"
proof -
  assume run: "try_admin_set_flash_fee_rate E accounts n d L = Inr L'"
  have "signed_by E L accounts ([Admin], 0, 1)"
    using yieldsD [OF flash_fee_signatures run [unfolded try_admin_set_flash_fee_rate_def]] .
  then show "action_step E L accounts j (action_at E L j) (action_at E L' j)"
    using flash_fee_update [OF assms run [unfolded try_admin_set_flash_fee_rate_def], of j]
    by (auto intro: action_step.intros simp del: One_nat_def)
next
  assume run: "try_strategist_lower_flash_fee_rate E accounts n d L = Inr L'"
  have "signed_by E L accounts ([Strategist], 0, 1)"
    using yieldsD [OF flash_fee_signatures run [unfolded try_strategist_lower_flash_fee_rate_def]] .
  then show "action_step E L accounts j (action_at E L j) (action_at E L' j)"
    using flash_fee_update [OF assms run [unfolded try_strategist_lower_flash_fee_rate_def], of j]
    by (auto intro: action_step.intros simp del: One_nat_def split: if_splits)
qed

lemma instruction_action_step:
  assumes "quiet_env E" and "run_instruction E accounts L i = Inr L'"
  shows "action_step E L accounts j (action_at E L j) (action_at E L' j)"
proof (cases "ActionKind \<in> writes i")
  case True
  then show ?thesis
    using assms authorize_step revoke_step flash_fee_steps by (cases i) auto
next
  case False
  then have "action_at E L' j = action_at E L j"
    using untouched_kinds [OF assms, of "{ActionKind}"] by (simp add: action_at_def)
  then show ?thesis by (simp add: stay)
qed

text \<open>
  C16. Actions move only with a signature: whatever instruction succeeds, the action account under
  any key stays as it is, or is created by the admin of its vault at its derived address, revoked
  by that admin, or changed in its flash-fee rate only, by that admin, or by the strategist to a
  strictly lower rate. The committed hash, scope and operations of a live action never change.
\<close>
theorem actions_move_with_a_signature:
  assumes "quiet_env E" and "run_instruction E accounts L i = Inr L'"
  shows "action_step E L accounts j (action_at E L j) (action_at E L' j)"
  using assms by (rule instruction_action_step)

section \<open>Revocation\<close>

text \<open>Where an instruction names the actions that license its relayed calls.\<close>

fun licence_positions :: "roshi_instruction \<Rightarrow> nat list" where
  "licence_positions (Manage args) = [3]"
| "licence_positions (ManageBatch actions) = map (\<lambda>n. 2 * n + 3) [0..<length actions]"
| "licence_positions (Swap args) = [5]"
| "licence_positions (AtomicRedeemInstruction args) = [8]"
| "licence_positions (DepositAndDeploy args) = [9]"
| "licence_positions _ = []"

lemma manage_step_licence:
  assumes "manage_step E ex va (sub, act) accs args L = Inr L'"
  shows "\<exists>a. load_action E L act = Inr a"
  using assms by (auto simp: manage_step_def validate_manage_accounts_def result_facts)

lemma manage_step_actions:
  assumes "quiet_env E" and "manage_step E ex va p accs args L = Inr L'"
  shows "action_at E L' = action_at E L"
proof -
  have "watched_at E {ActionKind} L' = watched_at E {ActionKind} L"
    using keepsD [OF effects.keeps_manage_step _ assms(2), of "{ActionKind}"] assms(1) by simp
  then show ?thesis by (simp add: action_at_def fun_eq_iff)
qed

lemma batch_licences:
  assumes "quiet_env E" and "manage_batch_loop E ex va accs xs L = Inr L'" and "(args, sub, act) \<in> set xs"
  shows "\<exists>a. load_action E L act = Inr a"
  using assms(2,3)
proof (induction xs arbitrary: L)
  case (Cons x xs)
  obtain m p where x: "x = (m, p)" by (cases x)
  from Cons.prems(1) obtain L1 where step: "manage_step E ex va p accs m L = Inr L1"
    and rest: "manage_batch_loop E ex va accs xs L1 = Inr L'" by (auto simp: x result_facts)
  show ?case
  proof (cases "(args, sub, act) = x")
    case True
    then show ?thesis using manage_step_licence step x by blast
  next
    case False
    then have "\<exists>a. load_action E L1 act = Inr a" using Cons.IH [OF rest] Cons.prems(2) by auto
    then show ?thesis using manage_step_actions [OF assms(1) step] by (simp add: action_at_load)
  qed
qed simp

lemma take_action_accounts_nth:
  "take_action_accounts n it = Inr (pairs, rest) \<Longrightarrow> m < n \<Longrightarrow>
     length pairs = n \<and> 2 * m + 1 < length it \<and> pairs ! m = (it ! (2 * m), it ! (2 * m + 1))"
proof (induction n arbitrary: it pairs m)
  case (Suc n)
  from Suc.prems(1) obtain a b it' ps where it: "it = a # b # it'" and ps: "pairs = (a, b) # ps"
    and tl: "take_action_accounts n it' = Inr (ps, rest)" by (auto simp: result_facts)
  show ?case
  proof (cases m)
    case 0
    have "length ps = n" using tl by (induction n arbitrary: it' ps) (auto simp: result_facts)
    then show ?thesis by (simp add: 0 it ps)
  next
    case (Suc k)
    then show ?thesis using Suc.IH [OF tl, of k] Suc.prems(2) by (simp add: it ps)
  qed
qed simp

lemma drop_second:
  assumes "drop n xs = a # b # ys"
  shows "Suc n < length xs \<and> xs ! Suc n = b"
proof -
  have "length xs - n = Suc (Suc (length ys))" using arg_cong [OF assms, of length] by simp
  moreover have "drop n xs ! 1 = b" using assms by simp
  ultimately show ?thesis by simp
qed

lemma relay_licences:
  "yields (\<lambda>_. 3 < length accounts \<and> (\<exists>a. load_action E L (accounts ! 3) = Inr a)) (try_manage E accounts ma L)"
  "yields (\<lambda>_. 5 < length accounts \<and> (\<exists>a. load_action E L (accounts ! 5) = Inr a)) (try_swap E accounts sw L)"
  "yields (\<lambda>_. 8 < length accounts \<and> (\<exists>a. load_action E L (accounts ! 8) = Inr a)) (try_atomic_redeem E accounts ar L)"
  "yields (\<lambda>_. 9 < length accounts \<and> (\<exists>a. load_action E L (accounts ! 9) = Inr a)) (try_deposit_and_deploy E accounts dd L)"
proof -
  show "yields (\<lambda>_. 3 < length accounts \<and> (\<exists>a. load_action E L (accounts ! 3) = Inr a)) (try_manage E accounts ma L)"
    by (auto simp: yields_def try_manage_def manage_context_load_def result_facts dest!: manage_step_licence)
  have "yields (\<lambda>_. 5 < length accounts \<and> (\<exists>a. load_action E L (accounts ! 5) = Inr a)) (swap_context_load E L accounts sw)"
    unfolding swap_context_load_def Let_def
    by ((rule yields_rules)+, rule yields_const, auto simp: result_facts)
  then show "yields (\<lambda>_. 5 < length accounts \<and> (\<exists>a. load_action E L (accounts ! 5) = Inr a)) (try_swap E accounts sw L)"
    by (auto simp: yields_def try_swap_def result_facts split: if_splits)
  have "yields (\<lambda>_. 8 < length accounts \<and> (\<exists>a. load_action E L (accounts ! 8) = Inr a)) (atomic_redeem_context_load E L accounts ar)"
    unfolding atomic_redeem_context_load_def Let_def
    by ((rule yields_rules)+, rule yields_const, auto simp: result_facts)
  then show "yields (\<lambda>_. 8 < length accounts \<and> (\<exists>a. load_action E L (accounts ! 8) = Inr a)) (try_atomic_redeem E accounts ar L)"
    by (auto simp: yields_def try_atomic_redeem_def result_facts split: if_splits)
  have "yields (\<lambda>_. 9 < length accounts \<and> (\<exists>a. load_action E L (accounts ! 9) = Inr a)) (deposit_and_deploy_context_load E L accounts)"
    unfolding deposit_and_deploy_context_load_def Let_def
    by ((rule yields_rules)+, rule yields_const, auto simp: result_facts get_slice_Some_iff dest!: drop_second)
  then show "yields (\<lambda>_. 9 < length accounts \<and> (\<exists>a. load_action E L (accounts ! 9) = Inr a)) (try_deposit_and_deploy E accounts dd L)"
    by (auto simp: yields_def try_deposit_and_deploy_def result_facts split: if_splits)
qed

lemma batch_positions:
  assumes "quiet_env E" and "try_manage_batch E accounts ms L = Inr L'" and "n < length ms"
  shows "2 * n + 3 < length accounts \<and> (\<exists>a. load_action E L (accounts ! (2 * n + 3)) = Inr a)"
proof -
  from assms(2) obtain ex va it pairs accs where accounts: "accounts = ex # va # it"
    and take: "take_action_accounts (length ms) it = Inr (pairs, accs)"
    and loop: "manage_batch_loop E ex va accs (zip ms pairs) L = Inr L'"
    by (auto simp: try_manage_batch_def result_facts)
  note nth = take_action_accounts_nth [OF take assms(3)]
  then have "(ms ! n, it ! (2 * n), it ! (2 * n + 1)) \<in> set (zip ms pairs)"
    using assms(3) by (auto simp: set_zip)
  from batch_licences [OF assms(1) loop this] nth accounts show ?thesis by (simp add: numeral_3_eq_3)
qed

lemma relays_need_licence:
  assumes "quiet_env E" and "run_instruction E accounts L i = Inr L'" and "p \<in> set (licence_positions i)"
  shows "p < length accounts \<and> (\<exists>a. action_at E L (ai_key (accounts ! p)) = Some a)"
  unfolding action_at_load [symmetric]
  using assms(2,3) batch_positions [OF assms(1)] relay_licences [THEN yieldsD] by (cases i) auto

text \<open>A step of the ledger in which no action is authorized.\<close>

inductive ungranting_step :: "env \<Rightarrow> ledger \<Rightarrow> ledger \<Rightarrow> bool" for E where
  own_ungranting: "agrees E F \<Longrightarrow> quiet_env F \<Longrightarrow> (\<And>args. i \<noteq> AuthorizeAction args) \<Longrightarrow>
     run_instruction F accounts L i = Inr L' \<Longrightarrow> ungranting_step E L L'"
| foreign_ungranting: "(\<And>k. c_owner (L k) = ID \<Longrightarrow> same_cell L L' k) \<Longrightarrow> hands_blank L L' \<Longrightarrow> ungranting_step E L L'"

lemma agrees_action_at: "agrees E F \<Longrightarrow> action_at F L j = action_at E L j"
  by (simp add: action_at_def watched_at_def agrees_def)

lemma no_grant_no_action:
  assumes "quiet_env E" and "run_instruction E accounts L i = Inr L'" and "\<And>args. i \<noteq> AuthorizeAction args"
    and "action_at E L j = None"
  shows "action_at E L' j = None"
proof (cases "ActionKind \<in> writes i")
  case True
  then consider (revoke) h where "i = RevokeAction h" | (fee) r upd where "update_action_flash_fee E accounts r upd L = Inr L'"
    using assms(2,3) by (cases i) (auto simp: try_admin_set_flash_fee_rate_def try_strategist_lower_flash_fee_rate_def)
  then show ?thesis
  proof cases
    case revoke
    then show ?thesis using assms(2,4) revoke_effect [of E accounts h L L' j] by auto
  next
    case fee
    then show ?thesis using flash_fee_update [OF assms(1) fee, of j] assms(4) by auto
  qed
next
  case False
  then show ?thesis using untouched_kinds [OF assms(1,2), of "{ActionKind}"] assms(4) by (simp add: action_at_def)
qed

lemma ungranting_steps:
  assumes "quiet_env E" and "(ungranting_step E)\<^sup>*\<^sup>* L L'" and "action_at E L j = None"
  shows "action_at E L' j = None"
  using assms(2,3)
proof (induction rule: rtranclp_induct)
  case (step M M')
  have none: "action_at E M j = None" using step.IH step.prems .
  from step.hyps(2) show ?case
  proof cases
    case (own_ungranting F i accounts)
    then show ?thesis using no_grant_no_action [OF own_ungranting(2,4,3)] none agrees_action_at [OF own_ungranting(1)] by metis
  next
    case foreign_ungranting
    then have "watched_at E {ActionKind} M' = watched_at E {ActionKind} M"
      using assms(1) by (intro blank_watched) (auto simp: quiet_env_def)
    then show ?thesis using none by (simp add: action_at_def)
  qed
qed

text \<open>
  C15. Revocation is final until the admin grants anew: after a successful revocation, whatever
  instructions other than authorizations run and whatever other programs do, no managed call,
  batch, swap, atomic redemption or deploying deposit that names the revoked account as its
  action succeeds.
\<close>
theorem revoked_action_is_dead:
  assumes "quiet_env E" and "run_instruction E accounts L (RevokeAction h) = Inr L1"
    and "(ungranting_step E)\<^sup>*\<^sup>* L1 L2"
    and "p \<in> set (licence_positions i)" and "p < length handles" and "ai_key (handles ! p) = ai_key (accounts ! 2)"
    and "agrees E F" and "quiet_env F"
  shows "\<exists>e. run_instruction F handles L2 i = Inl e"
proof -
  have "action_at E L1 (ai_key (accounts ! 2)) = None"
  proof -
    from assms(2) obtain admin where "close_account (accounts ! 2) admin L = Inr L1"
      by (auto simp: try_revoke_action_def revoke_action_context_load_def result_facts split: if_splits)
    from close_account_closed(1) [OF this] show ?thesis by (simp add: action_at_def watched_at_def)
  qed
  from ungranting_steps [OF assms(1,3) this] have "action_at F L2 (ai_key (handles ! p)) = None"
    using assms(6) agrees_action_at [OF assms(7)] by simp
  then have "run_instruction F handles L2 i \<noteq> Inr L3" for L3
    using relays_need_licence [OF assms(8) _ assms(4)] by fastforce
  then show ?thesis by (cases "run_instruction F handles L2 i") auto
qed

text \<open>A vault with one action, which its admin revokes.\<close>

definition licensed_action :: action where
  "licensed_action = \<lparr>ac_vault = 20, ac_action_hash = 77, ac_ops = example_ops, ac_fee_num = 0, ac_fee_den = 1,
     ac_scope = Manager, ac_amount_offset = 0, ac_bump = 252\<rparr>"

definition licensed_ledger :: ledger where
  "licensed_ledger = example_ledger(
     24 := (example_ledger 24)\<lparr>c_owner := ID, c_data := account_bytes (ActionAccount licensed_action)\<rparr>)"

definition revoke_accounts :: "account_info list" where
  "revoke_accounts = [handle 1 True True, handle 20 False False, handle 24 False True]"

lemma licensed_load:
  "load_checked example_env licensed_ledger (handle 20 s w) = Inr example_vault"
  "load_action example_env licensed_ledger (handle 24 s w) = Inr licensed_action"
proof -
  have "same_cell example_ledger licensed_ledger 20" by (simp add: same_cell_def licensed_ledger_def)
  then show "load_checked example_env licensed_ledger (handle 20 s w) = Inr example_vault"
    using same_cell_load(1) [of example_ledger licensed_ledger "handle 20 s w" example_env] example_load by simp
  have "wf_account (ActionAccount licensed_action)"
    by (simp add: licensed_action_def example_ops_def ops_empty_def wf_ops_def)
  with wire_round_trip [of "ActionAccount licensed_action" _ "[]"]
  show "load_action example_env licensed_ledger (handle 24 s w) = Inr licensed_action"
    by (simp add: action_at_load action_at_Some_iff stored_def licensed_ledger_def example_env_def wire_serialize_def)
qed

lemma licensed_revoke_run:
  "\<exists>L'. run_instruction example_env revoke_accounts licensed_ledger (RevokeAction 77) = Inr L'"
proof -
  have "fst (action_find_address (find_program_address example_env) 20 77) = 24"
    by (simp add: action_find_address_def example_env_def example_address_def ACTION_SEED_def VAULT_SEED_def
        TICKET_SEED_def SUB_ACCOUNT_SEED_def ascii_def ID_def ASSOCIATED_TOKEN_PROGRAM_ID_def)
  moreover have "ac_vault licensed_action = 20" "v_admin example_vault = 1"
    by (simp_all add: licensed_action_def example_vault_def)
  moreover have "\<exists>L'. close_account (handle 24 False True) (handle 1 True True) licensed_ledger = Inr L'"
    by (simp add: close_account_def licensed_ledger_def example_ledger_def checked_add_def)
  ultimately show ?thesis
    using licensed_load
    by (simp add: try_revoke_action_def revoke_action_context_load_def revoke_accounts_def next_account_def
        require_writable_signer_def require_writable_def vault_role_context_load_def verify_role_def has_role_def
        action_verify_vault_def)
qed

theorem actions_move_with_a_signature_witness:
  "\<exists>L'. run_instruction example_env revoke_accounts licensed_ledger (RevokeAction 77) = Inr L' \<and>
     action_step example_env licensed_ledger revoke_accounts 24 (Some licensed_action) (action_at example_env L' 24)"
proof -
  obtain L' where run: "run_instruction example_env revoke_accounts licensed_ledger (RevokeAction 77) = Inr L'"
    using licensed_revoke_run by blast
  moreover have "action_at example_env licensed_ledger 24 = Some licensed_action"
    using licensed_load(2) by (simp add: action_at_load)
  ultimately show ?thesis using actions_move_with_a_signature [OF example_quiet(1) run, of 24] by metis
qed

theorem revoked_action_is_dead_witness:
  "\<exists>L'. run_instruction example_env revoke_accounts licensed_ledger (RevokeAction 77) = Inr L' \<and>
     (\<exists>e. run_instruction example_env [handle 2 True False, handle 20 False False, handle 23 False False, handle 24 False False]
        L' (Manage \<lparr>ma_sub_account = 0, ma_accounts_start = 0,
           ma_account_flags = \<lparr>accounts_len = 0, packed_bits = []\<rparr>, ma_ix_data = []\<rparr>) = Inl e)"
proof -
  let ?m = "Manage \<lparr>ma_sub_account = 0, ma_accounts_start = 0,
     ma_account_flags = \<lparr>accounts_len = 0, packed_bits = []\<rparr>, ma_ix_data = []\<rparr>"
  obtain L' where run: "run_instruction example_env revoke_accounts licensed_ledger (RevokeAction 77) = Inr L'"
    using licensed_revoke_run by blast
  have "\<exists>e. run_instruction example_env
      [handle 2 True False, handle 20 False False, handle 23 False False, handle 24 False False] L' ?m = Inl e"
    by (rule revoked_action_is_dead [OF example_quiet(1) run rtranclp.rtrancl_refl, of 3])
      (simp_all add: revoke_accounts_def agrees_def example_quiet)
  with run show ?thesis by blast
qed

end
