(* ===== verification/Account_Addresses.thy ===== *)
theory Account_Addresses
  imports Account_Effects
begin

text \<open>
  Where the program keeps its accounts: every action, ticket, asset, destination and configuration
  lies at the address, with the bump, that is derived from its own contents. The handlers rely on
  it: they derive the address from some of the contents and take the rest of the record as given.
\<close>

section \<open>Home addresses\<close>

text \<open>The address of a vault is checked on every load.\<close>

primrec at_home :: "pda_function \<Rightarrow> key \<Rightarrow> account \<Rightarrow> bool" where
  "at_home pda j (VaultAccount v) = True"
| "at_home pda j (ActionAccount a) = (action_find_address pda (ac_vault a) (ac_action_hash a) = (j, ac_bump a))"
| "at_home pda j (WithdrawalTicketAccount t) =
     (ticket_find_address pda (wt_vault t) (wt_owner t) (wt_ticket_index t) = (j, wt_bump t))"
| "at_home pda j (AssetAccount s) = (asset_find_address pda (as_vault s) (as_asset_mint s) = (j, as_bump s))"
| "at_home pda j (ExternalDestinationAccount d) =
     (external_destination_find_address pda (ed_vault d) (ed_token_account d) = (j, ed_bump d))"
| "at_home pda j (ProgramConfigAccount c) = (fst (program_config_find_address pda) = j)"

definition typed_ledger :: "env \<Rightarrow> ledger \<Rightarrow> bool" where
  "typed_ledger E L \<longleftrightarrow> (\<forall>j acc. stored E L j acc \<longrightarrow> at_home (find_program_address E) j acc)"

lemma typed_ledgerD: "typed_ledger E L \<Longrightarrow> stored E L j acc \<Longrightarrow> at_home (find_program_address E) j acc"
  by (simp add: typed_ledger_def)

text \<open>What creation, update and closing of one account add to the stored accounts, vaults apart.\<close>

definition adds :: "env \<Rightarrow> ledger \<Rightarrow> ledger \<Rightarrow> key \<Rightarrow> account \<Rightarrow> bool" where
  "adds E L L' k new \<longleftrightarrow> (\<forall>j acc. stored E L' j acc \<longrightarrow> kind_of acc = VaultKind \<or> stored E L j acc \<or> j = k \<and> acc = new)"

lemma adds_typed:
  assumes "typed_ledger E L" and "adds E L L' k new" and "at_home (find_program_address E) k new"
  shows "typed_ledger E L'"
proof -
  have vault: "kind_of acc = VaultKind \<Longrightarrow> at_home pda j acc" for pda j acc by (cases acc) simp_all
  show ?thesis using assms vault unfolding typed_ledger_def adds_def by metis
qed

lemma store_adds:
  assumes "codec_ok E" and "store_account E acc a L = Inr L'"
  shows "adds E L L' (ai_key a) acc"
  using assms
  by (auto simp: adds_def stored_def store_account_def codec_ok_def overwrite_prefix_def result_facts split: if_splits)

lemma creation_adds:
  assumes "quiet_env E" and "create_pda_account E payer a sys n p seeds L = Inr L1"
    and "serialize E acc = Some bs" and "copy_serialized bs a L1 = Inr L'"
  shows "adds E L L' (ai_key a) acc"
proof -
  have old: "watched_at E (UNIV - {VaultKind}) L1 = watched_at E (UNIV - {VaultKind}) L"
    using keepsD [OF effects.keeps_create_pda_account _ assms(2), of UNIV] assms(1) by simp
  have "stored E L j acc'" if "stored E L1 j acc'" "kind_of acc' \<noteq> VaultKind" for j acc'
  proof -
    have "watched_at E (UNIV - {VaultKind}) L1 j = Some acc'" using that by (simp add: watched_at_Some_iff)
    then show ?thesis unfolding old by (simp add: watched_at_Some_iff)
  qed
  moreover have "stored E L1 j acc' \<or> j = ai_key a \<and> acc' = acc" if "stored E L' j acc'" for j acc'
    using that assms(1,3,4)
    by (auto simp: stored_def copy_serialized_def quiet_env_def codec_ok_def overwrite_prefix_def split: if_splits)
  ultimately show ?thesis unfolding adds_def by blast
qed

lemma close_adds:
  assumes "close_account a r L = Inr L'"
  shows "typed_ledger E L \<Longrightarrow> typed_ledger E L'"
proof -
  have "stored E L j acc" if "stored E L' j acc" for j acc
    using that close_account_closed(1) [OF assms] close_account_other [OF assms, of j]
    by (cases "j = ai_key a") (auto simp: stored_def same_cell_def)
  then show "typed_ledger E L \<Longrightarrow> typed_ledger E L'" by (simp add: typed_ledger_def)
qed

section \<open>Instructions\<close>

lemma config_typed:
  assumes "quiet_env E" and "typed_ledger E L"
  shows "try_initialize_program E accounts ip L = Inr L' \<Longrightarrow> typed_ledger E L'"
    and "try_transfer_program_authority E accounts k L = Inr L' \<Longrightarrow> typed_ledger E L'"
proof -
  assume "try_initialize_program E accounts ip L = Inr L'"
  then obtain ctx L1 bs where ctx: "initialize_program_context_load E L accounts = Inr ctx"
    and pda: "create_config_account E ctx L = Inr L1"
    and st: "serialize E (ProgramConfigAccount (program_config_new (ipa_authority ip))) = Some bs"
      "copy_serialized bs (ip_program_config ctx) L1 = Inr L'"
    by (auto simp: try_initialize_program_def store_config_def result_facts)
  have "yields (\<lambda>c. fst (program_config_find_address (find_program_address E)) = ai_key (ip_program_config c))
      (initialize_program_context_load E L accounts)"
    unfolding initialize_program_context_load_def program_config_verify_address_def Let_def
    by ((rule yields_rules)+, rule yields_Inr, auto simp: result_facts split: if_splits prod.splits)
  from yieldsD [OF this ctx] show "typed_ledger E L'"
    using adds_typed [OF assms(2) creation_adds [OF assms(1) pda [unfolded create_config_account_def] st]] by simp
next
  assume "try_transfer_program_authority E accounts k L = Inr L'"
  then obtain a c where "fst (program_config_find_address (find_program_address E)) = ai_key a"
    and "store_account E (ProgramConfigAccount c) a L = Inr L'"
    by (auto simp: try_transfer_program_authority_def writable_program_config_authority_context_load_def
        program_config_authority_context_load_def program_config_verify_address_def result_facts split: if_splits prod.splits)
  then show "typed_ledger E L'"
    using adds_typed [OF assms(2) store_adds] assms(1) by (simp add: quiet_env_def)
qed

lemma new_account_typed:
  assumes "quiet_env E" and "typed_ledger E L" and "create_pda_account E payer a sys n p seeds L = Inr L1"
    and "store_new_account E acc space a L1 = Inr L'" and "at_home (find_program_address E) (ai_key a) acc"
  shows "typed_ledger E L'"
proof -
  from assms(4) obtain bs where "serialize E acc = Some bs" "copy_serialized bs a L1 = Inr L'"
    by (auto simp: store_new_account_def result_facts split: if_splits)
  from adds_typed [OF assms(2) creation_adds [OF assms(1,3) this] assms(5)] show ?thesis .
qed

lemma action_typed:
  assumes "quiet_env E" and "typed_ledger E L"
  shows "try_authorize_action E accounts aa L = Inr L' \<Longrightarrow> typed_ledger E L'"
    and "try_revoke_action E accounts h L = Inr L' \<Longrightarrow> typed_ledger E L'"
    and "update_action_flash_fee E accounts r upd L = Inr L' \<Longrightarrow> typed_ledger E L'"
proof -
  assume "try_authorize_action E accounts aa L = Inr L'"
  then obtain ctx where ctx: "authorize_action_context_load E L accounts (aaa_action_hash aa) = Inr ctx"
    and "action_create_and_store E ctx aa L = Inr L'"
    by (auto simp: try_authorize_action_def result_facts)
  moreover have "yields (\<lambda>c. action_find_address (find_program_address E) (aa_vault_key c) h = (ai_key (aa_action c), aa_action_bump c))
      (authorize_action_context_load E L accounts h)" for h
    unfolding authorize_action_context_load_def Let_def by ((rule yields_rules)+, rule yields_Inr, simp)
  note yieldsD [OF this ctx]
  ultimately show "typed_ledger E L'"
    unfolding action_create_and_store_def
    by (auto simp: result_facts elim!: new_account_typed [OF assms] split: if_splits)
next
  assume "try_revoke_action E accounts h L = Inr L'"
  then show "typed_ledger E L'"
    using close_adds assms(2) by (auto simp: try_revoke_action_def result_facts)
next
  assume "update_action_flash_fee E accounts r upd L = Inr L'"
  then obtain acc a n d where load: "load_action E L acc = Inr a"
    and st: "store_account E (ActionAccount (a\<lparr>ac_fee_num := n, ac_fee_den := d\<rparr>)) acc L = Inr L'"
    by (auto simp: update_action_flash_fee_def result_facts split: prod.splits)
  have "stored E L (ai_key acc) (ActionAccount a)" using load by (simp add: action_at_load action_at_Some_iff)
  from typed_ledgerD [OF assms(2) this] show "typed_ledger E L'" using adds_typed [OF assms(2) store_adds [OF _ st]] assms(1) by (simp add: quiet_env_def)
qed

lemma asset_typed:
  assumes "quiet_env E" and "typed_ledger E L"
  shows "try_initialize_asset E accounts ia L = Inr L' \<Longrightarrow> typed_ledger E L'"
    and "try_update_asset E accounts ua L = Inr L' \<Longrightarrow> typed_ledger E L'"
proof -
  assume "try_initialize_asset E accounts ia L = Inr L'"
  then obtain ctx s L1 where ctx: "initialize_asset_context_load E L accounts ia = Inr ctx"
    and new: "asset_new (ia_vault_key ctx) (iaa_asset_mint ia) (iaa_oracle ia) (iaa_asset_decimals ia)
        (iaa_enabled ia) (iaa_routed ia) (iaa_deposit_cap_atoms ia) (ia_asset_bump ctx) = Inr s"
    and pda: "create_pda_account E (ia_admin ctx) (ia_asset ctx) (ia_system_program_acc ctx) ASSET_SPACE ID
        [ASSET_SEED, key_bytes (ia_vault_key ctx), key_bytes (ia_asset_mint ctx), [ia_asset_bump ctx]] L = Inr L1"
    and st: "store_new_account E (AssetAccount s) ASSET_SPACE (ia_asset ctx) L1 = Inr L'"
    by (auto simp: try_initialize_asset_def result_facts)
  from new have s: "as_vault s = ia_vault_key ctx" "as_asset_mint s = iaa_asset_mint ia" "as_bump s = ia_asset_bump ctx"
    by (auto simp: asset_new_def result_facts)
  have "yields (\<lambda>c. asset_find_address (find_program_address E) (ia_vault_key c) (iaa_asset_mint ia) =
      (ai_key (ia_asset c), ia_asset_bump c)) (initialize_asset_context_load E L accounts ia)"
    unfolding initialize_asset_context_load_def Let_def by ((rule yields_rules)+, rule yields_Inr, simp)
  from yieldsD [OF this ctx] s show "typed_ledger E L'" by (intro new_account_typed [OF assms pda st]) simp
next
  assume run: "try_update_asset E accounts ua L = Inr L'"
  have "yields (\<lambda>L'. \<exists>acc s s'. load_asset E L acc = Inr s \<and> upd s = Inr s' \<and> store_account E (AssetAccount s') acc L = Inr L')
      (update_writable_asset_as_admin E accounts upd L)" for upd
    unfolding update_writable_asset_as_admin_def Let_def by ((rule yields_rules)+, auto simp: yields_def)
  from yieldsD [OF this run [unfolded try_update_asset_def]] obtain acc s where load: "load_asset E L acc = Inr s"
    and st: "store_account E (AssetAccount ((asset_set_routed (uaa_routed ua) (asset_set_enabled (uaa_enabled ua)
        (s\<lparr>as_oracle := uaa_oracle ua\<rparr>)))\<lparr>as_deposit_cap_atoms := uaa_deposit_cap_atoms ua\<rparr>)) acc L = Inr L'"
    by blast
  have "stored E L (ai_key acc) (AssetAccount s)"
    using typed_loads(3) [OF load] by (auto simp: stored_def account_load_def result_facts split: if_splits)
  from typed_ledgerD [OF assms(2) this] show "typed_ledger E L'"
    using adds_typed [OF assms(2) store_adds [OF _ st]] assms(1)
    by (simp add: quiet_env_def asset_set_routed_def asset_set_enabled_def)
qed

lemma destination_typed:
  assumes "quiet_env E" and "typed_ledger E L"
  shows "try_register_external_destination E accounts L = Inr L' \<Longrightarrow> typed_ledger E L'"
    and "try_revoke_external_destination E accounts L = Inr L' \<Longrightarrow> typed_ledger E L'"
proof -
  assume "try_register_external_destination E accounts L = Inr L'"
  then obtain ctx L1 where ctx: "register_external_destination_context_load E L accounts = Inr ctx"
    and pda: "create_pda_account E (re_admin ctx) (re_external_destination ctx) (re_system_program_acc ctx)
        EXTERNAL_DESTINATION_SPACE ID
        [EXTERNAL_DESTINATION_SEED, key_bytes (re_vault_key ctx), key_bytes (re_token_account ctx), [re_bump ctx]] L = Inr L1"
    and st: "store_new_account E (ExternalDestinationAccount (external_destination_new (re_vault_key ctx)
        (re_token_account ctx) (re_bump ctx))) EXTERNAL_DESTINATION_SPACE (re_external_destination ctx) L1 = Inr L'"
    by (auto simp: try_register_external_destination_def result_facts Let_def)
  have "yields (\<lambda>c. external_destination_find_address (find_program_address E) (re_vault_key c) (re_token_account c) =
      (ai_key (re_external_destination c), re_bump c)) (register_external_destination_context_load E L accounts)"
    unfolding register_external_destination_context_load_def Let_def by ((rule yields_rules)+, rule yields_Inr, simp)
  from yieldsD [OF this ctx] show "typed_ledger E L'"
    by (intro new_account_typed [OF assms pda st]) (simp add: external_destination_new_def)
next
  assume run: "try_revoke_external_destination E accounts L = Inr L'"
  have "yields (\<lambda>L'. \<exists>a r. close_account a r L = Inr L') (close_external_destination_as_admin E accounts L)"
    unfolding close_external_destination_as_admin_def Let_def by ((rule yields_rules)+, auto simp: yields_def)
  from yieldsD [OF this run [unfolded try_revoke_external_destination_def]] show "typed_ledger E L'"
    using close_adds assms(2) by blast
qed

lemma instruction_typed:
  assumes "quiet_env E" and "system_ok E" and "typed_ledger E L" and "finite (dom (ticket_at E L))"
    and run: "run_instruction E accounts L i = Inr L'"
  shows "typed_ledger E L'"
proof -
  consider (tickets) "writes i = {TicketKind}" | (none) "writes i = {}" | (other) "writes i \<noteq> {}" "TicketKind \<notin> writes i"
    by (cases i) auto
  then show ?thesis
  proof cases
    case tickets
    then have "\<exists>a v w. queue_move E a L L' v w"
      using run redeem_moves [OF assms(1,2) _ assms(4)] cancel_moves [OF assms(1) _ assms(4)]
        process_moves [OF assms(1) _ assms(4)] by (cases i) auto
    then have new: "ticket_at E L j = Some t \<or> at_home (find_program_address E) j (WithdrawalTicketAccount t)"
      if "ticket_at E L' j = Some t" for j t using that unfolding queue_move_def by auto
    have rest: "watched_at E (- {TicketKind, VaultKind}) L' = watched_at E (- {TicketKind, VaultKind}) L"
      by (rule untouched_kinds [OF assms(1) run]) (use tickets in auto)
    show ?thesis unfolding typed_ledger_def
    proof (intro allI impI)
      fix j acc
      assume st: "stored E L' j acc"
      show "at_home (find_program_address E) j acc"
      proof (cases "kind_of acc \<in> {TicketKind, VaultKind}")
        case True
        then consider (ticket) t where "acc = WithdrawalTicketAccount t" | (vault) v where "acc = VaultAccount v"
          by (cases acc) auto
        then show ?thesis
        proof cases
          case ticket
          then show ?thesis using st new [of j t] typed_ledgerD [OF assms(3), of j acc]
            by (auto simp: stored_def ticket_at_Some_iff)
        qed simp
      next
        case False
        then have "watched_at E (- {TicketKind, VaultKind}) L' j = Some acc" using st by (simp add: watched_at_Some_iff)
        then have "stored E L j acc" unfolding rest by (simp add: watched_at_Some_iff)
        then show ?thesis by (rule typed_ledgerD [OF assms(3)])
      qed
    qed
  next
    case none
    have rest: "watched_at E (- {VaultKind}) L' = watched_at E (- {VaultKind}) L"
      by (rule untouched_kinds [OF assms(1) run]) (use none in auto)
    have "at_home (find_program_address E) j acc" if "stored E L' j acc" for j acc
    proof (cases "kind_of acc = VaultKind")
      case True
      then show ?thesis by (cases acc) simp_all
    next
      case False
      then have "watched_at E (- {VaultKind}) L' j = Some acc" using that by (simp add: watched_at_Some_iff)
      then have "stored E L j acc" unfolding rest by (simp add: watched_at_Some_iff)
      then show ?thesis by (rule typed_ledgerD [OF assms(3)])
    qed
    then show ?thesis by (simp add: typed_ledger_def)
  next
    case other
    then show ?thesis
      using run config_typed [OF assms(1,3)] action_typed [OF assms(1,3)] asset_typed [OF assms(1,3)]
        destination_typed [OF assms(1,3)]
      by (cases i) (auto simp: try_admin_set_flash_fee_rate_def try_strategist_lower_flash_fee_rate_def)
  qed
qed

section \<open>Whole executions\<close>

lemma ticket_at_watched: "ticket_at E L j = Some t \<longleftrightarrow> watched_at E {TicketKind} L j = Some (WithdrawalTicketAccount t)"
  by (simp add: watched_at_Some_iff ticket_at_Some_iff stored_def)

lemma dom_ticket_at: "dom (ticket_at E L) = dom (watched_at E {TicketKind} L)"
proof -
  have "kind_of acc = TicketKind \<Longrightarrow> \<exists>t. acc = WithdrawalTicketAccount t" for acc by (cases acc) simp_all
  then show ?thesis
    by (auto simp: dom_def ticket_at_watched watched_at_Some_iff)
qed

lemma instruction_finite_tickets:
  assumes "quiet_env E" and "system_ok E" and "run_instruction E accounts L i = Inr L'" and fin: "finite (dom (ticket_at E L))"
  shows "finite (dom (ticket_at E L'))"
proof (cases "TicketKind \<in> writes i")
  case True
  then have "\<exists>a v w. queue_move E a L L' v w"
    using assms(3) redeem_moves [OF assms(1,2) _ fin] cancel_moves [OF assms(1) _ fin] process_moves [OF assms(1) _ fin]
    by (cases i) auto
  then show ?thesis by (auto simp: queue_move_def)
next
  case False
  then show ?thesis using untouched_kinds [OF assms(1,3), of "{TicketKind}"] fin by (simp add: dom_ticket_at)
qed

lemma agrees_typed:
  assumes "agrees E F"
  shows "typed_ledger F L \<longleftrightarrow> typed_ledger E L" and "ticket_at F L = ticket_at E L"
proof -
  have "find_program_address F = find_program_address E" "deserialize F = deserialize E"
    using assms by (simp_all add: agrees_def)
  then show "typed_ledger F L \<longleftrightarrow> typed_ledger E L" "ticket_at F L = ticket_at E L"
    by (simp_all add: typed_ledger_def stored_def ticket_at_def [abs_def] cong: if_cong)
qed

lemma quiet_step_typed:
  assumes "quiet_env E" and "quiet_step E W L L'" and "typed_ledger E L" and "finite (dom (ticket_at E L))"
  shows "typed_ledger E L' \<and> finite (dom (ticket_at E L'))"
  using assms(2)
proof cases
  case (own_step F program_id accounts data)
  note agree = agrees_typed [OF own_step(1)]
  from own_step obtain i where run: "run_instruction F accounts L i = Inr L'"
    by (auto simp: try_process_instruction_def result_facts split: if_splits)
  show ?thesis
    using instruction_typed [OF own_step(2,3) _ _ run] instruction_finite_tickets [OF own_step(2,3) run] assms(3,4) agree
    by simp
next
  case foreign_step
  then have same: "watched_at E K L' = watched_at E K L" for K
    using assms(1) by (intro blank_watched) (auto simp: quiet_env_def)
  have "stored E L j acc" if "stored E L' j acc" for j acc
    using that unfolding watched_at_Some_iff [of E UNIV _ j acc, simplified, symmetric] same .
  then show ?thesis using assms(3,4) same by (auto simp: typed_ledger_def dom_ticket_at)
qed

lemma quiet_steps_typed:
  assumes "quiet_env E" and "(quiet_step E W)\<^sup>*\<^sup>* L L'" and "typed_ledger E L" and "finite (dom (ticket_at E L))"
  shows "typed_ledger E L'"
proof -
  have "typed_ledger E L' \<and> finite (dom (ticket_at E L'))"
    using assms(2-4) by (induction rule: rtranclp_induct) (auto dest: quiet_step_typed [OF assms(1)])
  then show ?thesis ..
qed

text \<open>
  C12. Accounts stay at home: along every execution in which the program does not call itself,
  every action, ticket, asset, destination and configuration the program stores lies at the
  address, with the bump, that is derived from its own contents.
\<close>
theorem accounts_stay_at_home:
  assumes "quiet_env E" and "(quiet_step E W)\<^sup>*\<^sup>* L L'" and "typed_ledger E L" and "finite (dom (ticket_at E L))"
    and "stored E L' j acc"
  shows "at_home (find_program_address E) j acc"
  using typed_ledgerD [OF quiet_steps_typed [OF assms(1-4)] assms(5)] .

lemma queued_stored:
  assumes "stored example_env queued_ledger j acc"
  shows "acc = VaultAccount queued_vault \<or> j = 22 \<and> acc = WithdrawalTicketAccount queued_ticket"
proof -
  have "j = 20 \<or> j = 22" using assms by (auto simp: stored_def ticket_ledger_def example_ledger_def split: if_splits)
  then show ?thesis
    using assms queued_load [of queued_ticket False False] by (auto simp: stored_def load_checked_Inr_iff load_ticket_Inr_iff)
qed

lemma queued_typed: "typed_ledger example_env queued_ledger" "finite (dom (ticket_at example_env queued_ledger))"
proof -
  have "at_home (find_program_address example_env) 22 (WithdrawalTicketAccount queued_ticket)" by (simp add: ticket_home)
  then show "typed_ledger example_env queued_ledger"
    using queued_stored unfolding typed_ledger_def by (metis at_home.simps(1))
  show "finite (dom (ticket_at example_env queued_ledger))" by (simp add: queued_tickets)
qed

theorem accounts_stay_at_home_witness:
  "\<exists>L'. try_process_instruction example_env queue_codec ID cancel_accounts (9 # to_le_bytes (300000 :: u64)) queued_ledger = Inr L' \<and>
     typed_ledger example_env L'"
proof -
  obtain L' where run: "try_process_instruction example_env queue_codec ID cancel_accounts
      (9 # to_le_bytes (300000 :: u64)) queued_ledger = Inr L'" "(quiet_step example_env queue_codec)\<^sup>*\<^sup>* queued_ledger L'"
    using queued_execution by blast
  from accounts_stay_at_home [OF example_quiet(1) run(2) queued_typed] run(1) show ?thesis
    by (auto simp: typed_ledger_def)
qed

end
