(* ===== verification/Queue_Liveness.thy ===== *)
theory Queue_Liveness
  imports Account_Addresses
begin

text \<open>
  No request is stuck in the withdrawal queue. A batch of eligible tickets can always be priced,
  whatever its order: settling it fails only where a token transfer, a lamport credit or the final
  write does. And an owner whose delay has passed, and whose ticket is not eligible or has outlived
  the grace period, can always take the shares back. Both rest on the queue being backed by its
  tickets, the second also on tickets lying at the addresses derived from their contents.
\<close>

section \<open>Pricing a batch\<close>

text \<open>What a vault needs so that any ticket it counts can be struck, whatever was struck before.\<close>

definition can_strike :: "vault \<Rightarrow> u64 \<Rightarrow> bool" where
  "can_strike v n \<longleftrightarrow> vault_validate_state v = Inr () \<and> 0 \<le> sint (v_profit_unlock_start_ts v) \<and>
     unat n + unat (v_requested_withdrawal_shares v) < 2 ^ 64 \<and>
     unat (v_total_assets v) + unat (v_pending_withdrawal_assets v) < 2 ^ 64"

definition eligible :: "vault \<Rightarrow> withdrawal_ticket \<Rightarrow> bool" where
  "eligible v t \<longleftrightarrow> wt_assets_owed t \<noteq> 0 \<or> wt_request_epoch t < v_report_epoch v"

lemma next_epoch:
  assumes "e < (n :: u64)"
  shows "\<exists>k. checked_add e 1 = Some k \<and> k \<le> n"
proof -
  have "unat e + 1 < 2 ^ 64" using assms unat_lt_len [of n] by (simp add: word_less_nat_alt)
  then obtain k where k: "checked_add e 1 = Some k" by (cases "checked_add e 1") (simp_all add: checked_add_None_iff)
  then show ?thesis using assms by (auto simp: checked_add_Some_iff word_le_nat_alt word_less_nat_alt)
qed

lemma debit_total:
  assumes "0 \<le> sint (v_profit_unlock_start_ts v)" and "effective_total_assets v now = Inr A" and "a \<le> A"
  shows "\<exists>v'. debit_assets_at_effective v a now = Inr v'"
proof -
  obtain r where r: "remaining_locked_profit v now = Inr r" "unat r = locked_at v now"
    using remaining_locked_profit_total [OF assms(1)] by blast
  have le: "unat r + unat a \<le> unat (v_total_assets v)"
    using effective_plus_locked [OF assms(2)] assms(3) r(2) by (simp add: word_le_nat_alt)
  then have "unat (v_total_assets v) = unat a + unat (v_total_assets v - a)"
    by (simp add: unat_sub word_le_nat_alt)
  with r(1) le show ?thesis by (auto simp: debit_Inr_iff)
qed

lemma strike_ticket_total:
  assumes "can_strike v n" and "wt_shares_burned t \<le> v_requested_withdrawal_shares v"
    and "wt_request_epoch t < v_report_epoch v"
  shows "\<exists>v' t'. strike_ticket v n t now = Inr (v', t')"
proof -
  let ?b = "wt_shares_burned t" and ?r = "v_requested_withdrawal_shares v"
  have v: "v_locked_profit v \<le> v_total_assets v" "unat (v_base_decimals v) \<le> 9"
    "0 \<le> sint (v_profit_unlock_start_ts v)"
    using assms(1) by (auto simp: can_strike_def vault_validate_state_Inr_iff validate_config_Inr_iff)
  obtain k where k: "checked_add (wt_request_epoch t) 1 = Some k" "k \<le> v_report_epoch v"
    using next_epoch [OF assms(3)] by blast
  have S: "economic_share_supply v n = Inr (n + ?r)" and Sr: "unat (n + ?r) = unat n + unat ?r"
    using assms(1) by (simp_all add: can_strike_def economic_share_supply_def checked_add_def unat_word_ariths)
  obtain A where A: "effective_total_assets v now = Inr A" using effective_total_assets_total [OF v(1,3)] by blast
  have "?b \<le> n + ?r" using assms(2) Sr by (simp add: word_le_nat_alt)
  from assets_for_shares_total [OF this v(2)] obtain a where a: "assets_for_shares ?b A (n + ?r) (v_base_decimals v) = Inr a"
    by blast
  then have aA: "a \<le> A" using assets_for_shares_le_total by (simp add: word_le_nat_alt)
  let ?w = "v\<lparr>v_requested_withdrawal_shares := ?r - ?b\<rparr>"
  obtain v1 where v1: "debit_assets_at_effective ?w a now = Inr v1"
    using debit_total [of ?w now A a] v(3) A aA by auto
  have "v_pending_withdrawal_assets v1 = v_pending_withdrawal_assets v" by (subst debit_fields(6) [OF v1]) simp
  moreover have "unat a \<le> unat (v_total_assets v)"
    using aA effective_plus_locked [OF A] by (simp add: word_le_nat_alt)
  ultimately have "unat (v_pending_withdrawal_assets v1) + unat a < 2 ^ 64"
    using assms(1) by (simp add: can_strike_def)
  then show ?thesis
    using k S A a v1 assms(2) less_imp_le [OF assms(3)]
    by (simp add: not_less strike_ticket_def WITHDRAWAL_STRIKE_DELAY_EPOCHS_def checked_sub_def checked_add_def [of "v_pending_withdrawal_assets v1"])
qed

lemma strike_ticket_again:
  assumes "strike_ticket v n t now = Inr (v', t')" and "can_strike v n" and "0 \<le> sint now"
  shows "can_strike v' n"
proof -
  obtain q a v1 p where d: "debit_assets_at_effective (v\<lparr>v_requested_withdrawal_shares := q\<rparr>) a now = Inr v1"
    and v': "v' = v1\<lparr>v_pending_withdrawal_assets := p\<rparr>"
    using assms(1) by (auto simp: strike_ticket_def result_facts split: if_splits)
  have "0 \<le> sint (v_profit_unlock_start_ts v')"
    using debit_fields(5) [OF d] assms(2,3) v' by (simp add: can_strike_def)
  then show ?thesis by (rule_tac strike_ticket_Inr [OF assms(1)]) (use assms(2) in \<open>simp add: can_strike_def\<close>)
qed

lemma strike_settlements_total:
  assumes "can_strike v n" and "0 \<le> sint now" and "list_all (\<lambda>s. eligible v (ts_ticket s)) ss"
    and "burned_total (filter unstruck ss) \<le> unat (v_requested_withdrawal_shares v)"
    and "unat c + owed_total ss \<le> unat (v_pending_withdrawal_assets v)"
  shows "\<exists>v' ss' c'. strike_settlements n now ss v c = Inr (v', ss', c') \<and> c' \<le> v_pending_withdrawal_assets v'"
  using assms
proof (induction ss arbitrary: v c)
  case Nil
  then show ?case by (simp add: word_le_nat_alt)
next
  case (Cons s ss)
  let ?t = "ts_ticket s"
  obtain v1 t where k: "(if unstruck s then strike_ticket v n ?t now else Inr (v, ?t)) = Inr (v1, t)"
    and v1: "can_strike v1 n" "v_report_epoch v1 = v_report_epoch v"
    and books: "burned_total (filter unstruck ss) \<le> unat (v_requested_withdrawal_shares v1)"
      "unat c + unat (wt_assets_owed t) + owed_total ss \<le> unat (v_pending_withdrawal_assets v1)"
  proof (cases "unstruck s")
    case True
    have "?t = ts_ticket s" "wt_shares_burned ?t \<le> v_requested_withdrawal_shares v" "wt_request_epoch ?t < v_report_epoch v"
      using Cons.prems(3,4) True by (simp_all add: eligible_def word_le_nat_alt)
    with strike_ticket_total [OF Cons.prems(1)] obtain v1 t where k: "strike_ticket v n ?t now = Inr (v1, t)" by blast
    from k show thesis
    proof (rule strike_ticket_Inr)
      assume "unat (v_requested_withdrawal_shares v) = unat (wt_shares_burned ?t) + unat (v_requested_withdrawal_shares v1)"
        and "unat (v_pending_withdrawal_assets v1) = unat (v_pending_withdrawal_assets v) + unat (wt_assets_owed t)"
        and "v_report_epoch v1 = v_report_epoch v"
      then show thesis
        using that [OF _ strike_ticket_again [OF k Cons.prems(1,2)]] k True Cons.prems(4,5) by simp
    qed
  qed (use that Cons.prems in simp)
  have "unat c + unat (wt_assets_owed t) < 2 ^ 64"
    using books(2) unat_lt_len [of "v_pending_withdrawal_assets v1"] by simp
  then obtain c1 where c1: "checked_add c (wt_assets_owed t) = Some c1" "unat c1 = unat c + unat (wt_assets_owed t)"
    by (simp add: checked_add_def unat_word_ariths)
  have "list_all (\<lambda>s. eligible v1 (ts_ticket s)) ss" using Cons.prems(3) v1(2) by (simp add: eligible_def)
  from Cons.IH [OF v1(1) Cons.prems(2) this books(1), of c1] books(2) c1(2)
  obtain v' ss' c' where "strike_settlements n now ss v1 c1 = Inr (v', ss', c')" "c' \<le> v_pending_withdrawal_assets v'" by auto
  then show ?case using k c1(1) by simp
qed

section \<open>Settling a batch\<close>

lemma backed_batch:
  assumes "queue_backed E (ai_key (pw_vault_account ctx)) L" and "process_withdrawals_context_load E L accounts = Inr ctx"
  shows "burned_total (filter unstruck (pw_tickets ctx)) \<le> unat (v_requested_withdrawal_shares (pw_vault ctx))"
    and "owed_total (pw_tickets ctx) \<le> unat (v_pending_withdrawal_assets (pw_vault ctx))"
proof -
  let ?V = "ai_key (pw_vault_account ctx)" and ?ss = "pw_tickets ctx"
  note c = process_withdrawals_context_load_Inr [OF assms(2)]
  have b: "finite (dom (ticket_at E L))"
    "unat (v_requested_withdrawal_shares (pw_vault ctx)) = ticket_total (open_shares ?V) (ticket_at E L)"
    "unat (v_pending_withdrawal_assets (pw_vault ctx)) = ticket_total (owed_assets ?V) (ticket_at E L)"
    using assms(1) c(1) by (simp_all add: queue_backed_iff)
  have T: "\<forall>s \<in> set ?ss. ticket_at E L (ticket_key s) = Some (ts_ticket s)"
    and vaults: "\<forall>s \<in> set ?ss. wt_vault (ts_ticket s) = ?V"
    using c(6) by (auto simp: list_all_iff settlement_loaded_def ticket_at_load)
  note tot = settled_total [OF b(1) c(5) T]
  show "burned_total (filter unstruck ?ss) \<le> unat (v_requested_withdrawal_shares (pw_vault ctx))"
    using tot [of "open_shares ?V"] b(2) settlement_sums(1) [OF vaults, of ?V] by simp
  show "owed_total ?ss \<le> unat (v_pending_withdrawal_assets (pw_vault ctx))"
    using tot [of "owed_assets ?V"] b(3) settlement_sums(2) [OF vaults, of ?V] by simp
qed


section \<open>Taking the shares back\<close>

text \<open>The six accounts of a cancellation, as the owner of ticket \<open>t\<close> presents them.\<close>

definition presents_cancel :: "ledger \<Rightarrow> vault \<Rightarrow> withdrawal_ticket \<Rightarrow> account_info list \<Rightarrow> bool" where
  "presents_cancel L v t accounts \<longleftrightarrow> (case accounts of
     [owner, vault_account, ticket_account, share_mint, share_dest, token_program] \<Rightarrow>
       ai_is_signer owner \<and> list_all ai_is_writable [owner, vault_account, ticket_account, share_mint, share_dest] \<and>
       ai_key owner = wt_owner t \<and> ai_key vault_account = wt_vault t \<and> ai_key share_mint = v_share_mint v \<and>
       ai_key token_program = TOKEN_PROGRAM_ID \<and>
       verify_token_account_mint_and_owner L share_dest (v_share_mint v) (wt_owner t) = Inr ()
   | _ \<Rightarrow> False)"

text \<open>The delay has passed, and the ticket is not eligible or has outlived the grace period.\<close>

definition may_cancel :: "vault \<Rightarrow> withdrawal_ticket \<Rightarrow> u64 \<Rightarrow> bool" where
  "may_cancel v t slot \<longleftrightarrow>
     (let grace = unat (cancel_grace_slots (v_controls v)) in
      unat (wt_request_slot t) + 150 \<le> unat slot \<and> unat (wt_request_slot t) + grace < 2 ^ 64 \<and>
      unat (wt_request_epoch t) + 1 < 2 ^ 64 \<and>
      (\<not> eligible v t \<or> 0 < grace \<and> unat (wt_request_slot t) + grace \<le> unat slot))"

lemma cancel_is_allowed:
  assumes "may_cancel v t slot" and "wt_assets_owed t = 0"
  shows "\<exists>k. checked_add (wt_request_epoch t) WITHDRAWAL_STRIKE_DELAY_EPOCHS = Some k \<and> cancel_allowed v t k slot = Inr ()"
proof -
  let ?g = "ucast (cancel_grace_slots (v_controls v)) :: u64"
  have g: "unat ?g = unat (cancel_grace_slots (v_controls v))" by simp
  have m: "unat (wt_request_slot t) + 150 \<le> unat slot" "unat (wt_request_slot t) + unat ?g < 2 ^ 64"
    "unat (wt_request_epoch t) + 1 < 2 ^ 64" "\<not> eligible v t \<or> 0 < ?g \<and> unat (wt_request_slot t) + unat ?g \<le> unat slot"
    using assms(1) g by (simp_all add: may_cancel_def Let_def word_less_nat_alt)
  have c: "checked_add (wt_request_slot t) 150 = Some (wt_request_slot t + 150)" "unat (wt_request_slot t + 150) = unat (wt_request_slot t) + 150"
    "checked_add (wt_request_slot t) ?g = Some (wt_request_slot t + ?g)" "unat (wt_request_slot t + ?g) = unat (wt_request_slot t) + unat ?g"
    "checked_add (wt_request_epoch t) 1 = Some (wt_request_epoch t + 1)" "unat (wt_request_epoch t + 1) = unat (wt_request_epoch t) + 1"
    using m(1-3) unat_lt_len [of slot] by (simp_all add: checked_add_def unat_word_ariths)
  have "cancel_allowed v t (wt_request_epoch t + 1) slot = Inr ()"
    using m(1,4) assms(2) c(2,4,6)
    by (auto simp: cancel_allowed_def REDEEM_CANCEL_DELAY_SLOTS_def c(1,3) Let_def eligible_def word_le_nat_alt word_less_nat_alt)
  then show ?thesis using c(5) by (simp add: WITHDRAWAL_STRIKE_DELAY_EPOCHS_def)
qed

lemma cancel_context:
  assumes "accounts = [owner, vault_account, ticket_account, share_mint, share_dest, token_program]"
    and "presents_cancel L v t accounts" and "load_checked E L vault_account = Inr v"
    and "ticket_at E L (ai_key ticket_account) = Some t"
    and "at_home (find_program_address E) (ai_key ticket_account) (WithdrawalTicketAccount t)"
  shows "cancel_redeem_context_load E L accounts = Inr
      \<lparr>cc_owner = owner, cc_vault_account = vault_account, cc_ticket_account = ticket_account, cc_share_mint = share_mint,
       cc_share_dest = share_dest, cc_token_program = token_program, cc_vault = v, cc_ticket = t\<rparr>"
  using assms
  by (simp add: presents_cancel_def cancel_redeem_context_load_def next_account_def require_writable_def
      require_writable_signer_def verify_share_mint_def ticket_at_load [symmetric])

lemma live_ticket_counted:
  assumes "queue_backed E (ai_key vault_account) L" and "load_checked E L vault_account = Inr v"
    and "ticket_at E L j = Some t" and "wt_vault t = ai_key vault_account" and "wt_assets_owed t = 0"
  shows "wt_shares_burned t \<le> v_requested_withdrawal_shares v"
  using assms ticket_total_close [of "ticket_at E L" j t "open_shares (ai_key vault_account)"]
  by (simp add: queue_backed_iff open_shares_def word_le_nat_alt)

text \<open>
  C10. An owner can always leave the queue: along every execution in which the program does not
  call itself, the owner of a ticket not yet struck takes the shares back by a cancellation, once
  the delay has passed and unless the ticket is eligible and within its grace period, provided
  the token program mints the shares, the refunded lamports fit and the vault is rewritten at its
  size. The ticket is then gone and the vault counts its shares no more.
\<close>
theorem owner_can_leave_the_queue:
  assumes "quiet_env E" and "(quiet_step E W)\<^sup>*\<^sup>* L0 L" and "queue_backed E V L0" and "typed_ledger E L0"
    and accounts: "accounts = [owner, vault_account, ticket_account, share_mint, share_dest, token_program]"
    and t: "ticket_at E L (ai_key ticket_account) = Some t" "wt_vault t = V" "wt_assets_owed t = 0"
    and v: "load_checked E L vault_account = Inr v" and handles: "presents_cancel L v t accounts"
    and clk: "get_clock E = Inr clk" "may_cancel v t (clock_slot clk)" and out: "cr_min_shares_out args \<le> wt_shares_burned t"
    and mint: "tag_seed v = Inr seed"
      "mint_to_signed E token_program share_mint share_dest vault_account (wt_shares_burned t)
         [VAULT_SEED, seed, key_bytes (v_base_mint v), [v_bump v]] L = Inr L1"
    and refund: "unat (lamports_of L1 owner) + unat (lamports_of L1 ticket_account) < 2 ^ 64"
    and size: "\<forall>q. \<exists>bs. serialize E (VaultAccount (v\<lparr>v_requested_withdrawal_shares := q\<rparr>)) = Some bs \<and>
         length bs \<le> length (data_of L vault_account)"
  shows "\<exists>L' q. run_instruction E accounts L (CancelRedeem args) = Inr L' \<and> ticket_at E L' (ai_key ticket_account) = None \<and>
     load_checked E L' vault_account = Inr (v\<lparr>v_requested_withdrawal_shares := q\<rparr>) \<and>
     unat (v_requested_withdrawal_shares v) = unat (wt_shares_burned t) + unat q"
proof -
  let ?r = "v_requested_withdrawal_shares v" and ?b = "wt_shares_burned t" and ?ta = "ai_key ticket_account"
  let ?w = "v\<lparr>v_requested_withdrawal_shares := ?r - ?b\<rparr>"
  have V: "ai_key vault_account = V" using handles t(2) by (simp add: accounts presents_cancel_def)
  have fin0: "finite (dom (ticket_at E L0))" using assms(3) by (simp add: queue_backed_def)
  have r: "?b \<le> ?r"
    using live_ticket_counted [OF _ v t(1) _ t(3)] quiet_steps_backed [OF assms(1-3)] V t(2) by simp
  have "stored E L ?ta (WithdrawalTicketAccount t)" using t(1) by (simp add: ticket_at_Some_iff stored_def)
  note ctx = cancel_context [OF accounts handles v t(1) typed_ledgerD [OF quiet_steps_typed [OF assms(1,2,4) fin0] this]]
  obtain L2 where close: "close_account ticket_account owner L1 = Inr L2"
    using refund by (simp add: close_account_def checked_add_def)
  note q = quiet_call [OF assms(1) mint(2) [unfolded mint_to_signed_def]]
  have neq: "ai_key vault_account \<noteq> ?ta" using ticket_at_vault [OF v] t(1) by auto
  have va: "same_cell L L2 (ai_key vault_account)"
    using same_cell_trans [OF q(2) close_account_other [OF close neq]] v by (simp add: load_checked_Inr_iff)
  obtain bs where bs: "serialize E (VaultAccount ?w) = Some bs" "length bs \<le> length (data_of L vault_account)" using size by blast
  then obtain L' where st: "store_account E (VaultAccount ?w) vault_account L2 = Inr L'"
    using va by (auto simp: store_account_def same_cell_def)
  obtain k where k: "checked_add (wt_request_epoch t) WITHDRAWAL_STRIKE_DELAY_EPOCHS = Some k"
    "cancel_allowed v t k (clock_slot clk) = Inr ()"
    using cancel_is_allowed [OF clk(2) t(3)] by blast
  have run: "run_instruction E accounts L (CancelRedeem args) = Inr L'"
    using ctx k clk(1) mint close st r out t(3)
    by (simp add: try_cancel_redeem_def checked_sub_def not_less)
  have T2: "ticket_at E L2 = (ticket_at E L)(?ta := None)" using close_account_tickets [OF close, of E] q(1) by simp
  then have "ticket_at E L2 (ai_key vault_account) = None" using ticket_at_vault [OF v] by simp
  moreover have "evolves v ?w" "vault_validate_state ?w = Inr ()"
    using load_checked_valid [OF v] by (simp_all add: evolution_facts)
  ultimately have "load_checked E L' vault_account = Inr ?w" "ticket_at E L' ?ta = None"
    using stored_vault [OF assms(1) v va _ st] T2 by auto
  moreover have "unat ?r = unat ?b + unat (?r - ?b)" using r by (simp add: unat_sub word_le_nat_alt)
  ultimately show ?thesis using run by blast
qed

section \<open>Both ways out\<close>

text \<open>The ticket of the example ledger is cancelled.\<close>

theorem owner_can_leave_the_queue_witness:
  "\<exists>L'. run_instruction example_env cancel_accounts queued_ledger (CancelRedeem \<lparr>cr_min_shares_out = 300000\<rparr>) = Inr L' \<and>
     ticket_at example_env L' 22 = None"
proof -
  obtain seed where seed: "tag_seed queued_vault = Inr seed" using queued_seed by blast
  have T: "ticket_at example_env queued_ledger 22 = Some queued_ticket" by (simp add: queued_tickets)
  have v: "v_share_mint queued_vault = 7" "cancel_grace_slots (v_controls queued_vault) = 0" "v_report_epoch queued_vault = 3"
    by (simp_all add: queued_vault_def example_vault_def vault_controls_new_def)
  have handles: "presents_cancel queued_ledger queued_vault queued_ticket cancel_accounts"
    using queued_share_account v by (simp add: presents_cancel_def cancel_accounts_def)
  have may: "may_cancel queued_vault queued_ticket 700"
    using v by (simp add: may_cancel_def eligible_def)
  have size: "\<forall>q. \<exists>bs. serialize example_env (VaultAccount (queued_vault\<lparr>v_requested_withdrawal_shares := q\<rparr>)) = Some bs \<and>
      length bs \<le> length (data_of queued_ledger (handle 20 False True))"
    using queued_size [of _ queued_ticket] by (metis account_info.select_convs(1) le_refl)
  have clk: "get_clock example_env = Inr \<lparr>clock_slot = 700, unix_timestamp = 2500\<rparr>" by (simp add: example_env_def)
  have lam: "c_lamports (set_data j d queued_ledger k) = 0" for j d k
    by (simp add: set_data_def ticket_ledger_def example_ledger_def)
  have "\<exists>L' q. run_instruction example_env cancel_accounts queued_ledger (CancelRedeem \<lparr>cr_min_shares_out = 300000\<rparr>) = Inr L' \<and>
     ticket_at example_env L' (ai_key (handle 22 False True)) = None \<and>
     load_checked example_env L' (handle 20 False True) = Inr (queued_vault\<lparr>v_requested_withdrawal_shares := q\<rparr>) \<and>
     unat (v_requested_withdrawal_shares queued_vault) = unat (wt_shares_burned queued_ticket) + unat q"
  proof (rule owner_can_leave_the_queue [OF example_quiet(1) rtranclp.rtrancl_refl [of "quiet_step example_env queue_codec"] _
        queued_typed(1) cancel_accounts_def _ _ _ queued_load(1) handles clk _ _ seed _ _ size])
    show "queue_backed example_env 20 queued_ledger" by (rule queued_backed) simp_all
    show "mint_to_signed example_env (handle TOKEN_PROGRAM_ID False False) (handle 7 False True) (handle 31 False True)
        (handle 20 False True) (wt_shares_burned queued_ticket) [VAULT_SEED, seed, key_bytes (v_base_mint queued_vault), [v_bump queued_vault]]
        queued_ledger = Inr (set_data 7 (put_supply 10000000 (mint_bytes 9700000)) queued_ledger)"
      using queued_mint by simp
  qed (use T may lam in simp_all)
  then show ?thesis by auto
qed

text \<open>A ticket of an earlier epoch is settled.\<close>

definition settling_ticket :: withdrawal_ticket where
  "settling_ticket = queued_ticket\<lparr>wt_recipient_token_account := 30, wt_request_epoch := 2\<rparr>"

definition settle_accounts :: "account_info list" where
  "settle_accounts = [handle 5 True False, handle 20 False True, handle 23 False False, handle 21 False True,
     handle 7 False False, handle TOKEN_PROGRAM_ID False False, handle 22 False True, handle 40 False True, handle 30 False True]"

definition settle_context :: process_withdrawals_context where
  "settle_context = \<lparr>pw_vault_account = handle 20 False True, pw_sub_account = handle 23 False False,
     pw_custody = handle 21 False True, pw_share_mint = handle 7 False False,
     pw_token_program = handle TOKEN_PROGRAM_ID False False, pw_vault = queued_vault, pw_sub_account_bump = 253,
     pw_tickets = [\<lparr>ts_ticket_account = handle 22 False True, ts_owner = handle 40 False True,
        ts_destination = handle 30 False True, ts_ticket = settling_ticket\<rparr>]\<rparr>"

lemma settle_context_load:
  "process_withdrawals_context_load example_env (ticket_ledger settling_ticket) settle_accounts = Inr settle_context"
proof -
  let ?L = "ticket_ledger settling_ticket"
  have token: "verify_token_account_mint_and_owner ?L (handle 21 False True) 6 23 = Inr ()"
    "verify_token_account_mint ?L (handle 30 False True) 6 = Inr ()"
    "verify_token_program_for ?L (handle TOKEN_PROGRAM_ID False False) (handle 21 False True) = Inr ()"
    by (simp_all add: verify_token_account_mint_and_owner_def verify_token_account_mint_def verify_token_program_for_def
        verify_token_program_def ticket_ledger_def example_ledger_def token_account_bytes_def is_token_program_def
        token_layout_defs nth_append field_def)
  have sub: "sub_account_verify_account example_env ?L 20 1 (handle 23 False False) = Inr 253"
    by (simp add: sub_account_verify_account_def sub_account_find_address_def example_env_def example_address_def
        SUB_ACCOUNT_SEED_def TICKET_SEED_def VAULT_SEED_def ascii_def ID_def ASSOCIATED_TOKEN_PROGRAM_ID_def
        ticket_ledger_def example_ledger_def)
  have v: "v_share_mint queued_vault = 7" "v_base_mint queued_vault = 6" "v_withdraw_sub_account queued_vault = 1"
    "v_withdrawal_authority queued_vault = 5"
    by (simp_all add: queued_vault_def example_vault_def)
  have t: "wt_vault settling_ticket = 20" "wt_owner settling_ticket = 40" "wt_recipient_token_account settling_ticket = 30"
    "wt_shares_burned settling_ticket = 300000" "wt_ticket_index settling_ticket = 0" "wt_bump settling_ticket = 254"
    by (simp_all add: settling_ticket_def)
  show ?thesis
    using queued_load [of settling_ticket] token sub v t ticket_home
    by (simp add: process_withdrawals_context_load_def settle_accounts_def settle_context_def next_account_def
        require_writable_def verify_role_def has_role_def verify_share_mint_def)
qed


end
