(* ===== verification/Fuzz_Harness.thy ===== *)
theory Fuzz_Harness
  imports Fuzz_Support Offchain_Readers Queue_Liveness
begin

text \<open>
  \<open>fuzz/src/main.rs\<close> and \<open>fuzz/src/fixture\<close>: what the fuzz harness computes by itself, that is its
  access tree, the tickets it settles, its prediction of deposits and its invariant. The lemmas show
  that these are right: the harness asks for nothing the program does not deliver.
\<close>

section \<open>The access tree\<close>

definition push_all :: "nat list \<Rightarrow> key \<Rightarrow> key list list \<Rightarrow> key list list" where
  "push_all leaves h proofs = foldl (\<lambda>ps i. ps[i := ps ! i @ [h]]) proofs leaves"

text \<open>One round of the loop: pairs are combined and each side gains the other as its next sibling.\<close>

fun merge_level ::
  "(bytes \<Rightarrow> key) \<Rightarrow> (key \<times> nat list) list \<Rightarrow> key list list \<Rightarrow> (key \<times> nat list) list \<times> key list list" where
  "merge_level sha [] proofs = ([], proofs)"
| "merge_level sha [x] proofs = ([x], proofs)"
| "merge_level sha ((a_hash, a_leaves) # (b_hash, b_leaves) # level) proofs =
     (let proofs1 = push_all b_leaves a_hash (push_all a_leaves b_hash proofs);
          (rest, proofs2) = merge_level sha level proofs1
      in ((access_merkle_node sha a_hash b_hash, a_leaves @ b_leaves) # rest, proofs2))"

lemma merge_level_hashes: "map fst (fst (merge_level sha level proofs)) = next_layer sha (map fst level)"
  by (induction sha level proofs rule: merge_level.induct) (auto simp: Let_def split: prod.splits)

lemma length_merge_level: "length (fst (merge_level sha level proofs)) = (length level + 1) div 2"
  using arg_cong [OF merge_level_hashes, of length] by (simp add: length_next_layer)

function build_levels ::
  "(bytes \<Rightarrow> key) \<Rightarrow> (key \<times> nat list) list \<Rightarrow> key list list \<Rightarrow> (key \<times> nat list) list \<times> key list list" where
  "build_levels sha level proofs =
     (if 1 < length level
      then build_levels sha (fst (merge_level sha level proofs)) (snd (merge_level sha level proofs))
      else (level, proofs))"
  by pat_completeness auto
termination
  by (relation "measure (\<lambda>(sha, level, proofs). length level)") (auto simp: case_prod_beta length_merge_level)

declare build_levels.simps [simp del]

definition build_access_tree :: "(bytes \<Rightarrow> key) \<Rightarrow> key list \<Rightarrow> (key \<times> key list list) option" where
  "build_access_tree sha leaves =
     (case build_levels sha (map (\<lambda>i. (leaves ! i, [i])) [0..<length leaves]) (replicate (length leaves) []) of
        ([], proofs) \<Rightarrow> None
      | ((root, _) # _, proofs) \<Rightarrow> Some (root, proofs))"

text \<open>Every leaf folds along its proof to the subtree it is in; the subtrees share no leaf.\<close>

definition proofs_ok :: "(bytes \<Rightarrow> key) \<Rightarrow> key list \<Rightarrow> (key \<times> nat list) list \<Rightarrow> key list list \<Rightarrow> bool" where
  "proofs_ok sha leaves level proofs \<longleftrightarrow> distinct (concat (map snd level)) \<and>
     (\<forall>(h, is) \<in> set level. \<forall>i \<in> set is. i < length proofs \<and> foldl (access_merkle_node sha) (leaves ! i) (proofs ! i) = h)"

lemma push_all_nth:
  "distinct is \<Longrightarrow> set is \<subseteq> {..<length proofs} \<Longrightarrow>
   length (push_all is h proofs) = length proofs \<and>
   (\<forall>j. push_all is h proofs ! j = (if j \<in> set is then proofs ! j @ [h] else proofs ! j))"
proof (induction "is" arbitrary: proofs)
  case (Cons i "is")
  let ?p = "proofs[i := proofs ! i @ [h]]"
  have "push_all (i # is) h proofs = push_all is h ?p" by (simp add: push_all_def)
  moreover have "length (push_all is h ?p) = length ?p \<and>
      (\<forall>j. push_all is h ?p ! j = (if j \<in> set is then ?p ! j @ [h] else ?p ! j))"
    using Cons.prems by (intro Cons.IH) auto
  ultimately show ?case using Cons.prems by (auto simp: nth_list_update)
qed (simp add: push_all_def)

lemma merge_level_ok:
  assumes "proofs_ok sha leaves level proofs" and "merge_level sha level proofs = (level', proofs')"
  shows "proofs_ok sha leaves level' proofs'" and "concat (map snd level') = concat (map snd level)"
    and "length proofs' = length proofs" and "\<And>j. j \<notin> set (concat (map snd level)) \<Longrightarrow> proofs' ! j = proofs ! j"
    and "\<And>j. length (proofs' ! j) \<le> length (proofs ! j) + 1"
proof -
  have "proofs_ok sha leaves level' proofs' \<and> concat (map snd level') = concat (map snd level) \<and>
      length proofs' = length proofs \<and> (\<forall>j. j \<notin> set (concat (map snd level)) \<longrightarrow> proofs' ! j = proofs ! j) \<and>
      (\<forall>j. length (proofs' ! j) \<le> length (proofs ! j) + 1)"
    using assms
  proof (induction sha level proofs arbitrary: level' proofs' rule: merge_level.induct)
    case (3 sha ah al bh bl level proofs)
    let ?n = "access_merkle_node sha" and ?p = "push_all bl ah (push_all al bh proofs)"
    obtain rest where m: "merge_level sha level ?p = (rest, proofs')" and level': "level' = (?n ah bh, al @ bl) # rest"
      using "3.prems"(2) by (auto simp: Let_def split: prod.splits)
    have d: "distinct al" "distinct bl" "set al \<inter> set bl = {}" "set al \<inter> set (concat (map snd level)) = {}"
      "set bl \<inter> set (concat (map snd level)) = {}" "distinct (concat (map snd level))"
      using "3.prems"(1) by (auto simp: proofs_ok_def)
    have inside: "set al \<subseteq> {..<length proofs}" "set bl \<subseteq> {..<length proofs}"
      using "3.prems"(1) by (auto simp: proofs_ok_def)
    note pa = push_all_nth [OF d(1) inside(1), of bh]
    have pb: "length ?p = length proofs" "?p ! j = (if j \<in> set bl then push_all al bh proofs ! j @ [ah] else push_all al bh proofs ! j)" for j
      using push_all_nth [OF d(2), of "push_all al bh proofs" ah] inside(2) pa by simp_all
    have p: "?p ! j = (if j \<in> set al then proofs ! j @ [bh] else if j \<in> set bl then proofs ! j @ [ah] else proofs ! j)" for j
      using pa pb(2) [of j] d(3) by auto
    have "proofs_ok sha leaves level ?p"
      using "3.prems"(1) d(4-6) pb(1) p by (fastforce simp: proofs_ok_def)
    from "3.IH" [OF refl this m] have IH: "proofs_ok sha leaves rest proofs'" "concat (map snd rest) = concat (map snd level)"
      "length proofs' = length proofs" "\<And>j. j \<notin> set (concat (map snd level)) \<Longrightarrow> proofs' ! j = ?p ! j"
      "\<And>j. length (proofs' ! j) \<le> length (?p ! j) + 1"
      using pb(1) by simp_all
    have leaf: "foldl ?n (leaves ! i) (proofs' ! i) = ?n ah bh" "i < length proofs'" if "i \<in> set al \<union> set bl" for i
    proof -
      have "i \<notin> set (concat (map snd level))" using that d(4,5) by blast
      then have "proofs' ! i = ?p ! i" using IH(4) by blast
      moreover have "foldl ?n (leaves ! i) (proofs ! i) = (if i \<in> set al then ah else bh)" "i < length proofs"
        using "3.prems"(1) that d(3) by (auto simp: proofs_ok_def)
      ultimately show "foldl ?n (leaves ! i) (proofs' ! i) = ?n ah bh" "i < length proofs'"
        using that p [of i] d(3) IH(3) access_merkle_node_commute [of sha ah bh] by auto
    qed
    have "length (proofs' ! j) \<le> length (proofs ! j) + 1" for j
      using IH(4) [of j] IH(5) [of j] p [of j] d(4,5) by (cases "j \<in> set (concat (map snd level))") (auto split: if_splits)
    moreover have "proofs' ! j = proofs ! j" if "j \<notin> set (concat (map snd ((ah, al) # (bh, bl) # level)))" for j
      using that IH(4) [of j] p [of j] by auto
    moreover have "proofs_ok sha leaves level' proofs'"
      using IH(1,2) leaf d unfolding level' proofs_ok_def by auto
    ultimately show ?case using IH(2,3) level' by simp
  qed auto
  then show "proofs_ok sha leaves level' proofs'" "concat (map snd level') = concat (map snd level)"
    "length proofs' = length proofs" "\<And>j. j \<notin> set (concat (map snd level)) \<Longrightarrow> proofs' ! j = proofs ! j"
    "\<And>j. length (proofs' ! j) \<le> length (proofs ! j) + 1" by blast+
qed

lemma build_levels_ok:
  assumes "proofs_ok sha leaves level proofs" and "level \<noteq> []" and "length level \<le> 2 ^ d"
  obtains root "is" proofs' where "build_levels sha level proofs = ([(root, is)], proofs')"
    and "proofs_ok sha leaves [(root, is)] proofs'" and "is = concat (map snd level)" and "length proofs' = length proofs"
    and "\<And>j. length (proofs' ! j) \<le> length (proofs ! j) + d" and "last (build_layers sha (map fst level)) = [root]"
  using assms
proof (induction sha level proofs arbitrary: d thesis rule: build_levels.induct)
  case (1 sha level proofs)
  show ?case
  proof (cases "1 < length level")
    case True
    obtain level1 proofs1 where m: "merge_level sha level proofs = (level1, proofs1)" by (cases "merge_level sha level proofs")
    from "1.prems"(4) True obtain e where d: "d = Suc e" by (cases d) auto
    note ok = merge_level_ok [OF "1.prems"(2) m]
    have len: "length level1 = (length level + 1) div 2" using length_merge_level [of sha level proofs] m by simp
    have hash: "map fst level1 = next_layer sha (map fst level)" using merge_level_hashes [of sha level proofs] m by simp
    have "level1 \<noteq> []" using len True by (cases level1) auto
    moreover have "length level1 \<le> 2 ^ e" using len "1.prems"(4) d by simp
    ultimately obtain root "is" proofs' where "build_levels sha level1 proofs1 = ([(root, is)], proofs')"
      and "proofs_ok sha leaves [(root, is)] proofs'" and "is = concat (map snd level1)" and "length proofs' = length proofs1"
      and "\<And>j. length (proofs' ! j) \<le> length (proofs1 ! j) + e" and "last (build_layers sha (map fst level1)) = [root]"
      using "1.IH" [OF True, unfolded m fst_conv snd_conv, OF _ ok(1)] by blast
    note r = this
    have "build_layers sha (map fst level1) \<noteq> []" by (subst build_layers.simps) simp
    then have "last (build_layers sha (map fst level)) = [root]"
      using r(6) True hash by (subst build_layers.simps) simp
    moreover have "length (proofs' ! j) \<le> length (proofs ! j) + d" for j using r(5) [of j] ok(5) [of j] d by simp
    ultimately show ?thesis
      using "1.prems"(1) [of root "is" proofs'] r ok(2,3) m True by (simp add: build_levels.simps [of sha level])
  next
    case False
    with "1.prems"(3) obtain root "is" where l: "level = [(root, is)]"
      by (cases level) auto
    have b: "build_levels sha level proofs = ([(root, is)], proofs)" "build_layers sha (map fst level) = [[root]]"
      by (simp_all add: l build_levels.simps [of sha "[(root, is)]"] build_layers.simps [of sha "[root]"])
    show ?thesis
      by (rule "1.prems"(1) [OF b(1)]) (use "1.prems"(2) in \<open>simp_all add: b(2) [unfolded l, simplified] l\<close>)
  qed
qed

text \<open>
  The access tree of the fuzz harness is the one of the program and of the client: every owner
  has a proof that the program accepts against the root, and the root is the one the layers of the
  client end in, over the same leaves.
\<close>
lemma access_tree_verifies:
  assumes "owners \<noteq> []" and "length owners \<le> 2 ^ MAX_ACCESS_PROOF_LEN"
  shows "\<exists>root proofs. build_access_tree sha (map (access_merkle_leaf sha) owners) = Some (root, proofs) \<and>
     length proofs = length owners \<and> last (build_layers sha (map (access_merkle_leaf sha) owners)) = [root] \<and>
     list_all2 (\<lambda>owner proof. verify_access_merkle_proof sha owner root proof) owners proofs"
proof -
  let ?leaves = "map (access_merkle_leaf sha) owners" and ?n = "length owners"
  let ?level = "map (\<lambda>i. (?leaves ! i, [i])) [0..<?n]"
  have cat: "concat (map snd ?level) = [0..<?n]" by (simp add: comp_def)
  then have ok: "proofs_ok sha ?leaves ?level (replicate ?n [])" by (auto simp: proofs_ok_def)
  have hashes: "map fst ?level = ?leaves" by (auto intro: nth_equalityI)
  obtain root "is" proofs where b: "build_levels sha ?level (replicate ?n []) = ([(root, is)], proofs)"
    and r: "proofs_ok sha ?leaves [(root, is)] proofs" "is = [0..<?n]" "length proofs = ?n"
    and d: "\<And>j. length (proofs ! j) \<le> length (replicate ?n ([] :: key list) ! j) + MAX_ACCESS_PROOF_LEN"
    and l: "last (build_layers sha ?leaves) = [root]"
    by (rule build_levels_ok [OF ok, of MAX_ACCESS_PROOF_LEN, unfolded cat hashes length_replicate])
      (use assms in simp_all)
  have "verify_access_merkle_proof sha (owners ! i) root (proofs ! i)" if "i < ?n" for i
    using r that d [of i] by (simp add: proofs_ok_def verify_access_merkle_proof_def)
  then show ?thesis
    using b l r(3) by (intro exI [of _ root] exI [of _ proofs]) (simp add: build_access_tree_def list_all2_conv_all_nth)
qed

section \<open>The tickets to settle\<close>

text \<open>
  What the harness keeps between steps, besides the simulator; a key pair stands for its public key.
  A run of the harness that panics or fails an assertion is \<open>None\<close>.
\<close>

record fuzz_user =
  fu_key :: key
  fu_base_ata :: key
  fu_share_ata :: key
  fu_asset_ata :: key
  fu_token_2022_asset_ata :: key
  fu_access_proof :: "key list"

record roshi_fixture =
  fx_program_id :: key
  fx_config_pda :: key
  fx_operator :: key
  fx_program_authority_alt :: key
  fx_vault_authority_alt :: key
  fx_strategist :: key
  fx_strategist_alt :: key
  fx_swap_authority :: key
  fx_swap_authority_alt :: key
  fx_nav_authority :: key
  fx_nav_authority_alt :: key
  fx_withdrawal_authority :: key
  fx_withdrawal_authority_alt :: key
  fx_external_authority :: key
  fx_vault :: key
  fx_share_mint :: key
  fx_base_mint :: key
  fx_treasury :: key
  fx_sub_account :: key
  fx_custody :: key
  fx_withdraw_sub_account :: key
  fx_withdraw_custody :: key
  fx_external_account :: key
  fx_external_destination :: key
  fx_manage_action :: key
  fx_rebalance_to_withdraw_action :: key
  fx_swap_custody :: key
  fx_swap_forward_action :: key
  fx_swap_reverse_action :: key
  fx_atomic_venue :: key
  fx_atomic_action :: key
  fx_deploy_action :: key
  fx_revocable_action :: key
  fx_revocable_action_hash :: key
  fx_members_root :: key
  fx_outsider :: fuzz_user
  fx_users :: "fuzz_user list"
  fx_base_accounts :: "key list"
  fx_initial_base :: u128
  fx_asset_mint :: key
  fx_asset_pda :: key
  fx_asset_custody :: key
  fx_asset_swap_custody :: key
  fx_asset_swap_forward_action :: key
  fx_asset_swap_reverse_action :: key
  fx_pyth_account :: key
  fx_scope_prices_account :: key
  fx_scope_mappings_account :: key
  fx_asset_accounts :: "key list"
  fx_initial_asset :: u128
  fx_token_2022_asset_mint :: key
  fx_token_2022_asset_pda :: key
  fx_token_2022_asset_custody :: key
  fx_token_2022_swap_custody :: key
  fx_token_2022_swap_forward_action :: key
  fx_token_2022_swap_reverse_action :: key
  fx_transfer_fee_token_2022_mint :: key
  fx_transfer_fee_token_2022_asset_pda :: key
  fx_token_2022_asset_accounts :: "key list"
  fx_initial_token_2022_asset :: u128
  fx_report_nonce :: u64
  fx_prev_high_watermark :: u64

definition fuzz_load_vault :: "svm \<Rightarrow> (bytes \<Rightarrow> vault option) \<Rightarrow> ledger \<Rightarrow> roshi_fixture \<Rightarrow> vault option" where
  "fuzz_load_vault svm dv L fx =
     Option.bind (svm_get_account svm L (fx_vault fx)) (\<lambda>account.
     case vault_from_account_data dv (c_data account) of Inl _ \<Rightarrow> None | Inr v \<Rightarrow> Some v)"

definition fuzz_report_epoch :: "svm \<Rightarrow> (bytes \<Rightarrow> vault option) \<Rightarrow> ledger \<Rightarrow> roshi_fixture \<Rightarrow> u64 option" where
  "fuzz_report_epoch svm dv L fx =
     Option.bind (svm_get_account svm L (fx_vault fx)) (\<lambda>account.
     case vault_from_account_data dv (c_data account) of Inl _ \<Rightarrow> None | Inr v \<Rightarrow> Some (v_report_epoch v))"

text \<open>The addresses the two loops of \<open>live_tickets\<close> visit: of every user, one for each index.\<close>

definition ticket_probes :: "env \<Rightarrow> roshi_fixture \<Rightarrow> (key \<times> key \<times> key) list" where
  "ticket_probes E fx =
     concat (map (\<lambda>u. map (\<lambda>ti. (fst (ticket_find_address (find_program_address E) (fx_vault fx) (fu_key u) (word_of_nat ti)),
        fu_key u, fu_base_ata u)) [0..<256]) (fx_users fx))"

fun collect_tickets ::
  "env \<Rightarrow> svm \<Rightarrow> ledger \<Rightarrow> (key \<times> key \<times> key) list \<Rightarrow> (key \<times> key \<times> key \<times> withdrawal_ticket) list option" where
  "collect_tickets E svm L [] = Some []"
| "collect_tickets E svm L ((ticket, owner, dest) # probes) =
     (case svm_get_account svm L ticket of
        None \<Rightarrow> collect_tickets E svm L probes
      | Some account \<Rightarrow>
          (case deserialize E (c_data account) of
             Some (WithdrawalTicketAccount t) \<Rightarrow> map_option ((#) (ticket, owner, dest, t)) (collect_tickets E svm L probes)
           | _ \<Rightarrow> None))"

definition live_tickets ::
  "env \<Rightarrow> svm \<Rightarrow> ledger \<Rightarrow> roshi_fixture \<Rightarrow> (key \<times> key \<times> key \<times> withdrawal_ticket) list option" where
  "live_tickets E svm L fx = collect_tickets E svm L (ticket_probes E fx)"

definition settleable :: "u64 \<Rightarrow> withdrawal_ticket \<Rightarrow> bool" where
  "settleable report_epoch t \<longleftrightarrow>
     (let strikable = (case checked_add (wt_request_epoch t) WITHDRAWAL_STRIKE_DELAY_EPOCHS of
            Some earliest \<Rightarrow> earliest \<le> report_epoch \<and> wt_request_epoch t \<le> report_epoch
          | None \<Rightarrow> False)
      in 0 < wt_assets_owed t \<or> strikable)"

definition settleable_tickets ::
  "env \<Rightarrow> svm \<Rightarrow> (bytes \<Rightarrow> vault option) \<Rightarrow> ledger \<Rightarrow> roshi_fixture \<Rightarrow> (key \<times> key \<times> key) list option" where
  "settleable_tickets E svm dv L fx =
     Option.bind (fuzz_report_epoch svm dv L fx) (\<lambda>report_epoch.
     map_option (\<lambda>tickets. map (\<lambda>(ticket, owner, dest, _). (ticket, owner, dest))
       (filter (\<lambda>(_, _, _, t). settleable report_epoch t) tickets)) (live_tickets E svm L fx))"

lemma settleable_iff_eligible: "settleable (v_report_epoch v) t \<longleftrightarrow> eligible v t"
proof -
  let ?e = "wt_request_epoch t" and ?n = "v_report_epoch v"
  have "(case checked_add ?e 1 of Some k \<Rightarrow> k \<le> ?n \<and> ?e \<le> ?n | None \<Rightarrow> False) \<longleftrightarrow> ?e < ?n"
  proof
    assume "case checked_add ?e 1 of Some k \<Rightarrow> k \<le> ?n \<and> ?e \<le> ?n | None \<Rightarrow> False"
    then obtain k where "checked_add ?e 1 = Some k" "k \<le> ?n" by (auto split: option.splits)
    then show "?e < ?n" by (simp add: checked_add_Some_iff word_le_nat_alt word_less_nat_alt)
  next
    assume "?e < ?n"
    then show "case checked_add ?e 1 of Some k \<Rightarrow> k \<le> ?n \<and> ?e \<le> ?n | None \<Rightarrow> False" using next_epoch by force
  qed
  then show ?thesis
    by (simp add: settleable_def eligible_def WITHDRAWAL_STRIKE_DELAY_EPOCHS_def word_neq_0_conv Let_def)
qed

lemma strike_settlements_gate:
  "strike_settlements n now ss v c = Inr r \<Longrightarrow> list_all (\<lambda>s. eligible v (ts_ticket s)) ss"
proof (induction ss arbitrary: v c r)
  case (Cons s ss)
  from Cons.prems obtain v1 t c1 r1 where
    k: "(if unstruck s then strike_ticket v n (ts_ticket s) now else Inr (v, ts_ticket s)) = Inr (v1, t)"
    and rest: "strike_settlements n now ss v1 c1 = Inr r1"
    by (auto simp: result_facts)
  have "eligible v (ts_ticket s) \<and> v_report_epoch v1 = v_report_epoch v"
  proof (cases "unstruck s")
    case True
    with k have "strike_ticket v n (ts_ticket s) now = Inr (v1, t)" by simp
    then show ?thesis by (rule strike_ticket_Inr) (simp add: eligible_def word_less_nat_alt)
  qed (use k in \<open>simp add: eligible_def\<close>)
  with Cons.IH [OF rest] show ?case by (simp add: eligible_def)
qed simp

text \<open>
  The keeper of the harness batches what the program settles: of tickets that the counters of
  the vault account for, a batch can be priced exactly when every ticket in it passes the filter of
  \<open>settleable_tickets\<close>. One ticket too fresh fails the whole batch, and nothing else does.
\<close>
theorem settleable_is_the_strike_gate:
  assumes "can_strike v n" and "0 \<le> sint now"
    and "burned_total (filter unstruck ss) \<le> unat (v_requested_withdrawal_shares v)"
    and "owed_total ss \<le> unat (v_pending_withdrawal_assets v)"
  shows "(\<exists>r. strike_settlements n now ss v 0 = Inr r) \<longleftrightarrow>
     list_all (\<lambda>s. settleable (v_report_epoch v) (ts_ticket s)) ss"
  using strike_settlements_total [OF assms(1,2) _ assms(3), of 0] assms(4) strike_settlements_gate
  by (fastforce simp: settleable_iff_eligible)


theorem settleable_is_the_strike_gate_witness:
  "(\<exists>r. strike_settlements 9700000 2500 (pw_tickets settle_context) queued_vault 0 = Inr r) \<and>
   \<not> (\<exists>r. strike_settlements 9700000 2500 (map (\<lambda>s. s\<lparr>ts_ticket := queued_ticket\<rparr>) (pw_tickets settle_context)) queued_vault 0 = Inr r)"
proof -
  have "vault_validate_state queued_vault = Inr ()" using example_vault_valid by (simp add: queued_vault_def)
  then have s: "can_strike queued_vault 9700000"
    by (simp add: can_strike_def) (simp add: queued_vault_def example_vault_def)
  have v: "v_requested_withdrawal_shares queued_vault = 300000" "v_report_epoch queued_vault = 3"
    by (simp_all add: queued_vault_def example_vault_def)
  have t: "settleable 3 settling_ticket" "\<not> settleable 3 queued_ticket"
    using settleable_iff_eligible [of queued_vault] v(2) by (simp_all add: eligible_def settling_ticket_def)
  show ?thesis
    using settleable_is_the_strike_gate [OF s, of 2500 "pw_tickets settle_context"]
      settleable_is_the_strike_gate [OF s, of 2500 "map (\<lambda>s. s\<lparr>ts_ticket := queued_ticket\<rparr>) (pw_tickets settle_context)"]
    by (simp add: settle_context_def v t del: strike_settlements.simps) (simp add: settling_ticket_def v(1))
qed

section \<open>The invariant\<close>

definition MAX_BPS :: u16 where "MAX_BPS = 10000"

fun balances :: "svm \<Rightarrow> ledger \<Rightarrow> key list \<Rightarrow> u128 list option" where
  "balances svm L [] = Some []"
| "balances svm L (a # accounts) =
     Option.bind (fuzz_token_balance svm L a) (\<lambda>n. map_option ((#) (ucast n)) (balances svm L accounts))"

definition invariant_core ::
  "env \<Rightarrow> svm \<Rightarrow> (bytes \<Rightarrow> vault option) \<Rightarrow> ledger \<Rightarrow> roshi_fixture \<Rightarrow> roshi_fixture option" where
  "invariant_core E svm dv L fx =
     Option.bind (map_option sum_list (balances svm L (fx_base_accounts fx))) (\<lambda>total_base.
     if total_base \<noteq> fx_initial_base fx then None else
     Option.bind (map_option sum_list (balances svm L (fx_asset_accounts fx))) (\<lambda>total_asset.
     if total_asset \<noteq> fx_initial_asset fx then None else
     Option.bind (map_option sum_list (balances svm L (fx_token_2022_asset_accounts fx))) (\<lambda>total_token_2022_asset.
     if total_token_2022_asset \<noteq> fx_initial_token_2022_asset fx then None else
     Option.bind (svm_get_account svm L (fx_vault fx)) (\<lambda>account.
     case vault_from_account_data dv (c_data account) of Inl _ \<Rightarrow> None | Inr v \<Rightarrow>
     if \<not> (v_performance_fee_bps v \<le> MAX_BPS \<and> v_withdrawal_buffer_bps v \<le> MAX_BPS) then None else
     if v_high_watermark v < fx_prev_high_watermark fx then None else
     let fx1 = fx\<lparr>fx_prev_high_watermark := v_high_watermark v\<rparr> in
     Option.bind (live_tickets E svm L fx1) (\<lambda>tickets.
     let requested_shares = sum_list (map (\<lambda>(_, _, _, t). ucast (wt_shares_burned t) :: u128)
           (filter (\<lambda>(_, _, _, t). wt_assets_owed t = 0) tickets));
         pending_assets = sum_list (map (\<lambda>(_, _, _, t). ucast (wt_assets_owed t) :: u128) tickets)
     in
     if ucast (v_requested_withdrawal_shares v) \<noteq> requested_shares then None else
     if ucast (v_pending_withdrawal_assets v) \<noteq> pending_assets then None else
     Some fx1)))))"

text \<open>
  What the harness takes for granted of the ledger it drives: the addresses of its tickets are
  distinct and hold nothing but tickets of the vault, an account with contents is present in the
  simulator, and only its users own tickets of the vault.
\<close>

definition tickets_visible :: "env \<Rightarrow> svm \<Rightarrow> roshi_fixture \<Rightarrow> ledger \<Rightarrow> bool" where
  "tickets_visible E svm fx L \<longleftrightarrow> distinct (map fst (ticket_probes E fx)) \<and>
     (\<forall>k \<in> fst ` set (ticket_probes E fx).
        svm_get_account svm L k = (if ticket_at E L k = None then None else Some (L k)) \<and>
        (\<forall>t. ticket_at E L k = Some t \<longrightarrow> wt_vault t = fx_vault fx)) \<and>
     svm_get_account svm L (fx_vault fx) = Some (L (fx_vault fx)) \<and>
     (\<forall>j t. ticket_at E L j = Some t \<longrightarrow> wt_vault t = fx_vault fx \<longrightarrow> wt_owner t \<in> fu_key ` set (fx_users fx))"

definition tokens_conserved :: "svm \<Rightarrow> roshi_fixture \<Rightarrow> ledger \<Rightarrow> bool" where
  "tokens_conserved svm fx L \<longleftrightarrow>
     map_option sum_list (balances svm L (fx_base_accounts fx)) = Some (fx_initial_base fx) \<and>
     map_option sum_list (balances svm L (fx_asset_accounts fx)) = Some (fx_initial_asset fx) \<and>
     map_option sum_list (balances svm L (fx_token_2022_asset_accounts fx)) = Some (fx_initial_token_2022_asset fx)"

lemma collect_tickets_visible:
  assumes "\<And>k. k \<in> fst ` set ps \<Longrightarrow> svm_get_account svm L k = (if ticket_at E L k = None then None else Some (L k))"
  shows "collect_tickets E svm L ps =
     Some (concat (map (\<lambda>(k, owner, dest). case ticket_at E L k of None \<Rightarrow> [] | Some t \<Rightarrow> [(k, owner, dest, t)]) ps))"
  using assms
proof (induction ps)
  case (Cons p ps)
  obtain k owner dest where p: "p = (k, owner, dest)" by (cases p)
  have "svm_get_account svm L k = (if ticket_at E L k = None then None else Some (L k))" using Cons.prems p by simp
  moreover have "collect_tickets E svm L ps =
     Some (concat (map (\<lambda>(k, owner, dest). case ticket_at E L k of None \<Rightarrow> [] | Some t \<Rightarrow> [(k, owner, dest, t)]) ps))"
    using Cons by simp
  moreover have "ticket_at E L k = Some t \<Longrightarrow> deserialize E (c_data (L k)) = Some (WithdrawalTicketAccount t)" for t
    by (simp add: ticket_at_Some_iff)
  ultimately show ?case by (cases "ticket_at E L k") (auto simp: p)
qed simp

text \<open>A sum over the visited addresses is the sum over all tickets, when the others add nothing.\<close>

lemma sum_over_probes:
  assumes "distinct ks" and "finite (dom T)" and "\<And>j t. T j = Some t \<Longrightarrow> j \<notin> set ks \<Longrightarrow> f t = 0"
  shows "sum_list (map (\<lambda>k. case T k of None \<Rightarrow> 0 | Some t \<Rightarrow> f t) ks) = ticket_total f T"
proof -
  let ?h = "\<lambda>k. case T k of None \<Rightarrow> 0 | Some t \<Rightarrow> f t"
  have "sum_list (map ?h ks) = sum ?h (set ks)" using assms(1) by (simp add: sum_list_distinct_conv_sum_set)
  also have "\<dots> = sum ?h (dom T)"
    using assms(2,3) by (intro sum.mono_neutral_cong) (auto simp: dom_def split: option.splits)
  also have "\<dots> = ticket_total f T" unfolding ticket_total_def by (intro sum.cong) auto
  finally show ?thesis .
qed


lemma ucast_sum:
  "sum_list (map (\<lambda>(_, _, _, t). ucast (f t) :: u128) xs) = word_of_nat (sum_list (map (\<lambda>(_, _, _, t). unat (f t :: u64)) xs))"
  by (induction xs) auto

lemma live_totals:
  assumes "tickets_visible E svm fx L" and "typed_ledger E L" and "finite (dom (ticket_at E L))"
  obtains tickets where "live_tickets E svm L fx = Some tickets"
    and "sum_list (map (\<lambda>(_, _, _, t). unat (wt_shares_burned t)) (filter (\<lambda>(_, _, _, t). wt_assets_owed t = 0) tickets)) =
       ticket_total (open_shares (fx_vault fx)) (ticket_at E L)"
    and "sum_list (map (\<lambda>(_, _, _, t). unat (wt_assets_owed t)) tickets) =
       ticket_total (owed_assets (fx_vault fx)) (ticket_at E L)"
proof -
  let ?V = "fx_vault fx" and ?T = "ticket_at E L" and ?ps = "ticket_probes E fx"
  let ?live = "\<lambda>ps. concat (map (\<lambda>(k, owner, dest). case ?T k of None \<Rightarrow> [] | Some t \<Rightarrow> [(k, owner, dest, t)]) ps)"
  have vis: "distinct (map fst ?ps)" "\<And>k t. k \<in> fst ` set ?ps \<Longrightarrow> ?T k = Some t \<Longrightarrow> wt_vault t = ?V"
    "\<And>k. k \<in> fst ` set ?ps \<Longrightarrow> svm_get_account svm L k = (if ?T k = None then None else Some (L k))"
    "\<And>j t. ?T j = Some t \<Longrightarrow> wt_vault t = ?V \<Longrightarrow> wt_owner t \<in> fu_key ` set (fx_users fx)"
    using assms(1) unfolding tickets_visible_def by blast+
  have probed: "j \<in> set (map fst ?ps)" if t: "?T j = Some t" "wt_vault t = ?V" for j t
  proof -
    have "at_home (find_program_address E) j (WithdrawalTicketAccount t)"
      by (rule typed_ledgerD [OF assms(2)]) (use t(1) in \<open>simp add: ticket_at_Some_iff stored_def\<close>)
    then have "j = fst (ticket_find_address (find_program_address E) ?V (wt_owner t) (word_of_nat (unat (wt_ticket_index t))))"
      using t(2) by simp
    moreover have "unat (wt_ticket_index t) < 256" using unat_lt_len [of "wt_ticket_index t"] by simp
    moreover obtain u where "u \<in> set (fx_users fx)" "wt_owner t = fu_key u" using vis(4) [OF t] by blast
    ultimately show ?thesis by (force simp: ticket_probes_def image_iff)
  qed
  have sums: "sum_list (map (\<lambda>k. case ?T k of None \<Rightarrow> 0 | Some t \<Rightarrow> open_shares ?V t) (map fst ?ps)) = ticket_total (open_shares ?V) ?T"
    "sum_list (map (\<lambda>k. case ?T k of None \<Rightarrow> 0 | Some t \<Rightarrow> owed_assets ?V t) (map fst ?ps)) = ticket_total (owed_assets ?V) ?T"
    using probed by (intro sum_over_probes [OF vis(1) assms(3)]; fastforce simp: open_shares_def owed_assets_def)+
  have parts: "sum_list (map (\<lambda>(_, _, _, t). unat (wt_shares_burned t)) (filter (\<lambda>(_, _, _, t). wt_assets_owed t = 0) (?live ps))) =
      sum_list (map (\<lambda>k. case ?T k of None \<Rightarrow> 0 | Some t \<Rightarrow> open_shares ?V t) (map fst ps))"
    "sum_list (map (\<lambda>(_, _, _, t). unat (wt_assets_owed t)) (?live ps)) =
      sum_list (map (\<lambda>k. case ?T k of None \<Rightarrow> 0 | Some t \<Rightarrow> owed_assets ?V t) (map fst ps))"
    if "set ps \<subseteq> set ?ps" for ps
    using that vis(2)
    by (induction ps) (auto simp: open_shares_def owed_assets_def image_iff split: option.splits)
  show thesis
    using that [of "?live ?ps"] collect_tickets_visible [of ?ps svm L E] vis(3) parts [of ?ps] sums by (simp add: live_tickets_def)
qed


text \<open>An execution in which the program does not call itself is one of those in which it may.\<close>

lemma quiet_ledger_step: "quiet_step E W L L' \<Longrightarrow> ledger_step E W L L'"
proof (induction rule: quiet_step.induct)
  case (own_step F program_id accounts data L L')
  have "sound_env E W F" using own_step(1,2) by (intro nested_calls) (auto simp: quiet_env_def)
  then show ?case using own_step(4) by (rule own_instruction)
qed (rule other_program)

lemma quiet_ledger_steps: "(quiet_step E W)\<^sup>*\<^sup>* L L' \<Longrightarrow> (ledger_step E W)\<^sup>*\<^sup>* L L'"
  by (induction rule: rtranclp_induct) (auto intro: rtranclp.rtrancl_into_rtrancl quiet_ledger_step)

text \<open>
  The invariant of the fuzz harness cannot fail: along every execution in which the program does
  not call itself, from a ledger with a queue backed by its tickets, a check that finds the three token
  totals conserved passes. It finds the vault readable, its rates in range, its watermark not below
  the one of an earlier check and its counters equal to the sums over the live tickets, and remembers
  the new watermark for the next check.
\<close>
lemma fuzz_invariant_holds:
  assumes "quiet_env E" and "(quiet_step E W)\<^sup>*\<^sup>* L L'" and "typed_ledger E L" and "queue_backed E (ai_key a) L"
    and "load_checked E L a = Inr v" and "fx_vault fx = ai_key a" and "fx_prev_high_watermark fx \<le> v_high_watermark v"
    and "tagged_ok E dv da" and "tickets_visible E svm fx L'" and "tokens_conserved svm fx L'"
  shows "\<exists>v'. load_checked E L' a = Inr v' \<and>
     invariant_core E svm dv L' fx = Some (fx\<lparr>fx_prev_high_watermark := v_high_watermark v'\<rparr>)"
proof -
  have "codec_ok E" using assms(1) by (simp add: quiet_env_def)
  then obtain v' where v': "load_checked E L' a = Inr v'" and e: "evolves v v'"
    using execution_keeps_vault [OF _ quiet_ledger_steps [OF assms(2)] assms(5)] by blast
  let ?fx = "fx\<lparr>fx_prev_high_watermark := v_high_watermark v'\<rparr>"
  have read: "svm_get_account svm L' (fx_vault fx) = Some (L' (ai_key a))" "vault_from_account_data dv (c_data (L' (ai_key a))) = Inr v'"
    using assms(6,9) v' by (auto simp: tickets_visible_def load_checked_Inr_iff vault_from_account_data_Inr_iff [OF assms(8)])
  have rates: "v_performance_fee_bps v' \<le> MAX_BPS" "v_withdrawal_buffer_bps v' \<le> MAX_BPS"
    using load_checked_valid [OF v']
    by (auto simp: vault_validate_state_Inr_iff validate_config_Inr_iff MAX_BPS_def word_le_nat_alt)
  have mark: "\<not> v_high_watermark v' < fx_prev_high_watermark fx" using e assms(7) by (auto simp: evolves_def not_less)
  have backed: "queue_backed E (ai_key a) L'" using quiet_steps_backed [OF assms(1,2,4)] .
  then have fin: "finite (dom (ticket_at E L'))" by (simp add: queue_backed_iff)
  have "finite (dom (ticket_at E L))" using assms(4) by (simp add: queue_backed_iff)
  then have typed: "typed_ledger E L'" using quiet_steps_typed [OF assms(1-3)] by blast
  have "tickets_visible E svm ?fx L'" using assms(9) by (simp add: tickets_visible_def ticket_probes_def)
  then obtain tickets where t: "live_tickets E svm L' ?fx = Some tickets"
    "sum_list (map (\<lambda>(_, _, _, t). unat (wt_shares_burned t)) (filter (\<lambda>(_, _, _, t). wt_assets_owed t = 0) tickets)) =
       unat (v_requested_withdrawal_shares v')"
    "sum_list (map (\<lambda>(_, _, _, t). unat (wt_assets_owed t)) tickets) = unat (v_pending_withdrawal_assets v')"
    using backed v' assms(6) by (auto simp: queue_backed_iff elim: live_totals [OF _ typed fin])
  have "ucast (v_requested_withdrawal_shares v') =
      sum_list (map (\<lambda>(_, _, _, t). ucast (wt_shares_burned t) :: u128) (filter (\<lambda>(_, _, _, t). wt_assets_owed t = 0) tickets))"
    "ucast (v_pending_withdrawal_assets v') = sum_list (map (\<lambda>(_, _, _, t). ucast (wt_assets_owed t) :: u128) tickets)"
    using t(2,3) by (simp_all add: ucast_sum)
  then have "invariant_core E svm dv L' fx = Some ?fx"
    using assms(10) [unfolded tokens_conserved_def, THEN conjunct1]
      assms(10) [unfolded tokens_conserved_def, THEN conjunct2, THEN conjunct1]
      assms(10) [unfolded tokens_conserved_def, THEN conjunct2, THEN conjunct2]
    using read rates mark t(1) by (auto simp: invariant_core_def Let_def)
  with v' show ?thesis by blast
qed


text \<open>A run over one user with one queued ticket.\<close>

definition spread_address :: pda_function where
  "spread_address seeds program =
     (if hd seeds = TICKET_SEED then (22 + 1000 * ucast (hd (seeds ! 3)), 254) else example_address seeds program)"

definition spread_env :: env where
  "spread_env = example_env\<lparr>find_program_address := spread_address\<rparr>"

definition stocked_svm :: svm where
  "stocked_svm = example_svm\<lparr>svm_get_account := (\<lambda>L k. if c_data (L k) = [] then None else Some (L k))\<rparr>"

definition example_user :: fuzz_user where
  "example_user = \<lparr>fu_key = 40, fu_base_ata = 30, fu_share_ata = 31, fu_asset_ata = 32, fu_token_2022_asset_ata = 33,
     fu_access_proof = []\<rparr>"

definition example_fixture :: roshi_fixture where
  "example_fixture =
     \<lparr>fx_program_id = 401, fx_config_pda = 402, fx_operator = 403, fx_program_authority_alt = 404,
      fx_vault_authority_alt = 405, fx_strategist = 406, fx_strategist_alt = 407, fx_swap_authority = 408,
      fx_swap_authority_alt = 409, fx_nav_authority = 410, fx_nav_authority_alt = 411,
      fx_withdrawal_authority = 412, fx_withdrawal_authority_alt = 413, fx_external_authority = 414,
      fx_vault = 20, fx_share_mint = 7, fx_base_mint = 6, fx_treasury = 415, fx_sub_account = 416,
      fx_custody = 21, fx_withdraw_sub_account = 417, fx_withdraw_custody = 418, fx_external_account = 419,
      fx_external_destination = 420, fx_manage_action = 421, fx_rebalance_to_withdraw_action = 422,
      fx_swap_custody = 423, fx_swap_forward_action = 424, fx_swap_reverse_action = 425, fx_atomic_venue = 426,
      fx_atomic_action = 427, fx_deploy_action = 428, fx_revocable_action = 429,
      fx_revocable_action_hash = 430, fx_members_root = 0,
      fx_outsider = example_user\<lparr>fu_key := 41\<rparr>, fx_users = [example_user],
      fx_base_accounts = [21, 30], fx_initial_base = 15000, fx_asset_mint = 431, fx_asset_pda = 432,
      fx_asset_custody = 433, fx_asset_swap_custody = 434, fx_asset_swap_forward_action = 435,
      fx_asset_swap_reverse_action = 436, fx_pyth_account = 500, fx_scope_prices_account = 437,
      fx_scope_mappings_account = 438, fx_asset_accounts = [], fx_initial_asset = 0,
      fx_token_2022_asset_mint = 439, fx_token_2022_asset_pda = 440, fx_token_2022_asset_custody = 441,
      fx_token_2022_swap_custody = 442, fx_token_2022_swap_forward_action = 443,
      fx_token_2022_swap_reverse_action = 444, fx_transfer_fee_token_2022_mint = 445,
      fx_transfer_fee_token_2022_asset_pda = 446, fx_token_2022_asset_accounts = [],
      fx_initial_token_2022_asset = 0, fx_report_nonce = 0, fx_prev_high_watermark = 0\<rparr>"

lemma example_fixture_simps [simp]:
  "fx_vault example_fixture = 20" "fx_operator example_fixture = 403" "fx_users example_fixture = [example_user]"
  "fx_prev_high_watermark example_fixture = 0" "fx_pyth_account example_fixture = 500" "fu_key example_user = 40"
  by (simp_all add: example_fixture_def example_user_def)

lemma spread_quiet: "quiet_env spread_env"
  using example_quiet(1) by (simp add: quiet_env_def codec_ok_def runtime_ok_def spread_env_def)

lemma spread_tickets: "ticket_at spread_env L = ticket_at example_env L"
  by (simp add: ticket_at_def spread_env_def fun_eq_iff)

lemma spread_probes:
  "map fst (ticket_probes spread_env example_fixture) = map (\<lambda>i. 22 + 1000 * word_of_nat i) [0..<256]"
proof -
  have "ucast (word_of_nat i :: u8) = (word_of_nat i :: key)" if "i < 256" for i
  proof -
    have "unat (word_of_nat i :: u8) = i" using that by (simp add: unat_of_nat take_bit_nat_def)
    then show ?thesis by (metis of_nat_unat)
  qed
  then show ?thesis
    by (auto simp: ticket_probes_def ticket_find_address_def spread_env_def spread_address_def)
qed

lemma spread_load: "load_checked spread_env queued_ledger (handle 20 s w) = Inr queued_vault"
proof -
  have "vault_verify_address spread_address queued_vault 20 = vault_verify_address example_address queued_vault 20"
    by (simp add: vault_verify_address_def vault_find_address_def spread_address_def VAULT_SEED_def TICKET_SEED_def ascii_def
        split: sum.splits)
  then show ?thesis
    using queued_load(1) [of queued_ticket s w] by (simp add: load_checked_Inr_iff spread_env_def example_env_def)
qed

lemma spread_typed: "typed_ledger spread_env queued_ledger"
proof -
  have "at_home spread_address 22 (WithdrawalTicketAccount queued_ticket)"
    by (simp add: ticket_find_address_def spread_address_def)
  moreover have "stored spread_env queued_ledger j acc \<longleftrightarrow> stored example_env queued_ledger j acc" for j acc
    by (simp add: stored_def spread_env_def)
  ultimately show ?thesis using queued_stored by (fastforce simp: typed_ledger_def spread_env_def)
qed

lemma spread_visible: "tickets_visible spread_env stocked_svm example_fixture queued_ledger"
proof -
  let ?ks = "map (\<lambda>i. 22 + 1000 * word_of_nat i :: key) [0..<256]"
  have inj: "i = j" if "i < 256" "j < 256" "1000 * word_of_nat i = (1000 * word_of_nat j :: key)" for i j :: nat
  proof -
    have "unat (1000 * word_of_nat n :: key) = 1000 * n" if "n < 256" for n
      using that by (simp add: unat_word_ariths unat_of_nat take_bit_nat_def)
    then show ?thesis using that by (metis mult_left_cancel zero_neq_numeral)
  qed
  have "distinct ?ks" by (auto simp: distinct_map intro!: inj_onI dest: inj)
  moreover have rest: "c_data (queued_ledger (22 + 1000 * word_of_nat i)) = [] \<and> ticket_at example_env queued_ledger (22 + 1000 * word_of_nat i) = None"
    if "0 < i" "i < 256" for i
  proof -
    have "unat (22 + 1000 * word_of_nat i :: key) = 22 + 1000 * i"
      using that by (simp add: unat_word_ariths unat_of_nat take_bit_nat_def)
    then have "22 + 1000 * word_of_nat i \<noteq> (k :: key)" if "unat k < 1022" for k using that \<open>0 < i\<close> by auto
    from this [of 20] this [of 22] this [of 7] this [of 21] this [of 30] this [of 31] show ?thesis
      unfolding queued_tickets by (simp add: ticket_ledger_def example_ledger_def)
  qed
  moreover have full: "c_data (queued_ledger 22) \<noteq> []" "c_data (queued_ledger 20) \<noteq> []"
    by (simp_all add: ticket_ledger_def)
  have "svm_get_account stocked_svm queued_ledger k =
        (if ticket_at example_env queued_ledger k = None then None else Some (queued_ledger k)) \<and>
      (\<forall>t. ticket_at example_env queued_ledger k = Some t \<longrightarrow> wt_vault t = 20)"
    if "k \<in> fst ` set (ticket_probes spread_env example_fixture)" for k
  proof -
    from that obtain i where i: "i < 256" "k = 22 + 1000 * word_of_nat i"
      using arg_cong [OF spread_probes, of set] by auto
    show ?thesis
    proof (cases "i = 0")
      case True
      then show ?thesis using i full by (simp add: stocked_svm_def queued_tickets)
    next
      case False
      then have "c_data (queued_ledger k) = []" "ticket_at example_env queued_ledger k = None" using rest [of i] i by auto
      then show ?thesis by (simp add: stocked_svm_def)
    qed
  qed
  ultimately show ?thesis
    using full by (simp add: tickets_visible_def spread_probes spread_tickets)
      (simp add: stocked_svm_def queued_tickets)
qed

lemma spread_invariant:
  "queue_backed spread_env (ai_key (handle 20 False False)) queued_ledger"
  "tagged_ok spread_env (map_option fst \<circ> get_vault) (map_option fst \<circ> get_asset)"
  "tokens_conserved stocked_svm example_fixture queued_ledger"
proof -
  show "queue_backed spread_env (ai_key (handle 20 False False)) queued_ledger"
    using queued_backed [of queued_ticket] spread_load queued_load(1) [of queued_ticket]
    by (simp add: queue_backed_def spread_tickets)
  show "tagged_ok spread_env (map_option fst \<circ> get_vault) (map_option fst \<circ> get_asset)"
    using wire_tagged_ok by (simp add: tagged_ok_def spread_env_def)
  show "tokens_conserved stocked_svm example_fixture queued_ledger"
    by (simp add: tokens_conserved_def example_fixture_def fuzz_token_balance_def stocked_svm_def ticket_ledger_def
        example_ledger_def token_account_bytes_def get_slice_def)
qed

end
