(* ===== verification/Fuzz_Predictions.thy ===== *)
theory Fuzz_Predictions
  imports Fuzz_Harness
begin

text \<open>
  \<open>fuzz/src/fixture/deposits.rs\<close> and \<open>nav_fees.rs\<close>: what the fuzz harness predicts of a deposit and
  of a NAV report before it submits them. The predictions are reference definitions of the two
  handlers, written without their accounts; here they are shown to be exact.
\<close>

section \<open>Definitions\<close>

definition BASE_DECIMALS :: u8 where "BASE_DECIMALS = 6"
definition ASSET_DECIMALS :: u8 where "ASSET_DECIMALS = 6"

datatype deposit_expectation = Success | Rejection

definition asset_deposit_expectation ::
  "svm \<Rightarrow> ledger \<Rightarrow> roshi_fixture \<Rightarrow> i64 \<Rightarrow> vault \<Rightarrow> u64 \<Rightarrow> oracle_price \<Rightarrow> oracle_price \<Rightarrow> deposit_expectation option" where
  "asset_deposit_expectation svm L fx now v amount asset_price base_price =
     (case deposits_paused v of Inl _ \<Rightarrow> None | Inr paused \<Rightarrow>
      if paused then Some Rejection else
      (case base_atoms_from_asset_atoms amount asset_price base_price ASSET_DECIMALS BASE_DECIMALS of
         Inl _ \<Rightarrow> Some Rejection
       | Inr base_atoms \<Rightarrow>
      if isl (total_assets_after_deposit v base_atoms) then Some Rejection else
      Option.bind (fuzz_mint_supply svm L (fx_share_mint fx)) (\<lambda>supply.
      case economic_share_supply v supply of Inl _ \<Rightarrow> Some Rejection | Inr economic_supply \<Rightarrow>
      (case effective_total_assets v now of Inl _ \<Rightarrow> Some Rejection | Inr effective \<Rightarrow>
      if economic_supply \<noteq> 0 \<and>
         (case share_price_from_assets effective economic_supply of Inl _ \<Rightarrow> True | Inr price \<Rightarrow> price = 0)
      then Some Rejection else
      (case shares_for_deposit base_atoms effective economic_supply BASE_DECIMALS of
         Inl _ \<Rightarrow> Some Rejection
       | Inr _ \<Rightarrow> Some Success)))))"

definition expected_fee_base :: "vault \<Rightarrow> u128 \<Rightarrow> u64 option" where
  "expected_fee_base before gross =
     Option.bind (checked_sub gross (ucast (v_fees_payable before))) (\<lambda>assets.
     Option.bind (checked_sub assets (ucast (v_pending_withdrawal_assets before))) (\<lambda>assets.
     try_from assets))"

definition expected_nav :: "vault \<Rightarrow> u128 \<Rightarrow> u64 \<Rightarrow> (u64 \<times> u64 \<times> u64) option" where
  "expected_nav before gross economic_supply =
     Option.bind (expected_fee_base before gross) (\<lambda>fee_base.
     case performance_fee_for_nav fee_base economic_supply (v_high_watermark before) (v_performance_fee_bps before) of
       Inl _ \<Rightarrow> None | Inr r \<Rightarrow> Some r)"

definition report_expected :: "vault \<Rightarrow> u128 \<Rightarrow> u64 \<Rightarrow> i64 \<Rightarrow> bool" where
  "report_expected before gross economic_supply now =
     (let interval_ok = \<not> isl (verify_report_interval before now);
          bound_ok = (case expected_nav before gross economic_supply of
              Some (_, net_total_assets, _) \<Rightarrow> \<not> isl (verify_nav_gain_bound before net_total_assets economic_supply)
            | None \<Rightarrow> True)
      in expected_nav before gross economic_supply \<noteq> None \<and> interval_ok \<and> bound_ok)"

section \<open>Reports\<close>

lemma result_option_Some_iff [simp]: "(case m of Inl _ \<Rightarrow> None | Inr r \<Rightarrow> Some r) = Some x \<longleftrightarrow> m = Inr x"
  by (cases m) auto

lemma expected_fee_base_u64:
  "expected_fee_base v (ucast (gross :: u64)) =
     Option.bind (checked_sub gross (v_fees_payable v)) (\<lambda>assets. checked_sub assets (v_pending_withdrawal_assets v))"
proof -
  have le: "(ucast a :: u128) \<le> ucast b \<longleftrightarrow> a \<le> b" for a b :: u64 by (simp add: word_le_nat_alt unat_ucast_up)
  have sub: "(ucast b - ucast a :: u128) = ucast (b - a)" if "a \<le> b" for a b :: u64
    using that by (intro word_unat_eq_iff [THEN iffD2]) (simp add: unat_sub le unat_ucast_up word_le_nat_alt)
  have cast: "try_from (ucast a :: u128) = Some a" for a :: u64
  proof -
    have "ucast (ucast a :: u128) = a" by transfer simp
    then show ?thesis using unat_lt_len [of a] by (simp add: try_from_def)
  qed
  show ?thesis by (auto simp: expected_fee_base_def checked_sub_def le sub cast)
qed


text \<open>A report that is accounted for was predicted, and a predicted one is accounted for.\<close>

lemma accounted_report_was_predicted:
  assumes "account_nav_report Ordinary v gross supply hash now = Inr v'"
  shows "\<exists>fee net hwm. expected_nav v (ucast gross) supply = Some (fee, net, hwm) \<and>
      verify_nav_gain_bound v net supply = Inr () \<and>
      v_fees_payable v' = v_fees_payable v + fee \<and> v_total_assets v' = net \<and> v_high_watermark v' = hwm"
proof -
  from assms obtain base fee net hwm fees epoch v1 where
    base: "Option.bind (checked_sub gross (v_fees_payable v)) (\<lambda>a. checked_sub a (v_pending_withdrawal_assets v)) = Some base"
    and pf: "performance_fee_for_nav base supply (v_high_watermark v) (v_performance_fee_bps v) = Inr (fee, net, hwm)"
    and gain: "verify_nav_gain_bound v net supply = Inr ()" and fees: "checked_add (v_fees_payable v) fee = Some fees"
    and ap: "apply_reported_nav (v\<lparr>v_fees_payable := fees, v_high_watermark := hwm, v_report_epoch := epoch,
         v_last_report_hash := hash\<rparr>) net now = Inr v1" and v': "v' = v1\<lparr>v_last_update_ts := now\<rparr>"
    by (fastforce simp: account_nav_report_def result_facts split: prod.splits if_splits)
  note f = apply_reported_nav_frame [OF ap]
  have "v_fees_payable v1 = fees" "v_high_watermark v1 = hwm" by (subst f(6); simp)+
  moreover have "fees = v_fees_payable v + fee" using fees by (simp add: checked_add_def split: if_splits)
  ultimately show ?thesis using base pf gain f(1) v' by (simp add: expected_nav_def expected_fee_base_u64)
qed

lemma predicted_report_is_accounted:
  assumes "vault_validate_state v = Inr ()" and "0 \<le> sint (v_profit_unlock_start_ts v)"
    and "sint now + report_window v now < 2 ^ 63" and "unat (v_report_epoch v) + 1 < 2 ^ 64"
    and e: "expected_nav v (ucast gross) supply = Some (fee, net, hwm)" and gain: "verify_nav_gain_bound v net supply = Inr ()"
  shows "\<exists>v'. account_nav_report Ordinary v gross supply hash now = Inr v'"
proof -
  from e obtain base where
    base: "Option.bind (checked_sub gross (v_fees_payable v)) (\<lambda>a. checked_sub a (v_pending_withdrawal_assets v)) = Some base"
    and pf: "performance_fee_for_nav base supply (v_high_watermark v) (v_performance_fee_bps v) = Inr (fee, net, hwm)"
    by (auto simp: expected_nav_def expected_fee_base_u64 bind_eq_Some_conv)
  have "unat (v_fees_payable v) + unat fee \<le> unat gross"
    using base performance_fee_conserves(1) [OF pf]
    by (auto simp: bind_eq_Some_conv checked_sub_Some_iff)
  then have "unat (v_fees_payable v) + unat fee < 2 ^ 64" using unat_lt_len [of gross] by simp
  then obtain fees where fees: "checked_add (v_fees_payable v) fee = Some fees" by (auto simp: checked_add_def)
  obtain epoch where epoch: "checked_add (v_report_epoch v) 1 = Some epoch" using assms(4) by (auto simp: checked_add_def)
  let ?w = "v\<lparr>v_fees_payable := fees, v_high_watermark := hwm, v_report_epoch := epoch, v_last_report_hash := hash\<rparr>"
  have "\<exists>v1. apply_reported_nav ?w net now = Inr v1"
    using assms(1-3) by (intro apply_reported_nav_total) simp_all
  then show ?thesis using base pf gain fees epoch by (auto simp: account_nav_report_def)
qed

text \<open>
  C35. The harness predicts NAV reports exactly: with a clock away from the end of time and an epoch
  that can advance, an ordinary report of gross assets passes the interval check and is accounted for
  exactly when the prediction says so, and then fees, net assets and watermark are the predicted
  ones.
\<close>
theorem nav_prediction_is_exact:
  assumes "vault_validate_state v = Inr ()" and "0 \<le> sint (v_profit_unlock_start_ts v)"
    and "sint now + report_window v now < 2 ^ 63" and "unat (v_report_epoch v) + 1 < 2 ^ 64"
  shows "(verify_report_interval v now = Inr () \<and> (\<exists>v'. account_nav_report Ordinary v gross supply hash now = Inr v')
       \<longleftrightarrow> report_expected v (ucast gross) supply now) \<and>
     (\<forall>v'. account_nav_report Ordinary v gross supply hash now = Inr v' \<longrightarrow>
        (\<exists>fee net hwm. expected_nav v (ucast gross) supply = Some (fee, net, hwm) \<and>
           v_fees_payable v' = v_fees_payable v + fee \<and> v_total_assets v' = net \<and> v_high_watermark v' = hwm))"
proof -
  have pass: "\<not> isl r \<longleftrightarrow> r = Inr ()" for r :: "unit program_result" by (cases r) auto
  note up = accounted_report_was_predicted [of v gross "supply" hash now] and down = predicted_report_is_accounted [OF assms]
  have "(\<exists>v'. account_nav_report Ordinary v gross supply hash now = Inr v') \<longleftrightarrow>
      (\<exists>fee net hwm. expected_nav v (ucast gross) supply = Some (fee, net, hwm) \<and> verify_nav_gain_bound v net supply = Inr ())"
    using up down by blast
  then show ?thesis
    using up by (auto simp: report_expected_def Let_def pass)
qed

theorem nav_prediction_is_exact_witness:
  "report_expected (example_vault\<lparr>v_fees_payable := 50, v_pending_withdrawal_assets := 40\<rparr>) 12090 10000000 2500 \<and>
   expected_nav (example_vault\<lparr>v_fees_payable := 50, v_pending_withdrawal_assets := 40\<rparr>) 12090 10000000 = Some (200, 11800, 1180000)"
proof -
  let ?v = "example_vault\<lparr>v_fees_payable := 50, v_pending_withdrawal_assets := 40\<rparr>"
  have v: "vault_validate_state ?v = Inr ()" "0 \<le> sint (v_profit_unlock_start_ts ?v)"
    "sint (2500 :: i64) + report_window ?v 2500 < 2 ^ 63" "unat (v_report_epoch ?v) + 1 < 2 ^ 64"
    "verify_report_interval ?v 2500 = Inr ()"
    using example_vault_valid
    by (simp_all add: report_window_def verify_report_interval_def) (simp_all add: example_vault_def vault_controls_new_def)
  have fee: "fee = 200" if "250 = 50 + fee" for fee :: u64
  proof -
    have "fee = (50 + fee) - 50" by simp
    also have "\<dots> = 200" unfolding that [symmetric] by simp
    finally show ?thesis .
  qed
  note exact = nav_prediction_is_exact [OF v(1-4), of 12090 10000000 7]
  from exact [THEN conjunct2, rule_format, OF example_report] obtain f where
    f: "expected_nav ?v (ucast (12090 :: u64)) 10000000 = Some (f, 11800, 1180000)" "250 = 50 + f" by auto
  have "report_expected ?v (ucast (12090 :: u64)) 10000000 2500"
    using exact [THEN conjunct1] v(5) example_report by blast
  moreover have "expected_nav ?v (ucast (12090 :: u64)) 10000000 = Some (200, 11800, 1180000)"
    using f(1) unfolding fee [OF f(2)] .
  moreover have "(ucast (12090 :: u64) :: u128) = 12090" by simp
  ultimately show ?thesis by metis
qed

section \<open>Deposits\<close>

text \<open>
  C36. The harness predicts deposits exactly: given the price the deposit resolves to, a deposit of a
  depositor on the list, without a bound on the shares, is refused when a rejection is expected, and
  when success is expected it does everything but the two token calls and the final write, which
  alone decide.
\<close>
theorem deposit_prediction_is_exact:
  assumes "deposits_paused (dc_vault ctx) = Inr paused"
    and "allows_depositor (sha256 E) (dc_vault ctx) (ai_key (dc_depositor ctx)) (da_access_proof args)"
    and "da_min_shares_out args = 0" and "v_base_decimals (dc_vault ctx) = BASE_DECIMALS"
    and "resolve_base_atoms E L ctx args =
       lift_math (base_atoms_from_asset_atoms (da_amount args) asset_price base_price ASSET_DECIMALS BASE_DECIMALS)"
    and "mint_supply L (dc_share_mint ctx) = Inr n" and "fuzz_mint_supply svm L (fx_share_mint fx) = Some n"
    and "get_clock E = Inr clk"
  shows "case asset_deposit_expectation svm L fx (unix_timestamp clk) (dc_vault ctx) (da_amount args) asset_price base_price of
       None \<Rightarrow> False
     | Some Rejection \<Rightarrow> \<exists>e. execute_deposit E ctx args L = Inl e
     | Some Success \<Rightarrow> \<exists>shares total_after. execute_deposit E ctx args L =
         attempt (token_transfer E (dc_asset_token_program ctx) (dc_source ctx) (dc_custody ctx) (dc_depositor ctx)
                    (da_amount args) L) (\<lambda>L1.
         attempt (tag_seed (dc_vault ctx)) (\<lambda>tag.
         attempt (mint_to_signed E (dc_share_token_program ctx) (dc_share_mint ctx) (dc_share_dest ctx)
                    (dc_vault_account ctx) shares
                    [VAULT_SEED, tag, key_bytes (v_base_mint (dc_vault ctx)), [v_bump (dc_vault ctx)]] L1) (\<lambda>L2.
         store_account E (VaultAccount ((dc_vault ctx)\<lparr>v_total_assets := total_after\<rparr>)) (dc_vault_account ctx) L2)))"
proof -
  let ?v = "dc_vault ctx" and ?now = "unix_timestamp clk"
  note facts = assms(2-8) execute_deposit_def asset_deposit_expectation_def Let_def
  show ?thesis
  proof (cases "paused \<or> isl (base_atoms_from_asset_atoms (da_amount args) asset_price base_price ASSET_DECIMALS BASE_DECIMALS)")
    case True
    then show ?thesis using assms(1) by (auto simp: facts isl_def split: sum.splits)
  next
    case False
    then obtain b where p: "deposits_paused ?v = Inr False"
      and b: "base_atoms_from_asset_atoms (da_amount args) asset_price base_price ASSET_DECIMALS BASE_DECIMALS = Inr b"
      using assms(1) by (auto simp: isl_def) (metis sum.exhaust)
    note money = facts p b
    show ?thesis
    proof (cases "total_assets_after_deposit ?v b")
      case (Inr total)
      note money = money this
      show ?thesis
      proof (cases "economic_share_supply ?v n")
        case (Inr S)
        note money = money this
        show ?thesis
        proof (cases "effective_total_assets ?v ?now")
          case (Inr A)
          note money = money this
          show ?thesis
            by (cases "share_price_from_assets A S"; cases "shares_for_deposit b A S BASE_DECIMALS")
               (auto simp: money intro!: exI)
        qed (simp add: money)
      qed (simp add: money)
    qed (simp add: money)
  qed
qed


text \<open>A deposit of 97 base atoms, which are worth themselves.\<close>

theorem deposit_prediction_is_exact_witness:
  "\<exists>shares total_after. execute_deposit example_env
       \<lparr>dc_depositor = handle 40 True False, dc_vault_account = handle 20 False True, dc_source = handle 30 False True,
        dc_custody = handle 21 False True, dc_share_dest = handle 31 False True, dc_share_mint = handle 7 False True,
        dc_share_token_program = handle TOKEN_PROGRAM_ID False False,
        dc_asset_token_program = handle TOKEN_PROGRAM_ID False False, dc_extra = [], dc_vault = example_vault\<rparr>
       (example_deposit\<lparr>da_min_shares_out := 0\<rparr>) example_ledger =
     attempt (token_transfer example_env (handle TOKEN_PROGRAM_ID False False) (handle 30 False True) (handle 21 False True)
                (handle 40 True False) 97 example_ledger) (\<lambda>L1.
     attempt (tag_seed example_vault) (\<lambda>tag.
     attempt (mint_to_signed example_env (handle TOKEN_PROGRAM_ID False False) (handle 7 False True) (handle 31 False True)
                (handle 20 False True) shares [VAULT_SEED, tag, key_bytes 6, [255]] L1) (\<lambda>L2.
     store_account example_env (VaultAccount (example_vault\<lparr>v_total_assets := total_after\<rparr>)) (handle 20 False True) L2)))"
proof -
  let ?ctx = "\<lparr>dc_depositor = handle 40 True False, dc_vault_account = handle 20 False True, dc_source = handle 30 False True,
    dc_custody = handle 21 False True, dc_share_dest = handle 31 False True, dc_share_mint = handle 7 False True,
    dc_share_token_program = handle TOKEN_PROGRAM_ID False False,
    dc_asset_token_program = handle TOKEN_PROGRAM_ID False False, dc_extra = [], dc_vault = example_vault\<rparr>"
  let ?args = "example_deposit\<lparr>da_min_shares_out := 0\<rparr>"
  have v: "v_base_decimals example_vault = 6" "v_base_mint example_vault = 6" "v_bump example_vault = 255"
    "get_clock example_env = Inr \<lparr>clock_slot = 700, unix_timestamp = 2500\<rparr>"
    "find_program_address example_env = example_address"
    by (simp_all add: example_vault_def example_env_def)
  have worth: "base_atoms_from_asset_atoms 97 UNIT UNIT ASSET_DECIMALS BASE_DECIMALS = Inr 97"
    by (simp add: base_atoms_from_asset_atoms_def ASSET_DECIMALS_def BASE_DECIMALS_def UNIT_def net_decimals_def pow10_def
        checked_mul_def checked_pow_def try_from_def checked_u64_def mul_div_floor_def)
  have resolve: "resolve_base_atoms example_env example_ledger ?ctx ?args =
      lift_math (base_atoms_from_asset_atoms (da_amount ?args) UNIT UNIT ASSET_DECIMALS BASE_DECIMALS)"
    using v worth by (simp add: resolve_base_atoms_def associated_token_address_def example_address_def example_deposit_def Let_def)
  have fuzz: "fuzz_mint_supply stocked_svm example_ledger (fx_share_mint example_fixture) = Some 9700000"
    by (simp add: fuzz_mint_supply_def stocked_svm_def example_fixture_def example_ledger_def mint_bytes_def get_slice_def)
  have "asset_deposit_expectation stocked_svm example_ledger example_fixture 2500 example_vault 97 UNIT UNIT = Some Success"
    using worth fuzz example_vault_pricing example_vault_effective example_prices
    by (simp add: asset_deposit_expectation_def BASE_DECIMALS_def)
  then show ?thesis
    using deposit_prediction_is_exact [of ?ctx False example_env ?args example_ledger UNIT UNIT 9700000 stocked_svm example_fixture]
      v resolve fuzz example_vault_pricing example_supply
    by (simp add: example_deposit_def BASE_DECIMALS_def)
qed

end
