(* ===== verification/Client_Instructions.thy ===== *)
theory Client_Instructions
  imports Processor
begin

text \<open>
  \<open>crates/client/src/instruction\<close>: one builder per instruction, which lists the accounts in the order
  of the handler, with the privileges requested for each, and serializes the arguments behind the
  tag of their type. A failure of the serializer is \<open>None\<close>.
\<close>

section \<open>Serialization\<close>

text \<open>
  \<open>serialize_instruction\<close> of \<open>interface/src/instructions/mod.rs\<close>, generic over argument types with an
  associated \<open>TAG\<close>; the instruction stands for its argument structure.
\<close>

primrec args_TAG :: "roshi_instruction \<Rightarrow> u8" where
  "args_TAG (InitializeProgram args) = INITIALIZE_PROGRAM"
| "args_TAG (InitializeVault args) = INITIALIZE_VAULT"
| "args_TAG (AuthorizeAction args) = AUTHORIZE_ACTION"
| "args_TAG (RevokeAction args) = REVOKE_ACTION"
| "args_TAG (Manage args) = MANAGE"
| "args_TAG (ManageBatch args) = MANAGE_BATCH"
| "args_TAG (ReportNav args) = REPORT_NAV"
| "args_TAG (Deposit args) = DEPOSIT"
| "args_TAG (Redeem args) = REDEEM"
| "args_TAG (CancelRedeem args) = CANCEL_REDEEM"
| "args_TAG ProcessWithdrawals = PROCESS_WITHDRAWALS"
| "args_TAG (UpdateVaultConfig args) = UPDATE_VAULT_CONFIG"
| "args_TAG (InitializeAsset args) = INITIALIZE_ASSET"
| "args_TAG (UpdateAsset args) = UPDATE_ASSET"
| "args_TAG (SetPauseFlags args) = SET_PAUSE_FLAGS"
| "args_TAG (SetVaultAccess args) = SET_VAULT_ACCESS"
| "args_TAG (TransferProgramAuthority args) = TRANSFER_PROGRAM_AUTHORITY"
| "args_TAG (TransferVaultAuthority args) = TRANSFER_VAULT_AUTHORITY"
| "args_TAG (SetStrategist args) = SET_STRATEGIST"
| "args_TAG (SetNavAuthority args) = SET_NAV_AUTHORITY"
| "args_TAG (SetWithdrawalAuthority args) = SET_WITHDRAWAL_AUTHORITY"
| "args_TAG (CollectFees args) = COLLECT_FEES"
| "args_TAG (InvestExternal args) = INVEST_EXTERNAL"
| "args_TAG (ReturnExternal args) = RETURN_EXTERNAL"
| "args_TAG (SetSwapAuthority args) = SET_SWAP_AUTHORITY"
| "args_TAG (AtomicRedeemInstruction args) = ATOMIC_REDEEM"
| "args_TAG (Swap args) = SWAP"
| "args_TAG (WriteDownFees args) = WRITE_DOWN_FEES"
| "args_TAG RegisterExternalDestination = REGISTER_EXTERNAL_DESTINATION"
| "args_TAG RevokeExternalDestination = REVOKE_EXTERNAL_DESTINATION"
| "args_TAG (SetShareMetadata args) = SET_SHARE_METADATA"
| "args_TAG AssertDelegateCleared = ASSERT_DELEGATE_CLEARED"
| "args_TAG (AdminSetFlashFeeRate args) = ADMIN_SET_FLASH_FEE_RATE"
| "args_TAG (StrategistLowerFlashFeeRate args) = STRATEGIST_LOWER_FLASH_FEE_RATE"
| "args_TAG (RecoverNav args) = RECOVER_NAV"
| "args_TAG (DepositAndDeploy args) = DEPOSIT_AND_DEPLOY"

definition serialize_instruction :: "payload_codec \<Rightarrow> roshi_instruction \<Rightarrow> bytes option" where
  "serialize_instruction W args = map_option (\<lambda>payload. [args_TAG args] @ payload) (serialize_payload W args)"

text \<open>\<open>AccountMeta::new\<close> and \<open>AccountMeta::new_readonly\<close>.\<close>

definition meta_new :: "key \<Rightarrow> bool \<Rightarrow> account_meta" where
  "meta_new k is_signer = \<lparr>am_pubkey = k, am_is_signer = is_signer, am_is_writable = True\<rparr>"

definition meta_readonly :: "key \<Rightarrow> bool \<Rightarrow> account_meta" where
  "meta_readonly k is_signer = \<lparr>am_pubkey = k, am_is_signer = is_signer, am_is_writable = False\<rparr>"

definition client_TOKEN_PROGRAM_ID :: key where
  "client_TOKEN_PROGRAM_ID = 0x06ddf6e1d765a193d9cbe146ceeb79ac1cb485ed5f5b37913a8cf5857eff00a9"

definition new_with_program_id ::
  "payload_codec \<Rightarrow> key \<Rightarrow> account_meta list \<Rightarrow> roshi_instruction \<Rightarrow> instruction option" where
  "new_with_program_id W program_id accounts args =
     map_option (\<lambda>data. \<lparr>ix_program_id = program_id, ix_accounts = accounts, ix_data = data\<rparr>) (serialize_instruction W args)"

definition new :: "payload_codec \<Rightarrow> account_meta list \<Rightarrow> roshi_instruction \<Rightarrow> instruction option" where
  "new W accounts args = new_with_program_id W ID accounts args"

section \<open>Program\<close>

definition initialize_program ::
  "payload_codec \<Rightarrow> key \<Rightarrow> key \<Rightarrow> key \<Rightarrow> instruction option" where
  "initialize_program W payer program_config authority =
     new W [meta_new payer True, meta_readonly ID True, meta_new program_config False,
       meta_readonly SYSTEM_PROGRAM_ID False]
       (InitializeProgram \<lparr>ipa_authority = authority\<rparr>)"

section \<open>Vault administration\<close>

definition initialize_vault ::
  "pda_function \<Rightarrow> payload_codec \<Rightarrow> key \<Rightarrow> key \<Rightarrow> key \<Rightarrow> key \<Rightarrow>
   initialize_vault_args \<Rightarrow> instruction option" where
  "initialize_vault pda W program_authority program_config payer vault args =
     new W [meta_readonly program_authority True, meta_readonly program_config False, meta_new payer True,
       meta_new vault False, meta_readonly (iva_base_mint args) False,
       meta_new (fst (find_share_mint_address pda vault)) False, meta_readonly (iva_treasury args) False,
       meta_readonly SYSTEM_PROGRAM_ID False, meta_readonly client_TOKEN_PROGRAM_ID False]
       (InitializeVault args)"

definition transfer_program_authority ::
  "payload_codec \<Rightarrow> key \<Rightarrow> key \<Rightarrow> key \<Rightarrow> instruction option" where
  "transfer_program_authority W authority program_config new_authority =
     new W [meta_readonly authority True, meta_new program_config False]
       (TransferProgramAuthority new_authority)"

definition transfer_vault_authority ::
  "payload_codec \<Rightarrow> key \<Rightarrow> key \<Rightarrow> key \<Rightarrow> instruction option" where
  "transfer_vault_authority W authority vault new_authority =
     new W [meta_readonly authority True, meta_new vault False]
       (TransferVaultAuthority new_authority)"

definition vault_admin_accounts :: "key \<Rightarrow> key \<Rightarrow> account_meta list" where
  "vault_admin_accounts admin vault =
      [meta_readonly admin True, meta_new vault False]"

definition set_strategist ::
  "payload_codec \<Rightarrow> key \<Rightarrow> key \<Rightarrow> key \<Rightarrow> instruction option" where
  "set_strategist W admin vault strategist =
     new W (vault_admin_accounts admin vault)
       (SetStrategist strategist)"

definition set_swap_authority ::
  "payload_codec \<Rightarrow> key \<Rightarrow> key \<Rightarrow> key \<Rightarrow> instruction option" where
  "set_swap_authority W admin vault swap_authority =
     new W (vault_admin_accounts admin vault)
       (SetSwapAuthority swap_authority)"

definition set_nav_authority ::
  "payload_codec \<Rightarrow> key \<Rightarrow> key \<Rightarrow> key \<Rightarrow> instruction option" where
  "set_nav_authority W admin vault nav_authority =
     new W (vault_admin_accounts admin vault)
       (SetNavAuthority nav_authority)"

definition set_withdrawal_authority ::
  "payload_codec \<Rightarrow> key \<Rightarrow> key \<Rightarrow> key \<Rightarrow> instruction option" where
  "set_withdrawal_authority W admin vault withdrawal_authority =
     new W (vault_admin_accounts admin vault)
       (SetWithdrawalAuthority withdrawal_authority)"

definition set_vault_access ::
  "payload_codec \<Rightarrow> key \<Rightarrow> key \<Rightarrow> bool \<Rightarrow> key \<Rightarrow> instruction option" where
  "set_vault_access W admin vault private access_merkle_root =
     new W (vault_admin_accounts admin vault)
       (SetVaultAccess \<lparr>sva_private = private, sva_access_merkle_root = access_merkle_root\<rparr>)"

definition set_pause_flags ::
  "payload_codec \<Rightarrow> key \<Rightarrow> key \<Rightarrow> bool \<Rightarrow> bool \<Rightarrow> bool \<Rightarrow> instruction option" where
  "set_pause_flags W admin vault deposits withdrawals manage_calls =
     new W (vault_admin_accounts admin vault)
       (SetPauseFlags \<lparr>spf_deposits_paused = deposits, spf_withdrawals_paused = withdrawals, spf_manage_paused = manage_calls\<rparr>)"

definition update_vault_config ::
  "payload_codec \<Rightarrow> key \<Rightarrow> key \<Rightarrow> update_vault_config_args \<Rightarrow> instruction option" where
  "update_vault_config W admin vault args =
     new W [meta_readonly admin True, meta_new vault False, meta_readonly (uvc_treasury args) False]
       (UpdateVaultConfig args)"

definition report_nav ::
  "payload_codec \<Rightarrow> key \<Rightarrow> key \<Rightarrow> key \<Rightarrow> key \<Rightarrow> key \<Rightarrow> key \<Rightarrow>
   u64 \<Rightarrow> key \<Rightarrow> instruction option" where
  "report_nav W nav_authority vault share_mint base_mint deposit_base_custody withdraw_base_custody
     external_value report_hash =
     new W [meta_readonly nav_authority True, meta_new vault False, meta_readonly share_mint False,
       meta_readonly base_mint False, meta_readonly deposit_base_custody False,
       meta_readonly withdraw_base_custody False]
       (ReportNav \<lparr>nr_external_value = external_value, nr_report_hash = report_hash\<rparr>)"

definition recover_nav ::
  "payload_codec \<Rightarrow> key \<Rightarrow> key \<Rightarrow> key \<Rightarrow> key \<Rightarrow> key \<Rightarrow> key \<Rightarrow>
   key \<Rightarrow> u64 \<Rightarrow> key \<Rightarrow> instruction option" where
  "recover_nav W nav_authority admin vault share_mint base_mint deposit_base_custody
     withdraw_base_custody external_value report_hash =
     new W [meta_readonly nav_authority True, meta_readonly admin True, meta_new vault False,
       meta_readonly share_mint False, meta_readonly base_mint False, meta_readonly deposit_base_custody False,
       meta_readonly withdraw_base_custody False]
       (RecoverNav \<lparr>nr_external_value = external_value, nr_report_hash = report_hash\<rparr>)"

definition set_share_metadata ::
  "payload_codec \<Rightarrow> key \<Rightarrow> key \<Rightarrow> key \<Rightarrow> key \<Rightarrow> key \<Rightarrow> bytes \<Rightarrow>
   bytes \<Rightarrow> bytes \<Rightarrow> instruction option" where
  "set_share_metadata W admin vault share_mint metadata token_metadata_program name symbol uri =
     new W [meta_new admin True, meta_readonly vault False, meta_readonly share_mint False, meta_new metadata False,
       meta_readonly token_metadata_program False, meta_readonly SYSTEM_PROGRAM_ID False]
       (SetShareMetadata \<lparr>ssm_name = name, ssm_symbol = symbol, ssm_uri = uri\<rparr>)"

definition write_down_fees ::
  "payload_codec \<Rightarrow> key \<Rightarrow> key \<Rightarrow> u64 \<Rightarrow> instruction option" where
  "write_down_fees W admin vault amount =
     new W (vault_admin_accounts admin vault)
       (WriteDownFees amount)"

definition register_external_destination ::
  "payload_codec \<Rightarrow> key \<Rightarrow> key \<Rightarrow> key \<Rightarrow> key \<Rightarrow> instruction option" where
  "register_external_destination W admin vault destination_token_account external_destination =
     new W [meta_new admin True, meta_readonly vault False, meta_readonly destination_token_account False,
       meta_new external_destination False, meta_readonly SYSTEM_PROGRAM_ID False]
       (RegisterExternalDestination)"

definition revoke_external_destination ::
  "payload_codec \<Rightarrow> key \<Rightarrow> key \<Rightarrow> key \<Rightarrow> instruction option" where
  "revoke_external_destination W admin vault external_destination =
     new W [meta_new admin True, meta_readonly vault False, meta_new external_destination False]
       (RevokeExternalDestination)"

definition collect_fees ::
  "payload_codec \<Rightarrow> key \<Rightarrow> key \<Rightarrow> u8 \<Rightarrow> key \<Rightarrow> key \<Rightarrow> key \<Rightarrow>
   u64 \<Rightarrow> instruction option" where
  "collect_fees W admin vault fee_sub_account_index fee_sub_account custody treasury amount =
     new W [meta_readonly admin True, meta_new vault False, meta_readonly fee_sub_account False,
       meta_new custody False, meta_new treasury False, meta_readonly client_TOKEN_PROGRAM_ID False]
       (CollectFees \<lparr>cf_sub_account = fee_sub_account_index, cf_amount = amount\<rparr>)"

definition invest_external ::
  "payload_codec \<Rightarrow> key \<Rightarrow> key \<Rightarrow> u8 \<Rightarrow> key \<Rightarrow> key \<Rightarrow> key \<Rightarrow>
   key \<Rightarrow> u64 \<Rightarrow> instruction option" where
  "invest_external W strategist vault sub_account_index sub_account custody external_account
     external_destination amount =
     new W [meta_readonly strategist True, meta_new vault False, meta_readonly sub_account False,
       meta_new custody False, meta_new external_account False, meta_readonly external_destination False,
       meta_readonly client_TOKEN_PROGRAM_ID False]
       (InvestExternal \<lparr>iea_sub_account = sub_account_index, iea_amount = amount\<rparr>)"

definition return_external ::
  "payload_codec \<Rightarrow> key \<Rightarrow> key \<Rightarrow> key \<Rightarrow> u8 \<Rightarrow> key \<Rightarrow> key \<Rightarrow>
   key \<Rightarrow> u64 \<Rightarrow> instruction option" where
  "return_external W strategist external_authority vault sub_account_index sub_account
     external_account custody amount =
     new W [meta_readonly strategist True, meta_readonly external_authority True, meta_new vault False,
       meta_readonly sub_account False, meta_new external_account False, meta_new custody False,
       meta_readonly client_TOKEN_PROGRAM_ID False]
       (ReturnExternal \<lparr>rea_sub_account = sub_account_index, rea_amount = amount\<rparr>)"

definition process_withdrawals ::
  "payload_codec \<Rightarrow> key \<Rightarrow> key \<Rightarrow> key \<Rightarrow> key \<Rightarrow> key \<Rightarrow>
   (key \<times> key \<times> key) list \<Rightarrow> instruction option" where
  "process_withdrawals W withdrawal_authority vault withdraw_sub_account custody share_mint settlements =
     new W ([meta_readonly withdrawal_authority True, meta_new vault False, meta_readonly withdraw_sub_account False,
       meta_new custody False, meta_readonly share_mint False, meta_readonly client_TOKEN_PROGRAM_ID False] @
       concat (map (\<lambda>(ticket, holder, destination). [meta_new ticket False, meta_new holder False, meta_new destination False]) settlements))
       (ProcessWithdrawals)"

section \<open>Actions\<close>

definition flash_fee_rate_accounts :: "key \<Rightarrow> key \<Rightarrow> key \<Rightarrow> account_meta list" where
  "flash_fee_rate_accounts authority vault action =
      [meta_readonly authority True, meta_readonly vault False, meta_new action False]"

definition authorize_action ::
  "payload_codec \<Rightarrow> key \<Rightarrow> key \<Rightarrow> key \<Rightarrow> key \<Rightarrow> action_scope \<Rightarrow> ops \<Rightarrow>
   u16 \<Rightarrow> u64 \<Rightarrow> u64 \<Rightarrow> instruction option" where
  "authorize_action W admin vault action action_hash scope os amount_offset fee_num fee_den =
     new W [meta_new admin True, meta_readonly vault False, meta_new action False,
       meta_readonly SYSTEM_PROGRAM_ID False]
       (AuthorizeAction \<lparr>aaa_action_hash = action_hash, aaa_scope = scope, aaa_ops = os, aaa_amount_offset = amount_offset,
        aaa_fee_num = fee_num, aaa_fee_den = fee_den\<rparr>)"

definition admin_set_flash_fee_rate ::
  "payload_codec \<Rightarrow> key \<Rightarrow> key \<Rightarrow> key \<Rightarrow> u64 \<Rightarrow> u64 \<Rightarrow> instruction option" where
  "admin_set_flash_fee_rate W admin vault action fee_num fee_den =
     new W (flash_fee_rate_accounts admin vault action)
       (AdminSetFlashFeeRate (fee_num, fee_den))"

definition strategist_lower_flash_fee_rate ::
  "payload_codec \<Rightarrow> key \<Rightarrow> key \<Rightarrow> key \<Rightarrow> u64 \<Rightarrow> u64 \<Rightarrow> instruction option" where
  "strategist_lower_flash_fee_rate W strategist vault action fee_num fee_den =
     new W (flash_fee_rate_accounts strategist vault action)
       (StrategistLowerFlashFeeRate (fee_num, fee_den))"

definition revoke_action ::
  "payload_codec \<Rightarrow> key \<Rightarrow> key \<Rightarrow> key \<Rightarrow> key \<Rightarrow> instruction option" where
  "revoke_action W admin vault action action_hash =
     new W [meta_new admin True, meta_readonly vault False, meta_new action False]
       (RevokeAction action_hash)"

section \<open>Assets\<close>

definition initialize_asset ::
  "payload_codec \<Rightarrow> key \<Rightarrow> key \<Rightarrow> key \<Rightarrow> key \<Rightarrow> initialize_asset_args \<Rightarrow>
   instruction option" where
  "initialize_asset W admin vault asset_mint asset args =
     new W [meta_new admin True, meta_readonly vault False, meta_readonly asset_mint False, meta_new asset False,
       meta_readonly SYSTEM_PROGRAM_ID False]
       (InitializeAsset args)"

definition update_asset ::
  "payload_codec \<Rightarrow> key \<Rightarrow> key \<Rightarrow> key \<Rightarrow> update_asset_args \<Rightarrow> instruction option" where
  "update_asset W admin vault asset args =
     new W [meta_readonly admin True, meta_readonly vault False, meta_new asset False]
       (UpdateAsset args)"

section \<open>Users\<close>

definition deposit ::
  "payload_codec \<Rightarrow> key \<Rightarrow> key \<Rightarrow> key \<Rightarrow> key \<Rightarrow> key \<Rightarrow> key \<Rightarrow>
   key \<Rightarrow> key \<Rightarrow> u64 \<Rightarrow> u64 \<Rightarrow> key list \<Rightarrow> account_meta list \<Rightarrow> instruction option" where
  "deposit W depositor vault user_source_token_account vault_custody_token_account user_share_account
     share_mint asset_token_program asset_mint amount min_shares_out access_proof additional_accounts =
     new W ([meta_readonly depositor True, meta_new vault False, meta_new user_source_token_account False,
       meta_new vault_custody_token_account False, meta_new user_share_account False,
       meta_new share_mint False, meta_readonly client_TOKEN_PROGRAM_ID False,
       meta_readonly asset_token_program False] @ additional_accounts)
       (Deposit \<lparr>da_asset_mint = asset_mint, da_amount = amount, da_min_shares_out = min_shares_out, da_access_proof = access_proof\<rparr>)"

definition redeem ::
  "payload_codec \<Rightarrow> key \<Rightarrow> key \<Rightarrow> key \<Rightarrow> key \<Rightarrow> key \<Rightarrow> key \<Rightarrow>
   u8 \<Rightarrow> u64 \<Rightarrow> instruction option" where
  "redeem W owner vault user_share_account share_mint recipient_token_account withdrawal_ticket
     ticket_index shares =
     new W [meta_new owner True, meta_new vault False, meta_new user_share_account False, meta_new share_mint False,
       meta_readonly recipient_token_account False, meta_new withdrawal_ticket False,
       meta_readonly SYSTEM_PROGRAM_ID False, meta_readonly client_TOKEN_PROGRAM_ID False]
       (Redeem \<lparr>ra_recipient_token_account = recipient_token_account, ra_ticket_index = ticket_index, ra_shares = shares\<rparr>)"

definition cancel_redeem ::
  "payload_codec \<Rightarrow> key \<Rightarrow> key \<Rightarrow> key \<Rightarrow> key \<Rightarrow> key \<Rightarrow> u64 \<Rightarrow>
   instruction option" where
  "cancel_redeem W owner vault withdrawal_ticket share_mint owner_share_account min_shares_out =
     new W [meta_new owner True, meta_new vault False, meta_new withdrawal_ticket False, meta_new share_mint False,
       meta_new owner_share_account False, meta_readonly client_TOKEN_PROGRAM_ID False]
       (CancelRedeem \<lparr>cr_min_shares_out = min_shares_out\<rparr>)"

definition deposit_and_deploy ::
  "payload_codec \<Rightarrow> key \<Rightarrow> key \<Rightarrow> key \<Rightarrow> key \<Rightarrow> key \<Rightarrow> key \<Rightarrow>
   key \<Rightarrow> key \<Rightarrow> key \<Rightarrow> account_meta list \<Rightarrow> deposit_and_deploy_args \<Rightarrow> instruction option" where
  "deposit_and_deploy W depositor vault user_source_token_account vault_custody_token_account
     user_share_account share_mint base_token_program sub_account_pda action cpi_accounts args =
     new W ([meta_readonly depositor True, meta_new vault False, meta_new user_source_token_account False,
       meta_new vault_custody_token_account False, meta_new user_share_account False,
       meta_new share_mint False, meta_readonly client_TOKEN_PROGRAM_ID False,
       meta_readonly base_token_program False, meta_readonly sub_account_pda False, meta_readonly action False] @ cpi_accounts)
       (DepositAndDeploy args)"

section \<open>Execution\<close>

definition assert_delegate_cleared_ix ::
  "payload_codec \<Rightarrow> key \<Rightarrow> instruction option" where
  "assert_delegate_cleared_ix W token_account =
     new W [meta_readonly token_account False]
       (AssertDelegateCleared)"

definition manage ::
  "payload_codec \<Rightarrow> key \<Rightarrow> key \<Rightarrow> key \<Rightarrow> key \<Rightarrow> account_meta list \<Rightarrow>
   manage_args \<Rightarrow> instruction option" where
  "manage W executor vault sub_account_pda action cpi_accounts args =
     new W ([meta_readonly executor True, meta_readonly vault False, meta_new sub_account_pda False,
       meta_readonly action False] @ cpi_accounts)
       (Manage args)"

record manage_batch_action_accounts =
  mba_sub_account_pda :: key
  mba_action :: key

definition manage_batch ::
  "payload_codec \<Rightarrow> key \<Rightarrow> key \<Rightarrow> manage_batch_action_accounts list \<Rightarrow> account_meta list \<Rightarrow>
   manage_args list \<Rightarrow> instruction option" where
  "manage_batch W executor vault action_accounts cpi_accounts actions =
     new W ([meta_readonly executor True, meta_readonly vault False] @
        concat (map (\<lambda>a. [meta_new (mba_sub_account_pda a) False, meta_readonly (mba_action a) False]) action_accounts) @ cpi_accounts)
       (ManageBatch actions)"

definition atomic_redeem ::
  "payload_codec \<Rightarrow> key \<Rightarrow> key \<Rightarrow> key \<Rightarrow> key \<Rightarrow> key \<Rightarrow> key \<Rightarrow>
   key \<Rightarrow> key \<Rightarrow> key \<Rightarrow> account_meta list \<Rightarrow> atomic_redeem_args \<Rightarrow> instruction option" where
  "atomic_redeem W owner vault user_share_account share_mint recipient_token_account custody
     base_token_program sub_account_pda action cpi_accounts args =
     new W ([meta_new owner True, meta_new vault False, meta_new user_share_account False, meta_new share_mint False,
       meta_new recipient_token_account False, meta_new custody False, meta_readonly base_token_program False,
       meta_readonly sub_account_pda False, meta_readonly action False,
       meta_readonly client_TOKEN_PROGRAM_ID False] @ cpi_accounts)
       (AtomicRedeemInstruction args)"

definition swap ::
  "payload_codec \<Rightarrow> key \<Rightarrow> key \<Rightarrow> key \<Rightarrow> key \<Rightarrow> key \<Rightarrow> key \<Rightarrow>
   account_meta list \<Rightarrow> account_meta list \<Rightarrow> swap_args \<Rightarrow> instruction option" where
  "swap W swap_executor vault sub_account_pda input_custody output_custody action valuation_accounts
     cpi_accounts args =
     new W ([meta_readonly swap_executor True, meta_readonly vault False, meta_readonly sub_account_pda False,
       meta_new input_custody False, meta_new output_custody False, meta_readonly action False] @ valuation_accounts @ cpi_accounts)
       (Swap args)"

end
