(* ===== verification/Wire_Format.thy ===== *)
theory Wire_Format
  imports Example_Env
begin

text \<open>
  The wire form of instructions: what is serialized decodes to the instruction it came from, and
  data that is no instruction is refused before any account is looked at.
\<close>

text \<open>What is asked of the codec of each argument structure.\<close>

definition wincode_ok :: "'a wincode \<Rightarrow> bool" where
  "wincode_ok c \<longleftrightarrow> (\<forall>x bs. fst c x = Some bs \<longrightarrow> snd c bs = Some x)"

definition payload_ok :: "payload_codec \<Rightarrow> bool" where
  "payload_ok W \<longleftrightarrow>
     wincode_ok (pc_initialize_program W) \<and> wincode_ok (pc_initialize_vault W) \<and> wincode_ok (pc_authorize_action W) \<and>
     wincode_ok (pc_revoke_action W) \<and> wincode_ok (pc_manage W) \<and> wincode_ok (pc_manage_batch W) \<and>
     wincode_ok (pc_report_nav W) \<and> wincode_ok (pc_deposit W) \<and> wincode_ok (pc_redeem W) \<and>
     wincode_ok (pc_cancel_redeem W) \<and> wincode_ok (pc_process_withdrawals W) \<and> wincode_ok (pc_update_vault_config W) \<and>
     wincode_ok (pc_initialize_asset W) \<and> wincode_ok (pc_update_asset W) \<and> wincode_ok (pc_set_pause_flags W) \<and>
     wincode_ok (pc_set_vault_access W) \<and> wincode_ok (pc_transfer_program_authority W) \<and> wincode_ok (pc_transfer_vault_authority W) \<and>
     wincode_ok (pc_set_strategist W) \<and> wincode_ok (pc_set_nav_authority W) \<and> wincode_ok (pc_set_withdrawal_authority W) \<and>
     wincode_ok (pc_collect_fees W) \<and> wincode_ok (pc_invest_external W) \<and> wincode_ok (pc_return_external W) \<and>
     wincode_ok (pc_set_swap_authority W) \<and> wincode_ok (pc_atomic_redeem W) \<and> wincode_ok (pc_swap W) \<and>
     wincode_ok (pc_write_down_fees W) \<and> wincode_ok (pc_register_external_destination W) \<and> wincode_ok (pc_revoke_external_destination W) \<and>
     wincode_ok (pc_set_share_metadata W) \<and> wincode_ok (pc_assert_delegate_cleared W) \<and> wincode_ok (pc_admin_set_flash_fee_rate W) \<and>
     wincode_ok (pc_strategist_lower_flash_fee_rate W) \<and> wincode_ok (pc_recover_nav W) \<and> wincode_ok (pc_deposit_and_deploy W)"

lemma decode_payload_ok: "wincode_ok c \<Longrightarrow> fst c x = Some bs \<Longrightarrow> decode_payload c bs = Some x"
  by (simp add: wincode_ok_def decode_payload_def)

lemma decode_serialize_roshi:
  assumes "payload_ok W" and "serialize_roshi W i = Some bs"
  shows "decode W bs = Some i \<and> (\<exists>payload. bs = tag i # payload)"
proof -
  obtain p where p: "serialize_payload W i = Some p" "bs = tag i # p"
    using assms(2) by (auto simp: serialize_roshi_def)
  then have "decode_tagged W (tag i) p = Some i"
    using assms(1) unfolding payload_ok_def
    by (cases i) (simp_all add: decode_tagged_def tag_defs decode_payload_ok)
  with p(2) show ?thesis by (simp add: decode_def)
qed

text \<open>
  C32. Every instruction survives the wire: under a faithful codec for the argument structures, the
  serialized form of any of the thirty-six instructions starts with its tag and decodes to the very
  instruction; in particular no two instructions share a tag.
\<close>
theorem instruction_round_trip:
  assumes "payload_ok W" and "serialize_roshi W i = Some bs"
  shows "decode W bs = Some i \<and> (\<exists>payload. bs = tag i # payload)"
  using assms by (rule decode_serialize_roshi)

lemma example_codecs_ok [simp]:
  "wincode_ok no_codec" "wincode_ok unit_codec" "wincode_ok u64_codec" "wincode_ok pause_codec"
  by (auto simp: wincode_ok_def no_codec_def unit_codec_def u64_codec_def pause_codec_def u8_of_bool_def)

lemma example_payload_ok: "payload_ok example_codec"
  by (simp add: payload_ok_def example_codec_def)

theorem instruction_round_trip_witness:
  "decode example_codec [14, 1, 0, 1] =
     Some (SetPauseFlags \<lparr>spf_deposits_paused = True, spf_withdrawals_paused = False, spf_manage_paused = True\<rparr>)"
proof -
  have "serialize_roshi example_codec
      (SetPauseFlags \<lparr>spf_deposits_paused = True, spf_withdrawals_paused = False, spf_manage_paused = True\<rparr>) = Some [14, 1, 0, 1]"
    by (simp add: serialize_roshi_def example_codec_def pause_codec_def u8_of_bool_def tag_defs)
  from instruction_round_trip [OF example_payload_ok this] show ?thesis by blast
qed



end
