(* ===== verification/Client_Safety.thy ===== *)
theory Client_Safety
  imports Client_Instructions Access_Control Wire_Format
begin

text \<open>
  The contract between the client and the program: a table of the signatures and writable accounts
  each handler insists on, that the handlers do insist on them, and that what the builders of the
  client produce decodes to the intended instruction and carries every one of these privileges.
\<close>

section \<open>Privileges\<close>

datatype privilege = Any | Sign | Write | SignWrite

primrec holds :: "privilege \<Rightarrow> account_info \<Rightarrow> bool" where
  "holds Any h = True"
| "holds Sign h = ai_is_signer h"
| "holds Write h = ai_is_writable h"
| "holds SignWrite h = (ai_is_signer h \<and> ai_is_writable h)"

primrec privileges :: "roshi_instruction \<Rightarrow> privilege list" where
  "privileges (InitializeProgram args) = [SignWrite, Sign]"
| "privileges (InitializeVault args) = [Sign, Any, SignWrite, Any, Any, Write]"
| "privileges (AuthorizeAction args) = [SignWrite]"
| "privileges (RevokeAction args) = [SignWrite, Any, Write]"
| "privileges (Manage args) = [Sign]"
| "privileges (ManageBatch args) = (if args = [] then [] else [Sign])"
| "privileges (ReportNav args) = [Sign, Write]"
| "privileges (Deposit args) = [Sign, Write, Write, Write, Write, Write]"
| "privileges (Redeem args) = [SignWrite, Write, Write, Write]"
| "privileges (CancelRedeem args) = [SignWrite, Write, Write, Write, Write]"
| "privileges ProcessWithdrawals = [Sign, Write, Any, Write, Any, Any]"
| "privileges (UpdateVaultConfig args) = [Sign, Write]"
| "privileges (InitializeAsset args) = [SignWrite]"
| "privileges (UpdateAsset args) = [Sign, Any, Write]"
| "privileges (SetPauseFlags args) = [Sign, Write]"
| "privileges (SetVaultAccess args) = [Sign, Write]"
| "privileges (TransferProgramAuthority args) = [Sign, Write]"
| "privileges (TransferVaultAuthority args) = [Sign, Write]"
| "privileges (SetStrategist args) = [Sign, Write]"
| "privileges (SetNavAuthority args) = [Sign, Write]"
| "privileges (SetWithdrawalAuthority args) = [Sign, Write]"
| "privileges (CollectFees args) = [Sign, Write, Any, Write, Write]"
| "privileges (InvestExternal args) = [Sign, Write, Any, Write, Write]"
| "privileges (ReturnExternal args) = [Sign, Sign, Write, Any, Write, Write]"
| "privileges (SetSwapAuthority args) = [Sign, Write]"
| "privileges (AtomicRedeemInstruction args) = [SignWrite, Write, Write, Write, Write, Write]"
| "privileges (Swap args) = [Sign, Any, Any, Write, Write]"
| "privileges (WriteDownFees args) = [Sign, Write]"
| "privileges RegisterExternalDestination = [SignWrite]"
| "privileges RevokeExternalDestination = [SignWrite, Any, Write]"
| "privileges (SetShareMetadata args) = [Sign, Any, Any, Write]"
| "privileges AssertDelegateCleared = []"
| "privileges (AdminSetFlashFeeRate args) = [Sign, Any, Write]"
| "privileges (StrategistLowerFlashFeeRate args) = [Sign, Any, Write]"
| "privileges (RecoverNav args) = [Sign, Sign, Write]"
| "privileges (DepositAndDeploy args) = [Sign, Write, Write, Write, Write, Write]"

text \<open>What holds of every account after the listed ones: the tickets, owners and destinations of a settlement.\<close>

definition rest_privilege :: "roshi_instruction \<Rightarrow> privilege" where
  "rest_privilege i = (case i of ProcessWithdrawals \<Rightarrow> Write | _ \<Rightarrow> Any)"

definition granted :: "privilege list \<Rightarrow> account_info list \<Rightarrow> bool" where
  "granted ps accounts \<longleftrightarrow> length ps \<le> length accounts \<and> list_all2 holds ps (take (length ps) accounts)"

definition equipped :: "roshi_instruction \<Rightarrow> account_info list \<Rightarrow> bool" where
  "equipped i accounts \<longleftrightarrow> granted (privileges i) accounts \<and>
     list_all (holds (rest_privilege i)) (drop (length (privileges i)) accounts)"

lemma granted_simps [simp]:
  "granted [] accounts" "granted (p # ps) [] = False" "granted (p # ps) (a # as) \<longleftrightarrow> holds p a \<and> granted ps as"
  by (auto simp: granted_def)

section \<open>Handlers\<close>

lemma require_writable_signer_Inr_iff:
  "require_writable_signer a = Inr u \<longleftrightarrow> ai_is_signer a \<and> ai_is_writable a"
  by (auto simp: require_writable_signer_def result_facts)

lemma yields_first: "yields (\<lambda>_. Q) m \<Longrightarrow> yields (\<lambda>_. Q) (attempt m f)"
  by (auto simp: yields_def result_facts)

lemmas privilege_facts = result_facts vault_role_context_load_def writable_vault_role_context_load_def
  require_writable_signer_Inr_iff program_config_authority_context_load_def
  writable_program_config_authority_context_load_def

lemma context_privileges:
  "yields (\<lambda>_. granted [SignWrite, Sign] accounts) (initialize_program_context_load E L accounts)"
  "yields (\<lambda>_. granted [Sign, Any, SignWrite, Any, Any, Write] accounts) (initialize_vault_context_load E L accounts iv)"
  "yields (\<lambda>_. granted [SignWrite] accounts) (authorize_action_context_load E L accounts aa)"
  "yields (\<lambda>_. granted [SignWrite, Any, Write] accounts) (revoke_action_context_load E L accounts h)"
  "yields (\<lambda>_. granted [SignWrite] accounts) (initialize_asset_context_load E L accounts ia)"
  "yields (\<lambda>_. granted [SignWrite] accounts) (register_external_destination_context_load E L accounts)"
  "yields (\<lambda>_. granted [Sign, Any, Any, Write, Write] accounts) (swap_context_load E L accounts sw)"
  "yields (\<lambda>_. granted [Sign, Write, Write, Write, Write, Write] accounts) (deposit_context_load E L accounts)"
  "yields (\<lambda>_. granted [SignWrite, Write, Write, Write] accounts) (redeem_context_load E L accounts ra)"
  "yields (\<lambda>_. granted [SignWrite, Write, Write, Write, Write] accounts) (cancel_redeem_context_load E L accounts)"
  "yields (\<lambda>_. granted [SignWrite, Write, Write, Write, Write, Write] accounts) (atomic_redeem_context_load E L accounts ara)"
  unfolding initialize_program_context_load_def initialize_vault_context_load_def authorize_action_context_load_def
    revoke_action_context_load_def initialize_asset_context_load_def register_external_destination_context_load_def
    swap_context_load_def deposit_context_load_def redeem_context_load_def cancel_redeem_context_load_def
    atomic_redeem_context_load_def Let_def
  by ((rule yields_rules)+, rule yields_const, auto simp: privilege_facts split: if_splits)+

lemma handler_privileges:
  "yields (\<lambda>_. granted [SignWrite, Sign] accounts) (try_initialize_program E accounts ip L)"
  "yields (\<lambda>_. granted [Sign, Any, SignWrite, Any, Any, Write] accounts) (try_initialize_vault E accounts iv L)"
  "yields (\<lambda>_. granted [SignWrite] accounts) (try_authorize_action E accounts aa L)"
  "yields (\<lambda>_. granted [SignWrite, Any, Write] accounts) (try_revoke_action E accounts h L)"
  "yields (\<lambda>_. granted [SignWrite] accounts) (try_initialize_asset E accounts ia L)"
  "yields (\<lambda>_. granted [SignWrite] accounts) (try_register_external_destination E accounts L)"
  "yields (\<lambda>_. granted [Sign, Any, Any, Write, Write] accounts) (try_swap E accounts sw L)"
  "yields (\<lambda>_. granted [Sign, Write, Write, Write, Write, Write] accounts) (try_deposit E accounts da L)"
  "yields (\<lambda>_. granted [SignWrite, Write, Write, Write] accounts) (try_redeem E accounts ra L)"
  "yields (\<lambda>_. granted [SignWrite, Write, Write, Write, Write] accounts) (try_cancel_redeem E accounts ca L)"
  "yields (\<lambda>_. granted [SignWrite, Write, Write, Write, Write, Write] accounts) (try_atomic_redeem E accounts ara L)"
  unfolding try_initialize_program_def try_initialize_vault_def try_authorize_action_def try_revoke_action_def
    try_initialize_asset_def try_register_external_destination_def try_swap_def try_deposit_def try_redeem_def
    try_cancel_redeem_def try_atomic_redeem_def Let_def
  by ((rule yields_if yields_Inl yields_first context_privileges)+)

lemma deposit_and_deploy_privileges:
  "yields (\<lambda>_. granted [Sign, Write, Write, Write, Write, Write] accounts) (try_deposit_and_deploy E accounts d L)"
proof -
  have "granted [Sign, Write, Write, Write, Write, Write] accounts"
    if "deposit_and_deploy_context_load E L accounts = Inr ctx" for ctx
  proof -
    from that obtain dep where "deposit_context_load E L (take 8 accounts) = Inr dep"
      by (auto simp: deposit_and_deploy_context_load_def Let_def result_facts get_slice_Some_iff)
    from yieldsD [OF context_privileges(8) this] show ?thesis
      by (auto simp: granted_def min_def split: if_splits)
  qed
  then show ?thesis unfolding try_deposit_and_deploy_def Let_def
    by (auto simp: yields_def result_facts split: if_splits)
qed

lemma admin_privileges:
  "yields (\<lambda>_. granted [Sign, Write] accounts) (update_writable_vault_as_admin E accounts upd L)"
  "yields (\<lambda>_. granted [Sign, Any, Write] accounts) (update_action_flash_fee E accounts r upd2 L)"
  "yields (\<lambda>_. granted [Sign, Write] accounts) (try_transfer_program_authority E accounts k L)"
  "yields (\<lambda>_. granted [Sign, Write] accounts) (try_update_vault_config E accounts uv L)"
  "yields (\<lambda>_. granted [Sign, Any, Write] accounts) (try_update_asset E accounts ua L)"
  "yields (\<lambda>_. granted [Sign, Write, Any, Write, Write] accounts) (try_collect_fees E accounts cf L)"
  "yields (\<lambda>_. granted [SignWrite, Any, Write] accounts) (try_revoke_external_destination E accounts L)"
  "yields (\<lambda>_. granted [Sign, Any, Any, Write] accounts) (try_set_share_metadata E accounts sm L)"
  unfolding update_writable_vault_as_admin_def update_action_flash_fee_def try_transfer_program_authority_def
    try_update_vault_config_def try_update_asset_def update_writable_asset_as_admin_def try_collect_fees_def
    try_revoke_external_destination_def close_external_destination_as_admin_def try_set_share_metadata_def Let_def
  by ((rule yields_rules)+, rule yields_const, auto simp: privilege_facts split: if_splits)+

lemma authority_privileges:
  "yields (\<lambda>_. granted [Sign, Write] accounts) (try_report_nav E accounts nr L)"
  "yields (\<lambda>_. granted [Sign, Sign, Write] accounts) (try_recover_nav E accounts nr L)"
  "yields (\<lambda>_. granted [Sign, Write, Any, Write, Write] accounts) (try_invest_external E accounts ie L)"
  "yields (\<lambda>_. granted [Sign, Sign, Write, Any, Write, Write] accounts) (try_return_external E accounts re L)"
  unfolding try_report_nav_def try_recover_nav_def apply_nav_report_def try_invest_external_def
    try_return_external_def Let_def
  by ((rule yields_rules)+, rule yields_const, auto simp: privilege_facts)+

lemma manage_privileges:
  "yields (\<lambda>_. granted [Sign] accounts) (try_manage E accounts ma L)"
  "ms \<noteq> [] \<Longrightarrow> yields (\<lambda>_. granted [Sign] accounts) (try_manage_batch E accounts ms L)"
  by (auto simp: try_manage_def manage_context_load_def yields_def result_facts
      dest!: manage_step_Inr elim!: manage_batch_first)

lemma load_settlements_writable:
  "load_settlements E L va base_mint it tickets = Inr ts \<Longrightarrow> list_all ai_is_writable it"
  by (induction E L va base_mint it tickets rule: load_settlements.induct)
    (auto simp: result_facts Let_def split: if_splits prod.splits)

lemma settlement_privileges: "yields (\<lambda>_. equipped ProcessWithdrawals accounts) (try_process_withdrawals E accounts L)"
proof -
  have "yields (\<lambda>_. equipped ProcessWithdrawals accounts) (process_withdrawals_context_load E L accounts)"
    unfolding process_withdrawals_context_load_def
    by ((rule yields_rules)+, rule yields_const,
        auto simp: privilege_facts equipped_def rest_privilege_def list_all_iff dest!: load_settlements_writable)
  then show ?thesis unfolding try_process_withdrawals_def by (rule yields_first)
qed

lemma equipped_granted: "granted (privileges i) accounts \<Longrightarrow> i \<noteq> ProcessWithdrawals \<Longrightarrow> equipped i accounts"
  by (cases i) (simp_all add: equipped_def rest_privilege_def list_all_iff)

text \<open>
  The program insists on the privileges of the table, instruction by instruction: an instruction
  that succeeds was passed every account the table lists, signed or writable as it says, and a
  settlement was passed only writable ticket, owner and destination accounts.
\<close>
theorem handlers_check_privileges:
  assumes "run_instruction E accounts L i = Inr L'"
  shows "equipped i accounts"
proof (cases "i = ProcessWithdrawals")
  case True
  with assms yieldsD [OF settlement_privileges] show ?thesis by fastforce
next
  case False
  have "yields (\<lambda>_. granted (privileges i) accounts) (run_instruction E accounts L i)"
    using False by (cases i)
      (simp_all add: yields_const handler_privileges deposit_and_deploy_privileges admin_privileges
        authority_privileges manage_privileges try_admin_set_flash_fee_rate_def
        try_strategist_lower_flash_fee_rate_def try_set_pause_flags_def try_set_vault_access_def
        try_transfer_vault_authority_def try_set_strategist_def try_set_swap_authority_def try_set_nav_authority_def
        try_set_withdrawal_authority_def try_write_down_fees_def yields_if yields_Inl)
  from equipped_granted [OF yieldsD [OF this assms] False] show ?thesis .
qed

theorem handlers_check_privileges_witness:
  "equipped (Deposit example_deposit) example_accounts"
proof -
  obtain L' where "run_instruction example_env example_accounts example_ledger (Deposit example_deposit) = Inr L'"
    using example_deposit_run by auto
  from handlers_check_privileges [OF this] show ?thesis .
qed

section \<open>Clients\<close>

text \<open>The instruction a builder of the client was asked for, and what it built.\<close>

inductive client_builds :: "pda_function \<Rightarrow> payload_codec \<Rightarrow> instruction \<Rightarrow> roshi_instruction \<Rightarrow> bool" for pda W where
  "initialize_program W payer program_config authority = Some ix \<Longrightarrow>
     client_builds pda W ix (InitializeProgram \<lparr>ipa_authority = authority\<rparr>)"
| "initialize_vault pda W program_authority program_config payer vault args = Some ix \<Longrightarrow>
     client_builds pda W ix (InitializeVault args)"
| "transfer_program_authority W authority program_config new_authority = Some ix \<Longrightarrow>
     client_builds pda W ix (TransferProgramAuthority new_authority)"
| "transfer_vault_authority W authority vault new_authority = Some ix \<Longrightarrow>
     client_builds pda W ix (TransferVaultAuthority new_authority)"
| "set_strategist W admin vault strategist = Some ix \<Longrightarrow>
     client_builds pda W ix (SetStrategist strategist)"
| "set_swap_authority W admin vault swap_authority = Some ix \<Longrightarrow>
     client_builds pda W ix (SetSwapAuthority swap_authority)"
| "set_nav_authority W admin vault nav_authority = Some ix \<Longrightarrow>
     client_builds pda W ix (SetNavAuthority nav_authority)"
| "set_withdrawal_authority W admin vault withdrawal_authority = Some ix \<Longrightarrow>
     client_builds pda W ix (SetWithdrawalAuthority withdrawal_authority)"
| "set_vault_access W admin vault private access_merkle_root = Some ix \<Longrightarrow>
     client_builds pda W ix (SetVaultAccess \<lparr>sva_private = private, sva_access_merkle_root =
       access_merkle_root\<rparr>)"
| "set_pause_flags W admin vault deposits withdrawals manage_calls = Some ix \<Longrightarrow>
     client_builds pda W ix (SetPauseFlags \<lparr>spf_deposits_paused = deposits, spf_withdrawals_paused =
       withdrawals, spf_manage_paused = manage_calls\<rparr>)"
| "update_vault_config W admin vault args = Some ix \<Longrightarrow>
     client_builds pda W ix (UpdateVaultConfig args)"
| "report_nav W nav_authority vault share_mint base_mint deposit_base_custody withdraw_base_custody
       external_value report_hash = Some ix \<Longrightarrow>
     client_builds pda W ix (ReportNav \<lparr>nr_external_value = external_value, nr_report_hash =
       report_hash\<rparr>)"
| "recover_nav W nav_authority admin vault share_mint base_mint deposit_base_custody
       withdraw_base_custody external_value report_hash = Some ix \<Longrightarrow>
     client_builds pda W ix (RecoverNav \<lparr>nr_external_value = external_value, nr_report_hash =
       report_hash\<rparr>)"
| "set_share_metadata W admin vault share_mint metadata token_metadata_program name symbol uri = Some ix
       \<Longrightarrow>
     client_builds pda W ix (SetShareMetadata \<lparr>ssm_name = name, ssm_symbol = symbol, ssm_uri = uri\<rparr>)"
| "write_down_fees W admin vault amount = Some ix \<Longrightarrow>
     client_builds pda W ix (WriteDownFees amount)"
| "register_external_destination W admin vault destination_token_account external_destination = Some ix
       \<Longrightarrow>
     client_builds pda W ix (RegisterExternalDestination)"
| "revoke_external_destination W admin vault external_destination = Some ix \<Longrightarrow>
     client_builds pda W ix (RevokeExternalDestination)"
| "collect_fees W admin vault fee_sub_account_index fee_sub_account custody treasury amount = Some ix
       \<Longrightarrow>
     client_builds pda W ix (CollectFees \<lparr>cf_sub_account = fee_sub_account_index, cf_amount =
       amount\<rparr>)"
| "invest_external W strategist vault sub_account_index sub_account custody external_account
       external_destination amount = Some ix \<Longrightarrow>
     client_builds pda W ix (InvestExternal \<lparr>iea_sub_account = sub_account_index, iea_amount =
       amount\<rparr>)"
| "return_external W strategist external_authority vault sub_account_index sub_account external_account
       custody amount = Some ix \<Longrightarrow>
     client_builds pda W ix (ReturnExternal \<lparr>rea_sub_account = sub_account_index, rea_amount =
       amount\<rparr>)"
| "process_withdrawals W withdrawal_authority vault withdraw_sub_account custody share_mint settlements =
       Some ix \<Longrightarrow>
     client_builds pda W ix (ProcessWithdrawals)"
| "authorize_action W admin vault action action_hash scope os amount_offset fee_num fee_den = Some ix
       \<Longrightarrow>
     client_builds pda W ix (AuthorizeAction \<lparr>aaa_action_hash = action_hash, aaa_scope = scope, aaa_ops
       = os, aaa_amount_offset = amount_offset, aaa_fee_num = fee_num, aaa_fee_den = fee_den\<rparr>)"
| "admin_set_flash_fee_rate W admin vault action fee_num fee_den = Some ix \<Longrightarrow>
     client_builds pda W ix (AdminSetFlashFeeRate (fee_num, fee_den))"
| "strategist_lower_flash_fee_rate W strategist vault action fee_num fee_den = Some ix \<Longrightarrow>
     client_builds pda W ix (StrategistLowerFlashFeeRate (fee_num, fee_den))"
| "revoke_action W admin vault action action_hash = Some ix \<Longrightarrow>
     client_builds pda W ix (RevokeAction action_hash)"
| "initialize_asset W admin vault asset_mint asset args = Some ix \<Longrightarrow>
     client_builds pda W ix (InitializeAsset args)"
| "update_asset W admin vault asset args = Some ix \<Longrightarrow>
     client_builds pda W ix (UpdateAsset args)"
| "deposit W depositor vault user_source_token_account vault_custody_token_account user_share_account
       share_mint asset_token_program asset_mint amount min_shares_out access_proof additional_accounts = Some
       ix \<Longrightarrow>
     client_builds pda W ix (Deposit \<lparr>da_asset_mint = asset_mint, da_amount = amount, da_min_shares_out
       = min_shares_out, da_access_proof = access_proof\<rparr>)"
| "redeem W owner vault user_share_account share_mint recipient_token_account withdrawal_ticket
       ticket_index shares = Some ix \<Longrightarrow>
     client_builds pda W ix (Redeem \<lparr>ra_recipient_token_account = recipient_token_account,
       ra_ticket_index = ticket_index, ra_shares = shares\<rparr>)"
| "cancel_redeem W owner vault withdrawal_ticket share_mint owner_share_account min_shares_out = Some ix
       \<Longrightarrow>
     client_builds pda W ix (CancelRedeem \<lparr>cr_min_shares_out = min_shares_out\<rparr>)"
| "deposit_and_deploy W depositor vault user_source_token_account vault_custody_token_account
       user_share_account share_mint base_token_program sub_account_pda action cpi_accounts args = Some ix
       \<Longrightarrow>
     client_builds pda W ix (DepositAndDeploy args)"
| "assert_delegate_cleared_ix W token_account = Some ix \<Longrightarrow>
     client_builds pda W ix (AssertDelegateCleared)"
| "manage W executor vault sub_account_pda action cpi_accounts args = Some ix \<Longrightarrow>
     client_builds pda W ix (Manage args)"
| "manage_batch W executor vault action_accounts cpi_accounts actions = Some ix \<Longrightarrow>
     client_builds pda W ix (ManageBatch actions)"
| "atomic_redeem W owner vault user_share_account share_mint recipient_token_account custody
       base_token_program sub_account_pda action cpi_accounts args = Some ix \<Longrightarrow>
     client_builds pda W ix (AtomicRedeemInstruction args)"
| "swap W swap_executor vault sub_account_pda input_custody output_custody action valuation_accounts
       cpi_accounts args = Some ix \<Longrightarrow>
     client_builds pda W ix (Swap args)"

text \<open>The handles the runtime passes for the requested accounts: the same keys, with at least the requested privileges.\<close>

definition as_handle :: "account_meta \<Rightarrow> account_info" where
  "as_handle m = \<lparr>ai_key = am_pubkey m, ai_is_signer = am_is_signer m, ai_is_writable = am_is_writable m\<rparr>"

definition covers :: "account_info \<Rightarrow> account_info \<Rightarrow> bool" where
  "covers a h \<longleftrightarrow> ai_key h = ai_key a \<and> (ai_is_signer a \<longrightarrow> ai_is_signer h) \<and> (ai_is_writable a \<longrightarrow> ai_is_writable h)"

definition presents :: "instruction \<Rightarrow> account_info list \<Rightarrow> bool" where
  "presents ix handles \<longleftrightarrow> list_all2 covers (map as_handle (ix_accounts ix)) handles"

lemma holds_covers: "holds p a \<Longrightarrow> covers a h \<Longrightarrow> holds p h"
  by (cases p) (simp_all add: covers_def)

lemma granted_covers: "granted ps as \<Longrightarrow> list_all2 covers as hs \<Longrightarrow> granted ps hs"
proof (induction ps arbitrary: as hs)
  case (Cons p ps)
  then show ?case by (cases as; cases hs) (auto intro: holds_covers)
qed simp

lemma all_holds_covers: "list_all2 covers as hs \<Longrightarrow> list_all (holds p) as \<Longrightarrow> list_all (holds p) hs"
  by (induction as hs rule: list_all2_induct) (auto intro: holds_covers)

lemma equipped_covers: "equipped i as \<Longrightarrow> list_all2 covers as hs \<Longrightarrow> equipped i hs"
  by (auto simp: equipped_def intro: granted_covers all_holds_covers list_all2_dropI)

lemma args_TAG_tag: "args_TAG i = tag i"
  by (cases i) simp_all

lemma new_Some_iff:
  "new W metas i = Some ix \<longleftrightarrow> (\<exists>data. serialize_roshi W i = Some data \<and>
     ix = \<lparr>ix_program_id = ID, ix_accounts = metas, ix_data = data\<rparr>)"
  by (auto simp: new_def new_with_program_id_def serialize_instruction_def serialize_roshi_def args_TAG_tag)

lemmas meta_facts = as_handle_def meta_new_def meta_readonly_def

lemmas builder_defs = initialize_program_def initialize_vault_def transfer_program_authority_def transfer_vault_authority_def
  vault_admin_accounts_def set_strategist_def set_swap_authority_def set_nav_authority_def set_withdrawal_authority_def
  set_vault_access_def set_pause_flags_def update_vault_config_def report_nav_def recover_nav_def set_share_metadata_def
  write_down_fees_def register_external_destination_def revoke_external_destination_def collect_fees_def
  invest_external_def return_external_def process_withdrawals_def flash_fee_rate_accounts_def authorize_action_def
  admin_set_flash_fee_rate_def strategist_lower_flash_fee_rate_def revoke_action_def initialize_asset_def update_asset_def
  deposit_def redeem_def cancel_redeem_def deposit_and_deploy_def assert_delegate_cleared_ix_def manage_def
  manage_batch_def atomic_redeem_def swap_def

lemma client_builds_new:
  assumes "client_builds pda W ix i"
  shows "\<exists>metas. new W metas i = Some ix \<and> equipped i (map as_handle metas)"
  using assms
  by induction (unfold builder_defs, (rule exI, erule conjI,
     auto simp: equipped_def rest_privilege_def meta_facts list_all_iff)+)



section \<open>Vaults on a Token-2022 base\<close>

text \<open>
  The program serves vaults whose base mint belongs to either token program. Four builders of the
  client name the classic program themselves, though: what they build succeeds only on custody
  that the classic token program owns.
\<close>

lemma handler_token_programs:
  "yields (\<lambda>_. 5 < length accounts \<and> owner_of L (accounts ! 3) = ai_key (accounts ! 5)) (try_collect_fees E accounts cf L)"
  "yields (\<lambda>_. 6 < length accounts \<and> owner_of L (accounts ! 3) = ai_key (accounts ! 6)) (try_invest_external E accounts ie L)"
  "yields (\<lambda>_. 6 < length accounts \<and> owner_of L (accounts ! 5) = ai_key (accounts ! 6)) (try_return_external E accounts re L)"
  "yields (\<lambda>_. 5 < length accounts \<and> owner_of L (accounts ! 3) = ai_key (accounts ! 5)) (try_process_withdrawals E accounts L)"
  unfolding try_collect_fees_def try_invest_external_def try_return_external_def try_process_withdrawals_def
    process_withdrawals_context_load_def Let_def
  by ((rule yields_rules)+, rule yields_const, auto simp: result_facts verify_token_program_for_def split: if_splits)+

lemma presented_token_program:
  assumes "payload_ok W" and "client_builds pda W ix i" and "presents ix handles"
    and "try_process_instruction E W (ix_program_id ix) handles (ix_data ix) L = Inr L'"
    and "yields (\<lambda>_. n < length handles \<and> owner_of L (handles ! m) = ai_key (handles ! n)) (run_instruction E handles L i)"
    and "m < length (ix_accounts ix)"
  shows "c_owner (L (am_pubkey (ix_accounts ix ! m))) = am_pubkey (ix_accounts ix ! n)"
proof -
  obtain metas where "new W metas i = Some ix" using client_builds_new [OF assms(2)] by blast
  then have "ix_program_id ix = ID" "serialize_roshi W i = Some (ix_data ix)" by (auto simp: new_Some_iff)
  then have "run_instruction E handles L i = Inr L'"
    using assms(4) decode_serialize_roshi [OF assms(1)] by (simp add: try_process_instruction_def)
  from yieldsD [OF assms(5) this] assms(3,6) show ?thesis
    by (auto simp: presents_def list_all2_conv_all_nth covers_def as_handle_def)
qed

theorem client_serves_classic_base_only:
  assumes "payload_ok W" and "presents ix handles"
    and "try_process_instruction E W (ix_program_id ix) handles (ix_data ix) L = Inr L'"
    and "process_withdrawals W authority vault sub_account custody share_mint settlements = Some ix \<or>
         collect_fees W authority vault index sub_account custody treasury amount = Some ix \<or>
         invest_external W authority vault index sub_account custody external destination amount = Some ix \<or>
         return_external W authority co_signer vault index sub_account external custody amount = Some ix"
  shows "c_owner (L custody) = client_TOKEN_PROGRAM_ID"
  using assms(4)
proof (elim disjE)
  assume b: "process_withdrawals W authority vault sub_account custody share_mint settlements = Some ix"
  show ?thesis using presented_token_program [OF assms(1) client_builds.intros(21) [OF b] assms(2,3), of 5 3] b
    by (auto simp: handler_token_programs process_withdrawals_def new_Some_iff meta_facts)
next
  assume b: "collect_fees W authority vault index sub_account custody treasury amount = Some ix"
  show ?thesis using presented_token_program [OF assms(1) client_builds.intros(18) [OF b] assms(2,3), of 5 3] b
    by (auto simp: handler_token_programs collect_fees_def new_Some_iff meta_facts)
next
  assume b: "invest_external W authority vault index sub_account custody external destination amount = Some ix"
  show ?thesis using presented_token_program [OF assms(1) client_builds.intros(19) [OF b] assms(2,3), of 6 3] b
    by (auto simp: handler_token_programs invest_external_def new_Some_iff meta_facts)
next
  assume b: "return_external W authority co_signer vault index sub_account external custody amount = Some ix"
  show ?thesis using presented_token_program [OF assms(1) client_builds.intros(20) [OF b] assms(2,3), of 6 5] b
    by (auto simp: handler_token_programs return_external_def new_Some_iff meta_facts)
qed

end
