(* ===== verification/Relay_Safety.thy ===== *)
theory Relay_Safety
  imports Access_Control
begin

text \<open>
  What a relayed call can and cannot do: it is the call its action authorizes, with no more
  privileges than its caller has; the routes open to the public leave their callers no choice of
  accounts; and every route leaves the custody accounts it was handed under the vault's control.
\<close>

section \<open>The call that is relayed\<close>

lemma cpi_meta_Inr:
  assumes "cpi_meta sub (acc, fl) = Inr m"
  shows "am_pubkey m = ai_key acc" and "am_is_writable m \<Longrightarrow> ai_is_writable acc"
    and "am_is_signer m \<Longrightarrow> ai_is_signer acc \<or> ai_key acc = sub"
  using assms by (auto simp: cpi_meta_def Let_def split: if_splits)

lemma flags_iter_length: "flags_iter p = Inr fs \<Longrightarrow> length fs = unat (accounts_len p)"
  by (auto simp: flags_iter_def Let_def split: if_splits)

lemma validate_authorized_cpi_Inr:
  assumes "validate_authorized_cpi E L accs va start flags data = Inr cpi"
  obtains handles program siblings preimage where
    "cpi_account_infos cpi = handles @ [program]" and "c_executable (L (ai_key program))"
    and "ix_program_id (cpi_instruction cpi) = ai_key program" and "ix_data (cpi_instruction cpi) = data"
    and "length (ix_accounts (cpi_instruction cpi)) = length handles"
    and "\<forall>i < length handles. let m = ix_accounts (cpi_instruction cpi) ! i; h = handles ! i in
           am_pubkey m = ai_key h \<and> (am_is_writable m \<longrightarrow> ai_is_writable h) \<and>
           (am_is_signer m \<longrightarrow> ai_is_signer h \<or> ai_key h = va_sub_account_key va)"
    and "action_preimage (ai_key program) (ac_ops (va_action va)) (ix_accounts (cpi_instruction cpi)) data siblings
           = Inr preimage"
    and "sha256 E preimage = ac_action_hash (va_action va)"
    and "cpi_vault_key cpi = va_vault_key va" and "cpi_sub_account_key cpi = va_sub_account_key va"
    and "cpi_sub_account_index cpi = va_sub_account_index va" and "cpi_sub_account_bump cpi = va_sub_account_bump va"
proof -
  let ?s = "unat start" and ?e = "unat start + unat (accounts_len flags)"
  from assms obtain handles program fs metas siblings preimage infos where
    h: "get_slice accs ?s ?e = Some handles" and p: "get_nth accs ?e = Some program"
    and ex: "c_executable (L (ai_key program))" and fs: "flags_iter flags = Inr fs"
    and ms: "map_M (cpi_meta (va_sub_account_key va)) (zip handles fs) = Inr metas"
    and pre: "action_preimage (ai_key program) (ac_ops (va_action va)) metas data siblings = Inr preimage"
    and sha: "sha256 E preimage = ac_action_hash (va_action va)"
    and infos: "get_slice accs ?s (?e + 1) = Some infos"
    and cpi: "cpi = \<lparr>cpi_instruction = \<lparr>ix_program_id = ai_key program, ix_accounts = metas, ix_data = data\<rparr>,
           cpi_account_infos = infos, cpi_vault_key = va_vault_key va,
           cpi_sub_account_key = va_sub_account_key va, cpi_sub_account_index = va_sub_account_index va,
           cpi_sub_account_bump = va_sub_account_bump va\<rparr>"
    by (auto simp: validate_authorized_cpi_def compute_action_hash_from_metas_def Let_def result_facts split: if_splits)
  have len: "length handles = length fs" using get_slice_length [OF h] flags_iter_length [OF fs] by simp
  have "infos = handles @ [program]"
    using h p infos by (auto simp: get_slice_Some_iff get_nth_Some_iff take_Suc_conv_app_nth drop_take Suc_diff_le)
  moreover have "length metas = length handles" using map_M_length [OF ms] len by simp
  moreover have "cpi_meta (va_sub_account_key va) (handles ! i, fs ! i) = Inr (metas ! i)" if "i < length handles" for i
    using map_M_nth [OF ms, of i] that len by simp
  moreover from this have "\<forall>i < length handles. am_pubkey (metas ! i) = ai_key (handles ! i) \<and>
      (am_is_writable (metas ! i) \<longrightarrow> ai_is_writable (handles ! i)) \<and>
      (am_is_signer (metas ! i) \<longrightarrow> ai_is_signer (handles ! i) \<or> ai_key (handles ! i) = va_sub_account_key va)"
    using cpi_meta_Inr by blast
  ultimately show thesis using that [of handles program siblings preimage] ex pre sha cpi by (simp add: Let_def)
qed

text \<open>A call for the witnesses: one writable account, ingested by the only op of its action.\<close>

definition relay_ledger :: ledger where
  "relay_ledger = example_ledger(9 := (example_ledger 9)\<lparr>c_executable := True\<rparr>)"

definition relay_preimage :: bytes where
  "relay_preimage = key_bytes 9 @ [2, 0] @ key_bytes 5 @ [0, 1]"

definition relay_action :: "action_scope \<Rightarrow> action" where
  "relay_action scope = \<lparr>ac_vault = 20, ac_action_hash = sha256 example_env relay_preimage, ac_ops = example_ops,
     ac_fee_num = 0, ac_fee_den = 1, ac_scope = scope, ac_amount_offset = 0, ac_bump = 252\<rparr>"

definition relay_accounts :: "action_scope \<Rightarrow> validated_manage_accounts" where
  "relay_accounts scope = \<lparr>va_action = relay_action scope, va_vault_key = 20, va_sub_account_key = 23,
     va_sub_account_index = 0, va_sub_account_bump = 253\<rparr>"

definition relay_cpi :: authorized_cpi where
  "relay_cpi = \<lparr>cpi_instruction = \<lparr>ix_program_id = 9,
        ix_accounts = [\<lparr>am_pubkey = 5, am_is_signer = False, am_is_writable = True\<rparr>], ix_data = []\<rparr>,
     cpi_account_infos = [handle 5 False True, handle 9 False False], cpi_vault_key = 20,
     cpi_sub_account_key = 23, cpi_sub_account_index = 0, cpi_sub_account_bump = 253\<rparr>"

lemma example_ops_iter: "ops_iter example_ops = Inr [Inr (IngestAccount 0)]"
proof -
  have "replicate 32 noop = noop # replicate 31 noop" by (simp flip: replicate_Suc)
  then show ?thesis
    by (simp add: ops_iter_def ops_length_def example_ops_def ops_empty_def MAX_ACTION_OPS_def del: stored_op_from.simps)
qed

lemma relay_example:
  "validate_authorized_cpi example_env relay_ledger [handle 5 False True, handle 9 False False] (relay_accounts scope) 0
     \<lparr>accounts_len = 1, packed_bits = [2]\<rparr> [] = Inr relay_cpi"
proof -
  have "flags_iter \<lparr>accounts_len = 1, packed_bits = [2]\<rparr> = Inr [\<lparr>af_is_signer = False, af_is_writable = True\<rparr>]"
    by (simp add: flags_iter_def div_ceil_4_def flags_at_def drop_bit_eq_div)
  moreover have "action_preimage 9 example_ops [\<lparr>am_pubkey = 5, am_is_signer = False, am_is_writable = True\<rparr>] [] [] =
      Inr relay_preimage"
    using example_ops_iter by (simp add: action_preimage_def preimage_len_def get_nth_def u8_of_bool_def relay_preimage_def)
  ultimately show ?thesis
    by (simp add: validate_authorized_cpi_def get_slice_def get_nth_def cpi_meta_def relay_accounts_def relay_action_def
        load_required_siblings_def example_ops_iter compute_action_hash_from_metas_def relay_cpi_def relay_ledger_def)
qed

lemma relay_example_bound:
  "require_all_metas_bound relay_cpi example_ops = Inr ()" "require_writable_metas_bound relay_cpi example_ops = Inr ()"
  by (simp_all add: require_all_metas_bound_def require_writable_metas_bound_def relay_cpi_def ingests_account_def
      example_ops_iter)

text \<open>
  C2. A relayed call is the authorized one: its program, metas and data, with the siblings read from
  the transaction, hash to the action's commitment; no account carries a privilege beyond what the
  caller's own handle has, except that the vault's sub-account may sign; the accounts passed along
  are the selected ones followed by an executable program account; and it is signed for with the
  seeds of that sub-account.
\<close>
theorem relayed_call_is_authorized:
  assumes "validate_authorized_cpi E L accs va start flags data = Inr cpi"
  shows "(\<exists>siblings preimage. action_preimage (ix_program_id (cpi_instruction cpi)) (ac_ops (va_action va))
             (ix_accounts (cpi_instruction cpi)) (ix_data (cpi_instruction cpi)) siblings = Inr preimage \<and>
           sha256 E preimage = ac_action_hash (va_action va)) \<and>
    (\<exists>handles program. cpi_account_infos cpi = handles @ [program] \<and> c_executable (L (ai_key program)) \<and>
       ai_key program = ix_program_id (cpi_instruction cpi) \<and>
       list_all2 (\<lambda>m h. am_pubkey m = ai_key h \<and> (am_is_writable m \<longrightarrow> ai_is_writable h) \<and>
          (am_is_signer m \<longrightarrow> ai_is_signer h \<or> ai_key h = va_sub_account_key va))
         (ix_accounts (cpi_instruction cpi)) handles) \<and>
    invoke_authorized_cpi E cpi L = invoke_signed E (cpi_instruction cpi) (cpi_account_infos cpi)
      [[SUB_ACCOUNT_SEED, key_bytes (va_vault_key va), [va_sub_account_index va], [va_sub_account_bump va]]] L"
  by (rule validate_authorized_cpi_Inr [OF assms])
     (auto simp: list_all2_conv_all_nth invoke_authorized_cpi_def Let_def intro!: exI)

theorem relayed_call_is_authorized_witness:
  "\<exists>siblings preimage. action_preimage 9 example_ops [\<lparr>am_pubkey = 5, am_is_signer = False, am_is_writable = True\<rparr>] []
     siblings = Inr preimage \<and> sha256 example_env preimage = sha256 example_env relay_preimage"
  using relayed_call_is_authorized [OF relay_example [of Manager]]
  by (auto simp: relay_cpi_def relay_accounts_def relay_action_def)

section \<open>Public routes\<close>

lemma ingests_loop_True_iff:
  "ingests_loop i (map Inr ys) = Inr True \<longleftrightarrow> (\<exists>j. IngestAccount j \<in> set ys \<and> unat j = i)"
proof (induction ys)
  case (Cons y ys)
  then show ?case by (cases y) auto
qed simp

lemma ingests_account_True:
  "ingests_account os i = Inr True \<Longrightarrow> ops_iter os = Inr (map Inr ys) \<Longrightarrow> \<exists>j. IngestAccount j \<in> set ys \<and> unat j = i"
  by (simp add: ingests_account_def ingests_loop_True_iff)

lemma require_all_metas_loop_Inr:
  "require_all_metas_loop os is = Inr u \<Longrightarrow> i \<in> set is \<Longrightarrow> ingests_account os i = Inr True"
  by (induction "is") (auto simp: result_facts split: if_splits)

lemma require_writable_metas_loop_Inr:
  "require_writable_metas_loop os n ms = Inr u \<Longrightarrow> i < length ms \<Longrightarrow> am_is_writable (ms ! i) \<Longrightarrow>
     ingests_account os (n + i) = Inr True"
proof (induction ms arbitrary: n i)
  case (Cons m ms)
  then show ?case
    by (cases i) (auto simp: result_facts split: if_splits, (metis Cons.IH add_Suc)+)
qed simp

text \<open>Equal preimages agree on every account that an op ingests.\<close>

lemma ingested_meta_equal:
  assumes "action_preimage p os A I S = Inr b" and "action_preimage p' os A' I' S' = Inr b"
    and "ingests_account os i = Inr True"
  shows "i < length A \<and> i < length A' \<and> A ! i = A' ! i"
proof -
  obtain ys bss where ys: "ops_iter os = Inr (map Inr ys)" "map_M (op_bytes A I S) ys = Inr bss"
    "b = key_bytes p @ concat bss" using assms(1) by (auto simp: action_preimage_Inr_iff)
  obtain bss' where ys': "map_M (op_bytes A' I' S') ys = Inr bss'" "b = key_bytes p' @ concat bss'"
    using assms(2) ys(1) by (auto simp: action_preimage_Inr_iff inj_on_def dest!: map_inj_on)
  have "concat bss = concat bss'" using ys(3) ys'(2) by (simp add: append_eq_append_conv)
  then have "bss = bss'" using op_bytes_list_unique [OF ys(2) ys'(1)] by simp
  moreover obtain j where j: "IngestAccount j \<in> set ys" "unat j = i"
    using ingests_account_True [OF assms(3) ys(1)] by blast
  ultimately have same: "op_bytes A I S (IngestAccount j) = op_bytes A' I' S' (IngestAccount j)"
    using map_M_set [OF ys(2)] ys'(1) by blast
  obtain z where "op_bytes A I S (IngestAccount j) = Inr z"
    using map_M_nth [OF ys(2)] j(1) by (metis in_set_conv_nth)
  with same j(2) show ?thesis
    by (cases "A ! i"; cases "A' ! i")
       (auto simp: result_facts get_nth_Some_iff attempt_def get_nth_def u8_of_bool_def split: if_splits)
qed

text \<open>A collision of the hash function on preimages of two given calls.\<close>

definition hash_collision :: "env \<Rightarrow> ops \<Rightarrow> instruction \<Rightarrow> instruction \<Rightarrow> bool" where
  "hash_collision E os ix ix' \<longleftrightarrow> (\<exists>p p' S S'. p \<noteq> p' \<and> sha256 E p = sha256 E p' \<and>
     action_preimage (ix_program_id ix) os (ix_accounts ix) (ix_data ix) S = Inr p \<and>
     action_preimage (ix_program_id ix') os (ix_accounts ix') (ix_data ix') S' = Inr p')"

lemma same_commitment:
  assumes "validate_authorized_cpi E L accs va start flags data = Inr cpi"
    and "validate_authorized_cpi E' L' accs' va' start' flags' data' = Inr cpi'"
    and "sha256 E' = sha256 E" and "ac_ops (va_action va') = ac_ops (va_action va)"
    and "ac_action_hash (va_action va') = ac_action_hash (va_action va)"
    and "\<not> hash_collision E (ac_ops (va_action va)) (cpi_instruction cpi) (cpi_instruction cpi')"
  obtains S S' p where
    "action_preimage (ix_program_id (cpi_instruction cpi)) (ac_ops (va_action va)) (ix_accounts (cpi_instruction cpi))
       (ix_data (cpi_instruction cpi)) S = Inr p"
    and "action_preimage (ix_program_id (cpi_instruction cpi')) (ac_ops (va_action va)) (ix_accounts (cpi_instruction cpi'))
       (ix_data (cpi_instruction cpi')) S' = Inr p"
proof -
  obtain S p where p: "action_preimage (ix_program_id (cpi_instruction cpi)) (ac_ops (va_action va))
      (ix_accounts (cpi_instruction cpi)) (ix_data (cpi_instruction cpi)) S = Inr p" "sha256 E p = ac_action_hash (va_action va)"
    by (rule validate_authorized_cpi_Inr [OF assms(1)]) auto
  obtain S' p' where p': "action_preimage (ix_program_id (cpi_instruction cpi')) (ac_ops (va_action va))
      (ix_accounts (cpi_instruction cpi')) (ix_data (cpi_instruction cpi')) S' = Inr p'" "sha256 E p' = ac_action_hash (va_action va)"
    by (rule validate_authorized_cpi_Inr [OF assms(2)]) (use assms(3-5) in auto)
  have "p = p'" using assms(6) p p' unfolding hash_collision_def by metis
  with p p' that show thesis by blast
qed

lemma preimage_program: "action_preimage p os A I S = Inr b \<Longrightarrow> action_preimage p' os A' I' S' = Inr b \<Longrightarrow> p = p'"
  by (auto simp: action_preimage_Inr_iff append_eq_append_conv)

text \<open>
  C17. Public deployment leaves its callers no choice: any two calls that one deploy action admits,
  whoever relays them and whenever, go to the same program with the same account list and the same
  signer and writable flags, or exhibit a collision of the hash function.
\<close>
theorem public_deploy_is_fixed:
  assumes "validate_authorized_cpi E L accs va start flags data = Inr cpi"
    and "validate_authorized_cpi E' L' accs' va' start' flags' data' = Inr cpi'"
    and "sha256 E' = sha256 E" and "ac_ops (va_action va') = ac_ops (va_action va)"
    and "ac_action_hash (va_action va') = ac_action_hash (va_action va)"
    and "require_all_metas_bound cpi (ac_ops (va_action va)) = Inr ()"
    and "require_all_metas_bound cpi' (ac_ops (va_action va)) = Inr ()"
  shows "ix_program_id (cpi_instruction cpi) = ix_program_id (cpi_instruction cpi') \<and>
      ix_accounts (cpi_instruction cpi) = ix_accounts (cpi_instruction cpi') \<or>
    hash_collision E (ac_ops (va_action va)) (cpi_instruction cpi) (cpi_instruction cpi')"
proof (rule disjCI)
  let ?A = "ix_accounts (cpi_instruction cpi)" and ?A' = "ix_accounts (cpi_instruction cpi')"
  assume "\<not> hash_collision E (ac_ops (va_action va)) (cpi_instruction cpi) (cpi_instruction cpi')"
  from same_commitment [OF assms(1-5) this] obtain S S' p where
    p: "action_preimage (ix_program_id (cpi_instruction cpi)) (ac_ops (va_action va)) ?A (ix_data (cpi_instruction cpi)) S = Inr p"
    and p': "action_preimage (ix_program_id (cpi_instruction cpi')) (ac_ops (va_action va)) ?A' (ix_data (cpi_instruction cpi')) S' = Inr p"
    by blast
  have "i < length ?A \<and> i < length ?A' \<and> ?A ! i = ?A' ! i" if "i < length ?A \<or> i < length ?A'" for i
    using that assms(6,7) ingested_meta_equal [OF p p'] unfolding require_all_metas_bound_def
    by (auto dest!: require_all_metas_loop_Inr [where i = i])
  then have "?A = ?A'" by (metis linorder_neqE_nat nat_neq_iff nth_equalityI)
  with preimage_program [OF p p'] show "ix_program_id (cpi_instruction cpi) = ix_program_id (cpi_instruction cpi') \<and> ?A = ?A'"
    by simp
qed

theorem public_deploy_is_fixed_witness:
  "ix_program_id (cpi_instruction relay_cpi) = 9 \<and>
   (ix_accounts (cpi_instruction relay_cpi) = ix_accounts (cpi_instruction relay_cpi) \<or>
    hash_collision example_env example_ops (cpi_instruction relay_cpi) (cpi_instruction relay_cpi))"
  using public_deploy_is_fixed [OF relay_example [of Deploy] relay_example [of Deploy]] relay_example_bound
  by (simp add: relay_accounts_def relay_action_def relay_cpi_def)

text \<open>
  C18. Atomic redemption leaves its callers no choice of what moves: of any two unwinds that one
  action admits, every account writable in the one is at the same place in the other, with the same
  key and flags, and both go to the same program, or they exhibit a collision of the hash function.
\<close>
theorem public_unwind_moves_fixed_accounts:
  assumes "validate_authorized_cpi E L accs va start flags data = Inr cpi"
    and "validate_authorized_cpi E' L' accs' va' start' flags' data' = Inr cpi'"
    and "sha256 E' = sha256 E" and "ac_ops (va_action va') = ac_ops (va_action va)"
    and "ac_action_hash (va_action va') = ac_action_hash (va_action va)"
    and "require_writable_metas_bound cpi (ac_ops (va_action va)) = Inr ()"
    and "i < length (ix_accounts (cpi_instruction cpi))" and "am_is_writable (ix_accounts (cpi_instruction cpi) ! i)"
  shows "ix_program_id (cpi_instruction cpi) = ix_program_id (cpi_instruction cpi') \<and>
      i < length (ix_accounts (cpi_instruction cpi')) \<and>
      ix_accounts (cpi_instruction cpi) ! i = ix_accounts (cpi_instruction cpi') ! i \<or>
    hash_collision E (ac_ops (va_action va)) (cpi_instruction cpi) (cpi_instruction cpi')"
proof (rule disjCI)
  assume "\<not> hash_collision E (ac_ops (va_action va)) (cpi_instruction cpi) (cpi_instruction cpi')"
  from same_commitment [OF assms(1-5) this] obtain S S' p where
    p: "action_preimage (ix_program_id (cpi_instruction cpi)) (ac_ops (va_action va)) (ix_accounts (cpi_instruction cpi))
       (ix_data (cpi_instruction cpi)) S = Inr p"
    and p': "action_preimage (ix_program_id (cpi_instruction cpi')) (ac_ops (va_action va)) (ix_accounts (cpi_instruction cpi'))
       (ix_data (cpi_instruction cpi')) S' = Inr p"
    by blast
  have "ingests_account (ac_ops (va_action va)) i = Inr True"
    using require_writable_metas_loop_Inr [OF assms(6) [unfolded require_writable_metas_bound_def] assms(7,8)] by simp
  from ingested_meta_equal [OF p p' this] preimage_program [OF p p']
  show "ix_program_id (cpi_instruction cpi) = ix_program_id (cpi_instruction cpi') \<and>
      i < length (ix_accounts (cpi_instruction cpi')) \<and>
      ix_accounts (cpi_instruction cpi) ! i = ix_accounts (cpi_instruction cpi') ! i" by simp
qed

theorem public_unwind_moves_fixed_accounts_witness:
  "0 < length (ix_accounts (cpi_instruction relay_cpi)) \<or>
    hash_collision example_env example_ops (cpi_instruction relay_cpi) (cpi_instruction relay_cpi)"
  using public_unwind_moves_fixed_accounts [OF relay_example [of AtomicRedeem] relay_example [of AtomicRedeem], of 0]
    relay_example_bound
  by (simp add: relay_accounts_def relay_action_def relay_cpi_def)

section \<open>Custody\<close>

text \<open>An account that stays under the control of a sub-account: its token account, with no other authority on it.\<close>

definition clean_custody :: "ledger \<Rightarrow> key \<Rightarrow> key \<Rightarrow> bool" where
  "clean_custody L sub k \<longleftrightarrow> is_token_program (c_owner (L k)) \<and> TOKEN_ACCOUNT_LEN \<le> length (c_data (L k)) \<and>
     c_data (L k) ! TOKEN_ACCOUNT_STATE = 1 \<and> key_field (c_data (L k)) TOKEN_ACCOUNT_OWNER = sub \<and>
     u32_field (c_data (L k)) TOKEN_ACCOUNT_DELEGATE = 0 \<and> u32_field (c_data (L k)) TOKEN_ACCOUNT_CLOSE_AUTHORITY = 0"

lemma is_clean_custody_True_iff: "is_clean_custody L a sub = Inr True \<longleftrightarrow> clean_custody L sub (ai_key a)"
  by (auto simp: is_clean_custody_def clean_custody_def has_transfer_authority_def Let_def)

lemma is_clean_custody_fails:
  "is_clean_custody L a sub = Inr c \<Longrightarrow> is_token_program (owner_of L a) \<Longrightarrow> TOKEN_ACCOUNT_LEN \<le> length (data_of L a) \<Longrightarrow>
     data_of L a ! TOKEN_ACCOUNT_STATE = 1 \<Longrightarrow> key_field (data_of L a) TOKEN_ACCOUNT_OWNER = sub \<Longrightarrow> c"
  by (auto simp: is_clean_custody_def Let_def split: if_splits)

lemma scan_custody_loop_Inr:
  assumes "scan_custody_loop L sub xs = Inr ks" and "(m, h) \<in> set xs" and "am_is_writable m"
  shows "clean_custody L sub (ai_key h) \<Longrightarrow> ai_key h \<in> set ks" and "\<exists>c. is_clean_custody L h sub = Inr c"
  using assms
  by (induction L sub xs arbitrary: ks rule: scan_custody_loop.induct)
     (auto simp: result_facts is_clean_custody_True_iff [symmetric] split: if_splits)

lemma find_handle: "find (\<lambda>info. ai_key info = k) infos = Some h \<Longrightarrow> ai_key h = k"
  by (auto simp: find_Some_iff)

lemma reverify_Inr:
  assumes "reverify_subaccount_custody_except L cpi ks exempt = Inr u" and "k \<in> set ks" and "exempt \<noteq> Some k"
  shows "clean_custody L (cpi_sub_account_key cpi) k"
  using assms
  by (induction L cpi ks exempt rule: reverify_subaccount_custody_except.induct)
     (auto simp: result_facts is_clean_custody_True_iff dest!: find_handle split: if_splits)

text \<open>
  C13. A relayed call of the strategist keeps custody under control: among the writable accounts
  handed to it, every token account of the sub-account is free of delegates and close authorities
  before the call, and after it is still a token account of the sub-account without any, except for
  the source of a flash approval.
\<close>
theorem managed_call_keeps_custody:
  assumes "settle_authorized_cpi E cpi a accs L = Inr L'"
    and "(m, h) \<in> set (zip (ix_accounts (cpi_instruction cpi)) (cpi_account_infos cpi))" and "am_is_writable m"
    and "is_token_program (owner_of L h)" and "TOKEN_ACCOUNT_LEN \<le> length (data_of L h)"
    and "data_of L h ! TOKEN_ACCOUNT_STATE = 1" and "key_field (data_of L h) TOKEN_ACCOUNT_OWNER = cpi_sub_account_key cpi"
  shows "clean_custody L (cpi_sub_account_key cpi) (ai_key h) \<and>
    (clean_custody L' (cpi_sub_account_key cpi) (ai_key h) \<or>
     ac_scope a = FlashApprove \<and> ai_key h = ai_key (hd (cpi_account_infos cpi)))"
proof -
  let ?zs = "zip (ix_accounts (cpi_instruction cpi)) (cpi_account_infos cpi)" and ?sub = "cpi_sub_account_key cpi"
  obtain ks where scan: "scan_custody_loop L ?sub ?zs = Inr ks"
    and after: "reverify_subaccount_custody_except L' cpi ks None = Inr () \<or>
      ac_scope a = FlashApprove \<and>
      reverify_subaccount_custody_except L' cpi ks (Some (ai_key (hd (cpi_account_infos cpi)))) = Inr ()"
    using assms(1)
    by (cases "ac_scope a")
       (auto simp: settle_authorized_cpi_def scan_subaccount_custody_def reverify_subaccount_custody_def
         approve_source_def get_nth_Some_iff hd_conv_nth result_facts)
  from scan_custody_loop_Inr(2) [OF scan assms(2,3)] obtain c where c: "is_clean_custody L h ?sub = Inr c" by blast
  with is_clean_custody_fails [OF c assms(4-7)] have clean: "clean_custody L ?sub (ai_key h)"
    using is_clean_custody_True_iff by metis
  then have "ai_key h \<in> set ks" using scan_custody_loop_Inr(1) [OF scan assms(2,3)] by blast
  with after clean show ?thesis using reverify_Inr by (metis option.distinct(1) option.inject)
qed

text \<open>A transfer out of custody 21, relayed through the token program.\<close>

definition transfer_cpi :: authorized_cpi where
  "transfer_cpi = \<lparr>cpi_instruction = token_amount_instruction TOKEN_PROGRAM_ID TRANSFER_INSTRUCTION 21 30 23 5,
     cpi_account_infos = [handle 21 False True, handle 30 False True, handle 23 False False],
     cpi_vault_key = 20, cpi_sub_account_key = 23, cpi_sub_account_index = 0, cpi_sub_account_bump = 253\<rparr>"

lemma token_account_fields:
  "length (token_account_bytes m h n) = 165" "token_account_bytes m h n ! TOKEN_ACCOUNT_STATE = 1"
  "key_field (token_account_bytes m h n) TOKEN_ACCOUNT_OWNER = h"
  "u32_field (token_account_bytes m h n) TOKEN_ACCOUNT_DELEGATE = 0"
  "u32_field (token_account_bytes m h n) TOKEN_ACCOUNT_CLOSE_AUTHORITY = 0"
  by (simp_all add: token_account_bytes_def token_layout_defs nth_append field_def from_le_zeros)

lemma example_custody_scan:
  "is_clean_custody example_ledger (handle 21 s w) 23 = Inr True"
  "is_clean_custody example_ledger (handle 30 s w) 23 = Inr False"
  using token_account_fields
  by (simp_all add: is_clean_custody_def has_transfer_authority_def Let_def example_ledger_def is_token_program_def
      TOKEN_ACCOUNT_LEN_def)

lemma transfer_cpi_run:
  "settle_authorized_cpi example_env transfer_cpi (relay_action Manager) accs example_ledger = Inr example_ledger"
  using example_custody_scan
  by (simp add: settle_authorized_cpi_def relay_action_def scan_subaccount_custody_def reverify_subaccount_custody_def
      transfer_cpi_def token_amount_instruction_def invoke_authorized_cpi_def example_env_def example_invoke_def
      TRANSFER_INSTRUCTION_def MINT_TO_INSTRUCTION_def BURN_INSTRUCTION_def)

theorem managed_call_keeps_custody_witness: "clean_custody example_ledger 23 21"
  using managed_call_keeps_custody [OF transfer_cpi_run, of "\<lparr>am_pubkey = 21, am_is_signer = False, am_is_writable = True\<rparr>"
      "handle 21 False True"] token_account_fields
  by (simp add: transfer_cpi_def token_amount_instruction_def example_ledger_def is_token_program_def TOKEN_ACCOUNT_LEN_def)

section \<open>Flash approvals\<close>

text \<open>A sibling instruction at a relative index, tied to an account by one of its metas.\<close>

definition tied_sibling :: "env \<Rightarrow> ledger \<Rightarrow> account_info \<Rightarrow> key \<Rightarrow> i8 \<Rightarrow> instruction \<Rightarrow> bool" where
  "tied_sibling E L sysvar source r ix \<longleftrightarrow> get_instruction_relative E (sint r) L sysvar = Inr ix \<and>
     (\<exists>i < length (ix_accounts ix). am_pubkey (ix_accounts ix ! i) = source)"

lemma bind_loop_step:
  assumes "bind_loop E L sysvar aops source ((r, off) # rest) am seen = Inr out"
  obtains ix where "tied_sibling E L sysvar source r ix"
    and "ix_program_id ix = ID \<longrightarrow> \<not> seen \<and> bind_loop E L sysvar aops source rest am True = Inr out"
    and "ix_program_id ix \<noteq> ID \<longrightarrow> am = None \<and> (\<exists>F. get_slice (ix_data ix) off (off + 8) = Some (to_le_bytes F) \<and>
           bind_loop E L sysvar aops source rest (Some F) seen = Inr out)"
proof -
  have bytes: "bs = to_le_bytes (from_le_bytes bs :: u64)" if "get_slice d off (off + 8) = Some bs" for d bs
    using get_slice_length [OF that] by simp
  from assms show thesis
    by (auto simp: result_facts get_nth_Some_iff tied_sibling_def split: if_splits
        intro!: that) (metis bytes)+
qed

lemma bind_flash_siblings_Inr:
  assumes "bind_flash_siblings E L os accs source = Inr F"
  obtains sysvar r borrow off r' backstop where "instructions_sysvar E L accs = Inr sysvar"
    and "tied_sibling E L sysvar source r borrow" and "ix_program_id borrow \<noteq> ID"
    and "get_slice (ix_data borrow) off (off + 8) = Some (to_le_bytes F)"
    and "tied_sibling E L sysvar source r' backstop" and "ix_program_id backstop = ID"
proof -
  from assms obtain iops aops sysvar where len: "length iops = 2" and sysvar: "instructions_sysvar E L accs = Inr sysvar"
    and loop: "bind_loop E L sysvar aops source iops None False = Inr (Some F, True)"
    by (auto simp: bind_flash_siblings_def result_facts split: if_splits option.splits bool.splits)
  from len obtain r1 o1 r2 o2 where "iops = [(r1, o1), (r2, o2)]"
    by (auto simp: length_Suc_conv numeral_2_eq_2)
  with loop have "bind_loop E L sysvar aops source ((r1, o1) # [(r2, o2)]) None False = Inr (Some F, True)" by simp
  then show thesis
  proof (rule bind_loop_step)
    fix ix1
    assume t1: "tied_sibling E L sysvar source r1 ix1"
      and own1: "ix_program_id ix1 = ID \<longrightarrow> \<not> False \<and> bind_loop E L sysvar aops source [(r2, o2)] None True = Inr (Some F, True)"
      and other1: "ix_program_id ix1 \<noteq> ID \<longrightarrow> None = None \<and> (\<exists>F'. get_slice (ix_data ix1) o1 (o1 + 8) = Some (to_le_bytes F') \<and>
           bind_loop E L sysvar aops source [(r2, o2)] (Some F') False = Inr (Some F, True))"
    show thesis
    proof (cases "ix_program_id ix1 = ID")
      case True
      from own1 True have "bind_loop E L sysvar aops source ((r2, o2) # []) None True = Inr (Some F, True)" by simp
      then show thesis by (rule bind_loop_step) (use that [OF sysvar _ _ _ t1 True] in auto)
    next
      case False
      with other1 obtain F' where F': "get_slice (ix_data ix1) o1 (o1 + 8) = Some (to_le_bytes F')"
        "bind_loop E L sysvar aops source ((r2, o2) # []) (Some F') False = Inr (Some F, True)" by auto
      from F'(2) show thesis by (rule bind_loop_step) (use that [OF sysvar t1 False] F'(1) in auto)
    qed
  qed
qed


text \<open>
  A transaction for the witness: a lender's instruction carrying an amount of 1000 at relative
  index 1, the check of this program at index 2, and a fee of nine basis points, which rounds to one.
\<close>

definition borrow_ix :: instruction where
  "borrow_ix = \<lparr>ix_program_id = 9, ix_accounts = [\<lparr>am_pubkey = 21, am_is_signer = False, am_is_writable = True\<rparr>],
     ix_data = 8 # to_le_bytes (1000 :: u64)\<rparr>"

definition backstop_ix :: instruction where
  "backstop_ix = \<lparr>ix_program_id = ID, ix_accounts = [\<lparr>am_pubkey = 21, am_is_signer = False, am_is_writable = False\<rparr>],
     ix_data = [31]\<rparr>"

definition approved_bytes :: bytes where
  "approved_bytes = key_bytes 6 @ key_bytes 23 @ to_le_bytes (10000 :: u64) @ [1, 0, 0, 0] @ key_bytes 9 @ [1] @
     replicate 12 0 @ to_le_bytes (1001 :: u64) @ replicate 36 0"

definition flash_env :: env where
  "flash_env = example_env\<lparr>invoke_signed := (\<lambda>ix infos seeds L. Inr (set_data 21 approved_bytes L)),
     load_instruction_at_checked := (\<lambda>_ _ _. Inr backstop_ix),
     get_instruction_relative := (\<lambda>i _ _. Inr (if i = 1 then borrow_ix else backstop_ix))\<rparr>"

definition flash_action :: action where
  "flash_action = (relay_action FlashApprove)\<lparr>ac_fee_num := 9, ac_fee_den := 10000, ac_ops :=
     \<lparr>ops_array = map stored_op_from [IngestSiblingInstruction 1 0 1, IngestSiblingAccount 1 0,
        IngestSiblingInstruction 2 0 1, IngestSiblingAccount 2 0] @ replicate 28 noop, ops_len = 4\<rparr>\<rparr>"

definition approve_cpi :: authorized_cpi where
  "approve_cpi = \<lparr>cpi_instruction = \<lparr>ix_program_id = TOKEN_PROGRAM_ID,
        ix_accounts = [\<lparr>am_pubkey = 21, am_is_signer = False, am_is_writable = True\<rparr>], ix_data = [4]\<rparr>,
     cpi_account_infos = [handle 21 False True, handle TOKEN_PROGRAM_ID False False], cpi_vault_key = 20,
     cpi_sub_account_key = 23, cpi_sub_account_index = 0, cpi_sub_account_bump = 253\<rparr>"

lemma approved_fields:
  "length approved_bytes = 165" "approved_bytes ! TOKEN_ACCOUNT_STATE = 1"
  "key_field approved_bytes TOKEN_ACCOUNT_OWNER = 23" "u32_field approved_bytes TOKEN_ACCOUNT_CLOSE_AUTHORITY = 0"
  "u64_field approved_bytes TOKEN_ACCOUNT_DELEGATED_AMOUNT = 1001"
  by (simp_all add: approved_bytes_def token_layout_defs nth_append field_def from_le_zeros)

lemma flash_siblings:
  "bind_flash_siblings flash_env L (ac_ops flash_action) [handle INSTRUCTIONS_SYSVAR_ID False False] 21 = Inr 1000"
proof -
  have "ops_iter (ac_ops flash_action) = Inr (map Inr [IngestSiblingInstruction 1 0 1, IngestSiblingAccount 1 0,
        IngestSiblingInstruction 2 0 1, IngestSiblingAccount 2 0])"
    by (simp add: ops_iter_def ops_length_def flash_action_def MAX_ACTION_OPS_def del: stored_op_from.simps)
  then show ?thesis
    by (simp add: bind_flash_siblings_def instructions_sysvar_def flash_env_def example_env_def borrow_ix_def
        backstop_ix_def get_nth_def get_slice_def ID_def)
qed

lemma flash_run:
  "settle_authorized_cpi flash_env approve_cpi flash_action [handle INSTRUCTIONS_SYSVAR_ID False False] example_ledger
     = Inr (set_data 21 approved_bytes example_ledger)"
proof -
  have "round_with_min1 1000 9 10000 = Inr 1" by (simp add: round_with_min1_Inr_iff)
  moreover have "verify_flash_delegate (set_data 21 approved_bytes example_ledger) (handle 21 False True) 23 1001 = Inr ()"
    using approved_fields by (simp add: verify_flash_delegate_def Let_def is_token_program_def TOKEN_ACCOUNT_LEN_def example_ledger_def)
  moreover have "ac_scope flash_action = FlashApprove" "ac_fee_num flash_action = 9" "ac_fee_den flash_action = 10000"
    "invoke_signed flash_env ix infos seeds L = Inr (set_data 21 approved_bytes L)" for ix infos seeds L
    by (simp_all add: flash_action_def relay_action_def flash_env_def)
  ultimately show ?thesis
    using flash_siblings [of example_ledger] example_custody_scan
    by (simp add: settle_authorized_cpi_def verify_is_approve_def approve_source_def approve_cpi_def get_nth_def
        is_token_program_def SPL_APPROVE_TAG_def scan_subaccount_custody_def cpi_verify_flash_delegate_def
        invoke_authorized_cpi_def checked_add_def)
qed


end
