(* ===== verification/Settlement_Safety.thy ===== *)
theory Settlement_Safety
  imports Relay_Safety
begin

text \<open>
  The routes that settle on what a relayed call did to custody: a swap moves the balances of its
  two endpoints only, within the bounds of its caller and of the oracles; an atomic redemption pays
  out at most the value of the shares it burns and never lowers the share price.
\<close>

section \<open>Swap\<close>

lemma execute_swap_cpi_Inr:
  assumes "execute_swap_cpi E ctx args L = Inr (spent, received, L')"
  obtains in_pre out_pre in_post out_post va cpi custody where
    "token_amount L (sx_input_custody ctx) = Inr in_pre" and "token_amount L (sx_output_custody ctx) = Inr out_pre"
    and "token_amount L' (sx_input_custody ctx) = Inr in_post" and "token_amount L' (sx_output_custody ctx) = Inr out_post"
    and "unat in_pre = unat spent + unat in_post" and "unat out_post = unat out_pre + unat received"
    and "spent \<le> swa_max_in args" and "swa_min_out args \<le> received"
    and "va_action va = sx_action ctx" and "va_sub_account_key va = ai_key (sx_sub_account ctx)"
    and "validate_authorized_cpi E L (sx_cpi_accounts ctx) va (swa_accounts_start args) (swa_account_flags args)
           (swa_ix_data args) = Inr cpi"
    and "snapshot_writable_custody L cpi [ai_key (sx_input_custody ctx), ai_key (sx_output_custody ctx)] = Inr custody"
    and "invoke_authorized_cpi E cpi L = Inr L'" and "verify_custody_unchanged L' cpi custody = Inr ()"
    and "verify_swap_endpoint_unchanged (data_of L (sx_input_custody ctx)) L' (sx_input_custody ctx) = Inr ()"
    and "verify_swap_endpoint_unchanged (data_of L (sx_output_custody ctx)) L' (sx_output_custody ctx) = Inr ()"
proof -
  let ?i = "sx_input_custody ctx" and ?o = "sx_output_custody ctx"
  from assms obtain in_pre out_pre in_post out_post cpi custody where
    a: "token_amount L ?i = Inr in_pre" "token_amount L ?o = Inr out_pre"
      "token_amount L' ?i = Inr in_post" "token_amount L' ?o = Inr out_post"
      "checked_sub in_pre in_post = Some spent" "checked_sub out_post out_pre = Some received"
      "\<not> swa_max_in args < spent" "\<not> received < swa_min_out args"
    and v: "validate_authorized_cpi E L (sx_cpi_accounts ctx)
        \<lparr>va_action = sx_action ctx, va_vault_key = sx_vault_key ctx, va_sub_account_key = ai_key (sx_sub_account ctx),
         va_sub_account_index = sx_sub_account_index ctx, va_sub_account_bump = sx_sub_account_bump ctx\<rparr>
        (swa_accounts_start args) (swa_account_flags args) (swa_ix_data args) = Inr cpi"
    and c: "snapshot_writable_custody L cpi [ai_key ?i, ai_key ?o] = Inr custody"
      "invoke_authorized_cpi E cpi L = Inr L'" "verify_custody_unchanged L' cpi custody = Inr ()"
      "verify_swap_endpoint_unchanged (data_of L ?i) L' ?i = Inr ()"
      "verify_swap_endpoint_unchanged (data_of L ?o) L' ?o = Inr ()"
    unfolding execute_swap_cpi_def Let_def by (auto simp: result_facts split: if_splits)
  show thesis
    by (rule that [OF a(1-4) _ _ _ _ _ _ v c]) (use a(5-8) in \<open>simp_all add: checked_sub_Some_iff\<close>)
qed

lemma token_amount_key: "ai_key a = ai_key b \<Longrightarrow> token_amount L a = token_amount L b"
  by (simp add: token_amount_def)

text \<open>One step of the snapshot loop, by what it does with the account at the head.\<close>

lemma snapshot_step:
  assumes "snapshot_custody_loop L sub exempt ((meta, info) # rest) acc = Inr snap"
  obtains (skip) "snapshot_custody_loop L sub exempt rest acc = Inr snap"
      "am_is_writable meta \<Longrightarrow> ai_key info \<notin> set exempt \<Longrightarrow> clean_custody L sub (ai_key info) \<Longrightarrow> ai_key info \<in> fst ` set acc"
  | (take) n where "token_amount L info = Inr n"
      "snapshot_custody_loop L sub exempt rest (acc @ [(ai_key info, n)]) = Inr snap"
  using assms is_clean_custody_True_iff [of L info sub] by (fastforce simp: result_facts split: if_splits)

lemma snapshot_mono: "snapshot_custody_loop L sub exempt xs acc = Inr snap \<Longrightarrow> set acc \<subseteq> set snap"
proof (induction xs arbitrary: acc)
  case (Cons x xs)
  then show ?case by (cases x) (fastforce elim!: snapshot_step)
qed simp

lemma snapshot_amounts:
  "snapshot_custody_loop L sub exempt xs acc = Inr snap \<Longrightarrow> (k, n) \<in> set snap \<Longrightarrow>
     (k, n) \<in> set acc \<or> (\<exists>h. ai_key h = k \<and> token_amount L h = Inr n)"
proof (induction xs arbitrary: acc)
  case (Cons x xs)
  then show ?case by (cases x) (fastforce elim!: snapshot_step)
qed simp

lemma snapshot_complete:
  assumes "snapshot_custody_loop L sub exempt xs acc = Inr snap" and "(m, h) \<in> set xs" and "am_is_writable m"
    and "ai_key h \<notin> set exempt" and "clean_custody L sub (ai_key h)"
  shows "ai_key h \<in> fst ` set snap"
  using assms(1,2)
proof (induction xs arbitrary: acc)
  case (Cons x xs)
  obtain meta info where x: "x = (meta, info)" by force
  from Cons.prems(1) [unfolded x] show ?case
  proof (cases rule: snapshot_step)
    case skip
    have "fst ` set acc \<subseteq> fst ` set snap" using snapshot_mono [OF skip(1)] by blast
    then show ?thesis using Cons.IH [OF skip(1)] Cons.prems(2) x assms(3-5) skip(2) by auto
  next
    case (take n)
    then have "ai_key info \<in> fst ` set snap" using snapshot_mono [OF take(2)] by force
    then show ?thesis using Cons.IH [OF take(2)] Cons.prems(2) x by auto
  qed
qed simp

lemma verify_custody_unchanged_Inr:
  assumes "verify_custody_unchanged L cpi snap = Inr u" and "(k, n) \<in> set snap"
  shows "clean_custody L (cpi_sub_account_key cpi) k \<and> (\<exists>h. ai_key h = k \<and> token_amount L h = Inr n)"
  using assms
  by (induction L cpi snap rule: verify_custody_unchanged.induct)
     (auto simp: result_facts is_clean_custody_True_iff dest!: find_handle split: if_splits)


text \<open>What a token account holds, and its bytes apart from that.\<close>

definition token_balance :: "ledger \<Rightarrow> key \<Rightarrow> u64" where
  "token_balance L k = u64_field (c_data (L k)) TOKEN_ACCOUNT_AMOUNT"

definition token_terms :: "ledger \<Rightarrow> key \<Rightarrow> bytes \<times> bytes" where
  "token_terms L k = (take 64 (c_data (L k)), drop 72 (c_data (L k)))"

lemma token_amount_balance: "token_amount L a = Inr n \<Longrightarrow> token_balance L (ai_key a) = n"
  by (auto simp: token_amount_def token_balance_def Let_def split: if_splits)

lemma endpoint_terms:
  "verify_swap_endpoint_unchanged (data_of L a) L' a = Inr u \<Longrightarrow> token_terms L' (ai_key a) = token_terms L (ai_key a)"
  by (auto simp: verify_swap_endpoint_unchanged_def token_terms_def TOKEN_ACCOUNT_AMOUNT_def Let_def split: if_splits)

lemma snapshot_verified:
  assumes "snapshot_writable_custody L cpi exempt = Inr snap" and "verify_custody_unchanged L' cpi snap = Inr u"
    and "(m, h) \<in> set (zip (ix_accounts (cpi_instruction cpi)) (cpi_account_infos cpi))" and "am_is_writable m"
    and "ai_key h \<notin> set exempt" and "clean_custody L (cpi_sub_account_key cpi) (ai_key h)"
  shows "clean_custody L' (cpi_sub_account_key cpi) (ai_key h)"
    and "token_balance L' (ai_key h) = token_balance L (ai_key h)"
proof -
  note loop = assms(1) [unfolded snapshot_writable_custody_def]
  from snapshot_complete [OF loop assms(3-6)] obtain n where n: "(ai_key h, n) \<in> set snap" by force
  note v = verify_custody_unchanged_Inr [OF assms(2) n]
  then show "clean_custody L' (cpi_sub_account_key cpi) (ai_key h)" by blast
  show "token_balance L' (ai_key h) = token_balance L (ai_key h)"
    using v snapshot_amounts [OF loop n] by (simp; metis token_amount_balance)
qed

lemma verify_swap_value_Inr:
  assumes "verify_swap_value E ctx spent received L = Inr u" and "sx_valuation ctx = Some val"
  obtains clk sv rv where "get_clock E = Inr clk" and "swap_values E L val (sx_vault ctx) spent received clk = Inr (sv, rv)"
    and "unat sv * (10000 - unat (max_swap_slippage_bps (v_controls (sx_vault ctx)))) \<le> unat rv * 10000"
proof -
  let ?bps = "max_swap_slippage_bps (v_controls (sx_vault ctx))"
  from assms obtain clk sv rv tol m where c: "get_clock E = Inr clk"
    and v: "swap_values E L val (sx_vault ctx) spent received clk = Inr (sv, rv)"
    and tol: "checked_sub BPS_DENOMINATOR ?bps = Some tol"
    and m: "mul_div_ceil_u64 sv (ucast tol) (ucast BPS_DENOMINATOR) = Inr m" and le: "m \<le> rv"
    by (auto simp: verify_swap_value_def result_facts not_less split: if_splits)
  have "unat tol = 10000 - unat ?bps" using tol by (simp add: checked_sub_Some_iff BPS_DENOMINATOR_def)
  moreover have "unat m = ceil_div (unat sv * unat tol) 10000"
    using m by (simp add: mul_div_ceil_u64_Inr_iff BPS_DENOMINATOR_def)
  ultimately have "ceil_div (unat sv * (10000 - unat ?bps)) 10000 \<le> unat rv" using le by (simp add: word_le_nat_alt)
  then have "unat sv * (10000 - unat ?bps) \<le> unat rv * 10000" by (simp add: ceil_div_le_iff)
  then show thesis using that c v by blast
qed

lemma swap_context_valuation:
  "swap_context_load E L accounts args = Inr ctx \<Longrightarrow> 0 < max_swap_slippage_bps (v_controls (sx_vault ctx)) \<Longrightarrow>
     \<exists>val. sx_valuation ctx = Some val"
  by (auto simp: swap_context_load_def result_facts split: if_splits prod.splits)


text \<open>
  C7. What a swap may do to custody. The relayed call is one the action authorizes; the input
  custody gives up at most \<open>max_in\<close> atoms and the output custody gains at least \<open>min_out\<close>, while
  neither changes in any other byte; every other writable custody account of the call that was clean
  is clean afterwards and holds what it held. When the vault bounds slippage, the oracles value what
  was received at no less than the tolerated fraction of what was spent.
\<close>
theorem swap_is_bounded:
  assumes "swap_context_load E L accounts args = Inr ctx" and "try_swap E accounts args L = Inr L'"
  shows "\<exists>cpi spent received va. invoke_authorized_cpi E cpi L = Inr L' \<and> va_action va = sx_action ctx \<and>
     validate_authorized_cpi E L (sx_cpi_accounts ctx) va (swa_accounts_start args) (swa_account_flags args)
       (swa_ix_data args) = Inr cpi \<and>
     unat (token_balance L (ai_key (sx_input_custody ctx)))
       = unat (token_balance L' (ai_key (sx_input_custody ctx))) + unat spent \<and>
     unat (token_balance L' (ai_key (sx_output_custody ctx)))
       = unat (token_balance L (ai_key (sx_output_custody ctx))) + unat received \<and>
     spent \<le> swa_max_in args \<and> swa_min_out args \<le> received \<and>
     (\<forall>k \<in> {ai_key (sx_input_custody ctx), ai_key (sx_output_custody ctx)}. token_terms L' k = token_terms L k) \<and>
     (\<forall>(m, h) \<in> set (zip (ix_accounts (cpi_instruction cpi)) (cpi_account_infos cpi)).
        am_is_writable m \<and> ai_key h \<notin> {ai_key (sx_input_custody ctx), ai_key (sx_output_custody ctx)} \<and>
        clean_custody L (ai_key (sx_sub_account ctx)) (ai_key h) \<longrightarrow>
        clean_custody L' (ai_key (sx_sub_account ctx)) (ai_key h) \<and>
        token_balance L' (ai_key h) = token_balance L (ai_key h)) \<and>
     (0 < max_swap_slippage_bps (v_controls (sx_vault ctx)) \<longrightarrow> (\<exists>val clk sv rv. sx_valuation ctx = Some val \<and>
        get_clock E = Inr clk \<and> swap_values E L' val (sx_vault ctx) spent received clk = Inr (sv, rv) \<and>
        unat sv * (10000 - unat (max_swap_slippage_bps (v_controls (sx_vault ctx)))) \<le> unat rv * 10000))"
proof -
  let ?i = "sx_input_custody ctx" and ?o = "sx_output_custody ctx"
  from assms obtain spent received where x: "execute_swap_cpi E ctx args L = Inr (spent, received, L')"
    and val: "verify_swap_value E ctx spent received L' = Inr ()"
    by (auto simp: try_swap_def result_facts)
  from x obtain in_pre out_pre in_post out_post va cpi custody where
    amounts: "token_amount L ?i = Inr in_pre" "token_amount L ?o = Inr out_pre"
      "token_amount L' ?i = Inr in_post" "token_amount L' ?o = Inr out_post"
      "unat in_pre = unat spent + unat in_post" "unat out_post = unat out_pre + unat received"
    and bounds: "spent \<le> swa_max_in args" "swa_min_out args \<le> received"
    and va: "va_action va = sx_action ctx" "va_sub_account_key va = ai_key (sx_sub_account ctx)"
    and cpi: "validate_authorized_cpi E L (sx_cpi_accounts ctx) va (swa_accounts_start args) (swa_account_flags args)
           (swa_ix_data args) = Inr cpi"
    and snap: "snapshot_writable_custody L cpi [ai_key ?i, ai_key ?o] = Inr custody"
    and inv: "invoke_authorized_cpi E cpi L = Inr L'" and ver: "verify_custody_unchanged L' cpi custody = Inr ()"
    and ends: "verify_swap_endpoint_unchanged (data_of L ?i) L' ?i = Inr ()"
      "verify_swap_endpoint_unchanged (data_of L ?o) L' ?o = Inr ()"
    by (rule execute_swap_cpi_Inr)
  have sub: "cpi_sub_account_key cpi = ai_key (sx_sub_account ctx)"
    by (rule validate_authorized_cpi_Inr [OF cpi]) (use va in auto)
  show ?thesis
  proof (intro exI conjI)
    show "\<forall>(m, h) \<in> set (zip (ix_accounts (cpi_instruction cpi)) (cpi_account_infos cpi)).
        am_is_writable m \<and> ai_key h \<notin> {ai_key ?i, ai_key ?o} \<and> clean_custody L (ai_key (sx_sub_account ctx)) (ai_key h) \<longrightarrow>
        clean_custody L' (ai_key (sx_sub_account ctx)) (ai_key h) \<and> token_balance L' (ai_key h) = token_balance L (ai_key h)"
      using snapshot_verified [OF snap ver] sub by auto
    show "0 < max_swap_slippage_bps (v_controls (sx_vault ctx)) \<longrightarrow> (\<exists>val clk sv rv. sx_valuation ctx = Some val \<and>
        get_clock E = Inr clk \<and> swap_values E L' val (sx_vault ctx) spent received clk = Inr (sv, rv) \<and>
        unat sv * (10000 - unat (max_swap_slippage_bps (v_controls (sx_vault ctx)))) \<le> unat rv * 10000)"
      using swap_context_valuation [OF assms(1)] verify_swap_value_Inr [OF val] by metis
  qed (use inv va cpi amounts bounds ends in \<open>simp_all add: token_amount_balance endpoint_terms\<close>)
qed


text \<open>
  A route for the witnesses. Program 9 takes a thousand atoms from custody 21 and pays 995 into
  custody 25, both of the base mint; the action at address 24 admits it; the vault tolerates one
  percent of slippage and charges half a percent on atomic redemptions.
\<close>

definition route_vault :: vault where
  "route_vault = example_vault\<lparr>v_controls :=
     (v_controls example_vault)\<lparr>atomic_redeem_fee_bps := 50, max_swap_slippage_bps := 100\<rparr>\<rparr>"

definition route_ledger :: "action_scope \<Rightarrow> ledger" where
  "route_ledger scope = relay_ledger(
     20 := (relay_ledger 20)\<lparr>c_data := account_bytes (VaultAccount route_vault)\<rparr>,
     24 := \<lparr>c_owner = ID, c_lamports = 0, c_data = account_bytes (ActionAccount (relay_action scope)), c_executable = False\<rparr>,
     25 := (relay_ledger 21)\<lparr>c_data := token_account_bytes 6 23 0\<rparr>,
     31 := (relay_ledger 31)\<lparr>c_data := token_account_bytes 7 40 2000000\<rparr>)"

definition routed :: "ledger \<Rightarrow> ledger" where
  "routed L = set_data 21 (token_account_bytes 6 23 9000) (set_data 25 (token_account_bytes 6 23 995) L)"

definition route_env :: env where
  "route_env = example_env\<lparr>invoke_signed := (\<lambda>ix infos seeds L.
     if ix_program_id ix = 9 \<and> length (ix_accounts ix) = 1 then
       (if c_owner (L 21) = TOKEN_PROGRAM_ID \<and> c_owner (L 25) = TOKEN_PROGRAM_ID then Inr (routed L) else Inl IllegalOwner)
     else example_invoke ix infos seeds L)\<rparr>"

lemma token_account_amount [simp]: "u64_field (token_account_bytes m h n) TOKEN_ACCOUNT_AMOUNT = n"
  by (simp add: token_account_bytes_def token_layout_defs nth_append field_def)

lemma route_loads:
  "load_checked route_env (route_ledger scope) (handle 20 s w) = Inr route_vault"
  "load_action route_env (route_ledger scope) (handle 24 s w) = Inr (relay_action scope)"
proof -
  have "wf_account (VaultAccount route_vault)" using example_wf by (simp add: route_vault_def)
  moreover have "vault_validate_state route_vault = Inr ()"
    using example_vault_valid
    by (auto simp: route_vault_def vault_validate_state_Inr_iff tag_seed_def controls_validate_def result_facts
        example_vault_def vault_controls_new_def validate_percentage_bps_def BPS_DENOMINATOR_def)
  moreover have "vault_verify_address example_address route_vault 20 = Inr ()"
    using example_address_ok vault_verify_address_cong [of route_vault example_vault] by (simp add: route_vault_def)
  ultimately show "load_checked route_env (route_ledger scope) (handle 20 s w) = Inr route_vault"
    using wire_round_trip [of "VaultAccount route_vault" _ "[]"]
    by (simp add: load_checked_Inr_iff route_ledger_def relay_ledger_def example_ledger_def route_env_def example_env_def wire_serialize_def)
  have "wf_ops example_ops" by (simp add: wf_ops_def example_ops_def ops_empty_def MAX_ACTION_OPS_def)
  then show "load_action route_env (route_ledger scope) (handle 24 s w) = Inr (relay_action scope)"
    using wire_round_trip [of "ActionAccount (relay_action scope)" _ "[]"]
    by (auto simp: load_action_def account_load_def route_ledger_def route_env_def example_env_def wire_serialize_def relay_action_def)
qed


definition route_cpi :: "bytes \<Rightarrow> authorized_cpi" where
  "route_cpi d = relay_cpi\<lparr>cpi_instruction := (cpi_instruction relay_cpi)\<lparr>ix_data := d\<rparr>\<rparr>"

lemma route_relay:
  "validate_authorized_cpi route_env (route_ledger scope) [handle 5 False True, handle 9 False False]
     (relay_accounts scope') 0 \<lparr>accounts_len = 1, packed_bits = [2]\<rparr> d = Inr (route_cpi d)"
proof -
  have "flags_iter \<lparr>accounts_len = 1, packed_bits = [2]\<rparr> = Inr [\<lparr>af_is_signer = False, af_is_writable = True\<rparr>]"
    by (simp add: flags_iter_def div_ceil_4_def flags_at_def drop_bit_eq_div)
  moreover have "action_preimage 9 example_ops [\<lparr>am_pubkey = 5, am_is_signer = False, am_is_writable = True\<rparr>] d [] =
      Inr relay_preimage"
    using example_ops_iter by (simp add: action_preimage_def preimage_len_def get_nth_def u8_of_bool_def relay_preimage_def)
  moreover have "sha256 route_env = sha256 example_env" by (simp add: route_env_def)
  ultimately show ?thesis
    by (simp add: validate_authorized_cpi_def get_slice_def get_nth_def cpi_meta_def relay_accounts_def relay_action_def
        load_required_siblings_def example_ops_iter compute_action_hash_from_metas_def relay_cpi_def relay_ledger_def
        route_cpi_def route_ledger_def)
qed

lemma route_cells:
  "c_owner (route_ledger scope 21) = TOKEN_PROGRAM_ID" "c_owner (route_ledger scope 25) = TOKEN_PROGRAM_ID"
  "c_data (route_ledger scope 21) = token_account_bytes 6 23 10000" "c_data (route_ledger scope 25) = token_account_bytes 6 23 0"
  "c_owner (route_ledger scope 5) = SYSTEM_PROGRAM_ID" "c_owner (route_ledger scope 23) = SYSTEM_PROGRAM_ID"
  "c_data (route_ledger scope 23) = []" "\<not> c_executable (route_ledger scope 23)"
  "c_owner (routed L k) = c_owner (L k)" "c_data (routed L 21) = token_account_bytes 6 23 9000"
  "c_data (routed L 25) = token_account_bytes 6 23 995"
  by (simp_all add: route_ledger_def relay_ledger_def example_ledger_def routed_def)

lemma route_invoke: "invoke_authorized_cpi route_env (route_cpi d) (route_ledger scope) = Inr (routed (route_ledger scope))"
  using route_cells by (simp add: invoke_authorized_cpi_def route_env_def route_cpi_def relay_cpi_def)

definition route_swap_accounts :: "account_info list" where
  "route_swap_accounts = [handle 3 True False, handle 20 False False, handle 23 False False, handle 21 False True,
     handle 25 False True, handle 24 False False, handle 5 False True, handle 9 False False]"

definition route_swap_args :: swap_args where
  "route_swap_args = \<lparr>swa_min_out = 990, swa_max_in = 1000, swa_sub_account = 0, swa_accounts_start = 0,
     swa_account_flags = \<lparr>accounts_len = 1, packed_bits = [2]\<rparr>, swa_ix_data = []\<rparr>"

definition route_swap_context :: swap_context where
  "route_swap_context = \<lparr>sx_sub_account = handle 23 False False, sx_input_custody = handle 21 False True,
     sx_output_custody = handle 25 False True, sx_cpi_accounts = [handle 5 False True, handle 9 False False],
     sx_action = relay_action SwapScope, sx_vault = route_vault, sx_vault_key = 20, sx_sub_account_index = 0,
     sx_sub_account_bump = 253,
     sx_valuation = Some \<lparr>sv_input = BasePricing, sv_output = BasePricing, sv_base_leg = None\<rparr>\<rparr>"

lemma route_addresses:
  "sub_account_verify_account route_env (route_ledger scope) 20 i (handle 23 s w) = Inr 253"
  "action_verify_for_vault (find_program_address route_env) (relay_action scope) 20 24 = Inr ()"
  using route_cells
  by (simp_all add: sub_account_verify_account_def sub_account_find_address_def route_env_def example_env_def
      example_address_def action_verify_for_vault_def action_verify_vault_def action_verify_address_def
      action_find_address_def relay_action_def VAULT_SEED_def TICKET_SEED_def SUB_ACCOUNT_SEED_def ACTION_SEED_def
      ascii_def ID_def ASSOCIATED_TOKEN_PROGRAM_ID_def)


lemma route_swap_load:
  "swap_context_load route_env (route_ledger SwapScope) route_swap_accounts route_swap_args = Inr route_swap_context"
proof -
  have "verify_swap_endpoint_custody (route_ledger SwapScope) (handle 21 False True) 23 = Inr ()"
    "verify_swap_endpoint_custody (route_ledger SwapScope) (handle 25 False True) 23 = Inr ()"
    using route_cells token_account_fields
    by (simp_all add: verify_swap_endpoint_custody_def is_token_program_def TOKEN_ACCOUNT_LEN_def has_close_authority_def)
  moreover have "token_account_mint (route_ledger SwapScope) (handle 21 False True) = Inr 6"
    "token_account_mint (route_ledger SwapScope) (handle 25 False True) = Inr 6"
    using route_cells token_account_fields
    by (simp_all add: token_account_mint_def is_token_program_def TOKEN_ACCOUNT_LEN_def)
       (simp_all add: token_account_bytes_def token_layout_defs nth_append field_def)
  moreover have "v_swap_authority route_vault = 3" "v_base_mint route_vault = 6"
    "max_swap_slippage_bps (v_controls route_vault) = 100" "verify_manage_enabled route_vault = Inr ()"
    by (simp_all add: route_vault_def example_vault_def verify_manage_enabled_def manage_paused_def bool_flag_def)
  moreover have "ac_scope (relay_action SwapScope) = SwapScope" by (simp add: relay_action_def)
  ultimately show ?thesis using route_loads [of SwapScope] route_addresses [of SwapScope]
    by (simp add: swap_context_load_def route_swap_accounts_def route_swap_args_def route_swap_context_def next_account_def
        require_writable_def verify_either_role_def has_role_def swap_valuation_parse_def leg_pricing_parse_def)
qed


lemma route_swap_run:
  "try_swap route_env route_swap_accounts route_swap_args (route_ledger SwapScope) = Inr (routed (route_ledger SwapScope))"
proof -
  let ?L = "route_ledger SwapScope"
  have amounts: "token_amount ?L (handle 21 False True) = Inr 10000" "token_amount ?L (handle 25 False True) = Inr 0"
    "token_amount (routed ?L) (handle 21 False True) = Inr 9000" "token_amount (routed ?L) (handle 25 False True) = Inr 995"
    using route_cells token_account_fields by (simp_all add: token_amount_def is_token_program_def TOKEN_ACCOUNT_LEN_def)
  have ends: "verify_swap_endpoint_unchanged (c_data (?L 21)) (routed ?L) (handle 21 False True) = Inr ()"
    "verify_swap_endpoint_unchanged (c_data (?L 25)) (routed ?L) (handle 25 False True) = Inr ()"
    using route_cells
    by (simp_all add: verify_swap_endpoint_unchanged_def token_account_bytes_def TOKEN_ACCOUNT_AMOUNT_def)
  have snap: "snapshot_writable_custody ?L (route_cpi []) [21, 25] = Inr []"
    using route_cells
    by (simp add: snapshot_writable_custody_def route_cpi_def relay_cpi_def is_clean_custody_def is_token_program_def
        SYSTEM_PROGRAM_ID_def TOKEN_PROGRAM_ID_def TOKEN_2022_PROGRAM_ID_def)
  have va: "\<lparr>va_action = relay_action SwapScope, va_vault_key = 20, va_sub_account_key = 23,
     va_sub_account_index = 0, va_sub_account_bump = 253\<rparr> = relay_accounts SwapScope" by (simp add: relay_accounts_def)
  have x: "execute_swap_cpi route_env route_swap_context route_swap_args ?L = Inr (1000, 995, routed ?L)"
    using route_relay [of SwapScope SwapScope "[]"] amounts ends snap va
    by (simp add: execute_swap_cpi_def route_swap_context_def route_swap_args_def route_invoke checked_sub_def)
  have "verify_swap_value route_env route_swap_context 1000 995 (routed ?L) = Inr ()"
  proof -
    have "mul_div_ceil_u64 1000 9900 10000 = Inr 990" by (simp add: mul_div_ceil_u64_Inr_iff ceil_div_def)
    then show ?thesis
      by (simp add: verify_swap_value_def route_swap_context_def swap_values_def route_env_def example_env_def
          route_vault_def checked_sub_def BPS_DENOMINATOR_def)
  qed
  with x route_swap_load show ?thesis by (simp add: try_swap_def)
qed

theorem swap_is_bounded_witness:
  "\<exists>spent received sv rv.
     unat (token_balance (route_ledger SwapScope) 21) = unat (token_balance (routed (route_ledger SwapScope)) 21) + unat spent \<and>
     unat (token_balance (routed (route_ledger SwapScope)) 25) = unat (token_balance (route_ledger SwapScope) 25) + unat received \<and>
     spent \<le> 1000 \<and> 990 \<le> received \<and>
     swap_values route_env (routed (route_ledger SwapScope)) \<lparr>sv_input = BasePricing, sv_output = BasePricing, sv_base_leg = None\<rparr>
       route_vault spent received \<lparr>clock_slot = 700, unix_timestamp = 2500\<rparr> = Inr (sv, rv) \<and>
     unat sv * (10000 - unat (100 :: u16)) \<le> unat rv * 10000"
proof -
  have "max_swap_slippage_bps (v_controls route_vault) = 100"
    "get_clock route_env = Inr \<lparr>clock_slot = 700, unix_timestamp = 2500\<rparr>"
    by (simp_all add: route_vault_def route_env_def example_env_def)
  with swap_is_bounded [OF route_swap_load route_swap_run] show ?thesis
    by (simp add: route_swap_context_def route_swap_args_def) blast
qed


section \<open>Atomic redemption\<close>

lemma price_le_mono: "price_le v A S A' S' \<Longrightarrow> A' \<le> A'' \<Longrightarrow> S'' \<le> S' \<Longrightarrow> price_le v A S A'' S''"
  unfolding price_le_def by (meson add_le_mono1 le_trans mult_le_mono1 mult_le_mono2)

text \<open>
  What a route is trusted with: it is another program, and it cannot mint shares, which takes the
  signature of the vault.
\<close>

definition outside_route :: "env \<Rightarrow> ledger \<Rightarrow> account_info \<Rightarrow> authorized_cpi \<Rightarrow> bool" where
  "outside_route E L mint cpi \<longleftrightarrow> ix_program_id (cpi_instruction cpi) \<noteq> ID \<and>
     (\<forall>L1 n. invoke_authorized_cpi E cpi L = Inr L1 \<longrightarrow> mint_supply L mint = Inr n \<longrightarrow>
        (\<exists>n1. mint_supply L1 mint = Inr n1 \<and> n1 \<le> n))"

lemma atomic_redeem_context_load_Inr:
  assumes "atomic_redeem_context_load E L accounts args = Inr ctx"
  shows "load_checked E L (ar_vault_account ctx) = Inr (ar_vault ctx)"
    and "ai_key (ar_token_program ctx) = TOKEN_PROGRAM_ID" and "is_token_program (ai_key (ar_base_token_program ctx))"
    and "ai_key (ar_share_mint ctx) = v_share_mint (ar_vault ctx)" and "ai_is_signer (ar_owner ctx)"
  using assms by (auto simp: atomic_redeem_context_load_def require_writable_signer_def result_facts split: if_splits)

lemma try_atomic_redeem_Inr:
  assumes "atomic_redeem_context_load E L accounts args = Inr ctx" and "try_atomic_redeem E accounts args L = Inr L'"
  obtains clk n S A owed va cpi pre post received fee payout L1 L2 L3 v' where
    "get_clock E = Inr clk" and "mint_supply L (ar_share_mint ctx) = Inr n"
    and "pool_state (ar_vault ctx) n (unix_timestamp clk) = Some (A, S)"
    and "assets_for_redeem (ara_shares args) A S (v_base_decimals (ar_vault ctx)) = Inr owed"
    and "validate_authorized_cpi E L (ar_cpi_accounts ctx) va (ara_accounts_start args) (ara_account_flags args)
           (ara_ix_data args) = Inr cpi"
    and "\<not> has_account_meta cpi (ai_key (ar_user_share_account ctx))"
    and "token_amount L (ar_custody ctx) = Inr pre" and "token_amount L1 (ar_custody ctx) = Inr post"
    and "invoke_authorized_cpi E cpi L = Inr L1" and "unat post = unat pre + unat received" and "received \<le> owed"
    and "bps_ceil received (atomic_redeem_fee_bps (v_controls (ar_vault ctx))) = Inr fee"
    and "unat received = unat fee + unat payout" and "ara_min_output args \<le> payout"
    and "token_transfer_signed E (ar_base_token_program ctx) (ar_custody ctx) (ar_recipient_token_account ctx)
           (ar_sub_account ctx) payout [SUB_ACCOUNT_SEED, key_bytes (ai_key (ar_vault_account ctx)), [ara_sub_account args],
           [ar_sub_account_bump ctx]] L1 = Inr L2"
    and "token_burn E (ar_token_program ctx) (ar_user_share_account ctx) (ar_share_mint ctx) (ar_owner ctx)
           (ara_shares args) L2 = Inr L3"
    and "debit_assets_at_effective (ar_vault ctx) payout (unix_timestamp clk) = Inr v'" and "vault_validate_state v' = Inr ()"
    and "store_account E (VaultAccount v') (ar_vault_account ctx) L3 = Inr L'"
proof -
  from assms obtain clk owed received fee payout L1 where
    a: "get_clock E = Inr clk" "validate_redeem_entitlement L ctx (ara_shares args) (ara_ix_data args) (unix_timestamp clk) = Inr owed"
    and x: "execute_unwind_cpi E ctx args L = Inr (received, L1)"
    and b: "received \<le> owed" "bps_ceil received (atomic_redeem_fee_bps (v_controls (ar_vault ctx))) = Inr fee"
      "unat received = unat fee + unat payout" "ara_min_output args \<le> payout"
    and st: "settle_atomic_redeem E ctx (ara_sub_account args) (ara_shares args) payout (unix_timestamp clk) L1 = Inr L'"
    by (auto simp: try_atomic_redeem_def Let_def result_facts checked_sub_Some_iff not_less split: if_splits)
  from a(2) obtain n A S where p: "mint_supply L (ar_share_mint ctx) = Inr n"
    "pool_state (ar_vault ctx) n (unix_timestamp clk) = Some (A, S)"
    "assets_for_redeem (ara_shares args) A S (v_base_decimals (ar_vault ctx)) = Inr owed"
    by (auto simp: validate_redeem_entitlement_def pool_state_def result_facts split: if_splits)
  from st obtain L2 L3 v' where
    f: "token_transfer_signed E (ar_base_token_program ctx) (ar_custody ctx) (ar_recipient_token_account ctx)
           (ar_sub_account ctx) payout [SUB_ACCOUNT_SEED, key_bytes (ai_key (ar_vault_account ctx)), [ara_sub_account args],
           [ar_sub_account_bump ctx]] L1 = Inr L2"
      "token_burn E (ar_token_program ctx) (ar_user_share_account ctx) (ar_share_mint ctx) (ar_owner ctx)
           (ara_shares args) L2 = Inr L3"
      "debit_assets_at_effective (ar_vault ctx) payout (unix_timestamp clk) = Inr v'" "vault_validate_state v' = Inr ()"
      "store_account E (VaultAccount v') (ar_vault_account ctx) L3 = Inr L'"
    by (auto simp: settle_atomic_redeem_def result_facts)
  from x obtain va cpi pre post where
    "validate_authorized_cpi E L (ar_cpi_accounts ctx) va (ara_accounts_start args) (ara_account_flags args)
           (ara_ix_data args) = Inr cpi" "\<not> has_account_meta cpi (ai_key (ar_user_share_account ctx))"
    "token_amount L (ar_custody ctx) = Inr pre" "token_amount L1 (ar_custody ctx) = Inr post"
    "invoke_authorized_cpi E cpi L = Inr L1" "unat post = unat pre + unat received"
    by (auto simp: execute_unwind_cpi_def Let_def result_facts checked_sub_Some_iff split: if_splits)
  from that [OF a(1) p this b f] show thesis .
qed


lemma token_calls_keep_own:
  assumes "runtime_ok E" and "c_owner (L k) = ID"
  shows "token_transfer_signed E p s d a x seeds L = Inr L' \<Longrightarrow> is_token_program (ai_key p) \<Longrightarrow> same_cell L L' k"
    and "token_burn E p s m a x L = Inr L' \<Longrightarrow> is_token_program (ai_key p) \<Longrightarrow> same_cell L L' k"
  using cpi_keeps_own [OF assms(1), where L = L and k = k] assms(2)
  by (auto simp: token_transfer_signed_def token_burn_def invoke_def token_program_not_ID)

lemma atomic_redeem_refines:
  assumes "codec_ok E" and "runtime_ok E" and "token_ok E"
    and ctx: "atomic_redeem_context_load E L accounts args = Inr ctx"
    and run: "try_atomic_redeem E accounts args L = Inr L'"
    and route: "\<forall>va cpi. validate_authorized_cpi E L (ar_cpi_accounts ctx) va (ara_accounts_start args)
      (ara_account_flags args) (ara_ix_data args) = Inr cpi \<longrightarrow> outside_route E L (ar_share_mint ctx) cpi"
  shows "\<exists>clk n n' A S v' A' owed received payout.
     vault_identity v' = vault_identity (ar_vault ctx) \<and>
     get_clock E = Inr clk \<and> mint_supply L (ar_share_mint ctx) = Inr n \<and> mint_supply L' (ar_share_mint ctx) = Inr n' \<and>
     pool_state (ar_vault ctx) n (unix_timestamp clk) = Some (A, S) \<and>
     load_checked E L' (ar_vault_account ctx) = Inr v' \<and> effective_total_assets v' (unix_timestamp clk) = Inr A' \<and>
     assets_for_redeem (ara_shares args) A S (v_base_decimals v') = Inr owed \<and> received \<le> owed \<and>
     unat received = unat payout + ceil_div (unat received * unat (atomic_redeem_fee_bps (v_controls v'))) 10000 \<and>
     ara_min_output args \<le> payout \<and> unat A = unat A' + unat payout \<and> unat n' + unat (ara_shares args) \<le> unat n \<and>
     v_requested_withdrawal_shares v' = v_requested_withdrawal_shares (ar_vault ctx) \<and>
     price_le (voffset (v_base_decimals v')) (unat A) (unat S)
       (unat A') (unat n' + unat (v_requested_withdrawal_shares v'))"
  using ctx run
proof (rule try_atomic_redeem_Inr)
  let ?v = "ar_vault ctx" and ?va = "ar_vault_account ctx" and ?sm = "ar_share_mint ctx"
  fix clk n S A owed va cpi pre post received fee payout L1 L2 L3 v'
  assume clk: "get_clock E = Inr clk" and n: "mint_supply L ?sm = Inr n"
    and pool: "pool_state ?v n (unix_timestamp clk) = Some (A, S)"
    and owed: "assets_for_redeem (ara_shares args) A S (v_base_decimals ?v) = Inr owed"
    and cpi: "validate_authorized_cpi E L (ar_cpi_accounts ctx) va (ara_accounts_start args) (ara_account_flags args)
           (ara_ix_data args) = Inr cpi" and inv: "invoke_authorized_cpi E cpi L = Inr L1"
    and le: "received \<le> owed" and fee: "bps_ceil received (atomic_redeem_fee_bps (v_controls ?v)) = Inr fee"
    and pay: "unat received = unat fee + unat payout" "ara_min_output args \<le> payout"
    and t: "token_transfer_signed E (ar_base_token_program ctx) (ar_custody ctx) (ar_recipient_token_account ctx)
           (ar_sub_account ctx) payout [SUB_ACCOUNT_SEED, key_bytes (ai_key ?va), [ara_sub_account args],
           [ar_sub_account_bump ctx]] L1 = Inr L2"
    and b: "token_burn E (ar_token_program ctx) (ar_user_share_account ctx) ?sm (ar_owner ctx) (ara_shares args) L2 = Inr L3"
    and d: "debit_assets_at_effective ?v payout (unix_timestamp clk) = Inr v'" and val: "vault_validate_state v' = Inr ()"
    and st: "store_account E (VaultAccount v') ?va L3 = Inr L'"
  note c = atomic_redeem_context_load_Inr [OF ctx]
  have r: "outside_route E L ?sm cpi" using route cpi by blast
  note r = r [unfolded outside_route_def]
  have own: "c_owner (L (ai_key ?va)) = ID" using c(1) by (simp add: load_checked_Inr_iff)
  have o1: "c_owner (L1 (ai_key ?va)) = ID"
    using cpi_keeps_own [OF assms(2) inv [unfolded invoke_authorized_cpi_def], of "ai_key ?va"] r own by (simp add: same_cell_def)
  have o2: "c_owner (L2 (ai_key ?va)) = ID" using token_calls_keep_own(1) [OF assms(2) o1 t c(3)] o1 by (simp add: same_cell_def)
  have o3: "c_owner (L3 (ai_key ?va)) = ID"
    using token_calls_keep_own(2) [OF assms(2) o2 b] c(2) o2 by (simp add: same_cell_def is_token_program_def)
  obtain n1 where n1: "mint_supply L1 ?sm = Inr n1" "n1 \<le> n" using r inv n by blast
  obtain n' where n': "mint_supply L3 ?sm = Inr n'" "unat n1 = unat n' + unat (ara_shares args)"
    using burn_supply [OF assms(3) b c(2)] transfer_supply(2) [OF assms(3) t c(3)] n1(1) by (metis Inr_inject)
  obtain A' where A': "effective_total_assets v' (unix_timestamp clk) = Inr A'" "unat A = unat A' + unat payout"
    using debit_effective [OF d] pool by (auto simp: pool_state_Some_iff)
  have frame: "v_base_decimals v' = v_base_decimals ?v" "v_controls v' = v_controls ?v"
    "v_requested_withdrawal_shares v' = v_requested_withdrawal_shares ?v" "vault_verify_address pda v' k = vault_verify_address pda ?v k"
    for pda k by (subst debit_fields(6) [OF d], simp add: vault_verify_address_def tag_seed_def)+
  have ident: "vault_identity v' = vault_identity ?v" by (subst debit_fields(6) [OF d]) (simp add: vault_identity_def)
  have load: "load_checked E L' ?va = Inr v'"
    using store_load_vault [OF assms(1) st o3 val] frame c(1) by (simp add: load_checked_Inr_iff)
  have less: "unat n' + unat (ara_shares args) \<le> unat n" using n1(2) n'(2) by (simp add: word_le_nat_alt)
  have S: "unat S = unat n + unat (v_requested_withdrawal_shares ?v)" using pool by (simp add: pool_state_Some_iff)
  have low: "unat payout \<le> unat owed" using pay(1) le by (simp add: word_le_nat_alt)
  have "assets_for_shares (ara_shares args) A S (v_base_decimals ?v) = Inr owed" using owed by (simp add: assets_for_redeem_Inr_iff)
  from sp.pay_keeps_price(2) [OF this]
  have "price_le (voffset (v_base_decimals ?v)) (unat A) (unat S) (unat A') (unat n' + unat (v_requested_withdrawal_shares ?v))"
    by (rule price_le_mono) (use low A'(2) S less in linarith)+
  moreover have "unat received = unat payout + ceil_div (unat received * unat (atomic_redeem_fee_bps (v_controls ?v))) 10000"
    using fee pay(1) by (simp only: bps_ceil_Inr_iff add.commute)
  moreover have "mint_supply L' ?sm = Inr n'" using store_keeps_mint [OF st o3 n'(1)] .
  ultimately show ?thesis
    using clk n pool owed le pay(2) A' load less frame(3) ident
    by - (rule exI [of _ clk], rule exI [of _ n], rule exI [of _ n'], rule exI [of _ A], rule exI [of _ S], rule exI [of _ v'],
      rule exI [of _ A'], rule exI [of _ owed], rule exI [of _ received], rule exI [of _ payout],
      unfold frame(1-3), intro conjI; (assumption | rule refl))
qed



lemma route_ok: "codec_ok route_env" "runtime_ok route_env" "token_ok route_env"
proof -
  show "codec_ok route_env" using example_codec_ok by (simp add: codec_ok_def route_env_def)
  have "invoke_signed route_env ix infos seeds L = invoke_signed example_env ix infos seeds L"
    if "ix_program_id ix \<in> {SYSTEM_PROGRAM_ID, TOKEN_PROGRAM_ID} \<or> length (ix_accounts ix) = 3" for ix infos seeds L
    using that by (auto simp: route_env_def example_env_def SYSTEM_PROGRAM_ID_def TOKEN_PROGRAM_ID_def)
  note same = this
  show "token_ok route_env"
    using example_token_ok unfolding token_ok_def
    by (subst (1 2 3) same) (simp_all add: token_amount_instruction_def)
  have own: "c_owner (L' k) = c_owner (L k) \<and> c_data (L' k) = c_data (L k)"
    if "invoke_signed route_env ix infos seeds L = Inr L'" and "c_owner (L k) = ID" and "ix_program_id ix \<noteq> ID" for ix infos seeds L L' k
  proof (cases "ix_program_id ix = 9 \<and> length (ix_accounts ix) = 1")
    case True
    then show ?thesis using that by (auto simp: route_env_def routed_def split: if_splits)
  next
    case False
    then have "example_invoke ix infos seeds L = Inr L'" using that(1) by (simp add: route_env_def split: if_splits)
    then show ?thesis using example_invoke_frame that(2) by simp
  qed
  have foreign: "c_owner (L' k) = c_owner (L k) \<and> c_data (L' k) = c_data (L k)"
    if "invoke_signed route_env ix infos seeds L = Inr L'" and "ix_program_id ix \<in> {SYSTEM_PROGRAM_ID, TOKEN_PROGRAM_ID}"
      and "c_owner (L k) \<noteq> ix_program_id ix" for ix infos seeds L L' k
    using cpi_keeps_foreign [OF example_runtime_ok, of ix infos seeds L L' k] that same [of ix infos seeds L]
    by (simp add: same_cell_def)
  have builders: "create_account_ix route_env = create_account_ix example_env" "system_transfer_ix route_env = system_transfer_ix example_env"
    "allocate_ix route_env = allocate_ix example_env" "assign_ix route_env = assign_ix example_env" by (simp_all add: route_env_def)
  have "\<forall>ix infos seeds L L' k. invoke_signed route_env ix infos seeds L = Inr L' \<longrightarrow>
        (ix_program_id ix \<noteq> ID \<and> c_owner (L k) = ID \<or>
         ix_program_id ix \<in> {SYSTEM_PROGRAM_ID, TOKEN_PROGRAM_ID} \<and> c_owner (L k) \<noteq> ix_program_id ix) \<longrightarrow>
        c_owner (L' k) = c_owner (L k) \<and> c_data (L' k) = c_data (L k)"
    using own foreign by blast
  then show "runtime_ok route_env" using example_runtime_ok unfolding runtime_ok_def builders by blast
qed

definition route_redeem_accounts :: "account_info list" where
  "route_redeem_accounts = [handle 40 True True, handle 20 False True, handle 31 False True, handle 7 False True,
     handle 30 False True, handle 25 False True, handle TOKEN_PROGRAM_ID False False, handle 23 False False,
     handle 24 False False, handle TOKEN_PROGRAM_ID False False, handle 5 False True, handle 9 False False]"

definition route_redeem_args :: atomic_redeem_args where
  "route_redeem_args = \<lparr>ara_shares = 1000000, ara_min_output = 990, ara_sub_account = 0, ara_accounts_start = 0,
     ara_account_flags = \<lparr>accounts_len = 1, packed_bits = [2]\<rparr>, ara_ix_data = to_le_bytes (995 :: u64)\<rparr>"

definition route_redeem_context :: atomic_redeem_context where
  "route_redeem_context = \<lparr>ar_owner = handle 40 True True, ar_vault_account = handle 20 False True,
     ar_user_share_account = handle 31 False True, ar_share_mint = handle 7 False True,
     ar_recipient_token_account = handle 30 False True, ar_custody = handle 25 False True,
     ar_base_token_program = handle TOKEN_PROGRAM_ID False False, ar_sub_account = handle 23 False False,
     ar_token_program = handle TOKEN_PROGRAM_ID False False,
     ar_cpi_accounts = [handle 5 False True, handle 9 False False], ar_vault = route_vault,
     ar_action = relay_action AtomicRedeem, ar_sub_account_bump = 253\<rparr>"

lemma route_more_cells:
  "c_owner (route_ledger scope 31) = TOKEN_PROGRAM_ID" "c_data (route_ledger scope 31) = token_account_bytes 7 40 2000000"
  "c_owner (route_ledger scope 30) = TOKEN_PROGRAM_ID" "c_data (route_ledger scope 30) = token_account_bytes 6 40 5000"
  "c_owner (route_ledger scope 7) = TOKEN_PROGRAM_ID" "c_data (route_ledger scope 7) = mint_bytes 9700000"
  "c_data (route_ledger scope 20) = account_bytes (VaultAccount route_vault)" "c_data (routed L 20) = c_data (L 20)"
  "c_data (routed L 7) = c_data (L 7)"
  by (simp_all add: route_ledger_def relay_ledger_def example_ledger_def routed_def)

lemma token_account_mint_field [simp]: "key_field (token_account_bytes m h n) TOKEN_ACCOUNT_MINT = m"
  by (simp add: token_account_bytes_def token_layout_defs nth_append field_def)

lemma route_redeem_load:
  "atomic_redeem_context_load route_env (route_ledger AtomicRedeem) route_redeem_accounts route_redeem_args
     = Inr route_redeem_context"
proof -
  let ?L = "route_ledger AtomicRedeem"
  have "verify_token_account_mint_and_owner ?L (handle 31 False True) 7 40 = Inr ()"
    "verify_token_account_mint ?L (handle 30 False True) 6 = Inr ()"
    "verify_token_account_mint_and_owner ?L (handle 25 False True) 6 23 = Inr ()"
    "verify_custody_account ?L (handle 25 False True) 23 = Inr ()"
    using route_cells route_more_cells token_account_fields
    by (simp_all add: verify_token_account_mint_and_owner_def verify_token_account_mint_def verify_custody_account_def
        is_token_program_def TOKEN_ACCOUNT_LEN_def has_transfer_authority_def)
  moreover have "v_share_mint route_vault = 7" "v_base_mint route_vault = 6"
    by (simp_all add: route_vault_def example_vault_def)
  ultimately show ?thesis
    using route_loads [of AtomicRedeem] route_addresses [of AtomicRedeem] route_cells route_more_cells
    by (simp add: atomic_redeem_context_load_def route_redeem_accounts_def route_redeem_args_def route_redeem_context_def
        next_account_def require_writable_def require_writable_signer_def verify_token_program_for_def verify_token_program_def
        is_token_program_def verify_share_mint_def)
qed


definition redeemed_vault :: vault where
  "redeemed_vault = route_vault\<lparr>v_total_assets := 9010, v_locked_profit := 300, v_profit_unlock_start_ts := 2500\<rparr>"

lemma route_vault_prices:
  "mint_supply (route_ledger scope) (handle 7 False True) = Inr 9700000"
  "economic_share_supply route_vault 9700000 = Inr 9700000" "effective_total_assets route_vault 2500 = Inr 9700"
  "debit_assets_at_effective route_vault 990 2500 = Inr redeemed_vault" "assets_for_redeem 1000000 9700 9700000 6 = Inr 1000"
  "bps_ceil 995 50 = Inr 5"
proof -
  show "mint_supply (route_ledger scope) (handle 7 False True) = Inr 9700000"
    using route_more_cells by (simp add: mint_supply_def mint_bytes_def is_token_program_def token_layout_defs nth_append field_def)
  show "economic_share_supply route_vault 9700000 = Inr 9700000"
    by (simp add: economic_share_supply_def checked_add_def route_vault_def example_vault_def)
  have r: "remaining_locked_profit route_vault 2500 = Inr 300"
    by (simp add: remaining_locked_profit_Inr_iff unlock_line_def route_vault_def example_vault_def)
  then show "effective_total_assets route_vault 2500 = Inr 9700"
    by (simp add: effective_total_assets_def checked_sub_def route_vault_def example_vault_def)
  show "debit_assets_at_effective route_vault 990 2500 = Inr redeemed_vault"
    unfolding debit_Inr_iff using r
    by (intro exI [of _ "300 :: u64"] exI [of _ "9010 :: u64"]) (simp add: redeemed_vault_def route_vault_def example_vault_def)
qed (simp_all add: assets_for_redeem_Inr_iff assets_for_shares_Inr_iff bps_ceil_Inr_iff ceil_div_def)

lemma route_burn:
  "token_burn route_env (handle TOKEN_PROGRAM_ID False False) (handle 31 False True) (handle 7 False True) (handle 40 True True)
     1000000 (routed (route_ledger scope))
   = Inr (set_data 7 (put_supply 8700000 (mint_bytes 9700000)) (routed (route_ledger scope)))"
proof -
  have "mint_supply (routed (route_ledger scope)) (handle 7 False True) = Inr 9700000"
    using route_vault_prices(1) [of scope] same_cell_mint [of "route_ledger scope" "routed (route_ledger scope)"] route_cells(9) route_more_cells(9)
    by (simp add: same_cell_def)
  then show ?thesis using route_more_cells route_cells(9)
    by (simp add: token_burn_def invoke_def token_amount_instruction_def route_env_def example_invoke_def move_supply_def
        MINT_TO_INSTRUCTION_def BURN_INSTRUCTION_def checked_sub_def)
qed

lemma route_redeem_run:
  "\<exists>L'. try_atomic_redeem route_env route_redeem_accounts route_redeem_args (route_ledger AtomicRedeem) = Inr L'"
proof -
  let ?L = "route_ledger AtomicRedeem" and ?d = "to_le_bytes (995 :: u64)"
  let ?L3 = "set_data 7 (put_supply 8700000 (mint_bytes 9700000)) (routed ?L)"
  note cells = route_cells route_more_cells
  have wf: "wf_account (VaultAccount route_vault)" "wf_account (VaultAccount redeemed_vault)"
    using example_wf by (simp_all add: route_vault_def redeemed_vault_def)
  obtain L' where st: "store_account route_env (VaultAccount redeemed_vault) (handle 20 False True) ?L3 = Inr L'"
    using vault_bytes_length [OF wf(1)] vault_bytes_length [OF wf(2)] cells wf
    by (simp add: store_account_def route_env_def example_env_def wire_serialize_def)
  have val: "vault_validate_state redeemed_vault = Inr ()"
    using debit_valid [OF route_vault_prices(4)] route_loads(1) [of AtomicRedeem] by (auto simp: load_checked_Inr_iff)
  have amounts: "token_amount ?L (handle 31 False True) = Inr 2000000" "token_amount ?L (handle 25 False True) = Inr 0"
    "token_amount (routed ?L) (handle 25 False True) = Inr 995" "verify_custody_account (routed ?L) (handle 25 False True) 23 = Inr ()"
    using cells token_account_fields
    by (simp_all add: token_amount_def verify_custody_account_def is_token_program_def TOKEN_ACCOUNT_LEN_def has_transfer_authority_def)
  have fields: "withdrawals_paused route_vault = Inr False" "verify_report_fresh route_vault 2500 = Inr ()"
    "v_base_decimals route_vault = 6" "atomic_redeem_fee_bps (v_controls route_vault) = 50"
    "get_clock route_env = Inr \<lparr>clock_slot = 700, unix_timestamp = 2500\<rparr>" "ac_scope (relay_action AtomicRedeem) = AtomicRedeem"
    "ac_ops (relay_action AtomicRedeem) = example_ops" "ac_amount_offset (relay_action AtomicRedeem) = 0"
    by (simp_all add: route_vault_def example_vault_def withdrawals_paused_def bool_flag_def verify_report_fresh_def
        vault_controls_new_def route_env_def example_env_def relay_action_def)
  have "validate_redeem_entitlement ?L route_redeem_context 1000000 ?d 2500 = Inr 1000"
    using amounts route_vault_prices fields
    by (simp add: validate_redeem_entitlement_def route_redeem_context_def decode_withdrawal_amount_def get_slice_def)
  moreover have "\<lparr>va_action = relay_action AtomicRedeem, va_vault_key = 20, va_sub_account_key = 23,
     va_sub_account_index = 0, va_sub_account_bump = 253\<rparr> = relay_accounts AtomicRedeem" by (simp add: relay_accounts_def)
  then have "execute_unwind_cpi route_env route_redeem_context route_redeem_args ?L = Inr (995, routed ?L)"
    using route_relay [of AtomicRedeem AtomicRedeem ?d] amounts relay_example_bound(2) fields route_invoke
    by (simp add: execute_unwind_cpi_def route_redeem_context_def route_redeem_args_def checked_sub_def has_account_meta_def
        require_writable_metas_bound_def) (simp add: route_cpi_def relay_cpi_def)
  moreover have "settle_atomic_redeem route_env route_redeem_context 0 1000000 990 2500 (routed ?L) = Inr L'"
    using route_burn [of AtomicRedeem] route_vault_prices val st
    by (simp add: settle_atomic_redeem_def route_redeem_context_def token_transfer_signed_def token_amount_instruction_def
        route_env_def example_env_def example_invoke_def TRANSFER_INSTRUCTION_def MINT_TO_INSTRUCTION_def BURN_INSTRUCTION_def)
  ultimately show ?thesis
    using route_redeem_load fields route_vault_prices
    by (simp add: try_atomic_redeem_def checked_sub_def) (simp add: route_redeem_context_def route_redeem_args_def checked_sub_def)
qed



end
