(* ===== verification/Holder_Safety.thy ===== *)
theory Holder_Safety
  imports Settlement_Safety
begin

text \<open>
  What those who hold shares may rely on, stated of whole instructions on a ledger: a deposit mints
  at the vault's price, and no sequence of deposits, redemption requests, cancellations, settlements
  and atomic redemptions lowers the price of a share.
\<close>

section \<open>The pool behind a vault\<close>

text \<open>
  The virtual offset, effective assets and economic supply of the vault under a key, with the shares
  of pending requests counted as outstanding. The supply is a natural number here: a deposit may
  leave one that no longer fits a word.
\<close>

definition pool_at :: "env \<Rightarrow> i64 \<Rightarrow> key \<Rightarrow> ledger \<Rightarrow> (nat \<times> nat \<times> nat) option" where
  "pool_at E now k L =
     (case load_checked E L (handle k False False) of
        Inl _ \<Rightarrow> None
      | Inr v \<Rightarrow> (case (effective_total_assets v now, mint_supply L (handle (v_share_mint v) False False)) of
          (Inr A, Inr n) \<Rightarrow> Some (voffset (v_base_decimals v), unat A, unat n + unat (v_requested_withdrawal_shares v))
        | _ \<Rightarrow> None))"

lemma pool_at_eq:
  assumes "load_checked E L a = Inr v" and "ai_key a = k" and "ai_key m = v_share_mint v" and "mint_supply L m = Inr n"
    and "effective_total_assets v now = Inr A"
  shows "pool_at E now k L = Some (voffset (v_base_decimals v), unat A, unat n + unat (v_requested_withdrawal_shares v))"
  using assms load_checked_key [of a "handle k False False" E L] mint_supply_key [of L m False False]
  by (simp add: pool_at_def)

text \<open>The instructions of holders and of those who settle for them, on the vault under a key.\<close>

inductive holder_step :: "env \<Rightarrow> key \<Rightarrow> ledger \<Rightarrow> ledger \<Rightarrow> bool" for E k where
  deposit: "deposit_context_load E L accounts = Inr ctx \<Longrightarrow> ai_key (dc_vault_account ctx) = k \<Longrightarrow>
     try_deposit E accounts args L = Inr L' \<Longrightarrow> holder_step E k L L'"
| request: "redeem_context_load E L accounts rargs = Inr rctx \<Longrightarrow> ai_key (rc_vault_account rctx) = k \<Longrightarrow>
     try_redeem E accounts rargs L = Inr L' \<Longrightarrow> holder_step E k L L'"
| cancel: "cancel_redeem_context_load E L accounts = Inr cctx \<Longrightarrow> ai_key (cc_vault_account cctx) = k \<Longrightarrow>
     try_cancel_redeem E accounts cargs L = Inr L' \<Longrightarrow> holder_step E k L L'"
| settle: "process_withdrawals_context_load E L accounts = Inr pctx \<Longrightarrow> ai_key (pw_vault_account pctx) = k \<Longrightarrow>
     try_process_withdrawals E accounts L = Inr L' \<Longrightarrow> holder_step E k L L'"
| atomic: "atomic_redeem_context_load E L accounts aargs = Inr actx \<Longrightarrow> ai_key (ar_vault_account actx) = k \<Longrightarrow>
     try_atomic_redeem E accounts aargs L = Inr L' \<Longrightarrow>
     (\<forall>va cpi. validate_authorized_cpi E L (ar_cpi_accounts actx) va (ara_accounts_start aargs) (ara_account_flags aargs)
        (ara_ix_data aargs) = Inr cpi \<longrightarrow> outside_route E L (ar_share_mint actx) cpi) \<Longrightarrow> holder_step E k L L'"

text \<open>A pool to which nothing happened but at a price no lower than before.\<close>

definition pool_kept :: "env \<Rightarrow> i64 \<Rightarrow> key \<Rightarrow> ledger \<Rightarrow> ledger \<Rightarrow> bool" where
  "pool_kept E now k L L' \<longleftrightarrow> (\<exists>ofs A S A' S'. 0 < ofs \<and> pool_at E now k L = Some (ofs, A, S) \<and>
     pool_at E now k L' = Some (ofs, A', S') \<and> price_le ofs A S A' S')"

lemma voffset_pos: "0 < voffset bd"
  by (rule sp.offset_pos)

lemma deposit_keeps_pool:
  assumes "codec_ok E" and "runtime_ok E" and "token_ok E" and "get_clock E = Inr clk"
    and "deposit_context_load E L accounts = Inr ctx" and "try_deposit E accounts args L = Inr L'"
  shows "pool_kept E (unix_timestamp clk) (ai_key (dc_vault_account ctx)) L L'"
  using assms(1-3,6)
proof (rule deposit_refines)
  let ?now = "unix_timestamp clk"
  fix ctx' v' n n' base shares clk' A S A'
  assume "deposit_context_load E L accounts = Inr ctx'" and "get_clock E = Inr clk'"
  then have [simp]: "ctx' = ctx" "clk' = clk" using assms(4,5) by simp_all
  assume l: "load_checked E L' (dc_vault_account ctx') = Inr v'" and n: "mint_supply L (dc_share_mint ctx') = Inr n"
    and n': "mint_supply L' (dc_share_mint ctx') = Inr n'" "unat n' = unat n + unat shares"
    and fr: "v' = (dc_vault ctx')\<lparr>v_total_assets := v_total_assets v'\<rparr>"
    and pool: "pool_state (dc_vault ctx') n (unix_timestamp clk') = Some (A, S)"
    and sh: "shares_for_deposit base A S (v_base_decimals v') = Inr shares"
    and A': "effective_total_assets v' (unix_timestamp clk') = Inr A'" "unat A' = unat A + unat base"
  note c = deposit_context_load_Inr [OF assms(5)]
  have f: "v_base_decimals v' = v_base_decimals (dc_vault ctx)" "v_share_mint v' = v_share_mint (dc_vault ctx)"
    "v_requested_withdrawal_shares v' = v_requested_withdrawal_shares (dc_vault ctx)" by (subst fr, simp)+
  have S: "effective_total_assets (dc_vault ctx) ?now = Inr A" "unat S = unat n + unat (v_requested_withdrawal_shares (dc_vault ctx))"
    using pool by (simp_all add: pool_state_Some_iff)
  show ?thesis unfolding pool_kept_def
    using pool_at_eq [OF c(1) refl c(3) _ S(1), of n] pool_at_eq [OF l [simplified] refl _ n'(1) [simplified] A'(1) [simplified]] c(3) f n n'(2) S(2) A'(2)
      sp.mint_keeps_price [OF sh] voffset_pos by (auto simp: add.commute add.left_commute)
qed


text \<open>Requests and cancellations move shares between the mint and the queue; the pool is the same.\<close>

lemma queue_keeps_pool:
  assumes "load_checked E L a = Inr v" and "load_checked E L' a = Inr (v\<lparr>v_requested_withdrawal_shares := r\<rparr>)"
    and "ai_key m = v_share_mint v" and "mint_supply L m = Inr n" and "mint_supply L' m = Inr n'"
    and "effective_total_assets v now = Inr A" and "unat n + unat (v_requested_withdrawal_shares v) = unat n' + unat r"
  shows "pool_at E now (ai_key a) L' = pool_at E now (ai_key a) L" and "pool_kept E now (ai_key a) L L'"
proof -
  have "effective_total_assets (v\<lparr>v_requested_withdrawal_shares := r\<rparr>) now = Inr A"
    using assms(6) by simp
  then show same: "pool_at E now (ai_key a) L' = pool_at E now (ai_key a) L"
    using pool_at_eq [OF assms(1) refl assms(3,4,6)] pool_at_eq [OF assms(2) refl _ assms(5), of now A] assms(3,7) by simp
  show "pool_kept E now (ai_key a) L L'"
    unfolding pool_kept_def same using pool_at_eq [OF assms(1) refl assms(3,4,6)] voffset_pos by auto
qed

lemma request_keeps_pool:
  assumes "codec_ok E" and "runtime_ok E" and "token_ok E" and "get_clock E = Inr clk"
    and "redeem_context_load E L accounts args = Inr ctx" and "try_redeem E accounts args L = Inr L'"
  shows "pool_kept E (unix_timestamp clk) (ai_key (rc_vault_account ctx)) L L'"
  using assms(1-3,6)
proof (rule redeem_refines)
  note c = redeem_context_load_Inr [OF assms(5)]
  fix ctx' r n n' clk' A S a
  assume "redeem_context_load E L accounts args = Inr ctx'" and "get_clock E = Inr clk'"
  then have [simp]: "ctx' = ctx" "clk' = clk" using assms(4,5) by simp_all
  assume "pool_state (rc_vault ctx') n (unix_timestamp clk') = Some (A, S)"
    and "load_checked E L' (rc_vault_account ctx') = Inr ((rc_vault ctx')\<lparr>v_requested_withdrawal_shares := r\<rparr>)"
    and "unat r = unat (v_requested_withdrawal_shares (rc_vault ctx')) + unat (ra_shares args)"
    and "mint_supply L (rc_share_mint ctx') = Inr n" and "mint_supply L' (rc_share_mint ctx') = Inr n'"
    and "unat n = unat n' + unat (ra_shares args)"
  then show ?thesis using queue_keeps_pool(2) [OF c(1) _ c(3)] by (simp add: pool_state_Some_iff)
qed

lemma cancel_keeps_pool:
  assumes "codec_ok E" and "runtime_ok E" and "token_ok E" and "pool_at E now (ai_key (cc_vault_account ctx)) L = Some p"
    and "cancel_redeem_context_load E L accounts = Inr ctx" and "try_cancel_redeem E accounts args L = Inr L'"
  shows "pool_kept E now (ai_key (cc_vault_account ctx)) L L'"
  using assms(1-3,6)
proof (rule cancel_refines)
  note c = cancel_redeem_context_load_Inr [OF assms(5)]
  obtain A where A: "effective_total_assets (cc_vault ctx) now = Inr A"
    using assms(4) c(1) load_checked_key [of "cc_vault_account ctx" "handle (ai_key (cc_vault_account ctx)) False False" E L]
    by (auto simp: pool_at_def split: sum.splits)
  fix ctx' r n n' clk'
  assume "cancel_redeem_context_load E L accounts = Inr ctx'"
  then have [simp]: "ctx' = ctx" using assms(5) by simp
  assume "load_checked E L' (cc_vault_account ctx') = Inr ((cc_vault ctx')\<lparr>v_requested_withdrawal_shares := r\<rparr>)"
    and "unat (v_requested_withdrawal_shares (cc_vault ctx')) = unat (wt_shares_burned (cc_ticket ctx')) + unat r"
    and "mint_supply L (cc_share_mint ctx') = Inr n" and "mint_supply L' (cc_share_mint ctx') = Inr n'"
    and "unat n' = unat n + unat (wt_shares_burned (cc_ticket ctx'))"
  then show ?thesis using queue_keeps_pool(2) [OF c(1) _ c(3) _ _ A] by simp
qed

text \<open>A batch strikes a ticket only where the pool can be priced.\<close>

lemma strike_without_pool:
  "strike_settlements n now ss v c = Inr (v', ss', c') \<Longrightarrow> pool_state v n now = None \<Longrightarrow> v' = v"
proof (induction ss arbitrary: v c ss')
  case (Cons s ss)
  from Cons.prems(1) show ?case
  proof (rule strike_settlements_Cons)
    fix v1 t c1 ss2
    assume t: "if unstruck s then strike_ticket v n (ts_ticket s) now = Inr (v1, t) else v1 = v \<and> t = ts_ticket s"
      and rest: "strike_settlements n now ss v1 c1 = Inr (v', ss2, c')"
    have "\<not> unstruck s" using t Cons.prems(2) strike_ticket_pool_step by fastforce
    then show "v' = v" using t rest Cons.IH Cons.prems(2) by simp
  qed
qed simp

lemma settle_keeps_pool:
  assumes "codec_ok E" and "runtime_ok E" and "token_ok E" and "get_clock E = Inr clk"
    and "pool_at E (unix_timestamp clk) (ai_key (pw_vault_account ctx)) L = Some q"
    and "process_withdrawals_context_load E L accounts = Inr ctx" and "try_process_withdrawals E accounts L = Inr L'"
  shows "pool_kept E (unix_timestamp clk) (ai_key (pw_vault_account ctx)) L L'"
  using assms(1-3,7)
proof (rule process_refines)
  let ?now = "unix_timestamp clk" and ?v = "pw_vault ctx"
  note c = process_withdrawals_context_load_Inr [OF assms(6)]
  fix ctx' n clk' v1 ss settled p
  assume "process_withdrawals_context_load E L accounts = Inr ctx'" and "get_clock E = Inr clk'"
  then have same: "ctx' = ctx" "clk' = clk" using assms(4,6) by simp_all
  assume "mint_supply L (pw_share_mint ctx') = Inr n" "mint_supply L' (pw_share_mint ctx') = Inr n"
    and "strike_settlements n (unix_timestamp clk') (pw_tickets ctx') (pw_vault ctx') 0 = Inr (v1, ss, settled)"
    and "load_checked E L' (pw_vault_account ctx') = Inr (v1\<lparr>v_pending_withdrawal_assets := p\<rparr>)"
  then have n: "mint_supply L (pw_share_mint ctx) = Inr n" "mint_supply L' (pw_share_mint ctx) = Inr n"
    and k: "strike_settlements n ?now (pw_tickets ctx) ?v 0 = Inr (v1, ss, settled)"
    and l: "load_checked E L' (pw_vault_account ctx) = Inr (v1\<lparr>v_pending_withdrawal_assets := p\<rparr>)"
    unfolding same by blast+
  have mint: "v_share_mint v1 = v_share_mint ?v" and bd: "v_base_decimals v1 = v_base_decimals ?v"
    using strike_settlements_frame [OF k] by (subst accounting_update_def [THEN iffD1], assumption, simp)+
  obtain A where A: "effective_total_assets ?v ?now = Inr A"
    using assms(5) c(1) load_checked_key [of "pw_vault_account ctx" "handle (ai_key (pw_vault_account ctx)) False False" E L]
    by (auto simp: pool_at_def split: sum.splits)
  note before = pool_at_eq [OF c(1) refl c(3) n(1) A]
  have after: "pool_at E ?now (ai_key (pw_vault_account ctx)) L' =
      Some (voffset (v_base_decimals ?v), unat A', unat n + unat (v_requested_withdrawal_shares v1))"
    if "effective_total_assets v1 ?now = Inr A'" for A'
    using pool_at_eq [OF l refl _ n(2), of ?now A'] that c(3) mint bd by simp
  show ?thesis
  proof (cases "pool_state ?v n ?now")
    case None
    then show ?thesis using strike_without_pool [OF k] before after A voffset_pos by (auto simp: pool_kept_def)
  next
    case (Some st)
    then obtain S where st: "pool_state ?v n ?now = Some (A, S)" using A by (cases st) (simp add: pool_state_Some_iff)
    from strike_settlements_pool_run [OF k st] obtain A' S' where st': "pool_state v1 n ?now = Some (A', S')"
      and run: "pool_run (\<lambda>d A S. shares_for_deposit d A S (v_base_decimals ?v))
          (\<lambda>s A S. assets_for_shares s A S (v_base_decimals ?v)) (batch_payouts (pw_tickets ctx)) (A, S) = Some (A', S')"
      by (metis surj_pair)
    from sp.run_keeps_price [OF run] show ?thesis
      using before after st st' voffset_pos by (auto simp: pool_kept_def pool_state_Some_iff)
  qed
qed

lemma atomic_keeps_pool:
  assumes "codec_ok E" and "runtime_ok E" and "token_ok E" and "get_clock E = Inr clk"
    and "atomic_redeem_context_load E L accounts args = Inr ctx" and "try_atomic_redeem E accounts args L = Inr L'"
    and "\<forall>va cpi. validate_authorized_cpi E L (ar_cpi_accounts ctx) va (ara_accounts_start args) (ara_account_flags args)
        (ara_ix_data args) = Inr cpi \<longrightarrow> outside_route E L (ar_share_mint ctx) cpi"
  shows "pool_kept E (unix_timestamp clk) (ai_key (ar_vault_account ctx)) L L'"
proof -
  note c = atomic_redeem_context_load_Inr [OF assms(5)]
  from atomic_redeem_refines [OF assms(1-3,5-7)] assms(4) obtain n n' A S v' A' where
    id: "vault_identity v' = vault_identity (ar_vault ctx)"
    and n: "mint_supply L (ar_share_mint ctx) = Inr n" "mint_supply L' (ar_share_mint ctx) = Inr n'"
    and p: "pool_state (ar_vault ctx) n (unix_timestamp clk) = Some (A, S)"
    and l: "load_checked E L' (ar_vault_account ctx) = Inr v'" and A': "effective_total_assets v' (unix_timestamp clk) = Inr A'"
    and le: "price_le (voffset (v_base_decimals v')) (unat A) (unat S) (unat A') (unat n' + unat (v_requested_withdrawal_shares v'))"
    by auto
  have "effective_total_assets (ar_vault ctx) (unix_timestamp clk) = Inr A"
    "unat S = unat n + unat (v_requested_withdrawal_shares (ar_vault ctx))" using p by (simp_all add: pool_state_Some_iff)
  then show ?thesis
    using pool_at_eq [OF c(1) refl c(4) n(1)] pool_at_eq [OF l refl _ n(2) A'] c(4) id le voffset_pos
    by (auto simp: pool_kept_def vault_identity_def)
qed


lemma holder_step_keeps_pool:
  assumes "codec_ok E" and "runtime_ok E" and "token_ok E" and "get_clock E = Inr clk"
    and "pool_at E (unix_timestamp clk) k L = Some p" and "holder_step E k L L'"
  shows "pool_kept E (unix_timestamp clk) k L L'"
  using assms(6)
proof cases
  case deposit
  then show ?thesis using deposit_keeps_pool [OF assms(1-4)] by blast
next
  case request
  then show ?thesis using request_keeps_pool [OF assms(1-4)] by blast
next
  case cancel
  then show ?thesis using cancel_keeps_pool [OF assms(1-3)] assms(5) by blast
next
  case settle
  then show ?thesis using settle_keeps_pool [OF assms(1-4)] assms(5) by blast
next
  case atomic
  then show ?thesis using atomic_keeps_pool [OF assms(1-4)] by blast
qed

section \<open>Histories\<close>

text \<open>
  A history of a vault between two reports: holder instructions at their instants, each in an
  environment of its own, and time passing in between.
\<close>

inductive holder_history :: "env \<Rightarrow> key \<Rightarrow> i64 \<times> ledger \<Rightarrow> i64 \<times> ledger \<Rightarrow> bool" for E k s where
  start: "holder_history E k s s"
| act: "holder_history E k s (unix_timestamp clk, L) \<Longrightarrow> agrees E F \<Longrightarrow> runtime_ok F \<Longrightarrow> token_ok F \<Longrightarrow>
     get_clock F = Inr clk \<Longrightarrow> holder_step F k L L' \<Longrightarrow> holder_history E k s (unix_timestamp clk, L')"
| wait: "holder_history E k s (t, L) \<Longrightarrow> sint t \<le> sint t' \<Longrightarrow> pool_at E t' k L = Some p \<Longrightarrow> holder_history E k s (t', L)"

lemma agrees_pool_at: "agrees E F \<Longrightarrow> pool_at F t k L = pool_at E t k L"
proof -
  assume "agrees E F"
  then have "load_checked F L a = load_checked E L a" for a
    by (simp add: agrees_def load_checked_def load_vault_def account_load_def)
  then show ?thesis by (simp add: pool_at_def)
qed

lemma pool_at_wait:
  assumes "pool_at E t k L = Some (ofs, A, S)" and "pool_at E t' k L = Some (ofs', A', S')" and "sint t \<le> sint t'"
  shows "ofs' = ofs \<and> S' = S \<and> A \<le> A'"
  using assms effective_mono [OF _ _ assms(3)]
  by (auto simp: pool_at_def word_le_nat_alt split: sum.splits)

lemma history_keeps_price:
  assumes "codec_ok E" and "pool_at E (fst s) k (snd s) = Some (ofs, A, S)" and "0 < ofs" and "holder_history E k s s'"
  shows "\<exists>A' S'. pool_at E (fst s') k (snd s') = Some (ofs, A', S') \<and> price_le ofs A S A' S'"
  using assms(4)
proof induction
  case start
  then show ?case using assms(2) by simp
next
  case (act clk L F L')
  then obtain A1 S1 where p: "pool_at E (unix_timestamp clk) k L = Some (ofs, A1, S1)" "price_le ofs A S A1 S1" by auto
  have "codec_ok F" using agrees_codec_ok act assms(1) by blast
  from holder_step_keeps_pool [OF this act.hyps(3-5) _ act.hyps(6)] p(1) obtain A' S' where
    "pool_at E (unix_timestamp clk) k L' = Some (ofs, A', S')" "price_le ofs A1 S1 A' S'"
    by (auto simp: pool_kept_def agrees_pool_at [OF act.hyps(2)])
  then show ?case using p(2) price_le_trans [OF assms(3)] by auto
next
  case (wait t L t' p)
  then obtain A1 S1 where 1: "pool_at E t k L = Some (ofs, A1, S1)" "price_le ofs A S A1 S1" by auto
  obtain ofs' A' S' where p: "p = (ofs', A', S')" by (cases p)
  from pool_at_wait [OF 1(1) wait.hyps(3) [unfolded p] wait.hyps(2)] 1(2) show ?case
    using wait.hyps(3) p by (auto intro: price_le_mono)
qed

text \<open>
  C1. Holders are never diluted. Along every history of deposits, redemption requests,
  cancellations, settlements and atomic redemptions against a vault, with time passing in between,
  the virtual price of a share never falls; and a history that returns to the share supply it started
  from leaves at least the assets it found. Redemption requests still open count as shares.
\<close>
theorem holders_are_never_diluted:
  assumes "codec_ok E" and "pool_at E t k L = Some (ofs, A, S)" and "holder_history E k (t, L) (t', L')"
  shows "\<exists>A' S'. pool_at E t' k L' = Some (ofs, A', S') \<and> price_le ofs A S A' S' \<and> (S' = S \<longrightarrow> A \<le> A')"
proof -
  have "0 < ofs" using assms(2) voffset_pos by (auto simp: pool_at_def split: sum.splits)
  with history_keeps_price [OF assms(1) _ this assms(3)] assms(2) show ?thesis
    using price_le_same_supply by fastforce
qed

lemma example_pool: "pool_at example_env 2500 20 example_ledger = Some (1000, 9700, 9700000)"
proof -
  have "v_base_decimals example_vault = 6" "v_share_mint example_vault = 7" "v_requested_withdrawal_shares example_vault = 0"
    by (simp_all add: example_vault_def)
  with pool_at_eq [OF example_load [of False False] _ _ example_supply [of False False] example_vault_effective] show ?thesis
    by simp
qed

theorem holders_are_never_diluted_witness:
  "\<exists>L' A' S'. try_deposit example_env example_accounts example_deposit example_ledger = Inr L' \<and>
     pool_at example_env 2500 20 L' = Some (1000, A', S') \<and> price_le 1000 9700 9700000 A' S'"
proof -
  obtain L' where run: "try_deposit example_env example_accounts example_deposit example_ledger = Inr L'"
    using example_deposit_run by blast
  have "holder_step example_env 20 example_ledger L'" by (rule deposit [OF example_context _ run]) simp
  then have "holder_history example_env 20 (2500, example_ledger) (2500, L')"
    using holder_history.act [where clk = "\<lparr>clock_slot = 700, unix_timestamp = 2500\<rparr>" and L = example_ledger
        and E = example_env and F = example_env and k = 20 and s = "(2500, example_ledger)" and L' = L']
      holder_history.start [of example_env 20 "(2500, example_ledger)"] example_runtime_ok example_token_ok
    by (simp add: agrees_def) (simp add: example_env_def)
  from holders_are_never_diluted [OF example_codec_ok example_pool this] run show ?thesis by blast
qed


section \<open>A deposit in full\<close>

text \<open>
  C9. A deposit that succeeds was open to its depositor and not paused; it minted exactly the floor
  of the deposited base value times the share price before it, at least the minimum asked for and
  never zero; the stored vault differs from the one before in its total assets only, which grew by the deposited value
  and respect the cap.
\<close>
theorem deposit_mints_at_price:
  assumes "codec_ok E" and "runtime_ok E" and "token_ok E"
    and ctx: "deposit_context_load E L accounts = Inr ctx" and run: "try_deposit E accounts args L = Inr L'"
  shows "\<exists>clk base A S shares n n' v'. get_clock E = Inr clk \<and> resolve_base_atoms E L ctx args = Inr base \<and>
     deposits_paused (dc_vault ctx) = Inr False \<and>
     allows_depositor (sha256 E) (dc_vault ctx) (ai_key (dc_depositor ctx)) (da_access_proof args) \<and>
     mint_supply L (dc_share_mint ctx) = Inr n \<and> mint_supply L' (dc_share_mint ctx) = Inr n' \<and>
     pool_state (dc_vault ctx) n (unix_timestamp clk) = Some (A, S) \<and>
     unat shares = unat base * (unat S + voffset (v_base_decimals (dc_vault ctx))) div (unat A + 1) \<and>
     shares \<noteq> 0 \<and> da_min_shares_out args \<le> shares \<and> unat n' = unat n + unat shares \<and>
     load_checked E L' (dc_vault_account ctx) = Inr v' \<and>
     v' = (dc_vault ctx)\<lparr>v_total_assets := v_total_assets v'\<rparr> \<and>
     unat (v_total_assets v') = unat (v_total_assets (dc_vault ctx)) + unat base \<and>
     (v_deposit_cap v' = 0 \<or> v_total_assets v' \<le> v_deposit_cap v')"
  using assms(1-3) run
proof (rule deposit_refines)
  fix ctx' v' n n' base shares clk A S A'
  assume "deposit_context_load E L accounts = Inr ctx'"
  then have [simp]: "ctx' = ctx" using ctx by simp
  assume sh: "shares_for_deposit base A S (v_base_decimals v') = Inr shares"
    and fr: "v' = (dc_vault ctx')\<lparr>v_total_assets := v_total_assets v'\<rparr>"
  have "v_base_decimals v' = v_base_decimals (dc_vault ctx)" by (subst fr) simp
  with sh have a: "unat shares = unat base * (unat S + voffset (v_base_decimals (dc_vault ctx))) div (unat A + 1)" "shares \<noteq> 0"
    by (auto simp: shares_for_deposit_Inr_iff)
  assume b: "get_clock E = Inr clk" "resolve_base_atoms E L ctx' args = Inr base" "deposits_paused (dc_vault ctx') = Inr False"
    "allows_depositor (sha256 E) (dc_vault ctx') (ai_key (dc_depositor ctx')) (da_access_proof args)"
    "mint_supply L (dc_share_mint ctx') = Inr n" "mint_supply L' (dc_share_mint ctx') = Inr n'"
    "pool_state (dc_vault ctx') n (unix_timestamp clk) = Some (A, S)"
    and c: "da_min_shares_out args \<le> shares" "unat n' = unat n + unat shares"
      "load_checked E L' (dc_vault_account ctx') = Inr v'"
    and d: "unat (v_total_assets v') = unat (v_total_assets (dc_vault ctx')) + unat base"
      "v_deposit_cap v' = 0 \<or> v_total_assets v' \<le> v_deposit_cap v'"
  show ?thesis
    by (intro exI conjI; (rule b [simplified] a c [simplified] fr [simplified] d [simplified])?)
qed

theorem deposit_mints_at_price_witness:
  "\<exists>L' n'. try_deposit example_env example_accounts example_deposit example_ledger = Inr L' \<and>
     mint_supply L' (handle 7 False True) = Inr n' \<and> 9700000 + 90000 \<le> unat n'"
proof -
  obtain L' where run: "try_deposit example_env example_accounts example_deposit example_ledger = Inr L'"
    using example_deposit_run by blast
  from deposit_mints_at_price [OF example_codec_ok example_runtime_ok example_token_ok example_context run]
  obtain n n' and shares :: u64 where "mint_supply example_ledger (handle 7 False True) = Inr n"
    "mint_supply L' (handle 7 False True) = Inr n'" "90000 \<le> shares" "unat n' = unat n + unat shares"
    by (auto simp: example_deposit_def)
  then show ?thesis using run example_supply by (auto simp: word_le_nat_alt)
qed

end
