(* ===== verification/Settings_Safety.thy ===== *)
theory Settings_Safety
  imports Holder_Safety
begin

text \<open>
  What administration cannot do. The setters of a vault share one contract, the locale
  \<open>vault_setter\<close>: they run for the admin, store one updated vault, and keep its identity and its
  books. Everything a holder sees then stays as it was.
\<close>

section \<open>Books\<close>

text \<open>The accounting fields of a vault.\<close>

definition vault_books :: "vault \<Rightarrow> (u64 \<times> u64 \<times> u64 \<times> u64 \<times> u64 \<times> u64 \<times> u64) \<times> (u64 \<times> i64 \<times> i64 \<times> i64 \<times> key)" where
  "vault_books v = ((v_total_assets v, v_external_assets v, v_pending_withdrawal_assets v, v_fees_payable v,
      v_high_watermark v, v_report_epoch v, v_requested_withdrawal_shares v),
     (v_locked_profit v, v_profit_unlock_start_ts v, v_profit_unlock_end_ts v, v_last_update_ts v, v_last_report_hash v))"

lemma books_effective: "vault_books w = vault_books v \<Longrightarrow> effective_total_assets w now = effective_total_assets v now"
  by (simp add: vault_books_def effective_total_assets_def remaining_locked_profit_def)

lemma books_keep_pool:
  assumes "load_checked E L a = Inr v" and "load_checked E L' a = Inr w" and "vault_identity w = vault_identity v"
    and "vault_books w = vault_books v" and "\<forall>k. k \<noteq> ai_key a \<longrightarrow> same_cell L L' k"
  shows "pool_at E now (ai_key a) L' = pool_at E now (ai_key a) L"
proof -
  let ?h = "handle (ai_key a) False False"
  have l: "load_checked E L ?h = Inr v" "load_checked E L' ?h = Inr w" using assms(1,2) load_checked_key [of a ?h] by simp_all
  have f: "v_share_mint w = v_share_mint v" "v_base_decimals w = v_base_decimals v"
    "v_requested_withdrawal_shares w = v_requested_withdrawal_shares v"
    using assms(3,4) by (simp_all add: vault_identity_def vault_books_def)
  have "mint_supply L' (handle m False False) = mint_supply L (handle m False False)" for m
  proof (cases "m = ai_key a")
    case True
    have "owner_of L a = ID" "owner_of L' a = ID" using assms(1,2) by (simp_all add: load_checked_Inr_iff)
    then show ?thesis using True token_program_not_ID by (auto simp: mint_supply_def)
  next
    case False
    then show ?thesis using same_cell_mint [of L L' "handle m False False"] assms(5) by simp
  qed
  then show ?thesis by (simp add: pool_at_def l f books_effective [OF assms(4)] cong: sum.case_cong)
qed

section \<open>The contract of a setter\<close>

locale vault_setter =
  fixes handler :: "env \<Rightarrow> account_info list \<Rightarrow> 'a \<Rightarrow> ledger \<Rightarrow> ledger program_result"
    and update :: "'a \<Rightarrow> vault \<Rightarrow> vault"
  assumes runs: "handler E accounts x L = Inr L' \<Longrightarrow> \<exists>admin va rest v. accounts = admin # va # rest \<and>
      writable_vault_role_context_load E L admin va Admin = Inr v \<and>
      writable_vault_role_context_store E (update x v) va L = Inr L'"
    and keeps_identity: "vault_identity (update x v) = vault_identity v"
    and keeps_books: "vault_books (update x v) = vault_books v"
begin

lemma setter_stores:
  assumes "codec_ok E" and "handler E accounts x L = Inr L'"
  obtains admin va rest v where "accounts = admin # va # rest" and "ai_is_signer admin" and "ai_key admin = v_admin v"
    and "load_checked E L va = Inr v" and "load_checked E L' va = Inr (update x v)"
    and "\<forall>k. k \<noteq> ai_key va \<longrightarrow> same_cell L L' k"
proof -
  from runs [OF assms(2)] obtain admin va rest v where acc: "accounts = admin # va # rest"
    and load: "load_checked E L va = Inr v" "ai_is_signer admin" "ai_key admin = v_admin v"
    and val: "vault_validate_state (update x v) = Inr ()" and st: "store_account E (VaultAccount (update x v)) va L = Inr L'"
    by (auto simp: writable_vault_role_context_load_def vault_role_context_load_def writable_vault_role_context_store_def
        result_facts)
  have "vault_verify_address (find_program_address E) (update x v) (ai_key va) = Inr ()"
    using load(1) keeps_identity [of x v] vault_verify_address_cong [of "update x v" v]
    by (simp add: load_checked_Inr_iff vault_identity_def)
  then have "load_checked E L' va = Inr (update x v)"
    using store_load_vault [OF assms(1) st _ val] load(1) by (simp add: load_checked_Inr_iff)
  then show thesis using that acc load store_account_other [OF st] by blast
qed

lemma setter_effect:
  assumes "codec_ok E" and "handler E accounts x L = Inr L'"
  shows "\<exists>admin va rest v w. accounts = admin # va # rest \<and> ai_is_signer admin \<and> ai_key admin = v_admin v \<and>
     load_checked E L va = Inr v \<and> load_checked E L' va = Inr w \<and>
     vault_identity w = vault_identity v \<and> vault_books w = vault_books v \<and> (\<forall>k. k \<noteq> ai_key va \<longrightarrow> same_cell L L' k)"
  by (rule setter_stores [OF assms]) (use keeps_identity keeps_books in blast)

end

section \<open>The setters\<close>

lemma update_as_admin_runs:
  "update_writable_vault_as_admin E accounts (\<lambda>v. Inr (f v)) L = Inr L' \<Longrightarrow> \<exists>admin va rest v. accounts = admin # va # rest \<and>
      writable_vault_role_context_load E L admin va Admin = Inr v \<and> writable_vault_role_context_store E (f v) va L = Inr L'"
  by (auto simp: update_writable_vault_as_admin_def result_facts)

lemmas setter_fields = vault_identity_def vault_books_def set_manage_paused_def set_withdrawals_paused_def
  set_deposits_paused_def set_private_def set_external_enabled_def updated_vault_config_def

interpretation pause: vault_setter try_set_pause_flags "\<lambda>args v. set_manage_paused (spf_manage_paused args)
    (set_withdrawals_paused (spf_withdrawals_paused args) (set_deposits_paused (spf_deposits_paused args) v))"
  by unfold_locales (rule update_as_admin_runs, simp add: try_set_pause_flags_def, simp_all add: setter_fields)

interpretation access: vault_setter try_set_vault_access
  "\<lambda>args v. (set_private (sva_private args) v)\<lparr>v_access_merkle_root := sva_access_merkle_root args\<rparr>"
  by unfold_locales (rule update_as_admin_runs, simp add: try_set_vault_access_def, simp_all add: setter_fields)

interpretation admin: vault_setter try_transfer_vault_authority "\<lambda>k v. v\<lparr>v_admin := k\<rparr>"
  by unfold_locales (rule update_as_admin_runs, simp add: try_transfer_vault_authority_def, simp_all add: setter_fields)

interpretation strategist: vault_setter try_set_strategist "\<lambda>k v. v\<lparr>v_strategist := k\<rparr>"
  by unfold_locales (rule update_as_admin_runs, simp add: try_set_strategist_def, simp_all add: setter_fields)

interpretation swapper: vault_setter try_set_swap_authority "\<lambda>k v. v\<lparr>v_swap_authority := k\<rparr>"
  by unfold_locales (rule update_as_admin_runs, simp add: try_set_swap_authority_def, simp_all add: setter_fields)

interpretation reporter: vault_setter try_set_nav_authority "\<lambda>k v. v\<lparr>v_nav_authority := k\<rparr>"
  by unfold_locales (rule update_as_admin_runs, simp add: try_set_nav_authority_def, simp_all add: setter_fields)

interpretation settler: vault_setter try_set_withdrawal_authority "\<lambda>k v. v\<lparr>v_withdrawal_authority := k\<rparr>"
  by unfold_locales (rule update_as_admin_runs, simp add: try_set_withdrawal_authority_def, simp_all add: setter_fields)

interpretation config: vault_setter try_update_vault_config updated_vault_config
  by unfold_locales (auto simp: try_update_vault_config_def result_facts setter_fields split: if_splits)

lemmas setter_effects = pause.setter_effect access.setter_effect admin.setter_effect strategist.setter_effect
  swapper.setter_effect reporter.setter_effect settler.setter_effect config.setter_effect

text \<open>The instructions that set what a vault is governed by.\<close>

fun is_setting :: "roshi_instruction \<Rightarrow> bool" where
  "is_setting (SetPauseFlags _) = True"
| "is_setting (SetVaultAccess _) = True"
| "is_setting (TransferVaultAuthority _) = True"
| "is_setting (SetStrategist _) = True"
| "is_setting (SetSwapAuthority _) = True"
| "is_setting (SetNavAuthority _) = True"
| "is_setting (SetWithdrawalAuthority _) = True"
| "is_setting (UpdateVaultConfig _) = True"
| "is_setting _ = False"

lemma setting_effect:
  assumes "codec_ok E" and "is_setting i" and "run_instruction E accounts L i = Inr L'"
  shows "\<exists>admin va rest v w. accounts = admin # va # rest \<and> ai_is_signer admin \<and> ai_key admin = v_admin v \<and>
     load_checked E L va = Inr v \<and> load_checked E L' va = Inr w \<and>
     vault_identity w = vault_identity v \<and> vault_books w = vault_books v \<and> (\<forall>k. k \<noteq> ai_key va \<longrightarrow> same_cell L L' k)"
  using assms by (cases i) (auto dest: setter_effects)

text \<open>
  C31. The settings of a vault are the admin's and do not touch money: a successful change of pause flags,
  access list, authorities or configuration was signed by the stored admin, writes the vault account only,
  keeps its identity and every accounting field, and leaves the effective assets and the economic
  share supply at every instant what they were.
\<close>
theorem settings_keep_books:
  assumes "codec_ok E" and "is_setting i" and "run_instruction E accounts L i = Inr L'"
  shows "\<exists>admin va rest v w. accounts = admin # va # rest \<and> ai_is_signer admin \<and> ai_key admin = v_admin v \<and>
     load_checked E L va = Inr v \<and> load_checked E L' va = Inr w \<and>
     vault_identity w = vault_identity v \<and> vault_books w = vault_books v \<and>
     (\<forall>now. pool_at E now (ai_key va) L' = pool_at E now (ai_key va) L) \<and> (\<forall>k. k \<noteq> ai_key va \<longrightarrow> same_cell L L' k)"
  using setting_effect [OF assms] books_keep_pool by metis

theorem settings_keep_books_witness:
  "\<exists>L' v w. try_process_instruction example_env example_codec ID [handle 1 True False, handle 20 False True] [14, 1, 0, 0]
       example_ledger = Inr L' \<and> load_checked example_env example_ledger (handle 20 False True) = Inr v \<and>
     load_checked example_env L' (handle 20 False True) = Inr w \<and> vault_books w = vault_books v"
proof -
  obtain L' where run: "try_process_instruction example_env example_codec ID [handle 1 True False, handle 20 False True]
      [14, 1, 0, 0] example_ledger = Inr L'" using example_pause_run by blast
  then obtain i where "decode example_codec [14, 1, 0, 0] = Some i" and
    r: "run_instruction example_env [handle 1 True False, handle 20 False True] example_ledger i = Inr L'"
    by (auto simp: try_process_instruction_def result_facts)
  then have "is_setting i" by (auto simp: example_pause_decode)
  from settings_keep_books [OF example_codec_ok this r] run show ?thesis by auto
qed

end
