(* ===== verification/Fuzz_Actions.thy ===== *)
theory Fuzz_Actions
  imports Fuzz_Predictions Client_Safety Settings_Safety
begin

text \<open>
  \<open>fuzz/src/fixture\<close>: the actions of the fuzz harness in \<open>deposits.rs\<close>, \<open>withdrawals.rs\<close>,
  \<open>nav_fees.rs\<close>, \<open>controls.rs\<close>, \<open>authority_config.rs\<close>, \<open>execution.rs\<close> and \<open>deploy.rs\<close>. An action is
  a program over the state of the harness: it builds instructions with the client, submits them to
  the simulator and asserts what they did. A panic, an overflow and a failed \<open>fuzz_assert\<close> are \<open>None\<close>.
\<close>

section \<open>Programs over the harness\<close>

record fuzz_state =
  fs_fixture :: roshi_fixture
  fs_ledger :: ledger
  fs_clock :: clock

type_synonym 'a fuzz = "fuzz_state \<Rightarrow> ('a \<times> fuzz_state) option"

text \<open>
  The parameters of a run: the account store of the simulator, its execution of a signed instruction
  (\<open>None\<close> for an error of the simulator, else whether the instruction succeeded), the wire form of
  arguments, the environment that derives addresses and decodes accounts, and the decoder of a bare
  vault.
\<close>

record harness_env =
  h_svm :: svm
  h_send :: "instruction \<Rightarrow> key list \<Rightarrow> clock \<Rightarrow> ledger \<Rightarrow> bool option \<times> ledger"
  h_codec :: payload_codec
  h_env :: env
  h_vault :: "bytes \<Rightarrow> vault option"

definition give :: "'a \<Rightarrow> 'a fuzz" where
  "give x s = Some (x, s)"

definition and_then :: "'a fuzz \<Rightarrow> ('a \<Rightarrow> 'b fuzz) \<Rightarrow> 'b fuzz" where
  "and_then m f s = (case m s of None \<Rightarrow> None | Some (x, s') \<Rightarrow> f x s')"

definition fuzz_assert :: "bool \<Rightarrow> 'a fuzz \<Rightarrow> 'a fuzz" where
  "fuzz_assert b m s = (if b then m s else None)"

definition expect :: "'a option \<Rightarrow> ('a \<Rightarrow> 'b fuzz) \<Rightarrow> 'b fuzz" where
  "expect x f s = (case x of None \<Rightarrow> None | Some y \<Rightarrow> f y s)"

definition with_fixture :: "(roshi_fixture \<Rightarrow> 'a fuzz) \<Rightarrow> 'a fuzz" where
  "with_fixture f s = f (fs_fixture s) s"

definition with_ledger :: "(ledger \<Rightarrow> 'a fuzz) \<Rightarrow> 'a fuzz" where
  "with_ledger f s = f (fs_ledger s) s"

definition with_user :: "nat \<Rightarrow> (roshi_fixture \<Rightarrow> fuzz_user \<Rightarrow> 'a fuzz) \<Rightarrow> 'a fuzz" where
  "with_user i f = with_fixture (\<lambda>fx. expect (get_nth (fx_users fx) i) (f fx))"

definition balance_of :: "harness_env \<Rightarrow> key \<Rightarrow> u64 fuzz" where
  "balance_of H k = with_ledger (\<lambda>L. expect (fuzz_token_balance (h_svm H) L k) give)"

definition supply_of :: "harness_env \<Rightarrow> key \<Rightarrow> u64 fuzz" where
  "supply_of H k = with_ledger (\<lambda>L. expect (fuzz_mint_supply (h_svm H) L k) give)"

definition read_vault :: "harness_env \<Rightarrow> vault fuzz" where
  "read_vault H = with_fixture (\<lambda>fx. with_ledger (\<lambda>L. expect (fuzz_load_vault (h_svm H) (h_vault H) L fx) give))"

definition fuzz_unix_timestamp :: "i64 fuzz" where
  "fuzz_unix_timestamp s = Some (unix_timestamp (fs_clock s), s)"

definition submit :: "harness_env \<Rightarrow> instruction option \<Rightarrow> key list \<Rightarrow> bool fuzz" where
  "submit H ix signers = expect ix (\<lambda>ix s.
     case h_send H ix signers (fs_clock s) (fs_ledger s) of
       (outcome, L) \<Rightarrow> Some ((case outcome of Some ok \<Rightarrow> ok | None \<Rightarrow> False), s\<lparr>fs_ledger := L\<rparr>))"

definition submit_ok :: "harness_env \<Rightarrow> instruction option \<Rightarrow> key list \<Rightarrow> unit fuzz" where
  "submit_ok H ix signers = expect ix (\<lambda>ix s.
     case h_send H ix signers (fs_clock s) (fs_ledger s) of
       (outcome, L) \<Rightarrow> (case outcome of Some True \<Rightarrow> Some ((), s\<lparr>fs_ledger := L\<rparr>) | _ \<Rightarrow> None))"

text \<open>\<open>amount % (balance + 1)\<close>, and \<open>unwrap_or\<close>.\<close>

definition up_to :: "u64 \<Rightarrow> u64 \<Rightarrow> u64 option" where
  "up_to amount balance = map_option (\<lambda>n. amount mod n) (checked_add balance 1)"

definition unwrap_or :: "'e + 'a \<Rightarrow> 'a \<Rightarrow> 'a" where
  "unwrap_or r d = (case r of Inl _ \<Rightarrow> d | Inr x \<Rightarrow> x)"

definition saturating_add :: "u64 \<Rightarrow> u64 \<Rightarrow> u64" where
  "saturating_add a b = (case checked_add a b of Some c \<Rightarrow> c | None \<Rightarrow> - 1)"

definition SPL_TRANSFER_TAG :: u8 where "SPL_TRANSFER_TAG = 3"

definition transfer_data :: "u64 \<Rightarrow> bytes" where
  "transfer_data amount = SPL_TRANSFER_TAG # to_le_bytes amount"

definition transfer_flags :: "packed_account_flags option" where
  "transfer_flags = from_flags [\<lparr>af_is_signer = False, af_is_writable = True\<rparr>,
     \<lparr>af_is_signer = False, af_is_writable = True\<rparr>, \<lparr>af_is_signer = False, af_is_writable = False\<rparr>]"

definition transfer_metas :: "roshi_fixture \<Rightarrow> key \<Rightarrow> key \<Rightarrow> key \<Rightarrow> account_meta list" where
  "transfer_metas fx source destination token_program =
     [meta_new source False, meta_new destination False, meta_readonly (fx_sub_account fx) False,
      meta_readonly token_program False]"

section \<open>Deposits\<close>

definition PYTH_FEED_ID :: key where "PYTH_FEED_ID = key_of_bytes (replicate 32 7)"
definition PYTH_BASE_PRICE :: i64 where "PYTH_BASE_PRICE = 200000000"
definition PYTH_EXPONENT :: i32 where "PYTH_EXPONENT = - 8"
definition PYTH_PRICE_DECIMALS :: u8 where "PYTH_PRICE_DECIMALS = 8"
definition PYTH_MAX_AGE_SECS :: u64 where "PYTH_MAX_AGE_SECS = 64"
definition PYTH_MAX_CONF_BPS :: u16 where "PYTH_MAX_CONF_BPS = 500"

definition fuzz_pyth_config :: oracle_config where
  "fuzz_pyth_config = oc_pyth (pyth_config_new PYTH_FEED_ID PYTH_PRICE_DECIMALS PYTH_MAX_AGE_SECS PYTH_MAX_CONF_BPS)"

definition action_deposit :: "harness_env \<Rightarrow> nat \<Rightarrow> u64 \<Rightarrow> bool fuzz" where
  "action_deposit H i amount = with_user i (\<lambda>fx user.
     and_then (balance_of H (fu_base_ata user)) (\<lambda>balance.
     if balance = 0 then give False else
     expect (up_to amount balance) (\<lambda>amount.
     submit H (deposit (h_codec H) (fu_key user) (fx_vault fx) (fu_base_ata user) (fx_custody fx) (fu_share_ata user)
         (fx_share_mint fx) TOKEN_PROGRAM_ID (fx_base_mint fx) amount 0 (fu_access_proof user) []) [fu_key user])))"

definition deposit_asset_ix :: "harness_env \<Rightarrow> roshi_fixture \<Rightarrow> fuzz_user \<Rightarrow> u64 \<Rightarrow> instruction option" where
  "deposit_asset_ix H fx user amount =
     deposit (h_codec H) (fu_key user) (fx_vault fx) (fu_asset_ata user) (fx_asset_custody fx) (fu_share_ata user)
       (fx_share_mint fx) TOKEN_PROGRAM_ID (fx_asset_mint fx) amount 0 (fu_access_proof user)
       [meta_readonly (fx_asset_pda fx) False, meta_readonly (fx_pyth_account fx) False]"

definition deposit_token_2022_asset_ix :: "harness_env \<Rightarrow> roshi_fixture \<Rightarrow> fuzz_user \<Rightarrow> u64 \<Rightarrow> instruction option" where
  "deposit_token_2022_asset_ix H fx user amount =
     deposit (h_codec H) (fu_key user) (fx_vault fx) (fu_token_2022_asset_ata user) (fx_token_2022_asset_custody fx)
       (fu_share_ata user) (fx_share_mint fx) TOKEN_2022_PROGRAM_ID (fx_token_2022_asset_mint fx) amount 0
       (fu_access_proof user) [meta_readonly (fx_token_2022_asset_pda fx) False, meta_readonly (fx_pyth_account fx) False]"

definition fuzz_load_asset :: "harness_env \<Rightarrow> asset fuzz" where
  "fuzz_load_asset H = with_fixture (\<lambda>fx. with_ledger (\<lambda>L.
     expect (svm_get_account (h_svm H) L (fx_asset_pda fx)) (\<lambda>account.
     expect (case deserialize (h_env H) (c_data account) of Some (AssetAccount a) \<Rightarrow> Some a | _ \<Rightarrow> None) give)))"

definition fuzz_asset_enabled :: "harness_env \<Rightarrow> bool fuzz" where
  "fuzz_asset_enabled H = and_then (fuzz_load_asset H) (\<lambda>a.
     expect (case asset_enabled a of Inl _ \<Rightarrow> None | Inr b \<Rightarrow> Some b) give)"

definition write_pyth_price :: "harness_env \<Rightarrow> u64 \<Rightarrow> i64 \<Rightarrow> unit fuzz" where
  "write_pyth_price H conf publish_time = with_fixture (\<lambda>fx s.
     let account_data = pyth_price_data PYTH_FEED_ID PYTH_BASE_PRICE conf PYTH_EXPONENT publish_time;
         lamports = (case svm_get_account (h_svm H) (fs_ledger s) (fx_pyth_account fx) of
             Some a \<Rightarrow> c_lamports a
           | None \<Rightarrow> minimum_balance_for_rent_exemption (h_svm H) (length account_data))
     in Some ((), s\<lparr>fs_ledger := svm_set_account (h_svm H) (fx_pyth_account fx)
          \<lparr>c_owner = PYTH_RECEIVER_ID, c_lamports = lamports, c_data = account_data, c_executable = False\<rparr> (fs_ledger s)\<rparr>))"

definition action_deposit_asset_fresh_price :: "harness_env \<Rightarrow> nat \<Rightarrow> u64 \<Rightarrow> bool fuzz" where
  "action_deposit_asset_fresh_price H i amount =
     and_then fuzz_unix_timestamp (\<lambda>now.
     and_then (write_pyth_price H 0 now) (\<lambda>_. with_user i (\<lambda>fx user.
     and_then (balance_of H (fu_asset_ata user)) (\<lambda>balance.
     if balance = 0 then give False else
     let amount = amount mod balance + 1 in
     and_then (read_vault H) (\<lambda>v.
     and_then (fuzz_asset_enabled H) (\<lambda>enabled.
     and_then (supply_of H (fx_share_mint fx)) (\<lambda>shares.
     let assert_oracle_ok = (\<not> unwrap_or (deposits_paused v) True \<and> enabled \<and> v_total_assets v = 0 \<and> shares = 0) in
     and_then (balance_of H (fu_asset_ata user)) (\<lambda>source_before.
     and_then (balance_of H (fx_asset_custody fx)) (\<lambda>custody_before.
     and_then (submit H (deposit_asset_ix H fx user amount) [fu_key user]) (\<lambda>ok.
     and_then (balance_of H (fu_asset_ata user)) (\<lambda>source_after.
     and_then (balance_of H (fx_asset_custody fx)) (\<lambda>custody_after.
     fuzz_assert (assert_oracle_ok \<longrightarrow> ok \<and> checked_sub source_before amount = Some source_after \<and>
         checked_add custody_before amount = Some custody_after) (give ok)))))))))))))"

definition assert_asset_deposit_rejects :: "harness_env \<Rightarrow> nat \<Rightarrow> u64 \<Rightarrow> bool fuzz" where
  "assert_asset_deposit_rejects H i amount = with_user i (\<lambda>fx user.
     and_then (balance_of H (fu_asset_ata user)) (\<lambda>balance.
     if balance = 0 then give False else
     let amount = amount mod balance + 1 in
     and_then (balance_of H (fu_asset_ata user)) (\<lambda>source_before.
     and_then (balance_of H (fx_asset_custody fx)) (\<lambda>custody_before.
     and_then (submit H (deposit_asset_ix H fx user amount) [fu_key user]) (\<lambda>ok.
     and_then (balance_of H (fu_asset_ata user)) (\<lambda>source_after.
     and_then (balance_of H (fx_asset_custody fx)) (\<lambda>custody_after.
     fuzz_assert (\<not> ok \<and> source_after = source_before \<and> custody_after = custody_before) (give ok))))))))"

definition action_deposit_asset_stale_price :: "harness_env \<Rightarrow> nat \<Rightarrow> u64 \<Rightarrow> bool fuzz" where
  "action_deposit_asset_stale_price H i amount =
     and_then fuzz_unix_timestamp (\<lambda>now.
     expect (Option.bind (i64_checked_sub now (ucast PYTH_MAX_AGE_SECS)) (\<lambda>t. i64_checked_sub t 1)) (\<lambda>publish_time.
     and_then (write_pyth_price H 0 publish_time) (\<lambda>_. assert_asset_deposit_rejects H i amount)))"

definition action_deposit_asset_wide_confidence :: "harness_env \<Rightarrow> nat \<Rightarrow> u64 \<Rightarrow> bool fuzz" where
  "action_deposit_asset_wide_confidence H i amount =
     and_then fuzz_unix_timestamp (\<lambda>now.
     and_then (write_pyth_price H (ucast PYTH_BASE_PRICE) now) (\<lambda>_. assert_asset_deposit_rejects H i amount))"

definition action_deposit_asset :: "harness_env \<Rightarrow> nat \<Rightarrow> u64 \<Rightarrow> bool fuzz" where
  "action_deposit_asset H i amount = with_user i (\<lambda>fx user.
     and_then (balance_of H (fu_asset_ata user)) (\<lambda>balance.
     if balance = 0 then give False else
     expect (up_to amount balance) (\<lambda>amount.
     submit H (deposit_asset_ix H fx user amount) [fu_key user])))"

definition action_deposit_token_2022_asset :: "harness_env \<Rightarrow> nat \<Rightarrow> u64 \<Rightarrow> bool fuzz" where
  "action_deposit_token_2022_asset H i amount =
     and_then fuzz_unix_timestamp (\<lambda>now.
     and_then (write_pyth_price H 0 now) (\<lambda>_. with_user i (\<lambda>fx user.
     and_then (balance_of H (fu_token_2022_asset_ata user)) (\<lambda>balance.
     if balance = 0 then give False else
     let amount = amount mod balance + 1 in
     and_then (read_vault H) (\<lambda>v.
     and_then (supply_of H (fx_share_mint fx)) (\<lambda>shares.
     let assert_token_2022_ok = (\<not> unwrap_or (deposits_paused v) True \<and> v_total_assets v = 0 \<and> shares = 0) in
     and_then (balance_of H (fu_token_2022_asset_ata user)) (\<lambda>source_before.
     and_then (balance_of H (fx_token_2022_asset_custody fx)) (\<lambda>custody_before.
     and_then (submit H (deposit_token_2022_asset_ix H fx user amount) [fu_key user]) (\<lambda>ok.
     and_then (balance_of H (fu_token_2022_asset_ata user)) (\<lambda>source_after.
     and_then (balance_of H (fx_token_2022_asset_custody fx)) (\<lambda>custody_after.
     fuzz_assert (assert_token_2022_ok \<longrightarrow> ok \<and> checked_sub source_before amount = Some source_after \<and>
         checked_add custody_before amount = Some custody_after) (give ok))))))))))))"

definition action_initialize_transfer_fee_token_2022_asset_rejects :: "harness_env \<Rightarrow> bool fuzz" where
  "action_initialize_transfer_fee_token_2022_asset_rejects H = with_fixture (\<lambda>fx.
     and_then (submit H (initialize_asset (h_codec H) (fx_operator fx) (fx_vault fx) (fx_transfer_fee_token_2022_mint fx)
         (fx_transfer_fee_token_2022_asset_pda fx)
         \<lparr>iaa_asset_mint = fx_transfer_fee_token_2022_mint fx, iaa_oracle = fuzz_pyth_config,
          iaa_asset_decimals = ASSET_DECIMALS, iaa_enabled = True, iaa_routed = False, iaa_deposit_cap_atoms = - 1\<rparr>)
         [fx_operator fx]) (\<lambda>ok. with_ledger (\<lambda>L.
     let created = (svm_get_account (h_svm H) L (fx_transfer_fee_token_2022_asset_pda fx) \<noteq> None)
     in fuzz_assert (\<not> ok \<and> \<not> created) (give ok))))"

definition update_asset_enabled :: "harness_env \<Rightarrow> roshi_fixture \<Rightarrow> bool \<Rightarrow> instruction option" where
  "update_asset_enabled H fx enabled = update_asset (h_codec H) (fx_operator fx) (fx_vault fx) (fx_asset_pda fx)
     \<lparr>uaa_oracle = fuzz_pyth_config, uaa_enabled = enabled, uaa_routed = False, uaa_deposit_cap_atoms = - 1\<rparr>"

definition action_update_asset_disable_rejects :: "harness_env \<Rightarrow> nat \<Rightarrow> u64 \<Rightarrow> bool fuzz" where
  "action_update_asset_disable_rejects H i amount = with_fixture (\<lambda>fx.
     and_then (submit H (update_asset_enabled H fx False) [fx_operator fx]) (\<lambda>disabled.
     if \<not> disabled then give False else
     and_then fuzz_unix_timestamp (\<lambda>now.
     and_then (write_pyth_price H 0 now) (\<lambda>_. with_user i (\<lambda>fx user.
     and_then (balance_of H (fu_asset_ata user)) (\<lambda>balance.
     and_then (read_vault H) (\<lambda>v.
     and_then
       (if 0 < balance \<and> \<not> unwrap_or (deposits_paused v) True then
          let amount = amount mod balance + 1 in
          and_then (balance_of H (fu_asset_ata user)) (\<lambda>source_before.
          and_then (balance_of H (fx_asset_custody fx)) (\<lambda>custody_before.
          and_then (submit H (deposit_asset_ix H fx user amount) [fu_key user]) (\<lambda>ok.
          and_then (balance_of H (fu_asset_ata user)) (\<lambda>source_after.
          and_then (balance_of H (fx_asset_custody fx)) (\<lambda>custody_after.
          fuzz_assert (\<not> ok \<and> source_after = source_before \<and> custody_after = custody_before) (give ()))))))
        else give ()) (\<lambda>_.
     submit H (update_asset_enabled H fx True) [fx_operator fx]))))))))"

definition action_deposit_outsider :: "harness_env \<Rightarrow> u64 \<Rightarrow> bool fuzz" where
  "action_deposit_outsider H amount = with_fixture (\<lambda>fx.
     let outsider = fx_outsider fx in
     and_then (balance_of H (fu_base_ata outsider)) (\<lambda>balance.
     if balance = 0 then give False else
     let amount = amount mod balance + 1 in
     and_then (read_vault H) (\<lambda>v.
     let assert_acl = (unwrap_or (vault_private v) False \<and> \<not> unwrap_or (deposits_paused v) True) in
     and_then (balance_of H (fu_share_ata outsider)) (\<lambda>shares_before.
     and_then (submit H (deposit (h_codec H) (fu_key outsider) (fx_vault fx) (fu_base_ata outsider) (fx_custody fx)
         (fu_share_ata outsider) (fx_share_mint fx) TOKEN_PROGRAM_ID (fx_base_mint fx) amount 0 (fu_access_proof outsider) [])
         [fu_key outsider]) (\<lambda>ok.
     and_then (balance_of H (fu_share_ata outsider)) (\<lambda>shares_after.
     fuzz_assert (assert_acl \<longrightarrow> \<not> ok \<and> shares_after = shares_before) (give ok)))))))"

definition action_set_vault_access :: "harness_env \<Rightarrow> bool \<Rightarrow> bool fuzz" where
  "action_set_vault_access H make_private = with_fixture (\<lambda>fx.
     submit H (set_vault_access (h_codec H) (fx_operator fx) (fx_vault fx) make_private
       (if make_private then fx_members_root fx else 0)) [fx_operator fx])"


section \<open>Withdrawals\<close>

definition ticket_address :: "harness_env \<Rightarrow> roshi_fixture \<Rightarrow> fuzz_user \<Rightarrow> u8 \<Rightarrow> key" where
  "ticket_address H fx user ticket_index =
     fst (ticket_find_address (find_program_address (h_env H)) (fx_vault fx) (fu_key user) ticket_index)"

definition action_redeem :: "harness_env \<Rightarrow> nat \<Rightarrow> u8 \<Rightarrow> u64 \<Rightarrow> bool fuzz" where
  "action_redeem H i ticket_index shares = with_user i (\<lambda>fx user.
     and_then (balance_of H (fu_share_ata user)) (\<lambda>balance.
     if balance = 0 then give False else
     expect (up_to shares balance) (\<lambda>shares.
     submit H (redeem (h_codec H) (fu_key user) (fx_vault fx) (fu_share_ata user) (fx_share_mint fx) (fu_base_ata user)
         (ticket_address H fx user ticket_index) ticket_index shares) [fu_key user])))"

definition action_cancel_redeem :: "harness_env \<Rightarrow> nat \<Rightarrow> u8 \<Rightarrow> bool fuzz" where
  "action_cancel_redeem H i ticket_index = with_user i (\<lambda>fx user.
     submit H (cancel_redeem (h_codec H) (fu_key user) (fx_vault fx) (ticket_address H fx user ticket_index)
         (fx_share_mint fx) (fu_share_ata user) 0) [fu_key user])"

definition atomic_redeem_ix ::
  "harness_env \<Rightarrow> roshi_fixture \<Rightarrow> fuzz_user \<Rightarrow> u64 \<Rightarrow> u64 \<Rightarrow> instruction option" where
  "atomic_redeem_ix H fx user shares unwind = Option.bind transfer_flags (\<lambda>flags.
     atomic_redeem (h_codec H) (fu_key user) (fx_vault fx) (fu_share_ata user) (fx_share_mint fx) (fu_base_ata user)
       (fx_custody fx) TOKEN_PROGRAM_ID (fx_sub_account fx) (fx_atomic_action fx)
       (transfer_metas fx (fx_atomic_venue fx) (fx_custody fx) TOKEN_PROGRAM_ID)
       \<lparr>ara_shares = shares, ara_min_output = 0, ara_sub_account = 0, ara_accounts_start = 0, ara_account_flags = flags,
        ara_ix_data = transfer_data unwind\<rparr>)"

definition action_deposit_redeem_flat_nav_no_overpay :: "harness_env \<Rightarrow> nat \<Rightarrow> u64 \<Rightarrow> bool fuzz" where
  "action_deposit_redeem_flat_nav_no_overpay H i amount =
     and_then (read_vault H) (\<lambda>v.
     if unwrap_or (deposits_paused v) True \<or> unwrap_or (withdrawals_paused v) True then give False else
     with_user i (\<lambda>fx user.
     and_then (balance_of H (fu_base_ata user)) (\<lambda>base_before.
     and_then (balance_of H (fu_share_ata user)) (\<lambda>shares_before.
     if base_before = 0 then give False else
     let amount = amount mod base_before + 1 in
     and_then (submit H (deposit (h_codec H) (fu_key user) (fx_vault fx) (fu_base_ata user) (fx_custody fx)
         (fu_share_ata user) (fx_share_mint fx) TOKEN_PROGRAM_ID (fx_base_mint fx) amount 0 (fu_access_proof user) [])
         [fu_key user]) (\<lambda>deposit_ok.
     if \<not> deposit_ok then give False else
     and_then (balance_of H (fu_share_ata user)) (\<lambda>shares_after_deposit.
     expect (checked_sub shares_after_deposit shares_before) (\<lambda>minted_shares.
     fuzz_assert (minted_shares \<noteq> 0) (
     and_then (read_vault H) (\<lambda>after_deposit.
     and_then (supply_of H (fx_share_mint fx)) (\<lambda>share_supply.
     expect (case economic_share_supply after_deposit share_supply of Inl _ \<Rightarrow> None | Inr n \<Rightarrow> Some n) (\<lambda>economic_supply.
     and_then fuzz_unix_timestamp (\<lambda>now.
     expect (case effective_total_assets after_deposit now of Inl _ \<Rightarrow> None | Inr n \<Rightarrow> Some n) (\<lambda>effective.
     case assets_for_redeem minted_shares effective economic_supply BASE_DECIMALS of Inl _ \<Rightarrow> give True | Inr max_owed \<Rightarrow>
     and_then (balance_of H (fx_atomic_venue fx)) (\<lambda>venue.
     let unwind = min max_owed venue in
     if unwind = 0 then give True else
     and_then (submit H (atomic_redeem_ix H fx user minted_shares unwind) [fu_key user]) (\<lambda>atomic_ok.
     if \<not> atomic_ok then give True else
     and_then (balance_of H (fu_base_ata user)) (\<lambda>base_after.
     and_then (balance_of H (fu_share_ata user)) (\<lambda>shares_after.
     fuzz_assert (shares_after = shares_before \<and> base_after \<le> base_before \<and> unwind \<le> amount)
       (give True))))))))))))))))))"

definition action_process_withdrawals :: "harness_env \<Rightarrow> bool fuzz" where
  "action_process_withdrawals H = with_fixture (\<lambda>fx. with_ledger (\<lambda>L.
     expect (settleable_tickets (h_env H) (h_svm H) (h_vault H) L fx) (\<lambda>settlements.
     if settlements = [] then give False else
     submit H (process_withdrawals (h_codec H) (fx_withdrawal_authority fx) (fx_vault fx) (fx_withdraw_sub_account fx)
         (fx_withdraw_custody fx) (fx_share_mint fx) settlements) [fx_withdrawal_authority fx])))"

section \<open>Reports and fees\<close>

definition collect_fees_ix :: "harness_env \<Rightarrow> roshi_fixture \<Rightarrow> u64 \<Rightarrow> instruction option" where
  "collect_fees_ix H fx amount = collect_fees (h_codec H) (fx_operator fx) (fx_vault fx) 0 (fx_sub_account fx)
     (fx_custody fx) (fx_treasury fx) amount"

definition action_collect_fees :: "harness_env \<Rightarrow> u64 \<Rightarrow> bool fuzz" where
  "action_collect_fees H amount = with_fixture (\<lambda>fx.
     and_then (read_vault H) (\<lambda>before.
     and_then (balance_of H (fx_custody fx)) (\<lambda>custody_before.
     and_then (balance_of H (fx_treasury fx)) (\<lambda>treasury_before.
     if v_fees_payable before = 0 then
       and_then (submit H (collect_fees_ix H fx 1) [fx_operator fx]) (\<lambda>ok.
       and_then (read_vault H) (\<lambda>after.
       and_then (balance_of H (fx_custody fx)) (\<lambda>custody_after.
       and_then (balance_of H (fx_treasury fx)) (\<lambda>treasury_after.
       fuzz_assert (\<not> ok \<and> after = before \<and> custody_after = custody_before \<and> treasury_after = treasury_before) (give ok)))))
     else
     let overpay = saturating_add (v_fees_payable before) 1 in
     and_then (submit H (collect_fees_ix H fx overpay) [fx_operator fx]) (\<lambda>overpay_ok.
     and_then (read_vault H) (\<lambda>after_overpay.
     and_then (balance_of H (fx_custody fx)) (\<lambda>custody_after_overpay.
     and_then (balance_of H (fx_treasury fx)) (\<lambda>treasury_after_overpay.
     fuzz_assert (\<not> overpay_ok \<and> after_overpay = before \<and> custody_after_overpay = custody_before \<and>
         treasury_after_overpay = treasury_before) (
     let collectable = min (v_fees_payable before) custody_before in
     if collectable = 0 then give False else
     let amount = amount mod collectable + 1 in
     and_then (submit H (collect_fees_ix H fx amount) [fx_operator fx]) (\<lambda>ok.
     and_then (read_vault H) (\<lambda>after.
     and_then (balance_of H (fx_custody fx)) (\<lambda>custody_after.
     and_then (balance_of H (fx_treasury fx)) (\<lambda>treasury_after.
     fuzz_assert (ok \<and> checked_sub (v_fees_payable before) amount = Some (v_fees_payable after) \<and>
         v_total_assets after = v_total_assets before \<and> checked_sub custody_before amount = Some custody_after \<and>
         checked_add treasury_before amount = Some treasury_after) (give ok))))))))))))))"

text \<open>The next report hash, from the nonce of the fixture.\<close>

definition next_report_hash :: "key fuzz" where
  "next_report_hash s = expect (checked_add (fx_report_nonce (fs_fixture s)) 1) (\<lambda>nonce s.
     Some (key_of_bytes (to_le_bytes nonce @ replicate 24 0), s\<lparr>fs_fixture := (fs_fixture s)\<lparr>fx_report_nonce := nonce\<rparr>\<rparr>)) s"

definition report_nav_ix :: "harness_env \<Rightarrow> roshi_fixture \<Rightarrow> u64 \<Rightarrow> key \<Rightarrow> instruction option" where
  "report_nav_ix H fx external_value report_hash = report_nav (h_codec H) (fx_nav_authority fx) (fx_vault fx)
     (fx_share_mint fx) (fx_base_mint fx) (fx_custody fx) (fx_withdraw_custody fx) external_value report_hash"

definition action_report_nav :: "harness_env \<Rightarrow> u64 \<Rightarrow> bool fuzz" where
  "action_report_nav H external_value = with_fixture (\<lambda>fx.
     and_then (read_vault H) (\<lambda>before.
     and_then (supply_of H (fx_share_mint fx)) (\<lambda>share_supply.
     expect (case economic_share_supply before share_supply of Inl _ \<Rightarrow> None | Inr n \<Rightarrow> Some n) (\<lambda>economic_supply.
     and_then (balance_of H (fx_custody fx)) (\<lambda>deposit_idle.
     and_then (balance_of H (fx_withdraw_custody fx)) (\<lambda>withdraw_idle.
     let idle = (ucast deposit_idle + ucast withdraw_idle :: u128);
         gross = idle + ucast external_value in
     and_then fuzz_unix_timestamp (\<lambda>now.
     and_then next_report_hash (\<lambda>report_hash.
     and_then (submit H (report_nav_ix H fx external_value report_hash) [fx_nav_authority fx]) (\<lambda>ok.
     fuzz_assert (ok \<longleftrightarrow> report_expected before gross economic_supply now) (
     if \<not> ok then give ok else
     and_then (read_vault H) (\<lambda>v.
     fuzz_assert (ucast (v_total_assets v) + ucast (v_fees_payable v) + ucast (v_pending_withdrawal_assets v) = gross) (
     expect (expected_nav before gross economic_supply) (\<lambda>(fee_assets, net_total_assets, high_watermark).
     fuzz_assert (checked_add (v_fees_payable before) fee_assets = Some (v_fees_payable v) \<and>
         v_total_assets v = net_total_assets \<and> v_high_watermark v = high_watermark) (give ok))))))))))))))"

section \<open>Deploying deposits\<close>

definition deposit_and_deploy_ix ::
  "harness_env \<Rightarrow> roshi_fixture \<Rightarrow> fuzz_user \<Rightarrow> u64 \<Rightarrow> instruction option" where
  "deposit_and_deploy_ix H fx user amount = Option.bind transfer_flags (\<lambda>flags.
     deposit_and_deploy (h_codec H) (fu_key user) (fx_vault fx) (fu_base_ata user) (fx_custody fx) (fu_share_ata user)
       (fx_share_mint fx) TOKEN_PROGRAM_ID (fx_sub_account fx) (fx_deploy_action fx)
       (transfer_metas fx (fx_custody fx) (fx_atomic_venue fx) TOKEN_PROGRAM_ID)
       \<lparr>dda_amount = amount, dda_min_shares_out = 0, dda_access_proof = fu_access_proof user, dda_accounts_start = 0,
        dda_account_flags = flags, dda_ix_data = transfer_data amount\<rparr>)"

definition action_deposit_and_deploy :: "harness_env \<Rightarrow> nat \<Rightarrow> u64 \<Rightarrow> bool fuzz" where
  "action_deposit_and_deploy H i amount = with_user i (\<lambda>fx user.
     and_then (balance_of H (fu_base_ata user)) (\<lambda>balance.
     if balance = 0 then give False else
     expect (up_to amount balance) (\<lambda>amount.
     and_then (read_vault H) (\<lambda>before.
     and_then (balance_of H (fx_custody fx)) (\<lambda>custody_before.
     and_then (balance_of H (fx_atomic_venue fx)) (\<lambda>venue_before.
     and_then (supply_of H (fx_share_mint fx)) (\<lambda>supply_before.
     and_then (balance_of H (fu_share_ata user)) (\<lambda>shares_before.
     and_then (submit H (deposit_and_deploy_ix H fx user amount) [fu_key user]) (\<lambda>ok.
     and_then (read_vault H) (\<lambda>after.
     and_then (supply_of H (fx_share_mint fx)) (\<lambda>supply_after.
     and_then (balance_of H (fu_share_ata user)) (\<lambda>shares_after.
     and_then (balance_of H (fx_atomic_venue fx)) (\<lambda>venue_after.
     and_then (balance_of H (fu_base_ata user)) (\<lambda>base_after.
     and_then (balance_of H (fx_custody fx)) (\<lambda>custody_after.
     and_then fuzz_unix_timestamp (\<lambda>now.
     and_then
       (if ok then
          expect (case effective_total_assets before now of Inl _ \<Rightarrow> None | Inr n \<Rightarrow> Some n) (\<lambda>effective.
          expect (case economic_share_supply before supply_before of Inl _ \<Rightarrow> None | Inr n \<Rightarrow> Some n) (\<lambda>economic.
          expect (case shares_for_deposit amount effective economic BASE_DECIMALS of Inl _ \<Rightarrow> None | Inr n \<Rightarrow> Some n) (\<lambda>expected_shares.
          fuzz_assert (checked_add (v_total_assets before) amount = Some (v_total_assets after) \<and>
              checked_add supply_before expected_shares = Some supply_after \<and>
              checked_add shares_before expected_shares = Some shares_after \<and>
              checked_add venue_before amount = Some venue_after \<and>
              checked_sub balance amount = Some base_after) (give ()))))
        else fuzz_assert (v_total_assets after = v_total_assets before \<and> supply_after = supply_before \<and>
            shares_after = shares_before \<and> venue_after = venue_before \<and> base_after = balance) (give ())) (\<lambda>_.
     fuzz_assert (custody_after = custody_before) (give ok))))))))))))))))))"

text \<open>These actions with their generated arguments.\<close>

datatype deposit_action =
    Act_Deposit nat u64 | Act_DepositAsset nat u64 | Act_DepositAssetFresh nat u64
  | Act_DepositAssetStale nat u64 | Act_DepositAssetWide nat u64 | Act_DepositToken2022 nat u64
  | Act_InitializeTransferFee | Act_DisableAsset nat u64 | Act_DepositOutsider u64
  | Act_SetVaultAccess bool

primrec run_deposit_action :: "harness_env \<Rightarrow> deposit_action \<Rightarrow> bool fuzz" where
  "run_deposit_action H (Act_Deposit i n) = action_deposit H i n"
| "run_deposit_action H (Act_DepositAsset i n) = action_deposit_asset H i n"
| "run_deposit_action H (Act_DepositAssetFresh i n) = action_deposit_asset_fresh_price H i n"
| "run_deposit_action H (Act_DepositAssetStale i n) = action_deposit_asset_stale_price H i n"
| "run_deposit_action H (Act_DepositAssetWide i n) = action_deposit_asset_wide_confidence H i n"
| "run_deposit_action H (Act_DepositToken2022 i n) = action_deposit_token_2022_asset H i n"
| "run_deposit_action H Act_InitializeTransferFee = action_initialize_transfer_fee_token_2022_asset_rejects H"
| "run_deposit_action H (Act_DisableAsset i n) = action_update_asset_disable_rejects H i n"
| "run_deposit_action H (Act_DepositOutsider n) = action_deposit_outsider H n"
| "run_deposit_action H (Act_SetVaultAccess b) = action_set_vault_access H b"

text \<open>These actions with their generated arguments.\<close>

datatype settlement_action =
    Act_Redeem nat u8 u64 | Act_CancelRedeem nat u8 | Act_FlatNavRoundTrip nat u64 | Act_ProcessWithdrawals
  | Act_CollectFees u64 | Act_ReportNav u64 | Act_DepositAndDeploy nat u64

primrec run_settlement_action :: "harness_env \<Rightarrow> settlement_action \<Rightarrow> bool fuzz" where
  "run_settlement_action H (Act_Redeem i t n) = action_redeem H i t n"
| "run_settlement_action H (Act_CancelRedeem i t) = action_cancel_redeem H i t"
| "run_settlement_action H (Act_FlatNavRoundTrip i n) = action_deposit_redeem_flat_nav_no_overpay H i n"
| "run_settlement_action H Act_ProcessWithdrawals = action_process_withdrawals H"
| "run_settlement_action H (Act_CollectFees n) = action_collect_fees H n"
| "run_settlement_action H (Act_ReportNav n) = action_report_nav H n"
| "run_settlement_action H (Act_DepositAndDeploy i n) = action_deposit_and_deploy H i n"

end
