(* ===== verification/Fuzz_Admin_Actions.thy ===== *)
theory Fuzz_Admin_Actions
  imports Fuzz_Actions
begin

text \<open>
  The actions of \<open>controls.rs\<close>, \<open>authority_config.rs\<close> and \<open>execution.rs\<close> below \<open>fuzz/src/fixture\<close>: clock,
  configuration, rotation of authorities, and relayed calls.
\<close>

section \<open>Controls\<close>

definition action_set_controls :: "harness_env \<Rightarrow> bool \<Rightarrow> bool fuzz" where
  "action_set_controls H enabled = with_fixture (\<lambda>fx.
     and_then (read_vault H) (\<lambda>before.
     let controls = (if enabled then vault_controls_new 600 3600 60 5000 5000 100 0 else vault_controls_new 0 0 0 0 0 0 0);
         external_on = unwrap_or (external_enabled before) False in
     and_then (submit H (update_vault_config (h_codec H) (fx_operator fx) (fx_vault fx)
         \<lparr>uvc_treasury = v_treasury before, uvc_deposit_sub_account = v_deposit_sub_account before,
          uvc_withdraw_sub_account = v_withdraw_sub_account before, uvc_base_oracle = v_base_oracle before,
          uvc_performance_fee_bps = v_performance_fee_bps before, uvc_withdrawal_buffer_bps = v_withdrawal_buffer_bps before,
          uvc_deposit_cap = v_deposit_cap before, uvc_controls = controls, uvc_external_enabled = external_on\<rparr>)
         [fx_operator fx]) (\<lambda>ok.
     and_then (read_vault H) (\<lambda>after.
     fuzz_assert (ok \<and> v_controls after = controls) (give True)))))"

definition action_advance_time :: "i64 \<Rightarrow> bool fuzz" where
  "action_advance_time secs s =
     Some (True, s\<lparr>fs_clock := (fs_clock s)\<lparr>unix_timestamp := i64_saturating_add (unix_timestamp (fs_clock s)) secs,
       clock_slot := saturating_add (clock_slot (fs_clock s)) (ucast secs * 2)\<rparr>\<rparr>)"

definition write_down_fees_ix :: "harness_env \<Rightarrow> roshi_fixture \<Rightarrow> u64 \<Rightarrow> instruction option" where
  "write_down_fees_ix H fx amount = write_down_fees (h_codec H) (fx_operator fx) (fx_vault fx) amount"

definition action_write_down_fees :: "harness_env \<Rightarrow> u64 \<Rightarrow> bool fuzz" where
  "action_write_down_fees H amount = with_fixture (\<lambda>fx.
     and_then (read_vault H) (\<lambda>before.
     let overpay = saturating_add (v_fees_payable before) 1 in
     and_then (submit H (write_down_fees_ix H fx overpay) [fx_operator fx]) (\<lambda>overpay_ok.
     and_then (read_vault H) (\<lambda>after_overpay.
     fuzz_assert (\<not> overpay_ok \<and> after_overpay = before) (
     if v_fees_payable before = 0 then give False else
     let amount = amount mod v_fees_payable before + 1 in
     and_then (submit H (write_down_fees_ix H fx amount) [fx_operator fx]) (\<lambda>ok.
     and_then (read_vault H) (\<lambda>after.
     fuzz_assert (ok \<and> checked_sub (v_fees_payable before) amount = Some (v_fees_payable after) \<and>
         v_total_assets after = v_total_assets before) (give True))))))))"

definition set_cap_ix :: "harness_env \<Rightarrow> roshi_fixture \<Rightarrow> asset \<Rightarrow> bool \<Rightarrow> bool \<Rightarrow> u64 \<Rightarrow> instruction option" where
  "set_cap_ix H fx a enabled on_route cap = update_asset (h_codec H) (fx_operator fx) (fx_vault fx) (fx_asset_pda fx)
     \<lparr>uaa_oracle = as_oracle a, uaa_enabled = enabled, uaa_routed = on_route, uaa_deposit_cap_atoms = cap\<rparr>"

definition action_asset_deposit_cap_binds :: "harness_env \<Rightarrow> nat \<Rightarrow> u64 \<Rightarrow> bool fuzz" where
  "action_asset_deposit_cap_binds H i amount = with_user i (\<lambda>fx user.
     and_then (balance_of H (fu_asset_ata user)) (\<lambda>balance.
     if balance = 0 then give False else
     let amount = amount mod balance + 1 in
     and_then (fuzz_load_asset H) (\<lambda>a.
     and_then (balance_of H (fx_asset_custody fx)) (\<lambda>custody_before.
     case checked_add custody_before amount of None \<Rightarrow> give False | Some boundary \<Rightarrow>
     expect (case asset_routed a of Inl _ \<Rightarrow> None | Inr b \<Rightarrow> Some b) (\<lambda>on_route.
     expect (case asset_enabled a of Inl _ \<Rightarrow> None | Inr b \<Rightarrow> Some b) (\<lambda>enabled.
     and_then (submit H (set_cap_ix H fx a enabled on_route (boundary - 1)) [fx_operator fx]) (\<lambda>cap_ok.
     fuzz_assert cap_ok (
     and_then fuzz_unix_timestamp (\<lambda>now.
     and_then (write_pyth_price H 0 now) (\<lambda>_.
     and_then (balance_of H (fu_asset_ata user)) (\<lambda>source_before.
     and_then (submit H (deposit_asset_ix H fx user amount) [fu_key user]) (\<lambda>ok.
     and_then (balance_of H (fx_asset_custody fx)) (\<lambda>custody_after.
     and_then (balance_of H (fu_asset_ata user)) (\<lambda>source_after.
     fuzz_assert (\<not> ok \<and> custody_after = custody_before \<and> source_after = source_before) (
     and_then (submit H (set_cap_ix H fx a enabled on_route (as_deposit_cap_atoms a)) [fx_operator fx]) (\<lambda>restore_ok.
     fuzz_assert restore_ok (give True)))))))))))))))))"

section \<open>Relayed calls\<close>

definition action_invest_external :: "harness_env \<Rightarrow> u64 \<Rightarrow> bool fuzz" where
  "action_invest_external H amount = with_fixture (\<lambda>fx.
     and_then (balance_of H (fx_custody fx)) (\<lambda>available.
     if available = 0 then give False else
     expect (up_to amount available) (\<lambda>amount.
     submit H (invest_external (h_codec H) (fx_strategist fx) (fx_vault fx) 0 (fx_sub_account fx) (fx_custody fx)
         (fx_external_account fx) (fx_external_destination fx) amount) [fx_strategist fx])))"

definition action_return_external :: "harness_env \<Rightarrow> u64 \<Rightarrow> bool fuzz" where
  "action_return_external H amount = with_fixture (\<lambda>fx.
     and_then (balance_of H (fx_external_account fx)) (\<lambda>available.
     if available = 0 then give False else
     expect (up_to amount available) (\<lambda>amount.
     submit H (return_external (h_codec H) (fx_strategist fx) (fx_external_authority fx) (fx_vault fx) 0 (fx_sub_account fx)
         (fx_external_account fx) (fx_custody fx) amount) [fx_strategist fx, fx_external_authority fx])))"

definition manage_transfer_ix :: "harness_env \<Rightarrow> roshi_fixture \<Rightarrow> key \<Rightarrow> key \<Rightarrow> u64 \<Rightarrow> instruction option" where
  "manage_transfer_ix H fx act destination amount = Option.bind transfer_flags (\<lambda>flags.
     manage (h_codec H) (fx_strategist fx) (fx_vault fx) (fx_sub_account fx) act
       (transfer_metas fx (fx_custody fx) destination TOKEN_PROGRAM_ID)
       \<lparr>ma_sub_account = 0, ma_accounts_start = 0, ma_account_flags = flags, ma_ix_data = transfer_data amount\<rparr>)"

definition action_manage_transfer :: "harness_env \<Rightarrow> u64 \<Rightarrow> bool fuzz" where
  "action_manage_transfer H amount = with_fixture (\<lambda>fx.
     and_then (balance_of H (fx_custody fx)) (\<lambda>available.
     if available = 0 then give False else
     expect (up_to amount available) (\<lambda>amount.
     submit H (manage_transfer_ix H fx (fx_manage_action fx) (fx_external_account fx) amount) [fx_strategist fx])))"

definition action_rebalance_to_withdraw :: "harness_env \<Rightarrow> u64 \<Rightarrow> bool fuzz" where
  "action_rebalance_to_withdraw H amount = with_fixture (\<lambda>fx.
     and_then (balance_of H (fx_custody fx)) (\<lambda>available.
     if available = 0 then give False else
     let amount = amount mod available + 1 in
     and_then (balance_of H (fx_custody fx)) (\<lambda>deposit_before.
     and_then (balance_of H (fx_withdraw_custody fx)) (\<lambda>withdraw_before.
     and_then (read_vault H) (\<lambda>v.
     let should_succeed = (\<not> unwrap_or (manage_paused v) True) in
     and_then (submit H (manage_transfer_ix H fx (fx_rebalance_to_withdraw_action fx) (fx_withdraw_custody fx) amount)
         [fx_strategist fx]) (\<lambda>ok.
     and_then (balance_of H (fx_custody fx)) (\<lambda>deposit_after.
     and_then (balance_of H (fx_withdraw_custody fx)) (\<lambda>withdraw_after.
     fuzz_assert (should_succeed \<longrightarrow> ok \<and> checked_sub deposit_before amount = Some deposit_after \<and>
         checked_add withdraw_before amount = Some withdraw_after) (give ok)))))))))"

definition action_manage_tampered_destination :: "harness_env \<Rightarrow> nat \<Rightarrow> u64 \<Rightarrow> bool fuzz" where
  "action_manage_tampered_destination H i amount = with_fixture (\<lambda>fx.
     and_then (balance_of H (fx_custody fx)) (\<lambda>available.
     if available = 0 then give False else
     with_user i (\<lambda>fx user.
     and_then (balance_of H (fx_custody fx)) (\<lambda>custody_before.
     let amount = amount mod available + 1 in
     and_then (submit H (manage_transfer_ix H fx (fx_manage_action fx) (fu_base_ata user) amount) [fx_strategist fx]) (\<lambda>moved.
     and_then (balance_of H (fx_custody fx)) (\<lambda>custody_after.
     fuzz_assert (\<not> moved \<and> custody_after = custody_before) (give moved)))))))"

definition authorize_transfer_action_with_program ::
  "harness_env \<Rightarrow> key \<Rightarrow> key \<Rightarrow> key \<Rightarrow> key \<Rightarrow> key \<Rightarrow> action_scope \<Rightarrow> key \<Rightarrow> (key \<times> key) fuzz" where
  "authorize_transfer_action_with_program H operator vault_key sub_account input output scope token_program =
     expect (case ops_new [IngestAccount 0, IngestAccount 1, IngestAccount 2, IngestInstruction 0 1] of
         Inl _ \<Rightarrow> None | Inr os \<Rightarrow> Some os) (\<lambda>os.
     let metas = [meta_new input False, meta_new output False, meta_readonly sub_account True] in
     expect (case compute_action_hash_from_metas (sha256 (h_env H)) token_program os metas [SPL_TRANSFER_TAG] [] of
         Inl _ \<Rightarrow> None | Inr h \<Rightarrow> Some h) (\<lambda>action_hash.
     let act = fst (action_find_address (find_program_address (h_env H)) vault_key action_hash) in
     and_then (submit_ok H (authorize_action (h_codec H) operator vault_key act action_hash scope os
         (case scope of Deploy \<Rightarrow> 1 | AtomicRedeem \<Rightarrow> 1 | Manager \<Rightarrow> 0 | SwapScope \<Rightarrow> 0 | FlashApprove \<Rightarrow> 0) 0 0)
         [operator]) (\<lambda>_. give (act, action_hash))))"

definition authorize_transfer_action ::
  "harness_env \<Rightarrow> key \<Rightarrow> key \<Rightarrow> key \<Rightarrow> key \<Rightarrow> key \<Rightarrow> action_scope \<Rightarrow> (key \<times> key) fuzz" where
  "authorize_transfer_action H operator vault_key sub_account input output scope =
     authorize_transfer_action_with_program H operator vault_key sub_account input output scope TOKEN_PROGRAM_ID"

definition action_revoke_action :: "harness_env \<Rightarrow> bool fuzz" where
  "action_revoke_action H = with_fixture (\<lambda>fx. with_ledger (\<lambda>L.
     let authorized = (case svm_get_account (h_svm H) L (fx_revocable_action fx) of
           Some a \<Rightarrow> c_owner a = fx_program_id fx \<and> c_data a \<noteq> [] | None \<Rightarrow> False)
     in (if \<not> authorized then
           and_then (authorize_transfer_action H (fx_operator fx) (fx_vault fx) (fx_sub_account fx) (fx_custody fx)
             (fx_treasury fx) Manager) (\<lambda>(act, _). fuzz_assert (act = fx_revocable_action fx) (give True))
         else
         and_then (submit H (revoke_action (h_codec H) (fx_operator fx) (fx_vault fx) (fx_revocable_action fx)
             (fx_revocable_action_hash fx)) [fx_operator fx]) (\<lambda>revoked.
         if \<not> revoked then give False else
         and_then (balance_of H (fx_custody fx)) (\<lambda>custody_before.
         if custody_before = 0 then give True else
         and_then (read_vault H) (\<lambda>v.
         if unwrap_or (manage_paused v) True then give True else
         and_then (submit H (manage_transfer_ix H fx (fx_revocable_action fx) (fx_treasury fx) 1) [fx_strategist fx]) (\<lambda>moved.
         and_then (balance_of H (fx_custody fx)) (\<lambda>custody_after.
         fuzz_assert (\<not> moved \<and> custody_after = custody_before) (give True)))))))))"

definition manage_batch_ix :: "harness_env \<Rightarrow> roshi_fixture \<Rightarrow> u64 \<Rightarrow> u64 \<Rightarrow> instruction option" where
  "manage_batch_ix H fx amount1 amount2 = Option.bind transfer_flags (\<lambda>flags.
     let pair = \<lparr>mba_sub_account_pda = fx_sub_account fx, mba_action = fx_manage_action fx\<rparr>;
         leg = (\<lambda>start data. \<lparr>ma_sub_account = 0, ma_accounts_start = start, ma_account_flags = flags, ma_ix_data = data\<rparr>);
         metas = transfer_metas fx (fx_custody fx) (fx_external_account fx) TOKEN_PROGRAM_ID
     in manage_batch (h_codec H) (fx_strategist fx) (fx_vault fx) [pair, pair] (metas @ metas)
          [leg 0 (transfer_data amount1), leg 4 (transfer_data amount2)])"

definition action_manage_batch :: "harness_env \<Rightarrow> u64 \<Rightarrow> u64 \<Rightarrow> bool fuzz" where
  "action_manage_batch H amount_a amount_b = with_fixture (\<lambda>fx.
     and_then (balance_of H (fx_custody fx)) (\<lambda>available.
     if available = 0 then give False else
     expect (up_to amount_a available) (\<lambda>amount1.
     expect (up_to amount_b (available - amount1)) (\<lambda>amount2.
     submit H (manage_batch_ix H fx amount1 amount2) [fx_strategist fx]))))"

definition swap_ix ::
  "harness_env \<Rightarrow> roshi_fixture \<Rightarrow> key \<Rightarrow> key \<Rightarrow> key \<Rightarrow> key \<Rightarrow> account_meta list \<Rightarrow> key \<Rightarrow> u64 \<Rightarrow> u64 \<Rightarrow> instruction option" where
  "swap_ix H fx executor input output act valuation token_program min_out amount = Option.bind transfer_flags (\<lambda>flags.
     swap (h_codec H) executor (fx_vault fx) (fx_sub_account fx) input output act valuation (transfer_metas fx input output token_program)
       \<lparr>swa_min_out = min_out, swa_max_in = amount, swa_sub_account = 0, swa_accounts_start = 0, swa_account_flags = flags,
        swa_ix_data = transfer_data amount\<rparr>)"

definition swap_base_ix :: "harness_env \<Rightarrow> roshi_fixture \<Rightarrow> key \<Rightarrow> bool \<Rightarrow> u64 \<Rightarrow> instruction option" where
  "swap_base_ix H fx executor reverse amount =
     (let (input, output, act) = (if reverse then (fx_swap_custody fx, fx_custody fx, fx_swap_reverse_action fx)
                                  else (fx_custody fx, fx_swap_custody fx, fx_swap_forward_action fx))
      in swap_ix H fx executor input output act [] TOKEN_PROGRAM_ID 0 amount)"

definition action_swap :: "harness_env \<Rightarrow> bool \<Rightarrow> u64 \<Rightarrow> bool fuzz" where
  "action_swap H reverse amount = with_fixture (\<lambda>fx.
     and_then (balance_of H (if reverse then fx_swap_custody fx else fx_custody fx)) (\<lambda>available.
     if available = 0 then give False else
     expect (up_to amount available) (\<lambda>amount.
     submit H (swap_base_ix H fx (fx_strategist fx) reverse amount) [fx_strategist fx])))"

definition action_swap_token_2022_asset :: "harness_env \<Rightarrow> bool \<Rightarrow> u64 \<Rightarrow> bool fuzz" where
  "action_swap_token_2022_asset H reverse amount = with_fixture (\<lambda>fx.
     let (input, output, act) =
       (if reverse then (fx_token_2022_swap_custody fx, fx_token_2022_asset_custody fx, fx_token_2022_swap_reverse_action fx)
        else (fx_token_2022_asset_custody fx, fx_token_2022_swap_custody fx, fx_token_2022_swap_forward_action fx)) in
     and_then (balance_of H input) (\<lambda>available.
     if available = 0 then give False else
     let amount = amount mod available + 1 in
     and_then (balance_of H input) (\<lambda>input_before.
     and_then (balance_of H output) (\<lambda>output_before.
     and_then (read_vault H) (\<lambda>v.
     let should_succeed = (\<not> unwrap_or (manage_paused v) True) in
     and_then (submit H (swap_ix H fx (fx_strategist fx) input output act [] TOKEN_2022_PROGRAM_ID amount amount)
         [fx_strategist fx]) (\<lambda>ok.
     and_then (balance_of H input) (\<lambda>input_after.
     and_then (balance_of H output) (\<lambda>output_after.
     fuzz_assert (should_succeed \<longrightarrow> ok \<and> checked_sub input_before amount = Some input_after \<and>
         checked_add output_before amount = Some output_after) (give ok)))))))))"

definition action_atomic_redeem :: "harness_env \<Rightarrow> nat \<Rightarrow> u64 \<Rightarrow> bool fuzz" where
  "action_atomic_redeem H i shares = with_user i (\<lambda>fx user.
     and_then (balance_of H (fu_share_ata user)) (\<lambda>share_balance.
     if share_balance = 0 then give False else
     let shares = shares mod share_balance + 1 in
     and_then (read_vault H) (\<lambda>v.
     and_then (supply_of H (fx_share_mint fx)) (\<lambda>share_supply.
     case checked_add share_supply (v_requested_withdrawal_shares v) of None \<Rightarrow> give False | Some economic \<Rightarrow>
     and_then fuzz_unix_timestamp (\<lambda>now.
     expect (case effective_total_assets v now of Inl _ \<Rightarrow> None | Inr n \<Rightarrow> Some n) (\<lambda>effective.
     case assets_for_redeem shares effective economic BASE_DECIMALS of Inl _ \<Rightarrow> give False | Inr max_owed \<Rightarrow>
     and_then (balance_of H (fx_atomic_venue fx)) (\<lambda>venue.
     let unwind = min max_owed venue in
     if unwind = 0 then give False else
     submit H (atomic_redeem_ix H fx user shares unwind) [fu_key user])))))))"


section \<open>Authorities and configuration\<close>

definition action_transfer_program_authority :: "harness_env \<Rightarrow> bool fuzz" where
  "action_transfer_program_authority H = with_fixture (\<lambda>fx.
     let transfer = transfer_program_authority (h_codec H) in
     and_then (submit H (transfer (fx_operator fx) (fx_config_pda fx) (fx_program_authority_alt fx)) [fx_operator fx]) (\<lambda>ok.
     if \<not> ok then give False else
     and_then (submit H (transfer (fx_operator fx) (fx_config_pda fx) (fx_operator fx)) [fx_operator fx]) (\<lambda>stale_ok.
     fuzz_assert (\<not> stale_ok) (
     submit H (transfer (fx_program_authority_alt fx) (fx_config_pda fx) (fx_operator fx)) [fx_program_authority_alt fx]))))"

definition action_transfer_vault_authority :: "harness_env \<Rightarrow> bool fuzz" where
  "action_transfer_vault_authority H = with_fixture (\<lambda>fx.
     let transfer = transfer_vault_authority (h_codec H) in
     and_then (submit H (transfer (fx_operator fx) (fx_vault fx) (fx_vault_authority_alt fx)) [fx_operator fx]) (\<lambda>ok.
     if \<not> ok then give False else
     and_then (submit H (transfer (fx_operator fx) (fx_vault fx) (fx_operator fx)) [fx_operator fx]) (\<lambda>stale_ok.
     fuzz_assert (\<not> stale_ok) (
     submit H (transfer (fx_vault_authority_alt fx) (fx_vault fx) (fx_operator fx)) [fx_vault_authority_alt fx]))))"

definition action_set_strategist_authority :: "harness_env \<Rightarrow> bool fuzz" where
  "action_set_strategist_authority H = with_fixture (\<lambda>fx.
     let assign = set_strategist (h_codec H) (fx_operator fx) (fx_vault fx) in
     and_then (submit H (assign (fx_strategist_alt fx)) [fx_operator fx]) (\<lambda>ok.
     if \<not> ok then give False else
     and_then (read_vault H) (\<lambda>v.
     and_then
       (if \<not> unwrap_or (manage_paused v) True then
          and_then (submit H (manage_transfer_ix H fx (fx_manage_action fx) (fx_external_account fx) 0) [fx_strategist fx])
            (\<lambda>old_ok. fuzz_assert (\<not> old_ok) (give ()))
        else give ()) (\<lambda>_.
     submit H (assign (fx_strategist fx)) [fx_operator fx]))))"

definition action_set_swap_authority :: "harness_env \<Rightarrow> bool fuzz" where
  "action_set_swap_authority H = with_fixture (\<lambda>fx.
     let assign = set_swap_authority (h_codec H) (fx_operator fx) (fx_vault fx) in
     and_then (submit H (assign (fx_swap_authority_alt fx)) [fx_operator fx]) (\<lambda>ok.
     if \<not> ok then give False else
     and_then (read_vault H) (\<lambda>v.
     and_then
       (if \<not> unwrap_or (manage_paused v) True then
          and_then (submit H (swap_base_ix H fx (fx_swap_authority_alt fx) False 0) [fx_swap_authority_alt fx]) (\<lambda>rotated_ok.
          fuzz_assert rotated_ok (
          and_then (submit H (swap_base_ix H fx (fx_swap_authority fx) False 0) [fx_swap_authority fx]) (\<lambda>old_ok.
          fuzz_assert (\<not> old_ok) (give ()))))
        else give ()) (\<lambda>_.
     submit H (assign (fx_swap_authority fx)) [fx_operator fx]))))"

definition action_set_nav_authority :: "harness_env \<Rightarrow> bool fuzz" where
  "action_set_nav_authority H = with_fixture (\<lambda>fx.
     let assign = set_nav_authority (h_codec H) (fx_operator fx) (fx_vault fx) in
     and_then (submit H (assign (fx_nav_authority_alt fx)) [fx_operator fx]) (\<lambda>ok.
     if \<not> ok then give False else
     and_then next_report_hash (\<lambda>report_hash.
     and_then (submit H (report_nav_ix H fx 0 report_hash) [fx_nav_authority fx]) (\<lambda>old_ok.
     fuzz_assert (\<not> old_ok) (
     submit H (assign (fx_nav_authority fx)) [fx_operator fx])))))"

definition action_set_withdrawal_authority :: "harness_env \<Rightarrow> bool fuzz" where
  "action_set_withdrawal_authority H = with_fixture (\<lambda>fx.
     let assign = set_withdrawal_authority (h_codec H) (fx_operator fx) (fx_vault fx) in
     and_then (submit H (assign (fx_withdrawal_authority_alt fx)) [fx_operator fx]) (\<lambda>ok.
     if \<not> ok then give False else
     and_then (submit H (process_withdrawals (h_codec H) (fx_withdrawal_authority fx) (fx_vault fx)
         (fx_withdraw_sub_account fx) (fx_withdraw_custody fx) (fx_share_mint fx) []) [fx_withdrawal_authority fx]) (\<lambda>old_ok.
     fuzz_assert (\<not> old_ok) (
     submit H (assign (fx_withdrawal_authority fx)) [fx_operator fx]))))"

definition config_args :: "roshi_fixture \<Rightarrow> u16 \<Rightarrow> u16 \<Rightarrow> bool \<Rightarrow> update_vault_config_args" where
  "config_args fx performance_fee_bps withdrawal_buffer_bps external_on =
     \<lparr>uvc_treasury = fx_treasury fx, uvc_deposit_sub_account = 0, uvc_withdraw_sub_account = 1,
      uvc_base_oracle = oracle_config_default, uvc_performance_fee_bps = performance_fee_bps,
      uvc_withdrawal_buffer_bps = withdrawal_buffer_bps, uvc_deposit_cap = 0,
      uvc_controls = vault_controls_new 0 0 0 0 0 0 0, uvc_external_enabled = external_on\<rparr>"

definition action_update_vault_config :: "harness_env \<Rightarrow> u16 \<Rightarrow> u16 \<Rightarrow> bool \<Rightarrow> bool fuzz" where
  "action_update_vault_config H performance_fee_bps withdrawal_buffer_bps external_on = with_fixture (\<lambda>fx.
     let performance_fee_bps = performance_fee_bps mod (MAX_BPS + 1);
         withdrawal_buffer_bps = withdrawal_buffer_bps mod (MAX_BPS + 1);
         update = (\<lambda>admin args. submit H (update_vault_config (h_codec H) admin (fx_vault fx) args) [admin]) in
     and_then (update (fx_operator fx) (config_args fx performance_fee_bps withdrawal_buffer_bps external_on)) (\<lambda>ok.
     fuzz_assert ok (
     and_then (read_vault H) (\<lambda>updated.
     fuzz_assert (external_enabled updated = Inr external_on \<and> v_treasury updated = fx_treasury fx \<and>
         v_deposit_sub_account updated = 0 \<and> v_withdraw_sub_account updated = 1 \<and>
         v_performance_fee_bps updated = performance_fee_bps \<and> v_withdrawal_buffer_bps updated = withdrawal_buffer_bps \<and>
         v_deposit_cap updated = 0) (
     and_then (read_vault H) (\<lambda>before_invalid.
     and_then (update (fx_operator fx) (config_args fx (MAX_BPS + 1) withdrawal_buffer_bps external_on)) (\<lambda>invalid_ok.
     and_then (read_vault H) (\<lambda>after_invalid.
     fuzz_assert (\<not> invalid_ok \<and> after_invalid = before_invalid) (
     and_then (update (fx_external_authority fx) (config_args fx performance_fee_bps withdrawal_buffer_bps (\<not> external_on))) (\<lambda>stale_ok.
     and_then (read_vault H) (\<lambda>after_stale.
     fuzz_assert (\<not> stale_ok \<and> after_stale = before_invalid) (give True))))))))))))"

definition action_set_pause_flags :: "harness_env \<Rightarrow> bool \<Rightarrow> bool \<Rightarrow> bool \<Rightarrow> bool fuzz" where
  "action_set_pause_flags H deposits withdrawals manage_calls = with_fixture (\<lambda>fx.
     submit H (set_pause_flags (h_codec H) (fx_operator fx) (fx_vault fx) deposits withdrawals manage_calls) [fx_operator fx])"

definition SECONDS_PER_SLOT :: i64 where "SECONDS_PER_SLOT = 1"

definition action_advance_slots :: "u64 \<Rightarrow> bool fuzz" where
  "action_advance_slots slots s =
     expect (checked_add slots 1) (\<lambda>advanced.
     expect (checked_add (clock_slot (fs_clock s)) advanced) (\<lambda>target.
     expect (i64_checked_add (unix_timestamp (fs_clock s)) (ucast advanced * SECONDS_PER_SLOT)) (\<lambda>now s.
     Some (True, s\<lparr>fs_clock := \<lparr>clock_slot = target, unix_timestamp = now\<rparr>\<rparr>)))) s"

text \<open>These actions with their generated arguments.\<close>

datatype control_action =
    Act_SetControls bool | Act_AdvanceTime i64 | Act_WriteDownFees u64 | Act_DepositCapBinds nat u64
  | Act_TransferProgramAuthority | Act_TransferVaultAuthority | Act_SetStrategist | Act_SetSwapAuthority
  | Act_SetNavAuthority | Act_SetWithdrawalAuthority | Act_UpdateVaultConfig u16 u16 bool
  | Act_SetPauseFlags bool bool bool | Act_AdvanceSlots u64

primrec run_control_action :: "harness_env \<Rightarrow> control_action \<Rightarrow> bool fuzz" where
  "run_control_action H (Act_SetControls b) = action_set_controls H b"
| "run_control_action H (Act_AdvanceTime t) = action_advance_time t"
| "run_control_action H (Act_WriteDownFees n) = action_write_down_fees H n"
| "run_control_action H (Act_DepositCapBinds i n) = action_asset_deposit_cap_binds H i n"
| "run_control_action H Act_TransferProgramAuthority = action_transfer_program_authority H"
| "run_control_action H Act_TransferVaultAuthority = action_transfer_vault_authority H"
| "run_control_action H Act_SetStrategist = action_set_strategist_authority H"
| "run_control_action H Act_SetSwapAuthority = action_set_swap_authority H"
| "run_control_action H Act_SetNavAuthority = action_set_nav_authority H"
| "run_control_action H Act_SetWithdrawalAuthority = action_set_withdrawal_authority H"
| "run_control_action H (Act_UpdateVaultConfig p w b) = action_update_vault_config H p w b"
| "run_control_action H (Act_SetPauseFlags d w m) = action_set_pause_flags H d w m"
| "run_control_action H (Act_AdvanceSlots n) = action_advance_slots n"

text \<open>These actions with their generated arguments.\<close>

datatype execution_action =
    Act_InvestExternal u64 | Act_ReturnExternal u64 | Act_ManageTransfer u64 | Act_RebalanceToWithdraw u64
  | Act_TamperedDestination nat u64 | Act_RevokeAction | Act_ManageBatch u64 u64 | Act_Swap bool u64
  | Act_SwapToken2022 bool u64 | Act_AtomicRedeem nat u64

primrec run_execution_action :: "harness_env \<Rightarrow> execution_action \<Rightarrow> bool fuzz" where
  "run_execution_action H (Act_InvestExternal n) = action_invest_external H n"
| "run_execution_action H (Act_ReturnExternal n) = action_return_external H n"
| "run_execution_action H (Act_ManageTransfer n) = action_manage_transfer H n"
| "run_execution_action H (Act_RebalanceToWithdraw n) = action_rebalance_to_withdraw H n"
| "run_execution_action H (Act_TamperedDestination i n) = action_manage_tampered_destination H i n"
| "run_execution_action H Act_RevokeAction = action_revoke_action H"
| "run_execution_action H (Act_ManageBatch m n) = action_manage_batch H m n"
| "run_execution_action H (Act_Swap b n) = action_swap H b n"
| "run_execution_action H (Act_SwapToken2022 b n) = action_swap_token_2022_asset H b n"
| "run_execution_action H (Act_AtomicRedeem i n) = action_atomic_redeem H i n"

end
