(* ===== verification/Fuzz_Scope_Actions.thy ===== *)
theory Fuzz_Scope_Actions
  imports Fuzz_Admin_Actions
begin

text \<open>
  \<open>fuzz/src/fixture\<close> with \<open>scope.rs\<close>, \<open>scope_actions.rs\<close> and \<open>scope_swap_actions.rs\<close>: the actions that
  switch the registered asset to a Scope price, deposit or swap under it, and switch back. Where the
  source draws a fresh key with \<open>Pubkey::new_unique\<close> the key is an argument.
\<close>

section \<open>Scope prices\<close>

definition SCOPE_PRICE_INFO_ACCOUNT :: key where "SCOPE_PRICE_INFO_ACCOUNT = key_of_bytes (replicate 32 8)"
definition SCOPE_PRICE_INDEX :: u16 where "SCOPE_PRICE_INDEX = 445"
definition SCOPE_MAX_AGE_SECS :: u64 where "SCOPE_MAX_AGE_SECS = 64"
definition SCOPE_PRICE_TYPE :: u8 where "SCOPE_PRICE_TYPE = 26"
definition SCOPE_TWAP_SOURCE_OR_REF_PRICE_TOLERANCE_BPS :: u16 where
  "SCOPE_TWAP_SOURCE_OR_REF_PRICE_TOLERANCE_BPS = 37"
definition SCOPE_TWAP_ENABLED_BITMASK :: u8 where "SCOPE_TWAP_ENABLED_BITMASK = 3"
definition SCOPE_REF_PRICE :: u16 where "SCOPE_REF_PRICE = 17"
definition SCOPE_GENERIC :: "160 word" where "SCOPE_GENERIC = from_le_bytes (replicate 20 10)"

definition SCOPE_MAPPING :: scope_mapping where
  "SCOPE_MAPPING = scope_mapping_new SCOPE_PRICE_INFO_ACCOUNT SCOPE_PRICE_TYPE
     SCOPE_TWAP_SOURCE_OR_REF_PRICE_TOLERANCE_BPS SCOPE_TWAP_ENABLED_BITMASK SCOPE_REF_PRICE SCOPE_GENERIC"

definition scope_config_with_max_age :: "roshi_fixture \<Rightarrow> u16 \<Rightarrow> u64 \<Rightarrow> oracle_config" where
  "scope_config_with_max_age fx price_index max_age_seconds =
     oc_scope (scope_config_new (fx_scope_prices_account fx) SCOPE_MAPPING price_index max_age_seconds)"

definition fuzz_scope_config :: "roshi_fixture \<Rightarrow> u16 \<Rightarrow> oracle_config" where
  "fuzz_scope_config fx price_index = scope_config_with_max_age fx price_index SCOPE_MAX_AGE_SECS"

definition update_vault_pricing :: "harness_env \<Rightarrow> oracle_config \<Rightarrow> vault_controls \<Rightarrow> bool fuzz" where
  "update_vault_pricing H base_oracle controls = with_fixture (\<lambda>fx.
     and_then (read_vault H) (\<lambda>v.
     expect (case external_enabled v of Inl _ \<Rightarrow> None | Inr b \<Rightarrow> Some b) (\<lambda>external_on.
     submit H (update_vault_config (h_codec H) (fx_operator fx) (fx_vault fx)
       \<lparr>uvc_treasury = v_treasury v, uvc_deposit_sub_account = v_deposit_sub_account v,
        uvc_withdraw_sub_account = v_withdraw_sub_account v, uvc_base_oracle = base_oracle,
        uvc_performance_fee_bps = v_performance_fee_bps v, uvc_withdrawal_buffer_bps = v_withdrawal_buffer_bps v,
        uvc_deposit_cap = v_deposit_cap v, uvc_controls = controls, uvc_external_enabled = external_on\<rparr>)
       [fx_operator fx])))"

definition update_primary_asset_oracle :: "harness_env \<Rightarrow> oracle_config \<Rightarrow> bool \<Rightarrow> bool fuzz" where
  "update_primary_asset_oracle H oracle routed_leg = with_fixture (\<lambda>fx.
     submit H (update_asset (h_codec H) (fx_operator fx) (fx_vault fx) (fx_asset_pda fx)
       \<lparr>uaa_oracle = oracle, uaa_enabled = True, uaa_routed = routed_leg, uaa_deposit_cap_atoms = - 1\<rparr>) [fx_operator fx])"

definition restore_primary_asset_pyth :: "harness_env \<Rightarrow> bool fuzz" where
  "restore_primary_asset_pyth H =
     and_then (update_primary_asset_oracle H fuzz_pyth_config False) (\<lambda>restored. fuzz_assert restored (give restored))"

definition scope_now :: "u64 fuzz" where
  "scope_now s =
     (let s = (if sint (unix_timestamp (fs_clock s)) \<le> uint SCOPE_MAX_AGE_SECS
               then s\<lparr>fs_clock := (fs_clock s)\<lparr>unix_timestamp := SCOPE_MAX_AGE_SECS + 1\<rparr>\<rparr> else s)
      in if sint (unix_timestamp (fs_clock s)) < 0 then None else Some (unix_timestamp (fs_clock s), s))"

definition write_scope_account :: "harness_env \<Rightarrow> key \<Rightarrow> bytes \<Rightarrow> key \<Rightarrow> unit fuzz" where
  "write_scope_account H address account_data owner s =
     expect (svm_get_account (h_svm H) (fs_ledger s) address) (\<lambda>account s.
     Some ((), s\<lparr>fs_ledger := svm_set_account (h_svm H) address
       \<lparr>c_owner = owner, c_lamports = c_lamports account, c_data = account_data, c_executable = False\<rparr> (fs_ledger s)\<rparr>)) s"

text \<open>\<open>data[0] ^= 0xff\<close> and \<open>data.truncate(data.len() - 1)\<close>.\<close>

definition flip_first :: "bytes \<Rightarrow> bytes option" where
  "flip_first bs = (case bs of [] \<Rightarrow> None | b # rest \<Rightarrow> Some (xor b 0xff # rest))"

definition drop_last :: "bytes \<Rightarrow> bytes option" where
  "drop_last bs = (if bs = [] then None else Some (butlast bs))"

definition write_scope_pair ::
  "harness_env \<Rightarrow> key \<Rightarrow> u16 \<Rightarrow> u64 \<Rightarrow> u64 \<Rightarrow> u64 \<Rightarrow> scope_mapping \<Rightarrow> bool \<Rightarrow> key \<Rightarrow> key \<Rightarrow> bool \<Rightarrow> bool \<Rightarrow> unit fuzz" where
  "write_scope_pair H declared_mappings price_index price exponent timestamp mapping frozen prices_owner mappings_owner
       malformed_prices malformed_mappings = with_fixture (\<lambda>fx.
     expect (scope_oracle_data declared_mappings price_index price exponent timestamp mapping frozen) (\<lambda>(prices, mappings).
     expect (if malformed_prices then flip_first prices else Some prices) (\<lambda>prices.
     expect (if malformed_mappings then drop_last mappings else Some mappings) (\<lambda>mappings.
     and_then (write_scope_account H (fx_scope_prices_account fx) prices prices_owner) (\<lambda>_.
     write_scope_account H (fx_scope_mappings_account fx) mappings mappings_owner)))))"

definition write_good_pair :: "harness_env \<Rightarrow> roshi_fixture \<Rightarrow> u16 \<Rightarrow> u64 \<Rightarrow> u64 \<Rightarrow> u64 \<Rightarrow> unit fuzz" where
  "write_good_pair H fx price_index price exponent timestamp =
     write_scope_pair H (fx_scope_mappings_account fx) price_index price exponent timestamp SCOPE_MAPPING False
       SCOPE_PROGRAM_ID SCOPE_PROGRAM_ID False False"

definition deposit_scope_asset_ix :: "harness_env \<Rightarrow> roshi_fixture \<Rightarrow> fuzz_user \<Rightarrow> u64 \<Rightarrow> bool \<Rightarrow> instruction option" where
  "deposit_scope_asset_ix H fx user amount routed_leg =
     deposit (h_codec H) (fu_key user) (fx_vault fx) (fu_asset_ata user) (fx_asset_custody fx) (fu_share_ata user)
       (fx_share_mint fx) TOKEN_PROGRAM_ID (fx_asset_mint fx) amount 0 (fu_access_proof user)
       ([meta_readonly (fx_asset_pda fx) False, meta_readonly (fx_scope_prices_account fx) False,
         meta_readonly (fx_scope_mappings_account fx) False] @
        (if routed_leg then [meta_readonly (fx_pyth_account fx) False] else []))"

definition run_scope_rejection_with_config :: "harness_env \<Rightarrow> nat \<Rightarrow> u64 \<Rightarrow> oracle_config \<Rightarrow> bool fuzz" where
  "run_scope_rejection_with_config H i amount config =
     and_then (update_primary_asset_oracle H config False) (\<lambda>installed. fuzz_assert installed (
     with_user i (\<lambda>fx user.
     and_then (balance_of H (fu_asset_ata user)) (\<lambda>balance.
     if balance = 0 then and_then (restore_primary_asset_pyth H) (\<lambda>_. give False) else
     let amount = amount mod balance + 1 in
     and_then (balance_of H (fu_asset_ata user)) (\<lambda>source_before.
     and_then (balance_of H (fx_asset_custody fx)) (\<lambda>custody_before.
     and_then (submit H (deposit_scope_asset_ix H fx user amount False) [fu_key user]) (\<lambda>ok.
     and_then (balance_of H (fu_asset_ata user)) (\<lambda>source_after.
     and_then (balance_of H (fx_asset_custody fx)) (\<lambda>custody_after.
     fuzz_assert (\<not> ok \<and> source_after = source_before \<and> custody_after = custody_before) (
     and_then (restore_primary_asset_pyth H) (\<lambda>_. give ok)))))))))))"

definition run_scope_rejection :: "harness_env \<Rightarrow> nat \<Rightarrow> u64 \<Rightarrow> bool fuzz" where
  "run_scope_rejection H i amount =
     with_fixture (\<lambda>fx. run_scope_rejection_with_config H i amount (fuzz_scope_config fx SCOPE_PRICE_INDEX))"

section \<open>Deposits under a Scope price\<close>

text \<open>A deposit against its prediction, as both deposit actions make it.\<close>

definition check_scope_deposit ::
  "harness_env \<Rightarrow> roshi_fixture \<Rightarrow> fuzz_user \<Rightarrow> u64 \<Rightarrow> oracle_price \<Rightarrow> oracle_price \<Rightarrow> bool \<Rightarrow> bool fuzz" where
  "check_scope_deposit H fx user amount asset_price base_price routed_leg =
     and_then (read_vault H) (\<lambda>v.
     and_then fuzz_unix_timestamp (\<lambda>now.
     with_ledger (\<lambda>L. expect (asset_deposit_expectation (h_svm H) L fx now v amount asset_price base_price) (\<lambda>expectation.
     and_then (balance_of H (fu_asset_ata user)) (\<lambda>source_before.
     and_then (balance_of H (fx_asset_custody fx)) (\<lambda>custody_before.
     and_then (submit H (deposit_scope_asset_ix H fx user amount routed_leg) [fu_key user]) (\<lambda>ok.
     and_then (balance_of H (fu_asset_ata user)) (\<lambda>source_after.
     and_then (balance_of H (fx_asset_custody fx)) (\<lambda>custody_after.
     fuzz_assert (if expectation = Success
         then ok \<and> checked_sub source_before amount = Some source_after \<and> checked_add custody_before amount = Some custody_after
         else \<not> ok \<and> source_after = source_before \<and> custody_after = custody_before) (give ok))))))))))"

definition action_deposit_asset_scope_fresh :: "harness_env \<Rightarrow> nat \<Rightarrow> u64 \<Rightarrow> u32 \<Rightarrow> u64 \<Rightarrow> bool \<Rightarrow> bool fuzz" where
  "action_deposit_asset_scope_fresh H i amount exponent age last_index =
     and_then scope_now (\<lambda>now.
     let price_index = (if last_index then SCOPE_MAX_ENTRIES - 1 else SCOPE_PRICE_INDEX) in
     expect (checked_pow (10 :: u64) (unat exponent)) (\<lambda>scale.
     expect (if exponent = 19 then Some scale else checked_mul 2 scale) (\<lambda>price.
     expect (checked_sub now age) (\<lambda>timestamp. with_fixture (\<lambda>fx.
     and_then (write_good_pair H fx price_index price (ucast exponent) timestamp) (\<lambda>_.
     and_then (update_primary_asset_oracle H (fuzz_scope_config fx price_index) False) (\<lambda>installed. fuzz_assert installed (
     with_user i (\<lambda>fx user.
     and_then (balance_of H (fu_asset_ata user)) (\<lambda>balance.
     if balance = 0 then and_then (restore_primary_asset_pyth H) (\<lambda>_. give False) else
     let amount = amount mod balance + 1 in
     and_then (check_scope_deposit H fx user amount \<lparr>price_value = ucast price, price_scale = ucast exponent\<rparr> UNIT False) (\<lambda>ok.
     and_then (restore_primary_asset_pyth H) (\<lambda>_. give ok))))))))))))"

definition action_deposit_asset_scope_routed :: "harness_env \<Rightarrow> nat \<Rightarrow> u64 \<Rightarrow> bool fuzz" where
  "action_deposit_asset_scope_routed H i amount = with_fixture (\<lambda>fx.
     and_then (read_vault H) (\<lambda>original_vault.
     let restore_vault = update_vault_pricing H (v_base_oracle original_vault) (v_controls original_vault) in
     and_then (update_vault_pricing H fuzz_pyth_config (v_controls original_vault)) (\<lambda>priced. fuzz_assert priced (
     and_then scope_now (\<lambda>now.
     and_then (write_good_pair H fx SCOPE_PRICE_INDEX 200000000000000000 17 now) (\<lambda>_.
     and_then (write_pyth_price H 0 now) (\<lambda>_.
     and_then (update_primary_asset_oracle H (fuzz_scope_config fx SCOPE_PRICE_INDEX) True) (\<lambda>installed. fuzz_assert installed (
     with_user i (\<lambda>fx user.
     and_then (balance_of H (fu_asset_ata user)) (\<lambda>balance.
     if balance = 0 then
       and_then (restore_primary_asset_pyth H) (\<lambda>_.
       and_then restore_vault (\<lambda>back_ok. fuzz_assert back_ok (give False)))
     else
       let amount = amount mod balance + 1 in
       and_then (check_scope_deposit H fx user amount \<lparr>price_value = 200000000000000000, price_scale = 17\<rparr>
           \<lparr>price_value = ucast PYTH_BASE_PRICE, price_scale = PYTH_PRICE_DECIMALS\<rparr> True) (\<lambda>ok.
       and_then (restore_primary_asset_pyth H) (\<lambda>_.
       and_then restore_vault (\<lambda>back_ok. fuzz_assert back_ok (give ok)))))))))))))))"

section \<open>Rejections\<close>

definition entry_mapping :: "bool \<Rightarrow> bool \<Rightarrow> bool \<Rightarrow> bool \<Rightarrow> bool \<Rightarrow> bool \<Rightarrow> scope_mapping" where
  "entry_mapping wrong_price_info_account wrong_type wrong_twap_source_or_tolerance wrong_twap_enabled_bitmask
       wrong_ref_price wrong_generic =
     scope_mapping_new
       (if wrong_price_info_account then key_of_bytes (replicate 32 9) else SCOPE_PRICE_INFO_ACCOUNT)
       (if wrong_type then SCOPE_PRICE_TYPE - 1 else SCOPE_PRICE_TYPE)
       (if wrong_twap_source_or_tolerance then SCOPE_TWAP_SOURCE_OR_REF_PRICE_TOLERANCE_BPS + 1
        else SCOPE_TWAP_SOURCE_OR_REF_PRICE_TOLERANCE_BPS)
       (if wrong_twap_enabled_bitmask then SCOPE_TWAP_ENABLED_BITMASK + 1 else SCOPE_TWAP_ENABLED_BITMASK)
       (if wrong_ref_price then SCOPE_REF_PRICE + 1 else SCOPE_REF_PRICE)
       (if wrong_generic then from_le_bytes (replicate 20 11) else SCOPE_GENERIC)"

definition action_deposit_asset_scope_rejects_entry ::
  "harness_env \<Rightarrow> nat \<Rightarrow> u64 \<Rightarrow> bool \<Rightarrow> bool \<Rightarrow> bool \<Rightarrow> bool \<Rightarrow> bool \<Rightarrow> bool \<Rightarrow> bool \<Rightarrow> bool \<Rightarrow> bool \<Rightarrow> bool fuzz" where
  "action_deposit_asset_scope_rejects_entry H i amount zero_value bad_exponent wrong_price_info_account wrong_type
       wrong_twap_source_or_tolerance wrong_twap_enabled_bitmask wrong_ref_price wrong_generic frozen =
     (let no_flag = (\<not> (zero_value \<or> bad_exponent \<or> wrong_price_info_account \<or> wrong_type \<or> wrong_twap_source_or_tolerance \<or>
            wrong_twap_enabled_bitmask \<or> wrong_ref_price \<or> wrong_generic \<or> frozen))
      in and_then scope_now (\<lambda>now. with_fixture (\<lambda>fx.
         and_then (write_scope_pair H (fx_scope_mappings_account fx) SCOPE_PRICE_INDEX
             (if zero_value \<or> no_flag then 0 else 200000000000000000) (if bad_exponent then 256 else 17) now
             (entry_mapping wrong_price_info_account wrong_type wrong_twap_source_or_tolerance wrong_twap_enabled_bitmask
                wrong_ref_price wrong_generic) frozen SCOPE_PROGRAM_ID SCOPE_PROGRAM_ID False False) (\<lambda>_.
         run_scope_rejection H i amount))))"

definition action_deposit_asset_scope_rejects_timestamp :: "harness_env \<Rightarrow> nat \<Rightarrow> u64 \<Rightarrow> bool \<Rightarrow> bool fuzz" where
  "action_deposit_asset_scope_rejects_timestamp H i amount future =
     and_then scope_now (\<lambda>now.
     expect (if future then checked_add now 1
             else Option.bind (checked_sub now SCOPE_MAX_AGE_SECS) (\<lambda>t. checked_sub t 1)) (\<lambda>timestamp.
     with_fixture (\<lambda>fx.
     and_then (write_good_pair H fx SCOPE_PRICE_INDEX 200000000000000000 17 timestamp) (\<lambda>_.
     run_scope_rejection H i amount))))"

text \<open>One byte appended to a Scope account, or its discriminator broken.\<close>

definition rewrite_scope_account :: "harness_env \<Rightarrow> key \<Rightarrow> bool \<Rightarrow> bool \<Rightarrow> unit fuzz" where
  "rewrite_scope_account H address flip oversized = with_ledger (\<lambda>L.
     expect (svm_get_account (h_svm H) L address) (\<lambda>account.
     expect (if flip then flip_first (c_data account) else Some (c_data account)) (\<lambda>account_data.
     write_scope_account H address (if oversized then account_data @ [0] else account_data) (c_owner account))))"

definition action_deposit_asset_scope_rejects_accounts ::
  "harness_env \<Rightarrow> key \<Rightarrow> key \<Rightarrow> key \<Rightarrow> nat \<Rightarrow> u64 \<Rightarrow> bool \<Rightarrow> bool \<Rightarrow> bool \<Rightarrow> bool \<Rightarrow> bool \<Rightarrow> bool \<Rightarrow> bool \<Rightarrow> bool fuzz" where
  "action_deposit_asset_scope_rejects_accounts H unique_a unique_b unique_c i amount wrong_prices_owner wrong_mappings_owner
       malformed_prices malformed_mappings wrong_mappings_discriminator oversized_prices oversized_mappings =
     (let no_flag = (\<not> (wrong_prices_owner \<or> wrong_mappings_owner \<or> malformed_prices \<or> malformed_mappings \<or>
            wrong_mappings_discriminator \<or> oversized_prices \<or> oversized_mappings));
          truncate_mappings = (malformed_mappings \<and> \<not> oversized_mappings)
      in and_then scope_now (\<lambda>now. with_fixture (\<lambda>fx.
         and_then (write_scope_pair H (if no_flag then unique_a else fx_scope_mappings_account fx) SCOPE_PRICE_INDEX
             200000000000000000 17 now SCOPE_MAPPING False (if wrong_prices_owner then unique_b else SCOPE_PROGRAM_ID)
             (if wrong_mappings_owner then unique_c else SCOPE_PROGRAM_ID) malformed_prices truncate_mappings) (\<lambda>_.
         and_then (if oversized_prices then rewrite_scope_account H (fx_scope_prices_account fx) False True else give ()) (\<lambda>_.
         and_then (if wrong_mappings_discriminator \<or> oversized_mappings
             then rewrite_scope_account H (fx_scope_mappings_account fx) wrong_mappings_discriminator oversized_mappings
             else give ()) (\<lambda>_.
         run_scope_rejection H i amount))))))"

definition set_time :: "i64 \<Rightarrow> unit fuzz" where
  "set_time t s = Some ((), s\<lparr>fs_clock := (fs_clock s)\<lparr>unix_timestamp := t\<rparr>\<rparr>)"

definition action_deposit_asset_scope_rejects_config_or_clock ::
  "harness_env \<Rightarrow> key \<Rightarrow> nat \<Rightarrow> u64 \<Rightarrow> bool \<Rightarrow> bool \<Rightarrow> bool fuzz" where
  "action_deposit_asset_scope_rejects_config_or_clock H unique i amount wrong_prices_account negative_clock =
     (let no_flag = (\<not> (wrong_prices_account \<or> negative_clock))
      in and_then scope_now (\<lambda>now. with_fixture (\<lambda>fx.
         and_then (write_good_pair H fx SCOPE_PRICE_INDEX 200000000000000000 17 now) (\<lambda>_.
         let config = oc_scope (scope_config_new
               (if wrong_prices_account \<or> no_flag then unique else fx_scope_prices_account fx)
               SCOPE_MAPPING SCOPE_PRICE_INDEX SCOPE_MAX_AGE_SECS) in
         and_then fuzz_unix_timestamp (\<lambda>original_clock.
         and_then (if negative_clock then set_time (- 1) else give ()) (\<lambda>_.
         and_then (run_scope_rejection_with_config H i amount config) (\<lambda>ok.
         and_then (if negative_clock then set_time original_clock else give ()) (\<lambda>_. give ok)))))))) "

definition action_scope_index_bound :: "harness_env \<Rightarrow> bool fuzz" where
  "action_scope_index_bound H = with_fixture (\<lambda>fx.
     and_then (fuzz_load_asset H) (\<lambda>before.
     let last_index = SCOPE_MAX_ENTRIES - 1 in
     and_then (update_primary_asset_oracle H (fuzz_scope_config fx last_index) False) (\<lambda>last_ok. fuzz_assert last_ok (
     and_then (fuzz_load_asset H) (\<lambda>valid.
     and_then (update_primary_asset_oracle H (fuzz_scope_config fx SCOPE_MAX_ENTRIES) False) (\<lambda>invalid_ok.
     and_then (fuzz_load_asset H) (\<lambda>after. fuzz_assert (\<not> invalid_ok \<and> after = valid) (
     let frozen_type = oc_scope (scope_config_new (fx_scope_prices_account fx)
           (scope_mapping_new SCOPE_PRICE_INFO_ACCOUNT FROZEN_FLAG SCOPE_TWAP_SOURCE_OR_REF_PRICE_TOLERANCE_BPS
              SCOPE_TWAP_ENABLED_BITMASK SCOPE_REF_PRICE SCOPE_GENERIC) last_index SCOPE_MAX_AGE_SECS) in
     and_then (update_primary_asset_oracle H frozen_type False) (\<lambda>invalid_type_ok.
     and_then (fuzz_load_asset H) (\<lambda>after_type. fuzz_assert (\<not> invalid_type_ok \<and> after_type = valid) (
     and_then (restore_primary_asset_pyth H) (\<lambda>restored.
     fuzz_assert (asset_enabled before = asset_enabled after) (give (last_ok \<and> restored))))))))))))))"

section \<open>Swaps under a Scope price\<close>

definition scope_swap_metas :: "roshi_fixture \<Rightarrow> bool \<Rightarrow> account_meta list" where
  "scope_swap_metas fx scope_base =
     (let endpoint = [meta_readonly (fx_asset_pda fx) False, meta_readonly (fx_scope_prices_account fx) False,
            meta_readonly (fx_scope_mappings_account fx) False]
      in endpoint @ endpoint @
         (if scope_base then [meta_readonly (fx_scope_prices_account fx) False, meta_readonly (fx_scope_mappings_account fx) False]
          else [meta_readonly (fx_pyth_account fx) False]))"

definition action_swap_scope_asset :: "harness_env \<Rightarrow> bool \<Rightarrow> u64 \<Rightarrow> bool \<Rightarrow> bool \<Rightarrow> bool fuzz" where
  "action_swap_scope_asset H reverse amount scope_base mismatched_policy = with_fixture (\<lambda>fx.
     and_then scope_now (\<lambda>now.
     and_then (write_good_pair H fx SCOPE_PRICE_INDEX 200000000000000000 17 now) (\<lambda>_.
     and_then (write_pyth_price H 0 now) (\<lambda>_.
     and_then (read_vault H) (\<lambda>original_vault.
     let policy_mismatch = (scope_base \<and> mismatched_policy);
         asset_max_age = (if policy_mismatch then SCOPE_MAX_AGE_SECS + 1 else SCOPE_MAX_AGE_SECS);
         controls = v_controls original_vault;
         swap_controls = vault_controls_new (max_unlock_duration_secs controls) (max_report_age_secs controls)
           (min_report_interval_secs controls) (cancel_grace_slots controls) (max_nav_gain_bps controls)
           (atomic_redeem_fee_bps controls) 100;
         restore = and_then (update_vault_pricing H (v_base_oracle original_vault) controls) (\<lambda>priced.
           fuzz_assert priced (restore_primary_asset_pyth H));
         (input, output, act) =
           (if reverse then (fx_asset_swap_custody fx, fx_asset_custody fx, fx_asset_swap_reverse_action fx)
            else (fx_asset_custody fx, fx_asset_swap_custody fx, fx_asset_swap_forward_action fx)) in
     and_then (update_primary_asset_oracle H (scope_config_with_max_age fx SCOPE_PRICE_INDEX asset_max_age) True) (\<lambda>installed.
     fuzz_assert installed (
     and_then (update_vault_pricing H (if scope_base then fuzz_scope_config fx SCOPE_PRICE_INDEX else fuzz_pyth_config)
         swap_controls) (\<lambda>priced. fuzz_assert priced (
     and_then (balance_of H input) (\<lambda>available.
     if available = 0 then and_then restore (\<lambda>restored. fuzz_assert restored (give False)) else
     let amount = amount mod available + 1 in
     and_then (balance_of H input) (\<lambda>input_before.
     and_then (balance_of H output) (\<lambda>output_before.
     expect (case manage_paused original_vault of Inl _ \<Rightarrow> None | Inr b \<Rightarrow> Some b) (\<lambda>paused.
     and_then (submit H (swap_ix H fx (fx_strategist fx) input output act (scope_swap_metas fx scope_base) TOKEN_PROGRAM_ID
         amount amount) [fx_strategist fx]) (\<lambda>ok.
     and_then (balance_of H input) (\<lambda>input_after.
     and_then (balance_of H output) (\<lambda>output_after.
     and_then restore (\<lambda>restored. fuzz_assert restored (
     fuzz_assert (if policy_mismatch \<or> paused then \<not> ok \<and> input_after = input_before \<and> output_after = output_before
         else ok \<and> checked_sub input_before amount = Some input_after \<and> checked_add output_before amount = Some output_after)
       (give ok)))))))))))))))))))"

text \<open>These actions with their generated arguments.\<close>

datatype scope_action =
    Act_ScopeFresh nat u64 u32 u64 bool | Act_ScopeRouted nat u64
  | Act_ScopeRejectsEntry nat u64 bool bool bool bool bool bool bool bool bool
  | Act_ScopeRejectsTimestamp nat u64 bool
  | Act_ScopeRejectsAccounts key key key nat u64 bool bool bool bool bool bool bool
  | Act_ScopeRejectsConfigOrClock key nat u64 bool bool | Act_ScopeIndexBound
  | Act_SwapScope bool u64 bool bool

primrec run_scope_action :: "harness_env \<Rightarrow> scope_action \<Rightarrow> bool fuzz" where
  "run_scope_action H (Act_ScopeFresh i n e t b) = action_deposit_asset_scope_fresh H i n e t b"
| "run_scope_action H (Act_ScopeRouted i n) = action_deposit_asset_scope_routed H i n"
| "run_scope_action H (Act_ScopeRejectsEntry i n b1 b2 b3 b4 b5 b6 b7 b8 b9) = action_deposit_asset_scope_rejects_entry H i n b1 b2 b3 b4 b5 b6 b7 b8 b9"
| "run_scope_action H (Act_ScopeRejectsTimestamp i n b) = action_deposit_asset_scope_rejects_timestamp H i n b"
| "run_scope_action H (Act_ScopeRejectsAccounts k1 k2 k3 i n b1 b2 b3 b4 b5 b6 b7) = action_deposit_asset_scope_rejects_accounts H k1 k2 k3 i n b1 b2 b3 b4 b5 b6 b7"
| "run_scope_action H (Act_ScopeRejectsConfigOrClock k i n b1 b2) = action_deposit_asset_scope_rejects_config_or_clock H k i n b1 b2"
| "run_scope_action H Act_ScopeIndexBound = action_scope_index_bound H"
| "run_scope_action H (Act_SwapScope b n b1 b2) = action_swap_scope_asset H b n b1 b2"

section \<open>Runs\<close>

text \<open>Any action, and a sequence of them.\<close>

datatype fuzz_action =
    Deposits deposit_action | Settlement settlement_action | Controls control_action | Executions execution_action
  | Scopes scope_action

primrec run_action :: "harness_env \<Rightarrow> fuzz_action \<Rightarrow> bool fuzz" where
  "run_action H (Deposits a) = run_deposit_action H a"
| "run_action H (Settlement a) = run_settlement_action H a"
| "run_action H (Controls a) = run_control_action H a"
| "run_action H (Executions a) = run_execution_action H a"
| "run_action H (Scopes a) = run_scope_action H a"

primrec run_actions :: "harness_env \<Rightarrow> fuzz_action list \<Rightarrow> fuzz_state \<Rightarrow> fuzz_state option" where
  "run_actions H [] s = Some s"
| "run_actions H (a # as) s = Option.bind (run_action H a s) (\<lambda>(_, s'). run_actions H as s')"

end
