(* ===== verification/Fuzz_Campaign.thy ===== *)
theory Fuzz_Campaign
  imports Fuzz_Scope_Actions
begin

text \<open>
  What a run of the fuzz harness can find. Every action is an execution of the program, so that
  after any sequence of actions the invariant of the harness holds.
\<close>

section \<open>The simulator\<close>

text \<open>
  What is asked of the simulator: an instruction that succeeds ran the program, after fees were
  charged, on handles with the privileges the instruction asks for; one that does not succeed
  changes no data, owner or presence of an account.
\<close>

definition send_ok :: "harness_env \<Rightarrow> bool" where
  "send_ok H \<longleftrightarrow> (\<forall>ix signers clk L outcome L'. h_send H ix signers clk L = (outcome, L') \<longrightarrow>
     (if outcome = Some True
      then \<exists>F accounts L0. agrees (h_env H) F \<and> sha256 F = sha256 (h_env H) \<and> quiet_env F \<and> system_ok F \<and>
         presents ix accounts \<and> (\<forall>k. same_cell L L0 k) \<and>
         try_process_instruction F (h_codec H) (ix_program_id ix) accounts (ix_data ix) L0 = Inr L'
      else \<forall>k. same_cell L L' k \<and>
         (svm_get_account (h_svm H) L' k = None) = (svm_get_account (h_svm H) L k = None)))"

text \<open>An account that is not the program's, and that no instruction hands to it.\<close>

definition foreign_account :: "harness_env \<Rightarrow> key \<Rightarrow> bool" where
  "foreign_account H k \<longleftrightarrow> (\<forall>ix signers clk L outcome L'. h_send H ix signers clk L = (outcome, L') \<longrightarrow>
     c_owner (L k) \<noteq> ID \<longrightarrow> c_owner (L' k) \<noteq> ID)"

section \<open>Actions are executions\<close>

abbreviation fuzz_steps :: "harness_env \<Rightarrow> ledger \<Rightarrow> ledger \<Rightarrow> bool" where
  "fuzz_steps H \<equiv> (quiet_step (h_env H) (h_codec H))\<^sup>*\<^sup>*"

text \<open>Nothing of the fixture changes in an action but the nonce of reports.\<close>

definition same_setup :: "roshi_fixture \<Rightarrow> roshi_fixture \<Rightarrow> bool" where
  "same_setup fx fx' \<longleftrightarrow> (\<exists>n. fx' = fx\<lparr>fx_report_nonce := n\<rparr>)"

lemma same_setup_refl [simp]: "same_setup fx fx"
  unfolding same_setup_def by (rule exI [of _ "fx_report_nonce fx"]) simp

lemma same_setup_nonce [simp]: "same_setup fx (fx\<lparr>fx_report_nonce := n\<rparr>)"
  unfolding same_setup_def by blast

lemma same_setup_trans: "same_setup fx fx' \<Longrightarrow> same_setup fx' fx'' \<Longrightarrow> same_setup fx fx''"
  by (auto simp: same_setup_def)

lemma same_setup_fields:
  assumes "same_setup fx fx'"
  shows "fx_vault fx' = fx_vault fx"
    "fx_prev_high_watermark fx' = fx_prev_high_watermark fx"
  using assms by (auto simp: same_setup_def)

text \<open>The accounts the harness writes by itself: the price feeds.\<close>

definition harness_accounts :: "roshi_fixture \<Rightarrow> key set" where
  "harness_accounts fx = {fx_pyth_account fx, fx_scope_prices_account fx, fx_scope_mappings_account fx}"

definition none_owned :: "key set \<Rightarrow> fuzz_state \<Rightarrow> bool" where
  "none_owned K s \<longleftrightarrow> harness_accounts (fs_fixture s) = K \<and> (\<forall>k \<in> K. c_owner (fs_ledger s k) \<noteq> ID)"

definition executes :: "harness_env \<Rightarrow> key set \<Rightarrow> 'a fuzz \<Rightarrow> bool" where
  "executes H K m \<longleftrightarrow> (\<forall>s x s'. m s = Some (x, s') \<longrightarrow> none_owned K s \<longrightarrow>
     fuzz_steps H (fs_ledger s) (fs_ledger s') \<and> none_owned K s' \<and> same_setup (fs_fixture s) (fs_fixture s'))"

lemma executesI:
  assumes "\<And>s x s'. m s = Some (x, s') \<Longrightarrow> none_owned K s \<Longrightarrow>
     fuzz_steps H (fs_ledger s) (fs_ledger s') \<and> none_owned K s' \<and> same_setup (fs_fixture s) (fs_fixture s')"
  shows "executes H K m"
  using assms unfolding executes_def by blast

lemma executesD:
  assumes "executes H K m" and "m s = Some (x, s')" and "none_owned K s"
  shows "fuzz_steps H (fs_ledger s) (fs_ledger s')" and "none_owned K s'" and "same_setup (fs_fixture s) (fs_fixture s')"
  using assms unfolding executes_def by blast+

lemma executes_give: "executes H K (give x)"
  by (rule executesI) (auto simp: give_def)

lemma executes_and_then:
  assumes "executes H K m" and "\<And>x. executes H K (f x)"
  shows "executes H K (and_then m f)"
proof (rule executesI)
  fix s x s'
  assume run: "and_then m f s = Some (x, s')" and own: "none_owned K s"
  from run obtain y t where y: "m s = Some (y, t)" "f y t = Some (x, s')"
    by (auto simp: and_then_def split: option.splits)
  note t = executesD [OF assms(1) y(1) own]
  note u = executesD [OF assms(2) y(2) t(2)]
  show "fuzz_steps H (fs_ledger s) (fs_ledger s') \<and> none_owned K s' \<and> same_setup (fs_fixture s) (fs_fixture s')"
    using rtranclp_trans [OF t(1) u(1)] u(2) same_setup_trans [OF t(3) u(3)] by blast
qed

lemma executes_control:
  "executes H K m \<Longrightarrow> executes H K (fuzz_assert b m)"
  "(\<And>y. executes H K (f y)) \<Longrightarrow> executes H K (expect x f)"
  "(\<And>fx. harness_accounts fx = K \<Longrightarrow> executes H K (g fx)) \<Longrightarrow> executes H K (with_fixture g)"
  "(\<And>L. executes H K (h L)) \<Longrightarrow> executes H K (with_ledger h)"
  "executes H K fuzz_unix_timestamp"
  unfolding executes_def fuzz_assert_def expect_def with_fixture_def with_ledger_def fuzz_unix_timestamp_def
  by (auto simp: none_owned_def split: option.splits; blast)+

lemma executes_split:
  "executes H K m \<Longrightarrow> executes H K n \<Longrightarrow> executes H K (if b then m else n)"
  "executes H K m \<Longrightarrow> (\<And>x. executes H K (f x)) \<Longrightarrow> executes H K (case z of None \<Rightarrow> m | Some x \<Rightarrow> f x)"
  "(\<And>e. executes H K (g e)) \<Longrightarrow> (\<And>x. executes H K (f x)) \<Longrightarrow> executes H K (case r of Inl e \<Rightarrow> g e | Inr x \<Rightarrow> f x)"
  "(\<And>a b. executes H K (k a b)) \<Longrightarrow> executes H K (case p of (a, b) \<Rightarrow> k a b)"
  by (simp_all split: option.splits sum.splits prod.splits)

lemma executes_user: "(\<And>fx u. harness_accounts fx = K \<Longrightarrow> executes H K (f fx u)) \<Longrightarrow> executes H K (with_user i f)"
  unfolding with_user_def by (intro executes_control)

lemma executes_reads:
  "executes H K (balance_of H' k)" "executes H K (supply_of H' k)" "executes H K (read_vault H')"
  "executes H K (fuzz_load_asset H')" "executes H K (fuzz_asset_enabled H')"
  unfolding balance_of_def supply_of_def read_vault_def fuzz_load_asset_def fuzz_asset_enabled_def
  by (intro executes_control executes_give executes_and_then)+

text \<open>A change of accounts that are not the program's, and leaves them so, is a step of other programs.\<close>

lemma foreign_change:
  assumes "\<And>k. c_owner (L k) = ID \<Longrightarrow> same_cell L L' k" and "\<And>k. c_owner (L k) \<noteq> ID \<Longrightarrow> c_owner (L' k) \<noteq> ID"
  shows "quiet_step E W L L'"
  using assms by (intro foreign_step) (auto simp: hands_blank_def)

lemma send_steps:
  assumes "send_ok H" and "h_send H ix signers clk L = (outcome, L')"
  shows "fuzz_steps H L L'"
proof (cases "outcome = Some True")
  case True
  with assms obtain F accounts L0 where "agrees (h_env H) F" "quiet_env F" "system_ok F" and cells: "\<forall>k. same_cell L L0 k"
    and "try_process_instruction F (h_codec H) (ix_program_id ix) accounts (ix_data ix) L0 = Inr L'"
    unfolding send_ok_def by (metis (full_types))
  then have "quiet_step (h_env H) (h_codec H) L0 L'" by (blast intro: own_step)
  moreover have "quiet_step (h_env H) (h_codec H) L L0"
    using cells by (intro foreign_change) (auto simp: same_cell_def)
  ultimately show ?thesis by (meson converse_rtranclp_into_rtranclp r_into_rtranclp)
next
  case False
  with assms have "\<forall>k. same_cell L L' k" unfolding send_ok_def by (metis (full_types))
  then show ?thesis by (intro r_into_rtranclp foreign_change) (auto simp: same_cell_def)
qed

lemma executes_submit:
  assumes "send_ok H" and "\<forall>k \<in> K. foreign_account H k"
  shows "executes H K (submit H ix signers)" and "executes H K (submit_ok H ix signers)"
proof -
  have "fuzz_steps H L L' \<and> ((\<forall>k \<in> K. c_owner (L k) \<noteq> ID) \<longrightarrow> (\<forall>k \<in> K. c_owner (L' k) \<noteq> ID))"
    if "h_send H ix signers clk L = (outcome, L')" for ix clk L outcome L'
    using send_steps [OF assms(1) that] assms(2) that unfolding foreign_account_def by blast
  then show "executes H K (submit H ix signers)" "executes H K (submit_ok H ix signers)"
    by (auto intro!: executesI simp: submit_def submit_ok_def expect_def none_owned_def split: option.splits prod.splits bool.splits)
qed

text \<open>The harness installs a price feed.\<close>

definition installs :: "key set \<Rightarrow> fuzz_state \<Rightarrow> fuzz_state \<Rightarrow> bool" where
  "installs K s s' \<longleftrightarrow> (\<exists>k c. k \<in> K \<and> c_owner c \<noteq> ID \<and> s' = s\<lparr>fs_ledger := (fs_ledger s)(k := c)\<rparr>)"

lemma installsI: "k \<in> K \<Longrightarrow> c_owner c \<noteq> ID \<Longrightarrow> installs K s (s\<lparr>fs_ledger := (fs_ledger s)(k := c)\<rparr>)"
  unfolding installs_def by blast

lemma executes_install:
  assumes "\<And>s x s'. m s = Some (x, s') \<Longrightarrow> none_owned K s \<Longrightarrow> installs K s s'"
  shows "executes H K m"
proof (rule executesI)
  fix s x s'
  assume own: "none_owned K s" and "m s = Some (x, s')"
  with assms obtain k c where k: "k \<in> K" "c_owner c \<noteq> ID" and s': "s' = s\<lparr>fs_ledger := (fs_ledger s)(k := c)\<rparr>"
    unfolding installs_def by blast
  have "quiet_step (h_env H) (h_codec H) (fs_ledger s) (fs_ledger s')"
    using own s' k by (intro foreign_change) (auto simp: none_owned_def same_cell_def)
  then show "fuzz_steps H (fs_ledger s) (fs_ledger s') \<and> none_owned K s' \<and> same_setup (fs_fixture s) (fs_fixture s')"
    using s' own k by (auto simp: none_owned_def)
qed

lemma executes_pyth:
  assumes "svm_ok (h_svm H)"
  shows "executes H K (write_pyth_price H conf t)"
proof -
  have "PYTH_RECEIVER_ID \<noteq> ID" by (simp add: PYTH_RECEIVER_ID_def ID_def)
  then show ?thesis
    using assms by (intro executes_install)
      (auto intro!: installsI simp: write_pyth_price_def with_fixture_def svm_ok_def Let_def none_owned_def harness_accounts_def)
qed

lemma executes_scope_account:
  assumes "svm_ok (h_svm H)" and "address \<in> K" and "owner \<noteq> ID"
  shows "executes H K (write_scope_account H address account_data owner)"
  using assms by (intro executes_install) (auto intro!: installsI simp: write_scope_account_def expect_def svm_ok_def split: option.splits)

lemma executes_pair:
  assumes "svm_ok (h_svm H)" and "prices_owner \<noteq> ID" and "mappings_owner \<noteq> ID"
  shows "executes H K (write_scope_pair H declared i price e t mapping frozen prices_owner mappings_owner mp mm)"
  unfolding write_scope_pair_def
  by (rule executes_control executes_split executes_and_then executes_scope_account [OF assms(1)] assms(2,3)
      | simp add: harness_accounts_def | blast)+

lemma scope_owner: "SCOPE_PROGRAM_ID \<noteq> ID"
  by (simp add: SCOPE_PROGRAM_ID_def ID_def)

lemma executes_rewrite:
  assumes "svm_ok (h_svm H)" and "address \<in> K"
  shows "executes H K (rewrite_scope_account H address flip oversized)"
proof (rule executes_install)
  fix s x s'
  assume run: "rewrite_scope_account H address flip oversized s = Some (x, s')" and own: "none_owned K s"
  then obtain account where "svm_get_account (h_svm H) (fs_ledger s) address = Some account"
    by (auto simp: rewrite_scope_account_def with_ledger_def expect_def split: option.splits)
  with own assms have "c_owner account \<noteq> ID" unfolding svm_ok_def none_owned_def by blast
  with run \<open>svm_get_account _ _ _ = _\<close> assms show "installs K s s'"
    by (auto intro!: installsI simp: rewrite_scope_account_def write_scope_account_def with_ledger_def expect_def svm_ok_def
        split: option.splits)
qed

lemma harness_accounts_scope:
  "harness_accounts fx = K \<Longrightarrow> fx_scope_prices_account fx \<in> K" "harness_accounts fx = K \<Longrightarrow> fx_scope_mappings_account fx \<in> K"
  by (auto simp: harness_accounts_def)

lemma executes_own_state:
  "executes H K next_report_hash" "executes H K (action_advance_time t)" "executes H K (action_advance_slots n)"
  "executes H K scope_now" "executes H K (set_time t)"
  by (auto intro!: executesI simp: next_report_hash_def action_advance_time_def action_advance_slots_def scope_now_def
      set_time_def expect_def none_owned_def harness_accounts_def Let_def split: option.splits if_splits)

lemmas executes_rules = executes_give executes_and_then executes_control executes_split executes_user executes_reads
  executes_own_state

lemmas deposit_action_defs = action_deposit_def action_deposit_asset_def action_deposit_asset_fresh_price_def
  action_deposit_asset_stale_price_def action_deposit_asset_wide_confidence_def assert_asset_deposit_rejects_def
  action_deposit_token_2022_asset_def action_initialize_transfer_fee_token_2022_asset_rejects_def
  action_update_asset_disable_rejects_def action_deposit_outsider_def action_set_vault_access_def

lemmas withdrawal_action_defs = action_redeem_def action_cancel_redeem_def action_deposit_redeem_flat_nav_no_overpay_def
  action_process_withdrawals_def action_collect_fees_def action_report_nav_def action_deposit_and_deploy_def

lemmas relay_action_defs = action_set_controls_def action_write_down_fees_def action_asset_deposit_cap_binds_def
  action_invest_external_def action_return_external_def action_manage_transfer_def action_rebalance_to_withdraw_def
  action_manage_tampered_destination_def authorize_transfer_action_def authorize_transfer_action_with_program_def
  action_revoke_action_def action_manage_batch_def action_swap_def action_swap_token_2022_asset_def action_atomic_redeem_def

lemmas authority_action_defs = action_transfer_program_authority_def action_transfer_vault_authority_def
  action_set_strategist_authority_def action_set_swap_authority_def action_set_nav_authority_def
  action_set_withdrawal_authority_def action_update_vault_config_def action_set_pause_flags_def

lemmas scope_helper_defs = update_vault_pricing_def update_primary_asset_oracle_def restore_primary_asset_pyth_def
  run_scope_rejection_with_config_def run_scope_rejection_def check_scope_deposit_def

lemmas scope_action_defs = action_deposit_asset_scope_fresh_def action_deposit_asset_scope_routed_def
  action_deposit_asset_scope_rejects_entry_def action_deposit_asset_scope_rejects_timestamp_def
  action_deposit_asset_scope_rejects_accounts_def action_deposit_asset_scope_rejects_config_or_clock_def
  action_scope_index_bound_def action_swap_scope_asset_def

lemma executes_scope_helpers:
  assumes "send_ok H" and "\<forall>k \<in> K. foreign_account H k"
  shows "executes H K (update_vault_pricing H base controls)" and "executes H K (update_primary_asset_oracle H oracle leg)"
    and "executes H K (restore_primary_asset_pyth H)" and "executes H K (run_scope_rejection_with_config H i n config)"
    and "executes H K (run_scope_rejection H i n)" and "executes H K (check_scope_deposit H fx u n p q leg)"
  unfolding scope_helper_defs Let_def by (rule executes_rules executes_submit [OF assms])+

lemma executes_good_pair:
  assumes "svm_ok (h_svm H)"
  shows "executes H K (write_good_pair H fx i price e t)"
  unfolding write_good_pair_def by (rule executes_pair [OF assms scope_owner scope_owner])

text \<open>The owners an action gives to a price account in place of its program.\<close>

fun drawn_owners :: "fuzz_action \<Rightarrow> key set" where
  "drawn_owners (Scopes (Act_ScopeRejectsAccounts k prices_owner mappings_owner i n b1 b2 b3 b4 b5 b6 b7)) =
     {prices_owner, mappings_owner}"
| "drawn_owners a = {}"

lemma executes_action:
  assumes "send_ok H" and "\<forall>k \<in> K. foreign_account H k" and "svm_ok (h_svm H)" and "ID \<notin> drawn_owners a"
  shows "executes H K (run_action H a)"
proof (cases a)
  case (Deposits d)
  show ?thesis unfolding Deposits run_action.simps
    by (cases d; simp only: run_deposit_action.simps deposit_action_defs Let_def)
      ((rule executes_rules executes_submit [OF assms(1,2)] executes_pyth [OF assms(3)])+)+
next
  case (Settlement d)
  show ?thesis unfolding Settlement run_action.simps
    by (cases d; simp only: run_settlement_action.simps withdrawal_action_defs Let_def)
      ((rule executes_rules executes_submit [OF assms(1,2)])+)+
next
  case (Controls d)
  show ?thesis unfolding Controls run_action.simps
    by (cases d; simp only: run_control_action.simps relay_action_defs authority_action_defs Let_def)
      ((rule executes_rules executes_submit [OF assms(1,2)] executes_pyth [OF assms(3)])+)+
next
  case (Executions d)
  show ?thesis unfolding Executions run_action.simps
    by (cases d; simp only: run_execution_action.simps relay_action_defs Let_def)
      ((rule executes_rules executes_submit [OF assms(1,2)])+)+
next
  case (Scopes d)
  have owner: "(if b then k else SCOPE_PROGRAM_ID) \<noteq> ID" if "k \<noteq> ID" for b k using that scope_owner by simp
  note rules = executes_rules executes_submit [OF assms(1,2)] executes_scope_helpers [OF assms(1,2)] executes_pyth [OF assms(3)]
    executes_good_pair [OF assms(3)] executes_pair [OF assms(3)] executes_rewrite [OF assms(3)] harness_accounts_scope
  show ?thesis
  proof (cases d)
    case (Act_ScopeRejectsAccounts k1 k2 k3 i n b1 b2 b3 b4 b5 b6 b7)
    then have "k2 \<noteq> ID" "k3 \<noteq> ID" using assms(4) Scopes by auto
    note own = owner [OF this(1)] owner [OF this(2)]
    show ?thesis unfolding Scopes Act_ScopeRejectsAccounts run_action.simps run_scope_action.simps scope_action_defs Let_def
      by (rule rules own | assumption)+
  qed (simp only: Scopes run_action.simps run_scope_action.simps scope_action_defs Let_def,
      (rule rules scope_owner | assumption)+)+
qed

lemma run_actions_steps:
  assumes "send_ok H" and "\<forall>k \<in> K. foreign_account H k" and "svm_ok (h_svm H)"
    and "\<forall>a \<in> set as. ID \<notin> drawn_owners a" and "run_actions H as s = Some s'" and "none_owned K s"
  shows "fuzz_steps H (fs_ledger s) (fs_ledger s') \<and> same_setup (fs_fixture s) (fs_fixture s')"
  using assms(4-)
proof (induction as arbitrary: s)
  case Nil
  then show ?case by simp
next
  case (Cons a as)
  then obtain x t where a: "run_action H a s = Some (x, t)" and rest: "run_actions H as t = Some s'"
    by (auto simp: bind_eq_Some_conv)
  have "executes H K (run_action H a)" using executes_action [OF assms(1-3)] Cons.prems(1) by simp
  note t = executesD [OF this a Cons.prems(3)]
  from Cons.IH [OF _ rest t(2)] Cons.prems(1) show ?case
    using rtranclp_trans [OF t(1)] same_setup_trans [OF t(3)] by auto
qed

section \<open>The invariant after any run\<close>


text \<open>A simulator that runs the program itself, with a ledger of one queued ticket and an operator who is not the admin.\<close>

definition example_send :: "payload_codec \<Rightarrow> instruction \<Rightarrow> key list \<Rightarrow> clock \<Rightarrow> ledger \<Rightarrow> bool option \<times> ledger" where
  "example_send W ix signers clk L =
     (case try_process_instruction spread_env W (ix_program_id ix) (map as_handle (ix_accounts ix)) (ix_data ix) L of
        Inl _ \<Rightarrow> (Some False, L)
      | Inr L' \<Rightarrow> if \<exists>k \<in> harness_accounts example_fixture. c_owner (L' k) = ID then (Some False, L) else (Some True, L'))"

definition example_harness :: "payload_codec \<Rightarrow> harness_env" where
  "example_harness W = \<lparr>h_svm = stocked_svm, h_send = example_send W, h_codec = W, h_env = spread_env,
     h_vault = map_option fst \<circ> get_vault\<rparr>"

abbreviation example_actions :: "fuzz_action list" where
  "example_actions \<equiv> [Controls (Act_AdvanceSlots 3), Controls (Act_SetPauseFlags True False False)]"

definition example_state :: fuzz_state where
  "example_state = \<lparr>fs_fixture = example_fixture, fs_ledger = queued_ledger,
     fs_clock = \<lparr>clock_slot = 50, unix_timestamp = 2000\<rparr>\<rparr>"

lemma example_harness_simps [simp]:
  "h_svm (example_harness W) = stocked_svm" "h_send (example_harness W) = example_send W" "h_codec (example_harness W) = W"
  "h_env (example_harness W) = spread_env" "h_vault (example_harness W) = map_option fst \<circ> get_vault"
  by (simp_all add: example_harness_def)

lemma example_send_ok: "send_ok (example_harness W)" "\<forall>k \<in> harness_accounts example_fixture. foreign_account (example_harness W) k" "svm_ok stocked_svm"
proof -
  have sys: "system_ok spread_env" using example_quiet(2) by (simp add: system_ok_def spread_env_def)
  have p: "presents ix (map as_handle (ix_accounts ix))" for ix
    by (simp add: presents_def list.rel_refl covers_def)
  have "\<exists>F accounts L0. agrees spread_env F \<and> sha256 F = sha256 spread_env \<and> quiet_env F \<and> system_ok F \<and>
      presents ix accounts \<and> (\<forall>k. same_cell L L0 k) \<and>
      try_process_instruction F W (ix_program_id ix) accounts (ix_data ix) L0 = Inr L'"
    if "try_process_instruction spread_env W (ix_program_id ix) (map as_handle (ix_accounts ix)) (ix_data ix) L = Inr L'"
    for ix L L'
    using that by (intro exI [of _ spread_env] exI [of _ "map as_handle (ix_accounts ix)"] exI [of _ L])
      (simp add: agrees_def spread_quiet sys p same_cell_def)
  note runs = this
  have "same_cell L L k" for L :: ledger and k by (simp add: same_cell_def)
  then show "send_ok (example_harness W)"
    unfolding send_ok_def by (auto simp: example_send_def split: sum.splits if_splits) (use runs in blast)
  show "\<forall>k \<in> harness_accounts example_fixture. foreign_account (example_harness W) k"
    by (auto simp: foreign_account_def example_send_def split: sum.splits if_splits)
  show "svm_ok stocked_svm" by (simp add: svm_ok_def stocked_svm_def example_svm_def)
qed

lemma example_refused:
  assumes "set_pause_flags example_codec 403 20 True False False = Some ix"
  shows "example_send example_codec ix signers clk queued_ledger = (Some False, queued_ledger)"
proof -
  have ix: "ix_accounts ix = vault_admin_accounts 403 20" "ix_data ix = [14, 1, 0, 0]"
    using assms by (auto simp: set_pause_flags_def new_Some_iff serialize_roshi_def example_codec_def pause_codec_def
        u8_of_bool_def tag_defs)
  have "\<not> signed_by spread_env queued_ledger (map as_handle (vault_admin_accounts 403 20)) ([Admin], 0, 1)"
    using spread_load by (simp add: signed_by_def vault_admin_accounts_def meta_facts queued_vault_def example_vault_def)
  then have "run_instruction spread_env (map as_handle (vault_admin_accounts 403 20)) queued_ledger
      (SetPauseFlags \<lparr>spf_deposits_paused = True, spf_withdrawals_paused = False, spf_manage_paused = False\<rparr>) \<noteq> Inr L'" for L'
    using run_needs_authority by fastforce
  then have "try_process_instruction spread_env example_codec (ix_program_id ix) (map as_handle (ix_accounts ix))
      (ix_data ix) queued_ledger \<noteq> Inr L'" for L'
    by (simp add: try_process_instruction_def ix example_pause_decode del: run_instruction.simps)
  then show ?thesis by (auto simp: example_send_def split: sum.splits)
qed

lemma example_run:
  "\<exists>s'. run_actions (example_harness example_codec) example_actions example_state = Some s' \<and>
     fs_fixture s' = example_fixture \<and> fs_ledger s' = queued_ledger"
proof -
  obtain ix where ix: "set_pause_flags example_codec 403 20 True False False = Some ix"
    by (simp add: set_pause_flags_def new_Some_iff serialize_roshi_def example_codec_def pause_codec_def)
  have "\<exists>t. action_advance_slots 3 example_state = Some (True, example_state\<lparr>fs_clock := t\<rparr>)"
    by (simp add: action_advance_slots_def expect_def example_state_def SECONDS_PER_SLOT_def checked_add_def i64_checked_add_def)
  then show ?thesis
    using example_refused [OF ix]
    by (auto simp: action_set_pause_flags_def with_fixture_def submit_def expect_def example_state_def ix)
qed


end
