(* ===== verification/Fuzz_Probes.thy ===== *)
theory Fuzz_Probes
  imports Fuzz_Campaign
begin

text \<open>
  The probes of the fuzz harness that rotate an authority and then try the old key
  (\<open>fixture/authority_config.rs\<close>): their assertion cannot fail.
\<close>

section \<open>What a successful submission ran\<close>

lemma sent_runs:
  assumes "send_ok H" and "payload_ok (h_codec H)" and "new (h_codec H) metas i = Some ix"
    and "h_send H ix signers clk L = (Some True, L')"
  obtains F accounts L0 where "agrees (h_env H) F" and "quiet_env F" and "list_all2 covers (map as_handle metas) accounts"
    and "\<forall>k. same_cell L L0 k" and "run_instruction F accounts L0 i = Inr L'"
proof -
  from assms(1,4) obtain F accounts L0 where F: "agrees (h_env H) F" "quiet_env F" "presents ix accounts" "\<forall>k. same_cell L L0 k"
    and run: "try_process_instruction F (h_codec H) (ix_program_id ix) accounts (ix_data ix) L0 = Inr L'"
    unfolding send_ok_def by (metis (full_types))
  from assms(3) have ix: "serialize_roshi (h_codec H) i = Some (ix_data ix)" "ix_program_id ix = ID" "ix_accounts ix = metas"
    by (auto simp: new_Some_iff)
  have "run_instruction F accounts L0 i = Inr L'"
    using run decode_serialize_roshi [OF assms(2) ix(1)] ix(2) by (simp add: try_process_instruction_def)
  then show thesis using that F ix(3) by (simp add: presents_def)
qed

lemma agrees_load: "agrees E F \<Longrightarrow> load_checked F L a = load_checked E L a"
  by (simp add: agrees_def load_checked_def load_vault_def account_load_def)

text \<open>An instruction whose signer holds none of the roles it needs is refused.\<close>

lemma refused_without_role:
  assumes "send_ok H" and "payload_ok (h_codec H)" and "new (h_codec H) (meta_readonly k True # meta_new vault False # rest) i = Some ix"
    and "(roles, 0, 1) \<in> set (authorities i)" and "load_checked (h_env H) L (handle vault False False) = Inr w"
    and "k \<notin> authority_for_role w ` set roles"
  shows "h_send H ix signers clk L \<noteq> (Some True, L')"
proof
  assume "h_send H ix signers clk L = (Some True, L')"
  from sent_runs [OF assms(1-3) this] obtain F accounts L0 where F: "agrees (h_env H) F" "\<forall>k. same_cell L L0 k"
    and acc: "list_all2 covers (map as_handle (meta_readonly k True # meta_new vault False # rest)) accounts"
    and run: "run_instruction F accounts L0 i = Inr L'" by metis
  from acc obtain a b hs where a: "accounts = a # b # hs" "ai_key a = k" "ai_key b = vault"
    by (auto simp: list_all2_Cons1 covers_def meta_facts)
  have "signed_by F L0 accounts (roles, 0, 1)" using run_needs_authority [OF run assms(4)] .
  then obtain v where v: "load_checked F L0 b = Inr v" "k \<in> authority_for_role v ` set roles"
    using a by (auto simp: signed_by_def)
  have "load_checked F L0 b = load_checked (h_env H) L (handle vault False False)"
    using agrees_load [OF F(1)] same_cell_load(1) [of L L0 b] F(2) load_checked_key [of b "handle vault False False"] a(3)
    by (metis account_info.select_convs(1))
  with v assms(5,6) show False by simp
qed

text \<open>A rotation that succeeds stores the new key.\<close>

lemma rotation_stores:
  assumes "send_ok H" and "payload_ok (h_codec H)" and "new (h_codec H) (meta_readonly k True # meta_new vault False # rest) i = Some ix"
    and "h_send H ix signers clk L = (Some True, L')"
  shows "i = TransferVaultAuthority new_key \<Longrightarrow> \<exists>w. load_checked (h_env H) L' (handle vault False False) = Inr w \<and> v_admin w = new_key"
    and "i = SetNavAuthority new_key \<Longrightarrow> \<exists>w. load_checked (h_env H) L' (handle vault False False) = Inr w \<and> v_nav_authority w = new_key"
    and "i = SetWithdrawalAuthority new_key \<Longrightarrow>
      \<exists>w. load_checked (h_env H) L' (handle vault False False) = Inr w \<and> v_withdrawal_authority w = new_key"
proof -
  from sent_runs [OF assms] obtain F accounts L0 where F: "agrees (h_env H) F" "quiet_env F"
    and acc: "list_all2 covers (map as_handle (meta_readonly k True # meta_new vault False # rest)) accounts"
    and run: "run_instruction F accounts L0 i = Inr L'" by metis
  have codec: "codec_ok F" using F(2) by (simp add: quiet_env_def)
  have at: "load_checked (h_env H) L' (handle vault False False) = Inr w"
    if "accounts = a # b # hs" and "load_checked F L' b = Inr w" for a b hs w
  proof -
    have "ai_key b = vault" using acc that(1) by (auto simp: covers_def meta_facts)
    then show ?thesis using that(2) agrees_load [OF F(1)] load_checked_key [of b "handle vault False False"] by simp
  qed
  show "\<exists>w. load_checked (h_env H) L' (handle vault False False) = Inr w \<and> v_admin w = new_key" if "i = TransferVaultAuthority new_key"
    by (rule admin.setter_stores [OF codec, of accounts new_key L0 L']) (use run that at in \<open>auto\<close>)
  show "\<exists>w. load_checked (h_env H) L' (handle vault False False) = Inr w \<and> v_nav_authority w = new_key" if "i = SetNavAuthority new_key"
    by (rule reporter.setter_stores [OF codec, of accounts new_key L0 L']) (use run that at in \<open>auto\<close>)
  show "\<exists>w. load_checked (h_env H) L' (handle vault False False) = Inr w \<and> v_withdrawal_authority w = new_key"
    if "i = SetWithdrawalAuthority new_key"
    by (rule settler.setter_stores [OF codec, of accounts new_key L0 L']) (use run that at in \<open>auto\<close>)
qed

section \<open>The probes\<close>

lemma submit_Some:
  "submit H (Some ix) signers s = Some (fst (h_send H ix signers (fs_clock s) (fs_ledger s)) = Some True,
     s\<lparr>fs_ledger := snd (h_send H ix signers (fs_clock s) (fs_ledger s))\<rparr>)"
  by (auto simp: submit_def expect_def split: prod.splits option.splits)

text \<open>A rotation, a try of the old key that has to fail, and the way back.\<close>

lemma rotate_probe_restore:
  assumes "rotation = Some r" and "probe = Some p" and "restore = Some b"
    and "\<And>clk clk' L L' L''. h_send H r sr clk L = (Some True, L') \<Longrightarrow> h_send H p sp clk' L' \<noteq> (Some True, L'')"
  shows "and_then (submit H rotation sr) (\<lambda>ok. if \<not> ok then give False else
      and_then (submit H probe sp) (\<lambda>old_ok. fuzz_assert (\<not> old_ok) (submit H restore sb))) s \<noteq> None"
proof (cases "fst (h_send H r sr (fs_clock s) (fs_ledger s)) = Some True")
  case True
  let ?L = "snd (h_send H r sr (fs_clock s) (fs_ledger s))"
  have "fst (h_send H p sp (fs_clock s) ?L) \<noteq> Some True"
    using assms(4) [of "fs_clock s" "fs_ledger s" ?L "fs_clock s" "snd (h_send H p sp (fs_clock s) ?L)"] True
    by (metis prod.collapse)
  with True show ?thesis by (simp add: and_then_def submit_Some assms(1-3) fuzz_assert_def)
next
  case False
  then show ?thesis by (simp add: and_then_def submit_Some assms(1) give_def)
qed

text \<open>What a probe serializes, and the key it rotates out and in.\<close>

fun probe_instructions :: "roshi_fixture \<Rightarrow> control_action \<Rightarrow> roshi_instruction list" where
  "probe_instructions fx Act_TransferVaultAuthority =
     [TransferVaultAuthority (fx_vault_authority_alt fx), TransferVaultAuthority (fx_operator fx)]"
| "probe_instructions fx Act_SetNavAuthority =
     [SetNavAuthority (fx_nav_authority_alt fx), SetNavAuthority (fx_nav_authority fx),
      ReportNav \<lparr>nr_external_value = 0, nr_report_hash = key_of_bytes (to_le_bytes (fx_report_nonce fx + 1) @ replicate 24 0)\<rparr>]"
| "probe_instructions fx Act_SetWithdrawalAuthority =
     [SetWithdrawalAuthority (fx_withdrawal_authority_alt fx), SetWithdrawalAuthority (fx_withdrawal_authority fx), ProcessWithdrawals]"
| "probe_instructions fx a = []"

fun rotated_keys :: "roshi_fixture \<Rightarrow> control_action \<Rightarrow> key \<times> key" where
  "rotated_keys fx Act_TransferVaultAuthority = (fx_operator fx, fx_vault_authority_alt fx)"
| "rotated_keys fx Act_SetNavAuthority = (fx_nav_authority fx, fx_nav_authority_alt fx)"
| "rotated_keys fx _ = (fx_withdrawal_authority fx, fx_withdrawal_authority_alt fx)"

lemma new_defined: "serialize_roshi W i \<noteq> None \<Longrightarrow> \<exists>ix. new W metas i = Some ix"
  by (auto simp: new_Some_iff)

lemma nav_probe_passes:
  assumes "send_ok H" and "payload_ok (h_codec H)" and "fx_nav_authority (fs_fixture s) \<noteq> fx_nav_authority_alt (fs_fixture s)"
    and "\<forall>i \<in> set (probe_instructions (fs_fixture s) Act_SetNavAuthority). serialize_roshi (h_codec H) i \<noteq> None"
    and "unat (fx_report_nonce (fs_fixture s)) + 1 < 2 ^ 64"
  shows "action_set_nav_authority H s \<noteq> None"
proof -
  let ?fx = "fs_fixture s" and ?W = "h_codec H"
  let ?hash = "key_of_bytes (to_le_bytes (fx_report_nonce ?fx + 1) @ replicate 24 0)"
  obtain r where r: "set_nav_authority ?W (fx_operator ?fx) (fx_vault ?fx) (fx_nav_authority_alt ?fx) = Some r"
    using assms(4) new_defined unfolding set_nav_authority_def by fastforce
  obtain b where b: "set_nav_authority ?W (fx_operator ?fx) (fx_vault ?fx) (fx_nav_authority ?fx) = Some b"
    using assms(4) new_defined unfolding set_nav_authority_def by fastforce
  obtain p where p: "report_nav_ix H ?fx 0 ?hash = Some p"
    using assms(4) new_defined unfolding report_nav_ix_def report_nav_def by fastforce
  have "h_send H p [fx_nav_authority ?fx] clk' L' \<noteq> (Some True, L'')"
    if "h_send H r [fx_operator ?fx] clk L = (Some True, L')" for clk clk' L L' L''
  proof -
    from rotation_stores(2) [OF assms(1,2) r [unfolded set_nav_authority_def vault_admin_accounts_def] that]
    obtain w where w: "load_checked (h_env H) L' (handle (fx_vault ?fx) False False) = Inr w" "v_nav_authority w = fx_nav_authority_alt ?fx"
      by blast
    show ?thesis
      by (rule refused_without_role [OF assms(1,2) p [unfolded report_nav_ix_def report_nav_def] _ w(1)])
        (use w(2) assms(3) in auto)
  qed
  note refused = this
  have nonce: "checked_add (fx_report_nonce ?fx) 1 = Some (fx_report_nonce ?fx + 1)" using assms(5) by (simp add: checked_add_def)
  have "action_set_nav_authority H s =
      and_then (submit H (Some r) [fx_operator ?fx]) (\<lambda>ok. if \<not> ok then give False else
      and_then next_report_hash (\<lambda>hash. and_then (submit H (report_nav_ix H ?fx 0 hash) [fx_nav_authority ?fx]) (\<lambda>old_ok.
      fuzz_assert (\<not> old_ok) (submit H (Some b) [fx_operator ?fx])))) s"
    by (simp add: action_set_nav_authority_def with_fixture_def r b cong: if_cong)
  moreover have "fst (h_send H p [fx_nav_authority ?fx] clk' (snd (h_send H r [fx_operator ?fx] clk L))) \<noteq> Some True"
    if "fst (h_send H r [fx_operator ?fx] clk L) = Some True" for clk clk' L
    using refused [of clk L "snd (h_send H r [fx_operator ?fx] clk L)" clk'] that by (metis prod.collapse)
  ultimately show ?thesis
    by (cases "fst (h_send H r [fx_operator ?fx] (fs_clock s) (fs_ledger s)) = Some True")
      (auto simp: and_then_def submit_Some next_report_hash_def expect_def nonce p fuzz_assert_def give_def)
qed

text \<open>
  C34. Rotation is immediate: the harness replaces the admin, the reporter or the settling authority of
  a vault, tries the old key at once and asserts that it is refused. The assertion cannot fail, whatever the
  state of the ledger, as long as the two keys differ, the instructions serialize and the nonce of reports
  does not overflow.
\<close>
theorem rotation_probes_pass:
  assumes "send_ok H" and "payload_ok (h_codec H)"
    and "a \<in> {Act_TransferVaultAuthority, Act_SetNavAuthority, Act_SetWithdrawalAuthority}"
    and "\<forall>i \<in> set (probe_instructions (fs_fixture s) a). serialize_roshi (h_codec H) i \<noteq> None"
    and "fst (rotated_keys (fs_fixture s) a) \<noteq> snd (rotated_keys (fs_fixture s) a)"
    and "unat (fx_report_nonce (fs_fixture s)) + 1 < 2 ^ 64"
  shows "run_action H (Controls a) s \<noteq> None"
proof -
  let ?fx = "fs_fixture s" and ?W = "h_codec H"
  from assms(3) consider "a = Act_TransferVaultAuthority" | "a = Act_SetNavAuthority" | "a = Act_SetWithdrawalAuthority" by blast
  then show ?thesis
  proof cases
    case 1
    let ?transfer = "transfer_vault_authority ?W"
    obtain r p b where r: "?transfer (fx_operator ?fx) (fx_vault ?fx) (fx_vault_authority_alt ?fx) = Some r"
      and p: "?transfer (fx_operator ?fx) (fx_vault ?fx) (fx_operator ?fx) = Some p"
      and b: "?transfer (fx_vault_authority_alt ?fx) (fx_vault ?fx) (fx_operator ?fx) = Some b"
      using assms(4) 1 new_defined unfolding transfer_vault_authority_def by fastforce
    have "h_send H p [fx_operator ?fx] clk' L' \<noteq> (Some True, L'')"
      if "h_send H r [fx_operator ?fx] clk L = (Some True, L')" for clk clk' L L' L''
      using rotation_stores(1) [OF assms(1,2) r [unfolded transfer_vault_authority_def] that]
        refused_without_role [OF assms(1,2) p [unfolded transfer_vault_authority_def]] assms(5) 1 by fastforce
    from rotate_probe_restore [OF r p b this, where sb = "[fx_vault_authority_alt ?fx]" and s = s] 1 show ?thesis
      by (simp add: action_transfer_vault_authority_def with_fixture_def Let_def)
  next
    case 2
    then show ?thesis using nav_probe_passes [OF assms(1,2) _ _ assms(6)] assms(4,5) by simp
  next
    case 3
    let ?assign = "set_withdrawal_authority ?W (fx_operator ?fx) (fx_vault ?fx)"
    obtain r p b where r: "?assign (fx_withdrawal_authority_alt ?fx) = Some r" and b: "?assign (fx_withdrawal_authority ?fx) = Some b"
      and p: "process_withdrawals ?W (fx_withdrawal_authority ?fx) (fx_vault ?fx) (fx_withdraw_sub_account ?fx)
         (fx_withdraw_custody ?fx) (fx_share_mint ?fx) [] = Some p"
      using assms(4) 3 new_defined unfolding set_withdrawal_authority_def process_withdrawals_def by fastforce
    have "h_send H p [fx_withdrawal_authority ?fx] clk' L' \<noteq> (Some True, L'')"
      if "h_send H r [fx_operator ?fx] clk L = (Some True, L')" for clk clk' L L' L''
      using rotation_stores(3) [OF assms(1,2) r [unfolded set_withdrawal_authority_def vault_admin_accounts_def] that]
        refused_without_role [OF assms(1,2) p [unfolded process_withdrawals_def append.simps]] assms(5) 3 by fastforce
    from rotate_probe_restore [OF r p b this, where sb = "[fx_operator ?fx]" and s = s] 3 show ?thesis
      by (simp add: action_set_withdrawal_authority_def with_fixture_def Let_def)
  qed
qed

text \<open>The admin rotates itself out and is refused.\<close>

definition key_codec :: "key wincode" where
  "key_codec = (\<lambda>k. Some (key_bytes k), \<lambda>bs. if length bs = 32 then Some (key_of_bytes bs) else None)"

definition rotation_codec :: payload_codec where
  "rotation_codec = example_codec\<lparr>pc_transfer_vault_authority := key_codec\<rparr>"

theorem rotation_probes_pass_witness:
  "run_action (example_harness rotation_codec) (Controls Act_TransferVaultAuthority)
     (example_state\<lparr>fs_fixture := example_fixture\<lparr>fx_operator := 1\<rparr>\<rparr>) \<noteq> None"
proof (rule rotation_probes_pass)
  show "send_ok (example_harness rotation_codec)" by (rule example_send_ok)
  show "payload_ok (h_codec (example_harness rotation_codec))"
    using example_payload_ok by (simp add: payload_ok_def rotation_codec_def wincode_ok_def key_codec_def)
qed (simp_all add: rotation_codec_def serialize_roshi_def key_codec_def example_state_def example_fixture_def)

end
