(* ===== verification/Fuzz_Setup.thy ===== *)
theory Fuzz_Setup
  imports Fuzz_Scope_Actions
begin

text \<open>
  \<open>fuzz/src/fixture/setup.rs\<close>: how the fuzz harness sets up its vault, its assets, its users and the
  actions it authorizes. The setup starts in a simulator that has loaded the program. Its random keys
  are an argument, as is the airdrop of the simulator. The fixture is filled in stage by stage.
\<close>

section \<open>Keys and installation\<close>

definition NUM_USERS :: nat where "NUM_USERS = 3"
definition INITIAL_USER_BASE :: u64 where "INITIAL_USER_BASE = 1000000000"
definition VENUE_BASE :: u64 where "VENUE_BASE = 3000000000"
definition PERF_FEE_BPS :: u16 where "PERF_FEE_BPS = 100"
definition WITHDRAWAL_BUFFER_BPS :: u16 where "WITHDRAWAL_BUFFER_BPS = 250"
definition FUND_LAMPORTS :: u64 where "FUND_LAMPORTS = 100000000000"
definition INITIAL_USER_ASSET :: u64 where "INITIAL_USER_ASSET = 1000000000"

text \<open>What \<open>Keypair::new\<close> and \<open>Pubkey::new_unique\<close> draw.\<close>

record setup_keys =
  dk_operator :: key
  dk_program_authority_alt :: key
  dk_vault_authority_alt :: key
  dk_strategist :: key
  dk_strategist_alt :: key
  dk_swap_authority :: key
  dk_swap_authority_alt :: key
  dk_nav_authority :: key
  dk_nav_authority_alt :: key
  dk_withdrawal_authority :: key
  dk_withdrawal_authority_alt :: key
  dk_external_authority :: key
  dk_base_mint :: key
  dk_treasury :: key
  dk_treasury_owner :: key
  dk_swap_custody :: key
  dk_atomic_venue :: key
  dk_asset_mint :: key
  dk_asset_swap_custody :: key
  dk_pyth_account :: key
  dk_scope_prices_account :: key
  dk_scope_mappings_account :: key
  dk_token_2022_asset_mint :: key
  dk_token_2022_swap_custody :: key
  dk_transfer_fee_token_2022_mint :: key
  dk_user :: "nat \<Rightarrow> key"
  dk_outsider :: key

type_synonym airdrop = "key \<Rightarrow> u64 \<Rightarrow> ledger \<Rightarrow> ledger option"

definition install :: "(ledger \<Rightarrow> ledger option) \<Rightarrow> unit fuzz" where
  "install f s = map_option (\<lambda>L. ((), s\<lparr>fs_ledger := L\<rparr>)) (f (fs_ledger s))"

definition install_ata :: "(ledger \<Rightarrow> (key \<times> ledger) option) \<Rightarrow> key fuzz" where
  "install_ata f s = map_option (\<lambda>(k, L). (k, s\<lparr>fs_ledger := L\<rparr>)) (f (fs_ledger s))"

primrec airdrop_all :: "airdrop \<Rightarrow> key list \<Rightarrow> unit fuzz" where
  "airdrop_all air [] = give ()"
| "airdrop_all air (k # ks) = and_then (install (air k FUND_LAMPORTS)) (\<lambda>_. airdrop_all air ks)"

definition pad_tag :: "bytes \<Rightarrow> key option" where
  "pad_tag tag_bytes = map_option key_of_bytes (copy_at 0 (length tag_bytes) tag_bytes (replicate 32 0))"

text \<open>The fixture before anything is derived.\<close>

definition fixture_of_keys :: "setup_keys \<Rightarrow> roshi_fixture" where
  "fixture_of_keys d =
     \<lparr>fx_program_id = ID, fx_config_pda = 0, fx_operator = dk_operator d,
      fx_program_authority_alt = dk_program_authority_alt d, fx_vault_authority_alt = dk_vault_authority_alt d,
      fx_strategist = dk_strategist d, fx_strategist_alt = dk_strategist_alt d,
      fx_swap_authority = dk_swap_authority d, fx_swap_authority_alt = dk_swap_authority_alt d,
      fx_nav_authority = dk_nav_authority d, fx_nav_authority_alt = dk_nav_authority_alt d,
      fx_withdrawal_authority = dk_withdrawal_authority d, fx_withdrawal_authority_alt = dk_withdrawal_authority_alt d,
      fx_external_authority = dk_external_authority d, fx_vault = 0, fx_share_mint = 0,
      fx_base_mint = dk_base_mint d, fx_treasury = dk_treasury d, fx_sub_account = 0, fx_custody = 0,
      fx_withdraw_sub_account = 0, fx_withdraw_custody = 0, fx_external_account = 0, fx_external_destination = 0,
      fx_manage_action = 0, fx_rebalance_to_withdraw_action = 0, fx_swap_custody = dk_swap_custody d,
      fx_swap_forward_action = 0, fx_swap_reverse_action = 0, fx_atomic_venue = dk_atomic_venue d,
      fx_atomic_action = 0, fx_deploy_action = 0, fx_revocable_action = 0, fx_revocable_action_hash = 0,
      fx_members_root = 0,
      fx_outsider = \<lparr>fu_key = dk_outsider d, fu_base_ata = 0, fu_share_ata = 0, fu_asset_ata = 0,
        fu_token_2022_asset_ata = 0, fu_access_proof = []\<rparr>,
      fx_users = [], fx_base_accounts = [], fx_initial_base = 0, fx_asset_mint = dk_asset_mint d,
      fx_asset_pda = 0, fx_asset_custody = 0, fx_asset_swap_custody = dk_asset_swap_custody d,
      fx_asset_swap_forward_action = 0, fx_asset_swap_reverse_action = 0, fx_pyth_account = dk_pyth_account d,
      fx_scope_prices_account = dk_scope_prices_account d, fx_scope_mappings_account = dk_scope_mappings_account d,
      fx_asset_accounts = [], fx_initial_asset = 0, fx_token_2022_asset_mint = dk_token_2022_asset_mint d,
      fx_token_2022_asset_pda = 0, fx_token_2022_asset_custody = 0,
      fx_token_2022_swap_custody = dk_token_2022_swap_custody d, fx_token_2022_swap_forward_action = 0,
      fx_token_2022_swap_reverse_action = 0,
      fx_transfer_fee_token_2022_mint = dk_transfer_fee_token_2022_mint d,
      fx_transfer_fee_token_2022_asset_pda = 0, fx_token_2022_asset_accounts = [],
      fx_initial_token_2022_asset = 0, fx_report_nonce = 0, fx_prev_high_watermark = 0\<rparr>"

section \<open>Program and vault\<close>

abbreviation h_pda :: "harness_env \<Rightarrow> pda_function" where
  "h_pda H \<equiv> find_program_address (h_env H)"

definition setup_program :: "harness_env \<Rightarrow> airdrop \<Rightarrow> roshi_fixture \<Rightarrow> roshi_fixture fuzz" where
  "setup_program H air fx =
     and_then (airdrop_all air [fx_operator fx, fx_program_authority_alt fx, fx_vault_authority_alt fx, fx_strategist fx,
         fx_strategist_alt fx, fx_swap_authority fx, fx_swap_authority_alt fx, fx_nav_authority fx, fx_nav_authority_alt fx,
         fx_withdrawal_authority fx, fx_withdrawal_authority_alt fx, fx_external_authority fx]) (\<lambda>_.
     let config_pda = fst (program_config_find_address (h_pda H)) in
     and_then (submit_ok H (initialize_program (h_codec H) (fx_operator fx) config_pda (fx_operator fx)) [fx_operator fx]) (\<lambda>_.
     give (fx\<lparr>fx_config_pda := config_pda\<rparr>)))"

definition setup_vault_args :: "roshi_fixture \<Rightarrow> key \<Rightarrow> initialize_vault_args" where
  "setup_vault_args fx tag_key =
     \<lparr>iva_tag = tag_key, iva_tag_len = 4, iva_admin = fx_operator fx, iva_strategist = fx_strategist fx,
      iva_swap_authority = fx_swap_authority fx, iva_nav_authority = fx_nav_authority fx,
      iva_withdrawal_authority = fx_withdrawal_authority fx, iva_base_mint = fx_base_mint fx,
      iva_base_decimals = BASE_DECIMALS, iva_base_oracle = fuzz_pyth_config, iva_deposit_sub_account = 0,
      iva_withdraw_sub_account = 1, iva_treasury = fx_treasury fx, iva_performance_fee_bps = PERF_FEE_BPS,
      iva_withdrawal_buffer_bps = WITHDRAWAL_BUFFER_BPS, iva_deposit_cap = 0,
      iva_controls = vault_controls_new 0 0 0 0 0 0 0, iva_private = False, iva_access_merkle_root = 0\<rparr>"

definition setup_vault :: "harness_env \<Rightarrow> key \<Rightarrow> roshi_fixture \<Rightarrow> roshi_fixture fuzz" where
  "setup_vault H treasury_owner fx =
     expect (case vault_find_address (h_pda H) (ascii ''main'') (fx_base_mint fx) of Inl _ \<Rightarrow> None | Inr p \<Rightarrow> Some (fst p)) (\<lambda>vault_key.
     let share_mint = fst (find_share_mint_address (h_pda H) vault_key) in
     and_then (install (set_mint (h_svm H) (fx_base_mint fx) vault_key BASE_DECIMALS)) (\<lambda>_.
     and_then (install (set_token_account (h_svm H) (fx_treasury fx) (fx_base_mint fx) treasury_owner 0)) (\<lambda>_.
     expect (pad_tag (ascii ''main'')) (\<lambda>tag_key.
     and_then (submit_ok H (initialize_vault (h_pda H) (h_codec H) (fx_operator fx) (fx_config_pda fx) (fx_operator fx) vault_key
         (setup_vault_args fx tag_key)) [fx_operator fx]) (\<lambda>_.
     and_then (submit_ok H (update_vault_config (h_codec H) (fx_operator fx) vault_key
         \<lparr>uvc_treasury = fx_treasury fx, uvc_deposit_sub_account = 0, uvc_withdraw_sub_account = 1,
          uvc_base_oracle = fuzz_pyth_config, uvc_performance_fee_bps = PERF_FEE_BPS,
          uvc_withdrawal_buffer_bps = WITHDRAWAL_BUFFER_BPS, uvc_deposit_cap = 0,
          uvc_controls = vault_controls_new 0 0 0 0 0 0 0, uvc_external_enabled = True\<rparr>) [fx_operator fx]) (\<lambda>_.
     give (fx\<lparr>fx_vault := vault_key, fx_share_mint := share_mint\<rparr>)))))))"

section \<open>Custody and actions\<close>

definition setup_custody :: "harness_env \<Rightarrow> roshi_fixture \<Rightarrow> roshi_fixture fuzz" where
  "setup_custody H fx =
     (let sub_account = fst (sub_account_find_address (h_pda H) (fx_vault fx) 0);
          withdraw_sub_account = fst (sub_account_find_address (h_pda H) (fx_vault fx) 1)
      in and_then (install_ata (set_ata (h_pda H) (h_svm H) sub_account (fx_base_mint fx) 0)) (\<lambda>custody.
         and_then (install_ata (set_ata (h_pda H) (h_svm H) withdraw_sub_account (fx_base_mint fx) 0)) (\<lambda>withdraw_custody.
         and_then (install_ata (set_ata (h_pda H) (h_svm H) (fx_external_authority fx) (fx_base_mint fx) 0)) (\<lambda>external_account.
         let destination = fst (external_destination_find_address (h_pda H) (fx_vault fx) external_account) in
         and_then (submit_ok H (register_external_destination (h_codec H) (fx_operator fx) (fx_vault fx) external_account
             destination) [fx_operator fx]) (\<lambda>_.
         give (fx\<lparr>fx_sub_account := sub_account, fx_withdraw_sub_account := withdraw_sub_account, fx_custody := custody,
           fx_withdraw_custody := withdraw_custody, fx_external_account := external_account,
           fx_external_destination := destination\<rparr>))))))"

definition setup_authorize :: "harness_env \<Rightarrow> roshi_fixture \<Rightarrow> key \<Rightarrow> key \<Rightarrow> action_scope \<Rightarrow> (key \<times> key) fuzz" where
  "setup_authorize H fx input output scope =
     authorize_transfer_action H (fx_operator fx) (fx_vault fx) (fx_sub_account fx) input output scope"

definition authorize_unwind :: "harness_env \<Rightarrow> roshi_fixture \<Rightarrow> key fuzz" where
  "authorize_unwind H fx =
     expect (case ops_new [IngestAccount 0, IngestAccount 1, IngestAccount 2, IngestInstruction 0 1] of
         Inl _ \<Rightarrow> None | Inr os \<Rightarrow> Some os) (\<lambda>os.
     let metas = [meta_new (fx_atomic_venue fx) False, meta_new (fx_custody fx) False, meta_readonly (fx_sub_account fx) True] in
     expect (case compute_action_hash_from_metas (sha256 (h_env H)) TOKEN_PROGRAM_ID os metas [SPL_TRANSFER_TAG] [] of
         Inl _ \<Rightarrow> None | Inr h \<Rightarrow> Some h) (\<lambda>action_hash.
     let act = fst (action_find_address (h_pda H) (fx_vault fx) action_hash) in
     and_then (submit_ok H (authorize_action (h_codec H) (fx_operator fx) (fx_vault fx) act action_hash AtomicRedeem os 1 0 0)
         [fx_operator fx]) (\<lambda>_. give act)))"

definition setup_actions :: "harness_env \<Rightarrow> roshi_fixture \<Rightarrow> roshi_fixture fuzz" where
  "setup_actions H fx =
     and_then (setup_authorize H fx (fx_custody fx) (fx_external_account fx) Manager) (\<lambda>(manage, _).
     and_then (setup_authorize H fx (fx_custody fx) (fx_withdraw_custody fx) Manager) (\<lambda>(rebalance, _).
     and_then (install (set_token_account (h_svm H) (fx_swap_custody fx) (fx_base_mint fx) (fx_sub_account fx) 0)) (\<lambda>_.
     and_then (setup_authorize H fx (fx_custody fx) (fx_swap_custody fx) SwapScope) (\<lambda>(forward, _).
     and_then (setup_authorize H fx (fx_swap_custody fx) (fx_custody fx) SwapScope) (\<lambda>(backward, _).
     and_then (install (set_token_account (h_svm H) (fx_atomic_venue fx) (fx_base_mint fx) (fx_sub_account fx) VENUE_BASE)) (\<lambda>_.
     and_then (authorize_unwind H fx) (\<lambda>unwind.
     and_then (setup_authorize H fx (fx_custody fx) (fx_atomic_venue fx) Deploy) (\<lambda>(deploy, _).
     and_then (setup_authorize H fx (fx_custody fx) (fx_treasury fx) Manager) (\<lambda>(revocable, revocable_hash).
     give (fx\<lparr>fx_manage_action := manage, fx_rebalance_to_withdraw_action := rebalance, fx_swap_forward_action := forward,
       fx_swap_reverse_action := backward, fx_atomic_action := unwind, fx_deploy_action := deploy,
       fx_revocable_action := revocable, fx_revocable_action_hash := revocable_hash\<rparr>))))))))))"

section \<open>Assets\<close>

definition setup_asset_args :: "key \<Rightarrow> oracle_config \<Rightarrow> initialize_asset_args" where
  "setup_asset_args mint oracle = \<lparr>iaa_asset_mint = mint, iaa_oracle = oracle, iaa_asset_decimals = ASSET_DECIMALS,
     iaa_enabled = True, iaa_routed = False, iaa_deposit_cap_atoms = - 1\<rparr>"

definition setup_asset :: "harness_env \<Rightarrow> roshi_fixture \<Rightarrow> roshi_fixture fuzz" where
  "setup_asset H fx =
     and_then (install (set_mint (h_svm H) (fx_asset_mint fx) (fx_operator fx) ASSET_DECIMALS)) (\<lambda>_.
     and_then (install_ata (set_ata (h_pda H) (h_svm H) (fx_sub_account fx) (fx_asset_mint fx) 0)) (\<lambda>custody.
     and_then (install (set_token_account (h_svm H) (fx_asset_swap_custody fx) (fx_asset_mint fx) (fx_sub_account fx) 0)) (\<lambda>_.
     and_then (setup_authorize H fx custody (fx_asset_swap_custody fx) SwapScope) (\<lambda>(forward, _).
     and_then (setup_authorize H fx (fx_asset_swap_custody fx) custody SwapScope) (\<lambda>(backward, _).
     and_then (install (\<lambda>L. Some (set_pyth_price (h_svm H) (fx_pyth_account fx) PYTH_FEED_ID PYTH_BASE_PRICE 0 PYTH_EXPONENT 0 L))) (\<lambda>_.
     and_then (install (set_scope_oracle (h_svm H) (fx_scope_prices_account fx) (fx_scope_mappings_account fx) SCOPE_PRICE_INDEX
         SCOPE_MAPPING 200000000000000000 17 0)) (\<lambda>_.
     let asset_pda = fst (asset_find_address (h_pda H) (fx_vault fx) (fx_asset_mint fx)) in
     and_then (submit_ok H (initialize_asset (h_codec H) (fx_operator fx) (fx_vault fx) (fx_asset_mint fx) asset_pda
         (setup_asset_args (fx_asset_mint fx) (fuzz_scope_config fx SCOPE_PRICE_INDEX))) [fx_operator fx]) (\<lambda>_.
     and_then (submit_ok H (update_asset (h_codec H) (fx_operator fx) (fx_vault fx) asset_pda
         \<lparr>uaa_oracle = fuzz_pyth_config, uaa_enabled = True, uaa_routed = False, uaa_deposit_cap_atoms = - 1\<rparr>)
         [fx_operator fx]) (\<lambda>_.
     give (fx\<lparr>fx_asset_custody := custody, fx_asset_swap_forward_action := forward, fx_asset_swap_reverse_action := backward,
       fx_asset_pda := asset_pda\<rparr>))))))))))"

definition setup_token_2022 :: "harness_env \<Rightarrow> roshi_fixture \<Rightarrow> roshi_fixture fuzz" where
  "setup_token_2022 H fx =
     (let authorize = (\<lambda>input output. authorize_transfer_action_with_program H (fx_operator fx) (fx_vault fx) (fx_sub_account fx)
            input output SwapScope TOKEN_2022_PROGRAM_ID);
          mint = fx_token_2022_asset_mint fx
      in and_then (install (set_token_2022_mint (h_svm H) mint (fx_operator fx) ASSET_DECIMALS)) (\<lambda>_.
         and_then (install_ata (set_ata_with_program (h_pda H) (h_svm H) (fx_sub_account fx) mint 0 TOKEN_2022_PROGRAM_ID)) (\<lambda>custody.
         and_then (install (set_token_account_with_program (h_svm H) (fx_token_2022_swap_custody fx) mint (fx_sub_account fx) 0
             TOKEN_2022_PROGRAM_ID)) (\<lambda>_.
         and_then (authorize custody (fx_token_2022_swap_custody fx)) (\<lambda>(forward, _).
         and_then (authorize (fx_token_2022_swap_custody fx) custody) (\<lambda>(backward, _).
         let asset_pda = fst (asset_find_address (h_pda H) (fx_vault fx) mint) in
         and_then (submit_ok H (initialize_asset (h_codec H) (fx_operator fx) (fx_vault fx) mint asset_pda
             (setup_asset_args mint fuzz_pyth_config)) [fx_operator fx]) (\<lambda>_.
         and_then (install (set_transfer_fee_token_2022_mint (h_svm H) (fx_transfer_fee_token_2022_mint fx) (fx_operator fx)
             ASSET_DECIMALS)) (\<lambda>_.
         give (fx\<lparr>fx_token_2022_asset_custody := custody, fx_token_2022_swap_forward_action := forward,
           fx_token_2022_swap_reverse_action := backward, fx_token_2022_asset_pda := asset_pda,
           fx_transfer_fee_token_2022_asset_pda :=
             fst (asset_find_address (h_pda H) (fx_vault fx) (fx_transfer_fee_token_2022_mint fx))\<rparr>)))))))))"

section \<open>Users\<close>

definition setup_user :: "harness_env \<Rightarrow> airdrop \<Rightarrow> roshi_fixture \<Rightarrow> u64 \<Rightarrow> key \<Rightarrow> fuzz_user fuzz" where
  "setup_user H air fx asset_amount k =
     and_then (install (air k FUND_LAMPORTS)) (\<lambda>_.
     and_then (install_ata (set_ata (h_pda H) (h_svm H) k (fx_base_mint fx) INITIAL_USER_BASE)) (\<lambda>base_ata.
     and_then (install_ata (set_ata (h_pda H) (h_svm H) k (fx_share_mint fx) 0)) (\<lambda>share_ata.
     and_then (install_ata (set_ata (h_pda H) (h_svm H) k (fx_asset_mint fx) asset_amount)) (\<lambda>asset_ata.
     and_then (install_ata (set_ata_with_program (h_pda H) (h_svm H) k (fx_token_2022_asset_mint fx) asset_amount
         TOKEN_2022_PROGRAM_ID)) (\<lambda>token_2022_ata.
     give \<lparr>fu_key = k, fu_base_ata = base_ata, fu_share_ata = share_ata, fu_asset_ata = asset_ata,
       fu_token_2022_asset_ata = token_2022_ata, fu_access_proof = []\<rparr>)))))"

definition track_user :: "fuzz_user \<Rightarrow> roshi_fixture \<Rightarrow> roshi_fixture" where
  "track_user u fx = fx\<lparr>fx_base_accounts := fx_base_accounts fx @ [fu_base_ata u],
     fx_asset_accounts := fx_asset_accounts fx @ [fu_asset_ata u],
     fx_token_2022_asset_accounts := fx_token_2022_asset_accounts fx @ [fu_token_2022_asset_ata u]\<rparr>"

primrec setup_users :: "harness_env \<Rightarrow> airdrop \<Rightarrow> key list \<Rightarrow> roshi_fixture \<Rightarrow> roshi_fixture fuzz" where
  "setup_users H air [] fx = give fx"
| "setup_users H air (k # ks) fx =
     and_then (setup_user H air fx INITIAL_USER_ASSET k) (\<lambda>u.
     setup_users H air ks ((track_user u fx)\<lparr>fx_users := fx_users fx @ [u]\<rparr>))"

definition whitelist :: "(bytes \<Rightarrow> key) \<Rightarrow> fuzz_user list \<Rightarrow> (key \<times> fuzz_user list) option" where
  "whitelist sha users =
     Option.bind (build_access_tree sha (map (\<lambda>u. access_merkle_leaf sha (fu_key u)) users)) (\<lambda>(root, proofs).
     if list_all (\<lambda>(u, proof). verify_access_merkle_proof sha (fu_key u) root proof) (zip users proofs)
     then Some (root, map (\<lambda>(u, proof). u\<lparr>fu_access_proof := proof\<rparr>) (zip users proofs) @ drop (length proofs) users)
     else None)"

definition setup_access :: "harness_env \<Rightarrow> airdrop \<Rightarrow> key \<Rightarrow> roshi_fixture \<Rightarrow> roshi_fixture fuzz" where
  "setup_access H air outsider_key fx =
     expect (whitelist (sha256 (h_env H)) (fx_users fx)) (\<lambda>(root, users).
     and_then (setup_user H air fx 0 outsider_key) (\<lambda>outsider.
     expect (get_nth users 0) (\<lambda>first.
     and_then (submit_ok H (set_vault_access (h_codec H) (fx_operator fx) (fx_vault fx) True root) [fx_operator fx]) (\<lambda>_.
     give ((track_user outsider fx)\<lparr>fx_members_root := root, fx_users := users,
       fx_outsider := outsider\<lparr>fu_access_proof := fu_access_proof first\<rparr>\<rparr>)))))"

definition fuzz_setup :: "harness_env \<Rightarrow> airdrop \<Rightarrow> setup_keys \<Rightarrow> roshi_fixture fuzz" where
  "fuzz_setup H air d =
     and_then (setup_program H air (fixture_of_keys d)) (\<lambda>fx.
     and_then (setup_vault H (dk_treasury_owner d) fx) (\<lambda>fx.
     and_then (setup_custody H fx) (\<lambda>fx.
     and_then (setup_actions H fx) (\<lambda>fx.
     and_then (setup_asset H fx) (\<lambda>fx.
     and_then (setup_token_2022 H fx) (\<lambda>fx.
     and_then (setup_users H air (map (dk_user d) [0..<NUM_USERS]) (fx\<lparr>
         fx_base_accounts := [fx_custody fx, fx_withdraw_custody fx, fx_swap_custody fx, fx_atomic_venue fx,
           fx_external_account fx, fx_treasury fx],
         fx_asset_accounts := [fx_asset_custody fx, fx_asset_swap_custody fx],
         fx_token_2022_asset_accounts := [fx_token_2022_asset_custody fx, fx_token_2022_swap_custody fx]\<rparr>)) (\<lambda>fx.
     and_then (setup_access H air (dk_outsider d) fx) (\<lambda>fx.
     give (fx\<lparr>fx_initial_base := (of_nat NUM_USERS + 1) * ucast INITIAL_USER_BASE + ucast VENUE_BASE,
       fx_initial_asset := of_nat NUM_USERS * ucast INITIAL_USER_ASSET,
       fx_initial_token_2022_asset := of_nat NUM_USERS * ucast INITIAL_USER_ASSET\<rparr>)))))))))"

section \<open>What the setup guarantees\<close>



text \<open>
  The first instruction of the setup asks for the signature of the program's own key, and the setup signs with the
  operator's: it can only get past it in a simulator that does not check signatures.
\<close>

definition checks_signatures :: "harness_env \<Rightarrow> bool" where
  "checks_signatures H \<longleftrightarrow> (\<forall>ix signers clk L L'. h_send H ix signers clk L = (Some True, L') \<longrightarrow>
     list_all (\<lambda>m. am_is_signer m \<longrightarrow> am_pubkey m \<in> set signers) (ix_accounts ix))"

theorem setup_needs_program_key:
  assumes "checks_signatures H" and "dk_operator d \<noteq> ID"
  shows "fuzz_setup H air d s = None"
proof -
  have "h_send H ix [dk_operator d] clk L \<noteq> (Some True, L')"
    if "initialize_program (h_codec H) (dk_operator d) config (dk_operator d) = Some ix" for config ix clk L L'
    using that assms unfolding checks_signatures_def initialize_program_def
    by (force simp: new_Some_iff meta_new_def meta_readonly_def)
  then have "submit_ok H (initialize_program (h_codec H) (dk_operator d) config (dk_operator d)) [dk_operator d] t = None" for config t
    by (auto simp: submit_ok_def expect_def split: option.splits prod.splits bool.splits)
  then have "setup_program H air (fixture_of_keys d) s = None"
    by (auto simp: setup_program_def and_then_def fixture_of_keys_def Let_def split: option.splits)
  then show ?thesis by (simp add: fuzz_setup_def and_then_def)
qed

end
