(* ===== verification/Spec2Isabelle.thy ===== *)
theory Spec2Isabelle
  imports Fuzz_Probes Fuzz_Setup
begin

text \<open>
  \<^bold>\<open>A verification of the Roshi vault program.\<close>

  Roshi is a Solana program that pools deposits into vaults. Depositors buy shares of a vault at the
  price of its effective assets; a strategist puts the assets to work by relaying calls to other
  programs that an admin has authorized; a reporter states the net asset value; holders redeem shares
  through a queue of tickets, or at once against an authorized unwinding. The program is the three
  crates \<open>interface\<close> (data, arithmetic, instruction formats), \<open>roshi\<close> (the handlers) and
  \<open>client\<close> (access lists and instruction builders).

  \<^bold>\<open>Layout.\<close> Sources are below \<open>crates/\<close>; every theory opens with the files it translates.

  \<^item> \<open>Roshi_Prelude\<close>: result combinators (\<open>attempt\<close> is the question mark operator), checked and
    saturating operations on machine words, little-endian bytes, the collections \<open>result_facts\<close> and
    \<open>word_facts\<close> that carry the case analyses.
  \<^item> \<open>Errors\<close>, \<open>Math\<close>, \<open>Oracle_Config\<close>, \<open>Access\<close>, \<open>Vault\<close>: \<open>interface/src\<close> with \<open>error.rs\<close>,
    \<open>math.rs\<close>, \<open>oracle.rs\<close> and \<open>oracle/configs.rs\<close>, \<open>access.rs\<close> (with \<open>client/src/access.rs\<close>) and
    \<open>state/vault.rs\<close>. A vault is a record with the fields of the struct, at their widths.
  \<^item> \<open>Action\<close>, \<open>Account_Flags\<close>: \<open>action.rs\<close> (the operations an action hash covers) and
    \<open>instructions/account_flags.rs\<close> (packed privileges).
  \<^item> \<open>Runtime\<close>: the ledger (a cell of owner, lamports, data and executable flag for every key), account
    handles, the environment \<open>env\<close> and \<open>roshi/src/state\<close>. \<open>env\<close> holds what is not in the repository: address
    derivation, hashing, the byte codec of accounts, the clock, rent, sysvars, the quote
    verifier, and \<open>invoke_signed\<close>, the effect of a call into another program on the ledger.
  \<^item> \<open>Shared_Accounts\<close>, \<open>Token\<close>, \<open>Oracle_Readers\<close>: \<open>instructions/accounts\<close> (shared, vault,
    oracle price), \<open>instructions/token.rs\<close>, \<open>oracle/{pyth,switchboard,scope}.rs\<close>.
  \<^item> \<open>User_Instructions\<close>, \<open>Withdrawals\<close>, \<open>Nav_And_Fees\<close>, \<open>Administration\<close>: the handlers of
    \<open>instructions/user\<close> and \<open>instructions/admin\<close> with their account contexts.
  \<^item> \<open>Execution\<close>, \<open>Routes\<close>: \<open>instructions/execution\<close>: the relayed call, manage, batches, flash
    approvals, deposit and deploy; atomic redemption and swap.
  \<^item> \<open>Processor\<close>: \<open>instructions/mod.rs\<close> of the interface and \<open>processor.rs\<close>: thirty-six
    instructions, tags, wire form, dispatch.
  \<^item> \<open>Client_Instructions\<close>: \<open>client/src/instruction\<close>, one builder for each instruction.
  \<^item> \<open>Offchain_Readers\<close>: the readers of vaults and assets in \<open>interface/src/state\<close> that clients use.
  \<^item> \<open>Fuzz_Support\<close>, \<open>Fuzz_Harness\<close>, \<open>Fuzz_Predictions\<close>: \<open>fuzz/src\<close> with \<open>support.rs\<close>, \<open>main.rs\<close> and
    \<open>fixture\<close>: what the fuzz harness computes by itself, over a simulator that is the record \<open>svm\<close>.
  \<^item> \<open>Fuzz_Actions\<close>, \<open>Fuzz_Admin_Actions\<close>, \<open>Fuzz_Scope_Actions\<close>: \<open>fuzz/src/fixture\<close>: the actions the harness draws from, as
    programs over fixture, ledger and clock that submit what the client builds and assert the outcome.
    \<open>Fuzz_Setup\<close>: \<open>setup.rs\<close>, the accounts, actions and users it starts from.

  A handler is a function from environment, account handles, arguments and ledger to an error or the
  ledger it leaves; a failed instruction leaves the ledger alone, as the runtime rolls it back.
  Accounts are read from and written to the ledger where the source does, so that aliasing of handles
  is the aliasing of keys. Every recursion is structural or has a termination proof; no fuel is used.

  \<^bold>\<open>What is shown.\<close>

  \<^item> \<open>Pricing\<close> states the contract of share pricing as the locale \<open>share_pricing\<close>, shows that no sequence of
    mints and payouts lowers the virtual share price, and interprets it on \<open>math.rs\<close>. \<open>Vault\<close>
    holds profit unlocking, debits and the recognition of reports; \<open>Withdrawals\<close> refines a batch of
    tickets to pool payouts; \<open>Nav_And_Fees\<close> conserves a report.
  \<^item> \<open>Codec\<close> gives a byte layout of the accounts that meets the law asked of the serializer;
    \<open>Ledger_Facts\<close> states the laws asked of runtime and token program (\<open>runtime_ok\<close>, \<open>token_ok\<close>); \<open>Instruction_Refinement\<close>
    refines deposit, request, cancellation and settlement on a ledger to the pricing layer.
  \<^item> \<open>Handler_Invariants\<close>: three interfaces over all thirty-six handlers. \<open>call_invariant\<close> asks that a
    property survives calls out of the program; \<open>ledger_invariant\<close> extends it by the accounts that
    are held and the kinds that are watched, and gives that every instruction whose table \<open>writes\<close>
    avoids the watched kinds keeps the property; \<open>vault_invariant\<close> is the case of one vault and gives
    a \<open>ledger_invariant\<close> by a sublocale.
  \<^item> \<open>Vault_Lifecycle\<close> interprets \<open>vault_invariant\<close>: a vault, once initialized, is never lost,
    corrupted or given another identity, and its watermark and report epoch never fall, across nested
    calls and whole histories of the ledger.
  \<^item> \<open>Queue_Accounting\<close> interprets \<open>ledger_invariant\<close> on tickets and counters: the shares requested and
    the assets pending are the sums over the live tickets. \<open>Account_Effects\<close> interprets it on any set of
    kinds: what each instruction may write, how actions come, change and go, and that a revoked action
    is dead. \<open>Account_Addresses\<close>: every record lies at the address derived from its contents.
    \<open>Queue_Liveness\<close>: eligible batches can be priced, and owners can leave the queue.
  \<^item> \<open>Access_Control\<close>: the authority table and the pause table, over all instructions.
  \<^item> \<open>Relay_Safety\<close>: a relayed call is the authorized one; public routes leave no choice of
    accounts up to hash collisions; custody stays under control; flash allowances are exact.
  \<^item> \<open>Settlement_Safety\<close>: the bounds of swaps and atomic redemptions.
  \<^item> \<open>Holder_Safety\<close>: a deposit in full, and that holders are never diluted along any history
    between two reports.
  \<^item> \<open>Settings_Safety\<close>: the locale \<open>vault_setter\<close>, interpreted on all eight setters.
  \<^item> \<open>Wire_Format\<close>: round trip and refusal of malformed instructions. \<open>Client_Safety\<close>: the privilege
    table the handlers check, and that every instruction the client builds decodes to what was
    meant and asks for these privileges; four builders serve vaults over classic base mints only.
  \<^item> \<open>Offchain_Readers\<close>: the off-chain readers return what the program loads. \<open>Fuzz_Support\<close>: the
    program reads back the prices, mints and token accounts the harness installs. \<open>Fuzz_Harness\<close>: its access
    tree has valid proofs, it settles what can be settled, and its invariant cannot fail.
    \<open>Fuzz_Predictions\<close>: its predictions of reports and deposits are exact. \<open>Fuzz_Campaign\<close>: every action
    is an execution of the program, so that the invariant passes after any sequence of actions.
    \<open>Fuzz_Probes\<close>: its tries of a rotated authority are always refused. \<open>Fuzz_Setup\<close>: its users are on the list
    it stores, and it needs a simulator that does not check signatures.
  \<^item> \<open>Example_Env\<close>: a concrete environment and ledger on which all assumptions hold, for witnesses.

  \<^bold>\<open>Assumptions.\<close> Theorems about stored accounts assume \<open>codec_ok\<close> (what is serialized
  deserializes to itself, whatever follows it); those across calls assume \<open>runtime_ok\<close> (only the owner
  writes an account, builders address their program) and, for supplies, \<open>token_ok\<close> (effect of mint,
  burn and transfer on a supply). An atomic redemption further assumes that the authorized route is
  another program that does not mint shares (\<open>outside_route\<close>). The theorems on tickets, actions and
  addresses assume \<open>quiet_env\<close>: besides the above, zeroed bytes are no record, accounts are handed to the
  program zeroed, and no call leads back into the program; \<open>system_ok\<close> is that the system program
  assigns the owner it was told. The off-chain readers assume that a stored account is its tag and the bare value
  (\<open>tagged_ok\<close>), the harness that the simulator stores what it is given (\<open>svm_ok\<close>), runs the program where it reports
  success and keeps data and owners where not (\<open>send_ok\<close>), and that the accounts of price feeds are not handed
  to the program (\<open>foreign_account\<close>). The liveness theorems name the calls that have to succeed. Hash functions are arbitrary: where
  binding matters, the conclusion offers a collision.

  \<^bold>\<open>Not modelled.\<close> The byte format of the third-party serializer, Solana's runtime, the token,
  metadata and oracle programs are parameters. The integration tests drive the program in a
  simulator; the tests inside the sources are left out with them. Compute budgets and log messages are left out.
\<close>

end
